(* ===== verification/Prelude.thy ===== *)
theory Prelude
  imports Main "HOL-Library.Word"
begin

text \<open>
  Shared vocabulary of the development: the machine types of the C++ sources, the
  result type of the fallible operations, and the generic lemmas on lists, words and
  association lists that the component theories use.

  \<^item> \<open>uint8_t\<close>, \<open>uint16_t\<close>, \<open>uint32_t\<close>, \<open>uint64_t\<close> are words of that width; \<open>+\<close>, \<open>*\<close>
    wrap around as they do in C++.
  \<^item> \<open>size_t\<close> values that count bytes or elements held in memory are \<open>nat\<close>.
  \<^item> \<open>std::string\<close> is \<open>string\<close>, a list of 8-bit characters.
  \<^item> \<open>std::array<uint8_t, 32>\<close> is a byte list; \<open>is_h256\<close> is its length.
  \<^item> A function that returns \<open>false\<close> and sets \<open>reason\<close> is a value of \<open>reason + 'a\<close>
    (theory Reason): \<open>Inl reason\<close> on the failing path, \<open>Inr\<close> of the outputs otherwise.
\<close>

unbundle bit_operations_syntax

type_synonym u8 = "8 word"
type_synonym u16 = "16 word"
type_synonym u32 = "32 word"
type_synonym u64 = "64 word"
type_synonym bytes = "8 word list"
type_synonym h256 = "8 word list"

abbreviation U64_MAX :: u64 where
  "U64_MAX \<equiv> - 1"

definition is_h256 :: "h256 \<Rightarrow> bool" where
  "is_h256 h \<longleftrightarrow> length h = 32"

definition zero256 :: h256 where
  "zero256 = replicate 32 0"

lemma is_h256_zero [simp]: "is_h256 zero256"
  by (simp add: is_h256_def zero256_def)

lemma is_h256_length [dest]: "is_h256 h \<Longrightarrow> length h = 32"
  by (simp add: is_h256_def)

named_theorems layout "byte layouts of the encoders"
named_theorems ok_simps "unfolding of the success conditions of validators"

subsection \<open>Bytes of a string\<close>

definition bytes_of :: "string \<Rightarrow> bytes" where
  "bytes_of s = map of_char s"

definition string_of :: "bytes \<Rightarrow> string" where
  "string_of bs = map (\<lambda>b. char_of (unat b)) bs"

lemma length_bytes_of [simp]: "length (bytes_of s) = length s"
  by (simp add: bytes_of_def)

lemma length_string_of [simp]: "length (string_of s) = length s"
  by (simp add: string_of_def)

lemma bytes_of_Nil [simp]: "bytes_of [] = []"
  by (simp add: bytes_of_def)

lemma bytes_of_append [simp]: "bytes_of (s @ t) = bytes_of s @ bytes_of t"
  by (simp add: bytes_of_def)

lemma unat_of_char [simp]: "unat (of_char c :: u8) = of_char c"
proof -
  have "(of_char c :: u8) = of_nat (of_char c)"
    by (simp add: of_nat_of_char)
  then have "unat (of_char c :: u8) = of_char c mod 256"
    by (simp add: unat_of_nat)
  then show ?thesis by simp
qed

lemma string_of_bytes_of [simp]: "string_of (bytes_of s) = s"
  by (induction s) (simp_all add: string_of_def bytes_of_def)

lemma bytes_of_inject [simp]: "bytes_of s = bytes_of t \<longleftrightarrow> s = t"
  by (metis string_of_bytes_of)

subsection \<open>Lists\<close>

lemma take_append_len: "length xs = n \<Longrightarrow> take n (xs @ ys) = xs"
  by simp

lemma drop_append_len: "length xs = n \<Longrightarrow> drop n (xs @ ys) = ys"
  by simp

lemma append_split_len:
  "length xs = length ys \<Longrightarrow> xs @ us = ys @ vs \<longleftrightarrow> xs = ys \<and> us = vs"
  by simp

lemma find_Some_mem: "find P xs = Some x \<Longrightarrow> x \<in> set xs \<and> P x"
  by (auto simp: find_Some_iff)

lemma find_None_all: "find P xs = None \<Longrightarrow> x \<in> set xs \<Longrightarrow> \<not> P x"
  by (auto simp: find_None_iff)

lemma distinct_map_eqD:
  "distinct (map f xs) \<Longrightarrow> x \<in> set xs \<Longrightarrow> y \<in> set xs \<Longrightarrow> f x = f y \<Longrightarrow> x = y"
  by (meson distinct_map inj_onD)

subsection \<open>Words\<close>

lemma u64_max_unat: "unat (U64_MAX :: u64) = 2 ^ 64 - 1"
  by (simp add: unsigned_minus_1_eq_mask mask_eq_exp_minus_1)

lemma unat_u64_le: "unat (x :: u64) \<le> 2 ^ 64 - 1"
  using unsigned_less [of x, where ?'a = nat] by simp

lemma unat_u64_less: "unat (x :: u64) < 2 ^ 64"
  using unsigned_less [of x, where ?'a = nat] by simp

text \<open>\<open>a > MAX - b\<close>, the overflow test the sources use before an addition.\<close>

lemma no_add_overflow:
  fixes a b :: u64
  assumes "\<not> U64_MAX - b < a"
  shows "unat (a + b) = unat a + unat b"
proof -
  have "unat (U64_MAX - b) = 2 ^ 64 - 1 - unat b"
    by (subst unat_sub) (simp_all add: u64_max_unat)
  with assms have "unat a + unat b < 2 ^ 64"
    using unat_u64_less [of b] by (simp add: word_less_nat_alt)
  then show ?thesis by (simp add: unat_word_ariths)
qed

lemma add_overflow:
  fixes a b :: u64
  assumes "U64_MAX - b < a"
  shows "2 ^ 64 \<le> unat a + unat b"
proof -
  have "unat (U64_MAX - b) = 2 ^ 64 - 1 - unat b"
    by (subst unat_sub) (simp_all add: u64_max_unat)
  with assms show ?thesis
    using unat_u64_less [of b] by (simp add: word_less_nat_alt)
qed

text \<open>\<open>a > MAX / k\<close>, the overflow test before a multiplication by a constant.\<close>

lemma no_mult_overflow:
  fixes a k :: u64
  assumes "\<not> U64_MAX div k < a" and "0 < unat k"
  shows "unat (a * k) = unat a * unat k"
proof -
  have "unat (U64_MAX div k) = (2 ^ 64 - 1) div unat k"
    by (simp add: unat_div u64_max_unat)
  with assms(1) have "unat a \<le> (2 ^ 64 - 1) div unat k"
    by (simp add: word_less_nat_alt)
  then have "unat a * unat k \<le> 2 ^ 64 - 1"
    using assms(2) by (meson div_le_mono le_trans less_eq_div_iff_mult_less_eq)
  then show ?thesis by (simp add: unat_word_ariths)
qed

lemma mult_overflow:
  fixes a k :: u64
  assumes "U64_MAX div k < a" and "0 < unat k"
  shows "2 ^ 64 \<le> unat a * unat k"
proof -
  have "unat (U64_MAX div k) = (2 ^ 64 - 1) div unat k"
    by (simp add: unat_div u64_max_unat)
  with assms have "(2 ^ 64 - 1) div unat k < unat a"
    by (simp add: word_less_nat_alt)
  then have "2 ^ 64 - 1 < unat a * unat k"
    using assms(2) by (simp add: div_less_iff_less_mult)
  then show ?thesis by simp
qed

end
