(* ===== verification/Reason.thy ===== *)
theory Reason
  imports Prelude
begin

text \<open>
  The reject reasons. In the sources a failing check sets a \<open>std::string &reason\<close> or
  returns \<open>rejected("...")\<close>; each of these texts is one constructor here, grouped by what
  is being rejected, and \<open>reason_text\<close> gives the text back for the code that inspects it.
\<close>

datatype amount_error =
    Amount_Syntax | Amount_Decimals | Amount_Overflow | Amount_Zero | Amount_Multiple

datatype tx_error =
    Fee_Too_Low | Output_Invalid | Malformed_Tx | Tx_Too_Large | Inputs_Missing | Unknown_Input
   | Insufficient_Funds | Duplicate_Tx

datatype sig_error =
    No_Spending_Key | Signature_Missing | Key_Mismatch | Signature_Invalid

datatype flag_error =
    Flag_Id_Invalid | Duplicate_Flag | Unlimited_Flag_Pays | Unknown_Flag | Already_Claimed
   | Awards_Signature | Flag_Expired | Flag_Exhausted

datatype name_error =
    Name_Invalid | Name_Taken | Signer_Mismatch | Name_Reserved | Wallet_Required
   | Unknown_Shortname

datatype hw_error =
    Missing_Hw_Proof | Bad_Model | Bad_Commitment | Challenge_Missing | Challenge_Mismatch
   | Serial_Malformed | Serial_Unbound

datatype header_error =
    Missing_Block | Version_Invalid | Height_Not_Next | Nonce_Invalid | Timestamp_Invalid
   | Difficulty_Mismatch | Prev_Not_Tip | Merkle_Mismatch | Pihash_Missing | Pihash_Algorithm
   | Pihash_Mismatch | Pihash_Weak | Block_Too_Large | Clock_Behind_Tip

datatype coinbase_error =
    Coinbase_Missing | Wallet_Missing | Emission_Exceeded | Foundation_Address
   | Subsidy_Mismatch | Validator_Amount | Validator_Address

datatype reason =
    AmountErr amount_error
  | TxErr tx_error
  | SigErr sig_error
  | FlagErr flag_error
  | NameErr name_error
  | HwErr hw_error
  | HeaderErr header_error
  | CoinbaseErr coinbase_error

fun amount_error_text :: "amount_error \<Rightarrow> string" where
  "amount_error_text Amount_Syntax = ''amount must be 314ST, for example 0.216000''"
| "amount_error_text Amount_Decimals = ''amount has more than six decimal places''"
| "amount_error_text Amount_Overflow = ''amount overflow''"
| "amount_error_text Amount_Zero = ''amount must be greater than 0''"
| "amount_error_text Amount_Multiple = ''amount must be a multiple of 0.001 314ST until height 3000''"

fun tx_error_text :: "tx_error \<Rightarrow> string" where
  "tx_error_text Fee_Too_Low = ''fee too low''"
| "tx_error_text Output_Invalid = ''transaction output invalid''"
| "tx_error_text Malformed_Tx = ''malformed transaction''"
| "tx_error_text Tx_Too_Large = ''tx too large''"
| "tx_error_text Inputs_Missing = ''transaction inputs missing''"
| "tx_error_text Unknown_Input = ''unknown input''"
| "tx_error_text Insufficient_Funds = ''insufficient funds''"
| "tx_error_text Duplicate_Tx = ''duplicate transaction''"

fun sig_error_text :: "sig_error \<Rightarrow> string" where
  "sig_error_text No_Spending_Key = ''address has no spending key''"
| "sig_error_text Signature_Missing = ''signature missing''"
| "sig_error_text Key_Mismatch = ''public key does not match address''"
| "sig_error_text Signature_Invalid = ''signature invalid''"

fun flag_error_text :: "flag_error \<Rightarrow> string" where
  "flag_error_text Flag_Id_Invalid = ''flag id invalid''"
| "flag_error_text Duplicate_Flag = ''duplicate flag''"
| "flag_error_text Unlimited_Flag_Pays = ''unlimited flag cannot pay''"
| "flag_error_text Unknown_Flag = ''unknown flag''"
| "flag_error_text Already_Claimed = ''already claimed''"
| "flag_error_text Awards_Signature = ''awards signature required''"
| "flag_error_text Flag_Expired = ''flag expired''"
| "flag_error_text Flag_Exhausted = ''flag exhausted''"

fun name_error_text :: "name_error \<Rightarrow> string" where
  "name_error_text Name_Invalid = ''name invalid''"
| "name_error_text Name_Taken = ''name is taken''"
| "name_error_text Signer_Mismatch = ''address does not match signer''"
| "name_error_text Name_Reserved = ''name is reserved''"
| "name_error_text Wallet_Required = ''wallet or miner address required''"
| "name_error_text Unknown_Shortname = ''unknown shortname''"

fun hw_error_text :: "hw_error \<Rightarrow> string" where
  "hw_error_text Missing_Hw_Proof = ''missing hw_proof''"
| "hw_error_text Bad_Model = ''hw_proof model is not an official Raspberry Pi 2/3/4/5''"
| "hw_error_text Bad_Commitment = ''hw_proof serial_commitment missing or malformed''"
| "hw_error_text Challenge_Missing = ''hw_proof challenge missing''"
| "hw_error_text Challenge_Mismatch = ''hw_proof challenge mismatch''"
| "hw_error_text Serial_Malformed = ''hw_proof serial missing or malformed''"
| "hw_error_text Serial_Unbound = ''hw_proof serial_commitment does not bind serial and challenge''"

fun header_error_text :: "header_error \<Rightarrow> string" where
  "header_error_text Missing_Block = ''missing block''"
| "header_error_text Version_Invalid = ''version invalid''"
| "header_error_text Height_Not_Next = ''height does not extend tip''"
| "header_error_text Nonce_Invalid = ''nonce invalid''"
| "header_error_text Timestamp_Invalid = ''timestamp invalid''"
| "header_error_text Difficulty_Mismatch = ''difficulty mismatch''"
| "header_error_text Prev_Not_Tip = ''prev hash does not link tip''"
| "header_error_text Merkle_Mismatch = ''merkle root mismatch''"
| "header_error_text Pihash_Missing = ''pihash missing''"
| "header_error_text Pihash_Algorithm = ''pihash algorithm not pihash2''"
| "header_error_text Pihash_Mismatch = ''pihash mismatch''"
| "header_error_text Pihash_Weak = ''pihash does not meet difficulty''"
| "header_error_text Block_Too_Large = ''block too large''"
| "header_error_text Clock_Behind_Tip = ''clock behind tip''"

fun coinbase_error_text :: "coinbase_error \<Rightarrow> string" where
  "coinbase_error_text Coinbase_Missing = ''coinbase missing''"
| "coinbase_error_text Wallet_Missing = ''coinbase wallet missing''"
| "coinbase_error_text Emission_Exceeded = ''coinbase exceeds emission rules''"
| "coinbase_error_text Foundation_Address = ''coinbase foundation address''"
| "coinbase_error_text Subsidy_Mismatch = ''coinbase subsidy mismatch''"
| "coinbase_error_text Validator_Amount = ''coinbase validator amount''"
| "coinbase_error_text Validator_Address = ''coinbase validator address''"

fun reason_text :: "reason \<Rightarrow> string" where
  "reason_text (AmountErr e) = amount_error_text e"
| "reason_text (TxErr e) = tx_error_text e"
| "reason_text (SigErr e) = sig_error_text e"
| "reason_text (FlagErr e) = flag_error_text e"
| "reason_text (NameErr e) = name_error_text e"
| "reason_text (HwErr e) = hw_error_text e"
| "reason_text (HeaderErr e) = header_error_text e"
| "reason_text (CoinbaseErr e) = coinbase_error_text e"

type_synonym 'a res = "reason + 'a"

end
