(* ===== verification/Stores.thy ===== *)
theory Stores
  imports Prelude
begin

text \<open>
  The two interfaces behind the daemon's tables.

  \<^item> \<open>registry\<close>: a table where the first entry for a key wins and is never replaced: flags by
    id (\<open>FlagBook\<close>), names by normalised name (\<open>NameBook\<close>).
  \<^item> \<open>store\<close>: a table with insert and erase: the UTXO set and the header tables of
    \<open>Storage\<close>.

  The laws are assumed here and discharged by the components that own the tables.
\<close>

subsection \<open>First come, first served\<close>

locale registry =
  fixes lookup :: "'s \<Rightarrow> 'k \<Rightarrow> 'v option"
    and add :: "'s \<Rightarrow> 'v \<Rightarrow> 's"
    and key :: "'v \<Rightarrow> 'k"
  assumes lookup_add:
    "lookup s (key v) = None \<Longrightarrow> lookup (add s v) k = (if k = key v then Some v else lookup s k)"
begin

lemma lookup_add_same: "lookup s (key v) = None \<Longrightarrow> lookup (add s v) (key v) = Some v"
  by (simp add: lookup_add)

lemma lookup_add_keeps:
  "lookup s (key v) = None \<Longrightarrow> lookup s k = Some w \<Longrightarrow> lookup (add s v) k = Some w"
  by (auto simp: lookup_add)

text \<open>The guarded addition every caller performs.\<close>

definition reserve :: "'v \<Rightarrow> 's \<Rightarrow> 's" where
  "reserve v s = (case lookup s (key v) of Some _ \<Rightarrow> s | None \<Rightarrow> add s v)"

lemma reserve_keeps: "lookup s k = Some w \<Longrightarrow> lookup (reserve v s) k = Some w"
  by (auto simp: reserve_def lookup_add_keeps split: option.splits)

lemma reserve_defines: "lookup (reserve v s) (key v) \<noteq> None"
  by (auto simp: reserve_def lookup_add_same split: option.splits)

lemma fold_reserve_keeps: "lookup s k = Some w \<Longrightarrow> lookup (fold reserve vs s) k = Some w"
  by (induction vs arbitrary: s) (simp_all add: reserve_keeps)

lemma fold_reserve_first:
  assumes "lookup s (key v) = None"
  shows "lookup (fold reserve (v # vs) s) (key v) = Some v"
  using assms by (simp add: fold_reserve_keeps reserve_def lookup_add_same)

end

subsection \<open>Insert and erase\<close>

locale store =
  fixes get :: "'s \<Rightarrow> 'k \<Rightarrow> 'v option"
    and put :: "'s \<Rightarrow> 'k \<Rightarrow> 'v \<Rightarrow> 's"
    and del :: "'s \<Rightarrow> 'k \<Rightarrow> 's"
  assumes get_put: "get (put s k v) k' = (if k' = k then Some v else get s k')"
    and get_del: "get (del s k) k' = (if k' = k then None else get s k')"
begin

lemma get_fold_del: "get (fold (\<lambda>k s. del s k) ks s) k = (if k \<in> set ks then None else get s k)"
  by (induction ks arbitrary: s) (auto simp: get_del)

lemma get_fold_put:
  "get (fold (\<lambda>(k, v) s. put s k v) kvs s) k =
     (case map_of (rev kvs) k of Some v \<Rightarrow> Some v | None \<Rightarrow> get s k)"
  by (induction kvs arbitrary: s) (auto simp: get_put map_add_def split: option.splits)

text \<open>Erase a list of keys, then insert a list of bindings: the shape of a block's effect.\<close>

definition update :: "'k list \<Rightarrow> ('k \<times> 'v) list \<Rightarrow> 's \<Rightarrow> 's" where
  "update dels puts s = fold (\<lambda>(k, v) s. put s k v) puts (fold (\<lambda>k s. del s k) dels s)"

lemma get_update:
  "get (update dels puts s) k =
     (case map_of (rev puts) k of Some v \<Rightarrow> Some v | None \<Rightarrow> if k \<in> set dels then None else get s k)"
  by (simp add: update_def get_fold_put get_fold_del split: option.splits)

lemma get_update_del:
  "k \<in> set dels \<Longrightarrow> k \<notin> fst ` set puts \<Longrightarrow> get (update dels puts s) k = None"
proof -
  assume a: "k \<in> set dels" "k \<notin> fst ` set puts"
  then have "map_of (rev puts) k = None" by (simp add: map_of_eq_None_iff)
  with a(1) show ?thesis by (simp add: get_update)
qed

lemma get_update_other:
  "k \<notin> set dels \<Longrightarrow> k \<notin> fst ` set puts \<Longrightarrow> get (update dels puts s) k = get s k"
proof -
  assume a: "k \<notin> set dels" "k \<notin> fst ` set puts"
  then have "map_of (rev puts) k = None" by (simp add: map_of_eq_None_iff)
  with a(1) show ?thesis by (simp add: get_update)
qed

end

end
