(* ===== verification/Bytes.thy ===== *)
theory Bytes
  imports Prelude
begin

text \<open>
  Byte layouts and hexadecimal text.

  \<^item> \<open>append_u16\<close>, \<open>append_u32\<close>, \<open>append_u64\<close> of \<open>chain_rpc.cpp\<close>, the little-endian
    writers every consensus preimage is built from, and the readers and writers of
    \<open>cpp/util/endian.h\<close>.
  \<^item> \<open>to_hex\<close>, \<open>from_hex\<close>, \<open>decode_hex\<close>, \<open>lower_hex\<close> of \<open>chain_rpc.cpp\<close>.
  \<^item> Two interfaces: \<open>prefix_code\<close>, an encoder whose output can be told from what follows
    it, and \<open>codec\<close>, a writer with a reader at an offset. Every \<open>codec\<close> is a
    \<open>prefix_code\<close>.
\<close>

subsection \<open>Interfaces\<close>

locale prefix_code =
  fixes wr :: "'a \<Rightarrow> bytes"
    and ok :: "'a \<Rightarrow> bool"
  assumes wr_cancel: "ok x \<Longrightarrow> ok y \<Longrightarrow> wr x @ r = wr y @ s \<Longrightarrow> x = y \<and> r = s"
begin

lemma wr_inj: "ok x \<Longrightarrow> ok y \<Longrightarrow> wr x = wr y \<Longrightarrow> x = y"
  using wr_cancel [of x y "[]" "[]"] by simp

lemma wr_cancel_iff: "ok x \<Longrightarrow> ok y \<Longrightarrow> wr x @ r = wr y @ s \<longleftrightarrow> x = y \<and> r = s"
  using wr_cancel by blast

text \<open>A sequence of known length is again recovered from the front of a buffer.\<close>

lemma concat_cancel:
  "length xs = length ys \<Longrightarrow> \<forall>x \<in> set xs. ok x \<Longrightarrow> \<forall>y \<in> set ys. ok y \<Longrightarrow>
   concat (map wr xs) @ r = concat (map wr ys) @ s \<Longrightarrow> xs = ys \<and> r = s"
proof (induction xs ys rule: list_induct2)
  case Nil
  then show ?case by simp
next
  case (Cons x xs y ys)
  from Cons.prems have "wr x @ (concat (map wr xs) @ r) = wr y @ (concat (map wr ys) @ s)"
    by simp
  with Cons.prems(1,2) have "x = y" and "concat (map wr xs) @ r = concat (map wr ys) @ s"
    using wr_cancel [of x y] by auto
  with Cons show ?case by simp
qed

end

text \<open>The outcome of a read through a raw pointer: in bounds, or undefined behaviour.\<close>

datatype 'a read = Out_Of_Bounds | Got 'a

fun read_bind :: "'a read \<Rightarrow> ('a \<Rightarrow> 'b read) \<Rightarrow> 'b read" where
  "read_bind Out_Of_Bounds f = Out_Of_Bounds"
| "read_bind (Got x) f = f x"

lemma read_bind_Got_iff: "read_bind m f = Got y \<longleftrightarrow> (\<exists>x. m = Got x \<and> f x = Got y)"
  by (cases m) auto

locale codec =
  fixes wr :: "'a \<Rightarrow> bytes"
    and rd :: "bytes \<Rightarrow> nat \<Rightarrow> ('a \<times> nat) read"
    and ok :: "'a \<Rightarrow> bool"
  assumes rd_wr:
    "ok x \<Longrightarrow> rd (pre @ wr x @ post) (length pre) = Got (x, length pre + length (wr x))"
begin

lemma rd_wr_at:
  "ok x \<Longrightarrow> n = length pre \<Longrightarrow> rd (pre @ wr x @ post) n = Got (x, n + length (wr x))"
  using rd_wr by simp

lemma rd_wr_front: "ok x \<Longrightarrow> rd (wr x @ post) 0 = Got (x, length (wr x))"
  using rd_wr [of x "[]"] by simp

end

sublocale codec \<subseteq> prefix_code wr ok
proof
  fix x y r s
  assume a: "ok x" "ok y" and eq: "wr x @ r = wr y @ s"
  have "rd (wr x @ r) 0 = Got (x, length (wr x))" using a by (simp add: rd_wr_front)
  moreover have "rd (wr y @ s) 0 = Got (y, length (wr y))" using a by (simp add: rd_wr_front)
  ultimately have "x = y" using eq by simp
  with eq show "x = y \<and> r = s" by simp
qed

subsection \<open>Little-endian writers (chain_rpc.cpp)\<close>

definition le_bytes :: "nat \<Rightarrow> 'a::len word \<Rightarrow> bytes" where
  "le_bytes n w = map (\<lambda>i. ucast (drop_bit (8 * i) w)) [0..<n]"

definition append_u16 :: "bytes \<Rightarrow> u16 \<Rightarrow> bytes" where
  "append_u16 out v = (out @ [ucast (v AND 0xff)]) @ [ucast (drop_bit 8 v AND 0xff)]"

definition append_u32 :: "bytes \<Rightarrow> u32 \<Rightarrow> bytes" where
  "append_u32 out v = fold (\<lambda>i out. out @ [ucast (drop_bit (8 * i) v AND 0xff)]) [0..<4] out"

definition append_u64 :: "bytes \<Rightarrow> u64 \<Rightarrow> bytes" where
  "append_u64 out v = fold (\<lambda>i out. out @ [ucast (drop_bit (8 * i) v AND 0xff)]) [0..<8] out"

definition append_bytes :: "bytes \<Rightarrow> bytes \<Rightarrow> bytes" where
  "append_bytes out data = out @ data"

definition append_str :: "bytes \<Rightarrow> string \<Rightarrow> bytes" where
  "append_str out s = out @ bytes_of s"

lemma mask_u8: "(255 :: 'a::len word) = mask 8"
  by (simp add: mask_eq_exp_minus_1)

lemma ucast_mask_u8 [simp]: "(ucast (w AND 255 :: 'a::len word) :: u8) = ucast w"
  unfolding mask_u8 by (rule bit_word_eqI) (auto simp: bit_simps dest: bit_imp_le_length)

lemma length_le_bytes [simp]: "length (le_bytes n w) = n"
  by (simp add: le_bytes_def)

lemma fold_snoc: "fold (\<lambda>i out. out @ [f i]) is out = out @ map f is"
  by (induction "is" arbitrary: out) simp_all

lemma append_u16_layout [layout]: "append_u16 out v = out @ le_bytes 2 v"
  by (simp add: append_u16_def le_bytes_def numeral_2_eq_2)

lemma append_u32_layout [layout]: "append_u32 out v = out @ le_bytes 4 v"
  by (simp only: append_u32_def fold_snoc le_bytes_def ucast_mask_u8)

lemma append_u64_layout [layout]: "append_u64 out v = out @ le_bytes 8 v"
  by (simp only: append_u64_def fold_snoc le_bytes_def ucast_mask_u8)

lemma append_bytes_layout [layout]: "append_bytes out data = out @ data"
  by (simp add: append_bytes_def)

lemma append_str_layout [layout]: "append_str out s = out @ bytes_of s"
  by (simp add: append_str_def)

lemma le_bytes_inject:
  fixes v w :: "'a::len word"
  assumes "LENGTH('a) = 8 * n"
  shows "le_bytes n v = le_bytes n w \<longleftrightarrow> v = w"
proof
  assume eq: "le_bytes n v = le_bytes n w"
  show "v = w"
  proof (rule bit_word_eqI)
    fix k assume k: "k < LENGTH('a)"
    with assms have "k div 8 < n" by (simp add: less_mult_imp_div_less mult.commute)
    with eq have "(ucast (drop_bit (8 * (k div 8)) v) :: u8) = ucast (drop_bit (8 * (k div 8)) w)"
      by (auto simp: le_bytes_def)
    then have "bit (ucast (drop_bit (8 * (k div 8)) v) :: u8) (k mod 8)
             = bit (ucast (drop_bit (8 * (k div 8)) w) :: u8) (k mod 8)"
      by simp
    then show "bit v k = bit w k" by (simp add: bit_simps)
  qed
qed simp

lemma le_bytes_cancel:
  fixes v w :: "'a::len word"
  assumes "LENGTH('a) = 8 * n"
  shows "le_bytes n v @ r = le_bytes n w @ s \<longleftrightarrow> v = w \<and> r = s"
  using assms by (simp add: le_bytes_inject)

interpretation c16: prefix_code "le_bytes 2 :: u16 \<Rightarrow> bytes" "\<lambda>_. True"
  by unfold_locales (simp add: le_bytes_inject)

interpretation c32: prefix_code "le_bytes 4 :: u32 \<Rightarrow> bytes" "\<lambda>_. True"
  by unfold_locales (simp add: le_bytes_inject)

interpretation c64: prefix_code "le_bytes 8 :: u64 \<Rightarrow> bytes" "\<lambda>_. True"
  by unfold_locales (simp add: le_bytes_inject)

interpretation ch: prefix_code "\<lambda>h::h256. h" is_h256
  by unfold_locales (auto simp: is_h256_def)

text \<open>A byte string behind its 16-bit length, the layout of every text field.\<close>

definition str16 :: "string \<Rightarrow> bytes" where
  "str16 s = le_bytes 2 (of_nat (length s) :: u16) @ bytes_of s"

definition fits16 :: "string \<Rightarrow> bool" where
  "fits16 s \<longleftrightarrow> length s < 65536"

lemma fits16_length_eq:
  assumes "fits16 s" "fits16 t" "(of_nat (length s) :: u16) = of_nat (length t)"
  shows "length s = length t"
proof -
  have "unat (of_nat (length s) :: u16) = unat (of_nat (length t) :: u16)"
    using assms(3) by simp
  with assms(1,2) show ?thesis
    by (simp add: fits16_def unat_of_nat)
qed

interpretation cstr: prefix_code str16 fits16
proof
  fix s t r r'
  assume a: "fits16 s" "fits16 t" and eq: "str16 s @ r = str16 t @ r'"
  from eq have "(of_nat (length s) :: u16) = of_nat (length t)"
    and rest: "bytes_of s @ r = bytes_of t @ r'"
    by (simp_all add: str16_def le_bytes_inject)
  with a have "length s = length t" by (blast intro: fits16_length_eq)
  with rest show "s = t \<and> r = r'" by simp
qed

subsection \<open>Hexadecimal text\<close>

definition in_range :: "char \<Rightarrow> char \<Rightarrow> char \<Rightarrow> bool" where
  "in_range c lo hi \<longleftrightarrow> (of_char lo :: nat) \<le> of_char c \<and> (of_char c :: nat) \<le> of_char hi"

definition nybble :: "char \<Rightarrow> int" where
  "nybble c =
     (if in_range c CHR ''0'' CHR ''9'' then of_char c - of_char CHR ''0''
      else if in_range c CHR ''a'' CHR ''f'' then of_char c - of_char CHR ''a'' + 10
      else if in_range c CHR ''A'' CHR ''F'' then of_char c - of_char CHR ''A'' + 10
      else -1)"

definition hexd :: string where
  "hexd = ''0123456789abcdef''"

definition hex_of_byte :: "u8 \<Rightarrow> string" where
  "hex_of_byte b = [hexd ! unat (drop_bit 4 b), hexd ! unat (b AND 0x0f)]"

definition to_hex :: "bytes \<Rightarrow> string" where
  "to_hex dig = concat (map hex_of_byte dig)"

text \<open>
  The loop shared by \<open>from_hex\<close> and \<open>decode_hex\<close>: the bytes decoded before the first bad
  character, and whether all of the text was good. On failure the C++ leaves the decoded
  prefix in its output argument, and so does the model.
\<close>

fun hex_prefix :: "string \<Rightarrow> bytes \<times> bool" where
  "hex_prefix (h # l # rest) =
     (let hi = nybble h; lo = nybble l in
      if hi < 0 \<or> lo < 0 then ([], False)
      else let (p, good) = hex_prefix rest in (word_of_int (push_bit 4 hi OR lo) # p, good))"
| "hex_prefix _ = ([], True)"

definition from_hex_into :: "string \<Rightarrow> h256 \<Rightarrow> bool \<times> h256" where
  "from_hex_into hex out =
     (if length hex \<noteq> 64 then (False, out)
      else let (p, good) = hex_prefix hex in (good, p @ drop (length p) out))"

text \<open>The callers that test the result start from a zeroed array.\<close>

definition from_hex :: "string \<Rightarrow> h256 option" where
  "from_hex hex = (case from_hex_into hex zero256 of (good, out) \<Rightarrow> if good then Some out else None)"

definition decode_hex :: "string \<Rightarrow> bytes \<Rightarrow> bool \<times> bytes" where
  "decode_hex hex out =
     (if length hex mod 2 \<noteq> 0 then (False, out)
      else let (p, good) = hex_prefix hex in (good, p))"

definition lower_hex :: "string \<Rightarrow> string" where
  "lower_hex hex =
     map (\<lambda>c. if in_range c CHR ''A'' CHR ''F''
              then char_of ((of_char c :: nat) - of_char CHR ''A'' + of_char CHR ''a'') else c) hex"

definition is_zero :: "h256 \<Rightarrow> bool" where
  "is_zero d \<longleftrightarrow> (\<forall>b \<in> set d. b = 0)"

lemma is_zero_iff: "is_h256 d \<Longrightarrow> is_zero d \<longleftrightarrow> d = zero256"
proof
  assume "is_zero d"
  then show "d = zero256" if "is_h256 d"
    using that replicate_eqI [of d 32 0] by (simp add: is_zero_def zero256_def is_h256_def)
qed (simp add: is_zero_def zero256_def)

text \<open>The nibbles: the sixteen digits are read back, and nothing else is a digit.\<close>

lemma nybble_hexd: "n < 16 \<Longrightarrow> nybble (hexd ! n) = int n"
proof -
  have "\<forall>n < 16. nybble (hexd ! n) = int n" by code_simp
  then show "n < 16 \<Longrightarrow> nybble (hexd ! n) = int n" by blast
qed

definition lower_hex_char :: "char \<Rightarrow> char" where
  "lower_hex_char c =
     (if in_range c CHR ''A'' CHR ''F''
      then char_of ((of_char c :: nat) - of_char CHR ''A'' + of_char CHR ''a'') else c)"

lemma lower_hex_map: "lower_hex s = map lower_hex_char s"
  by (simp add: lower_hex_def lower_hex_char_def)

lemma of_char_hexd: "n < 16 \<Longrightarrow> (of_char (hexd ! n) :: nat) = (if n < 10 then 48 + n else 87 + n)"
proof -
  have "\<forall>n < 16. (of_char (hexd ! n) :: nat) = (if n < 10 then 48 + n else 87 + n)" by code_simp
  then show "n < 16 \<Longrightarrow> (of_char (hexd ! n) :: nat) = (if n < 10 then 48 + n else 87 + n)" by blast
qed

lemma of_char_int: "(of_char c :: int) = int (of_char c)"
  by (simp add: of_nat_of_char)

lemma of_char_lower:
  "(of_char (lower_hex_char c) :: nat) =
     (if 65 \<le> (of_char c :: nat) \<and> (of_char c :: nat) \<le> 70 then of_char c + 32 else of_char c)"
  by (simp add: lower_hex_char_def in_range_def)

lemma nybble_cases:
  obtains (bad) "nybble c = -1" | (dig) n where "n < 16" "nybble c = int n" "hexd ! n = lower_hex_char c"
proof -
  consider (d) "48 \<le> (of_char c :: nat)" "(of_char c :: nat) \<le> 57"
    | (l) "97 \<le> (of_char c :: nat)" "(of_char c :: nat) \<le> 102"
    | (u) "65 \<le> (of_char c :: nat)" "(of_char c :: nat) \<le> 70"
    | (n) "nybble c = -1"
    using that(1) by (fastforce simp: nybble_def in_range_def)
  then show thesis
  proof cases
    case d
    have "of_char (hexd ! (of_char c - 48)) = (of_char (lower_hex_char c) :: nat)"
      using d by (simp add: of_char_hexd of_char_lower)
    with d that(2) [of "of_char c - 48"] show thesis
      by (simp add: nybble_def in_range_def of_char_int)
  next
    case l
    have "of_char (hexd ! (of_char c - 87)) = (of_char (lower_hex_char c) :: nat)"
      using l by (simp add: of_char_hexd of_char_lower)
    with l that(2) [of "of_char c - 87"] show thesis
      by (simp add: nybble_def in_range_def of_char_int)
  next
    case u
    have "of_char (hexd ! (of_char c - 55)) = (of_char (lower_hex_char c) :: nat)"
      using u by (simp add: of_char_hexd of_char_lower)
    with u that(2) [of "of_char c - 55"] show thesis
      by (simp add: nybble_def in_range_def of_char_int)
  next
    case n
    then show thesis by (rule that(1))
  qed
qed


text \<open>The loop reads back exactly what \<open>to_hex\<close> writes, in either case of the letters.\<close>

lemma and_15: "(b AND 15 :: u8) = take_bit 4 b"
proof -
  have "(15 :: u8) = mask 4" by (simp add: mask_eq_exp_minus_1)
  then show ?thesis by (simp only: take_bit_eq_mask)
qed

lemma byte_of_nibbles:
  fixes b :: u8
  shows "word_of_int (push_bit 4 (uint (drop_bit 4 b)) OR uint (b AND 15)) = b"
  unfolding and_15
  by (rule bit_word_eqI) (auto simp: bit_simps bit_word_of_int_iff)

lemma unat_hi: "unat (drop_bit 4 (b :: u8)) = unat b div 16"
  by (simp only: unat_drop_bit_eq) (simp add: drop_bit_eq_div)

lemma unat_lo: "unat (b AND 15 :: u8) = unat b mod 16"
  by (simp only: and_15 unsigned_take_bit_eq) (simp add: take_bit_eq_mod)

lemma unat_u8_less: "unat (b :: u8) < 256"
  using unsigned_less [of b, where ?'a = nat] by simp

lemma nibble_bounds: "unat (drop_bit 4 (b :: u8)) < 16" "unat (b AND 15 :: u8) < 16"
  using unat_u8_less [of b] by (simp_all only: unat_hi unat_lo mod_less_divisor)

lemma length_to_hex [simp]: "length (to_hex d) = 2 * length d"
  by (induction d) (simp_all add: to_hex_def hex_of_byte_def)

lemma to_hex_simps [simp]: "to_hex [] = []" "to_hex (b # d) = hex_of_byte b @ to_hex d"
  by (simp_all add: to_hex_def)

lemma hex_prefix_to_hex [simp]: "hex_prefix (to_hex d) = (d, True)"
  by (induction d)
    (simp_all add: hex_of_byte_def nybble_hexd nibble_bounds [simplified] byte_of_nibbles [simplified]
      Let_def)

lemma hex_prefix_sound:
  "hex_prefix s = (d, True) \<Longrightarrow> even (length s) \<Longrightarrow> to_hex d = lower_hex s \<and> 2 * length d = length s"
proof (induction s arbitrary: d rule: hex_prefix.induct)
  case (1 h l rest)
  obtain p good where p: "hex_prefix rest = (p, good)" by fastforce
  from 1(2) obtain m where m: "m < 16" "nybble h = int m" "hexd ! m = lower_hex_char h"
    by (cases h rule: nybble_cases) (simp_all add: Let_def)
  from 1(2) obtain n where n: "n < 16" "nybble l = int n" "hexd ! n = lower_hex_char l"
    by (cases l rule: nybble_cases) (simp_all add: Let_def split: if_splits)
  let ?b = "word_of_int (push_bit 4 (int m) OR int n) :: u8"
  from 1(2) p m n have d: "d = ?b # p" and good by (simp_all add: Let_def)
  have mn: "push_bit 4 (int m) OR int n = int (16 * m + n)"
  proof -
    have "push_bit 4 (int m) OR int n = push_bit 4 (int m) + int n"
    proof (rule disjunctive_add [symmetric])
      fix k
      show "\<not> bit (push_bit 4 (int m)) k \<or> \<not> bit (int n) k"
      proof (cases "k < 4")
        case False
        then have "(16::nat) \<le> 2 ^ k" using power_increasing [of 4 k "2::nat"] by simp
        with n(1) have "n < 2 ^ k" by simp
        then have "\<not> bit n k" by (simp add: bit_iff_odd)
        then show ?thesis by (simp add: bit_of_nat_iff_bit)
      qed (simp add: bit_simps)
    qed
    then show ?thesis by (simp add: push_bit_eq_mult)
  qed
  have "?b = of_nat (16 * m + n)"
    unfolding mn by simp
  then have ub: "unat ?b = 16 * m + n"
    using m(1) n(1) by (simp only: unat_of_nat; simp)
  have hi: "unat (drop_bit 4 ?b) = m"
    using n(1) by (simp only: unat_hi ub; simp)
  have lo: "unat (?b AND 15) = n"
    using n(1) by (simp only: unat_lo ub; simp)
  from 1(1) [OF refl refl] p \<open>good\<close> 1(3) m n have IH: "to_hex p = lower_hex rest" "2 * length p = length rest"
    by simp_all
  have "to_hex d = lower_hex (h # l # rest)"
    by (simp add: d hex_of_byte_def hi lo m(3) n(3) IH(1) lower_hex_map)
  with IH(2) d show ?case by simp
qed (simp_all add: lower_hex_map)


lemma from_hex_to_hex [simp]: "is_h256 d \<Longrightarrow> from_hex (to_hex d) = Some d"
  by (simp add: from_hex_def from_hex_into_def is_h256_def zero256_def)

lemma from_hex_SomeD:
  assumes "from_hex s = Some d"
  shows "is_h256 d" and "to_hex d = lower_hex s"
proof -
  from assms have len: "length s = 64"
    by (simp add: from_hex_def from_hex_into_def split: if_splits)
  obtain p good where p: "hex_prefix s = (p, good)" by fastforce
  with assms len have good: "good" and d: "d = p @ drop (length p) zero256"
    by (simp_all add: from_hex_def from_hex_into_def split: if_splits)
  with p len hex_prefix_sound [of s p] have "to_hex p = lower_hex s" "length p = 32"
    by simp_all
  with d show "is_h256 d" and "to_hex d = lower_hex s"
    by (simp_all add: is_h256_def zero256_def)
qed

lemma decode_hex_to_hex [simp]: "decode_hex (to_hex d) out = (True, d)"
  by (simp add: decode_hex_def)

lemma decode_hex_TrueD:
  assumes "decode_hex s out = (True, d)"
  shows "to_hex d = lower_hex s" and "2 * length d = length s"
proof -
  from assms have "even (length s)" and "hex_prefix s = (d, True)"
    by (auto simp: decode_hex_def even_iff_mod_2_eq_zero split: if_splits prod.splits)
  then show "to_hex d = lower_hex s" and "2 * length d = length s"
    using hex_prefix_sound by blast+
qed

lemma to_hex_inject [simp]: "to_hex d = to_hex e \<longleftrightarrow> d = e"
  using hex_prefix_to_hex by (metis prod.inject)

lemma lower_hex_char_idem [simp]: "lower_hex_char (lower_hex_char c) = lower_hex_char c"
proof -
  have "(of_char (lower_hex_char (lower_hex_char c)) :: nat) = of_char (lower_hex_char c)"
    by (simp only: of_char_lower) auto
  then show ?thesis by simp
qed

lemma lower_hex_idem [simp]: "lower_hex (lower_hex s) = lower_hex s"
  by (simp add: lower_hex_map)

subsection \<open>cpp/util/endian.h\<close>

text \<open>The pointer argument is the list of bytes from there on; the writers give the bytes stored.\<close>

definition read_be32 :: "bytes \<Rightarrow> u32" where
  "read_be32 data =
     push_bit 24 (ucast (data ! 0)) OR push_bit 16 (ucast (data ! 1)) OR
     push_bit 8 (ucast (data ! 2)) OR ucast (data ! 3)"

definition read_le32 :: "bytes \<Rightarrow> u32" where
  "read_le32 data =
     ucast (data ! 0) OR push_bit 8 (ucast (data ! 1)) OR
     push_bit 16 (ucast (data ! 2)) OR push_bit 24 (ucast (data ! 3))"

definition write_be32 :: "u32 \<Rightarrow> bytes" where
  "write_be32 val =
     [ucast (drop_bit 24 val AND 0xff), ucast (drop_bit 16 val AND 0xff),
      ucast (drop_bit 8 val AND 0xff), ucast (val AND 0xff)]"

definition write_le32 :: "u32 \<Rightarrow> bytes" where
  "write_le32 val =
     [ucast (val AND 0xff), ucast (drop_bit 8 val AND 0xff),
      ucast (drop_bit 16 val AND 0xff), ucast (drop_bit 24 val AND 0xff)]"

definition read_be64 :: "bytes \<Rightarrow> u64" where
  "read_be64 data =
     push_bit 32 (ucast (read_be32 data)) OR ucast (read_be32 (drop 4 data))"

definition write_be64 :: "u64 \<Rightarrow> bytes" where
  "write_be64 val =
     write_be32 (ucast (drop_bit 32 val AND 0xffffffff)) @ write_be32 (ucast (val AND 0xffffffff))"

lemma length_write [simp]:
  "length (write_be32 v) = 4" "length (write_le32 v) = 4" "length (write_be64 w) = 8"
  by (simp_all add: write_be32_def write_le32_def write_be64_def)

lemma write_le32_layout [layout]: "write_le32 v = le_bytes 4 v"
  by (simp add: write_le32_def le_bytes_def upt_rec)

lemma write_be32_layout [layout]: "write_be32 v = rev (le_bytes 4 v)"
  by (simp add: write_be32_def le_bytes_def upt_rec)

lemma read_be32_write [simp]: "read_be32 (write_be32 v @ rest) = v"
proof (rule bit_word_eqI)
  fix n assume "n < LENGTH(32)"
  then show "bit (read_be32 (write_be32 v @ rest)) n = bit v n"
    by (cases "n < 8"; cases "n < 16"; cases "n < 24")
      (auto simp: read_be32_def write_be32_def bit_simps)
qed

lemma read_le32_write [simp]: "read_le32 (write_le32 v @ rest) = v"
proof (rule bit_word_eqI)
  fix n assume "n < LENGTH(32)"
  then show "bit (read_le32 (write_le32 v @ rest)) n = bit v n"
    by (cases "n < 8"; cases "n < 16"; cases "n < 24")
      (auto simp: read_le32_def write_le32_def bit_simps)
qed

lemma mask_32: "(0xffffffff :: u64) = mask 32"
  by (simp add: mask_eq_exp_minus_1)

lemma read_be64_write [simp]: "read_be64 (write_be64 v @ rest) = v"
proof -
  have "read_be64 (write_be64 v @ rest) =
      push_bit 32 (ucast (ucast (drop_bit 32 v AND 0xffffffff) :: u32)) OR
      ucast (ucast (v AND 0xffffffff) :: u32)"
    using read_be32_write [of _ rest]
    by (simp add: read_be64_def write_be64_def)
  also have "\<dots> = v"
    unfolding mask_32 by (rule bit_word_eqI) (auto simp: bit_simps)
  finally show ?thesis .
qed

end
