(* ===== verification/Amount.thy ===== *)
theory Amount
  imports Bytes Reason
begin

text \<open>
  \<open>cpp/common/amount.hpp\<close>: decimal 314ST text to pi (1 314ST = 1000000 pi) and back.

  \<open>parse_314st_pi\<close> and \<open>format_314st_pi\<close> follow the code; \<open>amount_spec\<close> says what an amount
  text means, a number of millionths with no bound. The lemmas show that the parser accepts
  exactly the texts whose meaning is a positive 64-bit number, that it returns that number,
  and that the printed form is read back.
\<close>

definition kPiPer314ST :: u64 where
  "kPiPer314ST = 1000000"

subsection \<open>The parser\<close>

definition str_find :: "char \<Rightarrow> string \<Rightarrow> nat option" where
  "str_find c s = (if c \<in> set s then Some (length (takeWhile (\<lambda>x. x \<noteq> c) s)) else None)"

text \<open>The lambda \<open>accumulate\<close>: decimal digits to a 64-bit value, \<open>None\<close> on overflow.\<close>

fun accumulate :: "string \<Rightarrow> u64 \<Rightarrow> u64 option" where
  "accumulate [] out = Some out"
| "accumulate (c # cs) out =
     (let digit = (of_char c - of_char CHR ''0'' :: u64) in
      if out > (U64_MAX - digit) div 10 then None
      else accumulate cs (out * 10 + digit))"

text \<open>The loop \<open>for (size_t i = frac.size(); i < 6; ++i)\<close>; the argument counts what is left.\<close>

fun pad_frac :: "nat \<Rightarrow> u64 \<Rightarrow> u64 option" where
  "pad_frac 0 frac_v = Some frac_v"
| "pad_frac (Suc n) frac_v =
     (if frac_v > U64_MAX div 10 then None else pad_frac n (frac_v * 10))"

text \<open>The second half of the function: the value of the two digit runs.\<close>

definition parse_parts :: "string \<Rightarrow> string \<Rightarrow> u64 res" where
  "parse_parts whole frac =
     (case accumulate whole 0 of None \<Rightarrow> Inl (AmountErr Amount_Overflow)
      | Some whole_v \<Rightarrow>
     (case accumulate frac 0 of None \<Rightarrow> Inl (AmountErr Amount_Overflow)
      | Some frac_v0 \<Rightarrow>
     (case pad_frac (6 - length frac) frac_v0 of None \<Rightarrow> Inl (AmountErr Amount_Overflow)
      | Some frac_v \<Rightarrow>
        if whole_v > U64_MAX div kPiPer314ST then Inl (AmountErr Amount_Overflow)
        else
          let scaled = whole_v * kPiPer314ST in
          if scaled > U64_MAX - frac_v then Inl (AmountErr Amount_Overflow)
          else
            let pi = scaled + frac_v in
            if pi = 0 then Inl (AmountErr Amount_Zero) else Inr pi)))"

definition has_bad_char :: "string \<Rightarrow> bool" where
  "has_bad_char text \<longleftrightarrow> (\<exists>c \<in> set text. c \<noteq> CHR ''.'' \<and> \<not> in_range c CHR ''0'' CHR ''9'')"

definition parse_314st_pi :: "string \<Rightarrow> u64 res" where
  "parse_314st_pi text =
    (if text = [] then Inl (AmountErr Amount_Syntax)
     else if has_bad_char text
     then Inl (AmountErr Amount_Syntax)
     else
       let dot = str_find CHR ''.'' text in
       if (case dot of None \<Rightarrow> False | Some d \<Rightarrow> CHR ''.'' \<in> set (drop (d + 1) text))
       then Inl (AmountErr Amount_Syntax)
       else
         let whole = (case dot of None \<Rightarrow> text | Some d \<Rightarrow> take d text);
             frac = (case dot of None \<Rightarrow> [] | Some d \<Rightarrow> drop (d + 1) text) in
         if whole = [] \<or> dot \<noteq> None \<and> frac = []
         then Inl (AmountErr Amount_Syntax)
         else if length frac > 6 then Inl (AmountErr Amount_Decimals)
         else parse_parts whole frac)"

subsection \<open>The printer\<close>

text \<open>\<open>%llu\<close> and \<open>%06llu\<close>.\<close>

fun dec_string :: "nat \<Rightarrow> string" where
  "dec_string n =
     (if n < 10 then [char_of (48 + n)] else dec_string (n div 10) @ [char_of (48 + n mod 10)])"

declare dec_string.simps [simp del]

definition pad0 :: "nat \<Rightarrow> string \<Rightarrow> string" where
  "pad0 w s = replicate (w - length s) CHR ''0'' @ s"

definition format_314st_pi :: "u64 \<Rightarrow> string" where
  "format_314st_pi pi =
     dec_string (unat (pi div kPiPer314ST)) @ ''.'' @ pad0 6 (dec_string (unat (pi mod kPiPer314ST)))"

subsection \<open>What an amount text means\<close>

definition is_digits :: "string \<Rightarrow> bool" where
  "is_digits s \<longleftrightarrow> (\<forall>c \<in> set s. in_range c CHR ''0'' CHR ''9'')"

definition digit_val :: "char \<Rightarrow> nat" where
  "digit_val c = of_char c - 48"

definition dec_val :: "string \<Rightarrow> nat" where
  "dec_val s = foldl (\<lambda>a c. 10 * a + digit_val c) 0 s"

text \<open>
  A non-empty run of digits, then nothing or a point and one to six digits. The meaning is
  in millionths.
\<close>

definition amount_spec :: "string \<Rightarrow> nat option" where
  "amount_spec text =
    (if CHR ''.'' \<in> set text then
       let whole = takeWhile (\<lambda>c. c \<noteq> CHR ''.'') text;
           frac = tl (dropWhile (\<lambda>c. c \<noteq> CHR ''.'') text) in
       if whole \<noteq> [] \<and> is_digits whole \<and> frac \<noteq> [] \<and> is_digits frac \<and> length frac \<le> 6
       then Some (dec_val whole * 1000000 + dec_val frac * 10 ^ (6 - length frac)) else None
     else if text \<noteq> [] \<and> is_digits text then Some (dec_val text * 1000000) else None)"

subsection \<open>Digits\<close>

lemma in_range_digit: "in_range c CHR ''0'' CHR ''9'' \<longleftrightarrow> 48 \<le> (of_char c :: nat) \<and> (of_char c :: nat) \<le> 57"
  by (simp add: in_range_def)

lemma digit_u64:
  assumes "in_range c CHR ''0'' CHR ''9''"
  shows "unat (of_char c - of_char CHR ''0'' :: u64) = digit_val c" and "digit_val c < 10"
proof -
  have c: "(of_char c :: u64) = of_nat (of_char c)" by (simp add: of_nat_of_char)
  have "unat (of_char c :: u64) = of_char c"
    using assms by (simp only: c unat_of_nat in_range_digit) simp
  then show "unat (of_char c - of_char CHR ''0'' :: u64) = digit_val c"
    using assms by (subst unat_sub) (simp_all add: in_range_digit word_le_nat_alt digit_val_def)
  show "digit_val c < 10"
    using assms by (auto simp: in_range_digit digit_val_def)
qed

lemma is_digits_simps [simp]:
  "is_digits []" "is_digits (c # s) \<longleftrightarrow> in_range c CHR ''0'' CHR ''9'' \<and> is_digits s"
  "is_digits (s @ t) \<longleftrightarrow> is_digits s \<and> is_digits t"
  by (auto simp: is_digits_def)

definition dec_from :: "nat \<Rightarrow> string \<Rightarrow> nat" where
  "dec_from a s = foldl (\<lambda>a c. 10 * a + digit_val c) a s"

lemma dec_from_simps [simp]:
  "dec_from a [] = a" "dec_from a (c # s) = dec_from (10 * a + digit_val c) s"
  by (simp_all add: dec_from_def)

lemma dec_from_ge: "a \<le> dec_from a s"
proof (induction s arbitrary: a)
  case (Cons c s)
  have "a \<le> 10 * a + digit_val c" by simp
  also have "\<dots> \<le> dec_from (10 * a + digit_val c) s" by (rule Cons.IH)
  finally show ?case by simp
qed simp

lemma dec_val_from: "dec_val s = dec_from 0 s"
  by (simp add: dec_val_def dec_from_def)

lemma dec_from_append: "dec_from a (s @ t) = dec_from (dec_from a s) t"
  by (simp add: dec_from_def)

lemma mult10_digit_overflow:
  fixes out d :: u64
  assumes "unat d < 10"
  shows "out > (U64_MAX - d) div 10 \<longleftrightarrow> 2 ^ 64 \<le> 10 * unat out + unat d"
proof -
  have "unat (U64_MAX - d) = 2 ^ 64 - 1 - unat d"
    by (subst unat_sub) (simp_all add: u64_max_unat)
  then have "unat ((U64_MAX - d) div 10) = (2 ^ 64 - 1 - unat d) div 10"
    by (simp add: unat_div)
  then show ?thesis using assms by (simp add: word_less_nat_alt) arith
qed

text \<open>The accumulator is exact: it fails just when the value does not fit.\<close>

lemma accumulate_exact:
  "is_digits s \<Longrightarrow> accumulate s out =
     (if dec_from (unat out) s < 2 ^ 64 then Some (of_nat (dec_from (unat out) s)) else None)"
proof (induction s arbitrary: out)
  case Nil
  then show ?case using unat_u64_less [of out] by simp
next
  case (Cons c s)
  let ?d = "of_char c - of_char CHR ''0'' :: u64"
  have d: "unat ?d = digit_val c" "digit_val c < 10"
    using Cons.prems digit_u64 by simp_all
  show ?case
  proof (cases "out > (U64_MAX - ?d) div 10")
    case True
    with d have "2 ^ 64 \<le> 10 * unat out + digit_val c"
      using mult10_digit_overflow [of ?d out] by simp
    then have "2 ^ 64 \<le> dec_from (unat out) (c # s)"
      using dec_from_ge [of "10 * unat out + digit_val c" s] by simp
    with True show ?thesis by (simp add: Let_def)
  next
    case False
    with d have "10 * unat out + digit_val c < 2 ^ 64"
      using mult10_digit_overflow [of ?d out] by simp
    then have "unat (out * 10 + ?d) = 10 * unat out + digit_val c"
      using d by (simp add: unat_word_ariths)
    with False Cons show ?thesis by (simp add: Let_def)
  qed
qed

lemma pad_frac_exact:
  "unat v * 10 ^ n < 2 ^ 64 \<Longrightarrow> pad_frac n v = Some (of_nat (unat v * 10 ^ n))"
proof (induction n arbitrary: v)
  case (Suc n)
  have le: "unat v * 10 \<le> unat v * 10 ^ Suc n"
    by simp
  have "unat (U64_MAX div 10 :: u64) = (2 ^ 64 - 1) div 10"
    by (simp add: unat_div u64_max_unat)
  have lt: "unat v * 10 < 2 ^ 64"
    using Suc.prems le by (rule order.strict_trans1 [rotated])
  then have "\<not> U64_MAX div 10 < v"
    using \<open>unat (U64_MAX div 10 :: u64) = (2 ^ 64 - 1) div 10\<close> by (simp add: word_less_nat_alt)
  moreover have "unat (v * 10) = unat v * 10"
    using lt by (simp add: unat_word_ariths)
  ultimately show ?case using Suc by (simp add: mult.assoc)
qed simp


lemma dec_from_less: "is_digits s \<Longrightarrow> dec_from a s < (a + 1) * 10 ^ length s"
proof (induction s arbitrary: a)
  case (Cons c s)
  have "digit_val c < 10" using Cons.prems digit_u64(2) by simp
  then have "10 * a + digit_val c + 1 \<le> 10 * (a + 1)" by simp
  then have "(10 * a + digit_val c + 1) * 10 ^ length s \<le> 10 * (a + 1) * 10 ^ length s"
    by (rule mult_right_mono) simp
  also have "\<dots> = (a + 1) * 10 ^ length (c # s)" by (simp add: algebra_simps)
  finally have le: "(10 * a + digit_val c + 1) * 10 ^ length s \<le> (a + 1) * 10 ^ length (c # s)" .
  have "dec_from (10 * a + digit_val c) s < (10 * a + digit_val c + 1) * 10 ^ length s"
    using Cons.IH [of "10 * a + digit_val c"] Cons.prems by simp
  then show ?case unfolding dec_from_simps using le by (rule order.strict_trans2)
qed simp

lemma dec_val_less: "is_digits s \<Longrightarrow> dec_val s < 10 ^ length s"
  using dec_from_less [of s 0] by (simp add: dec_val_from)

subsection \<open>The parser meets its meaning\<close>

text \<open>The arithmetic at the end of the parser, on texts that passed the syntax checks.\<close>

lemma frac_value:
  assumes "is_digits frac" "length frac \<le> 6"
  shows "accumulate frac 0 = Some (of_nat (dec_val frac))"
    and "unat (of_nat (dec_val frac) :: u64) = dec_val frac"
    and "pad_frac (6 - length frac) (of_nat (dec_val frac)) =
         Some (of_nat (dec_val frac * 10 ^ (6 - length frac)))"
    and "dec_val frac * 10 ^ (6 - length frac) < 1000000"
proof -
  have lt: "dec_val frac < 10 ^ length frac" using assms(1) by (rule dec_val_less)
  have "dec_val frac * 10 ^ (6 - length frac) < 10 ^ length frac * 10 ^ (6 - length frac)"
    using lt by (rule mult_strict_right_mono) simp
  also have "\<dots> = (10::nat) ^ 6"
    using assms(2) by (simp flip: power_add)
  finally show bound: "dec_val frac * 10 ^ (6 - length frac) < 1000000" by simp
  have "dec_val frac \<le> dec_val frac * 10 ^ (6 - length frac)" by simp
  then have "dec_val frac < 1000000" using bound by (rule order.strict_trans1)
  then have small: "dec_val frac < 2 ^ 64" by simp
  then show "accumulate frac 0 = Some (of_nat (dec_val frac))"
    using assms(1) by (simp add: accumulate_exact dec_val_from)
  show u: "unat (of_nat (dec_val frac) :: u64) = dec_val frac"
    using small by (simp add: unat_of_nat)
  show "pad_frac (6 - length frac) (of_nat (dec_val frac)) =
      Some (of_nat (dec_val frac * 10 ^ (6 - length frac)))"
    using pad_frac_exact [of "of_nat (dec_val frac)" "6 - length frac"] bound by (simp add: u)
qed

lemma scale_value:
  fixes f w :: nat
  assumes "f < 1000000" "w < 2 ^ 64"
  shows "(of_nat w > U64_MAX div kPiPer314ST \<or>
          (of_nat w :: u64) * kPiPer314ST > U64_MAX - of_nat f) \<longleftrightarrow> 2 ^ 64 \<le> w * 1000000 + f"
    and "w * 1000000 + f < 2 ^ 64 \<Longrightarrow> unat (of_nat w * kPiPer314ST + of_nat f :: u64) = w * 1000000 + f"
proof -
  have uw: "unat (of_nat w :: u64) = w" and uf: "unat (of_nat f :: u64) = f"
    using assms by (simp_all add: unat_of_nat)
  have k: "unat kPiPer314ST = 1000000" by (simp add: kPiPer314ST_def)
  show "(of_nat w > U64_MAX div kPiPer314ST \<or>
      (of_nat w :: u64) * kPiPer314ST > U64_MAX - of_nat f) \<longleftrightarrow> 2 ^ 64 \<le> w * 1000000 + f"
  proof (cases "of_nat w > U64_MAX div kPiPer314ST")
    case True
    then show ?thesis
      using mult_overflow [of kPiPer314ST "of_nat w"] by (simp add: uw k)
  next
    case False
    have m: "unat (of_nat w * kPiPer314ST) = w * 1000000"
      using no_mult_overflow [OF False] by (simp add: uw k)
    show ?thesis
    proof (cases "of_nat w * kPiPer314ST > U64_MAX - of_nat f")
      case True
      then show ?thesis using add_overflow [OF True] by (simp add: m uf)
    next
      case F2: False
      have "unat (of_nat w * kPiPer314ST + of_nat f) = w * 1000000 + f"
        using no_add_overflow [OF F2] by (simp add: m uf)
      then show ?thesis
        using False F2 unat_u64_less [of "of_nat w * kPiPer314ST + of_nat f"] by simp
    qed
  qed
  show "unat (of_nat w * kPiPer314ST + of_nat f :: u64) = w * 1000000 + f" if "w * 1000000 + f < 2 ^ 64"
    using that by (simp add: unat_word_ariths uw uf k)
qed

lemma split_at_point:
  assumes "CHR ''.'' \<in> set text"
  shows "text = takeWhile (\<lambda>c. c \<noteq> CHR ''.'') text @ CHR ''.'' # tl (dropWhile (\<lambda>c. c \<noteq> CHR ''.'') text)"
proof -
  have "dropWhile (\<lambda>c. c \<noteq> CHR ''.'') text \<noteq> []"
    using assms by simp
  moreover from this have "hd (dropWhile (\<lambda>c. c \<noteq> CHR ''.'') text) = CHR ''.''"
    using hd_dropWhile by blast
  ultimately show ?thesis
    by (metis hd_Cons_tl takeWhile_dropWhile_id)
qed

lemma point_not_digit [simp]: "\<not> in_range CHR ''.'' CHR ''0'' CHR ''9''"
  by (simp add: in_range_def)

lemma digits_no_point: "is_digits s \<Longrightarrow> CHR ''.'' \<notin> set s"
  by (auto simp: is_digits_def)

text \<open>The parser on each of the two shapes that pass the syntax checks, and on the rest.\<close>

definition pi_result :: "nat \<Rightarrow> u64 res" where
  "pi_result v = (if 2 ^ 64 \<le> v then Inl (AmountErr Amount_Overflow)
                  else if v = 0 then Inl (AmountErr Amount_Zero) else Inr (of_nat v))"

lemma parse_parts_value:
  assumes "is_digits whole" "is_digits frac" "length frac \<le> 6"
  shows "parse_parts whole frac =
    pi_result (dec_val whole * 1000000 + dec_val frac * 10 ^ (6 - length frac))"
proof -
  let ?f = "dec_val frac * 10 ^ (6 - length frac)"
  note fv = frac_value [OF assms(2,3)]
  show ?thesis
  proof (cases "dec_val whole < 2 ^ 64")
    case True
    then have aw: "accumulate whole 0 = Some (of_nat (dec_val whole))"
      using assms(1) by (simp add: accumulate_exact dec_val_from)
    note sv = scale_value [OF fv(4) True]
    have parts: "parse_parts whole frac =
        (if 2 ^ 64 \<le> dec_val whole * 1000000 + ?f then Inl (AmountErr Amount_Overflow)
         else let pi = of_nat (dec_val whole) * kPiPer314ST + of_nat ?f in
         if pi = 0 then Inl (AmountErr Amount_Zero) else Inr pi)"
      unfolding parse_parts_def aw fv(1,3) option.case Let_def using sv(1) by simp argo
    show ?thesis
    proof (cases "2 ^ 64 \<le> dec_val whole * 1000000 + ?f")
      case True
      then show ?thesis by (simp add: parts pi_result_def)
    next
      case False
      let ?p = "of_nat (dec_val whole) * kPiPer314ST + of_nat ?f :: u64"
      from False have up: "unat ?p = dec_val whole * 1000000 + ?f" by (intro sv(2)) simp
      then have "?p = of_nat (dec_val whole * 1000000 + ?f)"
        by (metis of_nat_unat ucast_id)
      moreover have "?p = 0 \<longleftrightarrow> dec_val whole * 1000000 + ?f = 0"
        using up by (metis unat_eq_zero)
      ultimately show ?thesis
        unfolding parts pi_result_def Let_def using False by (simp only: if_False)
    qed
  next
    case False
    then have "accumulate whole 0 = None"
      using assms(1) by (simp add: accumulate_exact dec_val_from)
    with False show ?thesis by (simp add: parse_parts_def pi_result_def)
  qed
qed


lemma bad_char_iff:
  "x \<notin> set s \<Longrightarrow> (\<exists>c \<in> set s. c \<noteq> x \<and> \<not> P c) \<longleftrightarrow> \<not> (\<forall>c \<in> set s. P c)"
  by auto

lemma bad_char_append_iff:
  "x \<notin> set s \<Longrightarrow> \<not> P x \<Longrightarrow>
   (\<exists>c \<in> set (s @ x # t). c \<noteq> x \<and> \<not> P c) \<or> x \<in> set t \<longleftrightarrow>
   \<not> ((\<forall>c \<in> set s. P c) \<and> (\<forall>c \<in> set t. P c))"
  by auto

lemma parse_no_point:
  assumes "CHR ''.'' \<notin> set text"
  shows "parse_314st_pi text =
    (if text \<noteq> [] \<and> is_digits text then parse_parts text []
     else Inl (AmountErr Amount_Syntax))"
proof -
  have dot: "str_find CHR ''.'' text = None" using assms by (simp add: str_find_def)
  have "has_bad_char text \<longleftrightarrow> \<not> is_digits text"
    unfolding is_digits_def has_bad_char_def by (rule bad_char_iff [OF assms])
  then show ?thesis unfolding parse_314st_pi_def dot Let_def by (simp only: option.case) simp
qed

lemma parse_point:
  assumes "CHR ''.'' \<notin> set whole"
  shows "parse_314st_pi (whole @ CHR ''.'' # frac) =
    (if whole \<noteq> [] \<and> is_digits whole \<and> frac \<noteq> [] \<and> is_digits frac
     then if length frac \<le> 6 then parse_parts whole frac
          else Inl (AmountErr Amount_Decimals)
     else Inl (AmountErr Amount_Syntax))"
proof -
  let ?t = "whole @ CHR ''.'' # frac"
  have "takeWhile (\<lambda>x. x \<noteq> CHR ''.'') ?t = whole"
    using assms by (subst takeWhile_append2) auto
  then have dot: "str_find CHR ''.'' ?t = Some (length whole)"
    by (simp add: str_find_def)
  have syn: "has_bad_char ?t \<or> CHR ''.'' \<in> set frac \<longleftrightarrow> \<not> (is_digits whole \<and> is_digits frac)"
    unfolding is_digits_def has_bad_char_def
    by (rule bad_char_append_iff) (rule assms point_not_digit)+
  show ?thesis
  proof (cases "has_bad_char ?t \<or> CHR ''.'' \<in> set frac")
    case True
    with syn show ?thesis
      by (auto simp: parse_314st_pi_def dot Let_def)
  next
    case False
    with syn show ?thesis
      by (simp add: parse_314st_pi_def dot Let_def)
  qed
qed

lemma amount_spec_point:
  assumes "CHR ''.'' \<notin> set whole"
  shows "amount_spec (whole @ CHR ''.'' # frac) =
    (if whole \<noteq> [] \<and> is_digits whole \<and> frac \<noteq> [] \<and> is_digits frac \<and> length frac \<le> 6
     then Some (dec_val whole * 1000000 + dec_val frac * 10 ^ (6 - length frac)) else None)"
proof -
  have "takeWhile (\<lambda>x. x \<noteq> CHR ''.'') (whole @ CHR ''.'' # frac) = whole"
    and "dropWhile (\<lambda>x. x \<noteq> CHR ''.'') (whole @ CHR ''.'' # frac) = CHR ''.'' # frac"
    using assms by (subst takeWhile_append2 dropWhile_append2; auto)+
  then show ?thesis by (simp add: amount_spec_def)
qed

lemma pi_result_Inr: "pi_result v = Inr pi \<longleftrightarrow> v = unat pi \<and> pi \<noteq> 0"
proof
  assume "pi_result v = Inr pi"
  then have "v < 2 ^ 64" "v \<noteq> 0" "pi = of_nat v"
    by (simp_all add: pi_result_def split: if_splits)
  then have "unat pi = v" by (simp add: unat_of_nat)
  with \<open>v \<noteq> 0\<close> show "v = unat pi \<and> pi \<noteq> 0" by auto
next
  assume "v = unat pi \<and> pi \<noteq> 0"
  then show "pi_result v = Inr pi"
    using unat_u64_less [of pi] by (simp add: pi_result_def unat_eq_zero)
qed

lemma parse_iff_spec: "parse_314st_pi text = Inr pi \<longleftrightarrow> amount_spec text = Some (unat pi) \<and> pi \<noteq> 0"
proof (cases "CHR ''.'' \<in> set text")
  case True
  let ?w = "takeWhile (\<lambda>c. c \<noteq> CHR ''.'') text"
  let ?f = "tl (dropWhile (\<lambda>c. c \<noteq> CHR ''.'') text)"
  have t: "text = ?w @ CHR ''.'' # ?f" by (rule split_at_point [OF True])
  have np: "CHR ''.'' \<notin> set ?w" by (auto dest: set_takeWhileD)
  have "parse_314st_pi (?w @ CHR ''.'' # ?f) = Inr pi \<longleftrightarrow>
      amount_spec (?w @ CHR ''.'' # ?f) = Some (unat pi) \<and> pi \<noteq> 0"
    unfolding parse_point [OF np] amount_spec_point [OF np]
    by (auto simp: parse_parts_value pi_result_Inr)
  with t show ?thesis by simp
next
  case False
  then show ?thesis
    by (auto simp: parse_no_point amount_spec_def parse_parts_value pi_result_Inr dec_val_def)
qed

subsection \<open>The printer is read back\<close>

lemma dec_from_dec_string: "dec_from a (dec_string n) = a * 10 ^ length (dec_string n) + n"
proof (induction n arbitrary: a rule: dec_string.induct)
  case (1 n)
  show ?case
  proof (cases "n < 10")
    case True
    then show ?thesis by (simp add: dec_string.simps [of n] digit_val_def)
  next
    case False
    then have "dec_from a (dec_string n) =
        10 * (a * 10 ^ length (dec_string (n div 10)) + n div 10) + n mod 10"
      using 1 by (simp add: dec_string.simps [of n] dec_from_append digit_val_def)
    with False show ?thesis by (simp add: dec_string.simps [of n] algebra_simps)
  qed
qed

lemma dec_string_digits: "is_digits (dec_string n)" "dec_string n \<noteq> []"
proof (induction n rule: dec_string.induct)
  case (1 n)
  { case 1 from "1.IH" show ?case
      by (auto simp: dec_string.simps [of n] in_range_def) }
  { case 2 show ?case by (simp add: dec_string.simps [of n]) }
qed

lemma length_dec_string: "n < 10 ^ k \<Longrightarrow> 0 < k \<Longrightarrow> length (dec_string n) \<le> k"
proof (induction k arbitrary: n)
  case (Suc k)
  show ?case
  proof (cases "n < 10")
    case False
    then have "0 < k" using Suc.prems(1) by (cases k) auto
    moreover have "n div 10 < 10 ^ k" using Suc.prems(1) by (simp add: less_mult_imp_div_less)
    ultimately show ?thesis using Suc.IH False by (simp add: dec_string.simps [of n])
  qed (simp add: dec_string.simps)
qed simp

lemma dec_val_dec_string [simp]: "dec_val (dec_string n) = n"
  by (simp add: dec_val_from dec_from_dec_string)

lemma dec_from_zeros: "dec_from 0 (replicate k CHR ''0'') = 0"
  by (induction k) (simp_all add: digit_val_def)

lemma pad0_dec_string:
  assumes "n < 1000000"
  shows "length (pad0 6 (dec_string n)) = 6" "is_digits (pad0 6 (dec_string n))"
    "dec_val (pad0 6 (dec_string n)) = n"
proof -
  have "length (dec_string n) \<le> 6" using assms by (intro length_dec_string) auto
  then show "length (pad0 6 (dec_string n)) = 6" by (simp add: pad0_def)
  show "is_digits (pad0 6 (dec_string n))"
    by (simp add: pad0_def dec_string_digits) (simp add: is_digits_def in_range_def)
  show "dec_val (pad0 6 (dec_string n)) = n"
    by (simp add: pad0_def dec_val_from dec_from_append dec_from_zeros dec_from_dec_string)
qed

lemma format_spec: "amount_spec (format_314st_pi pi) = Some (unat pi)"
proof -
  let ?q = "unat (pi div kPiPer314ST)" and ?r = "unat (pi mod kPiPer314ST)"
  have q: "?q = unat pi div 1000000" and r: "?r = unat pi mod 1000000"
    by (simp_all add: kPiPer314ST_def unat_div unat_mod)
  then have lt: "?r < 1000000" by simp
  have "CHR ''.'' \<notin> set (dec_string ?q)"
    using dec_string_digits digits_no_point by blast
  moreover have "pad0 6 (dec_string ?r) \<noteq> []"
    using pad0_dec_string(1) [OF lt] by auto
  ultimately show ?thesis
    unfolding format_314st_pi_def using pad0_dec_string [OF lt] dec_string_digits
    by (simp add: amount_spec_point q r)
qed


lemma parse_format: "parse_314st_pi (format_314st_pi pi) = pi_result (unat pi)"
proof -
  let ?q = "unat (pi div kPiPer314ST)" and ?r = "unat (pi mod kPiPer314ST)"
  have q: "?q = unat pi div 1000000" and r: "?r = unat pi mod 1000000"
    by (simp_all add: kPiPer314ST_def unat_div unat_mod)
  then have lt: "?r < 1000000" by simp
  have "CHR ''.'' \<notin> set (dec_string ?q)"
    using dec_string_digits digits_no_point by blast
  moreover have "pad0 6 (dec_string ?r) \<noteq> []"
    using pad0_dec_string(1) [OF lt] by auto
  ultimately show ?thesis
    unfolding format_314st_pi_def using pad0_dec_string [OF lt] dec_string_digits
    by (simp add: parse_point parse_parts_value q r)
qed

subsection \<open>Properties\<close>

text \<open>
  the amount parser is exact. It accepts a text with the value \<open>pi\<close> just when the text
  is a decimal amount (digits, optionally a point and one to six digits) whose meaning in
  millionths is \<open>pi\<close>, a positive number that fits 64 bits. Nothing wraps around, and
  nothing is rounded.
\<close>

theorem amount_parse_exact:
  "parse_314st_pi text = Inr pi \<longleftrightarrow> amount_spec text = Some (unat pi) \<and> pi \<noteq> 0"
  by (rule parse_iff_spec)

text \<open>
  The parser reads back what the printer writes. Every amount but zero survives the
  round trip, and zero is the one printed amount the parser refuses.
\<close>

theorem amount_round_trip:
  "parse_314st_pi (format_314st_pi pi) =
     (if pi = 0 then Inl (AmountErr Amount_Zero) else Inr pi)"
  using unat_u64_less [of pi] by (simp add: parse_format pi_result_def unat_eq_zero)

end
