(* ===== verification/Retarget.thy ===== *)
theory Retarget
  imports Prelude
begin

text \<open>
  \<open>include/pisecured/retarget.hpp\<close>: the difficulty retarget of the 2-24 bit band.

  \<open>round_log2\<close> is the integer nearest to the binary logarithm, computed with a shift loop
  and one 128-bit comparison; \<open>retarget_difficulty_bits\<close> scales the work \<open>2 ^ bits\<close> by
  \<open>540 / elapsed\<close> with both factors clamped. The lemmas give the meaning of the
  logarithm, show that nothing overflows, and bound the answer.
\<close>

definition kRetargetMinBits :: u32 where "kRetargetMinBits = 2"
definition kRetargetMaxBits :: u32 where "kRetargetMaxBits = 24"
definition kRetargetTargetSeconds :: u64 where "kRetargetTargetSeconds = 540"

text \<open>\<open>while (shifted > 1) { shifted >>= 1; ++floor; }\<close>\<close>

function floor_loop :: "u64 \<Rightarrow> u32 \<Rightarrow> u32" where
  "floor_loop shifted floor =
     (if shifted > 1 then floor_loop (drop_bit 1 shifted) (floor + 1) else floor)"
  by pat_completeness auto
termination
proof (relation "measure (\<lambda>(s, f). unat s)", simp)
  fix s :: u64 and f :: u32
  assume "1 < s"
  then have "1 < unat s" by (simp add: word_less_nat_alt)
  then have "unat (drop_bit 1 s) < unat s"
    by (simp only: unat_drop_bit_eq) (simp add: drop_bit_Suc)
  then show "((drop_bit 1 s, f + 1), s, f) \<in> measure (\<lambda>(s, f). unat s)" by simp
qed

declare floor_loop.simps [simp del]

definition round_log2 :: "u64 \<Rightarrow> u32" where
  "round_log2 value =
    (if value \<le> 1 then 0
     else
       let floor = floor_loop value 0;
           base = push_bit (unat floor) 1 :: u64;
           squared = (ucast value :: 128 word) * ucast value;
           half = (ucast base :: 128 word) * ucast base * 2 in
       if squared \<ge> half then floor + 1 else floor)"

text \<open>\<open>elapsed\<close> is an \<open>int64_t\<close>, a 64-bit word read with \<open>sint\<close>.\<close>

definition retarget_difficulty_bits :: "u32 \<Rightarrow> u64 \<Rightarrow> u32" where
  "retarget_difficulty_bits bits0 elapsed =
    (let bits1 = (if bits0 < kRetargetMinBits then kRetargetMinBits else bits0);
         bits = (if bits1 > kRetargetMaxBits then kRetargetMaxBits else bits1) in
     if sint elapsed \<le> 0 then bits
     else
       let min_span = kRetargetTargetSeconds div 4;
           max_span = kRetargetTargetSeconds * 4;
           span1 = (if elapsed < min_span then min_span else elapsed);
           span = (if span1 > max_span then max_span else span1);
           work = push_bit (unat bits) 1 :: u64;
           next_work0 = work * kRetargetTargetSeconds div span;
           min_work = work div 4;
           max_work = work * 4;
           next_work1 = (if next_work0 < min_work then min_work else next_work0);
           next_work2 = (if next_work1 > max_work then max_work else next_work1);
           next_work = (if next_work2 < 1 then 1 else next_work2);
           next_bits0 = round_log2 next_work;
           next_bits1 = (if next_bits0 < kRetargetMinBits then kRetargetMinBits else next_bits0) in
       if next_bits1 > kRetargetMaxBits then kRetargetMaxBits else next_bits1)"

subsection \<open>The rounded logarithm\<close>

lemma unat_shift1: "unat (drop_bit 1 (s :: u64)) = unat s div 2"
  by (simp only: unat_drop_bit_eq) (simp add: drop_bit_Suc)

lemma unat_power2 [simp]: "k < 64 \<Longrightarrow> unat ((2 :: u64) ^ k) = 2 ^ k"
proof -
  assume "k < 64"
  then have "(2::nat) ^ k < 2 ^ 64" by (intro power_strict_increasing) auto
  then have "unat (of_nat (2 ^ k) :: u64) = 2 ^ k" by (simp only: unat_of_nat) simp
  then show ?thesis by simp
qed

lemma unat_ucast128 [simp]: "unat (ucast (v :: u64) :: 128 word) = unat v"
  using unat_u64_less [of v]
  by (simp add: unsigned_ucast_eq take_bit_nat_eq_self_iff)

lemma floor_loop_spec:
  "0 < unat s \<Longrightarrow> unat s * 2 ^ unat f < 2 ^ 64 \<Longrightarrow>
   \<exists>k. unat (floor_loop s f) = unat f + k \<and> 2 ^ k \<le> unat s \<and> unat s < 2 ^ Suc k"
proof (induction s f rule: floor_loop.induct)
  case (1 s f)
  show ?case
  proof (cases "1 < unat s")
    case False
    with 1(2) have "unat s = 1" by simp
    then have "\<not> 1 < s" by (simp add: word_less_nat_alt)
    then have "floor_loop s f = f" by (simp add: floor_loop.simps [of s f])
    with \<open>unat s = 1\<close> show ?thesis by (intro exI [of _ 0]) simp
  next
    case True
    then have g: "1 < s" by (simp add: word_less_nat_alt)
    have "(2::nat) ^ unat f \<le> unat s * 2 ^ unat f" using True by simp
    with 1(3) have "(2::nat) ^ unat f < 2 ^ 64" by (rule order.strict_trans1 [rotated])
    then have "unat f < 64" by (rule power_less_imp_less_exp [rotated]) simp
    then have f1: "unat (f + 1) = unat f + 1" by (simp add: unat_word_ariths)
    have half: "unat (drop_bit 1 s) = unat s div 2" by (rule unat_shift1)
    have "unat s div 2 * 2 ^ (unat f + 1) \<le> unat s * 2 ^ unat f" by simp
    with 1(3) have "unat (drop_bit 1 s) * 2 ^ unat (f + 1) < 2 ^ 64"
      unfolding half f1 by (rule order.strict_trans1 [rotated])
    moreover have "0 < unat (drop_bit 1 s)" using True by (simp only: half; simp)
    ultimately obtain k where k: "unat (floor_loop (drop_bit 1 s) (f + 1)) = unat (f + 1) + k"
        "2 ^ k \<le> unat s div 2" "unat s div 2 < 2 ^ Suc k"
      using 1(1) [OF g] unfolding half by blast
    have "unat (floor_loop s f) = unat f + Suc k"
      using g k(1) f1 by (simp add: floor_loop.simps [of s f])
    with k(2,3) show ?thesis by (intro exI [of _ "Suc k"]) auto
  qed
qed

text \<open>
  The comparison decides between the two neighbours: the result \<open>n\<close> is the nearest integer
  to \<open>log2 v\<close>, that is \<open>2 ^ (n - 1/2) \<le> v < 2 ^ (n + 1/2)\<close>, squared to stay in the integers.
\<close>

lemma round_log2_nearest:
  assumes "0 < unat v"
  shows "4 ^ unat (round_log2 v) \<le> 2 * (unat v)\<^sup>2 \<and> (unat v)\<^sup>2 < 2 * 4 ^ unat (round_log2 v)"
    and "unat (round_log2 v) \<le> 64"
proof -
  have "4 ^ unat (round_log2 v) \<le> 2 * (unat v)\<^sup>2 \<and> (unat v)\<^sup>2 < 2 * 4 ^ unat (round_log2 v) \<and>
      unat (round_log2 v) \<le> 64"
  proof (cases "v \<le> 1")
    case True
    with assms have "unat v = 1" by (simp add: word_le_nat_alt)
    with True show ?thesis by (simp add: round_log2_def)
  next
    case False
    obtain k where k: "unat (floor_loop v 0) = k" "2 ^ k \<le> unat v" "unat v < 2 ^ Suc k"
      using floor_loop_spec [of v 0] assms unat_u64_less [of v] by auto
    have "(2::nat) ^ k < 2 ^ 64" using k(2) unat_u64_less [of v] by (rule order.strict_trans1)
    then have k64: "k < 64" by (rule power_less_imp_less_exp [rotated]) simp
    define base :: u64 where "base = 2 ^ k"
    have ub: "unat base = 2 ^ k"
      using k64 by (simp add: base_def)
    have usq: "unat ((ucast v :: 128 word) * ucast v) = (unat v)\<^sup>2"
    proof -
      have "unat v * unat v < 2 ^ 64 * 2 ^ 64"
        using unat_u64_less [of v] by (intro mult_strict_mono) auto
      then show ?thesis by (simp add: unat_word_ariths power2_eq_square)
    qed
    have uhalf: "unat ((ucast base :: 128 word) * ucast base * 2) = 2 * 4 ^ k"
    proof -
      have "(4::nat) ^ k * 2 < 2 ^ 128"
      proof -
        have "(4::nat) ^ k * 2 = 2 ^ (2 * k + 1)" by (simp add: power_mult)
        also have "\<dots> < 2 ^ 128" using k64 by (intro power_strict_increasing) auto
        finally show ?thesis .
      qed
      moreover have "(2::nat) ^ k * 2 ^ k = 4 ^ k"
        by (simp flip: power_mult_distrib)
      moreover have "(4::nat) ^ k < 2 ^ 128" using calculation(1) by simp
      ultimately show ?thesis by (simp add: unat_word_ariths ub)
    qed
    have r: "round_log2 v = (if 2 * 4 ^ k \<le> (unat v)\<^sup>2 then floor_loop v 0 + 1 else floor_loop v 0)"
      using False by (simp add: round_log2_def Let_def k(1) word_le_nat_alt usq uhalf flip: base_def)
    have up: "unat (floor_loop v 0 + 1) = Suc k"
      using k(1) k64 by (simp add: unat_word_ariths)
    have sq: "4 ^ k \<le> (unat v)\<^sup>2" "(unat v)\<^sup>2 < 4 ^ Suc k"
    proof -
      have "(2 ^ k)\<^sup>2 \<le> (unat v)\<^sup>2" using k(2) by (rule power_mono) simp
      then show "4 ^ k \<le> (unat v)\<^sup>2" by (simp add: power_even_eq [symmetric] power_mult)
      have "(unat v)\<^sup>2 < (2 ^ Suc k)\<^sup>2" using k(3) by (rule power_strict_mono) auto
      then show "(unat v)\<^sup>2 < 4 ^ Suc k" by (metis power_mult mult.commute power2_eq_square num_double numeral_times_numeral)
    qed
    show ?thesis
      using sq k64 by (simp add: r k(1) up)
  qed
  then show "4 ^ unat (round_log2 v) \<le> 2 * (unat v)\<^sup>2 \<and> (unat v)\<^sup>2 < 2 * 4 ^ unat (round_log2 v)"
    and "unat (round_log2 v) \<le> 64" by blast+
qed

lemma pow4_less_iff: "(4::nat) ^ m * 4 \<le> 4 ^ n \<longleftrightarrow> m < n"
proof -
  have "(4::nat) ^ m * 4 \<le> 4 ^ n \<longleftrightarrow> (4::nat) ^ Suc m \<le> 4 ^ n" by (simp add: mult.commute)
  also have "\<dots> \<longleftrightarrow> Suc m \<le> n" by (rule power_increasing_iff) simp
  finally show ?thesis by (simp add: Suc_le_eq)
qed

lemma round_log2_mono:
  assumes "0 < unat v" "unat v \<le> unat w"
  shows "unat (round_log2 v) \<le> unat (round_log2 w)"
proof (rule ccontr)
  assume "\<not> ?thesis"
  then have "(4::nat) ^ unat (round_log2 w) * 4 \<le> 4 ^ unat (round_log2 v)"
    by (simp add: pow4_less_iff)
  also have "\<dots> \<le> 2 * (unat v)\<^sup>2" using round_log2_nearest(1) [OF assms(1)] by blast
  also have "\<dots> \<le> 2 * (unat w)\<^sup>2" using assms(2) by (simp add: power_mono)
  also have "\<dots> < 4 * 4 ^ unat (round_log2 w)"
    using round_log2_nearest(1) [of w] assms by simp
  finally show False by simp
qed

lemma round_log2_power:
  assumes "unat v = 2 ^ k" shows "unat (round_log2 v) = k"
proof -
  have sq: "(unat v)\<^sup>2 = 4 ^ k"
    using assms by (simp add: power2_eq_square flip: power_mult_distrib)
  note n = round_log2_nearest(1) [of v, unfolded sq]
  have "\<not> k < unat (round_log2 v)"
  proof
    assume "k < unat (round_log2 v)"
    then have "(4::nat) ^ k * 4 \<le> 4 ^ unat (round_log2 v)" by (simp only: pow4_less_iff)
    with n assms show False by simp
  qed
  moreover have "\<not> unat (round_log2 v) < k"
  proof
    assume "unat (round_log2 v) < k"
    then have "(4::nat) ^ unat (round_log2 v) * 4 \<le> 4 ^ k" by (simp only: pow4_less_iff)
    with n assms show False by simp
  qed
  ultimately show ?thesis by simp
qed

subsection \<open>The retarget rule on naturals\<close>

definition clamp_bits :: "u32 \<Rightarrow> nat" where
  "clamp_bits bits = max 2 (min 24 (unat bits))"

definition clamp_span :: "u64 \<Rightarrow> nat" where
  "clamp_span elapsed = max 135 (min 2160 (unat elapsed))"

definition next_work_spec :: "u32 \<Rightarrow> u64 \<Rightarrow> nat" where
  "next_work_spec bits elapsed = 2 ^ clamp_bits bits * 540 div clamp_span elapsed"

lemma clamp_bits_bounds: "2 \<le> clamp_bits b" "clamp_bits b \<le> 24"
  by (auto simp: clamp_bits_def)

lemma clamp_span_bounds: "135 \<le> clamp_span e" "clamp_span e \<le> 2160"
  by (auto simp: clamp_span_def)

lemma sint_pos_unat: "0 < sint (e :: u64) \<Longrightarrow> sint e = int (unat e)"
proof -
  assume pos: "0 < sint e"
  have "sint e < 2 ^ 63" using sint_range_size [of e] by (simp add: word_size)
  with pos have "take_bit 64 (sint e) = sint e" by (simp add: take_bit_int_eq_self_iff)
  then show ?thesis using uint_sint [of e] by simp
qed

lemma next_work_bounds:
  "2 ^ clamp_bits b \<le> 4 * next_work_spec b e" "next_work_spec b e \<le> 4 * 2 ^ clamp_bits b"
proof -
  let ?w = "2 ^ clamp_bits b :: nat" and ?s = "clamp_span e"
  have "?w * 540 \<le> (?w * 4) * ?s" using clamp_span_bounds(1) [of e] by simp
  then show "next_work_spec b e \<le> 4 * ?w"
    unfolding next_work_spec_def
    using clamp_span_bounds(1) [of e] by (metis mult.commute div_le_mono nonzero_mult_div_cancel_right not_numeral_le_zero)
  have "(4::nat) dvd ?w" using clamp_bits_bounds(1) [of b] by (metis dvd_triv_left le_imp_power_dvd numeral_Bit0 power2_eq_square mult_2 numeral_eq_Suc power2_eq_square semiring_norm(13) num_double numeral_times_numeral)
  then obtain q where q: "?w = 4 * q" ..
  have "q * ?s \<le> ?w * 540" using clamp_span_bounds(2) [of e] unfolding q by simp
  then have "q \<le> next_work_spec b e"
    unfolding next_work_spec_def
    using clamp_span_bounds(1) [of e] by (simp add: less_eq_div_iff_mult_less_eq)
  then show "?w \<le> 4 * next_work_spec b e" using q by simp
qed

lemma next_work_pos: "0 < next_work_spec b e"
  using next_work_bounds(1) [of b e] by (cases "next_work_spec b e") auto

lemma next_work_mono: "unat e1 \<le> unat e2 \<Longrightarrow> next_work_spec b e2 \<le> next_work_spec b e1"
  unfolding next_work_spec_def clamp_span_def by (intro div_le_mono2) auto

text \<open>
  The two clamps of the work and the floor at one never bite, and the product
  \<open>work * 540\<close> stays below \<open>2 ^ 64\<close>: the machine computation is the rule above.
\<close>

lemma retarget_positive:
  assumes "0 < sint e"
  obtains w :: u64 where "unat w = next_work_spec b e"
    "unat (retarget_difficulty_bits b e) = max 2 (min 24 (unat (round_log2 w)))"
proof -
  define bits where "bits = (let b1 = (if b < 2 then 2 else b) in if b1 > 24 then 24 else b1)"
  define span where "span = (let s1 = (if e < 540 div 4 then 540 div 4 else e) in if s1 > 540 * 4 then 540 * 4 else s1)"
  define work where "work = (push_bit (unat bits) 1 :: u64)"
  have ubits: "unat bits = clamp_bits b"
    by (auto simp: bits_def clamp_bits_def Let_def word_less_nat_alt)
  have uspan: "unat span = clamp_span e"
    by (auto simp: span_def clamp_span_def Let_def word_less_nat_alt)
  have uwork: "unat work = 2 ^ clamp_bits b"
    using clamp_bits_bounds [of b] by (simp add: work_def ubits)
  have "(2::nat) ^ clamp_bits b \<le> 2 ^ 24"
    using clamp_bits_bounds [of b] by (intro power_increasing) auto
  then have small: "(2::nat) ^ clamp_bits b \<le> 16777216" by simp
  have uw: "unat (work * 540 div span) = next_work_spec b e"
    using small by (simp add: next_work_spec_def unat_div unat_word_ariths uwork uspan)
  have lo: "\<not> work * 540 div span < work div 4"
    using next_work_bounds(1) [of b e] by (simp only: word_less_nat_alt uw) (simp add: unat_div uwork)
  have hi: "\<not> work * 540 div span > work * 4"
    using next_work_bounds(2) [of b e] small
    by (simp only: word_less_nat_alt uw) (simp add: unat_word_ariths uwork)
  have one: "\<not> work * 540 div span < 1"
    using next_work_pos [of b e] by (simp only: word_less_nat_alt uw; simp)
  define w where "w = work * 540 div span"
  have "retarget_difficulty_bits b e =
      (let n0 = w; n1 = (if n0 < work div 4 then work div 4 else n0);
           n2 = (if n1 > work * 4 then work * 4 else n1); n3 = (if n2 < 1 then 1 else n2);
           n = (if round_log2 n3 < 2 then 2 else round_log2 n3) in if n > 24 then 24 else n)"
    unfolding retarget_difficulty_bits_def kRetargetMinBits_def kRetargetMaxBits_def
      kRetargetTargetSeconds_def Let_def w_def work_def span_def bits_def
    using assms by (subst if_not_P) (auto simp only: not_le)
  then have "retarget_difficulty_bits b e =
      (let n = (if round_log2 w < 2 then 2 else round_log2 w) in if n > 24 then 24 else n)"
    using lo hi one by (simp only: w_def [symmetric] Let_def if_False)
  then have "unat (retarget_difficulty_bits b e) = max 2 (min 24 (unat (round_log2 w)))"
    by (auto simp: Let_def word_less_nat_alt)
  with uw show thesis by (intro that) (simp_all add: w_def)
qed

lemma round_log2_upper:
  assumes "0 < unat v" "unat v \<le> 2 ^ k" "k < 64" shows "unat (round_log2 v) \<le> k"
  using round_log2_mono [of v "2 ^ k"] round_log2_power [of "2 ^ k" k] assms by simp

lemma round_log2_lower:
  assumes "2 ^ k \<le> unat v" "k < 64" shows "k \<le> unat (round_log2 v)"
  using round_log2_mono [of "2 ^ k" v] round_log2_power [of "2 ^ k" k] assms by simp

lemma retarget_nonpositive:
  "sint e \<le> 0 \<Longrightarrow> unat (retarget_difficulty_bits b e) = clamp_bits b"
  by (auto simp: retarget_difficulty_bits_def kRetargetMinBits_def kRetargetMaxBits_def
      Let_def clamp_bits_def word_less_nat_alt)

lemma retarget_within_two:
  "unat (retarget_difficulty_bits b e) \<le> clamp_bits b + 2 \<and>
   clamp_bits b \<le> unat (retarget_difficulty_bits b e) + 2"
proof (cases "sint e \<le> 0")
  case True
  then show ?thesis by (simp add: retarget_nonpositive)
next
  case False
  then obtain w :: u64 where w: "unat w = next_work_spec b e"
    "unat (retarget_difficulty_bits b e) = max 2 (min 24 (unat (round_log2 w)))"
    using retarget_positive [of e b] by auto
  obtain k where k: "clamp_bits b = k + 2" "k \<le> 22"
    using clamp_bits_bounds [of b] by (intro that [of "clamp_bits b - 2"]) auto
  have pow: "(2::nat) ^ (k + 2) = 4 * 2 ^ k" "(2::nat) ^ (k + 4) = 4 * 2 ^ (k + 2)"
    by (simp_all add: power_add)
  have "unat w \<le> 2 ^ (k + 4)"
    using next_work_bounds(2) [of b e] by (simp only: w(1) k(1) pow(2))
  then have hi: "unat (round_log2 w) \<le> k + 4"
    using k(2) next_work_pos [of b e] w(1) by (intro round_log2_upper) auto
  have "2 ^ k \<le> unat w"
    using next_work_bounds(1) [of b e] pow(1) by (simp add: w(1) k(1))
  then have "k \<le> unat (round_log2 w)"
    using k(2) by (intro round_log2_lower) auto
  with hi w(2) k show ?thesis by auto
qed

lemma retarget_range: "unat (retarget_difficulty_bits b e) \<in> {2..24}"
proof (cases "sint e \<le> 0")
  case True
  then show ?thesis using clamp_bits_bounds [of b] by (simp add: retarget_nonpositive)
next
  case False
  then obtain w :: u64 where
    "unat (retarget_difficulty_bits b e) = max 2 (min 24 (unat (round_log2 w)))"
    using retarget_positive [of e b] by auto
  then show ?thesis by auto
qed

text \<open>C1: For every pair of inputs the retarget answers a difficulty of 2 to 24 bits that is
  at most two bits away from the (clamped) current difficulty, and blocks that arrive exactly
  on schedule (nine gaps in 540 seconds) leave the difficulty unchanged.\<close>

theorem retarget_bounds:
  "unat (retarget_difficulty_bits b e) \<in> {2..24} \<and>
   \<bar>int (unat (retarget_difficulty_bits b e)) - int (clamp_bits b)\<bar> \<le> 2 \<and>
   unat (retarget_difficulty_bits b kRetargetTargetSeconds) = clamp_bits b"
proof (intro conjI)
  show "unat (retarget_difficulty_bits b e) \<in> {2..24}" by (rule retarget_range)
  show "\<bar>int (unat (retarget_difficulty_bits b e)) - int (clamp_bits b)\<bar> \<le> 2"
    using retarget_within_two [of b e] by linarith
  obtain w :: u64 where w: "unat w = next_work_spec b 540"
    "unat (retarget_difficulty_bits b 540) = max 2 (min 24 (unat (round_log2 w)))"
    using retarget_positive [of 540 b] by auto
  have "unat w = 2 ^ clamp_bits b" by (simp add: w(1) next_work_spec_def clamp_span_def)
  then show "unat (retarget_difficulty_bits b kRetargetTargetSeconds) = clamp_bits b"
    using clamp_bits_bounds [of b] w(2) round_log2_power [of w "clamp_bits b"]
    by (simp only: kRetargetTargetSeconds_def)
qed

text \<open>The retarget is monotone: the longer the last nine gaps took, the lower (or equal)
  the next difficulty, for any two positive spans and any current difficulty.\<close>

theorem retarget_antitone:
  assumes "0 < sint e1" "sint e1 \<le> sint e2"
  shows "retarget_difficulty_bits b e2 \<le> retarget_difficulty_bits b e1"
proof -
  obtain w1 :: u64 where w1: "unat w1 = next_work_spec b e1"
    "unat (retarget_difficulty_bits b e1) = max 2 (min 24 (unat (round_log2 w1)))"
    using retarget_positive [OF assms(1)] by blast
  obtain w2 :: u64 where w2: "unat w2 = next_work_spec b e2"
    "unat (retarget_difficulty_bits b e2) = max 2 (min 24 (unat (round_log2 w2)))"
    using retarget_positive [of e2 b] assms by (metis order.strict_trans2)
  have "0 < sint e2" using assms by linarith
  then have "int (unat e1) \<le> int (unat e2)"
    using assms sint_pos_unat [of e1] sint_pos_unat [of e2] by argo
  then have "unat e1 \<le> unat e2" by linarith
  then have "unat (round_log2 w2) \<le> unat (round_log2 w1)"
    using next_work_mono next_work_pos by (intro round_log2_mono) (simp_all add: w1(1) w2(1))
  then show ?thesis by (simp add: word_le_nat_alt w1(2) w2(2))
qed

lemma retarget_antitone_witness:
  "0 < sint (300 :: u64) \<and> sint (300 :: u64) \<le> sint (1000 :: u64) \<and>
   retarget_difficulty_bits 8 1000 \<le> retarget_difficulty_bits 8 300"
  using retarget_antitone [of 300 1000 8] by simp

end
