(* ===== verification/Emission.thy ===== *)
theory Emission
  imports Amount
begin

text \<open>
  The money rules of \<open>include/pisecured/chain_rpc.hpp\<close> and of the coinbase part of
  \<open>chain_rpc.cpp\<close>: block subsidy, minimum fee and amount scale by height, the split of the
  fees, the coinbase outputs a template pays and the check a submitted coinbase must pass.

  Amounts are \<open>uint64_t\<close> words and all sums and products wrap as in the code; the lemmas
  give the range in which none of them does.
\<close>

subsection \<open>Constants and rules by height (chain_rpc.hpp)\<close>

definition kDifficultyActivationHeight :: u32 where "kDifficultyActivationHeight = 1"
definition kMiner216ActivationHeight :: u32 where "kMiner216ActivationHeight = 32"
definition kLegacyMinerSubsidy :: u64 where "kLegacyMinerSubsidy = 198"
definition kSubsidyUnits :: u64 where "kSubsidyUnits = 200"
definition kSubsidyUnitsAfterActivation :: u64 where "kSubsidyUnitsAfterActivation = 218"
definition kValidatorUnits :: u64 where "kValidatorUnits = 2"
definition kPiActivationHeight :: u32 where "kPiActivationHeight = 3000"
definition kPiPerOldUnit :: u64 where "kPiPerOldUnit = 1000"
definition kSubsidyPi :: u64 where "kSubsidyPi = 218000"
definition kValidatorPi :: u64 where "kValidatorPi = 2000"
definition kMinFeePi :: u64 where "kMinFeePi = 314"

lemmas emission_consts =
  kDifficultyActivationHeight_def kMiner216ActivationHeight_def kLegacyMinerSubsidy_def
  kSubsidyUnits_def kSubsidyUnitsAfterActivation_def kValidatorUnits_def kPiActivationHeight_def
  kPiPerOldUnit_def kSubsidyPi_def kValidatorPi_def kMinFeePi_def

definition subsidy_for_height :: "u32 \<Rightarrow> u64" where
  "subsidy_for_height height =
     (if height \<ge> kPiActivationHeight then kSubsidyPi
      else if height \<ge> kMiner216ActivationHeight then kSubsidyUnitsAfterActivation
      else kSubsidyUnits)"

definition validator_for_height :: "u32 \<Rightarrow> u64" where
  "validator_for_height height =
     (if height \<ge> kPiActivationHeight then kValidatorPi else kValidatorUnits)"

definition miner_subsidy_for_height :: "u32 \<Rightarrow> u64" where
  "miner_subsidy_for_height height = subsidy_for_height height - validator_for_height height"

definition min_fee_for_height :: "u32 \<Rightarrow> u64" where
  "min_fee_for_height height = (if height \<ge> kPiActivationHeight then kMinFeePi else 1)"

definition amount_scale_for_next :: "u32 \<Rightarrow> u32" where
  "amount_scale_for_next next_height =
     (if next_height \<ge> kPiActivationHeight then ucast kPiPerOldUnit else 1)"

definition stored_to_pi :: "u64 \<Rightarrow> u32 \<Rightarrow> u64 option" where
  "stored_to_pi stored created_height =
     (if created_height \<ge> kPiActivationHeight then Some stored
      else if stored > U64_MAX div kPiPerOldUnit then None
      else Some (stored * kPiPerOldUnit))"

subsection \<open>Split of the fees\<close>

record fee_shares_t =
  sh_miner :: u64
  sh_stakers :: u64
  sh_loans :: u64
  sh_foundation :: u64
  sh_burn :: u64

definition fee_shares :: "u64 \<Rightarrow> fee_shares_t" where
  "fee_shares fee =
     (let miner = fee * 60 div 100;
          stakers = fee * 20 div 100;
          loans = fee * 8 div 100;
          foundation = fee * 7 div 100 in
      \<lparr> sh_miner = miner, sh_stakers = stakers, sh_loans = loans, sh_foundation = foundation,
        sh_burn = fee - (miner + stakers + loans + foundation) \<rparr>)"

text \<open>\<open>coinbase_subsidy_ok\<close>: the amounts a coinbase of this height must pay.\<close>

definition coinbase_subsidy_ok :: "u32 \<Rightarrow> u64 \<Rightarrow> u64 \<Rightarrow> u64 \<Rightarrow> unit res" where
  "coinbase_subsidy_ok height fee paid_miner paid_validator =
     (if height \<ge> kPiActivationHeight \<and>
         (paid_miner = 216 \<or> paid_miner = 218 \<or> paid_miner = kLegacyMinerSubsidy)
      then Inl (CoinbaseErr Subsidy_Mismatch)
      else if paid_validator \<noteq> validator_for_height height
      then Inl (CoinbaseErr Validator_Amount)
      else
        let shares = fee_shares fee;
            miner_due = miner_subsidy_for_height height + sh_miner shares in
        if height \<ge> kMiner216ActivationHeight
        then (if paid_miner \<noteq> miner_due then Inl (CoinbaseErr Subsidy_Mismatch) else Inr ())
        else
          let miner_legacy = kLegacyMinerSubsidy + sh_miner shares;
              miner_full = (kSubsidyUnitsAfterActivation - kValidatorUnits) + sh_miner shares in
          if paid_miner \<noteq> miner_legacy \<and> paid_miner \<noteq> miner_full
          then Inl (CoinbaseErr Subsidy_Mismatch) else Inr ())"

subsection \<open>Emission and the coinbase of a template (chain_rpc.cpp)\<close>

record emission =
  em_subsidy :: u64
  em_miner_subsidy :: u64
  em_validator :: u64
  em_fee :: u64
  em_miner_fee :: u64
  em_stakers :: u64
  em_loans :: u64
  em_foundation :: u64
  em_burn :: u64

definition miner_cap :: "emission \<Rightarrow> u64" where
  "miner_cap e = em_miner_subsidy e + em_miner_fee e"

definition emission_for :: "u32 \<Rightarrow> u64 \<Rightarrow> emission" where
  "emission_for height fee =
     (let subsidy = subsidy_for_height height;
          validator = validator_for_height height;
          shares = fee_shares fee in
      \<lparr> em_subsidy = subsidy, em_miner_subsidy = subsidy - validator, em_validator = validator,
        em_fee = fee, em_miner_fee = sh_miner shares, em_stakers = sh_stakers shares,
        em_loans = sh_loans shares, em_foundation = sh_foundation shares,
        em_burn = sh_burn shares \<rparr>)"

record cb_out =
  cb_role :: string
  cb_address :: string
  cb_units :: u64

definition kFoundationPayout :: string where
  "kFoundationPayout = ''ps1522db177e6452cbb6e48f296b19e6f2bdeb5b5e7a41a9552eb60a01464c3a5ba''"

definition template_coinbase :: "string \<Rightarrow> string \<Rightarrow> emission \<Rightarrow> cb_out list" where
  "template_coinbase wallet validator e =
     [\<lparr> cb_role = ''miner'', cb_address = wallet, cb_units = miner_cap e \<rparr>,
      \<lparr> cb_role = ''validator'', cb_address = validator, cb_units = em_validator e \<rparr>] @
     (if em_stakers e > 0
      then [\<lparr> cb_role = ''stakers'', cb_address = ''stakers'', cb_units = em_stakers e \<rparr>] else []) @
     (if em_loans e > 0
      then [\<lparr> cb_role = ''loans'', cb_address = ''loans'', cb_units = em_loans e \<rparr>] else []) @
     (if em_foundation e > 0
      then [\<lparr> cb_role = ''foundation'', cb_address = kFoundationPayout, cb_units = em_foundation e \<rparr>]
      else [])"

definition units_314st :: "u64 \<Rightarrow> u32 \<Rightarrow> string" where
  "units_314st stored created_height =
     (case stored_to_pi stored created_height of
        None \<Rightarrow> ''0.000000''
      | Some pi \<Rightarrow> format_314st_pi pi)"

subsection \<open>Lemmas\<close>

lemma stored_to_pi_Some_iff:
  "stored_to_pi stored h = Some pi \<longleftrightarrow>
     (if h \<ge> kPiActivationHeight then pi = stored else unat pi = unat stored * 1000)"
proof (cases "h \<ge> kPiActivationHeight")
  case False
  show ?thesis
  proof (cases "stored > U64_MAX div kPiPerOldUnit")
    case True
    then have "2 ^ 64 \<le> unat stored * 1000"
      using mult_overflow [of kPiPerOldUnit stored] by (simp add: kPiPerOldUnit_def)
    then have "unat pi \<noteq> unat stored * 1000" using unat_u64_less [of pi] by linarith
    with False True show ?thesis by (simp add: stored_to_pi_def)
  next
    case g: False
    then have "unat (stored * kPiPerOldUnit) = unat stored * 1000"
      using no_mult_overflow [of kPiPerOldUnit stored] by (simp add: kPiPerOldUnit_def)
    with False g show ?thesis by (auto simp: stored_to_pi_def word_unat_eq_iff)
  qed
qed (auto simp: stored_to_pi_def)

lemma share_exact:
  "unat fee * 60 < 2 ^ 64 \<Longrightarrow> unat k \<le> 60 \<Longrightarrow> unat (fee * k div 100 :: u64) = unat fee * unat k div 100"
proof -
  assume a: "unat fee * 60 < 2 ^ 64" "unat k \<le> 60"
  then have "unat fee * unat k < 2 ^ 64"
    using mult_le_mono2 [of "unat k" 60 "unat fee"] by linarith
  then show ?thesis by (simp add: unat_div unat_word_ariths)
qed

lemma fee_shares_unat:
  assumes "unat fee * 60 < 2 ^ 64"
  shows "unat (sh_miner (fee_shares fee)) = unat fee * 60 div 100"
    and "unat (sh_stakers (fee_shares fee)) = unat fee * 20 div 100"
    and "unat (sh_loans (fee_shares fee)) = unat fee * 8 div 100"
    and "unat (sh_foundation (fee_shares fee)) = unat fee * 7 div 100"
    and "unat (sh_burn (fee_shares fee)) =
      unat fee - (unat fee * 60 div 100 + unat fee * 20 div 100 + unat fee * 8 div 100 + unat fee * 7 div 100)"
proof -
  let ?m = "fee * 60 div 100" and ?s = "fee * 20 div 100" and ?l = "fee * 8 div 100"
  let ?f = "fee * 7 div 100"
  have e: "unat ?m = unat fee * 60 div 100" "unat ?s = unat fee * 20 div 100"
    "unat ?l = unat fee * 8 div 100" "unat ?f = unat fee * 7 div 100"
    using assms share_exact [of fee 60] share_exact [of fee 20] share_exact [of fee 8]
      share_exact [of fee 7] by simp_all
  have le: "unat fee * 60 div 100 + unat fee * 20 div 100 + unat fee * 8 div 100 + unat fee * 7 div 100 \<le> unat fee"
    by simp
  have sum: "unat (?m + ?s + ?l + ?f) =
      unat fee * 60 div 100 + unat fee * 20 div 100 + unat fee * 8 div 100 + unat fee * 7 div 100"
    using le assms by (simp add: unat_word_ariths e)
  then have "?m + ?s + ?l + ?f \<le> fee" using le by (simp only: word_le_nat_alt)
  then have "unat (fee - (?m + ?s + ?l + ?f)) = unat fee - unat (?m + ?s + ?l + ?f)"
    by (rule unat_sub)
  with sum show "unat (sh_burn (fee_shares fee)) =
      unat fee - (unat fee * 60 div 100 + unat fee * 20 div 100 + unat fee * 8 div 100 + unat fee * 7 div 100)"
    by (simp add: fee_shares_def Let_def)
qed (use assms share_exact [of fee 60] share_exact [of fee 20] share_exact [of fee 8]
      share_exact [of fee 7] in \<open>simp_all add: fee_shares_def Let_def\<close>)

lemma subsidy_split:
  "unat (miner_subsidy_for_height h) + unat (validator_for_height h) = unat (subsidy_for_height h)"
  "unat (miner_subsidy_for_height h) =
     (if h \<ge> kPiActivationHeight then 216000 else if h \<ge> kMiner216ActivationHeight then 216 else 198)"
  by (auto simp: miner_subsidy_for_height_def subsidy_for_height_def validator_for_height_def
      emission_consts)

lemma miner_cap_unat:
  assumes "unat fee * 60 < 2 ^ 64"
  shows "unat (miner_cap (emission_for h fee)) =
    unat (miner_subsidy_for_height h) + unat fee * 60 div 100"
proof -
  have "unat (miner_subsidy_for_height h) \<le> 216000" by (simp add: subsidy_split(2))
  moreover have "unat fee * 60 div 100 < 2 ^ 63" using assms by simp
  ultimately show ?thesis
    using fee_shares_unat(1) [OF assms]
    by (simp add: miner_cap_def emission_for_def Let_def unat_word_ariths
        flip: miner_subsidy_for_height_def)
qed

lemma miner_due_unat:
  assumes "unat fee * 60 < 2 ^ 64" "unat base \<le> 216000"
  shows "paid = base + sh_miner (fee_shares fee) \<longleftrightarrow> unat paid = unat base + unat fee * 60 div 100"
proof -
  have "unat fee * 60 div 100 < 2 ^ 63" using assms(1) by simp
  with assms have "unat (base + sh_miner (fee_shares fee)) = unat base + unat fee * 60 div 100"
    by (simp add: unat_word_ariths fee_shares_unat(1))
  then show ?thesis by (metis word_unat_eq_iff)
qed

lemma coinbase_subsidy_iff:
  assumes "unat fee * 60 < 2 ^ 64"
  shows "coinbase_subsidy_ok h fee paid_miner paid_validator = Inr () \<longleftrightarrow>
    (if h \<ge> 3000
     then unat paid_validator = 2000 \<and> unat paid_miner = 216000 + unat fee * 60 div 100
     else unat paid_validator = 2 \<and>
       (unat paid_miner = 216 + unat fee * 60 div 100 \<or>
        h < 32 \<and> unat paid_miner = 198 + unat fee * 60 div 100))"
proof -
  have due: "paid_miner = miner_subsidy_for_height h + sh_miner (fee_shares fee) \<longleftrightarrow>
      unat paid_miner = unat (miner_subsidy_for_height h) + unat fee * 60 div 100"
    and legacy: "paid_miner = 198 + sh_miner (fee_shares fee) \<longleftrightarrow> unat paid_miner = 198 + unat fee * 60 div 100"
    and full: "paid_miner = 216 + sh_miner (fee_shares fee) \<longleftrightarrow> unat paid_miner = 216 + unat fee * 60 div 100"
    using miner_due_unat [OF assms] by (simp_all add: subsidy_split(2))
  have old: "unat paid_miner \<noteq> 216000 + unat fee * 60 div 100"
    if "paid_miner = 216 \<or> paid_miner = 218 \<or> paid_miner = 198"
    using that by (elim disjE) simp_all
  have val: "paid_validator = validator_for_height h \<longleftrightarrow> unat paid_validator = (if h \<ge> 3000 then 2000 else 2)"
    by (simp add: validator_for_height_def emission_consts word_unat_eq_iff)
  consider (pi) "h \<ge> 3000" | (mid) "\<not> h \<ge> 3000" "h \<ge> 32" | (low) "\<not> h \<ge> 3000" "\<not> h \<ge> 32" by blast
  then show ?thesis
  proof cases
    case pi
    then have "h \<ge> 32" by (rule order_trans [rotated]) simp
    with pi show ?thesis
      unfolding coinbase_subsidy_ok_def Let_def emission_consts val [unfolded emission_consts] due
      using old by (simp add: subsidy_split(2) emission_consts)
  next
    case mid
    then have h: "(3000 \<le> h) = False" "(32 \<le> h) = True" "(h < 32) = False" by auto
    show ?thesis
      unfolding coinbase_subsidy_ok_def Let_def emission_consts val [unfolded emission_consts] due
        subsidy_split(2) h
      by simp
  next
    case low
    then have h: "(3000 \<le> h) = False" "(32 \<le> h) = False" "(h < 32) = True" by auto
    show ?thesis
      unfolding coinbase_subsidy_ok_def Let_def emission_consts val [unfolded emission_consts] h
      by (simp add: legacy full)
  qed
qed

subsection \<open>Properties\<close>

text \<open>The fee split neither creates nor loses money. As long as sixty times the fee fits
  64 bits, the shares are the exact percentages rounded down, the five shares add up to the
  fee, and the burnt remainder is 5\% plus at most four units of rounding.\<close>

theorem fee_shares_conserve:
  assumes "unat fee * 60 < 2 ^ 64"
  shows "unat (sh_miner (fee_shares fee)) = 60 * unat fee div 100 \<and>
    unat (sh_miner (fee_shares fee)) + unat (sh_stakers (fee_shares fee)) +
      unat (sh_loans (fee_shares fee)) + unat (sh_foundation (fee_shares fee)) +
      unat (sh_burn (fee_shares fee)) = unat fee \<and>
    5 * unat fee \<le> 100 * unat (sh_burn (fee_shares fee)) \<and>
    100 * unat (sh_burn (fee_shares fee)) < 5 * unat fee + 400"
  unfolding fee_shares_unat [OF assms] by (auto simp: mult.commute)

lemma fee_shares_conserve_witness:
  "unat (314 :: u64) * 60 < 2 ^ 64 \<and>
   unat (sh_miner (fee_shares 314)) + unat (sh_stakers (fee_shares 314)) +
     unat (sh_loans (fee_shares 314)) + unat (sh_foundation (fee_shares 314)) +
     unat (sh_burn (fee_shares 314)) = 314"
  using fee_shares_conserve [of 314] by simp

text \<open>C2: The coinbase check accepts exactly the amounts of the emission schedule: from height
  3000 a validator payment of 2000 and a miner payment of 216000 plus 60\% of the fees; from
  height 32 to 2999 the same in units of 1000 pi (2 and 216); below 32 the miner base may
  also be the legacy 198.\<close>

theorem coinbase_subsidy_exact:
  assumes "unat fee * 60 < 2 ^ 64"
  shows "coinbase_subsidy_ok h fee paid_miner paid_validator = Inr () \<longleftrightarrow>
    (if h \<ge> 3000
     then unat paid_validator = 2000 \<and> unat paid_miner = 216000 + unat fee * 60 div 100
     else unat paid_validator = 2 \<and>
       (unat paid_miner = 216 + unat fee * 60 div 100 \<or>
        h < 32 \<and> unat paid_miner = 198 + unat fee * 60 div 100))"
  by (rule coinbase_subsidy_iff [OF assms])

lemma coinbase_subsidy_exact_witness:
  "unat (314 :: u64) * 60 < 2 ^ 64 \<and>
   coinbase_subsidy_ok 3000 314 216188 2000 = Inr () \<and>
   coinbase_subsidy_ok 3000 314 216 2 \<noteq> Inr ()"
  using coinbase_subsidy_exact [of 314 3000 216188 2000] coinbase_subsidy_exact [of 314 3000 216 2]
  by simp

text \<open>What a template pays is what the check demands, and the coinbase mints exactly the
  subsidy: its outputs add up to the block subsidy plus the fees less the burnt share, and its
  first two outputs (miner and validator) pass \<open>coinbase_subsidy_ok\<close> at every height.\<close>

theorem template_coinbase_sound:
  fixes wallet validator h fee
  defines "outs \<equiv> template_coinbase wallet validator (emission_for h fee)"
  assumes "unat fee * 60 < 2 ^ 64"
  shows "sum_list (map (unat \<circ> cb_units) outs) + unat (sh_burn (fee_shares fee)) =
      unat (subsidy_for_height h) + unat fee \<and>
    coinbase_subsidy_ok h fee (cb_units (outs ! 0)) (cb_units (outs ! 1)) = Inr ()"
proof
  note shares = fee_shares_unat [OF assms(2)]
  have zero: "unat x = 0" if "\<not> 0 < x" for x :: u64
    using that by (simp add: word_less_nat_alt)
  have "sum_list (map (unat \<circ> cb_units) outs) =
      unat (miner_subsidy_for_height h) + unat fee * 60 div 100 + unat (validator_for_height h) +
      unat fee * 20 div 100 + unat fee * 8 div 100 + unat fee * 7 div 100"
    using zero [of "sh_stakers (fee_shares fee)"] zero [of "sh_loans (fee_shares fee)"]
      zero [of "sh_foundation (fee_shares fee)"] shares(2-4) miner_cap_unat [OF assms(2), of h]
    by (simp add: outs_def template_coinbase_def emission_for_def Let_def split del: if_split)
       (auto split: if_splits)
  then show "sum_list (map (unat \<circ> cb_units) outs) + unat (sh_burn (fee_shares fee)) =
      unat (subsidy_for_height h) + unat fee"
    using subsidy_split(1) [of h] by (simp add: shares(5))
  have "unat (cb_units (outs ! 0)) = unat (miner_subsidy_for_height h) + unat fee * 60 div 100"
    by (simp add: outs_def template_coinbase_def miner_cap_unat [OF assms(2)])
  moreover have "unat (cb_units (outs ! 1)) = unat (validator_for_height h)"
    by (simp add: outs_def template_coinbase_def emission_for_def Let_def)
  ultimately show "coinbase_subsidy_ok h fee (cb_units (outs ! 0)) (cb_units (outs ! 1)) = Inr ()"
    unfolding coinbase_subsidy_iff [OF assms(2)]
    by (auto simp: subsidy_split(2) validator_for_height_def emission_consts not_le)
qed

lemma template_coinbase_sound_witness:
  "unat (314 :: u64) * 60 < 2 ^ 64 \<and>
   sum_list (map (unat \<circ> cb_units) (template_coinbase ''w'' ''v'' (emission_for 3000 314))) +
     unat (sh_burn (fee_shares 314)) = unat (subsidy_for_height 3000) + 314"
  using template_coinbase_sound [of 314 "''w''" "''v''" 3000] by simp

end
