(* ===== verification/Flags.thy ===== *)
theory Flags
  imports Bytes Reason Stores
begin

text \<open>
  \<open>include/pisecured/flags.hpp\<close>: flags (puzzles with a bounty in escrow) and the book that
  holds them. A \<open>FlagBook\<close> is its vector \<open>flags_\<close>; a failing call leaves the book as it was,
  so \<open>create\<close> and \<open>claim\<close> answer the new book or the reject reason.

  The lemmas show that every book reached by \<open>create\<close> and \<open>claim\<close> keeps one flag per id and one
  claim per recipient, and that escrow plus bounties paid is always the amount locked.
\<close>

record flag =
  fl_id :: string
  fl_commitment :: string
  fl_awards_pubkey :: string
  fl_max_claims :: u32
  fl_expires_height :: u32
  fl_bounty_units :: u64
  fl_note :: string
  fl_escrow :: u64
  fl_txid :: string
  fl_claimants :: "string list"
  fl_claim_txids :: "string list"

definition escrow_lock :: "u32 \<Rightarrow> u64 \<Rightarrow> u64 res" where
  "escrow_lock max_claims bounty_units =
     (if max_claims = 0 then
        (if bounty_units \<noteq> 0 then Inl (FlagErr Unlimited_Flag_Pays) else Inr 0)
      else if bounty_units \<noteq> 0 \<and> bounty_units > U64_MAX div ucast max_claims
      then Inl (TxErr Malformed_Tx)
      else Inr (bounty_units * ucast max_claims))"

definition flag_find :: "flag list \<Rightarrow> string \<Rightarrow> flag option" where
  "flag_find flags i = find (\<lambda>f. fl_id f = i) flags"

definition flag_create :: "flag list \<Rightarrow> flag \<Rightarrow> (flag list) res" where
  "flag_create flags incoming =
     (case flag_find flags (fl_id incoming) of
        Some existing \<Rightarrow>
          if fl_txid incoming \<noteq> [] \<and> fl_txid existing = fl_txid incoming then Inr flags
          else Inl (FlagErr Duplicate_Flag)
      | None \<Rightarrow>
          (case escrow_lock (fl_max_claims incoming) (fl_bounty_units incoming) of
             Inl r \<Rightarrow> Inl r
           | Inr lock \<Rightarrow> Inr (flags @ [incoming\<lparr>fl_escrow := lock\<rparr>])))"

text \<open>The loop over the claimants: the first index that holds the recipient.\<close>

fun claim_index :: "string \<Rightarrow> string list \<Rightarrow> nat \<Rightarrow> nat option" where
  "claim_index who [] i = None"
| "claim_index who (c # cs) i = (if c = who then Some i else claim_index who cs (Suc i))"

text \<open>One flag's part of \<open>claim\<close>; \<open>None\<close> stands for the early success that changes nothing.\<close>

definition claim_flag ::
  "flag \<Rightarrow> string \<Rightarrow> string \<Rightarrow> u32 \<Rightarrow> string \<Rightarrow> (flag option) res" where
  "claim_flag flag recipient awards_pubkey height txid =
     (case claim_index recipient (fl_claimants flag) 0 of
        Some i \<Rightarrow>
          if txid \<noteq> [] \<and> i < length (fl_claim_txids flag) \<and> fl_claim_txids flag ! i = txid
          then Inr None else Inl (FlagErr Already_Claimed)
      | None \<Rightarrow>
          if awards_pubkey \<noteq> fl_awards_pubkey flag then Inl (FlagErr Awards_Signature)
          else if fl_expires_height flag \<noteq> 0 \<and> height > fl_expires_height flag
          then Inl (FlagErr Flag_Expired)
          else if fl_max_claims flag \<noteq> 0 \<and> length (fl_claimants flag) \<ge> unat (fl_max_claims flag)
          then Inl (FlagErr Flag_Exhausted)
          else if fl_bounty_units flag > fl_escrow flag then Inl (FlagErr Flag_Exhausted)
          else Inr (Some (flag\<lparr>fl_escrow := fl_escrow flag - fl_bounty_units flag,
                               fl_claimants := fl_claimants flag @ [recipient],
                               fl_claim_txids := fl_claim_txids flag @ [txid]\<rparr>)))"

fun flag_claim ::
  "flag list \<Rightarrow> string \<Rightarrow> string \<Rightarrow> string \<Rightarrow> u32 \<Rightarrow> string \<Rightarrow> (flag list) res" where
  "flag_claim [] flag_id recipient awards_pubkey height txid = Inl (FlagErr Unknown_Flag)"
| "flag_claim (item # items) flag_id recipient awards_pubkey height txid =
     (if fl_id item = flag_id then
        (case claim_flag item recipient awards_pubkey height txid of
           Inl r \<Rightarrow> Inl r
         | Inr None \<Rightarrow> Inr (item # items)
         | Inr (Some item') \<Rightarrow> Inr (item' # items))
      else
        (case flag_claim items flag_id recipient awards_pubkey height txid of
           Inl r \<Rightarrow> Inl r
         | Inr items' \<Rightarrow> Inr (item # items')))"

definition claimed_by :: "flag list \<Rightarrow> string \<Rightarrow> string list" where
  "claimed_by flags ps1 = map fl_id (filter (\<lambda>f. ps1 \<in> set (fl_claimants f)) flags)"

definition flag_id_ok :: "string \<Rightarrow> bool" where
  "flag_id_ok i \<longleftrightarrow> i \<noteq> [] \<and> length i \<le> 32 \<and>
     list_all (\<lambda>c. in_range c CHR ''A'' CHR ''Z'' \<or> in_range c CHR ''a'' CHR ''z'' \<or>
                   in_range c CHR ''0'' CHR ''9'' \<or> c = CHR ''_'' \<or> c = CHR ''-'') i"

definition hex64 :: "string \<Rightarrow> bool" where
  "hex64 t \<longleftrightarrow> length t = 64 \<and>
     list_all (\<lambda>c. in_range c CHR ''0'' CHR ''9'' \<or> in_range c CHR ''a'' CHR ''f'' \<or>
                   in_range c CHR ''A'' CHR ''F'') t"

definition escrow_is_spendable_output :: bool where
  "escrow_is_spendable_output = False"

subsection \<open>The book as a registry\<close>

definition book_add :: "flag list \<Rightarrow> flag \<Rightarrow> flag list" where
  "book_add flags f = flags @ [f]"

lemma find_append:
  "find P (xs @ ys) = (case find P xs of Some x \<Rightarrow> Some x | None \<Rightarrow> find P ys)"
  by (induction xs) auto

interpretation book: registry flag_find book_add fl_id
  by unfold_locales (auto simp: flag_find_def book_add_def find_append split: option.splits)

subsection \<open>Escrow lock and claim, case by case\<close>

lemma unat_ucast_u32 [simp]: "unat (ucast (x :: u32) :: u64) = unat x"
proof -
  have "unat x < 2 ^ 32" using unsigned_less [of x, where ?'a = nat] by simp
  then show ?thesis by (simp add: unsigned_ucast_eq take_bit_nat_eq_self_iff)
qed

lemma escrow_lock_Inr_iff:
  "escrow_lock m b = Inr lock \<longleftrightarrow>
     (if m = 0 then b = 0 \<and> lock = 0 else unat lock = unat b * unat m)"
proof (cases "m = 0")
  case False
  then have pos: "0 < unat (ucast m :: u64)" by (metis gr0I unat_eq_zero unat_ucast_u32)
  show ?thesis
  proof (cases "b > U64_MAX div ucast m")
    case True
    then have "2 ^ 64 \<le> unat b * unat m" using mult_overflow [OF True pos] by simp
    moreover from True have "b \<noteq> 0" by auto
    ultimately show ?thesis
      using False True unat_u64_less [of lock] by (auto simp: escrow_lock_def)
  next
    case g: False
    then have "unat (b * ucast m) = unat b * unat m" using no_mult_overflow [OF g pos] by simp
    with False g show ?thesis by (auto simp: escrow_lock_def word_unat_eq_iff)
  qed
qed (auto simp: escrow_lock_def)

lemma claim_index_None_iff: "claim_index who cs i = None \<longleftrightarrow> who \<notin> set cs"
  by (induction cs arbitrary: i) auto

lemma claim_index_Some:
  "claim_index who cs i = Some k \<Longrightarrow> i \<le> k \<and> k - i < length cs \<and> cs ! (k - i) = who"
proof (induction cs arbitrary: i)
  case (Cons c cs)
  show ?case
  proof (cases "c = who")
    case False
    with Cons.prems have "claim_index who cs (Suc i) = Some k" by simp
    from Cons.IH [OF this] have "k - i = Suc (k - Suc i)" "k - Suc i < length cs" "cs ! (k - Suc i) = who"
      by auto
    with Cons.IH [OF \<open>claim_index who cs (Suc i) = Some k\<close>] show ?thesis by simp
  qed (use Cons.prems in auto)
qed simp

lemma claim_flag_new_iff:
  "claim_flag f who key h tx = Inr (Some f') \<longleftrightarrow>
     who \<notin> set (fl_claimants f) \<and> key = fl_awards_pubkey f \<and>
     (fl_expires_height f = 0 \<or> h \<le> fl_expires_height f) \<and>
     (fl_max_claims f = 0 \<or> length (fl_claimants f) < unat (fl_max_claims f)) \<and>
     fl_bounty_units f \<le> fl_escrow f \<and>
     f' = f\<lparr>fl_escrow := fl_escrow f - fl_bounty_units f,
            fl_claimants := fl_claimants f @ [who], fl_claim_txids := fl_claim_txids f @ [tx]\<rparr>"
proof (cases "claim_index who (fl_claimants f) 0")
  case None
  then have "who \<notin> set (fl_claimants f)" by (simp add: claim_index_None_iff)
  with None show ?thesis by (auto simp: claim_flag_def not_less not_le)
next
  case (Some k)
  then have "who \<in> set (fl_claimants f)" using claim_index_None_iff [of who "fl_claimants f" 0] by simp
  with Some show ?thesis by (simp add: claim_flag_def)
qed

lemma claim_flag_old:
  "claim_flag f who key h tx = Inr None \<Longrightarrow>
   \<exists>i < length (fl_claimants f). fl_claimants f ! i = who \<and> fl_claim_txids f ! i = tx"
  using claim_index_Some [of who "fl_claimants f" 0]
  by (auto simp: claim_flag_def split: option.splits if_splits)

text \<open>The whole-book claim changes the first flag with the id and nothing else.\<close>

lemma flag_claim_Inr:
  assumes "flag_claim flags i who key h tx = Inr flags'"
  obtains (same) "flags' = flags"
  | (one) pre f post f' where "flags = pre @ f # post" "fl_id f = i" "i \<notin> fl_id ` set pre"
      "claim_flag f who key h tx = Inr (Some f')" "flags' = pre @ f' # post"
proof -
  have "flags' = flags \<or> (\<exists>pre f post f'. flags = pre @ f # post \<and> fl_id f = i \<and> i \<notin> fl_id ` set pre \<and>
      claim_flag f who key h tx = Inr (Some f') \<and> flags' = pre @ f' # post)"
    using assms
  proof (induction flags arbitrary: flags')
    case (Cons item items)
    show ?case
    proof (cases "fl_id item = i")
      case True
      with Cons.prems show ?thesis
        by (auto split: sum.splits option.splits intro: exI [of _ "[]"])
    next
      case False
      with Cons.prems obtain items' where it: "flag_claim items i who key h tx = Inr items'"
        and eq: "flags' = item # items'" by (auto split: sum.splits)
      from Cons.IH [OF it] show ?thesis
      proof (elim disjE exE conjE)
        assume "items' = items"
        with eq show ?thesis by simp
      next
        fix pre f post f'
        assume "items = pre @ f # post" "fl_id f = i" "i \<notin> fl_id ` set pre"
          "claim_flag f who key h tx = Inr (Some f')" "items' = pre @ f' # post"
        with eq False show ?thesis
          by (intro disjI2 exI [of _ "item # pre"] exI [of _ f] exI [of _ post] exI [of _ f']) simp
      qed
    qed
  qed simp
  then show thesis using same one by blast
qed

subsection \<open>The invariant of a book\<close>

definition flag_inv :: "flag \<Rightarrow> bool" where
  "flag_inv f \<longleftrightarrow> distinct (fl_claimants f) \<and> length (fl_claim_txids f) = length (fl_claimants f) \<and>
     (if fl_max_claims f = 0 then fl_bounty_units f = 0 \<and> fl_escrow f = 0
      else length (fl_claimants f) \<le> unat (fl_max_claims f) \<and>
           unat (fl_escrow f) + unat (fl_bounty_units f) * length (fl_claimants f) =
           unat (fl_bounty_units f) * unat (fl_max_claims f))"

definition book_inv :: "flag list \<Rightarrow> bool" where
  "book_inv flags \<longleftrightarrow> distinct (map fl_id flags) \<and> list_all flag_inv flags"

lemma flag_inv_claim:
  assumes "flag_inv f" "claim_flag f who key h tx = Inr (Some f')"
  shows "flag_inv f'"
proof -
  from assms(2) have c: "who \<notin> set (fl_claimants f)"
    "fl_max_claims f = 0 \<or> length (fl_claimants f) < unat (fl_max_claims f)"
    "fl_bounty_units f \<le> fl_escrow f"
    "f' = f\<lparr>fl_escrow := fl_escrow f - fl_bounty_units f,
            fl_claimants := fl_claimants f @ [who], fl_claim_txids := fl_claim_txids f @ [tx]\<rparr>"
    by (simp_all add: claim_flag_new_iff)
  have "unat (fl_escrow f - fl_bounty_units f) = unat (fl_escrow f) - unat (fl_bounty_units f)"
    and "unat (fl_bounty_units f) \<le> unat (fl_escrow f)"
    using c(3) by (simp_all add: unat_sub word_le_nat_alt)
  with assms(1) c show ?thesis by (auto simp: flag_inv_def split: if_splits)
qed

lemma book_inv_claim:
  assumes "book_inv flags" "flag_claim flags i who key h tx = Inr flags'"
  shows "book_inv flags'"
  using assms(2)
proof (cases rule: flag_claim_Inr)
  case same
  with assms(1) show ?thesis by simp
next
  case (one pre f post f')
  then have "flag_inv f'" using assms(1) flag_inv_claim by (auto simp: book_inv_def)
  moreover have "fl_id f' = fl_id f" using one(4) by (simp add: claim_flag_new_iff)
  ultimately show ?thesis using assms(1) one by (simp add: book_inv_def)
qed

lemma book_inv_create:
  assumes "book_inv flags" "fl_claimants f = []" "fl_claim_txids f = []"
    "flag_create flags f = Inr flags'"
  shows "book_inv flags'"
proof (cases "flag_find flags (fl_id f)")
  case None
  then obtain lock where l: "escrow_lock (fl_max_claims f) (fl_bounty_units f) = Inr lock"
    and f': "flags' = flags @ [f\<lparr>fl_escrow := lock\<rparr>]"
    using assms(4) by (auto simp: flag_create_def split: sum.splits)
  from l assms(2,3) have "flag_inv (f\<lparr>fl_escrow := lock\<rparr>)"
    by (auto simp: flag_inv_def escrow_lock_Inr_iff)
  moreover have "fl_id f \<notin> fl_id ` set flags"
    using None by (auto simp: flag_find_def find_None_iff)
  ultimately show ?thesis using assms(1) by (simp add: f' book_inv_def)
qed (use assms in \<open>auto simp: flag_create_def split: if_splits\<close>)

text \<open>A book is reached from the empty one by creating fresh flags and claiming.\<close>

inductive flag_reach :: "flag list \<Rightarrow> bool" where
  empty: "flag_reach []"
| create: "flag_reach b \<Longrightarrow> fl_claimants f = [] \<Longrightarrow> fl_claim_txids f = [] \<Longrightarrow>
           flag_create b f = Inr b' \<Longrightarrow> flag_reach b'"
| claim: "flag_reach b \<Longrightarrow> flag_claim b i who key h tx = Inr b' \<Longrightarrow> flag_reach b'"

lemma flag_reach_inv: "flag_reach b \<Longrightarrow> book_inv b"
proof (induction rule: flag_reach.induct)
  case empty
  show ?case by (simp add: book_inv_def)
next
  case (create b f b')
  then show ?case by (blast intro: book_inv_create)
next
  case (claim b i who key h tx b')
  then show ?case by (blast intro: book_inv_claim)
qed

lemma flag_find_split:
  assumes "flag_find flags i = Some f"
  obtains pre post where "flags = pre @ f # post" "fl_id f = i" "i \<notin> fl_id ` set pre"
proof -
  from assms obtain n where n: "n < length flags" "fl_id (flags ! n) = i" "f = flags ! n"
    "\<forall>j < n. fl_id (flags ! j) \<noteq> i"
    by (auto simp: flag_find_def find_Some_iff)
  show thesis
  proof
    show "flags = take n flags @ f # drop (Suc n) flags" using n by (simp add: id_take_nth_drop)
    show "i \<notin> fl_id ` set (take n flags)" using n(1,4) by (fastforce simp: in_set_conv_nth)
  qed (use n in simp)
qed

lemma flag_claim_at:
  assumes "flags = pre @ f # post" "fl_id f = i" "i \<notin> fl_id ` set pre"
  shows "flag_claim flags i who key h tx =
    (case claim_flag f who key h tx of Inl r \<Rightarrow> Inl r | Inr None \<Rightarrow> Inr flags
     | Inr (Some f') \<Rightarrow> Inr (pre @ f' # post))"
  using assms
proof (induction pre arbitrary: flags)
  case (Cons p pre)
  then show ?case by (auto split: sum.splits option.splits)
qed (simp split: sum.splits option.splits)

lemma flag_find_at:
  assumes "flags = pre @ f # post" "fl_id f = i" "i \<notin> fl_id ` set pre"
  shows "flag_find flags j = (if j = i then Some f else
    case flag_find pre j of Some g \<Rightarrow> Some g | None \<Rightarrow> flag_find post j)"
proof -
  have "flag_find pre i = None" using assms(3) by (auto simp: flag_find_def find_None_iff)
  with assms(1,2) show ?thesis
    by (auto simp: flag_find_def find_append split: option.splits)
qed

lemma flag_inv_escrow_covers:
  assumes "flag_inv f" "fl_max_claims f = 0 \<or> length (fl_claimants f) < unat (fl_max_claims f)"
  shows "fl_bounty_units f \<le> fl_escrow f"
proof (cases "fl_max_claims f = 0")
  case True
  with assms(1) show ?thesis by (simp add: flag_inv_def)
next
  case False
  then obtain k where k: "unat (fl_max_claims f) = length (fl_claimants f) + Suc k"
    using assms(2) less_imp_Suc_add by fastforce
  with False assms(1) have "unat (fl_escrow f) = unat (fl_bounty_units f) * Suc k"
    by (simp add: flag_inv_def add_mult_distrib2)
  then show ?thesis by (simp add: word_le_nat_alt)
qed

text \<open>The recipient of a claim that is already recorded gets nothing more.\<close>

lemma claim_flag_repeat:
  assumes "who \<in> set (fl_claimants f)"
  shows "claim_flag f who key h tx \<in> {Inr None, Inl (FlagErr Already_Claimed)}"
  using assms claim_index_None_iff [of who "fl_claimants f" 0]
  by (auto simp: claim_flag_def split: option.splits)

subsection \<open>Properties\<close>

text \<open>C3: Escrow is conserved. In every book reached from the empty one, what is left in a
  flag's escrow plus the bounties already claimed is exactly the bounty times the claim limit;
  nobody claims a flag twice, a limited flag is never claimed more often than its limit, and
  flag ids stay unique.\<close>

theorem flag_escrow_conserved:
  assumes "flag_reach b" "f \<in> set b"
  shows "unat (fl_escrow f) + unat (fl_bounty_units f) * length (fl_claimants f) =
      unat (fl_bounty_units f) * unat (fl_max_claims f) \<and>
    distinct (fl_claimants f) \<and>
    (fl_max_claims f = 0 \<or> length (fl_claimants f) \<le> unat (fl_max_claims f)) \<and>
    distinct (map fl_id b)"
proof -
  have "flag_inv f" "distinct (map fl_id b)"
    using flag_reach_inv [OF assms(1)] assms(2) by (auto simp: book_inv_def list_all_iff)
  then show ?thesis by (auto simp: flag_inv_def split: if_splits)
qed

definition demo_flag :: flag where
  "demo_flag = \<lparr> fl_id = ''f'', fl_commitment = ''c'', fl_awards_pubkey = ''k'', fl_max_claims = 2,
     fl_expires_height = 10, fl_bounty_units = 5, fl_note = [], fl_escrow = 0, fl_txid = ''t'',
     fl_claimants = [], fl_claim_txids = [] \<rparr>"

definition demo_book :: "flag list" where
  "demo_book = [demo_flag\<lparr>fl_escrow := 5, fl_claimants := [''a''], fl_claim_txids := [''u'']\<rparr>]"

lemma demo_create: "flag_create [] demo_flag = Inr [demo_flag\<lparr>fl_escrow := 10\<rparr>]"
  by (simp add: flag_create_def flag_find_def escrow_lock_def demo_flag_def)

lemma demo_claim:
  "flag_claim [demo_flag\<lparr>fl_escrow := 10\<rparr>] ''f'' ''a'' ''k'' 7 ''u'' = Inr demo_book"
  by (simp add: demo_book_def demo_flag_def claim_flag_def)

lemma demo_book_reach: "flag_reach demo_book"
  using flag_reach.claim [OF flag_reach.create [OF flag_reach.empty _ _ demo_create] demo_claim]
  by (simp add: demo_flag_def)

lemma flag_escrow_conserved_witness:
  "flag_reach demo_book \<and> hd demo_book \<in> set demo_book \<and>
   unat (fl_escrow (hd demo_book)) + unat (fl_bounty_units (hd demo_book)) * 1 = 5 * 2"
  using flag_escrow_conserved [OF demo_book_reach, of "hd demo_book"] demo_book_reach
  by (simp add: demo_book_def demo_flag_def)

text \<open>A claim by a new recipient succeeds exactly when it carries the flag's awards key,
  the flag has not expired and the claim limit is not reached. The further test that the
  escrow covers the bounty never rejects in a reached book: a flag that can still be claimed
  can always be paid.\<close>

theorem flag_claim_exact:
  assumes "flag_reach b" "flag_find b i = Some f" "who \<notin> set (fl_claimants f)"
  shows "(\<exists>b'. flag_claim b i who key h tx = Inr b') \<longleftrightarrow>
    key = fl_awards_pubkey f \<and> (fl_expires_height f = 0 \<or> h \<le> fl_expires_height f) \<and>
    (fl_max_claims f = 0 \<or> length (fl_claimants f) < unat (fl_max_claims f))"
proof -
  obtain pre post where at: "b = pre @ f # post" "fl_id f = i" "i \<notin> fl_id ` set pre"
    using flag_find_split [OF assms(2)] .
  have "flag_inv f" using flag_reach_inv [OF assms(1)] at(1) by (simp add: book_inv_def)
  then have cover: "fl_max_claims f = 0 \<or> length (fl_claimants f) < unat (fl_max_claims f) \<Longrightarrow>
      fl_bounty_units f \<le> fl_escrow f" by (rule flag_inv_escrow_covers)
  have "claim_index who (fl_claimants f) 0 = None" using assms(3) by (simp add: claim_index_None_iff)
  then show ?thesis
    using cover unfolding flag_claim_at [OF at]
    by (auto simp: claim_flag_def not_less not_le split: if_splits)
qed

lemma flag_claim_exact_witness:
  "flag_reach demo_book \<and> (\<exists>b'. flag_claim demo_book ''f'' ''b'' ''k'' 9 ''v'' = Inr b')"
  using flag_claim_exact [OF demo_book_reach, of "''f''" "hd demo_book" "''b''" "''k''" 9 "''v''"] demo_book_reach
  by (simp add: demo_book_def demo_flag_def flag_find_def)

text \<open>A bounty is paid at most once per recipient. After a successful claim the recipient
  is recorded, every other flag is as before, and any further claim of the same flag by the
  same recipient, with any key, height and transaction, either changes nothing or is rejected
  as already claimed.\<close>

theorem flag_claim_once:
  assumes "flag_claim b i who key h tx = Inr b'"
  shows "(\<exists>f'. flag_find b' i = Some f' \<and> who \<in> set (fl_claimants f')) \<and>
    (\<forall>j. j = i \<or> flag_find b' j = flag_find b j) \<and>
    flag_claim b' i who key2 h2 tx2 \<in> {Inr b', Inl (FlagErr Already_Claimed)}"
proof -
  have "flag_find b i \<noteq> None"
    using assms by (induction b arbitrary: b') (auto simp: flag_find_def split: if_splits sum.splits)
  then obtain f where "flag_find b i = Some f" by auto
  then obtain pre post where at: "b = pre @ f # post" "fl_id f = i" "i \<notin> fl_id ` set pre"
    by (rule flag_find_split)
  obtain f' where f': "b' = pre @ f' # post" "who \<in> set (fl_claimants f')" "fl_id f' = i"
  proof (cases "claim_flag f who key h tx = Inr None")
    case True
    with assms have "b' = pre @ f # post" unfolding flag_claim_at [OF at] using at(1) by simp
    moreover have "who \<in> set (fl_claimants f)" using claim_flag_old [OF True] by auto
    ultimately show ?thesis using at(2) by (rule that)
  next
    case False
    with assms obtain f' where "claim_flag f who key h tx = Inr (Some f')" "b' = pre @ f' # post"
      by (auto simp: flag_claim_at [OF at] split: sum.splits option.splits)
    with at show ?thesis by (intro that [of f']) (auto simp: claim_flag_new_iff)
  qed
  note at' = f'(1,3) at(3)
  have "flag_claim b' i who key2 h2 tx2 \<in> {Inr b', Inl (FlagErr Already_Claimed)}"
    using claim_flag_repeat [OF f'(2), of key2 h2 tx2] unfolding flag_claim_at [OF at'] by auto
  then show ?thesis
    using f'(2) by (auto simp: flag_find_at [OF at'] flag_find_at [OF at])
qed

lemma flag_claim_once_witness:
  "flag_claim [demo_flag\<lparr>fl_escrow := 10\<rparr>] ''f'' ''a'' ''k'' 7 ''u'' = Inr demo_book \<and>
   flag_claim demo_book ''f'' ''a'' ''k'' 8 ''w'' \<in> {Inr demo_book, Inl (FlagErr Already_Claimed)}"
  using flag_claim_once [OF demo_claim, of "''k''" 8 "''w''"] demo_claim by simp

end
