(* ===== verification/Sha256.thy ===== *)
theory Sha256
  imports Bytes
begin

text \<open>
  \<open>cpp/crypto/sha256.cpp\<close>: the incremental SHA-256 context. \<open>sha_ctx\<close> is the class
  \<open>Sha256Ctx\<close>; \<open>sha_write\<close> is its loop over the input, which fills the 64-byte buffer and
  compresses it when full.

  The refinement lemmas compare it with the standard: \<open>fips_compress\<close> (recursive message
  schedule, rotations, \<open>Ch\<close> and \<open>Maj\<close>) and \<open>sha256_spec\<close> (pad, cut into blocks, fold). The
  streaming context computes \<open>sha256_spec\<close> of all bytes written, however they are cut up.
\<close>

subsection \<open>The context\<close>

text \<open>The round constants, one list per row of the table.\<close>

definition sha_K :: "u32 list" where
  "sha_K = concat [
    [0x428a2f98, 0x71374491, 0xb5c0fbcf, 0xe9b5dba5, 0x3956c25b, 0x59f111f1, 0x923f82a4, 0xab1c5ed5],
    [0xd807aa98, 0x12835b01, 0x243185be, 0x550c7dc3, 0x72be5d74, 0x80deb1fe, 0x9bdc06a7, 0xc19bf174],
    [0xe49b69c1, 0xefbe4786, 0x0fc19dc6, 0x240ca1cc, 0x2de92c6f, 0x4a7484aa, 0x5cb0a9dc, 0x76f988da],
    [0x983e5152, 0xa831c66d, 0xb00327c8, 0xbf597fc7, 0xc6e00bf3, 0xd5a79147, 0x06ca6351, 0x14292967],
    [0x27b70a85, 0x2e1b2138, 0x4d2c6dfc, 0x53380d13, 0x650a7354, 0x766a0abb, 0x81c2c92e, 0x92722c85],
    [0xa2bfe8a1, 0xa81a664b, 0xc24b8b70, 0xc76c51a3, 0xd192e819, 0xd6990624, 0xf40e3585, 0x106aa070],
    [0x19a4c116, 0x1e376c08, 0x2748774c, 0x34b0bcb5, 0x391c0cb3, 0x4ed8aa4a, 0x5b9cca4f, 0x682e6ff3],
    [0x748f82ee, 0x78a5636f, 0x84c87814, 0x8cc70208, 0x90befffa, 0xa4506ceb, 0xbef9a3f7, 0xc67178f2]]"

definition sha_IV :: "u32 list" where
  "sha_IV = [0x6a09e667, 0xbb67ae85, 0x3c6ef372, 0xa54ff53a,
             0x510e527f, 0x9b05688c, 0x1f83d9ab, 0x5be0cd19]"

record sha_ctx =
  sc_state :: "u32 list"
  sc_bytes :: u64
  sc_buffer :: bytes
  sc_buffer_len :: nat

text \<open>The constructor leaves the buffer uninitialised; its content is an argument.\<close>

definition sha_init :: "bytes \<Rightarrow> sha_ctx" where
  "sha_init garbage =
     \<lparr> sc_state = sha_IV, sc_bytes = 0, sc_buffer = garbage, sc_buffer_len = 0 \<rparr>"

definition sha_reset :: "sha_ctx \<Rightarrow> sha_ctx" where
  "sha_reset ctx = ctx\<lparr>sc_state := sha_IV, sc_bytes := 0, sc_buffer_len := 0\<rparr>"

subsection \<open>Transform\<close>

definition sched_next :: "u32 list \<Rightarrow> nat \<Rightarrow> u32 list" where
  "sched_next w i =
     (let x = w ! (i - 15); y = w ! (i - 2);
          s0 = (drop_bit 7 x OR push_bit 25 x) XOR (drop_bit 18 x OR push_bit 14 x) XOR drop_bit 3 x;
          s1 = (drop_bit 17 y OR push_bit 15 y) XOR (drop_bit 19 y OR push_bit 13 y) XOR drop_bit 10 y in
      w @ [w ! (i - 16) + s0 + w ! (i - 7) + s1])"

definition sched_load :: "bytes \<Rightarrow> u32 list" where
  "sched_load block = map (\<lambda>i. read_be32 (drop (i * 4) block)) [0..<16]"

definition schedule :: "bytes \<Rightarrow> u32 list" where
  "schedule block = fold (\<lambda>i w. sched_next w i) [16..<64] (sched_load block)"

type_synonym work = "u32 \<times> u32 \<times> u32 \<times> u32 \<times> u32 \<times> u32 \<times> u32 \<times> u32"

fun sha_round :: "u32 list \<Rightarrow> nat \<Rightarrow> work \<Rightarrow> work" where
  "sha_round w i (a, b, c, d, e, f, g, h) =
     (let S1 = (drop_bit 6 e OR push_bit 26 e) XOR (drop_bit 11 e OR push_bit 21 e) XOR (drop_bit 25 e OR push_bit 7 e);
          ch = (e AND f) XOR (NOT e AND g);
          temp1 = h + S1 + ch + sha_K ! i + w ! i;
          S0 = (drop_bit 2 a OR push_bit 30 a) XOR (drop_bit 13 a OR push_bit 19 a) XOR (drop_bit 22 a OR push_bit 10 a);
          maj = (a AND b) XOR (a AND c) XOR (b AND c);
          temp2 = S0 + maj in
      (temp1 + temp2, a, b, c, d + temp1, e, f, g))"

definition work_of :: "u32 list \<Rightarrow> work" where
  "work_of s = (s ! 0, s ! 1, s ! 2, s ! 3, s ! 4, s ! 5, s ! 6, s ! 7)"

fun add_work :: "u32 list \<Rightarrow> work \<Rightarrow> u32 list" where
  "add_work s (a, b, c, d, e, f, g, h) =
     [s ! 0 + a, s ! 1 + b, s ! 2 + c, s ! 3 + d, s ! 4 + e, s ! 5 + f, s ! 6 + g, s ! 7 + h]"

definition transform :: "u32 list \<Rightarrow> bytes \<Rightarrow> u32 list" where
  "transform state block =
     (let w = schedule block in add_work state (fold (sha_round w) [0..<64] (work_of state)))"

subsection \<open>write, finalize and the one-shot functions\<close>

text \<open>
  \<open>write\<close> loops while input is left. With a full buffer it would copy nothing and never end;
  the context never leaves the buffer full, so the loop is \<open>partial_function\<close> and shown to
  return.
\<close>

partial_function (option) sha_write :: "sha_ctx \<Rightarrow> bytes \<Rightarrow> sha_ctx option" where
  [code]: "sha_write ctx data =
     (if data = [] then Some ctx
      else
        let space = 64 - sc_buffer_len ctx;
            chunk = (if length data < space then length data else space);
            buffer = take (sc_buffer_len ctx) (sc_buffer ctx) @ take chunk data @
                     drop (sc_buffer_len ctx + chunk) (sc_buffer ctx);
            ctx1 = ctx\<lparr>sc_buffer := buffer, sc_buffer_len := sc_buffer_len ctx + chunk,
                        sc_bytes := sc_bytes ctx + of_nat chunk\<rparr>;
            ctx2 = (if sc_buffer_len ctx1 = 64
                    then ctx1\<lparr>sc_state := transform (sc_state ctx1) (sc_buffer ctx1), sc_buffer_len := 0\<rparr>
                    else ctx1) in
        sha_write ctx2 (drop chunk data))"

definition sha_pad :: "u64 \<Rightarrow> bytes" where
  "sha_pad bytes =
     (let bits = bytes * 8;
          padlen = (if bytes mod 64 < 56 then 56 - bytes mod 64 else 120 - bytes mod 64) in
      (0x80 # replicate (unat padlen - 1) 0) @ write_be64 bits)"

definition sha_finalize :: "sha_ctx \<Rightarrow> bytes option" where
  "sha_finalize ctx =
     (case sha_write ctx (sha_pad (sc_bytes ctx)) of
        None \<Rightarrow> None
      | Some ctx' \<Rightarrow> Some (concat (map (\<lambda>i. write_be32 (sc_state ctx' ! i)) [0..<8])))"

definition sha256 :: "bytes \<Rightarrow> bytes \<Rightarrow> bytes option" where
  "sha256 garbage inp =
     (case sha_write (sha_init garbage) inp of None \<Rightarrow> None | Some ctx \<Rightarrow> sha_finalize ctx)"

definition sha256d :: "bytes \<Rightarrow> bytes \<Rightarrow> bytes option" where
  "sha256d garbage inp =
     (case sha256 garbage inp of None \<Rightarrow> None | Some tmp \<Rightarrow> sha256 garbage tmp)"

text \<open>\<open>sha256d64\<close>: the digests of consecutive 64-byte inputs, written one after the other.\<close>

fun sha256d64 :: "bytes \<Rightarrow> bytes \<Rightarrow> nat \<Rightarrow> bytes option" where
  "sha256d64 garbage inp 0 = Some []"
| "sha256d64 garbage inp (Suc blocks) =
     (case sha256d garbage (take 64 inp) of
        None \<Rightarrow> None
      | Some d \<Rightarrow>
          (case sha256d64 garbage (drop 64 inp) blocks of
             None \<Rightarrow> None
           | Some ds \<Rightarrow> Some (d @ ds)))"

subsection \<open>The standard\<close>

definition fips_sigma0 :: "u32 \<Rightarrow> u32" where
  "fips_sigma0 x = word_rotr 7 x XOR word_rotr 18 x XOR drop_bit 3 x"
definition fips_sigma1 :: "u32 \<Rightarrow> u32" where
  "fips_sigma1 x = word_rotr 17 x XOR word_rotr 19 x XOR drop_bit 10 x"
definition fips_Sigma0 :: "u32 \<Rightarrow> u32" where
  "fips_Sigma0 x = word_rotr 2 x XOR word_rotr 13 x XOR word_rotr 22 x"
definition fips_Sigma1 :: "u32 \<Rightarrow> u32" where
  "fips_Sigma1 x = word_rotr 6 x XOR word_rotr 11 x XOR word_rotr 25 x"
definition fips_Ch :: "u32 \<Rightarrow> u32 \<Rightarrow> u32 \<Rightarrow> u32" where
  "fips_Ch x y z = (x AND y) XOR (NOT x AND z)"
definition fips_Maj :: "u32 \<Rightarrow> u32 \<Rightarrow> u32 \<Rightarrow> u32" where
  "fips_Maj x y z = (x AND y) XOR (x AND z) XOR (y AND z)"

fun fips_W :: "u32 list \<Rightarrow> nat \<Rightarrow> u32" where
  "fips_W M t =
     (if t < 16 then M ! t
      else fips_sigma1 (fips_W M (t - 2)) + fips_W M (t - 7) +
           fips_sigma0 (fips_W M (t - 15)) + fips_W M (t - 16))"

declare fips_W.simps [simp del]

fun fips_round :: "u32 list \<Rightarrow> nat \<Rightarrow> work \<Rightarrow> work" where
  "fips_round M t (a, b, c, d, e, f, g, h) =
     (let T1 = h + fips_Sigma1 e + fips_Ch e f g + sha_K ! t + fips_W M t;
          T2 = fips_Sigma0 a + fips_Maj a b c in
      (T1 + T2, a, b, c, d + T1, e, f, g))"

text \<open>Words of a block, big-endian.\<close>

definition block_words :: "bytes \<Rightarrow> u32 list" where
  "block_words block = map (\<lambda>i. read_be32 (take 4 (drop (4 * i) block))) [0..<16]"

definition fips_compress :: "u32 list \<Rightarrow> bytes \<Rightarrow> u32 list" where
  "fips_compress H block =
     add_work H (fold (fips_round (block_words block)) [0..<64] (work_of H))"

fun fips_blocks :: "u32 list \<Rightarrow> bytes list \<Rightarrow> u32 list" where
  "fips_blocks H [] = H"
| "fips_blocks H (b # bs) = fips_blocks (fips_compress H b) bs"

fun chunk64 :: "nat \<Rightarrow> bytes \<Rightarrow> bytes list" where
  "chunk64 0 xs = []"
| "chunk64 (Suc n) xs = take 64 xs # chunk64 n (drop 64 xs)"

text \<open>A 1 bit, zeros up to 56 modulo 64, and the bit length as a 64-bit number.\<close>

definition fips_pad :: "bytes \<Rightarrow> bytes" where
  "fips_pad msg =
     0x80 # replicate ((119 - length msg mod 64) mod 64) 0 @ write_be64 (of_nat (8 * length msg))"

definition sha256_spec :: "bytes \<Rightarrow> bytes" where
  "sha256_spec msg =
     (let m = msg @ fips_pad msg in
      concat (map write_be32 (fips_blocks sha_IV (chunk64 (length m div 64) m))))"

subsection \<open>Transform is the standard's compression\<close>

lemma rotr_shift:
  "0 < n \<Longrightarrow> n < 32 \<Longrightarrow> drop_bit n (x :: u32) OR push_bit (32 - n) x = word_rotr n x"
proof (rule bit_word_eqI)
  fix k assume n: "0 < n" "n < 32" and k: "k < LENGTH(32)"
  show "bit (drop_bit n x OR push_bit (32 - n) x) k \<longleftrightarrow> bit (word_rotr n x) k"
  proof (cases "k + n < 32")
    case True
    then have "\<not> 32 - n \<le> k" by linarith
    with True k show ?thesis by (simp add: bit_simps add.commute)
  next
    case False
    have j: "32 - n \<le> k" using False by linarith
    define m where "m = k - (32 - n)"
    have m: "k + n = m + 32" "m < 32" using False j n k by (auto simp: m_def)
    then have "(k + n) mod 32 = m" by simp
    with False j n k show ?thesis
      by (auto simp: bit_simps add.commute m_def dest: bit_imp_le_length)
  qed
qed

lemma rotr_code:
  fixes x :: u32
  shows "drop_bit 2 x OR push_bit 30 x = word_rotr 2 x" "drop_bit 6 x OR push_bit 26 x = word_rotr 6 x"
    "drop_bit 7 x OR push_bit 25 x = word_rotr 7 x" "drop_bit 11 x OR push_bit 21 x = word_rotr 11 x"
    "drop_bit 13 x OR push_bit 19 x = word_rotr 13 x" "drop_bit 17 x OR push_bit 15 x = word_rotr 17 x"
    "drop_bit 18 x OR push_bit 14 x = word_rotr 18 x" "drop_bit 19 x OR push_bit 13 x = word_rotr 19 x"
    "drop_bit 22 x OR push_bit 10 x = word_rotr 22 x" "drop_bit 25 x OR push_bit 7 x = word_rotr 25 x"
  by (rule rotr_shift [THEN trans [rotated]], simp, simp, simp)+

lemma sched_load_words: "sched_load block = block_words block"
  by (simp add: sched_load_def block_words_def read_be32_def mult.commute)

lemma sched_next_fips:
  assumes "16 \<le> n" and w: "\<And>t. t < n \<Longrightarrow> w ! t = fips_W M t"
  shows "sched_next w n = w @ [fips_W M n]"
proof -
  have "fips_W M n = fips_sigma1 (fips_W M (n - 2)) + fips_W M (n - 7) +
      fips_sigma0 (fips_W M (n - 15)) + fips_W M (n - 16)"
    using assms(1) by (subst fips_W.simps) simp
  moreover have "w ! (n - 2) = fips_W M (n - 2)" "w ! (n - 7) = fips_W M (n - 7)"
    "w ! (n - 15) = fips_W M (n - 15)" "w ! (n - 16) = fips_W M (n - 16)"
    using assms(1) by (intro w; simp)+
  ultimately show ?thesis
    unfolding sched_next_def Let_def rotr_code fips_sigma0_def fips_sigma1_def
    by (simp add: add.commute add.left_commute)
qed

lemma schedule_fold:
  assumes "16 \<le> n"
  shows "length (fold (\<lambda>i w. sched_next w i) [16..<n] (sched_load block)) = n \<and>
    (\<forall>t < n. fold (\<lambda>i w. sched_next w i) [16..<n] (sched_load block) ! t = fips_W (block_words block) t)"
  using assms
proof (induction n rule: dec_induct)
  case base
  show ?case
    by (auto simp: sched_load_words fips_W.simps [of _ t for t]) (simp add: block_words_def)
next
  case (step n)
  let ?w = "fold (\<lambda>i w. sched_next w i) [16..<n] (sched_load block)"
  have snoc: "fold (\<lambda>i w. sched_next w i) [16..<Suc n] (sched_load block) = sched_next ?w n"
    using step.hyps(1) by simp
  have len: "length ?w = n" and eq: "t < n \<Longrightarrow> ?w ! t = fips_W (block_words block) t" for t
    using step.IH by auto
  have "sched_next ?w n = ?w @ [fips_W (block_words block) n]"
    using step.hyps(1) eq by (rule sched_next_fips)
  then show ?case
    unfolding snoc using len eq by (auto simp: nth_append less_Suc_eq)
qed

lemma round_eq:
  assumes "w ! i = fips_W M i"
  shows "sha_round w i x = fips_round M i x"
proof -
  obtain a b c d e f g h where x: "x = (a, b, c, d, e, f, g, h)"
    by (cases x) (metis surj_pair)
  show ?thesis
    unfolding x sha_round.simps fips_round.simps rotr_code assms Let_def
      fips_Sigma0_def fips_Sigma1_def fips_Ch_def fips_Maj_def ..
qed

lemma transform_fips: "transform state block = fips_compress state block"
proof -
  have "fold (sha_round (schedule block)) [0..<64] x = fold (fips_round (block_words block)) [0..<64] x" for x
    using schedule_fold [of 64 block]
    by (intro fold_cong) (auto simp: schedule_def round_eq fun_eq_iff)
  then show ?thesis by (simp add: transform_def fips_compress_def Let_def)
qed

subsection \<open>Streaming\<close>

lemma fips_blocks_append: "fips_blocks H (xs @ ys) = fips_blocks (fips_blocks H xs) ys"
  by (induction xs arbitrary: H) simp_all

lemma chunk64_snoc: "chunk64 (Suc n) xs = chunk64 n xs @ [take 64 (drop (64 * n) xs)]"
proof (induction n arbitrary: xs)
  case (Suc n)
  have "chunk64 (Suc (Suc n)) xs = take 64 xs # chunk64 (Suc n) (drop 64 xs)" by simp
  also have "\<dots> = take 64 xs # chunk64 n (drop 64 xs) @ [take 64 (drop (64 * n) (drop 64 xs))]"
    by (simp only: Suc.IH)
  finally show ?case by (simp add: add.commute)
qed simp

lemma chunk64_append: "64 * n \<le> length m \<Longrightarrow> chunk64 n (m @ d) = chunk64 n m"
  by (induction n arbitrary: m) simp_all

text \<open>The context that has absorbed the message \<open>m\<close>.\<close>

definition sha_rep :: "sha_ctx \<Rightarrow> bytes \<Rightarrow> bool" where
  "sha_rep ctx m \<longleftrightarrow>
     length (sc_buffer ctx) = 64 \<and> sc_buffer_len ctx = length m mod 64 \<and>
     take (length m mod 64) (sc_buffer ctx) = drop (64 * (length m div 64)) m \<and>
     sc_bytes ctx = of_nat (length m) \<and>
     sc_state ctx = fips_blocks sha_IV (chunk64 (length m div 64) m)"

lemma sha_rep_init: "length garbage = 64 \<Longrightarrow> sha_rep (sha_init garbage) []"
  by (simp add: sha_rep_def sha_init_def)

lemma sha_rep_reset: "length (sc_buffer ctx) = 64 \<Longrightarrow> sha_rep (sha_reset ctx) []"
  by (simp add: sha_rep_def sha_reset_def)

text \<open>One pass of the loop absorbs one chunk.\<close>

definition absorb :: "sha_ctx \<Rightarrow> bytes \<Rightarrow> nat \<Rightarrow> sha_ctx" where
  "absorb ctx data c =
     (let ctx1 = ctx\<lparr>sc_buffer := take (sc_buffer_len ctx) (sc_buffer ctx) @ take c data @
                       drop (sc_buffer_len ctx + c) (sc_buffer ctx),
                     sc_buffer_len := sc_buffer_len ctx + c,
                     sc_bytes := sc_bytes ctx + of_nat c\<rparr> in
      if sc_buffer_len ctx1 = 64
      then ctx1\<lparr>sc_state := transform (sc_state ctx1) (sc_buffer ctx1), sc_buffer_len := 0\<rparr>
      else ctx1)"

lemma sha_write_step:
  "data \<noteq> [] \<Longrightarrow> sha_write ctx data =
     (let c = min (length data) (64 - sc_buffer_len ctx) in sha_write (absorb ctx data c) (drop c data))"
proof -
  assume ne: "data \<noteq> []"
  have m: "min (length data) (64 - sc_buffer_len ctx) =
      (if length data < 64 - sc_buffer_len ctx then length data else 64 - sc_buffer_len ctx)"
    by (simp add: min_def)
  show ?thesis
    unfolding m absorb_def Let_def
    by (subst sha_write.simps) (simp only: ne if_False Let_def)
qed

lemma sha_rep_absorb:
  assumes rep: "sha_rep ctx m" and c: "c \<le> length data" "c \<le> 64 - length m mod 64" "0 < c"
  shows "sha_rep (absorb ctx data c) (m @ take c data)"
proof -
  define n r where "n = length m div 64" and "r = length m mod 64"
  have L: "length m = 64 * n + r" and r: "r < 64" by (simp_all add: n_def r_def)
  have ctx: "length (sc_buffer ctx) = 64" "sc_buffer_len ctx = r"
    "take r (sc_buffer ctx) = drop (64 * n) m" "sc_bytes ctx = of_nat (length m)"
    "sc_state ctx = fips_blocks sha_IV (chunk64 n m)"
    using rep by (simp_all add: sha_rep_def n_def r_def)
  have L': "length (m @ take c data) = 64 * n + (r + c)" using L c(1) by simp
  have D: "drop (64 * n) (m @ take c data) = take r (sc_buffer ctx) @ take c data"
    using L by (simp add: ctx(3))
  show ?thesis
  proof (cases "r + c = 64")
    case True
    then have dm: "length (m @ take c data) div 64 = Suc n" "length (m @ take c data) mod 64 = 0"
      unfolding L' by simp_all
    let ?b = "take r (sc_buffer ctx) @ take c data"
    have b: "?b @ drop (r + c) (sc_buffer ctx) = ?b" "length ?b = 64"
      using True c(1) r ctx(1) by simp_all
    have "take 64 (drop (64 * n) (m @ take c data)) = ?b" unfolding D using b(2) by (intro take_all) simp
    moreover have "chunk64 n (m @ take c data) = chunk64 n m"
      using L by (intro chunk64_append) simp
    ultimately have "chunk64 (Suc n) (m @ take c data) = chunk64 n m @ [?b]"
      by (simp only: chunk64_snoc)
    then have st: "fips_blocks sha_IV (chunk64 (Suc n) (m @ take c data)) = transform (sc_state ctx) ?b"
      by (simp only: fips_blocks_append ctx(5) transform_fips fips_blocks.simps)
    have "absorb ctx data c = ctx\<lparr>sc_buffer := ?b, sc_buffer_len := 0, sc_bytes := sc_bytes ctx + of_nat c,
        sc_state := transform (sc_state ctx) ?b\<rparr>"
      using True b(1) by (simp add: absorb_def ctx(2))
    with True b(2) show ?thesis
      unfolding sha_rep_def dm st using L' ctx(4) c(1) L
      by (simp add: min_def)
  next
    case False
    then have lt: "r + c < 64" using c(2) r_def r by linarith
    then have dm: "length (m @ take c data) div 64 = n" "length (m @ take c data) mod 64 = r + c"
      unfolding L' by simp_all
    have st: "chunk64 n (m @ take c data) = chunk64 n m"
      using L by (intro chunk64_append) simp
    define b where "b = take r (sc_buffer ctx) @ take c data"
    define rest where "rest = drop (r + c) (sc_buffer ctx)"
    have "length b = r + c" using r c(1) ctx(1) by (simp add: b_def)
    then have buf: "length (b @ rest) = 64" "take (r + c) (b @ rest) = b"
      using lt ctx(1) by (simp_all add: rest_def)
    have bytes: "of_nat (length (m @ take c data)) = sc_bytes ctx + of_nat c"
      using c(1) ctx(4) by simp
    have "absorb ctx data c = ctx\<lparr>sc_buffer := b @ rest, sc_buffer_len := r + c, sc_bytes := sc_bytes ctx + of_nat c\<rparr>"
      using False by (simp add: absorb_def ctx(2) b_def rest_def)
    then show ?thesis
      unfolding sha_rep_def dm st D bytes using buf ctx(5) by (simp add: b_def)
  qed
qed

lemma sha_write_rep:
  "sha_rep ctx m \<Longrightarrow> \<exists>ctx'. sha_write ctx data = Some ctx' \<and> sha_rep ctx' (m @ data)"
proof (induction "length data" arbitrary: ctx m data rule: less_induct)
  case less
  show ?case
  proof (cases "data = []")
    case True
    then show ?thesis using less.prems by (subst sha_write.simps) simp
  next
    case False
    define c where "c = min (length data) (64 - sc_buffer_len ctx)"
    have bl: "sc_buffer_len ctx = length m mod 64" using less.prems by (simp add: sha_rep_def)
    have c: "c \<le> length data" "c \<le> 64 - length m mod 64" "0 < c"
      using False by (simp_all add: c_def bl)
    have "length (drop c data) < length data" using c False by simp
    from less.hyps [OF this sha_rep_absorb [OF less.prems c]]
    obtain ctx' where "sha_write (absorb ctx data c) (drop c data) = Some ctx'"
      "sha_rep ctx' ((m @ take c data) @ drop c data)" by blast
    then show ?thesis
      using sha_write_step [OF False, of ctx] by (auto simp: Let_def c_def)
  qed
qed

lemma sha_pad_fips: "sha_pad (of_nat (length m)) = fips_pad m"
proof -
  let ?x = "of_nat (length m) mod 64 :: u64"
  have x: "unat ?x = length m mod 64" by (simp add: unat_mod unat_of_nat mod_mod_cancel)
  have pl: "unat (if ?x < 56 then 56 - ?x else 120 - ?x) - 1 = (119 - length m mod 64) mod 64"
  proof (cases "length m mod 64 < 56")
    case True
    then have lt: "?x < 56" by (simp only: word_less_nat_alt x) simp
    then have "unat (56 - ?x) = 56 - length m mod 64"
      by (subst unat_sub) (auto simp only: x, simp_all)
    moreover have "(119 - length m mod 64) mod 64 = 55 - length m mod 64"
    proof -
      have "119 - length m mod 64 = (55 - length m mod 64) + 64" using True by simp
      then have "(119 - length m mod 64) mod 64 = (55 - length m mod 64) mod 64" by (metis mod_add_self2)
      then show ?thesis by simp
    qed
    ultimately show ?thesis using lt by simp
  next
    case False
    then have nl: "\<not> ?x < 56" by (simp only: word_less_nat_alt x) simp
    have "length m mod 64 < 64" by simp
    then have "?x \<le> 120" by (simp only: word_le_nat_alt x) simp
    then have "unat (120 - ?x) = 120 - length m mod 64"
      by (subst unat_sub) (auto simp only: x, simp_all)
    moreover have "120 - length m mod 64 - 1 = 119 - length m mod 64" by simp
    moreover have "119 - length m mod 64 < 64" using False by simp
    ultimately show ?thesis using nl by simp
  qed
  show ?thesis
    unfolding sha_pad_def fips_pad_def Let_def pl by (simp add: mult.commute)
qed

lemma length_add_work [simp]: "length (add_work s x) = 8"
proof -
  obtain a b c d e f g h where x: "x = (a, b, c, d, e, f, g, h)"
    by (cases x) (metis surj_pair)
  show ?thesis by (simp add: x)
qed

lemma length_fips_blocks [simp]: "length H = 8 \<Longrightarrow> length (fips_blocks H bs) = 8"
  by (induction bs arbitrary: H) (simp_all add: fips_compress_def)

lemma length_fips_state [simp]: "length (fips_blocks sha_IV bs) = 8"
  by (simp add: sha_IV_def)

lemma sha_rep_bytes: "sha_rep ctx m \<Longrightarrow> sc_bytes ctx = of_nat (length m)"
  by (simp add: sha_rep_def)

lemma sha_finalize_rep:
  assumes "sha_rep ctx m"
  shows "sha_finalize ctx = Some (sha256_spec m)"
proof -
  obtain ctx' where w: "sha_write ctx (fips_pad m) = Some ctx'" and rep: "sha_rep ctx' (m @ fips_pad m)"
    using sha_write_rep [OF assms] by blast
  have "sc_state ctx' = fips_blocks sha_IV (chunk64 (length (m @ fips_pad m) div 64) (m @ fips_pad m))"
    using rep by (simp only: sha_rep_def)
  moreover have "map (\<lambda>i. write_be32 (s ! i)) [0..<8] = map write_be32 s" if "length s = 8" for s :: "u32 list"
    using that by (intro nth_equalityI) simp_all
  ultimately show ?thesis
    using w by (simp add: sha_finalize_def sha_rep_bytes [OF assms] sha_pad_fips sha256_spec_def Let_def)
qed

text \<open>A caller's sequence of writes.\<close>

fun sha_writes :: "sha_ctx \<Rightarrow> bytes list \<Rightarrow> sha_ctx option" where
  "sha_writes ctx [] = Some ctx"
| "sha_writes ctx (d # ds) = (case sha_write ctx d of None \<Rightarrow> None | Some ctx' \<Rightarrow> sha_writes ctx' ds)"

lemma sha_writes_rep:
  "sha_rep ctx m \<Longrightarrow> \<exists>ctx'. sha_writes ctx ds = Some ctx' \<and> sha_rep ctx' (m @ concat ds)"
proof (induction ds arbitrary: ctx m)
  case (Cons d ds)
  obtain ctx' where w: "sha_write ctx d = Some ctx'" and rep: "sha_rep ctx' (m @ d)"
    using sha_write_rep [OF Cons.prems] by blast
  from Cons.IH [OF rep] w show ?case by auto
qed simp

lemma sha256_Some: "length garbage = 64 \<Longrightarrow> sha256 garbage m = Some (sha256_spec m)"
  using sha_write_rep [OF sha_rep_init, of garbage m] sha_finalize_rep
  by (auto simp: sha256_def)

lemma length_sha256_spec [simp]: "length (sha256_spec m) = 32"
proof -
  have "length (concat (map write_be32 s)) = 4 * length s" for s
    by (induction s) simp_all
  then show ?thesis by (simp add: sha256_spec_def Let_def)
qed

subsection \<open>The hash interface\<close>

text \<open>
  What the chain code relies on in a digest function: every digest has 32 bytes. The function
  of this file is one; the daemon calls OpenSSL's, which the chain theories take as a
  parameter.
\<close>

locale hash_fn =
  fixes H :: "bytes \<Rightarrow> h256"
  assumes H_length: "is_h256 (H m)"
begin

lemma H_len32 [simp]: "length (H m) = 32"
  using H_length by (simp add: is_h256_def)

text \<open>Two different inputs with one digest.\<close>

definition collision :: "bytes \<Rightarrow> bytes \<Rightarrow> bool" where
  "collision x y \<longleftrightarrow> x \<noteq> y \<and> H x = H y"

lemma no_collision_inj: "\<not> collision x y \<Longrightarrow> H x = H y \<Longrightarrow> x = y"
  by (auto simp: collision_def)

end

definition sha_digest :: "bytes \<Rightarrow> h256" where
  "sha_digest m = (case sha256 (replicate 64 0) m of Some d \<Rightarrow> d | None \<Rightarrow> [])"

interpretation sha: hash_fn sha_digest
  by unfold_locales (simp add: sha_digest_def sha256_Some is_h256_def)

subsection \<open>Properties\<close>

text \<open>The incremental context computes SHA-256 as the standard defines it, and how the
  input is cut into writes does not matter: after any sequence of writes, \<open>finalize\<close> returns
  (the write loop ends) the digest of the concatenated input, and so does the one-shot
  function. Nothing depends on the uninitialised buffer.\<close>

theorem sha256_streaming:
  assumes "length garbage = 64"
  shows "(case sha_writes (sha_init garbage) chunks of None \<Rightarrow> None | Some ctx \<Rightarrow> sha_finalize ctx) =
      Some (sha256_spec (concat chunks)) \<and>
    sha256 garbage (concat chunks) = Some (sha256_spec (concat chunks))"
  using sha_writes_rep [OF sha_rep_init [OF assms], of chunks] sha_finalize_rep
    sha256_Some [OF assms]
  by auto

lemma sha256_streaming_witness:
  "length (replicate 64 (0 :: u8)) = 64 \<and>
   (case sha_writes (sha_init (replicate 64 0)) [[1], [2, 3]] of None \<Rightarrow> None | Some ctx \<Rightarrow> sha_finalize ctx) =
     sha256 (replicate 64 0) [1, 2, 3]"
  using sha256_streaming [of "replicate 64 0" "[[1], [2, 3]]"] by simp

end
