(* ===== verification/PiHash.thy ===== *)
theory PiHash
  imports Sha256
begin

text \<open>
  \<open>cpp/hw/pihash.cpp\<close>, the proof-of-work function.

  \<^item> the difficulty test on hexadecimal digests, and the same test on the raw digest
    (\<open>Storage::validate_block_pow\<close>), with their meaning: the digest, read as a big-endian
    number, is below \<open>2 ^ (256 - bits)\<close>;
  \<^item> \<open>MemoryHardMix\<close>, \<open>CpuOptimizedFinalize\<close>, \<open>ArmDiffusion\<close> and \<open>MixFinalize\<close>;
  \<^item> the hardware check, \<open>HardwareHash\<close>, \<open>Compute\<close> and the nonce search, over a given
    fingerprint. What the code reads from the machine (the fingerprint, the clock, the
    existence of \<open>/dev/npu\<close>) is an argument.

  \<open>sha256\<close> is the model of theory Sha256.
\<close>

subsection \<open>Difficulty test\<close>

definition hex_val :: "char \<Rightarrow> nat" where
  "hex_val c = (if nybble c < 0 then 0 else nat (nybble c))"

fun nibble_zeros :: "nat \<Rightarrow> nat \<Rightarrow> nat" where
  "nibble_zeros v 0 = 0"
| "nibble_zeros v (Suc bit_pos) = (if \<not> bit v bit_pos then Suc (nibble_zeros v bit_pos) else 0)"

fun count_leading_zero_bits :: "string \<Rightarrow> nat" where
  "count_leading_zero_bits [] = 0"
| "count_leading_zero_bits (c # cs) =
     (if hex_val c = 0 then 4 + count_leading_zero_bits cs else nibble_zeros (hex_val c) 4)"

definition meets_difficulty :: "string \<Rightarrow> int \<Rightarrow> bool" where
  "meets_difficulty hash_hex target_zero_bits \<longleftrightarrow>
     int (count_leading_zero_bits hash_hex) \<ge> target_zero_bits"

text \<open>\<open>Storage::validate_block_pow\<close>; the inner loop shifts the first nonzero byte.\<close>

function byte_zeros :: "u8 \<Rightarrow> nat \<Rightarrow> nat" where
  "byte_zeros byte zero_bits =
     (if byte AND 0x80 = 0 \<and> zero_bits < 256 then byte_zeros (push_bit 1 byte) (zero_bits + 1)
      else zero_bits)"
  by pat_completeness auto
termination by (relation "measure (\<lambda>(_, z). 256 - z)") auto

declare byte_zeros.simps [simp del]

fun pow_zero_bits :: "bytes \<Rightarrow> nat \<Rightarrow> nat" where
  "pow_zero_bits [] zero_bits = zero_bits"
| "pow_zero_bits (b # bs) zero_bits =
     (if b = 0 then pow_zero_bits bs (zero_bits + 8) else byte_zeros b zero_bits)"

definition validate_block_pow :: "h256 \<Rightarrow> u32 \<Rightarrow> bool" where
  "validate_block_pow h difficulty \<longleftrightarrow> int (pow_zero_bits (take 32 h) 0) \<ge> sint difficulty"

subsection \<open>Mixing\<close>

record pihash_t =
  ph_rounds :: int
  ph_memory_bytes :: int
  ph_npu_enabled :: bool

text \<open>The constructor; \<open>memory_mb * 1024 * 1024\<close> is a signed 32-bit product, undefined beyond
  its range.\<close>

definition pihash_new :: "int \<Rightarrow> int \<Rightarrow> bool \<Rightarrow> pihash_t option" where
  "pihash_new rounds memory_mb npu_enabled =
     (let m0 = memory_mb * 1024 * 1024 in
      if m0 < - (2 ^ 31) \<or> m0 \<ge> 2 ^ 31 then None
      else
        let m1 = (if m0 > 256 * 1024 * 1024 then 256 * 1024 * 1024 else m0);
            m2 = (if m1 < 1024 then 1024 else m1) in
        Some \<lparr> ph_rounds = rounds, ph_memory_bytes = m2, ph_npu_enabled = npu_enabled \<rparr>)"

definition nonce_bytes :: "u32 \<Rightarrow> bytes" where
  "nonce_bytes nonce =
     [ucast (nonce AND 0xFF), ucast (drop_bit 8 nonce AND 0xFF),
      ucast (drop_bit 16 nonce AND 0xFF), ucast (drop_bit 24 nonce AND 0xFF)]"

definition chunk_hash :: "bytes \<Rightarrow> u32 \<Rightarrow> nat \<Rightarrow> bytes" where
  "chunk_hash hw_hash nonce i =
     sha_digest (hw_hash @ nonce_bytes nonce @
       map (\<lambda>j. ucast (drop_bit (j * 8) (of_nat i :: u64) AND 0xFF)) [0..<8])"

text \<open>The inner fill: \<open>memory_buffer[i + j] = chunk_hash[j]\<close> while inside the buffer.\<close>

fun fill_chunk :: "bytes \<Rightarrow> nat \<Rightarrow> bytes \<Rightarrow> nat \<Rightarrow> bytes" where
  "fill_chunk buf i h 0 = buf"
| "fill_chunk buf i h (Suc j) =
     (let buf' = fill_chunk buf i h j in if i + j < length buf' then buf'[i + j := h ! j] else buf')"

lemma length_fill_chunk [simp]: "length (fill_chunk buf i h n) = length buf"
  by (induction n) (simp_all add: Let_def)

function fill_memory :: "bytes \<Rightarrow> u32 \<Rightarrow> nat \<Rightarrow> bytes \<Rightarrow> bytes" where
  "fill_memory hw_hash nonce i buf =
     (if i < length buf
      then fill_memory hw_hash nonce (i + 32) (fill_chunk buf i (chunk_hash hw_hash nonce i) 32)
      else buf)"
  by pat_completeness auto

termination by (relation "measure (\<lambda>(_, _, i, buf). length buf - i)") auto

declare fill_memory.simps [simp del]

definition memory_hard_mix :: "pihash_t \<Rightarrow> bytes \<Rightarrow> u32 \<Rightarrow> bytes" where
  "memory_hard_mix ph hw_hash nonce =
     sha_digest (fill_memory hw_hash nonce 0
       (replicate (nat (min (ph_memory_bytes ph) (1024 * 1024))) 0))"

definition mix_byte :: "u8 \<Rightarrow> u8 \<Rightarrow> u8 \<Rightarrow> u8" where
  "mix_byte a b c =
     (let m0 = (ucast a + ucast b + ucast c) AND 0xFF :: u32;
          m1 = (m0 * 7 + 3) AND 0xFF;
          m2 = m1 XOR drop_bit 4 m1 in
      ucast (m2 AND 0xFF))"

definition mix_step :: "nat \<Rightarrow> bytes \<Rightarrow> bytes" where
  "mix_step i s =
     s[i := mix_byte (s ! i) (s ! ((i + 1) mod length s)) (s ! ((i + 2) mod length s))]"

definition diffuse4 :: "u8 \<times> u8 \<times> u8 \<times> u8 \<Rightarrow> u8 \<times> u8 \<times> u8 \<times> u8" where
  "diffuse4 = (\<lambda>(a, b, c, d).
     let a1 = a + b; c1 = c + d;
         temp = a1; a2 = a1 XOR c1; c2 = temp XOR c1;
         b1 = b + c2; d1 = d + a2 in
     (a2, b1, c2, d1))"

fun arm_diffusion :: "bytes \<Rightarrow> bytes" where
  "arm_diffusion (a # b # c # d # rest) =
     (case diffuse4 (a, b, c, d) of (a', b', c', d') \<Rightarrow> a' # b' # c' # d' # arm_diffusion rest)"
| "arm_diffusion short = short"

definition finalize_round :: "bytes \<Rightarrow> bytes" where
  "finalize_round s = arm_diffusion (fold mix_step [0..<length s] s)"

definition cpu_optimized_finalize :: "pihash_t \<Rightarrow> bytes \<Rightarrow> bytes" where
  "cpu_optimized_finalize ph memory_hash = (finalize_round ^^ nat (ph_rounds ph)) memory_hash"

definition mix_finalize :: "pihash_t \<Rightarrow> bytes \<Rightarrow> u32 \<Rightarrow> bytes" where
  "mix_finalize ph preimage nonce_low =
     cpu_optimized_finalize ph (memory_hard_mix ph preimage nonce_low)"

definition npu_accelerate :: "bytes \<Rightarrow> bytes" where
  "npu_accelerate data = sha_digest (data @ bytes_of ''NPU_ACCEL'')"

subsection \<open>Hardware check, Compute and the nonce search\<close>

record hw_fingerprint =
  hf_cpu_serial :: string
  hf_hardware_model :: string
  hf_memory_total :: u64
  hf_hardware_rng :: bytes
  hf_unique_id :: string
  hf_videocore_verified :: bool
  hf_gpu_temperature :: u32

fun contains_str :: "string \<Rightarrow> string \<Rightarrow> bool" where
  "contains_str pat [] = (pat = [])"
| "contains_str pat (c # cs) = (take (length pat) (c # cs) = pat \<or> contains_str pat cs)"

fun count_unique :: "bytes \<Rightarrow> bytes \<Rightarrow> nat" where
  "count_unique seen [] = 0"
| "count_unique seen (b # bs) =
     (if b \<in> set seen then count_unique (seen @ [b]) bs else Suc (count_unique (seen @ [b]) bs))"

definition verify_hardware :: "hw_fingerprint \<Rightarrow> bool" where
  "verify_hardware fp \<longleftrightarrow>
     (contains_str ''Raspberry Pi'' (hf_hardware_model fp) \<or>
      contains_str ''raspberry pi'' (hf_hardware_model fp)) \<and>
     \<not> (hf_cpu_serial fp = [] \<or> length (hf_cpu_serial fp) < 8) \<and>
     \<not> (hf_memory_total fp < 512 * 1024 * 1024 \<or> hf_memory_total fp > 32 * 1024 * 1024 * 1024) \<and>
     length (hf_hardware_rng fp) = 32 \<and>
     count_unique [] (hf_hardware_rng fp) \<ge> 16"

definition pattern_next :: "u64 \<Rightarrow> u64" where
  "pattern_next seed = (seed * 1103515245 + 12345) AND 0x7FFFFFFF"

fun memory_pattern :: "nat \<Rightarrow> u64 \<Rightarrow> bytes" where
  "memory_pattern 0 seed = []"
| "memory_pattern (Suc n) seed =
     (let s = pattern_next seed in ucast (s mod 256) # memory_pattern n s)"

definition hardware_hash :: "bytes \<Rightarrow> u32 \<Rightarrow> hw_fingerprint \<Rightarrow> u64 \<Rightarrow> bytes" where
  "hardware_hash data nonce fp now =
     (let hw_data = data @ nonce_bytes nonce @ bytes_of (hf_unique_id fp) @
                    hf_hardware_rng fp @ bytes_of (hf_cpu_serial fp);
          initial_hash = sha_digest hw_data in
      map2 (XOR) initial_hash (memory_pattern 32 (hf_memory_total fp XOR now)))"

text \<open>\<open>Compute\<close> with the fingerprint given; \<open>None\<close> is the exception it throws.\<close>

definition compute :: "pihash_t \<Rightarrow> bytes \<Rightarrow> u32 \<Rightarrow> hw_fingerprint \<Rightarrow> u64 \<Rightarrow> bool \<Rightarrow> string option" where
  "compute ph data nonce fp now npu_device =
     (if \<not> verify_hardware fp then None
      else
        let hw = hardware_hash data nonce fp now;
            memory_hash = memory_hard_mix ph hw nonce;
            cpu_hash = cpu_optimized_finalize ph memory_hash;
            final_hash = (if ph_npu_enabled ph \<and> npu_device then npu_accelerate cpu_hash else cpu_hash) in
        Some (to_hex final_hash))"

text \<open>The search takes the clock as a function of the nonce, since \<open>Compute\<close> reads it anew.\<close>

function find_nonce ::
  "pihash_t \<Rightarrow> bytes \<Rightarrow> int \<Rightarrow> hw_fingerprint \<Rightarrow> (u32 \<Rightarrow> u64) \<Rightarrow> bool \<Rightarrow> u32 \<Rightarrow> u32 \<Rightarrow> (u32 \<times> string) option"
  where
  "find_nonce ph data difficulty fp clock npu max_attempts nonce =
     (if nonce < max_attempts then
        (case compute ph data nonce fp (clock nonce) npu of
           None \<Rightarrow> None
         | Some hash_hex \<Rightarrow>
             if meets_difficulty hash_hex difficulty then Some (nonce, hash_hex)
             else find_nonce ph data difficulty fp clock npu max_attempts (nonce + 1))
      else None)"
  by pat_completeness auto
termination
proof (relation "measure (\<lambda>(_, _, _, _, _, _, m, n). unat m - unat n)", simp)
  fix ph data difficulty fp clock npu and max_attempts nonce :: u32 and x2
  assume "nonce < max_attempts"
  then have "unat nonce < unat max_attempts" by (simp add: word_less_nat_alt)
  moreover from this have "unat (nonce + 1) = unat nonce + 1"
    using unsigned_less [of max_attempts, where ?'a = nat] by (simp add: unat_word_ariths)
  ultimately show "((ph, data, difficulty, fp, clock, npu, max_attempts, nonce + 1),
      (ph, data, difficulty, fp, clock, npu, max_attempts, nonce))
      \<in> measure (\<lambda>(_, _, _, _, _, _, m, n). unat m - unat n)" by simp
qed

declare find_nonce.simps [simp del]

subsection \<open>What the difficulty test means\<close>

text \<open>Leading zero bits of a number written with digits of \<open>w\<close> bits.\<close>

fun lz :: "nat \<Rightarrow> nat list \<Rightarrow> nat" where
  "lz w [] = 0"
| "lz w (d # ds) = (if d = 0 then w + lz w ds else nibble_zeros d w)"

fun digits_val :: "nat \<Rightarrow> nat list \<Rightarrow> nat" where
  "digits_val w [] = 0"
| "digits_val w (d # ds) = d * 2 ^ (w * length ds) + digits_val w ds"

definition be_value :: "bytes \<Rightarrow> nat" where
  "be_value bs = digits_val 8 (map unat bs)"

lemma nibble_zeros_iff:
  "v < 2 ^ p \<Longrightarrow> n \<le> p \<Longrightarrow> n \<le> nibble_zeros v p \<longleftrightarrow> v < 2 ^ (p - n)"
proof (induction p arbitrary: n)
  case (Suc p)
  show ?case
  proof (cases n)
    case 0
    with Suc.prems show ?thesis by simp
  next
    case (Suc m)
    show ?thesis
    proof (cases "v < 2 ^ p")
      case True
      then have "\<not> bit v p" by (simp add: bit_iff_odd)
      with Suc Suc.IH [OF True, of m] Suc.prems(2) show ?thesis by simp
    next
      case False
      with Suc.prems(1) have "v div 2 ^ p = 1"
        by (intro div_nat_eqI) (simp_all add: mult.commute)
      then have b: "bit v p" by (simp add: bit_iff_odd)
      have "(2::nat) ^ (p - m) \<le> 2 ^ p" by (intro power_increasing) simp_all
      with False have "\<not> v < 2 ^ (p - m)" by linarith
      with b Suc show ?thesis by simp
    qed
  qed
qed simp

lemma digits_val_less: "\<forall>d \<in> set ds. d < 2 ^ w \<Longrightarrow> digits_val w ds < 2 ^ (w * length ds)"
proof (induction ds)
  case (Cons d ds)
  then have "d + 1 \<le> 2 ^ w" and IH: "digits_val w ds < 2 ^ (w * length ds)" by auto
  then have "(d + 1) * 2 ^ (w * length ds) \<le> 2 ^ w * 2 ^ (w * length ds)"
    by (intro mult_right_mono) auto
  with IH show ?case by (simp add: power_add)
qed simp

lemma scaled_less_iff: "r < (2::nat) ^ l \<Longrightarrow> d * 2 ^ l + r < 2 ^ (k + l) \<longleftrightarrow> d < 2 ^ k"
proof -
  assume r: "r < (2::nat) ^ l"
  show ?thesis
  proof
    assume "d * 2 ^ l + r < 2 ^ (k + l)"
    then have "d * 2 ^ l + r < 2 ^ k * 2 ^ l" by (simp only: power_add)
    then have "d * 2 ^ l < 2 ^ k * 2 ^ l" by (rule le_less_trans [rotated]) simp
    then show "d < 2 ^ k" by (simp only: mult_less_cancel2)
  next
    assume "d < 2 ^ k"
    then have "(d + 1) * 2 ^ l \<le> 2 ^ k * 2 ^ l" by (intro mult_right_mono) auto
    with r show "d * 2 ^ l + r < 2 ^ (k + l)" by (simp add: power_add)
  qed
qed

lemma lz_iff:
  "0 < w \<Longrightarrow> \<forall>d \<in> set ds. d < 2 ^ w \<Longrightarrow> n \<le> w * length ds \<Longrightarrow>
   n \<le> lz w ds \<longleftrightarrow> digits_val w ds < 2 ^ (w * length ds - n)"
proof (induction ds arbitrary: n)
  case (Cons d ds)
  let ?l = "w * length ds" and ?r = "digits_val w ds"
  have r: "?r < 2 ^ ?l" using Cons.prems(2) by (intro digits_val_less) simp
  have d: "d < 2 ^ w" using Cons.prems(2) by simp
  show ?case
  proof (cases "n \<le> w")
    case True
    have e: "w * length (d # ds) - n = (w - n) + ?l" using True by simp
    have "digits_val w (d # ds) < 2 ^ (w * length (d # ds) - n) \<longleftrightarrow> d < 2 ^ (w - n)"
      unfolding e using scaled_less_iff [OF r] by simp
    moreover have "n \<le> lz w (d # ds) \<longleftrightarrow> d < 2 ^ (w - n)"
      using True nibble_zeros_iff [OF d True] by simp
    ultimately show ?thesis by simp
  next
    case False
    show ?thesis
    proof (cases "d = 0")
      case True
      have "n \<le> w + lz w ds \<longleftrightarrow> n - w \<le> lz w ds" using False by linarith
      moreover have "w * length (d # ds) - n = ?l - (n - w)" using False by simp
      moreover have "n - w \<le> ?l" using Cons.prems(3) by simp
      ultimately show ?thesis
        using True Cons.IH [OF Cons.prems(1), of "n - w"] Cons.prems(2) by simp
    next
      case d0: False
      have nz: "\<not> n \<le> nibble_zeros d w"
      proof
        assume "n \<le> nibble_zeros d w"
        then have "w \<le> nibble_zeros d w" using False by linarith
        then have "d < 2 ^ (w - w)" using nibble_zeros_iff [OF d, of w] by blast
        with d0 show False by simp
      qed
      have "(2::nat) ^ (w * length (d # ds) - n) \<le> 2 ^ ?l"
        using False by (intro power_increasing) auto
      also have "\<dots> \<le> d * 2 ^ ?l" using d0 by simp
      finally show ?thesis using nz d0 by simp
    qed
  qed
qed simp

lemma clz_lz: "count_leading_zero_bits s = lz 4 (map hex_val s)"
  by (induction s) simp_all

lemma hex_val_hexd: "n < 16 \<Longrightarrow> hex_val (hexd ! n) = n"
  by (simp add: hex_val_def nybble_hexd)

lemma unat_lo_nibble: "unat (b AND 0x0f :: u8) = unat b mod 16"
proof -
  have "(15 :: u8) = mask 4" by (simp add: mask_eq_exp_minus_1)
  then have "b AND 0x0f = take_bit 4 b" by (simp add: take_bit_eq_mask)
  then show ?thesis by (simp only: unsigned_take_bit_eq) (simp add: take_bit_eq_mod)
qed

lemma unat_hi_nibble: "unat (drop_bit 4 b :: u8) = unat b div 16"
  by (simp only: unat_drop_bit_eq) (simp add: drop_bit_eq_div)

lemma hex_val_of_byte: "map hex_val (hex_of_byte b) = [unat b div 16, unat b mod 16]"
proof -
  have "unat b div 16 < 16" using unat_u8_less [of b] by simp
  then show ?thesis
    by (simp only: hex_of_byte_def unat_lo_nibble unat_hi_nibble list.map hex_val_hexd)
qed

lemma hex_digits:
  "length (map hex_val (to_hex d)) = 2 * length d \<and> (\<forall>v \<in> set (map hex_val (to_hex d)). v < 16) \<and>
   digits_val 4 (map hex_val (to_hex d)) = be_value d"
proof (induction d)
  case (Cons b d)
  have "to_hex (b # d) = hex_of_byte b @ to_hex d" by (simp add: to_hex_def)
  then have m: "map hex_val (to_hex (b # d)) = unat b div 16 # unat b mod 16 # map hex_val (to_hex d)"
    by (simp only: map_append hex_val_of_byte) simp
  let ?L = "2 ^ (8 * length d) :: nat"
  have l: "length (map hex_val (to_hex d)) = 2 * length d" using Cons.IH by blast
  have p: "(2::nat) ^ (4 * length (map hex_val (to_hex d))) = ?L"
    "(2::nat) ^ (4 * length (unat b mod 16 # map hex_val (to_hex d))) = 16 * ?L"
    unfolding length_Cons l by (simp_all add: power_add)
  have "digits_val 4 (map hex_val (to_hex (b # d))) =
      unat b div 16 * (16 * ?L) + unat b mod 16 * ?L + be_value d"
    unfolding m digits_val.simps p using Cons.IH by simp
  also have "\<dots> = (unat b div 16 * 16 + unat b mod 16) * ?L + be_value d"
    by (simp only: distrib_right mult.assoc)
  also have "\<dots> = unat b * ?L + be_value d" by (simp only: div_mult_mod_eq)
  finally have "digits_val 4 (map hex_val (to_hex (b # d))) = be_value (b # d)"
    by (simp add: be_value_def)
  moreover have "unat b div 16 < 16" using unat_u8_less [of b] by simp
  ultimately show ?case using Cons.IH m by auto
qed (simp add: to_hex_def be_value_def)

lemma clz_iff:
  "n \<le> 8 * length d \<Longrightarrow> n \<le> count_leading_zero_bits (to_hex d) \<longleftrightarrow> be_value d < 2 ^ (8 * length d - n)"
  using lz_iff [of 4 "map hex_val (to_hex d)" n] hex_digits [of d] by (simp add: clz_lz)

lemma nibble_zeros_le: "nibble_zeros v p \<le> p"
  by (induction p) auto

lemma lz_le: "lz w ds \<le> w * length ds"
  by (induction ds) (auto intro: order_trans [OF nibble_zeros_le])

lemma clz_le: "count_leading_zero_bits (to_hex d) \<le> 8 * length d"
  using lz_le [of 4 "map hex_val (to_hex d)"] hex_digits [of d] by (simp add: clz_lz)

lemma lz_bytes: "lz 8 (map unat h) = count_leading_zero_bits (to_hex h)"
proof -
  have iff: "n \<le> lz 8 (map unat h) \<longleftrightarrow> n \<le> count_leading_zero_bits (to_hex h)" if "n \<le> 8 * length h" for n
    using that clz_iff [of n h] lz_iff [of 8 "map unat h" n] unat_u8_less
    by (simp add: be_value_def)
  have "lz 8 (map unat h) \<le> 8 * length h" using lz_le [of 8 "map unat h"] by simp
  with iff [of "lz 8 (map unat h)"] iff [of "count_leading_zero_bits (to_hex h)"] clz_le [of h]
  show ?thesis by linarith
qed

subsubsection \<open>The count on raw bytes\<close>

lemma high_bit_iff: "b AND 0x80 = (0 :: u8) \<longleftrightarrow> \<not> bit b 7"
  using and_exp_eq_0_iff_not_bit [of b 7] by simp

lemma byte_zeros_shift:
  "p \<le> 8 \<Longrightarrow> z + p \<le> 256 \<Longrightarrow> \<exists>k < p. bit b k \<Longrightarrow>
   byte_zeros (push_bit (8 - p) b) z = z + nibble_zeros (unat b) p"
proof (induction p arbitrary: z)
  case (Suc p)
  have sh: "bit (push_bit (7 - p) b) 7 \<longleftrightarrow> bit b p"
    using Suc.prems(1) by (auto simp: bit_simps)
  have ub: "bit (unat b) p \<longleftrightarrow> bit b p" by (simp add: bit_unsigned_iff)
  show ?case
  proof (cases "bit b p")
    case True
    then show ?thesis
      by (simp add: byte_zeros.simps [of "push_bit (7 - p) b"] high_bit_iff sh ub)
  next
    case False
    have "push_bit 1 (push_bit (7 - p) b) = push_bit (8 - p) b"
    proof -
      have "push_bit 1 (push_bit (7 - p) b) = push_bit (1 + (7 - p)) b" by (rule push_bit_push_bit)
      moreover have "1 + (7 - p) = 8 - p" using Suc.prems(1) by simp
      ultimately show ?thesis by argo
    qed
    moreover have "\<exists>k < p. bit b k" using Suc.prems(3) False less_Suc_eq by auto
    ultimately show ?thesis
      using False Suc.IH [of "z + 1"] Suc.prems
      by (simp add: byte_zeros.simps [of "push_bit (7 - p) b"] high_bit_iff sh ub)
  qed
qed simp

lemma byte_zeros_nz:
  assumes "b \<noteq> 0" "z + 8 \<le> 256"
  shows "byte_zeros b z = z + nibble_zeros (unat b) 8"
proof -
  have "\<exists>k < 8. bit b k"
  proof (rule ccontr)
    assume "\<not> (\<exists>k < 8. bit b k)"
    then have "b = 0" by (intro bit_word_eqI) simp
    with assms(1) show False by simp
  qed
  then show ?thesis using byte_zeros_shift [of 8 z b] assms(2) by simp
qed

lemma pow_zero_bits_lz:
  "z + 8 * length bs \<le> 256 \<Longrightarrow> pow_zero_bits bs z = z + lz 8 (map unat bs)"
  by (induction bs arbitrary: z) (auto simp: byte_zeros_nz unat_eq_zero)

subsection \<open>The memory buffer\<close>

lemma fill_chunk_eq:
  "i + j \<le> length buf \<Longrightarrow> j \<le> length h \<Longrightarrow>
   fill_chunk buf i h j = take i buf @ take j h @ drop (i + j) buf"
proof (induction j)
  case (Suc j)
  then have IH: "fill_chunk buf i h j = take i buf @ take j h @ drop (i + j) buf" by simp
  have "drop (i + j) buf = buf ! (i + j) # drop (i + Suc j) buf"
    using Suc.prems by (simp add: Cons_nth_drop_Suc)
  moreover have "take (Suc j) h = take j h @ [h ! j]"
    using Suc.prems by (simp add: take_Suc_conv_app_nth)
  moreover have "(take i buf @ take j h @ x # r)[i + j := v] = take i buf @ take j h @ v # r" for x r v
    using list_update_length [of "take i buf @ take j h" x r v] Suc.prems by simp
  moreover have "fill_chunk buf i h (Suc j) = (fill_chunk buf i h j)[i + j := h ! j]"
    using Suc.prems by (simp add: Let_def)
  ultimately show ?case by (simp only: IH append_assoc append_Cons append_Nil)
qed simp

lemma length_chunk_hash [simp]: "length (chunk_hash hw nonce i) = 32"
  by (simp add: chunk_hash_def)

lemma fill_memory_eq:
  "length buf = 32 * n \<Longrightarrow> k \<le> n \<Longrightarrow>
   fill_memory hw nonce (32 * k) buf =
     take (32 * k) buf @ concat (map (\<lambda>k. chunk_hash hw nonce (32 * k)) [k..<n])"
proof (induction "n - k" arbitrary: k buf)
  case 0
  then show ?case by (simp add: fill_memory.simps [of hw nonce "32 * k"])
next
  case (Suc m)
  then have kn: "k < n" by simp
  let ?h = "chunk_hash hw nonce (32 * k)"
  let ?buf = "fill_chunk buf (32 * k) ?h 32"
  have b: "?buf = take (32 * k) buf @ ?h @ drop (32 * k + 32) buf"
    using kn Suc.prems(1) by (subst fill_chunk_eq) simp_all
  have "fill_memory hw nonce (32 * k) buf = fill_memory hw nonce (32 * Suc k) ?buf"
    using kn Suc.prems(1) by (subst fill_memory.simps) (simp add: add.commute)
  also have "\<dots> = take (32 * Suc k) ?buf @ concat (map (\<lambda>k. chunk_hash hw nonce (32 * k)) [Suc k..<n])"
    using Suc kn by (intro Suc.hyps) simp_all
  also have "take (32 * Suc k) ?buf = take (32 * k) buf @ ?h"
    using kn Suc.prems(1) by (simp add: b)
  finally show ?case using kn by (simp add: upt_conv_Cons)
qed

subsection \<open>Finalisation keeps the length\<close>

lemma length_mix_fold [simp]: "length (fold mix_step is s) = length s"
  by (induction "is" arbitrary: s) (simp_all add: mix_step_def)

lemma length_arm_diffusion [simp]: "length (arm_diffusion s) = length s"
  by (induction s rule: arm_diffusion.induct) (simp_all add: diffuse4_def Let_def)

lemma length_finalize_round [simp]: "length (finalize_round s) = length s"
  by (simp add: finalize_round_def)

lemma length_cpu_finalize [simp]: "length (cpu_optimized_finalize ph s) = length s"
proof -
  have "length ((finalize_round ^^ n) s) = length s" for n by (induction n) simp_all
  then show ?thesis by (simp add: cpu_optimized_finalize_def)
qed

lemma length_mix_finalize [simp]: "length (mix_finalize ph pre nonce) = 32"
  by (simp add: mix_finalize_def memory_hard_mix_def)

text \<open>The diffusion writes the same value to the first and third byte of each group.\<close>

lemma arm_diffusion_dup:
  "4 * k + 3 < length s \<Longrightarrow> arm_diffusion s ! (4 * k) = arm_diffusion s ! (4 * k + 2)"
proof (induction s arbitrary: k rule: arm_diffusion.induct)
  case (1 a b c d rest)
  show ?case
  proof (cases k)
    case 0
    then show ?thesis by (simp add: diffuse4_def Let_def)
  next
    case (Suc j)
    then have "4 * j + 3 < length rest" using "1.prems" by simp
    obtain a' b' c' d' where t: "diffuse4 (a, b, c, d) = (a', b', c', d')"
      by (cases "diffuse4 (a, b, c, d)") auto
    from "1.IH" [OF t [symmetric] refl refl \<open>4 * j + 3 < length rest\<close>] Suc t show ?thesis
      by simp
  qed
qed simp_all

lemma cpu_finalize_dup:
  assumes "0 < ph_rounds ph" "4 * k + 3 < length s"
  shows "cpu_optimized_finalize ph s ! (4 * k) = cpu_optimized_finalize ph s ! (4 * k + 2)"
proof -
  obtain n where "nat (ph_rounds ph) = Suc n" using assms(1) by (cases "nat (ph_rounds ph)") auto
  then have "cpu_optimized_finalize ph s = finalize_round ((finalize_round ^^ n) s)"
    by (simp add: cpu_optimized_finalize_def)
  moreover have "length ((finalize_round ^^ n) s) = length s" by (induction n) simp_all
  ultimately show ?thesis
    using assms(2) by (simp add: finalize_round_def arm_diffusion_dup)
qed

lemma nibble_zeros_less8: "v < 256 \<Longrightarrow> v \<noteq> 0 \<Longrightarrow> nibble_zeros v 8 < 8"
  using nibble_zeros_iff [of v 8 8] by simp

lemma list4_cases:
  obtains (short) "length xs < 3" | (long) a b c rest where "xs = a # b # c # rest"
proof (cases xs)
  case (Cons a ys)
  then show thesis
  proof (cases ys)
    case c2: (Cons b zs)
    with Cons short long show thesis by (cases zs) auto
  qed (use Cons short in simp)
qed (use short in simp)

subsection \<open>Properties\<close>

text \<open>The difficulty test on a hexadecimal digest means what proof of work needs: a digest
  meets \<open>n\<close> bits exactly when, read as a big-endian number of \<open>8 * length\<close> bits, it is below
  \<open>2 ^ (8 * length - n)\<close>.\<close>

theorem meets_difficulty_value:
  "meets_difficulty (to_hex d) (int n) \<longleftrightarrow> n \<le> 8 * length d \<and> be_value d < 2 ^ (8 * length d - n)"
  using clz_iff [of n d] clz_le [of d] by (auto simp: meets_difficulty_def)

text \<open>The two difficulty tests of the code base agree: \<open>Storage::validate_block_pow\<close> on the
  raw digest and \<open>PiHash::MeetsDifficulty\<close> on its hexadecimal text give the same verdict for
  every 32-byte digest and every difficulty (cast to \<open>int\<close> as in the code).\<close>

theorem pow_checks_agree:
  assumes "is_h256 h"
  shows "validate_block_pow h difficulty \<longleftrightarrow> meets_difficulty (to_hex h) (sint difficulty)"
proof -
  have len: "length h = 32" using assms by (rule is_h256_length)
  have "pow_zero_bits h 0 = lz 8 (map unat h)"
    using pow_zero_bits_lz [of 0 h] len by simp
  moreover have "lz 8 (map unat h) = count_leading_zero_bits (to_hex h)" by (rule lz_bytes)
  ultimately show ?thesis by (simp add: validate_block_pow_def meets_difficulty_def len)
qed

lemma pow_checks_agree_witness:
  "is_h256 (0 # 1 # replicate 30 0) \<and>
   (validate_block_pow (0 # 1 # replicate 30 0) 15 \<longleftrightarrow>
    meets_difficulty (to_hex (0 # 1 # replicate 30 0)) (sint (15 :: u32)))"
  using pow_checks_agree [of "0 # 1 # replicate 30 0" 15] by (simp add: is_h256_def)

text \<open>\<open>MemoryHardMix\<close> hashes exactly one mebibyte (or the configured size, if that is a
  smaller multiple of 32) whose k-th 32-byte cell is the digest of the input, the nonce and the
  cell's byte offset \<open>32 k\<close>, each in little-endian: every cell is written, and nothing else.\<close>

theorem memory_hard_mix_cells:
  assumes "ph_memory_bytes ph = 32 * int n"
  shows "memory_hard_mix ph hw nonce =
    sha_digest (concat (map (\<lambda>k. sha_digest (hw @ le_bytes 4 nonce @ le_bytes 8 (of_nat (32 * k) :: u64)))
      [0..<min n 32768]))"
proof -
  have size: "nat (min (ph_memory_bytes ph) (1024 * 1024)) = 32 * min n 32768"
    using assms by (simp add: min_def nat_mult_distrib)
  have nonce: "nonce_bytes nonce = le_bytes 4 nonce"
    by (simp add: nonce_bytes_def le_bytes_def upt_rec numeral_eq_Suc)
  have "chunk_hash hw nonce i = sha_digest (hw @ le_bytes 4 nonce @ le_bytes 8 (of_nat i :: u64))" for i
    by (simp add: chunk_hash_def nonce le_bytes_def mult.commute)
  then show ?thesis
    using fill_memory_eq [of "replicate (32 * min n 32768) 0" "min n 32768" 0 hw nonce]
    unfolding memory_hard_mix_def size by simp
qed

lemma memory_hard_mix_cells_witness:
  "ph_memory_bytes \<lparr> ph_rounds = 1, ph_memory_bytes = 1024, ph_npu_enabled = False \<rparr> = 32 * int 32 \<and>
   memory_hard_mix \<lparr> ph_rounds = 1, ph_memory_bytes = 1024, ph_npu_enabled = False \<rparr> [1] 7 =
     sha_digest (concat (map (\<lambda>k. sha_digest ([1] @ le_bytes 4 (7 :: u32) @ le_bytes 8 (of_nat (32 * k) :: u64)))
       [0..<32]))"
  using memory_hard_mix_cells [of "\<lparr> ph_rounds = 1, ph_memory_bytes = 1024, ph_npu_enabled = False \<rparr>" 32 "[1]" 7]
  by simp

text \<open>C4: The last diffusion step makes the first and third byte of every group of four equal,
  because \<open>c\<close> is computed from the same operands as \<open>a\<close>. So a PiHash digest of 32 bytes has at
  most 24 independent bytes, and the third byte is zero whenever the first is: any target
  between 16 and 24 bits is met exactly when 16 bits are met, so raising the difficulty from
  16 to 24 bits asks for no extra work.\<close>

theorem pihash_difficulty_gap:
  assumes "0 < ph_rounds ph" "16 \<le> n" "n \<le> 24"
  shows "mix_finalize ph pre nonce ! 0 = mix_finalize ph pre nonce ! 2 \<and>
    (meets_difficulty (to_hex (mix_finalize ph pre nonce)) n \<longleftrightarrow>
     meets_difficulty (to_hex (mix_finalize ph pre nonce)) 16)"
proof -
  let ?d = "mix_finalize ph pre nonce"
  have dup: "?d ! 0 = ?d ! 2"
    using cpu_finalize_dup [OF assms(1), of 0 "memory_hard_mix ph pre nonce"] length_mix_finalize [of ph pre nonce]
    by (simp add: mix_finalize_def numeral_2_eq_2)
  obtain a b c rest where d: "?d = a # b # c # rest"
    using length_mix_finalize [of ph pre nonce]
    by (cases ?d rule: list4_cases) auto
  have ca: "c = a" using dup by (simp add: d)
  have "16 \<le> lz 8 (map unat ?d) \<longleftrightarrow> a = 0 \<and> b = 0"
    and "a = 0 \<and> b = 0 \<Longrightarrow> 24 \<le> lz 8 (map unat ?d)"
    using nibble_zeros_less8 [of "unat a"] nibble_zeros_less8 [of "unat b"] unat_u8_less [of a] unat_u8_less [of b]
    by (auto simp: d ca unat_eq_zero)
  then show ?thesis
    using dup assms(2,3) by (auto simp: meets_difficulty_def lz_bytes)
qed

lemma pihash_difficulty_gap_witness:
  "0 < ph_rounds \<lparr> ph_rounds = 1, ph_memory_bytes = 1024, ph_npu_enabled = False \<rparr> \<and>
   (meets_difficulty (to_hex (mix_finalize \<lparr> ph_rounds = 1, ph_memory_bytes = 1024, ph_npu_enabled = False \<rparr> [1] 7)) 24 \<longleftrightarrow>
    meets_difficulty (to_hex (mix_finalize \<lparr> ph_rounds = 1, ph_memory_bytes = 1024, ph_npu_enabled = False \<rparr> [1] 7)) 16)"
  using pihash_difficulty_gap [of "\<lparr> ph_rounds = 1, ph_memory_bytes = 1024, ph_npu_enabled = False \<rparr>" 24 "[1]" 7]
  by simp

end
