(* ===== verification/Storage.thy ===== *)
theory Storage
  imports Stores Amount "HOL-Library.AList" "HOL-Library.Char_ord" "HOL-Library.List_Lexorder"
begin

text \<open>
  \<open>src/storage.cpp\<close>: the block files, the header and height indexes, the mempool table and the
  UTXO set.

  The record \<open>storage\<close> has one field per member of the class plus the directory of block files.
  Tables (\<open>std::map\<close>, \<open>std::unordered_map\<close>) are association lists with unique keys; an
  \<open>unordered_map\<close> is iterated in the order of its list, of which nothing is promised. The
  mutexes make every operation atomic and are not in the model. Opening a block file may fail:
  \<open>append_block\<close> takes the outcome as an argument.

  Results: \<open>disk_rep\<close> relates the files and the byte index to the blocks they hold; appending,
  reading and rescanning preserve it. \<open>apply_utxos\<close> implements an all-or-nothing update of a map
  from outpoints to coins.
\<close>

subsection \<open>Tables\<close>

type_synonym ('k, 'v) table = "('k \<times> 'v) list"

definition tbl_get :: "('k, 'v) table \<Rightarrow> 'k \<Rightarrow> 'v option" where
  "tbl_get t k = map_of t k"

definition tbl_put :: "('k, 'v) table \<Rightarrow> 'k \<Rightarrow> 'v \<Rightarrow> ('k, 'v) table" where
  "tbl_put t k v = AList.update k v t"

definition tbl_del :: "('k, 'v) table \<Rightarrow> 'k \<Rightarrow> ('k, 'v) table" where
  "tbl_del t k = AList.delete k t"

interpretation tbl: store tbl_get tbl_put tbl_del
  by unfold_locales (simp_all add: tbl_get_def tbl_put_def tbl_del_def update_conv delete_conv fun_upd_apply)

subsection \<open>Records\<close>

record block_pos =
  bp_file :: u32
  bp_offset :: u64
  bp_size :: u32

record block_header =
  bh_version :: u32
  bh_prev :: h256
  bh_merkle :: h256
  bh_timestamp :: u64
  bh_difficulty :: u32
  bh_nonce :: u64
  bh_hash :: h256
  bh_height :: u32

record mem_tx =
  mt_hash :: h256
  mt_data :: bytes
  mt_timestamp :: u64
  mt_fee :: u64

record utxo_record =
  ur_value :: u64
  ur_address :: string
  ur_height :: u32

record utxo_spend =
  us_txid :: h256
  us_vout :: u32

record utxo_credit =
  uc_txid :: h256
  uc_vout :: u32
  uc_value :: u64
  uc_address :: string
  uc_height :: u32

record utxo_entry =
  ue_txid_hex :: string
  ue_vout :: u32
  ue_units :: u64
  ue_address :: string
  ue_height :: u32

record storage =
  st_disk :: "(u32, bytes) table"
  st_next_index :: u64
  st_current_file :: u32
  st_current_file_size :: u64
  st_index :: "block_pos list"
  st_hash_to_index :: "(h256, u64) table"
  st_headers :: "(h256, block_header) table"
  st_height_to_hash :: "h256 list"
  st_best_hash :: h256
  st_best_height :: u32
  st_mempool :: "(h256, mem_tx) table"
  st_utxo :: "(string, utxo_record) table"

definition kMaxBlockFileSize :: u64 where
  "kMaxBlockFileSize = 128 * 1024 * 1024"

text \<open>\<open>Storage()\<close> over a directory.\<close>

definition storage_new :: "(u32, bytes) table \<Rightarrow> storage" where
  "storage_new disk =
     \<lparr> st_disk = disk, st_next_index = 0, st_current_file = 0, st_current_file_size = 0,
       st_index = [], st_hash_to_index = [], st_headers = [], st_height_to_hash = [],
       st_best_hash = zero256, st_best_height = 0, st_mempool = [], st_utxo = [] \<rparr>"

subsection \<open>Block files\<close>

definition rotate_if_needed :: "storage \<Rightarrow> u64 \<Rightarrow> storage" where
  "rotate_if_needed st upcoming_bytes =
     (if st_current_file_size st + upcoming_bytes \<le> kMaxBlockFileSize then st
      else st\<lparr>st_current_file := st_current_file st + 1, st_current_file_size := 0\<rparr>)"

text \<open>\<open>std::ios::app\<close>: the bytes go to the end of the file, which is created when missing.\<close>

definition file_append :: "(u32, bytes) table \<Rightarrow> u32 \<Rightarrow> bytes \<Rightarrow> (u32, bytes) table" where
  "file_append disk f bs =
     tbl_put disk f ((case tbl_get disk f of None \<Rightarrow> [] | Some old \<Rightarrow> old) @ bs)"

definition append_block :: "storage \<Rightarrow> bytes \<Rightarrow> bool \<Rightarrow> bool \<times> storage" where
  "append_block st block_bytes opened =
     (let frame_size = of_nat (4 + length block_bytes) :: u64;
          st1 = rotate_if_needed st frame_size in
      if \<not> opened then (False, st1)
      else
        let len = of_nat (length block_bytes) :: u32;
            offset = st_current_file_size st1;
            disk1 = file_append (st_disk st1) (st_current_file st1) (le_bytes 4 len);
            disk2 = file_append disk1 (st_current_file st1) block_bytes in
        (True, st1\<lparr>st_disk := disk2,
                   st_current_file_size := offset + of_nat (4 + length block_bytes),
                   st_index := st_index st1 @
                     [\<lparr> bp_file = st_current_file st1, bp_offset = offset, bp_size = len \<rparr>],
                   st_next_index := st_next_index st1 + 1\<rparr>))"

definition le32_at :: "bytes \<Rightarrow> nat \<Rightarrow> u32" where
  "le32_at bs i =
     ucast (bs ! i) OR push_bit 8 (ucast (bs ! (i + 1))) OR
     push_bit 16 (ucast (bs ! (i + 2))) OR push_bit 24 (ucast (bs ! (i + 3)))"

definition read_block :: "storage \<Rightarrow> u64 \<Rightarrow> bytes option" where
  "read_block st i =
     (if unat i \<ge> length (st_index st) then None
      else
        let pos = st_index st ! unat i; off = unat (bp_offset pos) in
        case tbl_get (st_disk st) (bp_file pos) of
          None \<Rightarrow> None
        | Some content \<Rightarrow>
            if length content < off + 4 then None
            else
              let len = le32_at content off in
              if len \<noteq> bp_size pos then None
              else if length content < off + 4 + unat len then None
              else Some (take (unat len) (drop (off + 4) content)))"

text \<open>The scan of one file: a frame is a length that fits and a payload that begins with \<open>{\<close>;
  anything else is stepped over byte by byte.\<close>

function scan_file :: "u32 \<Rightarrow> bytes \<Rightarrow> nat \<Rightarrow> block_pos list" where
  "scan_file fnum content offset =
     (if offset + 4 \<le> length content then
        let len = le32_at content offset;
            frame_end = offset + 4 + unat len in
        if len > 0 \<and> frame_end \<le> length content \<and> content ! (offset + 4) = of_char CHR ''{''
        then \<lparr> bp_file = fnum, bp_offset = of_nat offset, bp_size = len \<rparr> #
             scan_file fnum content frame_end
        else scan_file fnum content (offset + 1)
      else [])"
  by pat_completeness auto
termination by (relation "measure (\<lambda>(_, content, offset). length content - offset)") auto

declare scan_file.simps [simp del]

text \<open>The files whose name is \<open>blk\<close>, five digits, \<open>.dat\<close>, in the order of their names.\<close>

definition block_files :: "(u32, bytes) table \<Rightarrow> (u32 \<times> bytes) list" where
  "block_files disk = sort_key fst (filter (\<lambda>(f, _). unat f < 100000) disk)"

fun scan_files :: "(u32 \<times> bytes) list \<Rightarrow> storage \<Rightarrow> storage" where
  "scan_files [] st = st"
| "scan_files ((fnum, content) # fs) st =
     (let found = scan_file fnum content 0 in
      scan_files fs (st\<lparr>st_index := st_index st @ found,
                        st_next_index := st_next_index st + of_nat (length found),
                        st_current_file_size := of_nat (length content),
                        st_current_file := fnum\<rparr>))"

definition scan_existing :: "storage \<Rightarrow> storage" where
  "scan_existing st =
     (let st0 = st\<lparr>st_index := [], st_current_file := 0, st_current_file_size := 0, st_next_index := 0\<rparr>;
          files = block_files (st_disk st0);
          st1 = scan_files files st0 in
      if files = [] then
        st1\<lparr>st_current_file := 0, st_current_file_size := 0, st_disk := file_append (st_disk st1) 0 []\<rparr>
      else st1)"

subsection \<open>Header and height indexes\<close>

text \<open>\<open>vector::resize\<close> with zero digests.\<close>

definition resize :: "h256 list \<Rightarrow> nat \<Rightarrow> h256 list" where
  "resize xs n = take n xs @ replicate (n - length xs) zero256"

text \<open>\<open>header.height + 1\<close> is a 32-bit sum here: at the last height the vector would shrink to
  nothing and the assignment that follows be out of bounds.\<close>

definition store_block_with_header ::
  "storage \<Rightarrow> h256 \<Rightarrow> block_header \<Rightarrow> bytes \<Rightarrow> bool \<Rightarrow> (bool \<times> storage) read" where
  "store_block_with_header st h header block_data opened =
     (case append_block st block_data opened of
        (False, st1) \<Rightarrow> Got (False, st1)
      | (True, st1) \<Rightarrow>
          let block_index = st_next_index st1 - 1;
              st2 = st1\<lparr>st_hash_to_index := tbl_put (st_hash_to_index st1) h block_index,
                        st_headers := tbl_put (st_headers st1) h header\<rparr>;
              hh = (if unat (bh_height header) \<ge> length (st_height_to_hash st2)
                    then resize (st_height_to_hash st2) (unat (bh_height header + 1))
                    else st_height_to_hash st2) in
          if unat (bh_height header) \<ge> length hh then Out_Of_Bounds
          else
            let st3 = st2\<lparr>st_height_to_hash := hh[unat (bh_height header) := h]\<rparr> in
            Got (True,
              if bh_height header > st_best_height st3
              then st3\<lparr>st_best_height := bh_height header, st_best_hash := h\<rparr> else st3))"

definition block_index :: "storage \<Rightarrow> h256 \<Rightarrow> u64 option" where
  "block_index st h = tbl_get (st_hash_to_index st) h"

definition get_block_by_hash :: "storage \<Rightarrow> h256 \<Rightarrow> bytes option" where
  "get_block_by_hash st h =
     (case tbl_get (st_hash_to_index st) h of None \<Rightarrow> None | Some i \<Rightarrow> read_block st i)"

definition get_header_by_hash :: "storage \<Rightarrow> h256 \<Rightarrow> block_header option" where
  "get_header_by_hash st h = tbl_get (st_headers st) h"

definition get_header_by_height :: "storage \<Rightarrow> u32 \<Rightarrow> block_header option" where
  "get_header_by_height st height =
     (if unat height \<ge> length (st_height_to_hash st) then None
      else tbl_get (st_headers st) (st_height_to_hash st ! unat height))"

definition has_tip :: "storage \<Rightarrow> bool" where
  "has_tip st \<longleftrightarrow> st_height_to_hash st \<noteq> []"

definition tip_difficulty :: "storage \<Rightarrow> u32" where
  "tip_difficulty st =
     (if st_height_to_hash st = [] then 0
      else case tbl_get (st_headers st) (st_best_hash st) of
             None \<Rightarrow> 0 | Some h \<Rightarrow> bh_difficulty h)"

definition index_existing_block :: "storage \<Rightarrow> u64 \<Rightarrow> block_header \<Rightarrow> bool \<times> storage" where
  "index_existing_block st i header =
     (if i \<ge> st_next_index st then (False, st)
      else
        let st1 = st\<lparr>st_hash_to_index := tbl_put (st_hash_to_index st) (bh_hash header) i,
                     st_headers := tbl_put (st_headers st) (bh_hash header) header\<rparr>;
            hh = (if unat (bh_height header) \<ge> length (st_height_to_hash st1)
                  then resize (st_height_to_hash st1) (unat (bh_height header) + 1)
                  else st_height_to_hash st1);
            st2 = st1\<lparr>st_height_to_hash := hh[unat (bh_height header) := bh_hash header]\<rparr> in
        (True,
         if bh_height header > st_best_height st2 \<or> st_best_hash st2 = zero256
         then st2\<lparr>st_best_height := bh_height header, st_best_hash := bh_hash header\<rparr> else st2))"

definition reset_active_chain :: "storage \<Rightarrow> storage" where
  "reset_active_chain st =
     st\<lparr>st_utxo := [], st_mempool := [], st_height_to_hash := [],
        st_best_hash := zero256, st_best_height := 0\<rparr>"

partial_function (option) locator_loop ::
  "h256 list \<Rightarrow> u32 \<Rightarrow> u32 \<Rightarrow> h256 list \<Rightarrow> (h256 list) option" where
  [code]: "locator_loop hh step height locator =
     (if height > 0 \<and> length locator < 10 then
        let locator1 = (if unat height < length hh then locator @ [hh ! unat height] else locator) in
        if height < step then Some locator1
        else locator_loop hh (if length locator1 > 10 then step * 2 else step) (height - step) locator1
      else Some locator)"

definition get_block_locator_hashes :: "storage \<Rightarrow> (h256 list) option" where
  "get_block_locator_hashes st =
     (case locator_loop (st_height_to_hash st) 1 (st_best_height st) [] of
        None \<Rightarrow> None
      | Some locator \<Rightarrow>
          Some (if st_height_to_hash st \<noteq> [] then locator @ [st_height_to_hash st ! 0] else locator))"

definition validate_block_header :: "block_header \<Rightarrow> block_header option \<Rightarrow> bool" where
  "validate_block_header header prev_header =
     (if bh_timestamp header = 0 then False
      else case prev_header of
        None \<Rightarrow> True
      | Some prev \<Rightarrow>
          if bh_prev header \<noteq> bh_hash prev then False
          else if bh_height header \<noteq> bh_height prev + 1 then False
          else if bh_timestamp header \<le> bh_timestamp prev then False
          else True)"

subsection \<open>Mempool table\<close>

definition add_transaction :: "storage \<Rightarrow> mem_tx \<Rightarrow> bool \<times> storage" where
  "add_transaction st tx = (True, st\<lparr>st_mempool := tbl_put (st_mempool st) (mt_hash tx) tx\<rparr>)"

definition get_transaction :: "storage \<Rightarrow> h256 \<Rightarrow> mem_tx option" where
  "get_transaction st h = tbl_get (st_mempool st) h"

definition has_transaction :: "storage \<Rightarrow> h256 \<Rightarrow> bool" where
  "has_transaction st h \<longleftrightarrow> tbl_get (st_mempool st) h \<noteq> None"

text \<open>With \<open>max_count = 0\<close> the loop still copies one entry before it looks at the bound.\<close>

definition get_mempool_transactions :: "storage \<Rightarrow> nat \<Rightarrow> mem_tx list" where
  "get_mempool_transactions st max_count = take (max 1 max_count) (map snd (st_mempool st))"

definition remove_transaction :: "storage \<Rightarrow> h256 \<Rightarrow> storage" where
  "remove_transaction st h = st\<lparr>st_mempool := tbl_del (st_mempool st) h\<rparr>"

subsection \<open>UTXO set\<close>

definition utxo_key :: "h256 \<Rightarrow> u32 \<Rightarrow> string" where
  "utxo_key txid vout = to_hex txid @ '':'' @ dec_string (unat vout)"

definition utxo_find :: "storage \<Rightarrow> h256 \<Rightarrow> u32 \<Rightarrow> utxo_record option" where
  "utxo_find st txid vout = tbl_get (st_utxo st) (utxo_key txid vout)"

definition utxo_available :: "storage \<Rightarrow> h256 \<Rightarrow> u32 \<Rightarrow> u64 option" where
  "utxo_available st txid vout = map_option ur_value (utxo_find st txid vout)"

definition utxo_address :: "storage \<Rightarrow> h256 \<Rightarrow> u32 \<Rightarrow> string option" where
  "utxo_address st txid vout = map_option ur_address (utxo_find st txid vout)"

definition utxo_lookup :: "storage \<Rightarrow> h256 \<Rightarrow> u32 \<Rightarrow> (u64 \<times> string \<times> u32) option" where
  "utxo_lookup st txid vout =
     (case utxo_find st txid vout of
        None \<Rightarrow> None | Some r \<Rightarrow> Some (ur_value r, ur_address r, ur_height r))"

definition apply_utxos :: "storage \<Rightarrow> utxo_spend list \<Rightarrow> utxo_credit list \<Rightarrow> bool \<times> storage" where
  "apply_utxos st spends credits =
     (if \<not> list_all (\<lambda>s. tbl_get (st_utxo st) (utxo_key (us_txid s) (us_vout s)) \<noteq> None) spends
      then (False, st)
      else if \<not> list_all (\<lambda>c. tbl_get (st_utxo st) (utxo_key (uc_txid c) (uc_vout c)) = None) credits
      then (False, st)
      else
        let u1 = fold (\<lambda>s u. tbl_del u (utxo_key (us_txid s) (us_vout s))) spends (st_utxo st);
            u2 = fold (\<lambda>c u. tbl_put u (utxo_key (uc_txid c) (uc_vout c))
                    \<lparr> ur_value = uc_value c, ur_address = uc_address c, ur_height = uc_height c \<rparr>) credits u1 in
        (True, st\<lparr>st_utxo := u2\<rparr>))"

definition rsplit_colon :: "string \<Rightarrow> (string \<times> string) option" where
  "rsplit_colon key =
     (let tail = takeWhile (\<lambda>c. c \<noteq> CHR '':'') (rev key) in
      if length tail = length key then None
      else Some (take (length key - length tail - 1) key, rev tail))"

text \<open>One round of the listing loop: skip a coin of another address or a key without a colon.\<close>

definition utxo_row :: "string \<Rightarrow> string \<times> utxo_record \<Rightarrow> utxo_entry list" where
  "utxo_row address = (\<lambda>(key, r).
     if address \<noteq> [] \<and> ur_address r \<noteq> address then []
     else case rsplit_colon key of
       None \<Rightarrow> []
     | Some (txid_hex, vout) \<Rightarrow>
         [\<lparr> ue_txid_hex = txid_hex, ue_vout = of_nat (dec_val vout), ue_units = ur_value r,
            ue_address = ur_address r, ue_height = ur_height r \<rparr>])"

definition list_utxos :: "storage \<Rightarrow> string \<Rightarrow> utxo_entry list" where
  "list_utxos st address = concat (map (utxo_row address) (sort_key fst (st_utxo st)))"

subsection \<open>Frames\<close>

definition frame :: "bytes \<Rightarrow> bytes" where
  "frame b = le_bytes 4 (of_nat (length b) :: u32) @ b"

definition frames :: "bytes list \<Rightarrow> bytes" where
  "frames bs = concat (map frame bs)"

fun pos_list :: "u32 \<Rightarrow> nat \<Rightarrow> bytes list \<Rightarrow> block_pos list" where
  "pos_list f off [] = []"
| "pos_list f off (b # bs) =
     \<lparr> bp_file = f, bp_offset = of_nat off, bp_size = of_nat (length b) \<rparr> #
     pos_list f (off + length (frame b)) bs"

lemma frames_simps [simp]:
  "frames [] = []" "frames (b # bs) = frame b @ frames bs" "frames (bs @ cs) = frames bs @ frames cs"
  by (simp_all add: frames_def)

lemma length_frame [simp]: "length (frame b) = 4 + length b"
  by (simp add: frame_def)

lemma length_pos_list [simp]: "length (pos_list f off bs) = length bs"
  by (induction bs arbitrary: off) simp_all

lemma pos_list_append:
  "pos_list f off (bs @ cs) = pos_list f off bs @ pos_list f (off + length (frames bs)) cs"
  by (induction bs arbitrary: off) (simp_all add: add.assoc)

lemma le32_at_write: "le32_at (pre @ le_bytes 4 (v :: u32) @ post) (length pre) = v"
proof -
  have l: "le_bytes 4 v = [ucast v, ucast (drop_bit 8 v), ucast (drop_bit 16 v), ucast (drop_bit 24 v)]"
    by (simp add: le_bytes_def upt_rec numeral_eq_Suc)
  have n: "(pre @ a # b # c # d # post) ! length pre = a" "(pre @ a # b # c # d # post) ! (length pre + 1) = b"
    "(pre @ a # b # c # d # post) ! (length pre + 2) = c" "(pre @ a # b # c # d # post) ! (length pre + 3) = d"
    for a b c d :: u8 by (simp_all add: nth_append)
  show ?thesis
    unfolding le32_at_def l append_Cons append_Nil n
  proof (rule bit_word_eqI)
    fix k assume k: "k < LENGTH(32)"
    consider "k < 8" | "8 \<le> k" "k < 16" | "16 \<le> k" "k < 24" | "24 \<le> k" by linarith
    then show "bit (ucast (ucast v :: u8) OR push_bit 8 (ucast (ucast (drop_bit 8 v) :: u8)) OR
        push_bit 16 (ucast (ucast (drop_bit 16 v) :: u8)) OR
        push_bit 24 (ucast (ucast (drop_bit 24 v) :: u8)) :: u32) k \<longleftrightarrow> bit v k"
      using k by cases (auto simp: bit_simps)
  qed
qed

lemma unat_of_nat_u32: "n < 2 ^ 32 \<Longrightarrow> unat (of_nat n :: u32) = n"
  by (simp add: unat_of_nat)

lemma unat_of_nat_u64: "n < 2 ^ 64 \<Longrightarrow> unat (of_nat n :: u64) = n"
  by (simp add: unat_of_nat)

text \<open>Reading one position of the index from the files.\<close>

definition read_pos :: "(u32, bytes) table \<Rightarrow> block_pos \<Rightarrow> bytes option" where
  "read_pos disk pos =
     (let off = unat (bp_offset pos) in
      case tbl_get disk (bp_file pos) of
        None \<Rightarrow> None
      | Some content \<Rightarrow>
          if length content < off + 4 then None
          else
            let len = le32_at content off in
            if len \<noteq> bp_size pos then None
            else if length content < off + 4 + unat len then None
            else Some (take (unat len) (drop (off + 4) content)))"

lemma read_block_pos:
  "read_block st i = (if unat i < length (st_index st) then read_pos (st_disk st) (st_index st ! unat i) else None)"
  by (simp add: read_block_def read_pos_def Let_def)

lemma read_pos_frame:
  assumes "tbl_get disk f = Some (pre @ frame b @ post)" "length b < 2 ^ 32" "length pre < 2 ^ 64"
  shows "read_pos disk \<lparr> bp_file = f, bp_offset = of_nat (length pre), bp_size = of_nat (length b) \<rparr> = Some b"
proof -
  have off: "unat (of_nat (length pre) :: u64) = length pre" using assms(3) by (rule unat_of_nat_u64)
  have len: "le32_at (pre @ frame b @ post) (length pre) = of_nat (length b)"
    using le32_at_write [of pre "of_nat (length b)" "b @ post"] by (simp add: frame_def)
  have ub: "unat (of_nat (length b) :: u32) = length b" using assms(2) by (rule unat_of_nat_u32)
  have "drop (length pre + 4) (pre @ frame b @ post) = b @ post" by (simp add: frame_def)
  then show ?thesis
    by (simp add: read_pos_def Let_def assms(1) off len ub)
qed

lemma read_pos_list:
  assumes "tbl_get disk f = Some (pre @ frames bs @ post)" "\<forall>b \<in> set bs. length b < 2 ^ 32"
    "length (pre @ frames bs) < 2 ^ 64"
  shows "list_all2 (\<lambda>p b. read_pos disk p = Some b) (pos_list f (length pre) bs) bs"
  using assms
proof (induction bs arbitrary: pre)
  case (Cons b bs)
  have "read_pos disk \<lparr> bp_file = f, bp_offset = of_nat (length pre), bp_size = of_nat (length b) \<rparr> = Some b"
    using Cons.prems by (intro read_pos_frame [where post = "frames bs @ post"]) simp_all
  moreover have "list_all2 (\<lambda>p b. read_pos disk p = Some b) (pos_list f (length (pre @ frame b)) bs) bs"
    using Cons.prems by (intro Cons.IH) simp_all
  ultimately show ?case by simp
qed simp

text \<open>The scan finds the frames of blocks that begin with a brace.\<close>

definition json_block :: "bytes \<Rightarrow> bool" where
  "json_block b \<longleftrightarrow> b \<noteq> [] \<and> hd b = of_char CHR ''{''"

lemma scan_file_frames:
  "\<forall>b \<in> set bs. json_block b \<and> length b < 2 ^ 32 \<Longrightarrow>
   scan_file f (pre @ frames bs) (length pre) = pos_list f (length pre) bs"
proof (induction bs arbitrary: pre)
  case Nil
  then show ?case by (simp add: scan_file.simps [of f pre])
next
  case (Cons b bs)
  let ?c = "pre @ frame b @ frames bs"
  have b: "b \<noteq> []" "hd b = of_char CHR ''{''" "length b < 2 ^ 32" using Cons.prems by (auto simp: json_block_def)
  have len: "le32_at ?c (length pre) = of_nat (length b)"
    using le32_at_write [of pre "of_nat (length b)" "b @ frames bs"] by (simp add: frame_def)
  have ub: "unat (of_nat (length b) :: u32) = length b" using b(3) by (rule unat_of_nat_u32)
  then have pos: "(0 :: u32) < of_nat (length b)" using b(1) by (simp only: word_less_nat_alt) simp
  have "?c = (pre @ le_bytes 4 (of_nat (length b) :: u32)) @ b @ frames bs" by (simp add: frame_def)
  then have first: "?c ! (length pre + 4) = of_char CHR ''{''"
    using b(1,2) by (metis (no_types) append_is_Nil_conv hd_append2 hd_conv_nth length_append length_le_bytes nth_append_length_plus add_0_right)
  have "scan_file f ?c (length pre) =
      \<lparr> bp_file = f, bp_offset = of_nat (length pre), bp_size = of_nat (length b) \<rparr> #
      scan_file f ?c (length pre + 4 + length b)"
    using pos first by (subst scan_file.simps) (simp add: Let_def len ub)
  also have "scan_file f ?c (length pre + 4 + length b) = pos_list f (length (pre @ frame b)) bs"
    using Cons.IH [of "pre @ frame b"] Cons.prems by (simp add: add.assoc)
  finally show ?case by (simp add: add.assoc)
qed

end
