(* ===== verification/Storage_Disk.thy ===== *)
theory Storage_Disk
  imports Storage
begin

text \<open>
  The block store refines a growing list of blocks. \<open>disk_rep st bss\<close> says that the storage
  holds the block lists \<open>bss\<close>, one per file: file \<open>f\<close> is the concatenation of the frames of
  \<open>bss ! f\<close>, the byte index lists their positions in order, and the counters match. Appending,
  reading back and rescanning after a restart are shown against it.
\<close>

definition disk_rep :: "storage \<Rightarrow> bytes list list \<Rightarrow> bool" where
  "disk_rep st bss \<longleftrightarrow>
     bss \<noteq> [] \<and> length bss \<le> 100000 \<and>
     distinct (map fst (st_disk st)) \<and>
     (\<forall>f. tbl_get (st_disk st) f = (if unat f < length bss then Some (frames (bss ! unat f)) else None)) \<and>
     st_current_file st = of_nat (length bss - 1) \<and>
     st_current_file_size st = of_nat (length (frames (last bss))) \<and>
     st_index st = concat (map (\<lambda>f. pos_list (of_nat f) 0 (bss ! f)) [0..<length bss]) \<and>
     st_next_index st = of_nat (length (concat bss)) \<and>
     (\<forall>bs \<in> set bss. length (frames bs) < 2 ^ 34 \<and> (\<forall>b \<in> set bs. length b < 2 ^ 32))"

text \<open>Where the next block goes.\<close>

definition put_block :: "bytes list list \<Rightarrow> bytes \<Rightarrow> bytes list list" where
  "put_block bss b =
     (if length (frames (last bss)) + 4 + length b \<le> 128 * 1024 * 1024
      then butlast bss @ [last bss @ [b]] else bss @ [[b]])"

lemma concat_put_block: "bss \<noteq> [] \<Longrightarrow> concat (put_block bss b) = concat bss @ [b]"
proof -
  assume "bss \<noteq> []"
  then have "concat (butlast bss) @ last bss = concat bss"
    by (metis append_butlast_last_id concat.simps(2) concat_append append_Nil2 concat.simps(1))
  then show ?thesis
    by (simp add: put_block_def flip: append_assoc)
qed

lemma unat_file: "n \<le> 100000 \<Longrightarrow> unat (of_nat n :: u32) = n"
  by (rule unat_of_nat_u32) simp

lemma file_append_get:
  "tbl_get (file_append disk f bs) g =
     (if g = f then Some ((case tbl_get disk f of None \<Rightarrow> [] | Some old \<Rightarrow> old) @ bs) else tbl_get disk g)"
  by (simp add: file_append_def tbl.get_put)

lemma file_append_distinct:
  "distinct (map fst disk) \<Longrightarrow> distinct (map fst (file_append disk f bs))"
  by (simp add: file_append_def tbl_put_def distinct_update)

lemma length_index: "disk_rep st bss \<Longrightarrow> length (st_index st) = length (concat bss)"
proof -
  assume "disk_rep st bss"
  then have "length (st_index st) = sum_list (map (\<lambda>f. length (bss ! f)) [0..<length bss])"
    by (simp add: disk_rep_def length_concat comp_def)
  also have "map (\<lambda>f. length (bss ! f)) [0..<length bss] = map length bss"
    by (rule nth_equalityI) simp_all
  finally show ?thesis by (simp add: length_concat)
qed

subsection \<open>Appending\<close>

lemma index_of_cong:
  "(\<And>f. f < n \<Longrightarrow> bss ! f = css ! f) \<Longrightarrow>
   concat (map (\<lambda>f. pos_list (of_nat f) 0 (bss ! f)) [0..<n]) =
   concat (map (\<lambda>f. pos_list (of_nat f) 0 (css ! f)) [0..<n])"
  by (intro arg_cong [where f = concat] map_cong) simp_all

text \<open>What an append writes, for the file and size it has settled on.\<close>

lemma append_block_eq:
  assumes "rotate_if_needed st (of_nat (4 + length b)) = st1"
  shows "append_block st b True = (True, st1\<lparr>
      st_disk := file_append (file_append (st_disk st1) (st_current_file st1) (le_bytes 4 (of_nat (length b) :: u32)))
        (st_current_file st1) b,
      st_current_file_size := st_current_file_size st1 + of_nat (4 + length b),
      st_index := st_index st1 @ [\<lparr> bp_file = st_current_file st1, bp_offset = st_current_file_size st1,
        bp_size = of_nat (length b) \<rparr>],
      st_next_index := st_next_index st1 + 1\<rparr>)"
  using assms by (simp add: append_block_def Let_def)

lemma rotate_rep:
  assumes "disk_rep st bss" "length b < 2 ^ 32"
  shows "rotate_if_needed st (of_nat (4 + length b)) =
    (if length (frames (last bss)) + 4 + length b \<le> 128 * 1024 * 1024 then st
     else st\<lparr>st_current_file := of_nat (length bss), st_current_file_size := 0\<rparr>)"
proof -
  have ne: "bss \<noteq> []" and size: "st_current_file_size st = of_nat (length (frames (last bss)))"
    and bound: "length (frames (last bss)) < 2 ^ 34"
    and cur: "st_current_file st = of_nat (length bss - 1)"
    using assms(1) by (simp_all add: disk_rep_def)
  have "unat (of_nat (length (frames (last bss)) + (4 + length b)) :: u64) = length (frames (last bss)) + (4 + length b)"
    using bound assms(2) by (intro unat_of_nat_u64) simp
  then have "unat (st_current_file_size st + of_nat (4 + length b)) = length (frames (last bss)) + (4 + length b)"
    by (simp only: size of_nat_add)
  then have "st_current_file_size st + of_nat (4 + length b) \<le> kMaxBlockFileSize \<longleftrightarrow>
      length (frames (last bss)) + 4 + length b \<le> 128 * 1024 * 1024"
    by (simp only: word_le_nat_alt) (simp add: kMaxBlockFileSize_def add.assoc)
  moreover have "st_current_file st + 1 = of_nat (length bss)"
    using ne unfolding cur by (cases bss) simp_all
  ultimately show ?thesis by (simp add: rotate_if_needed_def)
qed

lemma append_block_rep:
  assumes rep: "disk_rep st bss" and b: "length b < 2 ^ 32" and room: "length bss < 100000"
  shows "\<exists>st'. append_block st b True = (True, st') \<and> disk_rep st' (put_block bss b) \<and>
    st_hash_to_index st' = st_hash_to_index st \<and> st_headers st' = st_headers st \<and>
    st_height_to_hash st' = st_height_to_hash st \<and> st_utxo st' = st_utxo st \<and>
    st_mempool st' = st_mempool st"
proof -
  let ?cs = "frames (last bss)"
  have ne: "bss \<noteq> []" and files: "\<And>f. tbl_get (st_disk st) f =
      (if unat f < length bss then Some (frames (bss ! unat f)) else None)"
    and cur: "st_current_file st = of_nat (length bss - 1)"
    and size: "st_current_file_size st = of_nat (length ?cs)"
    and index: "st_index st = concat (map (\<lambda>f. pos_list (of_nat f) 0 (bss ! f)) [0..<length bss])"
    and dist: "distinct (map fst (st_disk st))"
    and bound: "\<forall>bs \<in> set bss. length (frames bs) < 2 ^ 34 \<and> (\<forall>b \<in> set bs. length b < 2 ^ 32)"
    using rep by (auto simp: disk_rep_def)
  have last: "bss ! (length bss - 1) = last bss" using ne by (simp add: last_conv_nth)
  have nextI: "st_next_index st + 1 = of_nat (length (concat (put_block bss b)))"
    using rep ne by (simp add: disk_rep_def concat_put_block)
  show ?thesis
  proof (cases "length ?cs + 4 + length b \<le> 128 * 1024 * 1024")
    case True
    then have rot: "rotate_if_needed st (of_nat (4 + length b)) = st" by (simp only: rotate_rep [OF rep b] if_True)
    obtain n where n: "length bss = Suc n" using ne by (cases bss) auto
    have n': "n < 100000" using n room by simp
    have put: "put_block bss b = butlast bss @ [last bss @ [b]]" using True by (simp add: put_block_def)
    have nth: "put_block bss b ! f = (if f = n then last bss @ [b] else bss ! f)" if "f \<le> n" for f
      using that n by (auto simp: put nth_append nth_butlast)
    have len: "length (put_block bss b) = Suc n" using n by (simp add: put)
    let ?st = "st\<lparr>
      st_disk := file_append (file_append (st_disk st) (st_current_file st) (le_bytes 4 (of_nat (length b) :: u32)))
        (st_current_file st) b,
      st_current_file_size := st_current_file_size st + of_nat (4 + length b),
      st_index := st_index st @ [\<lparr> bp_file = st_current_file st, bp_offset = st_current_file_size st,
        bp_size = of_nat (length b) \<rparr>],
      st_next_index := st_next_index st + 1\<rparr>"
    have ucur: "unat (st_current_file st) = n" using n n' by (simp add: cur unat_file)
    have "tbl_get (st_disk ?st) f =
        (if unat f < Suc n then Some (frames (put_block bss b ! unat f)) else None)" for f
    proof (cases "f = st_current_file st")
      case True
      then show ?thesis
        using ucur n last by (simp add: file_append_get files nth frame_def)
    next
      case False
      then have "unat f \<noteq> n" using ucur by (metis word_unat_eq_iff)
      with False show ?thesis using n by (auto simp: file_append_get files nth)
    qed
    moreover have "st_index ?st = concat (map (\<lambda>f. pos_list (of_nat f) 0 (put_block bss b ! f)) [0..<Suc n])"
      using n last index_of_cong [of n bss "put_block bss b"] nth
      by (simp add: index pos_list_append cur size)
    moreover have "st_current_file_size ?st = of_nat (length (frames (last (put_block bss b))))"
      by (simp add: size put)
    moreover have "\<forall>bs \<in> set (put_block bss b). length (frames bs) < 2 ^ 34 \<and> (\<forall>b \<in> set bs. length b < 2 ^ 32)"
      using bound True b ne by (auto simp: put dest: in_set_butlastD)
    ultimately have "disk_rep ?st (put_block bss b)"
      using n n' dist nextI len
      by (simp add: disk_rep_def cur file_append_distinct put del: concat_append)
    then show ?thesis unfolding append_block_eq [OF rot] by auto
  next
    case False
    let ?n = "length bss"
    let ?st1 = "st\<lparr>st_current_file := of_nat ?n, st_current_file_size := 0\<rparr>"
    have rot: "rotate_if_needed st (of_nat (4 + length b)) = ?st1" using False by (simp only: rotate_rep [OF rep b] if_False)
    have put: "put_block bss b = bss @ [[b]]" using False by (simp add: put_block_def)
    have un: "unat (of_nat ?n :: u32) = ?n" using room by (intro unat_file) simp
    let ?st = "?st1\<lparr>
      st_disk := file_append (file_append (st_disk ?st1) (st_current_file ?st1) (le_bytes 4 (of_nat (length b) :: u32)))
        (st_current_file ?st1) b,
      st_current_file_size := st_current_file_size ?st1 + of_nat (4 + length b),
      st_index := st_index ?st1 @ [\<lparr> bp_file = st_current_file ?st1, bp_offset = st_current_file_size ?st1,
        bp_size = of_nat (length b) \<rparr>],
      st_next_index := st_next_index ?st1 + 1\<rparr>"
    have "tbl_get (st_disk ?st) f =
        (if unat f < Suc ?n then Some (frames ((bss @ [[b]]) ! unat f)) else None)" for f
    proof (cases "f = of_nat ?n")
      case True
      then show ?thesis using un by (simp add: file_append_get files frame_def)
    next
      case False
      then have "unat f \<noteq> ?n" using un by (metis word_unat_eq_iff)
      with False show ?thesis by (auto simp: file_append_get files nth_append)
    qed
    moreover have "st_index ?st = concat (map (\<lambda>f. pos_list (of_nat f) 0 ((bss @ [[b]]) ! f)) [0..<Suc ?n])"
      using index_of_cong [of ?n bss "bss @ [[b]]"] by (simp add: index nth_append_left)
    moreover have "\<forall>bs \<in> set (bss @ [[b]]). length (frames bs) < 2 ^ 34 \<and> (\<forall>b \<in> set bs. length b < 2 ^ 32)"
      using bound b by auto
    ultimately have "disk_rep ?st (put_block bss b)"
      using room dist nextI
      by (simp add: disk_rep_def file_append_distinct put del: concat_append)
    then show ?thesis unfolding append_block_eq [OF rot] by auto
  qed
qed

subsection \<open>Reading\<close>

lemma list_all2_concat_map:
  "(\<And>x. x \<in> set xs \<Longrightarrow> list_all2 P (f x) (g x)) \<Longrightarrow> list_all2 P (concat (map f xs)) (concat (map g xs))"
  by (induction xs) (auto intro: list_all2_appendI)

lemma map_nth_self: "map (\<lambda>i. xs ! i) [0..<length xs] = xs"
  by (rule map_nth)

lemma read_block_rep:
  assumes "disk_rep st bss"
  shows "read_block st i = (if unat i < length (concat bss) then Some (concat bss ! unat i) else None)"
proof -
  have "list_all2 (\<lambda>p b. read_pos (st_disk st) p = Some b) (pos_list (of_nat f) 0 (bss ! f)) (bss ! f)"
    if "f \<in> set [0..<length bss]" for f
  proof -
    have f: "f < length bss" "length bss \<le> 100000" using that assms by (simp_all add: disk_rep_def)
    have "tbl_get (st_disk st) (of_nat f) = Some ([] @ frames (bss ! f) @ [])"
      using f assms by (simp add: disk_rep_def unat_file)
    moreover have "\<forall>b \<in> set (bss ! f). length b < 2 ^ 32" "length (frames (bss ! f)) < 2 ^ 34"
      using assms f nth_mem [OF f(1)] unfolding disk_rep_def by blast+
    ultimately show ?thesis
      using read_pos_list [of "st_disk st" "of_nat f" "[]" "bss ! f" "[]"] by simp
  qed
  then have "list_all2 (\<lambda>p b. read_pos (st_disk st) p = Some b)
      (concat (map (\<lambda>f. pos_list (of_nat f) 0 (bss ! f)) [0..<length bss]))
      (concat (map (\<lambda>f. bss ! f) [0..<length bss]))"
    by (intro list_all2_concat_map) blast
  then have all: "list_all2 (\<lambda>p b. read_pos (st_disk st) p = Some b) (st_index st) (concat bss)"
    using assms unfolding map_nth_self by (simp add: disk_rep_def)
  then show ?thesis
    using list_all2_nthD [OF all, of "unat i"] list_all2_lengthD [OF all]
    by (simp add: read_block_pos)
qed

subsection \<open>Rescanning\<close>

lemma block_files_rep:
  assumes "disk_rep st bss"
  shows "block_files (st_disk st) = map (\<lambda>f. (of_nat f, frames (bss ! f))) [0..<length bss]"
proof -
  let ?files = "map (\<lambda>f. (of_nat f :: u32, frames (bss ! f))) [0..<length bss]"
  let ?disk = "filter (\<lambda>(f, _). unat f < 100000) (st_disk st)"
  have len: "length bss \<le> 100000" and dist: "distinct (map fst (st_disk st))"
    and files: "\<And>f. map_of (st_disk st) f = (if unat f < length bss then Some (frames (bss ! unat f)) else None)"
    using assms by (simp_all add: disk_rep_def tbl_get_def)
  have keys: "map fst ?files = map of_nat [0..<length bss]" by simp
  have sorted: "sorted (map fst ?files)" "distinct (map fst ?files)"
    unfolding keys using len
    by (auto simp: sorted_iff_nth_mono word_le_nat_alt unat_file distinct_conv_nth word_unat_eq_iff)
  have dist': "distinct (map fst ?disk)"
    using dist by (rule distinct_map_filter)
  have "set ?disk = set ?files"
  proof (rule set_eqI)
    fix p :: "u32 \<times> bytes"
    obtain f c where p: "p = (f, c)" by (cases p)
    have "p \<in> set ?disk \<longleftrightarrow> unat f < 100000 \<and> map_of (st_disk st) f = Some c"
      using dist by (auto simp: p)
    also have "\<dots> \<longleftrightarrow> unat f < length bss \<and> c = frames (bss ! unat f)"
      using len by (auto simp: files)
    also have "\<dots> \<longleftrightarrow> p \<in> set ?files"
    proof
      assume "unat f < length bss \<and> c = frames (bss ! unat f)"
      then show "p \<in> set ?files" by (auto simp: p intro!: image_eqI [of _ _ "unat f"])
    next
      assume "p \<in> set ?files"
      then show "unat f < length bss \<and> c = frames (bss ! unat f)"
        using len by (auto simp: p unat_file)
    qed
    finally show "p \<in> set ?disk \<longleftrightarrow> p \<in> set ?files" .
  qed
  then have set_eq: "set (sort_key fst ?disk) = set ?files" by (simp only: set_sort)
  have "inj_on fst (set ?files)" using sorted(2) unfolding distinct_map by blast
  then have inj: "inj_on fst (set (sort_key fst ?disk) \<union> set ?files)" unfolding set_eq by simp
  have sorted': "sorted (map fst (sort_key fst ?disk))" "distinct (map fst (sort_key fst ?disk))"
    using dist' by (simp_all add: distinct_map)
  show ?thesis
    unfolding block_files_def
    using inj sorted' sorted set_eq by (rule map_sorted_distinct_set_unique)
qed

lemma scan_files_rep:
  "\<forall>f < n. \<forall>b \<in> set (bss ! f). json_block b \<and> length b < 2 ^ 32 \<Longrightarrow>
   scan_files (map (\<lambda>f. (of_nat f, frames (bss ! f))) [0..<n]) st =
     st\<lparr>st_index := st_index st @ concat (map (\<lambda>f. pos_list (of_nat f) 0 (bss ! f)) [0..<n]),
        st_next_index := st_next_index st + of_nat (length (concat (map (\<lambda>f. bss ! f) [0..<n]))),
        st_current_file_size := (if n = 0 then st_current_file_size st else of_nat (length (frames (bss ! (n - 1))))),
        st_current_file := (if n = 0 then st_current_file st else of_nat (n - 1))\<rparr>"
proof (induction n)
  case (Suc n)
  have app: "scan_files (xs @ ys) st = scan_files ys (scan_files xs st)" for xs ys st
    by (induction xs arbitrary: st) (auto simp: Let_def)
  have "scan_file (of_nat n) (frames (bss ! n)) 0 = pos_list (of_nat n) 0 (bss ! n)"
  proof -
    have "\<forall>b \<in> set (bss ! n). json_block b \<and> length b < 2 ^ 32" using Suc.prems by blast
    then show ?thesis using scan_file_frames [of "bss ! n" "of_nat n" "[]"] by simp
  qed
  moreover have "\<forall>f < n. \<forall>b \<in> set (bss ! f). json_block b \<and> length b < 2 ^ 32"
    using Suc.prems less_SucI by blast
  note Suc.IH [OF this]
  ultimately show ?case by (simp add: app Let_def)
qed simp

lemma scan_existing_rep:
  assumes "disk_rep st bss" "\<forall>b \<in> set (concat bss). json_block b" "st_disk st0 = st_disk st"
  shows "disk_rep (scan_existing st0) bss \<and> st_index (scan_existing st0) = st_index st \<and>
    st_current_file (scan_existing st0) = st_current_file st \<and>
    st_current_file_size (scan_existing st0) = st_current_file_size st \<and>
    st_next_index (scan_existing st0) = st_next_index st"
proof -
  have ne: "bss \<noteq> []" using assms(1) by (simp add: disk_rep_def)
  have files: "block_files (st_disk st0) = map (\<lambda>f. (of_nat f, frames (bss ! f))) [0..<length bss]"
    using block_files_rep [OF assms(1)] assms(3) by simp
  have ok: "\<forall>f < length bss. \<forall>b \<in> set (bss ! f). json_block b \<and> length b < 2 ^ 32"
    using assms(1,2) by (auto simp: disk_rep_def)
  have last: "bss ! (length bss - 1) = last bss" using ne by (simp add: last_conv_nth)
  have "scan_existing st0 = st0\<lparr>st_index := concat (map (\<lambda>f. pos_list (of_nat f) 0 (bss ! f)) [0..<length bss]),
      st_next_index := of_nat (length (concat bss)),
      st_current_file_size := of_nat (length (frames (last bss))), st_current_file := of_nat (length bss - 1)\<rparr>"
    using ne scan_files_rep [OF ok] last map_nth_self [of bss]
    by (simp add: scan_existing_def Let_def files)
  then show ?thesis using assms(1,3) by (auto simp: disk_rep_def)
qed

text \<open>A fresh directory: the scan creates the first file.\<close>

lemma scan_fresh: "disk_rep (scan_existing (storage_new [])) [[]]"
proof -
  have "file_append [] 0 [] = [(0, [])]" by (simp add: file_append_def tbl_put_def tbl_get_def)
  then show ?thesis
    by (auto simp: scan_existing_def storage_new_def block_files_def disk_rep_def Let_def
        tbl_get_def word_unat_eq_iff)
qed

subsection \<open>Properties\<close>

text \<open>A sequence of appends, all of which can open their file.\<close>

fun append_all :: "storage \<Rightarrow> bytes list \<Rightarrow> storage" where
  "append_all st [] = st"
| "append_all st (b # bs) = append_all (snd (append_block st b True)) bs"

fun put_all :: "bytes list list \<Rightarrow> bytes list \<Rightarrow> bytes list list" where
  "put_all bss [] = bss"
| "put_all bss (b # bs) = put_all (put_block bss b) bs"

lemma length_put_block: "length (put_block bss b) \<le> Suc (length bss)"
  by (simp add: put_block_def)

lemma append_all_rep:
  "disk_rep st bss \<Longrightarrow> \<forall>b \<in> set bs. length b < 2 ^ 32 \<Longrightarrow> length bss + length bs \<le> 100000 \<Longrightarrow>
   disk_rep (append_all st bs) (put_all bss bs) \<and> concat (put_all bss bs) = concat bss @ bs"
proof (induction bs arbitrary: st bss)
  case (Cons b bs)
  have room: "length bss < 100000" using Cons.prems(3) by simp
  have b: "length b < 2 ^ 32" using Cons.prems(2) by simp
  obtain st' where st': "append_block st b True = (True, st')" "disk_rep st' (put_block bss b)"
    using append_block_rep [OF Cons.prems(1) b room] by blast
  have "concat (put_block bss b) = concat bss @ [b]"
    using Cons.prems(1) by (intro concat_put_block) (simp add: disk_rep_def)
  moreover have "length (put_block bss b) + length bs \<le> 100000"
    using Cons.prems(3) length_put_block [of bss b] by simp
  ultimately show ?case using Cons.IH [OF st'(2)] Cons.prems(2) st'(1) by simp
qed simp

text \<open>C5: The block files are a faithful log. Start from an empty directory, append any blocks
  (fewer than 100000 of them, each below 4 GiB): every block is read back at its position and
  nothing else is, through all file rotations.\<close>

theorem block_log_reads_back:
  assumes "\<forall>b \<in> set bs. length b < 2 ^ 32" "length bs < 100000"
  shows "read_block (append_all (scan_existing (storage_new [])) bs) i =
    (if unat i < length bs then Some (bs ! unat i) else None)"
  using append_all_rep [OF scan_fresh assms(1)] assms(2) read_block_rep
  by fastforce

lemma block_log_reads_back_witness:
  "read_block (append_all (scan_existing (storage_new [])) [[1], [2, 3]]) 1 = Some [2, 3]"
  using block_log_reads_back [of "[[1], [2, 3]]" 1] by simp

text \<open>A restart loses nothing. If every appended block is JSON text that begins with a
  brace, a new \<open>Storage\<close> that scans the files of the old one rebuilds the same byte index,
  block count, current file and write position, whatever else its memory held.\<close>

theorem rescan_rebuilds_index:
  assumes "\<forall>b \<in> set bs. json_block b \<and> length b < 2 ^ 32" "length bs < 100000"
    "st = append_all (scan_existing (storage_new [])) bs"
  shows "st_index (scan_existing (storage_new (st_disk st))) = st_index st \<and>
    st_next_index (scan_existing (storage_new (st_disk st))) = of_nat (length bs) \<and>
    st_current_file (scan_existing (storage_new (st_disk st))) = st_current_file st \<and>
    st_current_file_size (scan_existing (storage_new (st_disk st))) = st_current_file_size st"
proof -
  have rep: "disk_rep st (put_all [[]] bs)" and cc: "concat (put_all [[]] bs) = bs"
    using append_all_rep [OF scan_fresh, of bs] assms by auto
  have "st_next_index st = of_nat (length bs)" using rep cc by (simp add: disk_rep_def)
  then show ?thesis
    using scan_existing_rep [OF rep, of "storage_new (st_disk st)"] assms(1) cc
    by (simp add: storage_new_def)
qed

lemma rescan_rebuilds_index_witness:
  "json_block (bytes_of ''{}'') \<and>
   st_next_index (scan_existing (storage_new (st_disk
     (append_all (scan_existing (storage_new [])) [bytes_of ''{}'', bytes_of ''{1}''])))) = 2"
  using rescan_rebuilds_index [of "[bytes_of ''{}'', bytes_of ''{1}'']", OF _ _ refl]
  by (simp add: json_block_def bytes_of_def)

end
