(* ===== verification/Storage_Utxo.thy ===== *)
theory Storage_Utxo
  imports Storage
begin

text \<open>
  The UTXO set and the height index of \<open>Storage\<close>.

  Keys are texts, \<open>txid-hex:vout\<close>; they determine the outpoint, so the table is a map from
  outpoints to coins (an instance of the \<open>store\<close> interface) and \<open>apply_utxos\<close> is an
  all-or-nothing update of that map. The second part gives what the header operations make
  visible and what the block locator contains.
\<close>

subsection \<open>Keys determine outpoints\<close>

type_synonym outpoint = "h256 \<times> u32"

definition op_key :: "outpoint \<Rightarrow> string" where
  "op_key = (\<lambda>(txid, vout). utxo_key txid vout)"

lemma colon_not_digit [simp]: "\<not> in_range CHR '':'' CHR ''0'' CHR ''9''"
  by (simp add: in_range_def)

lemma digits_no_colon: "is_digits s \<Longrightarrow> CHR '':'' \<notin> set s"
  by (auto simp: is_digits_def)

lemma hex_no_colon: "CHR '':'' \<notin> set (to_hex d)"
proof -
  have h: "hexd ! n \<in> set hexd" if "n < 16" for n
    using that by (intro nth_mem) (simp add: hexd_def)
  have "CHR '':'' \<notin> set hexd" by (simp add: hexd_def)
  moreover have "unat (drop_bit 4 b) < 16" "unat (b AND 0x0f) < 16" for b :: u8
  proof -
    show "unat (drop_bit 4 b) < 16"
      using unsigned_less [of b, where ?'a = nat]
      by (simp only: unat_drop_bit_eq) (simp add: drop_bit_eq_div)
    have "b AND 0x0f \<le> 0x0f" by (rule word_and_le1)
    then show "unat (b AND 0x0f) < 16" by (simp add: word_le_nat_alt)
  qed
  ultimately have "CHR '':'' \<notin> set (hex_of_byte b)" for b
    using h by (auto simp: hex_of_byte_def simp del: unsigned_and_eq)
  then show ?thesis by (induction d) simp_all
qed

lemma rsplit_key [simp]: "rsplit_colon (utxo_key txid vout) = Some (to_hex txid, dec_string (unat vout))"
proof -
  let ?d = "dec_string (unat vout)"
  have "takeWhile (\<lambda>c. c \<noteq> CHR '':'') (rev ?d @ CHR '':'' # rev (to_hex txid)) = rev ?d"
    using digits_no_colon [OF dec_string_digits(1), of "unat vout"] by (subst takeWhile_append2) auto
  then show ?thesis by (simp add: rsplit_colon_def utxo_key_def Let_def)
qed

lemma utxo_key_inject [simp]: "utxo_key t v = utxo_key t' v' \<longleftrightarrow> t = t' \<and> v = v'"
proof
  assume "utxo_key t v = utxo_key t' v'"
  then have "rsplit_colon (utxo_key t v) = rsplit_colon (utxo_key t' v')" by simp
  then have "to_hex t = to_hex t'" and "dec_val (dec_string (unat v)) = dec_val (dec_string (unat v'))"
    by simp_all
  then show "t = t' \<and> v = v'" by (simp add: word_unat_eq_iff)
qed simp

lemma op_key_inject: "op_key o1 = op_key o2 \<longleftrightarrow> o1 = o2"
  by (cases o1; cases o2) (simp add: op_key_def)

subsection \<open>The set as a store of coins\<close>

type_synonym utxo_table = "(string, utxo_record) table"

definition u_get :: "utxo_table \<Rightarrow> outpoint \<Rightarrow> utxo_record option" where
  "u_get u p = tbl_get u (op_key p)"

definition u_put :: "utxo_table \<Rightarrow> outpoint \<Rightarrow> utxo_record \<Rightarrow> utxo_table" where
  "u_put u p r = tbl_put u (op_key p) r"

definition u_del :: "utxo_table \<Rightarrow> outpoint \<Rightarrow> utxo_table" where
  "u_del u p = tbl_del u (op_key p)"

interpretation utxo: store u_get u_put u_del
  by unfold_locales (simp_all add: u_get_def u_put_def u_del_def tbl.get_put tbl.get_del op_key_inject)

definition spend_op :: "utxo_spend \<Rightarrow> outpoint" where
  "spend_op s = (us_txid s, us_vout s)"

definition credit_op :: "utxo_credit \<Rightarrow> outpoint" where
  "credit_op c = (uc_txid c, uc_vout c)"

definition credit_rec :: "utxo_credit \<Rightarrow> utxo_record" where
  "credit_rec c = \<lparr> ur_value = uc_value c, ur_address = uc_address c, ur_height = uc_height c \<rparr>"

definition credit_kv :: "utxo_credit \<Rightarrow> outpoint \<times> utxo_record" where
  "credit_kv c = (credit_op c, credit_rec c)"

lemma utxo_find_get: "utxo_find st t v = u_get (st_utxo st) (t, v)"
  by (simp add: utxo_find_def u_get_def op_key_def)

text \<open>\<open>apply_utxos\<close> is the guarded update of the interface.\<close>

definition utxo_ok :: "utxo_table \<Rightarrow> utxo_spend list \<Rightarrow> utxo_credit list \<Rightarrow> bool" where
  "utxo_ok u spends credits \<longleftrightarrow>
     (\<forall>s \<in> set spends. u_get u (spend_op s) \<noteq> None) \<and> (\<forall>c \<in> set credits. u_get u (credit_op c) = None)"

lemma apply_utxos_update:
  "apply_utxos st spends credits =
    (if utxo_ok (st_utxo st) spends credits
     then (True, st\<lparr>st_utxo := utxo.update (map spend_op spends) (map credit_kv credits) (st_utxo st)\<rparr>)
     else (False, st))"
proof -
  have dels: "fold (\<lambda>s u. tbl_del u (utxo_key (us_txid s) (us_vout s))) spends u =
      fold (\<lambda>k u. u_del u k) (map spend_op spends) u" for u
    by (induction spends arbitrary: u) (simp_all add: spend_op_def u_del_def op_key_def)
  have puts: "fold (\<lambda>c u. tbl_put u (utxo_key (uc_txid c) (uc_vout c))
          \<lparr> ur_value = uc_value c, ur_address = uc_address c, ur_height = uc_height c \<rparr>) credits u =
      fold (\<lambda>(k, v) u. u_put u k v) (map credit_kv credits) u" for u
    by (induction credits arbitrary: u)
      (simp_all add: credit_kv_def credit_op_def credit_rec_def u_put_def op_key_def)
  have oks: "list_all (\<lambda>s. tbl_get u (utxo_key (us_txid s) (us_vout s)) \<noteq> None) spends \<longleftrightarrow>
      (\<forall>s \<in> set spends. u_get u (spend_op s) \<noteq> None)" for u
    by (simp add: list_all_iff spend_op_def u_get_def op_key_def)
  have okc: "list_all (\<lambda>c. tbl_get u (utxo_key (uc_txid c) (uc_vout c)) = None) credits \<longleftrightarrow>
      (\<forall>c \<in> set credits. u_get u (credit_op c) = None)" for u
    by (simp add: list_all_iff credit_op_def u_get_def op_key_def)
  show ?thesis
    unfolding apply_utxos_def Let_def dels puts oks okc utxo_ok_def utxo.update_def
    by (auto simp: if_split)
qed

subsection \<open>Heights\<close>

lemma resize_grow: "length xs \<le> n \<Longrightarrow> resize xs (Suc n) = xs @ replicate (Suc n - length xs) zero256"
  by (simp add: resize_def)

lemma heights_after_put:
  assumes "hh = (if n \<ge> length xs then resize xs (Suc n) else xs)"
  shows "n < length (hh[n := h])" "hh[n := h] ! n = h"
    "k < length xs \<Longrightarrow> k \<noteq> n \<Longrightarrow> hh[n := h] ! k = xs ! k" "length xs \<le> length (hh[n := h])"
  using assms by (auto simp: resize_grow nth_append nth_list_update)

subsection \<open>The block locator\<close>

lemma locator_loop_step:
  "locator_loop hh step height locator =
     (if height > 0 \<and> length locator < 10 then
        let locator1 = (if unat height < length hh then locator @ [hh ! unat height] else locator) in
        if height < step then Some locator1
        else locator_loop hh (if length locator1 > 10 then step * 2 else step) (height - step) locator1
      else Some locator)"
  by (rule locator_loop.simps)

lemma locator_loop_eq:
  "unat height < length hh \<Longrightarrow> length locator \<le> 10 \<Longrightarrow>
   locator_loop hh 1 height locator =
     Some (locator @ map (\<lambda>i. hh ! i) (take (10 - length locator) (rev [1..<Suc (unat height)])))"
proof (induction "unat height" arbitrary: height locator)
  case 0
  then have "\<not> height > 0" by (simp add: word_less_nat_alt)
  with 0 show ?case by (subst locator_loop_step) simp
next
  case (Suc n)
  then have pos: "height > 0" by (simp add: word_less_nat_alt)
  show ?case
  proof (cases "length locator < 10")
    case False
    with Suc.prems show ?thesis by (subst locator_loop_step) simp
  next
    case True
    let ?l = "locator @ [hh ! unat height]"
    have ge: "\<not> height < 1" using Suc.hyps(2) by (simp add: word_less_nat_alt)
    have dec: "unat (height - 1) = n"
    proof -
      have "1 \<le> height" using ge by (simp only: not_less)
      from unat_sub [OF this] show ?thesis using Suc.hyps(2) by simp
    qed
    have "locator_loop hh 1 height locator = locator_loop hh 1 (height - 1) ?l"
      using pos True ge Suc.prems(1) by (subst locator_loop_step) (simp add: Let_def)
    also have "\<dots> = Some (?l @ map (\<lambda>i. hh ! i) (take (10 - length ?l) (rev [1..<Suc n])))"
      using Suc.hyps(1) [of "height - 1" ?l] dec Suc.prems True Suc.hyps(2) by simp
    finally have e: "locator_loop hh 1 height locator =
        Some (?l @ map (\<lambda>i. hh ! i) (take (10 - length ?l) (rev [1..<Suc n])))" .
    have "rev [1..<Suc (unat height)] = unat height # rev [1..<Suc n]"
      using Suc.hyps(2) by simp
    moreover obtain k where "10 - length locator = Suc k" "10 - length ?l = k"
      using True by (cases "10 - length locator") auto
    ultimately show ?thesis by (simp only: e take_Suc_Cons list.map append_assoc append_Cons append_Nil)
  qed
qed

subsection \<open>Sets reached by \<open>apply_utxos\<close>\<close>

definition utxo_wf :: "utxo_table \<Rightarrow> bool" where
  "utxo_wf u \<longleftrightarrow> distinct (map fst u) \<and> (\<forall>k \<in> fst ` set u. \<exists>t v. k = utxo_key t v)"

lemma utxo_wf_put: "utxo_wf u \<Longrightarrow> utxo_wf (u_put u p r)"
  by (cases p) (auto simp: utxo_wf_def u_put_def tbl_put_def op_key_def distinct_update dom_update)

lemma utxo_wf_del: "utxo_wf u \<Longrightarrow> utxo_wf (u_del u p)"
proof -
  assume u: "utxo_wf u"
  have "distinct (map fst (AList.delete k u))" for k
    using u by (intro distinct_delete) (simp add: utxo_wf_def)
  moreover have "\<exists>t v. k' = utxo_key t v" if "k' \<in> fst ` set (AList.delete k u)" for k k'
  proof -
    have "k' \<in> fst ` set u" using that by (auto simp: AList.delete_eq)
    with u show ?thesis by (auto simp: utxo_wf_def)
  qed
  ultimately show ?thesis by (simp add: utxo_wf_def u_del_def tbl_del_def)
qed

lemma utxo_wf_update: "utxo_wf u \<Longrightarrow> utxo_wf (utxo.update ks kvs u)"
proof -
  assume u: "utxo_wf u"
  have "utxo_wf (fold (\<lambda>k s. u_del s k) ks u)" using u
    by (induction ks arbitrary: u) (simp_all add: utxo_wf_del)
  moreover have "utxo_wf (fold (\<lambda>(k, v) s. u_put s k v) kvs u')" if "utxo_wf u'" for u' using that
    by (induction kvs arbitrary: u') (auto simp: utxo_wf_put)
  ultimately show ?thesis by (simp add: utxo.update_def)
qed

inductive utxo_reach :: "storage \<Rightarrow> bool" where
  start: "st_utxo st = [] \<Longrightarrow> utxo_reach st"
| block: "utxo_reach st \<Longrightarrow> utxo_reach (snd (apply_utxos st spends credits))"

lemma utxo_reach_wf: "utxo_reach st \<Longrightarrow> utxo_wf (st_utxo st)"
proof (induction rule: utxo_reach.induct)
  case (start st)
  then show ?case by (simp add: utxo_wf_def)
next
  case (block st spends credits)
  then show ?case by (simp add: apply_utxos_update utxo_wf_update)
qed

lemma utxo_record_eta [simp]: "\<lparr> ur_value = ur_value r, ur_address = ur_address r, ur_height = ur_height r \<rparr> = r"
  by (cases r) simp

lemma listed_iff:
  assumes "utxo_wf (st_utxo st)"
  shows "\<lparr> ue_txid_hex = to_hex txid, ue_vout = vout, ue_units = units, ue_address = a, ue_height = h \<rparr>
      \<in> set (list_utxos st address) \<longleftrightarrow>
    (utxo_key txid vout, \<lparr> ur_value = units, ur_address = a, ur_height = h \<rparr>) \<in> set (st_utxo st) \<and>
    (address = [] \<or> a = address)"
    (is "?e \<in> _ \<longleftrightarrow> ?r \<in> _ \<and> _")
proof
  assume "?e \<in> set (list_utxos st address)"
  then obtain k r where kr: "(k, r) \<in> set (st_utxo st)" and e: "?e \<in> set (utxo_row address (k, r))"
    unfolding list_utxos_def by auto
  from kr assms obtain t v where k: "k = utxo_key t v" by (auto simp: utxo_wf_def)
  from e have "t = txid" "v = vout" "ur_value r = units" "ur_address r = a" "ur_height r = h"
    and adr: "address = [] \<or> ur_address r = address"
    by (simp_all add: k utxo_row_def split: if_splits)
  with kr k show "?r \<in> set (st_utxo st) \<and> (address = [] \<or> a = address)" by auto
next
  assume a: "?r \<in> set (st_utxo st) \<and> (address = [] \<or> a = address)"
  then have "?e \<in> set (utxo_row address ?r)" by (auto simp: utxo_row_def)
  with a show "?e \<in> set (list_utxos st address)"
    unfolding list_utxos_def set_concat set_map set_sort by blast
qed

subsection \<open>Properties\<close>

text \<open>\<open>apply_utxos\<close> is atomic and does what its comment says. It succeeds exactly when
  every spent outpoint is present and no credited outpoint is; then the new set holds the
  credited coins (the last one where an outpoint is credited twice), the spent outpoints are
  gone and every other coin is untouched; when it fails the storage is unchanged. Distinct
  outpoints never share a key.\<close>

theorem apply_utxos_atomic:
  "(fst (apply_utxos st spends credits) \<longleftrightarrow>
      (\<forall>s \<in> set spends. utxo_find st (us_txid s) (us_vout s) \<noteq> None) \<and>
      (\<forall>c \<in> set credits. utxo_find st (uc_txid c) (uc_vout c) = None)) \<and>
    utxo_find (snd (apply_utxos st spends credits)) t v =
      (if fst (apply_utxos st spends credits)
       then case map_of (rev (map credit_kv credits)) (t, v) of
              Some r \<Rightarrow> Some r
            | None \<Rightarrow> if (t, v) \<in> spend_op ` set spends then None else utxo_find st t v
       else utxo_find st t v) \<and>
    snd (apply_utxos st spends credits) = st\<lparr>st_utxo := st_utxo (snd (apply_utxos st spends credits))\<rparr>"
  by (auto simp: apply_utxos_update utxo_ok_def utxo_find_get spend_op_def credit_op_def utxo.get_update
      split: option.splits)

definition demo_spend :: utxo_spend where
  "demo_spend = \<lparr> us_txid = zero256, us_vout = 0 \<rparr>"

definition demo_storage :: storage where
  "demo_storage = snd (apply_utxos (storage_new []) []
     [\<lparr> uc_txid = zero256, uc_vout = 0, uc_value = 5, uc_address = ''a'', uc_height = 1 \<rparr>])"

lemma demo_storage_find: "utxo_find demo_storage zero256 0 = Some \<lparr> ur_value = 5, ur_address = ''a'', ur_height = 1 \<rparr>"
  by (simp add: demo_storage_def apply_utxos_def storage_new_def tbl_get_def utxo_find_def tbl_put_def)

lemma demo_reach: "utxo_reach demo_storage"
  unfolding demo_storage_def by (intro utxo_reach.intros) (simp add: storage_new_def)

lemma apply_utxos_atomic_witness:
  "fst (apply_utxos demo_storage [demo_spend, demo_spend] [])"
  using apply_utxos_atomic [of demo_storage "[demo_spend, demo_spend]" "[]"]
  by (simp add: demo_spend_def demo_storage_find)

text \<open>Indexing a stored block makes its header visible under its hash and at its height,
  keeps every other height of the active chain, and the tip becomes this block exactly when it
  is higher than the old tip or there was no tip.\<close>

theorem index_existing_block_visible:
  assumes "index_existing_block st i header = (True, st')"
  shows "get_header_by_hash st' (bh_hash header) = Some header \<and>
    get_header_by_height st' (bh_height header) = Some header \<and>
    block_index st' (bh_hash header) = Some i \<and>
    (\<forall>k. k = bh_height header \<or> \<not> unat k < length (st_height_to_hash st) \<or>
      st_height_to_hash st' ! unat k = st_height_to_hash st ! unat k) \<and>
    st_best_hash st' = (if bh_height header > st_best_height st \<or> st_best_hash st = zero256
      then bh_hash header else st_best_hash st)"
proof -
  define hh where "hh = (if unat (bh_height header) \<ge> length (st_height_to_hash st)
    then resize (st_height_to_hash st) (Suc (unat (bh_height header))) else st_height_to_hash st)"
  note hh = heights_after_put [OF hh_def]
  have st': "st_height_to_hash st' = hh[unat (bh_height header) := bh_hash header]"
    "st_headers st' = tbl_put (st_headers st) (bh_hash header) header"
    "st_hash_to_index st' = tbl_put (st_hash_to_index st) (bh_hash header) i"
    "st_best_hash st' = (if bh_height header > st_best_height st \<or> st_best_hash st = zero256
      then bh_hash header else st_best_hash st)"
    using assms by (auto simp: index_existing_block_def Let_def hh_def split: if_splits)
  have "st_height_to_hash st' ! unat k = st_height_to_hash st ! unat k"
    if "k \<noteq> bh_height header" "unat k < length (st_height_to_hash st)" for k
    using that hh(3) [of "unat k"] by (simp add: st'(1) word_unat_eq_iff)
  with hh(1,2) show ?thesis
    by (auto simp: get_header_by_hash_def get_header_by_height_def block_index_def st' tbl.get_put)
qed

definition demo_header :: block_header where
  "demo_header = \<lparr> bh_version = 1, bh_prev = zero256, bh_merkle = zero256, bh_timestamp = 9,
     bh_difficulty = 4, bh_nonce = 3, bh_hash = 7 # replicate 31 0, bh_height = 1 \<rparr>"

lemma index_existing_block_visible_witness:
  "\<exists>st'. index_existing_block (storage_new []\<lparr>st_next_index := 1\<rparr>) 0 demo_header = (True, st') \<and>
     get_header_by_height st' 1 = Some demo_header"
proof -
  obtain st' where st': "index_existing_block (storage_new []\<lparr>st_next_index := 1\<rparr>) 0 demo_header = (True, st')"
    by (simp add: index_existing_block_def Let_def)
  from index_existing_block_visible [OF st'] st' show ?thesis
    by (auto simp: demo_header_def)
qed

text \<open>The block locator of a chain with a header at every height up to the tip is the ten
  most recent hashes and the genesis slot, whatever the length of the chain. The loop returns,
  but the step is doubled only once the list is longer than ten, and the loop stops at ten: the
  exponential back-off announced by the comment never happens.\<close>

theorem block_locator_exact:
  assumes "unat (st_best_height st) < length (st_height_to_hash st)"
  shows "get_block_locator_hashes st =
    Some (map (\<lambda>i. st_height_to_hash st ! i) (take 10 (rev [1..<Suc (unat (st_best_height st))])) @
      [st_height_to_hash st ! 0])"
proof -
  have "st_height_to_hash st \<noteq> []" using assms by auto
  then show ?thesis
    using locator_loop_eq [OF assms, of "[]"] by (simp add: get_block_locator_hashes_def)
qed

lemma block_locator_exact_witness:
  "get_block_locator_hashes (storage_new []\<lparr>st_height_to_hash := [[0], [1], [2]], st_best_height := 2\<rparr>) =
     Some [[2], [1], [0]]"
proof -
  let ?st = "storage_new []\<lparr>st_height_to_hash := [[0], [1], [2]], st_best_height := 2\<rparr>"
  have r: "take 10 (rev [1..<Suc 2]) = [2, 1 :: nat]" by code_simp
  have st: "unat (st_best_height ?st) = 2" "st_height_to_hash ?st = [[0], [1], [2]]" by simp_all
  show ?thesis using block_locator_exact [of ?st, unfolded st r] by simp
qed

text \<open>The listing is the set: in every set built by \<open>apply_utxos\<close> from the empty one, an
  entry is listed for an address exactly when the coin is in the set and pays that address (any
  address, for the empty filter), with its value and height; the output index survives the trip
  through the key text.\<close>

theorem list_utxos_complete:
  assumes "utxo_reach st"
  shows "\<lparr> ue_txid_hex = to_hex txid, ue_vout = vout, ue_units = units, ue_address = a, ue_height = h \<rparr>
      \<in> set (list_utxos st address) \<longleftrightarrow>
    utxo_lookup st txid vout = Some (units, a, h) \<and> (address = [] \<or> a = address)"
proof -
  have wf: "utxo_wf (st_utxo st)" using assms by (rule utxo_reach_wf)
  have "\<lparr> ue_txid_hex = to_hex txid, ue_vout = vout, ue_units = units, ue_address = a, ue_height = h \<rparr>
      \<in> set (list_utxos st address) \<longleftrightarrow>
    (utxo_key txid vout, \<lparr> ur_value = units, ur_address = a, ur_height = h \<rparr>) \<in> set (st_utxo st) \<and>
    (address = [] \<or> a = address)"
    using wf by (rule listed_iff)
  also have "(utxo_key txid vout, \<lparr> ur_value = units, ur_address = a, ur_height = h \<rparr>) \<in> set (st_utxo st) \<longleftrightarrow>
      utxo_lookup st txid vout = Some (units, a, h)"
  proof -
    have "(utxo_key txid vout, r) \<in> set (st_utxo st) \<longleftrightarrow> utxo_find st txid vout = Some r" for r
      using wf by (simp add: utxo_wf_def utxo_find_def tbl_get_def)
    then show ?thesis by (auto simp: utxo_lookup_def split: option.splits)
  qed
  finally show ?thesis .
qed

lemma list_utxos_complete_witness:
  "utxo_reach demo_storage \<and>
   \<lparr> ue_txid_hex = to_hex zero256, ue_vout = 0, ue_units = 5, ue_address = ''a'', ue_height = 1 \<rparr>
     \<in> set (list_utxos demo_storage ''a'')"
  using list_utxos_complete [OF demo_reach, of zero256 0 5 "''a''" 1 "''a''"] demo_reach
  by (simp add: utxo_lookup_def demo_storage_find)

end
