(* ===== verification/Json.thy ===== *)
theory Json
  imports Prelude "HOL-Library.AList"
begin

text \<open>
  The JSON values the daemon inspects (\<open>nlohmann::json\<close>): a value tree with the accessors the
  sources use. Text is parsed and printed by the library; functions that do either take the
  parser or the size of the printed text as an argument.

  A number is unsigned, negative or floating point, the distinction \<open>is_number_unsigned\<close> and
  \<open>is_number_float\<close> make. \<open>get<uint32_t>()\<close> on an unsigned number keeps the low 32 bits.
\<close>

datatype json =
    JNull
  | JBool bool
  | JUint u64
  | JNegint u64
  | JFloat string
  | JString string
  | JArray "json list"
  | JObject "(string \<times> json) list"

text \<open>\<open>obj.contains(k)\<close> and \<open>obj[k]\<close> together: \<open>None\<close> when the value is not an object or has
  no such member.\<close>

fun jget :: "json \<Rightarrow> string \<Rightarrow> json option" where
  "jget (JObject kvs) k = map_of kvs k"
| "jget _ k = None"

fun is_object :: "json \<Rightarrow> bool" where
  "is_object (JObject _) = True"
| "is_object _ = False"

fun as_string :: "json \<Rightarrow> string option" where
  "as_string (JString s) = Some s"
| "as_string _ = None"

fun as_uint :: "json \<Rightarrow> u64 option" where
  "as_uint (JUint n) = Some n"
| "as_uint _ = None"

fun as_array :: "json \<Rightarrow> (json list) option" where
  "as_array (JArray xs) = Some xs"
| "as_array _ = None"

text \<open>\<open>obj[k] = v\<close> on an object.\<close>

fun jset :: "json \<Rightarrow> string \<Rightarrow> json \<Rightarrow> json" where
  "jset (JObject kvs) k v = JObject (AList.update k v kvs)"
| "jset j k v = j"

text \<open>\<open>obj.contains(k) && obj[k].is_string()\<close> and the like.\<close>

definition jstring :: "json \<Rightarrow> string \<Rightarrow> string option" where
  "jstring obj k = (case jget obj k of None \<Rightarrow> None | Some v \<Rightarrow> as_string v)"

definition juint :: "json \<Rightarrow> string \<Rightarrow> u64 option" where
  "juint obj k = (case jget obj k of None \<Rightarrow> None | Some v \<Rightarrow> as_uint v)"

definition jarray :: "json \<Rightarrow> string \<Rightarrow> (json list) option" where
  "jarray obj k = (case jget obj k of None \<Rightarrow> None | Some v \<Rightarrow> as_array v)"

lemma jget_jset [simp]:
  "is_object j \<Longrightarrow> jget (jset j k v) k' = (if k' = k then Some v else jget j k')"
  by (cases j) (auto simp: update_conv')

lemma is_object_jset [simp]: "is_object (jset j k v) = is_object j"
  by (cases j) auto

lemma jget_cons [simp]:
  "jget (JObject ((k', v) # kvs)) k = (if k' = k then Some v else jget (JObject kvs) k)"
  by simp

lemma jget_append [simp]:
  "jget (JObject (kvs @ kvs')) k = (case map_of kvs k of Some v \<Rightarrow> Some v | None \<Rightarrow> jget (JObject kvs') k)"
  by (simp add: map_add_def split: option.splits)

end
