(* ===== verification/Tx.thy ===== *)
theory Tx
  imports Json Emission Flags PiHash
begin

text \<open>
  Transactions and header preimages of \<open>src/chain_rpc.cpp\<close>.

  The record \<open>tx\<close> is the struct \<open>Tx\<close>. \<open>canonical_tx\<close> is the signed and hashed byte form,
  \<open>merkle_root\<close> and \<open>header_preimage\<close> the forms a block commits to, \<open>parse_user_tx\<close> and
  \<open>tx_to_json\<close> the JSON form in blocks and requests. The digest (OpenSSL's SHA-256) and the
  size of printed JSON are parameters.
\<close>

definition kMaxTxBytes :: nat where "kMaxTxBytes = 100000"
definition kMaxTxJsonBytes :: nat where "kMaxTxJsonBytes = 64 * 1024"
definition kMaxTxInputs :: nat where "kMaxTxInputs = 200"

record txin =
  ti_prev :: h256
  ti_vout :: u32
  ti_signature_hex :: string
  ti_public_key_hex :: string

record txout =
  to_value :: u64
  to_address :: string

datatype flag_kind = Flag_None | Flag_Create | Flag_Claim

record tx =
  tx_version :: u32
  tx_coinbase :: bool
  tx_reg :: bool
  tx_height :: u32
  tx_fee :: u64
  tx_name :: string
  tx_reg_address :: string
  tx_flag_kind :: flag_kind
  tx_flag_id :: string
  tx_commitment :: string
  tx_awards_pubkey :: string
  tx_max_claims :: u32
  tx_expires_height :: u32
  tx_bounty_units :: u64
  tx_note :: string
  tx_recipient :: string
  tx_escrow_lock :: u64
  tx_inputs :: "txin list"
  tx_outputs :: "txout list"
  tx_txid :: h256

text \<open>The default member initialisers.\<close>

definition tx_default :: tx where
  "tx_default = \<lparr> tx_version = 1, tx_coinbase = False, tx_reg = False, tx_height = 0, tx_fee = 0,
     tx_name = [], tx_reg_address = [], tx_flag_kind = Flag_None, tx_flag_id = [],
     tx_commitment = [], tx_awards_pubkey = [], tx_max_claims = 0, tx_expires_height = 0,
     tx_bounty_units = 0, tx_note = [], tx_recipient = [], tx_escrow_lock = 0, tx_inputs = [],
     tx_outputs = [], tx_txid = zero256 \<rparr>"

subsection \<open>Canonical bytes\<close>

definition append_text :: "bytes \<Rightarrow> string \<Rightarrow> bytes" where
  "append_text out s = append_u16 out (of_nat (length s)) @ bytes_of s"

definition canonical_tx :: "tx \<Rightarrow> bytes" where
  "canonical_tx tx =
     (let o1 = append_str [] ''TX1'';
          o2 = append_u32 o1 (tx_version tx);
          o3 = o2 @ [if tx_coinbase tx then 1 else 0];
          o4 = append_u32 o3 (of_nat (length (tx_inputs tx)));
          o5 = fold (\<lambda>i out. append_u32 (append_bytes out (ti_prev i)) (ti_vout i)) (tx_inputs tx) o4;
          o6 = append_u32 o5 (of_nat (length (tx_outputs tx)));
          o7 = fold (\<lambda>t out. append_text (append_u64 out (to_value t)) (to_address t)) (tx_outputs tx) o6;
          o8 = append_u64 o7 (tx_fee tx);
          o9 = append_u32 o8 (if tx_coinbase tx then tx_height tx else 0);
          o10 =
            (case tx_flag_kind tx of
               Flag_Create \<Rightarrow>
                 let p1 = append_text (append_str o9 ''FLAG1'') (tx_flag_id tx);
                     p2 = append_bytes p1 (snd (decode_hex (tx_commitment tx) []));
                     p3 = append_bytes p2 (snd (decode_hex (tx_awards_pubkey tx) []));
                     p4 = append_u32 p3 (tx_max_claims tx);
                     p5 = append_u32 p4 (tx_expires_height tx);
                     p6 = append_u64 p5 (tx_bounty_units tx) in
                 append_text p6 (tx_note tx)
             | Flag_Claim \<Rightarrow>
                 append_text (append_text (append_str o9 ''FLAG2'') (tx_flag_id tx)) (tx_recipient tx)
             | Flag_None \<Rightarrow> o9) in
      if tx_reg tx
      then append_text (append_text (append_str o10 ''REG1'') (tx_name tx)) (tx_reg_address tx)
      else o10)"

definition txid_of :: "(bytes \<Rightarrow> h256) \<Rightarrow> tx \<Rightarrow> h256" where
  "txid_of H tx = H (canonical_tx tx)"

subsection \<open>Merkle root\<close>

definition sha256_pair :: "(bytes \<Rightarrow> h256) \<Rightarrow> h256 \<Rightarrow> h256 \<Rightarrow> h256" where
  "sha256_pair H a b = H (append_bytes (append_bytes [] a) b)"

text \<open>One round: pair up the digests, the last one with itself when their number is odd.\<close>

fun merkle_pairs :: "(bytes \<Rightarrow> h256) \<Rightarrow> h256 list \<Rightarrow> h256 list" where
  "merkle_pairs H (a # b # rest) = sha256_pair H a b # merkle_pairs H rest"
| "merkle_pairs H _ = []"

definition merkle_level :: "(bytes \<Rightarrow> h256) \<Rightarrow> h256 list \<Rightarrow> h256 list" where
  "merkle_level H ids =
     (let ids' = (if length ids mod 2 = 1 then ids @ [last ids] else ids) in merkle_pairs H ids')"

lemma length_merkle_pairs [simp]: "length (merkle_pairs H ids) = length ids div 2"
  by (induction H ids rule: merkle_pairs.induct) simp_all

lemma length_merkle_level [simp]: "length (merkle_level H ids) = (length ids + 1) div 2"
  unfolding merkle_level_def Let_def
  by (cases "even (length ids)") (auto simp: odd_iff_mod_2_eq_one elim!: evenE)

function merkle_loop :: "(bytes \<Rightarrow> h256) \<Rightarrow> h256 list \<Rightarrow> h256 list" where
  "merkle_loop H ids = (if length ids > 1 then merkle_loop H (merkle_level H ids) else ids)"
  by pat_completeness auto
termination by (relation "measure (\<lambda>(H, ids). length ids)") auto

declare merkle_loop.simps [simp del]

definition merkle_root :: "(bytes \<Rightarrow> h256) \<Rightarrow> h256 list \<Rightarrow> h256" where
  "merkle_root H ids_in = (if ids_in = [] then zero256 else hd (merkle_loop H ids_in))"

subsection \<open>Header preimage and digests\<close>

definition header_preimage ::
  "string \<Rightarrow> u32 \<Rightarrow> h256 \<Rightarrow> h256 \<Rightarrow> u64 \<Rightarrow> u32 \<Rightarrow> u64 \<Rightarrow> string \<Rightarrow> h256 \<Rightarrow> bytes" where
  "header_preimage domain version prev merkle timestamp difficulty nonce model serial_commitment =
     (let p1 = append_str [] domain;
          p2 = append_u32 p1 version;
          p3 = append_bytes p2 prev;
          p4 = append_bytes p3 merkle;
          p5 = append_u64 p4 timestamp;
          p6 = append_u32 p5 difficulty;
          p7 = append_u64 p6 nonce;
          p8 = append_text p7 model in
      append_bytes p8 serial_commitment)"

definition pihash_v1 ::
  "(bytes \<Rightarrow> h256) \<Rightarrow> u32 \<Rightarrow> h256 \<Rightarrow> h256 \<Rightarrow> u64 \<Rightarrow> u32 \<Rightarrow> u64 \<Rightarrow> string \<Rightarrow> h256 \<Rightarrow> h256" where
  "pihash_v1 H version prev merkle timestamp difficulty nonce model serial_commitment =
     H (header_preimage ''PiHash1'' version prev merkle timestamp difficulty nonce model serial_commitment)"

text \<open>\<open>PiHash hasher(1, 32, false)\<close>; the copy loop takes at most 32 bytes of the mix.\<close>

definition pihash2_hasher :: pihash_t where
  "pihash2_hasher =
     (case pihash_new 1 32 False of Some ph \<Rightarrow> ph
      | None \<Rightarrow> \<lparr> ph_rounds = 0, ph_memory_bytes = 0, ph_npu_enabled = False \<rparr>)"

definition pihash_v2 ::
  "u32 \<Rightarrow> h256 \<Rightarrow> h256 \<Rightarrow> u64 \<Rightarrow> u32 \<Rightarrow> u64 \<Rightarrow> string \<Rightarrow> h256 \<Rightarrow> h256" where
  "pihash_v2 version prev merkle timestamp difficulty nonce model serial_commitment =
     (let pre = header_preimage ''PiHash2'' version prev merkle timestamp difficulty nonce model serial_commitment;
          mixed = mix_finalize pihash2_hasher pre (ucast nonce);
          n = min 32 (length mixed) in
      take n mixed @ drop n zero256)"

subsection \<open>Parsing\<close>

definition as_object_param :: "(string \<Rightarrow> json option) \<Rightarrow> json \<Rightarrow> json" where
  "as_object_param parse params =
     (if is_object params then params
      else case params of
        JArray (p # ps) \<Rightarrow>
          if is_object p then p
          else (case p of
                  JString s \<Rightarrow> (case parse s of
                                  Some v \<Rightarrow> if is_object v then v else JNull
                                | None \<Rightarrow> JNull)
                | _ \<Rightarrow> JNull)
      | _ \<Rightarrow> JNull)"

definition wallet_from_params :: "(string \<Rightarrow> json option) \<Rightarrow> json \<Rightarrow> string" where
  "wallet_from_params parse params =
     (case params of
        JArray [JString s] \<Rightarrow> s
      | _ \<Rightarrow>
          let obj = as_object_param parse params in
          if is_object obj then
            (case jstring obj ''wallet'' of
               Some w \<Rightarrow> w
             | None \<Rightarrow> (case jstring obj ''miner'' of Some m \<Rightarrow> m | None \<Rightarrow> []))
          else [])"

definition amount_reject :: "bool \<Rightarrow> reason" where
  "amount_reject fee = (if fee then TxErr Fee_Too_Low else TxErr Output_Invalid)"

definition stored_checked :: "u32 \<Rightarrow> bool \<Rightarrow> u64 \<Rightarrow> u64 res" where
  "stored_checked height fee stored =
     (if stored = 0 then Inl (amount_reject fee)
      else if fee \<and> stored < min_fee_for_height height then Inl (TxErr Fee_Too_Low)
      else Inr stored)"

definition stored_from_json_amount :: "json \<Rightarrow> u32 \<Rightarrow> bool \<Rightarrow> u64 res" where
  "stored_from_json_amount field height fee =
     (case field of
        JFloat _ \<Rightarrow> Inl (AmountErr Amount_Decimals)
      | JString s \<Rightarrow>
          (case parse_314st_pi s of
             Inl r \<Rightarrow> if r = AmountErr Amount_Zero then Inl (amount_reject fee) else Inl r
           | Inr pi \<Rightarrow>
               if height \<ge> kPiActivationHeight then stored_checked height fee pi
               else if pi mod kPiPerOldUnit \<noteq> 0 then Inl (AmountErr Amount_Multiple)
               else stored_checked height fee (pi div kPiPerOldUnit))
      | JUint n \<Rightarrow> stored_checked height fee n
      | _ \<Rightarrow> Inl (amount_reject fee))"

definition parse_output :: "u32 \<Rightarrow> json \<Rightarrow> txout res" where
  "parse_output height item =
     (case (jstring item ''address'', jget item ''value'') of
        (Some address, Some value) \<Rightarrow>
          (case stored_from_json_amount value height False of
             Inl r \<Rightarrow> Inl r
           | Inr v \<Rightarrow>
               if address = [] \<or> length address > 256 \<or> v = 0 then Inl (TxErr Output_Invalid)
               else Inr \<lparr> to_value = v, to_address = address \<rparr>)
      | _ \<Rightarrow> Inl (TxErr Output_Invalid))"

text \<open>The loops over the arrays stop at the first item that fails.\<close>

fun map_res :: "('a \<Rightarrow> 'b res) \<Rightarrow> 'a list \<Rightarrow> ('b list) res" where
  "map_res f [] = Inr []"
| "map_res f (x # xs) =
     (case f x of
        Inl r \<Rightarrow> Inl r
      | Inr y \<Rightarrow> (case map_res f xs of Inl r \<Rightarrow> Inl r | Inr ys \<Rightarrow> Inr (y # ys)))"

definition parse_outputs :: "json \<Rightarrow> u32 \<Rightarrow> (txout list) res" where
  "parse_outputs arr height =
     (case as_array arr of
        None \<Rightarrow> Inl (TxErr Output_Invalid)
      | Some items \<Rightarrow>
          if items = [] then Inl (TxErr Output_Invalid) else map_res (parse_output height) items)"

definition or_empty :: "string option \<Rightarrow> string" where
  "or_empty s = (case s of Some t \<Rightarrow> t | None \<Rightarrow> [])"

definition parse_input :: "json \<Rightarrow> txin res" where
  "parse_input item =
     (case (jstring item ''prev_txid'', juint item ''vout'') of
        (Some prev_hex, Some vout) \<Rightarrow>
          (case from_hex prev_hex of
             None \<Rightarrow> Inl (TxErr Malformed_Tx)
           | Some prev \<Rightarrow>
               Inr \<lparr> ti_prev = prev, ti_vout = ucast vout,
                     ti_signature_hex = or_empty (jstring item ''signature''),
                     ti_public_key_hex = or_empty (jstring item ''public_key'') \<rparr>)
      | _ \<Rightarrow> Inl (TxErr Malformed_Tx))"

definition parse_inputs :: "json \<Rightarrow> (txin list) res" where
  "parse_inputs arr =
     (case as_array arr of
        None \<Rightarrow> Inl (TxErr Malformed_Tx)
      | Some items \<Rightarrow> map_res parse_input items)"

definition is_long_address :: "string \<Rightarrow> bool" where
  "is_long_address address \<longleftrightarrow>
     length address = 67 \<and> take 3 address = ''ps1'' \<and>
     list_all (\<lambda>c. in_range c CHR ''0'' CHR ''9'' \<or> in_range c CHR ''a'' CHR ''f'') (drop 3 address)"

definition lower_ascii :: "string \<Rightarrow> string" where
  "lower_ascii s =
     map (\<lambda>c. if in_range c CHR ''A'' CHR ''Z''
              then char_of ((of_char c :: nat) - of_char CHR ''A'' + of_char CHR ''a'') else c) s"

definition fold_ps1_case :: "string \<Rightarrow> string" where
  "fold_ps1_case address =
     (if length address = 67 \<and> lower_ascii (take 3 address) = ''ps1''
      then ''ps1'' @ lower_hex (drop 3 address) else address)"

text \<open>The members of a flag transaction.\<close>

definition parse_create_fields :: "json \<Rightarrow> tx \<Rightarrow> tx res" where
  "parse_create_fields obj tx =
     (case (jstring obj ''commitment'', jstring obj ''awards_pubkey'', juint obj ''max_claims'',
            juint obj ''expires_height'', juint obj ''bounty_units'', jstring obj ''note'') of
        (Some commitment, Some awards, Some maxc, Some expires, Some bounty, Some note) \<Rightarrow>
          if \<not> hex64 commitment \<or> \<not> hex64 awards \<or> length note > 80 then Inl (TxErr Malformed_Tx)
          else
            (case escrow_lock (ucast maxc) bounty of
               Inl r \<Rightarrow> Inl r
             | Inr lock \<Rightarrow>
                 Inr (tx\<lparr>tx_flag_kind := Flag_Create, tx_commitment := lower_hex commitment,
                         tx_awards_pubkey := lower_hex awards, tx_max_claims := ucast maxc,
                         tx_expires_height := ucast expires, tx_bounty_units := bounty,
                         tx_note := note, tx_escrow_lock := lock\<rparr>))
      | _ \<Rightarrow> Inl (TxErr Malformed_Tx))"

definition parse_flag_fields :: "json \<Rightarrow> string \<Rightarrow> tx \<Rightarrow> tx res" where
  "parse_flag_fields obj kind tx =
     (case jstring obj ''flag_id'' of
        None \<Rightarrow> Inl (FlagErr Flag_Id_Invalid)
      | Some flag_id \<Rightarrow>
          if \<not> flag_id_ok flag_id then Inl (FlagErr Flag_Id_Invalid)
          else
            let tx1 = tx\<lparr>tx_flag_id := flag_id\<rparr> in
            if kind = ''createflag'' then parse_create_fields obj tx1
            else
              (case jstring obj ''recipient'' of
                 None \<Rightarrow> Inl (TxErr Malformed_Tx)
               | Some recipient \<Rightarrow>
                   if \<not> is_long_address recipient then Inl (TxErr Malformed_Tx)
                   else Inr (tx1\<lparr>tx_flag_kind := Flag_Claim, tx_recipient := recipient\<rparr>)))"

text \<open>The branch for a transaction with a \<open>type\<close>. As written, the register members are demanded
  of flag transactions too, and they are marked as registrations.\<close>

definition parse_typed :: "json \<Rightarrow> string \<Rightarrow> tx \<Rightarrow> tx res" where
  "parse_typed obj kind tx =
     (if kind \<noteq> ''register'' \<and> kind \<noteq> ''createflag'' \<and> kind \<noteq> ''claimflag''
      then Inl (TxErr Malformed_Tx)
      else
        (case (if kind = ''createflag'' \<or> kind = ''claimflag'' then parse_flag_fields obj kind tx else Inr tx) of
           Inl r \<Rightarrow> Inl r
         | Inr tx1 \<Rightarrow>
             (case (jstring obj ''name'', jstring obj ''address'') of
                (Some name, Some address) \<Rightarrow>
                  Inr (tx1\<lparr>tx_reg := True, tx_name := name, tx_reg_address := fold_ps1_case address\<rparr>)
              | _ \<Rightarrow> Inl (NameErr Name_Invalid))))"

text \<open>The inputs, the outputs and the size limit, the last stage of \<open>parse_user_tx\<close>.\<close>

definition parse_body :: "(bytes \<Rightarrow> h256) \<Rightarrow> json \<Rightarrow> u32 \<Rightarrow> tx \<Rightarrow> tx res" where
  "parse_body H obj height tx =
     (case (jget obj ''inputs'', jget obj ''outputs'') of
        (Some ins, Some outs) \<Rightarrow>
          if (case as_array ins of Some items \<Rightarrow> length items > kMaxTxInputs | None \<Rightarrow> False)
          then Inl (TxErr Tx_Too_Large)
          else
            (case parse_inputs ins of
               Inl r \<Rightarrow> Inl r
             | Inr inputs \<Rightarrow>
                 (case parse_outputs outs height of
                    Inl r \<Rightarrow> Inl r
                  | Inr outputs \<Rightarrow>
                      let tx1 = tx\<lparr>tx_inputs := inputs, tx_outputs := outputs\<rparr>;
                          raw = canonical_tx tx1 in
                      if length raw > kMaxTxBytes then Inl (TxErr Tx_Too_Large)
                      else Inr (tx1\<lparr>tx_txid := H raw\<rparr>)))
      | _ \<Rightarrow> Inl (TxErr Malformed_Tx))"

definition parse_user_tx :: "(bytes \<Rightarrow> h256) \<Rightarrow> (json \<Rightarrow> nat) \<Rightarrow> json \<Rightarrow> u32 \<Rightarrow> tx res" where
  "parse_user_tx H dump_size obj height =
     (if \<not> is_object obj then Inl (TxErr Malformed_Tx)
      else if dump_size obj > kMaxTxJsonBytes then Inl (TxErr Tx_Too_Large)
      else if (case juint obj ''version'' of Some v \<Rightarrow> (ucast v :: u32) \<noteq> 1 | None \<Rightarrow> True)
      then Inl (TxErr Malformed_Tx)
      else
        (case jget obj ''fee'' of
           None \<Rightarrow> Inl (TxErr Fee_Too_Low)
         | Some fee_field \<Rightarrow>
             (case stored_from_json_amount fee_field height True of
                Inl r \<Rightarrow> Inl r
              | Inr fee \<Rightarrow>
                  let tx0 = tx_default\<lparr>tx_fee := fee\<rparr> in
                  (case (case jstring obj ''type'' of
                           Some kind \<Rightarrow> parse_typed obj kind tx0
                         | None \<Rightarrow> Inr tx0) of
                     Inl r \<Rightarrow> Inl r
                   | Inr tx1 \<Rightarrow> parse_body H obj height tx1))))"

subsection \<open>Printing\<close>

definition txin_to_json :: "txin \<Rightarrow> json" where
  "txin_to_json i = JObject (
     [(''prev_txid'', JString (to_hex (ti_prev i))), (''vout'', JUint (ucast (ti_vout i)))] @
     (if ti_signature_hex i \<noteq> [] then [(''signature'', JString (ti_signature_hex i))] else []) @
     (if ti_public_key_hex i \<noteq> [] then [(''public_key'', JString (ti_public_key_hex i))] else []))"

definition txout_to_json :: "txout \<Rightarrow> json" where
  "txout_to_json t = JObject [(''address'', JString (to_address t)), (''value'', JUint (to_value t))]"

text \<open>\<open>doc["type"]\<close> is assigned by the register branch and overwritten by a flag branch.\<close>

definition tx_to_json :: "tx \<Rightarrow> json" where
  "tx_to_json tx = JObject (
     [(''txid'', JString (to_hex (tx_txid tx))),
      (''version'', JUint (ucast (tx_version tx))),
      (''inputs'', JArray (map txin_to_json (tx_inputs tx))),
      (''outputs'', JArray (map txout_to_json (tx_outputs tx))),
      (''fee'', JUint (tx_fee tx)),
      (''spendable'', JBool (tx_inputs tx \<noteq> [])),
      (''signed'', JBool (tx_inputs tx \<noteq> [] \<and> list_all (\<lambda>i. ti_signature_hex i \<noteq> []) (tx_inputs tx))),
      (''size'', JUint (of_nat (length (canonical_tx tx))))] @
     (case tx_flag_kind tx of
        Flag_Create \<Rightarrow>
          [(''type'', JString ''createflag''), (''flag_id'', JString (tx_flag_id tx)),
           (''commitment'', JString (tx_commitment tx)), (''awards_pubkey'', JString (tx_awards_pubkey tx)),
           (''max_claims'', JUint (ucast (tx_max_claims tx))),
           (''expires_height'', JUint (ucast (tx_expires_height tx))),
           (''bounty_units'', JUint (tx_bounty_units tx)), (''note'', JString (tx_note tx))]
      | Flag_Claim \<Rightarrow>
          [(''type'', JString ''claimflag''), (''flag_id'', JString (tx_flag_id tx)),
           (''recipient'', JString (tx_recipient tx))]
      | Flag_None \<Rightarrow> if tx_reg tx then [(''type'', JString ''register'')] else []) @
     (if tx_reg tx then [(''name'', JString (tx_name tx)), (''address'', JString (tx_reg_address tx))] else []))"

end
