(* ===== verification/Tx_Canon.thy ===== *)
theory Tx_Canon
  imports Tx
begin

text \<open>
  What the byte forms of theory Tx determine. \<open>canonical_tx\<close>, \<open>header_preimage\<close> and the Merkle
  tree are shown to commit to their inputs: equal bytes mean equal content, and equal digests
  mean equal content or a collision of the digest function.
\<close>

subsection \<open>Inputs and outputs as prefix codes\<close>

definition enc_in :: "h256 \<times> u32 \<Rightarrow> bytes" where
  "enc_in = (\<lambda>(prev, vout). prev @ le_bytes 4 vout)"

definition enc_out :: "txout \<Rightarrow> bytes" where
  "enc_out t = le_bytes 8 (to_value t) @ str16 (to_address t)"

interpretation cin: prefix_code enc_in "\<lambda>(prev, vout). is_h256 prev"
  by unfold_locales (auto simp: enc_in_def is_h256_def le_bytes_inject)

interpretation cout: prefix_code enc_out "\<lambda>t. fits16 (to_address t)"
proof
  fix x y :: txout and r s
  assume ok: "fits16 (to_address x)" "fits16 (to_address y)"
  assume "enc_out x @ r = enc_out y @ s"
  then have v: "to_value x = to_value y" and "str16 (to_address x) @ r = str16 (to_address y) @ s"
    by (simp_all add: enc_out_def le_bytes_inject)
  then have "to_address x = to_address y" and rs: "r = s" using cstr.wr_cancel_iff [OF ok] by blast+
  with v rs show "x = y \<and> r = s" by (cases x; cases y) simp
qed

definition in_op :: "txin \<Rightarrow> h256 \<times> u32" where
  "in_op i = (ti_prev i, ti_vout i)"

definition commit_bytes :: "string \<Rightarrow> bytes" where
  "commit_bytes s = snd (decode_hex s [])"

definition flag_part :: "tx \<Rightarrow> bytes" where
  "flag_part tx =
     (case tx_flag_kind tx of
        Flag_Create \<Rightarrow> bytes_of ''FLAG1'' @ str16 (tx_flag_id tx) @ commit_bytes (tx_commitment tx) @
          commit_bytes (tx_awards_pubkey tx) @ le_bytes 4 (tx_max_claims tx) @
          le_bytes 4 (tx_expires_height tx) @ le_bytes 8 (tx_bounty_units tx) @ str16 (tx_note tx)
      | Flag_Claim \<Rightarrow> bytes_of ''FLAG2'' @ str16 (tx_flag_id tx) @ str16 (tx_recipient tx)
      | Flag_None \<Rightarrow> [])"

definition reg_part :: "tx \<Rightarrow> bytes" where
  "reg_part tx = (if tx_reg tx then bytes_of ''REG1'' @ str16 (tx_name tx) @ str16 (tx_reg_address tx) else [])"

lemma append_text_layout [layout]: "append_text out s = out @ str16 s"
  by (simp add: append_text_def layout str16_def)

lemma fold_append: "fold (\<lambda>x out. out @ f x) xs out = out @ concat (map f xs)"
  by (induction xs arbitrary: out) simp_all

lemma canonical_layout:
  "canonical_tx tx =
     bytes_of ''TX1'' @ le_bytes 4 (tx_version tx) @ [if tx_coinbase tx then 1 else 0] @
     le_bytes 4 (of_nat (length (tx_inputs tx)) :: u32) @ concat (map enc_in (map in_op (tx_inputs tx))) @
     le_bytes 4 (of_nat (length (tx_outputs tx)) :: u32) @ concat (map enc_out (tx_outputs tx)) @
     le_bytes 8 (tx_fee tx) @ le_bytes 4 (if tx_coinbase tx then tx_height tx else 0) @
     flag_part tx @ reg_part tx"
proof -
  have ins: "fold (\<lambda>i out. append_u32 (append_bytes out (ti_prev i)) (ti_vout i)) is out =
      out @ concat (map enc_in (map in_op is))" for "is" out
    using fold_append [of "\<lambda>i. enc_in (in_op i)" "is" out]
    by (simp add: layout enc_in_def in_op_def comp_def)
  have outs: "fold (\<lambda>t out. append_text (append_u64 out (to_value t)) (to_address t)) os out =
      out @ concat (map enc_out os)" for os out
    using fold_append [of enc_out os out] by (simp add: layout enc_out_def)
  show ?thesis
    unfolding canonical_tx_def Let_def ins outs
    by (simp add: layout flag_part_def reg_part_def commit_bytes_def split: flag_kind.splits)
qed

subsection \<open>Equal bytes, equal payload\<close>

definition canon_ok :: "tx \<Rightarrow> bool" where
  "canon_ok tx \<longleftrightarrow>
     length (tx_inputs tx) < 2 ^ 32 \<and> length (tx_outputs tx) < 2 ^ 32 \<and>
     list_all (\<lambda>i. is_h256 (ti_prev i)) (tx_inputs tx) \<and>
     list_all (\<lambda>t. fits16 (to_address t)) (tx_outputs tx) \<and>
     fits16 (tx_flag_id tx) \<and> fits16 (tx_recipient tx) \<and> fits16 (tx_note tx) \<and>
     fits16 (tx_name tx) \<and> fits16 (tx_reg_address tx) \<and>
     (tx_flag_kind tx = Flag_Create \<longrightarrow>
        hex64 (tx_commitment tx) \<and> hex64 (tx_awards_pubkey tx) \<and>
        lower_hex (tx_commitment tx) = tx_commitment tx \<and>
        lower_hex (tx_awards_pubkey tx) = tx_awards_pubkey tx)"

definition same_payload :: "tx \<Rightarrow> tx \<Rightarrow> bool" where
  "same_payload a b \<longleftrightarrow>
     tx_version a = tx_version b \<and> tx_coinbase a = tx_coinbase b \<and>
     map in_op (tx_inputs a) = map in_op (tx_inputs b) \<and> tx_outputs a = tx_outputs b \<and>
     tx_fee a = tx_fee b \<and> (tx_coinbase a \<longrightarrow> tx_height a = tx_height b) \<and>
     tx_flag_kind a = tx_flag_kind b \<and>
     (tx_flag_kind a \<noteq> Flag_None \<longrightarrow> tx_flag_id a = tx_flag_id b) \<and>
     (tx_flag_kind a = Flag_Create \<longrightarrow>
        tx_commitment a = tx_commitment b \<and> tx_awards_pubkey a = tx_awards_pubkey b \<and>
        tx_max_claims a = tx_max_claims b \<and> tx_expires_height a = tx_expires_height b \<and>
        tx_bounty_units a = tx_bounty_units b \<and> tx_note a = tx_note b) \<and>
     (tx_flag_kind a = Flag_Claim \<longrightarrow> tx_recipient a = tx_recipient b) \<and>
     tx_reg a = tx_reg b \<and>
     (tx_reg a \<longrightarrow> tx_name a = tx_name b \<and> tx_reg_address a = tx_reg_address b)"

lemma hex_prefix_good: "\<forall>c \<in> set s. 0 \<le> nybble c \<Longrightarrow> snd (hex_prefix s)"
  by (induction s rule: hex_prefix.induct) (auto simp: Let_def not_less split: prod.splits)

lemma hex64_nybble: "hex64 s \<Longrightarrow> c \<in> set s \<Longrightarrow> 0 \<le> nybble c"
  by (auto simp: hex64_def list_all_iff nybble_def in_range_def of_char_int)

lemma hex64_decode:
  assumes "hex64 s"
  shows "decode_hex s out = (True, commit_bytes s)" "length (commit_bytes s) = 32"
    "to_hex (commit_bytes s) = lower_hex s"
proof -
  have len: "length s = 64" using assms by (simp add: hex64_def)
  have "snd (hex_prefix s)" using hex64_nybble [OF assms] by (intro hex_prefix_good) blast
  then have "decode_hex s o1 = (True, fst (hex_prefix s))" for o1
    using len by (cases "hex_prefix s") (simp add: decode_hex_def)
  then show d: "decode_hex s out = (True, commit_bytes s)"
    by (simp add: commit_bytes_def)
  show "length (commit_bytes s) = 32" "to_hex (commit_bytes s) = lower_hex s"
    using decode_hex_TrueD [OF d] len by simp_all
qed

lemma commit_cancel:
  assumes "hex64 s" "hex64 t" "lower_hex s = s" "lower_hex t = t"
  shows "commit_bytes s @ r = commit_bytes t @ r' \<longleftrightarrow> s = t \<and> r = r'"
proof
  assume "commit_bytes s @ r = commit_bytes t @ r'"
  then have "commit_bytes s = commit_bytes t" "r = r'"
    using hex64_decode(2) [OF assms(1)] hex64_decode(2) [OF assms(2)] by auto
  then show "s = t \<and> r = r'"
    using hex64_decode(3) [OF assms(1)] hex64_decode(3) [OF assms(2)] assms(3,4) by metis
qed auto

lemma bytes_of_cancel: "length s = length t \<Longrightarrow> bytes_of s @ r = bytes_of t @ r' \<longleftrightarrow> s = t \<and> r = r'"
  by simp

lemma tail_tags:
  "bytes_of ''REG1'' @ r \<noteq> []" "bytes_of ''FLAG1'' @ r \<noteq> []" "bytes_of ''FLAG2'' @ r \<noteq> []"
  "bytes_of ''FLAG1'' @ r \<noteq> bytes_of ''FLAG2'' @ r'"
  "bytes_of ''FLAG1'' @ r \<noteq> bytes_of ''REG1'' @ r'" "bytes_of ''FLAG2'' @ r \<noteq> bytes_of ''REG1'' @ r'"
  by (simp_all add: bytes_of_def)

lemma reg_part_cancel:
  assumes "canon_ok a" "canon_ok b" "reg_part a = reg_part b"
  shows "tx_reg a = tx_reg b \<and> (tx_reg a \<longrightarrow> tx_name a = tx_name b \<and> tx_reg_address a = tx_reg_address b)"
proof -
  have ok: "fits16 (tx_name a)" "fits16 (tx_name b)" "fits16 (tx_reg_address a)" "fits16 (tx_reg_address b)"
    using assms by (simp_all add: canon_ok_def)
  show ?thesis
    using assms(3) tail_tags(1) [of "str16 (tx_name a) @ str16 (tx_reg_address a)"]
      tail_tags(1) [of "str16 (tx_name b) @ str16 (tx_reg_address b)"]
      cstr.wr_cancel_iff [OF ok(1,2)] cstr.wr_inj [OF ok(3,4)]
    by (auto simp: reg_part_def split: if_splits)
qed

lemma reg_part_cases:
  obtains "reg_part t = []" | r where "reg_part t = bytes_of ''REG1'' @ r"
proof (cases "tx_reg t")
  case True
  then show thesis by (intro that(2) [of "str16 (tx_name t) @ str16 (tx_reg_address t)"]) (simp add: reg_part_def)
qed (use that(1) in \<open>simp add: reg_part_def\<close>)

lemma count_eq: "m < 2 ^ 32 \<Longrightarrow> n < 2 ^ 32 \<Longrightarrow> (of_nat m :: u32) = of_nat n \<Longrightarrow> m = n"
proof -
  assume a: "m < 2 ^ 32" "n < 2 ^ 32" "(of_nat m :: u32) = of_nat n"
  then have "unat (of_nat m :: u32) = unat (of_nat n :: u32)" by simp
  with a(1,2) show ?thesis by (simp only: unat_of_nat) simp
qed

lemma flag_kind_eq:
  assumes "flag_part a @ reg_part a = flag_part b @ reg_part b"
  shows "tx_flag_kind a = tx_flag_kind b"
proof -
  have tag: "flag_part t @ reg_part t = bytes_of ''FLAG1'' @ drop 5 (flag_part t @ reg_part t)"
    if "tx_flag_kind t = Flag_Create" for t
    using that by (simp add: flag_part_def)
  have tag2: "flag_part t @ reg_part t = bytes_of ''FLAG2'' @ drop 5 (flag_part t @ reg_part t)"
    if "tx_flag_kind t = Flag_Claim" for t
    using that by (simp add: flag_part_def)
  have none: "flag_part t @ reg_part t \<noteq> bytes_of ''FLAG1'' @ r \<and> flag_part t @ reg_part t \<noteq> bytes_of ''FLAG2'' @ r"
    if "tx_flag_kind t = Flag_None" for t r
    using that tail_tags(5,6) by (cases t rule: reg_part_cases) (auto simp: flag_part_def bytes_of_def)
  show ?thesis
    using tag tag2 none [of a] none [of b] tail_tags(4) assms
    by (cases "tx_flag_kind a"; cases "tx_flag_kind b") metis+
qed

lemma tail_cancel:
  assumes "canon_ok a" "canon_ok b" "flag_part a @ reg_part a = flag_part b @ reg_part b"
  shows "tx_flag_kind a = tx_flag_kind b \<and>
    (tx_flag_kind a \<noteq> Flag_None \<longrightarrow> tx_flag_id a = tx_flag_id b) \<and>
    (tx_flag_kind a = Flag_Create \<longrightarrow>
       tx_commitment a = tx_commitment b \<and> tx_awards_pubkey a = tx_awards_pubkey b \<and>
       tx_max_claims a = tx_max_claims b \<and> tx_expires_height a = tx_expires_height b \<and>
       tx_bounty_units a = tx_bounty_units b \<and> tx_note a = tx_note b) \<and>
    (tx_flag_kind a = Flag_Claim \<longrightarrow> tx_recipient a = tx_recipient b) \<and>
    tx_reg a = tx_reg b \<and>
    (tx_reg a \<longrightarrow> tx_name a = tx_name b \<and> tx_reg_address a = tx_reg_address b)"
proof -
  note kind = flag_kind_eq [OF assms(3)]
  have ok: "fits16 (tx_flag_id a)" "fits16 (tx_flag_id b)" "fits16 (tx_note a)" "fits16 (tx_note b)"
    "fits16 (tx_recipient a)" "fits16 (tx_recipient b)"
    using assms by (simp_all add: canon_ok_def)
  note ids = cstr.wr_cancel_iff [OF ok(1,2)] and nts = cstr.wr_cancel_iff [OF ok(3,4)]
    and recs = cstr.wr_cancel_iff [OF ok(5,6)]
  note reg = reg_part_cancel [OF assms(1,2)]
  show ?thesis
  proof (cases "tx_flag_kind a")
    case Flag_None
    with kind assms(3) reg show ?thesis by (simp add: flag_part_def)
  next
    case Flag_Claim
    with kind assms(3) reg show ?thesis by (simp add: flag_part_def ids recs)
  next
    case Flag_Create
    with kind assms(1,2) have h: "hex64 (tx_commitment a)" "hex64 (tx_commitment b)"
      "lower_hex (tx_commitment a) = tx_commitment a" "lower_hex (tx_commitment b) = tx_commitment b"
      "hex64 (tx_awards_pubkey a)" "hex64 (tx_awards_pubkey b)"
      "lower_hex (tx_awards_pubkey a) = tx_awards_pubkey a" "lower_hex (tx_awards_pubkey b) = tx_awards_pubkey b"
      by (simp_all add: canon_ok_def)
    from Flag_Create kind assms(3) reg show ?thesis
      by (simp add: flag_part_def ids nts commit_cancel [OF h(1-4)] commit_cancel [OF h(5-8)] le_bytes_inject)
  qed
qed

lemma canonical_cancel:
  assumes a: "canon_ok a" and b: "canon_ok b" and eq: "canonical_tx a = canonical_tx b"
  shows "same_payload a b"
proof -
  let ?na = "of_nat (length (tx_inputs a)) :: u32" and ?nb = "of_nat (length (tx_inputs b)) :: u32"
  let ?ra = "le_bytes 4 (of_nat (length (tx_outputs a)) :: u32) @ concat (map enc_out (tx_outputs a)) @
     le_bytes 8 (tx_fee a) @ le_bytes 4 (if tx_coinbase a then tx_height a else 0) @ flag_part a @ reg_part a"
  let ?rb = "le_bytes 4 (of_nat (length (tx_outputs b)) :: u32) @ concat (map enc_out (tx_outputs b)) @
     le_bytes 8 (tx_fee b) @ le_bytes 4 (if tx_coinbase b then tx_height b else 0) @ flag_part b @ reg_part b"
  from eq have 1: "tx_version a = tx_version b" "tx_coinbase a = tx_coinbase b" "?na = ?nb"
    and ins: "concat (map enc_in (map in_op (tx_inputs a))) @ ?ra = concat (map enc_in (map in_op (tx_inputs b))) @ ?rb"
    unfolding canonical_layout by (simp_all add: le_bytes_inject split: if_splits)
  have "length (tx_inputs a) = length (tx_inputs b)"
    using a b 1(3) by (intro count_eq) (simp_all add: canon_ok_def)
  then have 2: "map in_op (tx_inputs a) = map in_op (tx_inputs b)" and outs: "?ra = ?rb"
    using cin.concat_cancel [OF _ _ _ ins] a b by (auto simp: canon_ok_def list_all_iff in_op_def)
  from outs have "(of_nat (length (tx_outputs a)) :: u32) = of_nat (length (tx_outputs b))"
    and outs': "concat (map enc_out (tx_outputs a)) @ (le_bytes 8 (tx_fee a) @
      le_bytes 4 (if tx_coinbase a then tx_height a else 0) @ flag_part a @ reg_part a) =
      concat (map enc_out (tx_outputs b)) @ (le_bytes 8 (tx_fee b) @
      le_bytes 4 (if tx_coinbase b then tx_height b else 0) @ flag_part b @ reg_part b)"
    by (simp_all add: le_bytes_inject)
  then have "length (tx_outputs a) = length (tx_outputs b)"
    using a b by (intro count_eq) (simp_all add: canon_ok_def)
  then have 3: "tx_outputs a = tx_outputs b" and rest: "le_bytes 8 (tx_fee a) @
      le_bytes 4 (if tx_coinbase a then tx_height a else 0) @ flag_part a @ reg_part a = le_bytes 8 (tx_fee b) @
      le_bytes 4 (if tx_coinbase b then tx_height b else 0) @ flag_part b @ reg_part b"
    using cout.concat_cancel [OF _ _ _ outs'] a b by (auto simp: canon_ok_def list_all_iff)
  from rest have 4: "tx_fee a = tx_fee b" "(if tx_coinbase a then tx_height a else 0) = (if tx_coinbase b then tx_height b else 0)"
    and tail: "flag_part a @ reg_part a = flag_part b @ reg_part b"
    by (simp_all add: le_bytes_inject)
  show ?thesis
    unfolding same_payload_def using 1 2 3 4 tail_cancel [OF a b tail] by auto
qed

subsection \<open>Header preimages\<close>

lemma header_layout:
  "header_preimage domain version prev merkle timestamp difficulty nonce model commitment =
     bytes_of domain @ le_bytes 4 version @ prev @ merkle @ le_bytes 8 timestamp @
     le_bytes 4 difficulty @ le_bytes 8 nonce @ str16 model @ commitment"
  by (simp add: header_preimage_def Let_def layout)

subsection \<open>The Merkle tree\<close>

text \<open>The strings a tree hashes.\<close>

fun pairs_in :: "h256 list \<Rightarrow> bytes list" where
  "pairs_in (a # b # rest) = (a @ b) # pairs_in rest"
| "pairs_in _ = []"

definition padded :: "h256 list \<Rightarrow> h256 list" where
  "padded ids = (if length ids mod 2 = 1 then ids @ [last ids] else ids)"

function merkle_inputs :: "(bytes \<Rightarrow> h256) \<Rightarrow> h256 list \<Rightarrow> bytes list" where
  "merkle_inputs H ids =
     (if length ids > 1 then pairs_in (padded ids) @ merkle_inputs H (merkle_level H ids) else [])"
  by pat_completeness auto
termination by (relation "measure (\<lambda>(H, ids). length ids)") auto

declare merkle_inputs.simps [simp del]

lemma merkle_level_padded: "merkle_level H ids = merkle_pairs H (padded ids)"
  by (simp add: merkle_level_def padded_def)

lemma merkle_pairs_map: "merkle_pairs H ids = map H (pairs_in ids)"
  by (induction H ids rule: merkle_pairs.induct) (simp_all add: sha256_pair_def append_bytes_def)

lemma pairs_in_inject:
  "length xs = length ys \<Longrightarrow> even (length xs) \<Longrightarrow> \<forall>x \<in> set xs. is_h256 x \<Longrightarrow> \<forall>y \<in> set ys. is_h256 y \<Longrightarrow>
   pairs_in xs = pairs_in ys \<Longrightarrow> xs = ys"
proof (induction xs arbitrary: ys rule: pairs_in.induct)
  case (1 a b rest)
  then obtain c d rest' where ys: "ys = c # d # rest'"
    by (metis length_Suc_conv list.size(4) add.commute plus_1_eq_Suc)
  have "a @ b = c @ d" "length a = length c" using 1 by (auto simp: ys is_h256_def)
  then have "a = c" "b = d" by auto
  moreover have "rest = rest'" using 1 by (intro "1.IH") (auto simp: ys)
  ultimately show ?case by (simp add: ys)
qed auto

lemma padded_inject:
  assumes "length xs = length ys" "padded xs = padded ys" shows "xs = ys"
  using assms by (auto simp: padded_def split: if_splits)

lemma even_padded: "even (length (padded xs))"
proof (cases "even (length xs)")
  case True
  then show ?thesis by (simp add: padded_def even_iff_mod_2_eq_zero)
next
  case False
  then have "length xs mod 2 = 1" by (simp only: odd_iff_mod_2_eq_one)
  with False show ?thesis by (simp add: padded_def)
qed

lemma padded_h256: "\<forall>x \<in> set xs. is_h256 x \<Longrightarrow> xs \<noteq> [] \<Longrightarrow> \<forall>x \<in> set (padded xs). is_h256 x"
  by (auto simp: padded_def)

context hash_fn
begin

lemma merkle_level_h256: "\<forall>x \<in> set (merkle_level H ids). is_h256 x"
  using H_length by (auto simp: merkle_level_padded merkle_pairs_map)

lemma merkle_loop_commits:
  "length xs = length ys \<Longrightarrow> \<forall>x \<in> set xs. is_h256 x \<Longrightarrow> \<forall>y \<in> set ys. is_h256 y \<Longrightarrow>
   inj_on H (set (merkle_inputs H xs) \<union> set (merkle_inputs H ys)) \<Longrightarrow>
   merkle_loop H xs = merkle_loop H ys \<Longrightarrow> xs = ys"
proof (induction "length xs" arbitrary: xs ys rule: less_induct)
  case less
  show ?case
  proof (cases "length xs > 1")
    case False
    with less.prems(1,5) show ?thesis by (simp add: merkle_loop.simps [of H xs] merkle_loop.simps [of H ys])
  next
    case True
    let ?A = "set (merkle_inputs H xs) \<union> set (merkle_inputs H ys)"
    have ins: "merkle_inputs H xs = pairs_in (padded xs) @ merkle_inputs H (merkle_level H xs)"
      "merkle_inputs H ys = pairs_in (padded ys) @ merkle_inputs H (merkle_level H ys)"
      using True less.prems(1) by (simp_all add: merkle_inputs.simps [of H xs] merkle_inputs.simps [of H ys])
    have "merkle_level H xs = merkle_level H ys"
    proof (rule less.hyps)
      show "inj_on H (set (merkle_inputs H (merkle_level H xs)) \<union> set (merkle_inputs H (merkle_level H ys)))"
        using less.prems(4) by (rule inj_on_subset) (auto simp: ins)
      show "merkle_loop H (merkle_level H xs) = merkle_loop H (merkle_level H ys)"
        using less.prems(1,5) True by (simp add: merkle_loop.simps [of H xs] merkle_loop.simps [of H ys])
    qed (use True less.prems(1) merkle_level_h256 in simp_all)
    then have "map H (pairs_in (padded xs)) = map H (pairs_in (padded ys))"
      by (simp only: merkle_level_padded merkle_pairs_map)
    moreover have "inj_on H (set (pairs_in (padded xs)) \<union> set (pairs_in (padded ys)))"
      using less.prems(4) by (rule inj_on_subset) (auto simp: ins)
    ultimately have pairs: "pairs_in (padded xs) = pairs_in (padded ys)"
      using map_inj_on by blast
    have "xs \<noteq> []" "ys \<noteq> []" using True less.prems(1) by auto
    moreover have "length (padded xs) = length (padded ys)"
      using less.prems(1) by (simp add: padded_def)
    ultimately have "padded xs = padded ys"
      using pairs_in_inject [OF _ even_padded padded_h256 padded_h256 pairs] less.prems(2,3) by blast
    with less.prems(1) show ?thesis by (rule padded_inject)
  qed
qed

lemma length_merkle_loop: "ids \<noteq> [] \<Longrightarrow> length (merkle_loop H ids) = 1"
proof (induction "length ids" arbitrary: ids rule: less_induct)
  case less
  show ?case
  proof (cases "length ids > 1")
    case False
    with less.prems obtain a where "ids = [a]" by (cases ids) auto
    then show ?thesis by (simp add: merkle_loop.simps [of H "[a]"])
  next
    case True
    then have "merkle_level H ids \<noteq> []" "length (merkle_level H ids) < length ids"
      by (simp_all flip: length_0_conv)
    with less.hyps True show ?thesis by (simp add: merkle_loop.simps [of H ids])
  qed
qed

lemma merkle_root_commits:
  assumes "length xs = length ys" "\<forall>x \<in> set xs. is_h256 x" "\<forall>y \<in> set ys. is_h256 y"
    "inj_on H (set (merkle_inputs H xs) \<union> set (merkle_inputs H ys))"
    "merkle_root H xs = merkle_root H ys"
  shows "xs = ys"
proof (cases "xs = []")
  case False
  with assms(1) have "ys \<noteq> []" by auto
  with False assms(5) have "hd (merkle_loop H xs) = hd (merkle_loop H ys)" by (simp add: merkle_root_def)
  moreover have "length (merkle_loop H xs) = 1" "length (merkle_loop H ys) = 1"
    using False \<open>ys \<noteq> []\<close> by (simp_all add: length_merkle_loop)
  ultimately have "merkle_loop H xs = merkle_loop H ys" by (auto simp: length_Suc_conv)
  with assms show ?thesis using merkle_loop_commits by blast
qed (use assms(1) in simp)

end

lemma merkle_level_dup: "odd (length ids) \<Longrightarrow> merkle_level H (ids @ [last ids]) = merkle_level H ids"
  by (simp add: merkle_level_padded padded_def odd_iff_mod_2_eq_one)

lemma merkle_root_dup:
  assumes "odd (length ids)" "1 < length ids"
  shows "merkle_root H (ids @ [last ids]) = merkle_root H ids"
proof -
  have "merkle_loop H (ids @ [last ids]) = merkle_loop H (merkle_level H (ids @ [last ids]))"
    using assms by (subst merkle_loop.simps) auto
  also have "\<dots> = merkle_loop H ids"
    using assms(2) by (simp only: merkle_level_dup [OF assms(1)] merkle_loop.simps [of H ids] if_True)
  finally have "merkle_loop H (ids @ [last ids]) = merkle_loop H ids" .
  moreover have "ids \<noteq> []" using assms(2) by auto
  ultimately show ?thesis by (simp add: merkle_root_def)
qed

subsection \<open>Properties\<close>

text \<open>C6: The transaction id commits to everything a transaction does. Two well-formed
  transactions with the same canonical bytes agree in version, coinbase mark, spent outpoints,
  outputs, fee, coinbase height, and every flag and registration field; only signatures and
  public keys are outside the preimage.\<close>

theorem canonical_tx_commits:
  assumes "canon_ok a" "canon_ok b" "canonical_tx a = canonical_tx b"
  shows "same_payload a b"
  using assms by (rule canonical_cancel)

lemma canonical_tx_commits_witness:
  "canon_ok tx_default \<and>
   same_payload tx_default (tx_default\<lparr>tx_inputs := [], tx_height := 7\<rparr>)"
  using canonical_tx_commits [of tx_default "tx_default\<lparr>tx_inputs := [], tx_height := 7\<rparr>"]
  by (simp add: canon_ok_def tx_default_def fits16_def canonical_tx_def)

text \<open>The proof-of-work preimage commits to every header field: two preimages (of either
  PiHash domain) that are equal have the same domain, version, previous hash, Merkle root,
  timestamp, difficulty, nonce, hardware model and serial commitment.\<close>

theorem header_preimage_commits:
  assumes "is_h256 prev" "is_h256 prev'" "is_h256 merkle" "is_h256 merkle'"
    "fits16 model" "fits16 model'" "{tag, tag'} \<subseteq> {''PiHash1'', ''PiHash2''}"
    "header_preimage tag v prev merkle t d n model c = header_preimage tag' v' prev' merkle' t' d' n' model' c'"
  shows "(tag, v, prev, merkle, t, d, n, model, c) = (tag', v', prev', merkle', t', d', n', model', c')"
proof -
  have "length tag = length tag'" using assms(7) by auto
  then show ?thesis
    using assms(8) ch.wr_cancel_iff [OF assms(1,2)] ch.wr_cancel_iff [OF assms(3,4)]
      cstr.wr_cancel_iff [OF assms(5,6)]
    unfolding header_layout by (simp add: le_bytes_inject)
qed

lemma header_preimage_commits_witness:
  "header_preimage ''PiHash2'' 1 zero256 zero256 9 4 5 ''m'' zero256 \<noteq>
   header_preimage ''PiHash1'' 1 zero256 zero256 9 4 5 ''m'' zero256"
  using header_preimage_commits [of zero256 zero256 zero256 zero256 "''m''" "''m''" "''PiHash2''" "''PiHash1''"
      1 9 4 5 zero256 1 9 4 5 zero256]
  by (auto simp: fits16_def)



text \<open>Across lengths the root is ambiguous: repeating the last id of an odd list of at least
  three leaves the root unchanged (the padding rule duplicates it anyway), so the root alone
  does not tell such a block from the one with a repeated transaction.\<close>

theorem merkle_root_ambiguous:
  assumes "odd (length ids)" "1 < length ids"
  shows "merkle_root H (ids @ [last ids]) = merkle_root H ids"
  using assms by (rule merkle_root_dup)

lemma merkle_root_ambiguous_witness:
  "merkle_root sha_digest [[1], [2], [3], [3]] = merkle_root sha_digest [[1], [2], [3]]"
  using merkle_root_ambiguous [of "[[1], [2], [3]]" sha_digest] by simp

end
