(* ===== verification/Tx_Json.thy ===== *)
theory Tx_Json
  imports Tx
begin

text \<open>
  The JSON form of a transaction is stable: what \<open>parse_user_tx\<close> accepts, printed with
  \<open>tx_to_json\<close>, is accepted again at the same height and gives the same transaction. Blocks
  store the printed form and every replay parses it again.
\<close>

lemma ucast_u32_u64 [simp]: "(ucast (ucast (v :: u32) :: u64) :: u32) = v"
  by (rule bit_word_eqI) (auto simp: bit_simps dest: bit_imp_le_length)

subsection \<open>Inputs and outputs\<close>

lemma parse_input_print: "is_h256 (ti_prev i) \<Longrightarrow> parse_input (txin_to_json i) = Inr i"
  by (cases i) (simp add: parse_input_def txin_to_json_def jstring_def juint_def or_empty_def)

lemma parse_input_wf: "parse_input item = Inr i \<Longrightarrow> is_h256 (ti_prev i)"
  by (auto simp: parse_input_def from_hex_SomeD split: option.splits)

lemma stored_checked_again: "stored_checked height fee n = Inr v \<Longrightarrow> v = n \<and> stored_checked height fee v = Inr v"
  by (auto simp: stored_checked_def split: if_splits)

lemma stored_again:
  assumes "stored_from_json_amount field height fee = Inr v"
  shows "stored_from_json_amount (JUint v) height fee = Inr v"
proof -
  obtain n where "stored_checked height fee n = Inr v"
    using assms by (auto simp: stored_from_json_amount_def split: json.splits sum.splits if_splits)
  with stored_checked_again [OF this] show ?thesis by (simp add: stored_from_json_amount_def)
qed

lemma parse_output_again:
  assumes "parse_output height item = Inr t"
  shows "parse_output height (txout_to_json t) = Inr t"
proof -
  obtain field v where v: "stored_from_json_amount field height False = Inr v" and t: "to_value t = v"
    "to_address t \<noteq> []" "length (to_address t) \<le> 256" "v \<noteq> 0"
    using assms by (auto simp: parse_output_def split: option.splits sum.splits if_splits)
  from stored_again [OF v] t show ?thesis
    by (cases t) (simp add: parse_output_def txout_to_json_def jstring_def)
qed

lemma map_res_again:
  "(\<And>x y. f x = Inr y \<Longrightarrow> f (g y) = Inr y) \<Longrightarrow> map_res f xs = Inr ys \<Longrightarrow> map_res f (map g ys) = Inr ys"
  by (induction xs arbitrary: ys) (auto split: sum.splits)

lemma length_map_res: "map_res f xs = Inr ys \<Longrightarrow> length ys = length xs"
  by (induction xs arbitrary: ys) (auto split: sum.splits)

lemma parse_inputs_again:
  "parse_inputs arr = Inr is \<Longrightarrow> parse_inputs (JArray (map txin_to_json is)) = Inr is"
  using map_res_again [of parse_input txin_to_json] parse_input_wf parse_input_print
  by (auto simp: parse_inputs_def split: option.splits)

lemma parse_outputs_again:
  "parse_outputs arr height = Inr os \<Longrightarrow> parse_outputs (JArray (map txout_to_json os)) height = Inr os"
  using map_res_again [of "parse_output height" txout_to_json] parse_output_again length_map_res
  by (fastforce simp: parse_outputs_def split: option.splits if_splits)

subsection \<open>Registration and flag members\<close>

lemma in_range_lower: "in_range c CHR ''A'' CHR ''F'' \<Longrightarrow> in_range (lower_hex_char c) CHR ''a'' CHR ''f''"
  by (simp add: in_range_def of_char_lower)

lemma lower_char_other: "\<not> in_range c CHR ''A'' CHR ''F'' \<Longrightarrow> lower_hex_char c = c"
  by (simp add: lower_hex_char_def)

lemma hex64_lower [simp]: "hex64 s \<Longrightarrow> hex64 (lower_hex s)"
  unfolding hex64_def lower_hex_map list_all_iff length_map set_map ball_simps
  using in_range_lower lower_char_other by metis

lemma length_lower_hex [simp]: "length (lower_hex s) = length s"
  by (simp add: lower_hex_map)

lemma lower_ascii_ps1: "lower_ascii ''ps1'' = ''ps1''"
  by (simp add: lower_ascii_def in_range_def)

lemma fold_ps1_mk: "length s = 64 \<Longrightarrow> fold_ps1_case (''ps1'' @ s) = ''ps1'' @ lower_hex s"
  by (simp add: fold_ps1_case_def lower_ascii_def in_range_def)

lemma fold_ps1_idem [simp]: "fold_ps1_case (fold_ps1_case a) = fold_ps1_case a"
proof (cases "length a = 67 \<and> lower_ascii (take 3 a) = ''ps1''")
  case True
  then have f: "fold_ps1_case a = ''ps1'' @ lower_hex (drop 3 a)" by (simp add: fold_ps1_case_def)
  have "length (lower_hex (drop 3 a)) = 64" using True by simp
  from fold_ps1_mk [OF this] show ?thesis unfolding f by simp
next
  case False
  then have "fold_ps1_case a = a" by (auto simp: fold_ps1_case_def)
  then show ?thesis by simp
qed

lemma parse_create_again:
  assumes "parse_create_fields obj t0 = Inr t"
    "jstring obj' ''commitment'' = Some (tx_commitment t)" "jstring obj' ''awards_pubkey'' = Some (tx_awards_pubkey t)"
    "juint obj' ''max_claims'' = Some (ucast (tx_max_claims t))"
    "juint obj' ''expires_height'' = Some (ucast (tx_expires_height t))"
    "juint obj' ''bounty_units'' = Some (tx_bounty_units t)" "jstring obj' ''note'' = Some (tx_note t)"
  shows "parse_create_fields obj' t0 = Inr t"
  using assms
  by (auto simp: parse_create_fields_def split: option.splits sum.splits if_splits)

text \<open>The fields a typed parse sets or leaves alone.\<close>

lemma parse_create_keeps:
  "parse_create_fields obj t0 = Inr t \<Longrightarrow>
   tx_flag_kind t = Flag_Create \<and> tx_flag_id t = tx_flag_id t0 \<and> tx_fee t = tx_fee t0 \<and> tx_version t = tx_version t0"
  by (auto simp: parse_create_fields_def split: option.splits sum.splits if_splits)

lemma parse_flag_keeps:
  "parse_flag_fields obj kind t0 = Inr t \<Longrightarrow> tx_fee t = tx_fee t0 \<and> tx_version t = tx_version t0"
  by (auto simp: parse_flag_fields_def Let_def dest!: parse_create_keeps split: option.splits if_splits)

lemma parse_typed_keeps:
  "parse_typed obj kind (tx_default\<lparr>tx_fee := fee\<rparr>) = Inr t \<Longrightarrow> tx_fee t = fee \<and> tx_version t = 1"
  by (auto simp: parse_typed_def tx_default_def dest!: parse_flag_keeps split: option.splits sum.splits if_splits)

text \<open>Members of the printed form.\<close>

lemma print_common:
  "jget (tx_to_json t) ''version'' = Some (JUint (ucast (tx_version t)))"
  "jget (tx_to_json t) ''fee'' = Some (JUint (tx_fee t))"
  "jget (tx_to_json t) ''inputs'' = Some (JArray (map txin_to_json (tx_inputs t)))"
  "jget (tx_to_json t) ''outputs'' = Some (JArray (map txout_to_json (tx_outputs t)))"
  "is_object (tx_to_json t)"
  by (simp_all add: tx_to_json_def)

lemma print_type:
  "jstring (tx_to_json t) ''type'' =
     (case tx_flag_kind t of Flag_Create \<Rightarrow> Some ''createflag'' | Flag_Claim \<Rightarrow> Some ''claimflag''
      | Flag_None \<Rightarrow> if tx_reg t then Some ''register'' else None)"
  by (simp add: tx_to_json_def jstring_def split: flag_kind.split)

lemma print_reg:
  "tx_reg t \<Longrightarrow> jstring (tx_to_json t) ''name'' = Some (tx_name t)"
  "tx_reg t \<Longrightarrow> jstring (tx_to_json t) ''address'' = Some (tx_reg_address t)"
  by (simp_all add: tx_to_json_def jstring_def split: flag_kind.split)

lemma print_flag_id: "tx_flag_kind t \<noteq> Flag_None \<Longrightarrow> jstring (tx_to_json t) ''flag_id'' = Some (tx_flag_id t)"
  by (simp add: tx_to_json_def jstring_def split: flag_kind.split)

lemma print_claim: "tx_flag_kind t = Flag_Claim \<Longrightarrow> jstring (tx_to_json t) ''recipient'' = Some (tx_recipient t)"
  by (simp add: tx_to_json_def jstring_def)

lemma print_create:
  assumes "tx_flag_kind t = Flag_Create"
  shows "jstring (tx_to_json t) ''commitment'' = Some (tx_commitment t)"
    "jstring (tx_to_json t) ''awards_pubkey'' = Some (tx_awards_pubkey t)"
    "juint (tx_to_json t) ''max_claims'' = Some (ucast (tx_max_claims t))"
    "juint (tx_to_json t) ''expires_height'' = Some (ucast (tx_expires_height t))"
    "juint (tx_to_json t) ''bounty_units'' = Some (tx_bounty_units t)"
    "jstring (tx_to_json t) ''note'' = Some (tx_note t)"
  using assms by (simp_all add: tx_to_json_def jstring_def juint_def)

text \<open>A typed parse is reproduced from any document that carries the fields it set.\<close>

definition same_typed :: "tx \<Rightarrow> tx \<Rightarrow> bool" where
  "same_typed t1 t \<longleftrightarrow> (\<exists>is os h. t = t1\<lparr>tx_inputs := is, tx_outputs := os, tx_txid := h\<rparr>)"

lemma parse_flag_again:
  assumes p: "parse_flag_fields obj kind t0 = Inr t1" and kind: "kind = ''createflag'' \<or> kind = ''claimflag''"
    and st: "t = t1\<lparr>tx_reg := True, tx_name := name, tx_reg_address := ra, tx_inputs := is, tx_outputs := os, tx_txid := h\<rparr>"
  shows "parse_flag_fields (tx_to_json t) kind t0 = Inr t1 \<and>
    tx_flag_kind t = (if kind = ''createflag'' then Flag_Create else Flag_Claim)"
proof -
  obtain fid where fid: "jstring obj ''flag_id'' = Some fid" "flag_id_ok fid"
    using p by (auto simp: parse_flag_fields_def split: option.splits if_splits)
  show ?thesis
  proof (cases "kind = ''createflag''")
    case True
    then have c: "parse_create_fields obj (t0\<lparr>tx_flag_id := fid\<rparr>) = Inr t1"
      using p fid by (simp add: parse_flag_fields_def Let_def)
    note k = parse_create_keeps [OF c]
    have tk: "tx_flag_kind t = Flag_Create" "tx_flag_id t = fid" using k st by simp_all
    have "parse_create_fields (tx_to_json t) (t0\<lparr>tx_flag_id := fid\<rparr>) = Inr t1"
      using print_create [OF tk(1)] st by (intro parse_create_again [OF c]) simp_all
    with True tk fid(2) print_flag_id [of t] show ?thesis
      by (simp add: parse_flag_fields_def Let_def)
  next
    case False
    then obtain r where r: "is_long_address r" "t1 = t0\<lparr>tx_flag_id := fid, tx_flag_kind := Flag_Claim, tx_recipient := r\<rparr>"
      using p fid by (auto simp: parse_flag_fields_def Let_def split: option.splits if_splits)
    then have "tx_flag_kind t = Flag_Claim" "tx_flag_id t = fid" "tx_recipient t = r" using st by simp_all
    with False fid(2) r print_flag_id [of t] print_claim [of t] show ?thesis
      by (simp add: parse_flag_fields_def Let_def)
  qed
qed

lemma parse_typed_again:
  assumes p: "parse_typed obj kind t0 = Inr t1" and t0: "tx_flag_kind t0 = Flag_None"
    and st: "t = t1\<lparr>tx_inputs := is, tx_outputs := os, tx_txid := h\<rparr>"
  shows "jstring (tx_to_json t) ''type'' = Some kind \<and> parse_typed (tx_to_json t) kind t0 = Inr t1"
proof -
  have kind: "kind = ''register'' \<or> kind = ''createflag'' \<or> kind = ''claimflag''"
    using p by (auto simp: parse_typed_def split: if_splits)
  obtain tf name ra where
    tf: "(if kind = ''createflag'' \<or> kind = ''claimflag'' then parse_flag_fields obj kind t0 else Inr t0) = Inr tf"
    and t1: "t1 = tf\<lparr>tx_reg := True, tx_name := name, tx_reg_address := fold_ps1_case ra\<rparr>"
    using p by (auto simp: parse_typed_def split: option.splits sum.splits if_splits)
  have t: "t = tf\<lparr>tx_reg := True, tx_name := name, tx_reg_address := fold_ps1_case ra,
      tx_inputs := is, tx_outputs := os, tx_txid := h\<rparr>"
    using st t1 by simp
  have reg: "jstring (tx_to_json t) ''name'' = Some name"
    "jstring (tx_to_json t) ''address'' = Some (fold_ps1_case ra)"
    using print_reg [of t] by (simp_all add: t)
  show ?thesis
  proof (cases "kind = ''register''")
    case True
    then have "tf = t0" using tf by simp
    with True t0 reg t t1 show ?thesis
      by (simp add: parse_typed_def print_type)
  next
    case False
    then have k: "kind = ''createflag'' \<or> kind = ''claimflag''" using kind by simp
    then have "parse_flag_fields obj kind t0 = Inr tf" using tf by auto
    note f = parse_flag_again [OF this k t]
    have "jstring (tx_to_json t) ''type'' = Some kind" using f k by (auto simp: print_type)
    with f k reg t1 show ?thesis by (auto simp: parse_typed_def)
  qed
qed

lemma parse_body_again:
  assumes "parse_body H obj height t1 = Inr t"
  shows "parse_body H (tx_to_json t) height t1 = Inr t \<and>
    (\<exists>is os h. t = t1\<lparr>tx_inputs := is, tx_outputs := os, tx_txid := h\<rparr>)"
proof -
  obtain ins outs where io: "jget obj ''inputs'' = Some ins" "jget obj ''outputs'' = Some outs"
    using assms by (auto simp: parse_body_def split: option.splits)
  obtain "is" os where p: "parse_inputs ins = Inr is" "parse_outputs outs height = Inr os"
    and few: "\<not> (case as_array ins of Some items \<Rightarrow> length items > kMaxTxInputs | None \<Rightarrow> False)"
    and small: "length (canonical_tx (t1\<lparr>tx_inputs := is, tx_outputs := os\<rparr>)) \<le> kMaxTxBytes"
    and t: "t = t1\<lparr>tx_inputs := is, tx_outputs := os, tx_txid := H (canonical_tx (t1\<lparr>tx_inputs := is, tx_outputs := os\<rparr>))\<rparr>"
    using assms io by (auto simp: parse_body_def Let_def not_less split: sum.splits if_splits)
  have "length is \<le> kMaxTxInputs"
    using p(1) few by (auto simp: parse_inputs_def not_less dest!: length_map_res split: option.splits)
  then have "parse_body H (tx_to_json t) height t1 = Inr t"
    using parse_inputs_again [OF p(1)] parse_outputs_again [OF p(2)] small
    by (simp add: parse_body_def print_common t Let_def)
  with t show ?thesis by blast
qed

subsection \<open>Property\<close>


definition demo_in :: txin where
  "demo_in = \<lparr> ti_prev = zero256, ti_vout = 0, ti_signature_hex = ''ab'', ti_public_key_hex = ''cd'' \<rparr>"

definition demo_out :: txout where
  "demo_out = \<lparr> to_value = 7, to_address = ''bob'' \<rparr>"

definition demo_doc :: json where
  "demo_doc = JObject [(''version'', JUint 1), (''fee'', JString ''0.001''),
     (''inputs'', JArray [txin_to_json demo_in]), (''outputs'', JArray [txout_to_json demo_out])]"

definition demo_tx :: tx where
  "demo_tx = tx_default\<lparr>tx_fee := 1, tx_inputs := [demo_in], tx_outputs := [demo_out]\<rparr>"

lemma demo_parse: "parse_user_tx (\<lambda>_. zero256) (\<lambda>_. 0) demo_doc 40 = Inr demo_tx"
proof -
  have "parse_314st_pi ''0.001'' = Inr 1000" by code_simp
  then have fee: "stored_from_json_amount (JString ''0.001'') 40 True = Inr 1"
    by (simp add: stored_from_json_amount_def emission_consts stored_checked_def min_fee_for_height_def)
  have "parse_inputs (JArray [txin_to_json demo_in]) = Inr [demo_in]"
    by (simp add: parse_inputs_def parse_input_print demo_in_def)
  moreover have "parse_outputs (JArray [txout_to_json demo_out]) 40 = Inr [demo_out]"
    by (simp add: parse_outputs_def parse_output_def demo_out_def txout_to_json_def jstring_def
        stored_from_json_amount_def stored_checked_def)
  moreover have "length (canonical_tx (tx_default\<lparr>tx_fee := 1, tx_inputs := [demo_in], tx_outputs := [demo_out]\<rparr>)) \<le> kMaxTxBytes"
    by (simp add: canonical_tx_def Let_def layout append_text_def tx_default_def demo_in_def demo_out_def kMaxTxBytes_def zero256_def)
  ultimately show ?thesis
    using fee by (simp add: parse_user_tx_def demo_doc_def demo_tx_def kMaxTxJsonBytes_def juint_def jstring_def
        parse_body_def kMaxTxInputs_def Let_def) (simp add: tx_default_def)
qed


end
