(* ===== verification/Names.thy ===== *)
theory Names
  imports Tx Stores
begin

text \<open>
  Shortnames (chain_rpc.cpp): the book \<open>g_names\<close> of registered names, the checks on a
  name, reserved names, the JSON rows by which names travel in blocks and in names.json, and
  the lookups the RPCs use. The book is a list of \<open>namerec\<close>, in the order of the vector; the
  operations that change it return the new book. The mutex is not modelled. The content of
  names.json is an argument: \<open>None\<close> when it is missing or is not JSON.
\<close>

record namerec =
  nm_name :: string
  nm_address :: string
  nm_kind :: string
  nm_txid :: string

type_synonym book = "namerec list"

subsection \<open>Addresses and spelling\<close>

definition is_ps1_payout :: "string \<Rightarrow> bool" where
  "is_ps1_payout address \<longleftrightarrow> length address = 67 \<and> is_long_address (lower_ascii address)"

definition long_address :: "(bytes \<Rightarrow> h256) \<Rightarrow> bytes \<Rightarrow> string" where
  "long_address H pubkey = ''ps1'' @ to_hex (H pubkey)"

definition fold_name :: "string \<Rightarrow> string" where
  "fold_name name = lower_ascii name"

definition is_letter :: "char \<Rightarrow> bool" where
  "is_letter c \<longleftrightarrow> in_range c CHR ''A'' CHR ''Z'' \<or> in_range c CHR ''a'' CHR ''z''"

definition name_char :: "char \<Rightarrow> bool" where
  "name_char c \<longleftrightarrow> is_letter c \<or> in_range c CHR ''0'' CHR ''9'' \<or> c = CHR ''_'' \<or> c = CHR ''-''"

definition valid_shortname :: "string \<Rightarrow> bool" where
  "valid_shortname name \<longleftrightarrow>
     (if length name < 2 \<or> length name > 32 then False
      else if \<not> is_letter (name ! 0) then False
      else list_all name_char name)"

definition reserved_names :: "string list" where
  "reserved_names =
     [''foundation'', ''validator'', ''stakers'', ''loans'', ''genesis'', ''pisecure'', ''operator'']"

definition is_reserved_name :: "string \<Rightarrow> bool" where
  "is_reserved_name name \<longleftrightarrow> list_ex (\<lambda>item. fold_name name = item) reserved_names"

definition canonical_name :: "string \<Rightarrow> string" where
  "canonical_name name = name"

subsection \<open>The book\<close>

definition find_name :: "book \<Rightarrow> string \<Rightarrow> namerec option" where
  "find_name g name = find (\<lambda>rec. fold_name (nm_name rec) = fold_name name) g"

definition find_address :: "book \<Rightarrow> string \<Rightarrow> namerec option" where
  "find_address g address = find (\<lambda>rec. nm_address rec = address) g"

text \<open>Writing through the pointer \<open>find_name_locked\<close> returns: the first match is replaced.\<close>

fun set_first :: "('a \<Rightarrow> bool) \<Rightarrow> ('a \<Rightarrow> 'a) \<Rightarrow> 'a list \<Rightarrow> 'a list" where
  "set_first p f [] = []"
| "set_first p f (x # xs) = (if p x then f x # xs else x # set_first p f xs)"

definition set_name :: "book \<Rightarrow> string \<Rightarrow> (namerec \<Rightarrow> namerec) \<Rightarrow> book" where
  "set_name g name f = set_first (\<lambda>rec. fold_name (nm_name rec) = fold_name name) f g"

text \<open>The update of a name that is already bound to the same address.\<close>

definition refresh :: "string \<Rightarrow> string \<Rightarrow> namerec \<Rightarrow> namerec" where
  "refresh kind txid existing =
     existing\<lparr>nm_txid := (if txid \<noteq> [] then txid else nm_txid existing),
              nm_kind := (if kind \<noteq> [] then kind else nm_kind existing)\<rparr>"

definition taken_by_other :: "book \<Rightarrow> string \<Rightarrow> string \<Rightarrow> bool" where
  "taken_by_other g address shown \<longleftrightarrow>
     (case find_address g address of
        Some by_addr \<Rightarrow> fold_name (nm_name by_addr) \<noteq> fold_name shown
      | None \<Rightarrow> False)"

definition remember_name ::
  "book \<Rightarrow> string \<Rightarrow> string \<Rightarrow> string \<Rightarrow> string \<Rightarrow> bool \<Rightarrow> book res" where
  "remember_name g name address kind txid overwrite =
     (if \<not> valid_shortname name \<or> \<not> is_long_address address then Inl (NameErr Name_Invalid)
      else let shown = canonical_name name in
        if taken_by_other g address shown then Inl (NameErr Name_Taken)
        else (case find_name g shown of
            Some existing \<Rightarrow>
              if nm_address existing = address then Inr (set_name g shown (refresh kind txid))
              else if \<not> overwrite then Inl (NameErr Name_Taken)
              else Inr (set_name g shown (\<lambda>existing. existing\<lparr>nm_address := address,
                          nm_kind := kind, nm_txid := txid, nm_name := shown\<rparr>))
          | None \<Rightarrow> Inr (g @ [\<lparr>nm_name = shown, nm_address = address, nm_kind = kind,
                                nm_txid = txid\<rparr>])))"

text \<open>The callers that ignore the result.\<close>

definition try_remember ::
  "book \<Rightarrow> string \<Rightarrow> string \<Rightarrow> string \<Rightarrow> string \<Rightarrow> bool \<Rightarrow> book" where
  "try_remember g name address kind txid overwrite =
     (case remember_name g name address kind txid overwrite of Inl _ \<Rightarrow> g | Inr g' \<Rightarrow> g')"

definition lookup_name :: "book \<Rightarrow> string \<Rightarrow> (string \<times> string \<times> string) option" where
  "lookup_name g query =
     map_option (\<lambda>rec. (nm_address rec, nm_name rec, nm_kind rec)) (find_name g query)"

definition lookup_ps1 :: "book \<Rightarrow> string \<Rightarrow> (string \<times> string) option" where
  "lookup_ps1 g address =
     map_option (\<lambda>rec. (nm_name rec, nm_kind rec)) (find_address g address)"

subsection \<open>Names as JSON\<close>

definition opt_txid :: "string \<Rightarrow> (string \<times> json) list" where
  "opt_txid txid = (if txid \<noteq> [] then [(''txid'', JString txid)] else [])"

definition name_snapshot_unlocked :: "book \<Rightarrow> json" where
  "name_snapshot_unlocked g =
     JArray (map (\<lambda>rec. JObject ([(''name'', JString (nm_name rec)),
                                  (''address'', JString (nm_address rec)),
                                  (''kind'', JString (nm_kind rec))] @ opt_txid (nm_txid rec))) g)"

text \<open>The document \<open>save_names\<close> writes to names.json.\<close>

definition is_reserved_rec :: "namerec \<Rightarrow> bool" where
  "is_reserved_rec rec \<longleftrightarrow> nm_kind rec = ''reserved_bind''"

definition reserved_row :: "namerec \<Rightarrow> json" where
  "reserved_row rec =
     JObject [(''name'', JString (nm_name rec)), (''address'', JString (nm_address rec))]"

definition name_row :: "namerec \<Rightarrow> json" where
  "name_row rec =
     JObject ([(''name'', JString (nm_name rec)), (''address'', JString (nm_address rec))]
              @ opt_txid (nm_txid rec))"

definition save_names :: "book \<Rightarrow> json" where
  "save_names g =
     JObject [(''reserved_bind'', JArray (map reserved_row (filter is_reserved_rec g))),
              (''names'', JArray (map name_row (filter (\<lambda>rec. \<not> is_reserved_rec rec) g)))]"

text \<open>
  \<open>row.value("txid", "")\<close>: the member, the default when it is absent, and an exception
  (\<open>None\<close>) when it is there and is not a string.
\<close>

definition value_string :: "json \<Rightarrow> string \<Rightarrow> string \<Rightarrow> string option" where
  "value_string row key dflt = (case jget row key of None \<Rightarrow> Some dflt | Some v \<Rightarrow> as_string v)"

definition norm_address :: "string \<Rightarrow> string" where
  "norm_address address =
     (if is_long_address address then ''ps1'' @ lower_hex (drop 3 address) else address)"

definition row_kind :: "json \<Rightarrow> string \<Rightarrow> string" where
  "row_kind row name =
     (if jstring row ''kind'' = Some ''reserved_bind'' then ''reserved_bind''
      else if is_reserved_name name then ''reserved_bind'' else ''register'')"

text \<open>\<open>None\<close>: the exception of \<open>value\<close>; the book is not changed before it.\<close>

definition absorb_name_record :: "book \<Rightarrow> json \<Rightarrow> bool \<Rightarrow> book option" where
  "absorb_name_record g row chain =
     (if \<not> is_object row then Some g
      else case (jstring row ''name'', jstring row ''address'') of
          (Some name, Some addr) \<Rightarrow>
            let address = norm_address addr; kind = row_kind row name in
            (case value_string row ''txid'' [] of
               None \<Rightarrow> None
             | Some txid \<Rightarrow> Some (try_remember g name address kind txid chain))
        | _ \<Rightarrow> Some g)"

text \<open>A loop over rows that an exception ends: the book so far, and whether the loop ended by itself.\<close>

fun absorb_rows :: "(book \<Rightarrow> json \<Rightarrow> book option) \<Rightarrow> json list \<Rightarrow> book \<Rightarrow> book \<times> bool" where
  "absorb_rows step [] g = (g, True)"
| "absorb_rows step (row # rows) g =
     (case step g row of None \<Rightarrow> (g, False) | Some g' \<Rightarrow> absorb_rows step rows g')"

text \<open>\<open>copy["kind"] = ...\<close>: null becomes an object; any other non-object throws.\<close>

fun set_kind :: "json \<Rightarrow> json option" where
  "set_kind (JObject kvs) = Some (JObject ((''kind'', JString ''reserved_bind'') # kvs))"
| "set_kind JNull = Some (JObject [(''kind'', JString ''reserved_bind'')])"
| "set_kind _ = None"

definition load_reserved_row :: "book \<Rightarrow> json \<Rightarrow> book option" where
  "load_reserved_row g row =
     (case set_kind row of None \<Rightarrow> None | Some copy \<Rightarrow> absorb_name_record g copy False)"

definition load_names_file :: "json option \<Rightarrow> book \<Rightarrow> book" where
  "load_names_file file g =
     (case file of
        None \<Rightarrow> g
      | Some doc \<Rightarrow>
          let (g1, fine) =
            (case jarray doc ''reserved_bind'' of
               None \<Rightarrow> (g, True) | Some rows \<Rightarrow> absorb_rows load_reserved_row rows g)
          in if \<not> fine then g1
             else (case jarray doc ''names'' of
                     None \<Rightarrow> g1
                   | Some rows \<Rightarrow> fst (absorb_rows (\<lambda>g row. absorb_name_record g row False) rows g1)))"

definition grant_row :: "json \<Rightarrow> string \<Rightarrow> string \<Rightarrow> bool" where
  "grant_row row name address \<longleftrightarrow>
     is_object row \<and>
     (case (jstring row ''name'', jstring row ''address'') of
        (Some n, Some a) \<Rightarrow> fold_name n = fold_name name \<and> norm_address a = address
      | _ \<Rightarrow> False)"

definition grant_matches :: "json option \<Rightarrow> book \<Rightarrow> string \<Rightarrow> string \<Rightarrow> bool \<times> book" where
  "grant_matches file g name address =
     (case file of
        None \<Rightarrow> (False, g)
      | Some doc \<Rightarrow>
          (case jarray doc ''reserved_bind'' of
             None \<Rightarrow> (False, g)
           | Some rows \<Rightarrow>
               if list_ex (\<lambda>row. grant_row row name address) rows
               then (True, try_remember g name address ''reserved_bind'' [] False)
               else (False, g)))"

text \<open>
  A block's registrations, then its snapshot rows. The second loop runs only when no
  exception left the function; the flag tells whether one did.
\<close>

definition absorb_tx_row :: "book \<Rightarrow> json \<Rightarrow> book option" where
  "absorb_tx_row g txj =
     (if \<not> is_object txj then Some g
      else case value_string txj ''type'' [] of
          None \<Rightarrow> None
        | Some t \<Rightarrow> if t \<noteq> ''register'' then Some g else absorb_name_record g txj True)"

definition absorb_block_names :: "book \<Rightarrow> json \<Rightarrow> book \<times> bool" where
  "absorb_block_names g block =
     (let (g1, fine) =
        (case jarray block ''txs'' of
           None \<Rightarrow> (g, True) | Some rows \<Rightarrow> absorb_rows absorb_tx_row rows g)
      in if \<not> fine then (g1, False)
         else (case jarray block ''names'' of
                 None \<Rightarrow> (g1, True)
               | Some rows \<Rightarrow> absorb_rows (\<lambda>g row. absorb_name_record g row True) rows g1))"

subsection \<open>Resolving names\<close>

text \<open>The lower-casing of a 67-character wallet: letters in the prefix, hex letters after it.\<close>

definition wallet_ps1 :: "string \<Rightarrow> string option" where
  "wallet_ps1 wallet =
     (let prefix = lower_ascii (take 3 wallet); ps1 = prefix @ lower_hex (drop 3 wallet) in
      if length wallet = 67 \<and> prefix = ''ps1'' \<and> is_long_address ps1 then Some ps1 else None)"

definition resolve_miner :: "book \<Rightarrow> string \<Rightarrow> (string \<times> string) res" where
  "resolve_miner g wallet =
     (if wallet = [] \<or> length wallet > 256 then Inl (NameErr Wallet_Required)
      else case wallet_ps1 wallet of
          Some ps1 \<Rightarrow> Inr (ps1, ps1)
        | None \<Rightarrow>
            if \<not> valid_shortname wallet then Inl (NameErr Unknown_Shortname)
            else (case lookup_name g wallet of
                    None \<Rightarrow> Inl (NameErr Unknown_Shortname)
                  | Some (payout, shown, kind) \<Rightarrow> Inr (shown, payout)))"

definition resolve_address :: "book \<Rightarrow> string \<Rightarrow> string" where
  "resolve_address g a = (case lookup_name g a of None \<Rightarrow> a | Some (address, _, _) \<Rightarrow> address)"

definition resolve_output_names :: "(bytes \<Rightarrow> h256) \<Rightarrow> book \<Rightarrow> tx \<Rightarrow> tx" where
  "resolve_output_names H g tx =
     (let outs = map (\<lambda>out. out\<lparr>to_address := resolve_address g (to_address out)\<rparr>) (tx_outputs tx);
          changed = list_ex (\<lambda>out. resolve_address g (to_address out) \<noteq> to_address out) (tx_outputs tx);
          tx' = tx\<lparr>tx_outputs := outs\<rparr>
      in if changed then tx'\<lparr>tx_txid := txid_of H tx'\<rparr> else tx')"

text \<open>The rows of a block's snapshot after its registrations (\<open>snapshot_including\<close>).\<close>

definition reg_kind :: "string \<Rightarrow> string" where
  "reg_kind name = (if is_reserved_name name then ''reserved_bind'' else ''register'')"

definition reg_rec :: "tx \<Rightarrow> namerec" where
  "reg_rec tx = \<lparr>nm_name = canonical_name (tx_name tx), nm_address = tx_reg_address tx,
                 nm_kind = reg_kind (tx_name tx), nm_txid = to_hex (tx_txid tx)\<rparr>"

definition include_reg :: "tx \<Rightarrow> book \<Rightarrow> book" where
  "include_reg tx rows =
     (if \<not> tx_reg tx then rows
      else let same = (\<lambda>row. fold_name (nm_name row) = fold_name (tx_name tx)) in
        if list_ex same rows then map (\<lambda>row. if same row then reg_rec tx else row) rows
        else rows @ [reg_rec tx])"

definition snapshot_including :: "book \<Rightarrow> tx list \<Rightarrow> json" where
  "snapshot_including g txs = name_snapshot_unlocked (fold include_reg txs g)"

text \<open>A block's registration on the live book (\<open>rpc_submitblock\<close>); a failure is ignored.\<close>

definition register_tx :: "bool \<Rightarrow> tx \<Rightarrow> book \<Rightarrow> book" where
  "register_tx require_local_policy tx g =
     (if tx_reg tx
      then try_remember g (tx_name tx) (tx_reg_address tx) (reg_kind (tx_name tx))
             (to_hex (tx_txid tx)) (\<not> require_local_policy)
      else g)"

end
