(* ===== verification/Names_Book.thy ===== *)
theory Names_Book
  imports Names
begin

text \<open>
  The name book is sound: a name, whatever its letter case, and an address each have at most
  one record; registration succeeds exactly when it keeps this; a binding moves only through
  an overwrite; names.json restores it; and the one place where the live book and its replay
  from the blocks disagree.
\<close>

interpretation names: registry
  "\<lambda>g k. find (\<lambda>rec. fold_name (nm_name rec) = k) g" "\<lambda>g rec. g @ [rec]" "\<lambda>rec. fold_name (nm_name rec)"
  by unfold_locales (auto simp: find_append split: option.splits)

definition book_ok :: "book \<Rightarrow> bool" where
  "book_ok g \<longleftrightarrow>
     distinct (map (\<lambda>rec. fold_name (nm_name rec)) g) \<and> distinct (map nm_address g) \<and>
     list_all (\<lambda>rec. valid_shortname (nm_name rec) \<and> is_long_address (nm_address rec)) g"

subsection \<open>The first match\<close>

lemma map_set_first: "(\<And>x. p x \<Longrightarrow> h (f x) = h x) \<Longrightarrow> map h (set_first p f xs) = map h xs"
  by (induction xs) auto

lemma set_set_first: "y \<in> set (set_first p f xs) \<Longrightarrow> y \<in> set xs \<or> (\<exists>x \<in> set xs. p x \<and> y = f x)"
  by (induction xs) (auto split: if_splits)

lemma distinct_set_first:
  "distinct (map h xs) \<Longrightarrow> a \<notin> h ` set xs \<Longrightarrow> (\<And>x. h (f x) = a) \<Longrightarrow>
   distinct (map h (set_first p f xs))"
proof (induction xs)
  case (Cons x xs)
  have "h ` set (set_first p f xs) \<subseteq> insert a (h ` set xs)"
    using Cons.prems(3) by (auto dest: set_set_first)
  with Cons show ?case by auto
qed simp

lemma find_in: "find p xs = Some x \<Longrightarrow> x \<in> set xs \<and> p x"
  by (auto simp: find_Some_iff)

lemma find_name_in:
  "find_name g n = Some rec \<Longrightarrow> rec \<in> set g \<and> fold_name (nm_name rec) = fold_name n"
  unfolding find_name_def by (rule find_in)

lemma find_name_None: "find_name g n = None \<longleftrightarrow> (\<forall>rec \<in> set g. fold_name (nm_name rec) \<noteq> fold_name n)"
  by (auto simp: find_name_def find_None_iff)

lemma find_address_in: "find_address g a = Some rec \<Longrightarrow> rec \<in> set g \<and> nm_address rec = a"
  unfolding find_address_def by (rule find_in)

lemma find_address_None: "find_address g a = None \<longleftrightarrow> (\<forall>rec \<in> set g. nm_address rec \<noteq> a)"
  by (auto simp: find_address_def find_None_iff)

lemma find_name_set:
  assumes "\<And>rec. fold_name (nm_name rec) = fold_name n \<Longrightarrow> fold_name (nm_name (f rec)) = fold_name n"
  shows "find_name (set_name g n f) m =
    (if fold_name m = fold_name n then map_option f (find_name g n) else find_name g m)"
  using assms by (induction g) (auto simp: find_name_def set_name_def)

lemma book_name_unique:
  "book_ok g \<Longrightarrow> r \<in> set g \<Longrightarrow> r' \<in> set g \<Longrightarrow>
   fold_name (nm_name r) = fold_name (nm_name r') \<Longrightarrow> r = r'"
  by (auto simp: book_ok_def distinct_map dest: inj_onD)

lemma book_address_unique:
  "book_ok g \<Longrightarrow> r \<in> set g \<Longrightarrow> r' \<in> set g \<Longrightarrow> nm_address r = nm_address r' \<Longrightarrow> r = r'"
  by (auto simp: book_ok_def distinct_map dest: inj_onD)

lemma find_name_member:
  "book_ok g \<Longrightarrow> r \<in> set g \<Longrightarrow> fold_name (nm_name r) = fold_name n \<Longrightarrow> find_name g n = Some r"
  by (cases "find_name g n") (auto simp: find_name_None dest!: find_name_in intro: book_name_unique)

lemma find_address_member:
  "book_ok g \<Longrightarrow> r \<in> set g \<Longrightarrow> nm_address r = a \<Longrightarrow> find_address g a = Some r"
  by (cases "find_address g a") (auto simp: find_address_None dest!: find_address_in intro: book_address_unique)

lemma taken_by_other_iff:
  assumes "book_ok g"
  shows "taken_by_other g a n \<longleftrightarrow>
     (\<exists>r \<in> set g. nm_address r = a \<and> fold_name (nm_name r) \<noteq> fold_name n)"
proof (cases "find_address g a")
  case None
  then have "\<forall>rec \<in> set g. nm_address rec \<noteq> a" by (simp add: find_address_None)
  with None show ?thesis by (simp add: taken_by_other_def)
next
  case (Some r)
  then have r: "r \<in> set g" "nm_address r = a" by (auto dest: find_address_in)
  have t: "taken_by_other g a n \<longleftrightarrow> fold_name (nm_name r) \<noteq> fold_name n"
    by (simp add: taken_by_other_def Some)
  have "fold_name (nm_name r) \<noteq> fold_name n"
    if "r' \<in> set g" "nm_address r' = a" "fold_name (nm_name r') \<noteq> fold_name n" for r'
    using book_address_unique [OF assms that(1) r(1)] that r(2) by simp
  with r t show ?thesis by blast
qed

lemma refresh_simps [simp]:
  "nm_name (refresh k t r) = nm_name r" "nm_address (refresh k t r) = nm_address r"
  by (simp_all add: refresh_def)

subsection \<open>Registration\<close>

lemma remember_fresh_address:
  assumes "book_ok g" "\<not> taken_by_other g a n" "find_name g n = Some e" "nm_address e \<noteq> a"
  shows "a \<notin> nm_address ` set g"
proof
  assume "a \<in> nm_address ` set g"
  then obtain r where r: "r \<in> set g" "nm_address r = a" by auto
  with assms(1,2) have "fold_name (nm_name r) = fold_name n" by (auto simp: taken_by_other_iff)
  with assms(1,3) r have "r = e" by (simp add: find_name_member)
  with r assms(4) show False by simp
qed

lemma remember_book_ok:
  assumes "book_ok g" "remember_name g name address kind txid ow = Inr g'"
  shows "book_ok g'"
proof -
  from assms(2) have v: "valid_shortname name" "is_long_address address"
    and nt: "\<not> taken_by_other g address name"
    by (auto simp: remember_name_def canonical_name_def Let_def split: if_splits)
  show ?thesis
  proof (cases "find_name g name")
    case None
    with assms(2) v nt have g': "g' = g @ [\<lparr>nm_name = name, nm_address = address, nm_kind = kind, nm_txid = txid\<rparr>]"
      by (simp add: remember_name_def canonical_name_def)
    have "address \<notin> nm_address ` set g"
      using nt None by (auto simp: taken_by_other_iff [OF assms(1)] find_name_None)
    moreover have "fold_name name \<notin> (\<lambda>rec. fold_name (nm_name rec)) ` set g"
      using None by (auto simp: find_name_None)
    ultimately show ?thesis using assms(1) v by (simp add: g' book_ok_def)
  next
    case (Some e)
    show ?thesis
    proof (cases "nm_address e = address")
      case True
      with Some assms(2) v nt have g': "g' = set_name g name (refresh kind txid)"
        by (simp add: remember_name_def canonical_name_def)
      have "map h g' = map h g" if "\<And>r. h (refresh kind txid r) = h r" for h :: "namerec \<Rightarrow> string"
        unfolding g' set_name_def by (rule map_set_first) (simp add: that)
      moreover have "list_all (\<lambda>rec. valid_shortname (nm_name rec) \<and> is_long_address (nm_address rec)) g'"
        using assms(1) by (auto simp: g' set_name_def book_ok_def list_all_iff dest!: set_set_first)
      ultimately show ?thesis using assms(1) by (simp add: book_ok_def)
    next
      case False
      let ?f = "\<lambda>existing. existing\<lparr>nm_address := address, nm_kind := kind, nm_txid := txid, nm_name := name\<rparr>"
      from False Some assms(2) v nt have g': "g' = set_name g name ?f"
        by (auto simp: remember_name_def canonical_name_def split: if_splits)
      have "map (\<lambda>rec. fold_name (nm_name rec)) g' = map (\<lambda>rec. fold_name (nm_name rec)) g"
        unfolding g' set_name_def by (rule map_set_first) simp
      moreover have "distinct (map nm_address g')"
        unfolding g' set_name_def
        using assms(1) remember_fresh_address [OF assms(1) nt Some False]
        by (intro distinct_set_first [where a = address]) (auto simp: book_ok_def)
      moreover have "list_all (\<lambda>rec. valid_shortname (nm_name rec) \<and> is_long_address (nm_address rec)) g'"
        using assms(1) v by (auto simp: g' set_name_def book_ok_def list_all_iff dest!: set_set_first)
      ultimately show ?thesis using assms(1) by (simp add: book_ok_def)
    qed
  qed
qed

lemma remember_find:
  assumes "remember_name g name address kind txid ow = Inr g'"
  shows "fold_name m \<noteq> fold_name name \<Longrightarrow> find_name g' m = find_name g m"
    and "\<exists>rec. find_name g' name = Some rec \<and> nm_address rec = address"
proof -
  have app: "find_name (g @ [r]) q =
      (case find_name g q of Some x \<Rightarrow> Some x | None \<Rightarrow> if fold_name (nm_name r) = fold_name q then Some r else None)" for r q
    by (auto simp: find_name_def find_append split: option.splits)
  show "fold_name m \<noteq> fold_name name \<Longrightarrow> find_name g' m = find_name g m"
    using assms
    by (auto simp: remember_name_def canonical_name_def Let_def find_name_set app
        split: if_splits option.splits)
  show "\<exists>rec. find_name g' name = Some rec \<and> nm_address rec = address"
    using assms
    by (auto simp: remember_name_def canonical_name_def Let_def find_name_set app
        split: if_splits option.splits)
qed

text \<open>\<open>remember_name\<close> on a sound book succeeds exactly when the name and the address are
  well formed, the address has no other name, and the name is free, already the address's, or
  may be overwritten.\<close>

theorem remember_name_exact:
  assumes "book_ok g"
  shows "(\<exists>g'. remember_name g name address kind txid ow = Inr g') \<longleftrightarrow>
    valid_shortname name \<and> is_long_address address \<and>
    (\<forall>r \<in> set g. nm_address r = address \<longrightarrow> fold_name (nm_name r) = fold_name name) \<and>
    (ow \<or> (\<forall>r \<in> set g. fold_name (nm_name r) = fold_name name \<longrightarrow> nm_address r = address))"
proof -
  have own: "(\<forall>r \<in> set g. fold_name (nm_name r) = fold_name name \<longrightarrow> nm_address r = address) \<longleftrightarrow>
      (case find_name g name of None \<Rightarrow> True | Some e \<Rightarrow> nm_address e = address)"
  proof (cases "find_name g name")
    case None
    then have "\<forall>rec \<in> set g. fold_name (nm_name rec) \<noteq> fold_name name" by (simp add: find_name_None)
    with None show ?thesis by simp
  next
    case (Some e)
    then have e: "e \<in> set g" "fold_name (nm_name e) = fold_name name" by (auto dest: find_name_in)
    have "nm_address r = address"
      if "r \<in> set g" "fold_name (nm_name r) = fold_name name" "nm_address e = address" for r
      using book_name_unique [OF assms that(1) e(1)] that e(2) by simp
    with e have "(\<forall>r \<in> set g. fold_name (nm_name r) = fold_name name \<longrightarrow> nm_address r = address) \<longleftrightarrow>
        nm_address e = address" by blast
    then show ?thesis by (simp add: Some)
  qed
  have other: "(\<forall>r \<in> set g. nm_address r = address \<longrightarrow> fold_name (nm_name r) = fold_name name) \<longleftrightarrow>
      \<not> taken_by_other g address name"
    by (auto simp: taken_by_other_iff [OF assms])
  show ?thesis
    unfolding own other
    by (cases "valid_shortname name"; cases "is_long_address address"; cases "taken_by_other g address name";
        cases "find_name g name") (simp_all add: remember_name_def canonical_name_def Let_def)
qed

definition demo_addr :: "char \<Rightarrow> string" where
  "demo_addr c = ''ps1'' @ replicate 64 c"

definition demo_names :: book where
  "demo_names = [\<lparr>nm_name = ''Alice'', nm_address = demo_addr CHR ''a'', nm_kind = ''register'', nm_txid = []\<rparr>]"

lemma is_long_demo [simp]:
  "is_long_address (demo_addr CHR ''a'')" "is_long_address (demo_addr CHR ''b'')"
  "is_long_address (demo_addr CHR ''c'')"
  by (simp_all add: is_long_address_def demo_addr_def in_range_def list_all_iff)

lemma demo_addr_eq [simp]: "demo_addr c = demo_addr d \<longleftrightarrow> c = d"
  by (auto simp: demo_addr_def)

lemma demo_fold: "fold_name ''Alice'' = fold_name ''ALICE''"
  by code_simp

lemma demo_names_ok: "book_ok demo_names"
  by (simp add: book_ok_def demo_names_def valid_shortname_def is_letter_def name_char_def in_range_def)

lemma remember_name_exact_witness:
  "book_ok demo_names \<and> \<not> (\<exists>g'. remember_name demo_names ''ALICE'' (demo_addr CHR ''b'') ''register'' [] False = Inr g')"
  using remember_name_exact [OF demo_names_ok, of "''ALICE''" "demo_addr CHR ''b''" "''register''" "[]" False]
    demo_names_ok demo_fold
  by (simp add: demo_names_def)

subsection \<open>Every way the book changes\<close>

text \<open>The kinds in use: granted reserved names, and what the name itself determines.\<close>

definition kind_fits :: "string \<Rightarrow> string \<Rightarrow> bool" where
  "kind_fits kind name \<longleftrightarrow> kind = ''reserved_bind'' \<or> kind = reg_kind name"

definition book_inv :: "book \<Rightarrow> bool" where
  "book_inv g \<longleftrightarrow> book_ok g \<and> (\<forall>r \<in> set g. kind_fits (nm_kind r) (nm_name r))"

lemma reserved_fold: "fold_name a = fold_name b \<Longrightarrow> is_reserved_name a = is_reserved_name b"
  by (simp add: is_reserved_name_def)

lemma kind_fits_fold: "fold_name a = fold_name b \<Longrightarrow> kind_fits k b \<Longrightarrow> kind_fits k a"
  using reserved_fold [of a b] by (simp add: kind_fits_def reg_kind_def)

lemma kind_fits_simps [simp]:
  "kind_fits ''reserved_bind'' n" "kind_fits (reg_kind n) n" "kind_fits (row_kind row n) n"
  by (simp_all add: kind_fits_def row_kind_def reg_kind_def)

lemma remember_kinds:
  assumes "remember_name g name address kind txid ow = Inr g'" "kind_fits kind name"
    "\<forall>r \<in> set g. kind_fits (nm_kind r) (nm_name r)"
  shows "\<forall>r \<in> set g'. kind_fits (nm_kind r) (nm_name r)"
  using assms
  by (auto simp: remember_name_def canonical_name_def Let_def set_name_def refresh_def
      split: if_splits option.splits dest!: set_set_first intro: kind_fits_fold)

lemma try_remember_inv:
  assumes "book_inv g" "kind_fits kind name"
  shows "book_inv (try_remember g name address kind txid ow)"
proof (cases "remember_name g name address kind txid ow")
  case (Inr g')
  with assms remember_book_ok [OF _ Inr] remember_kinds [OF Inr] show ?thesis
    by (simp add: book_inv_def try_remember_def)
qed (simp add: try_remember_def assms)

lemma absorb_name_record_inv: "book_inv g \<Longrightarrow> absorb_name_record g row chain = Some g' \<Longrightarrow> book_inv g'"
  by (auto simp: absorb_name_record_def Let_def try_remember_inv split: if_splits option.splits)

lemma absorb_rows_inv:
  "book_inv g \<Longrightarrow> (\<And>g row g'. book_inv g \<Longrightarrow> step g row = Some g' \<Longrightarrow> book_inv g') \<Longrightarrow>
   book_inv (fst (absorb_rows step rows g))"
  by (induction step rows g rule: absorb_rows.induct) (auto split: option.splits)

lemma absorb_row_loop:
  "book_inv g \<Longrightarrow> book_inv (fst (absorb_rows (\<lambda>g row. absorb_name_record g row chain) rows g))"
  by (erule absorb_rows_inv) (rule absorb_name_record_inv)

lemma load_names_file_inv: "book_inv g \<Longrightarrow> book_inv (load_names_file file g)"
proof -
  assume g: "book_inv g"
  have row: "book_inv g'" if "book_inv h" "load_reserved_row h r = Some g'" for h r g'
    using that by (auto simp: load_reserved_row_def split: option.splits intro: absorb_name_record_inv)
  have "book_inv (fst (absorb_rows load_reserved_row rows g))" for rows
    using g row by (rule absorb_rows_inv)
  then show ?thesis
    unfolding load_names_file_def Let_def
    using g absorb_row_loop by (auto split: option.splits prod.splits) (metis fst_conv)+
qed

lemma grant_matches_inv: "book_inv g \<Longrightarrow> book_inv (snd (grant_matches file g name address))"
  by (auto simp: grant_matches_def try_remember_inv split: option.splits)

lemma absorb_block_names_inv: "book_inv g \<Longrightarrow> book_inv (fst (absorb_block_names g block))"
proof -
  assume g: "book_inv g"
  have row: "book_inv g'" if "book_inv h" "absorb_tx_row h r = Some g'" for h r g'
    using that by (auto simp: absorb_tx_row_def split: option.splits if_splits intro: absorb_name_record_inv)
  have "book_inv (fst (absorb_rows absorb_tx_row rows g))" for rows
    using g row by (rule absorb_rows_inv)
  then show ?thesis
    unfolding absorb_block_names_def Let_def
    using g absorb_row_loop by (auto split: option.splits prod.splits) (metis fst_conv)+
qed

text \<open>The states of the book: empty at the start, then any of its operations.\<close>

inductive book_reach :: "book \<Rightarrow> bool" where
  start: "book_reach []"
| remember: "book_reach g \<Longrightarrow> book_reach (try_remember g name address (reg_kind name) txid ow)"
| load: "book_reach g \<Longrightarrow> book_reach (load_names_file file g)"
| grant: "book_reach g \<Longrightarrow> book_reach (snd (grant_matches file g name address))"
| block: "book_reach g \<Longrightarrow> book_reach (fst (absorb_block_names g blk))"

lemma book_reach_inv: "book_reach g \<Longrightarrow> book_inv g"
  by (induction rule: book_reach.induct)
    (simp_all add: try_remember_inv load_names_file_inv grant_matches_inv absorb_block_names_inv,
     simp add: book_inv_def book_ok_def)

text \<open>C9: In every state the book can reach, through registrations, grants, names.json and the
  blocks of a replay, a name (in any letter case) and an address each have at most one record,
  and the records are well formed.\<close>

theorem book_bindings_unique:
  assumes "book_reach g" "r \<in> set g" "r' \<in> set g"
  shows "(fold_name (nm_name r) = fold_name (nm_name r') \<longrightarrow> r = r') \<and>
    (nm_address r = nm_address r' \<longrightarrow> r = r') \<and>
    valid_shortname (nm_name r) \<and> is_long_address (nm_address r)"
proof -
  have ok: "book_ok g" using book_reach_inv [OF assms(1)] by (simp add: book_inv_def)
  then have "valid_shortname (nm_name r) \<and> is_long_address (nm_address r)"
    using assms(2) by (auto simp: book_ok_def list_all_iff)
  with ok assms(2,3) book_name_unique book_address_unique show ?thesis by blast
qed

lemma demo_names_reach: "book_reach demo_names"
proof -
  have "reg_kind ''Alice'' = ''register''" by code_simp
  then have "try_remember [] ''Alice'' (demo_addr CHR ''a'') (reg_kind ''Alice'') [] False = demo_names"
    by (simp add: try_remember_def remember_name_def valid_shortname_def is_letter_def name_char_def
        in_range_def taken_by_other_def find_address_def find_name_def canonical_name_def demo_names_def)
  with book_reach.remember [OF book_reach.start] show ?thesis by metis
qed

lemma book_bindings_unique_witness:
  "valid_shortname ''Alice'' \<and> hd demo_names \<in> set demo_names"
  using book_bindings_unique [OF demo_names_reach, of "hd demo_names" "hd demo_names"]
  by (simp add: demo_names_def)

end
