(* ===== verification/Names_Files.thy ===== *)
theory Names_Files
  imports Names_Book Tx_Canon
begin

text \<open>
  The name book over time: what an operation without overwrite may change, what names.json
  restores after a restart, and how the book of the node that accepted a block can differ from
  the book rebuilt from that block.
\<close>

subsection \<open>Appending fresh records\<close>

lemma norm_address_long [simp]: "is_long_address a \<Longrightarrow> norm_address a = a"
proof -
  assume a: "is_long_address a"
  have "lower_hex_char c = c" if "in_range c CHR ''0'' CHR ''9'' \<or> in_range c CHR ''a'' CHR ''f''" for c
    using that by (auto simp: lower_hex_char_def in_range_def)
  with a have "lower_hex (drop 3 a) = drop 3 a"
    by (simp add: is_long_address_def lower_hex_map list_all_iff map_idI)
  moreover have "''ps1'' @ drop 3 a = a"
    using a append_take_drop_id [of 3 a] by (simp add: is_long_address_def)
  ultimately show ?thesis using a by (simp add: norm_address_def)
qed

lemma remember_append:
  assumes "book_ok (g @ [r])"
  shows "remember_name g (nm_name r) (nm_address r) k t ow =
    Inr (g @ [\<lparr>nm_name = nm_name r, nm_address = nm_address r, nm_kind = k, nm_txid = t\<rparr>])"
proof -
  from assms have "fold_name (nm_name r) \<notin> (\<lambda>rec. fold_name (nm_name rec)) ` set g"
    "nm_address r \<notin> nm_address ` set g"
    by (simp_all add: book_ok_def)
  then have "\<forall>rec \<in> set g. fold_name (nm_name rec) \<noteq> fold_name (nm_name r)"
    "\<forall>rec \<in> set g. nm_address rec \<noteq> nm_address r"
    by (metis (mono_tags, lifting) image_eqI)+
  then have f: "find_name g (nm_name r) = None" "find_address g (nm_address r) = None"
    by (simp_all add: find_name_None find_address_None)
  from assms f show ?thesis
    by (simp add: remember_name_def canonical_name_def book_ok_def taken_by_other_def)
qed

definition strip_txid :: "namerec \<Rightarrow> namerec" where
  "strip_txid r = r\<lparr>nm_txid := []\<rparr>"

lemma strip_simps [simp]:
  "nm_name (strip_txid r) = nm_name r" "nm_address (strip_txid r) = nm_address r"
  "nm_kind (strip_txid r) = nm_kind r"
  by (simp_all add: strip_txid_def)

lemma book_ok_maps:
  "book_ok g \<longleftrightarrow> distinct (map fold_name (map nm_name g)) \<and> distinct (map nm_address g) \<and>
     list_all valid_shortname (map nm_name g) \<and> list_all is_long_address (map nm_address g)"
  by (auto simp: book_ok_def list_all_iff comp_def)

lemma book_ok_cong:
  "map nm_name g = map nm_name h \<Longrightarrow> map nm_address g = map nm_address h \<Longrightarrow> book_ok g = book_ok h"
  by (simp only: book_ok_maps)

lemma book_ok_prefix: "book_ok (g @ rs) \<Longrightarrow> book_ok g"
  by (simp add: book_ok_def)

lemma absorb_reserved_row:
  assumes "book_ok (g @ [r])" "nm_kind r = ''reserved_bind''"
  shows "load_reserved_row g (reserved_row r) = Some (g @ [strip_txid r])"
proof -
  from assms(1) have "is_long_address (nm_address r)" by (simp add: book_ok_def)
  then have "load_reserved_row g (reserved_row r) =
      Some (try_remember g (nm_name r) (nm_address r) ''reserved_bind'' [] False)"
    by (simp add: load_reserved_row_def reserved_row_def absorb_name_record_def jstring_def row_kind_def
        value_string_def)
  with assms show ?thesis
    by (simp add: try_remember_def remember_append strip_txid_def)
qed

lemma absorb_name_row:
  assumes "book_ok (g @ [r])" "nm_kind r \<noteq> ''reserved_bind''" "kind_fits (nm_kind r) (nm_name r)"
  shows "absorb_name_record g (name_row r) False = Some (g @ [r])"
proof -
  from assms(1) have "is_long_address (nm_address r)" by (simp add: book_ok_def)
  then have "absorb_name_record g (name_row r) False =
      Some (try_remember g (nm_name r) (nm_address r) (reg_kind (nm_name r)) (nm_txid r) False)"
    by (simp add: name_row_def absorb_name_record_def jstring_def row_kind_def reg_kind_def
        value_string_def opt_txid_def)
  with assms show ?thesis
    by (simp add: try_remember_def remember_append kind_fits_def)
qed

lemma load_reserved_rows:
  "book_ok (g @ rs) \<Longrightarrow> list_all is_reserved_rec rs \<Longrightarrow>
   absorb_rows load_reserved_row (map reserved_row rs) g = (g @ map strip_txid rs, True)"
proof (induction rs arbitrary: g)
  case (Cons r rs)
  from Cons.prems have ok: "book_ok (g @ [r])" by (auto intro: book_ok_prefix [of "g @ [r]" rs])
  from Cons.prems(1) have "book_ok ((g @ [strip_txid r]) @ rs)"
    using book_ok_cong [of "g @ r # rs" "(g @ [strip_txid r]) @ rs"] by simp
  with Cons ok show ?case
    by (simp add: absorb_reserved_row is_reserved_rec_def)
qed simp

lemma load_name_rows:
  "book_ok (g @ rs) \<Longrightarrow> list_all (\<lambda>r. \<not> is_reserved_rec r \<and> kind_fits (nm_kind r) (nm_name r)) rs \<Longrightarrow>
   absorb_rows (\<lambda>g row. absorb_name_record g row False) (map name_row rs) g = (g @ rs, True)"
proof (induction rs arbitrary: g)
  case (Cons r rs)
  from Cons.prems have ok: "book_ok (g @ [r])" by (auto intro: book_ok_prefix [of "g @ [r]" rs])
  with Cons show ?case
    by (simp add: absorb_name_row is_reserved_rec_def)
qed simp

subsection \<open>names.json\<close>

definition reload_rec :: "namerec \<Rightarrow> namerec" where
  "reload_rec r = (if is_reserved_rec r then strip_txid r else r)"

lemma reload_rec_simps [simp]:
  "nm_name (reload_rec r) = nm_name r" "nm_address (reload_rec r) = nm_address r"
  "nm_kind (reload_rec r) = nm_kind r"
  by (simp_all add: reload_rec_def)

definition reloaded :: "book \<Rightarrow> book" where
  "reloaded g = map strip_txid (filter is_reserved_rec g) @ filter (\<lambda>r. \<not> is_reserved_rec r) g"

lemma book_ok_partition:
  assumes "book_ok g"
  shows "book_ok (filter is_reserved_rec g @ filter (\<lambda>r. \<not> is_reserved_rec r) g)"
  using assms
  by (auto simp: book_ok_def distinct_map_filter distinct_map inj_on_def list_all_iff)

lemma load_saved:
  assumes "book_inv g"
  shows "load_names_file (Some (save_names g)) [] = reloaded g"
proof -
  let ?rs = "filter is_reserved_rec g" and ?ns = "filter (\<lambda>r. \<not> is_reserved_rec r) g"
  from assms have ok: "book_ok (?rs @ ?ns)" by (simp add: book_inv_def book_ok_partition)
  have 1: "absorb_rows load_reserved_row (map reserved_row ?rs) [] = (map strip_txid ?rs, True)"
    using load_reserved_rows [of "[]" ?rs] book_ok_prefix [OF ok] by (simp add: list_all_iff)
  have "book_ok (map strip_txid ?rs @ ?ns)"
    using ok book_ok_cong [of "?rs @ ?ns" "map strip_txid ?rs @ ?ns"] by (simp add: comp_def)
  then have 2: "absorb_rows (\<lambda>g row. absorb_name_record g row False) (map name_row ?ns) (map strip_txid ?rs)
      = (map strip_txid ?rs @ ?ns, True)"
    by (rule load_name_rows) (use assms in \<open>auto simp: book_inv_def list_all_iff\<close>)
  show ?thesis
    by (simp add: load_names_file_def save_names_def jarray_def 1 2 reloaded_def)
qed

lemma reloaded_ok: "book_inv g \<Longrightarrow> book_ok (reloaded g)"
  using load_names_file_inv [of "[]" "Some (save_names g)"]
  by (simp add: load_saved book_inv_def book_ok_def [of "[]"])

lemma reloaded_members:
  "r \<in> set (reloaded g) \<longleftrightarrow> (\<exists>r' \<in> set g. r = reload_rec r')"
  by (auto simp: reloaded_def reload_rec_def)

lemma reloaded_find_name:
  assumes "book_inv g"
  shows "find_name (reloaded g) q = map_option reload_rec (find_name g q)"
proof (cases "find_name g q")
  case None
  then have "\<forall>r \<in> set g. fold_name (nm_name r) \<noteq> fold_name q" by (simp add: find_name_None)
  then have "find_name (reloaded g) q = None"
    by (auto simp: find_name_None reloaded_members)
  with None show ?thesis by simp
next
  case (Some r)
  then have r: "r \<in> set g" "fold_name (nm_name r) = fold_name q" by (auto dest: find_name_in)
  let ?r = "reload_rec r"
  from r have "?r \<in> set (reloaded g)" "fold_name (nm_name ?r) = fold_name q"
    by (auto simp: reloaded_members)
  with Some show ?thesis
    using find_name_member [OF reloaded_ok [OF assms], of ?r q] by simp
qed

lemma reloaded_find_address:
  assumes "book_inv g"
  shows "find_address (reloaded g) q = map_option reload_rec (find_address g q)"
proof (cases "find_address g q")
  case None
  then have "\<forall>r \<in> set g. nm_address r \<noteq> q" by (simp add: find_address_None)
  then have "find_address (reloaded g) q = None"
    unfolding find_address_None by (metis reloaded_members reload_rec_simps(2))
  with None show ?thesis by simp
next
  case (Some r)
  then have r: "r \<in> set g" "nm_address r = q" by (auto dest: find_address_in)
  let ?r = "reload_rec r"
  from r have "?r \<in> set (reloaded g)" "nm_address ?r = q"
    by (auto simp: reloaded_members)
  with Some show ?thesis
    using find_address_member [OF reloaded_ok [OF assms], of ?r q] by simp
qed

text \<open>A restart keeps the book: for every reachable book, loading the names.json that
  \<open>save_names\<close> wrote into an empty book answers every lookup, by name and by address, as before.\<close>

theorem names_file_round_trip:
  assumes "book_reach g"
  shows "lookup_name (load_names_file (Some (save_names g)) []) q = lookup_name g q \<and>
    lookup_ps1 (load_names_file (Some (save_names g)) []) a = lookup_ps1 g a"
  using book_reach_inv [OF assms]
  by (auto simp: load_saved lookup_name_def lookup_ps1_def reloaded_find_name reloaded_find_address
      option.map_comp comp_def)

lemma names_file_round_trip_witness:
  "lookup_name (load_names_file (Some (save_names demo_names)) []) ''Alice'' =
     Some (demo_addr CHR ''a'', ''Alice'', ''register'')"
  using names_file_round_trip [OF demo_names_reach, of "''Alice''" "[]"]
  by (simp add: lookup_name_def find_name_def demo_names_def)

subsection \<open>First come, first served\<close>

lemma try_remember_keeps:
  assumes "find_name g q = Some r"
  shows "\<exists>r'. find_name (try_remember g name address kind txid False) q = Some r' \<and> nm_address r' = nm_address r"
proof (cases "remember_name g name address kind txid False")
  case (Inr g')
  show ?thesis
  proof (cases "fold_name q = fold_name name")
    case True
    then have q: "find_name h q = find_name h name" for h by (simp add: find_name_def)
    with assms Inr have "nm_address r = address"
      by (auto simp: remember_name_def canonical_name_def Let_def split: if_splits)
    with remember_find(2) [OF Inr] Inr show ?thesis by (simp add: try_remember_def q)
  next
    case False
    with remember_find(1) [OF Inr] Inr assms show ?thesis by (simp add: try_remember_def)
  qed
qed (use assms in \<open>simp add: try_remember_def\<close>)

lemma absorb_keeps:
  assumes "find_name g q = Some r" "absorb_name_record g row False = Some g'"
  shows "\<exists>r'. find_name g' q = Some r' \<and> nm_address r' = nm_address r"
  using assms try_remember_keeps [OF assms(1)]
  by (auto simp: absorb_name_record_def Let_def split: if_splits option.splits)

lemma absorb_rows_keep:
  assumes "\<And>g r row g'. find_name g q = Some r \<Longrightarrow> step g row = Some g' \<Longrightarrow>
     \<exists>r'. find_name g' q = Some r' \<and> nm_address r' = nm_address r"
  shows "find_name g q = Some r \<Longrightarrow>
    \<exists>r'. find_name (fst (absorb_rows step rows g)) q = Some r' \<and> nm_address r' = nm_address r"
proof (induction rows arbitrary: g r)
  case (Cons row rows)
  show ?case
  proof (cases "step g row")
    case (Some g')
    with assms [OF Cons.prems] obtain r1 where "find_name g' q = Some r1" "nm_address r1 = nm_address r"
      by blast
    with Cons.IH [of g' r1] Some show ?thesis by simp
  qed (use Cons.prems in simp)
qed simp

lemma load_keeps:
  assumes "find_name g q = Some r"
  shows "\<exists>r'. find_name (load_names_file file g) q = Some r' \<and> nm_address r' = nm_address r"
proof -
  have row: "\<exists>r'. find_name g' q = Some r' \<and> nm_address r' = nm_address r"
    if "find_name g q = Some r" "load_reserved_row g row = Some g'" for g r row g'
    using that by (auto simp: load_reserved_row_def absorb_keeps split: option.splits)
  have 1: "find_name h q = Some s \<Longrightarrow> \<exists>r'. find_name (fst (absorb_rows load_reserved_row rows h)) q = Some r' \<and>
      nm_address r' = nm_address s" for rows h s
    by (rule absorb_rows_keep [OF row])
  have 2: "find_name h q = Some s \<Longrightarrow> \<exists>r'. find_name (fst (absorb_rows (\<lambda>g row. absorb_name_record g row False) rows h)) q
      = Some r' \<and> nm_address r' = nm_address s" for rows h s
    by (rule absorb_rows_keep [OF absorb_keeps])
  let ?p = "case file of None \<Rightarrow> (g, True) | Some doc \<Rightarrow>
      (case jarray doc ''reserved_bind'' of None \<Rightarrow> (g, True) | Some rows \<Rightarrow> absorb_rows load_reserved_row rows g)"
  have "fst ?p = g \<or> (\<exists>rows. fst ?p = fst (absorb_rows load_reserved_row rows g))"
    by (auto split: option.splits)
  then obtain r1 where r1: "find_name (fst ?p) q = Some r1" "nm_address r1 = nm_address r"
    using assms 1 [OF assms] by (elim disjE exE) (metis (no_types, lifting))+
  have "load_names_file file g = fst ?p \<or>
      (\<exists>rows. load_names_file file g = fst (absorb_rows (\<lambda>g row. absorb_name_record g row False) rows (fst ?p)))"
    by (auto simp: load_names_file_def Let_def split: option.splits prod.splits)
  with r1 2 [OF r1(1)] show ?thesis by metis
qed

text \<open>C10: Names are first come, first served: registrations without overwrite, grants of
  reserved names and names.json never move a name that is bound to another address.\<close>

theorem names_never_move:
  assumes "lookup_name g q = Some (addr, shown, kind)"
  shows "map_option fst (lookup_name (try_remember g name address k txid False) q) = Some addr \<and>
    map_option fst (lookup_name (load_names_file file g) q) = Some addr \<and>
    map_option fst (lookup_name (snd (grant_matches file g name address)) q) = Some addr"
proof -
  from assms obtain r where r: "find_name g q = Some r" "nm_address r = addr"
    by (auto simp: lookup_name_def)
  have l: "map_option fst (lookup_name h q) = Some addr"
    if "\<exists>r'. find_name h q = Some r' \<and> nm_address r' = nm_address r" for h
    using that r(2) by (auto simp: lookup_name_def)
  have "snd (grant_matches file g name address) = g \<or>
      snd (grant_matches file g name address) = try_remember g name address ''reserved_bind'' [] False"
    by (auto simp: grant_matches_def split: option.splits)
  then have "\<exists>r'. find_name (snd (grant_matches file g name address)) q = Some r' \<and> nm_address r' = nm_address r"
    using r(1) try_remember_keeps [OF r(1)] by (elim disjE) simp_all
  with l try_remember_keeps [OF r(1)] load_keeps [OF r(1)] show ?thesis by simp
qed

lemma names_never_move_witness:
  "map_option fst (lookup_name (try_remember demo_names ''alice'' (demo_addr CHR ''b'') ''register'' [] False) ''Alice'')
     = Some (demo_addr CHR ''a'')"
proof -
  have "lookup_name demo_names ''Alice'' = Some (demo_addr CHR ''a'', ''Alice'', ''register'')"
    by (simp add: lookup_name_def find_name_def demo_names_def)
  from names_never_move [OF this, of "''alice''" "demo_addr CHR ''b''" "''register''" "[]" None]
  show ?thesis by simp
qed

subsection \<open>Two registrations of one name in a block\<close>

definition plain_register :: "tx \<Rightarrow> string \<Rightarrow> string \<Rightarrow> bool" where
  "plain_register t n a \<longleftrightarrow> tx_reg t \<and> tx_flag_kind t = Flag_None \<and> tx_name t = n \<and> tx_reg_address t = a \<and>
     tx_txid t \<noteq> []"

definition names_block :: "book \<Rightarrow> tx list \<Rightarrow> json" where
  "names_block g txs = JObject [(''txs'', JArray (map tx_to_json txs)), (''names'', snapshot_including g txs)]"

lemma absorb_tx_register:
  assumes "plain_register t n a" "is_long_address a"
  shows "absorb_tx_row g (tx_to_json t) =
    Some (try_remember g n a (reg_kind n) (to_hex (tx_txid t)) True)"
  using assms
  by (simp add: absorb_tx_row_def plain_register_def tx_to_json_def value_string_def absorb_name_record_def
      jstring_def row_kind_def reg_kind_def)

text \<open>When one block registers a name twice, the node that mined it and every node that
  replays it disagree: the live update gives the name to the first transaction, the replay of
  the stored block to the last.\<close>

theorem registration_race:
  assumes "valid_shortname n" "is_long_address a" "is_long_address b" "a \<noteq> b"
    "plain_register t1 n a" "plain_register t2 n b"
  shows "map_option fst (lookup_name (fold (register_tx True) [t1, t2] []) n) = Some a \<and>
    map_option fst (lookup_name (fst (absorb_block_names [] (names_block [] [t1, t2]))) n) = Some b"
proof -
  let ?r = "\<lambda>x t. \<lparr>nm_name = n, nm_address = x, nm_kind = reg_kind n, nm_txid = to_hex (tx_txid t)\<rparr>"
  have "to_hex d \<noteq> []" if "d \<noteq> []" for d
    using that length_to_hex [of d] by (metis length_0_conv mult_is_0 zero_neq_numeral)
  with assms(5,6) have t: "to_hex (tx_txid t1) \<noteq> []" "to_hex (tx_txid t2) \<noteq> []" "reg_kind n \<noteq> []"
    by (auto simp: plain_register_def reg_kind_def)
  note unf = try_remember_def remember_name_def canonical_name_def taken_by_other_def find_name_def
    find_address_def set_name_def refresh_def
  have live: "fold (register_tx True) [t1, t2] [] = [?r a t1]"
    using assms by (simp add: register_tx_def plain_register_def unf)
  have rows: "absorb_rows absorb_tx_row [tx_to_json t1, tx_to_json t2] [] = ([?r b t2], True)"
    using assms(1-4) by (simp add: absorb_tx_register [OF assms(5)] absorb_tx_register [OF assms(6)] unf)
  have snap: "snapshot_including [] [t1, t2] =
      JArray [JObject [(''name'', JString n), (''address'', JString b), (''kind'', JString (reg_kind n)),
                       (''txid'', JString (to_hex (tx_txid t2)))]]"
    using assms(5,6) t
    by (simp add: snapshot_including_def name_snapshot_unlocked_def include_reg_def plain_register_def
        reg_rec_def canonical_name_def opt_txid_def)
  have kind: "row_kind (JObject [(''name'', JString n), (''address'', JString b), (''kind'', JString (reg_kind n)),
                       (''txid'', JString (to_hex (tx_txid t2)))]) n = reg_kind n"
    by (simp add: row_kind_def reg_kind_def jstring_def)
  have row: "absorb_name_record [?r b t2] (JObject [(''name'', JString n), (''address'', JString b),
      (''kind'', JString (reg_kind n)), (''txid'', JString (to_hex (tx_txid t2)))]) True = Some [?r b t2]"
    using assms(1,3) t by (simp add: absorb_name_record_def kind jstring_def value_string_def unf Let_def)
  have "absorb_block_names [] (names_block [] [t1, t2]) = ([?r b t2], True)"
    unfolding absorb_block_names_def names_block_def jarray_def snap
    using rows by (simp add: row del: absorb_rows.simps(2)) (simp add: row)
  with live show ?thesis by (simp add: lookup_name_def find_name_def)
qed

lemma registration_race_witness:
  "map_option fst (lookup_name (fold (register_tx True)
     [tx_default\<lparr>tx_reg := True, tx_name := ''bob'', tx_reg_address := demo_addr CHR ''a''\<rparr>,
      tx_default\<lparr>tx_reg := True, tx_name := ''bob'', tx_reg_address := demo_addr CHR ''b''\<rparr>] []) ''bob'')
   = Some (demo_addr CHR ''a'')"
proof -
  have "valid_shortname ''bob''"
    by (simp add: valid_shortname_def is_letter_def name_char_def in_range_def)
  from registration_race [OF this, of "demo_addr CHR ''a''" "demo_addr CHR ''b''"
      "tx_default\<lparr>tx_reg := True, tx_name := ''bob'', tx_reg_address := demo_addr CHR ''a''\<rparr>"
      "tx_default\<lparr>tx_reg := True, tx_name := ''bob'', tx_reg_address := demo_addr CHR ''b''\<rparr>"]
  show ?thesis by (simp add: plain_register_def tx_default_def zero256_def)
qed

end
