(* ===== verification/Challenge.thy ===== *)
theory Challenge
  imports Storage Bytes
begin

text \<open>
  Hardware-proof challenges (chain_rpc.cpp): the two tables \<open>g_challenges\<close> (challenge to the
  tip it was issued for) and \<open>g_outstanding\<close> (tip, Merkle root and miner to challenge), the
  operations on them, and the checks on the text fields of a hardware proof. The result of
  \<open>RAND_bytes\<close> is an argument: \<open>None\<close> when it fails.
\<close>

record challenges =
  ch_tips :: "(string, string) table"
  ch_outstanding :: "(string, string) table"

definition no_challenges :: challenges where
  "no_challenges = \<lparr>ch_tips = [], ch_outstanding = []\<rparr>"

definition starts_with :: "string \<Rightarrow> string \<Rightarrow> bool" where
  "starts_with pre s \<longleftrightarrow> take (length pre) s = pre"

definition forget_tip_locked :: "string \<Rightarrow> challenges \<Rightarrow> challenges" where
  "forget_tip_locked tip st =
     \<lparr>ch_tips = filter (\<lambda>(hex, t). t \<noteq> tip) (ch_tips st),
      ch_outstanding = filter (\<lambda>(key, hex). \<not> starts_with (tip @ ''|'') key) (ch_outstanding st)\<rparr>"

definition challenge_for_template ::
  "string \<Rightarrow> string \<Rightarrow> string \<Rightarrow> h256 option \<Rightarrow> challenges \<Rightarrow> string \<times> challenges" where
  "challenge_for_template tip merkle miner rnd st =
     (let key = tip @ ''|'' @ merkle @ ''|'' @ miner in
      case tbl_get (ch_outstanding st) key of
        Some found \<Rightarrow> (found, st)
      | None \<Rightarrow>
          (case rnd of
             None \<Rightarrow> ([], st)
           | Some raw \<Rightarrow>
               let hex = to_hex raw in
               (hex, \<lparr>ch_tips = tbl_put (ch_tips st) hex tip,
                      ch_outstanding = tbl_put (ch_outstanding st) key hex\<rparr>)))"

definition challenge_was_issued :: "string \<Rightarrow> string \<Rightarrow> challenges \<Rightarrow> bool" where
  "challenge_was_issued hex tip st \<longleftrightarrow> tbl_get (ch_tips st) hex = Some tip"

definition retire_challenge :: "string \<Rightarrow> challenges \<Rightarrow> challenges" where
  "retire_challenge hex st =
     (case tbl_get (ch_tips st) hex of None \<Rightarrow> st | Some tip \<Rightarrow> forget_tip_locked tip st)"

subsection \<open>Text fields\<close>

definition contains_text :: "string \<Rightarrow> string \<Rightarrow> bool" where
  "contains_text s pat \<longleftrightarrow> list_ex (\<lambda>i. starts_with pat (drop i s)) [0..<Suc (length s)]"

definition official_pi_model :: "string \<Rightarrow> bool" where
  "official_pi_model model \<longleftrightarrow>
     (if model = [] \<or> length model > 128 then False
      else if contains_text model ''Zero'' then False
      else list_ex (\<lambda>p. starts_with p model)
             [''Raspberry Pi 2'', ''Raspberry Pi 3'', ''Raspberry Pi 4'', ''Raspberry Pi 5''])"

definition pi_serial_text :: "string \<Rightarrow> bool" where
  "pi_serial_text serial \<longleftrightarrow>
     (if serial = [] \<or> length serial > 64 then False
      else list_all (\<lambda>c. c \<noteq> CHR 0x00 \<and>
             (in_range c CHR ''0'' CHR ''9'' \<or> in_range c CHR ''a'' CHR ''f'' \<or> in_range c CHR ''A'' CHR ''F''))
             serial)"

definition address_filename :: "string \<Rightarrow> bool" where
  "address_filename address \<longleftrightarrow>
     (if address = [] \<or> length address > 128 then False
      else list_all (\<lambda>c. in_range c CHR ''a'' CHR ''z'' \<or> in_range c CHR ''A'' CHR ''Z'' \<or>
             in_range c CHR ''0'' CHR ''9'' \<or> c = CHR ''.'' \<or> c = CHR ''_'' \<or> c = CHR ''-'') address)"

subsection \<open>The tables hang together\<close>

lemma map_of_filter_distinct:
  "distinct (map fst t) \<Longrightarrow>
   map_of (filter P t) k = (case map_of t k of None \<Rightarrow> None | Some v \<Rightarrow> if P (k, v) then Some v else None)"
proof (induction t)
  case (Cons kv t)
  then have "map_of t (fst kv) = None" by (simp add: map_of_eq_None_iff)
  with Cons show ?case by (cases kv) (auto split: option.splits)
qed simp

lemma map_of_filter_key:
  "map_of (filter (\<lambda>(k, v). Q k) t) k = (if Q k then map_of t k else None)"
  by (induction t) auto

lemma starts_with_append [simp]: "starts_with p (p @ s)"
  by (simp add: starts_with_def)

text \<open>A tip is printed in hexadecimal, so the bar after it ends it.\<close>

definition tip_text :: "string \<Rightarrow> bool" where
  "tip_text tip \<longleftrightarrow> CHR ''|'' \<notin> set tip"

lemma hexd_no_bar: "n < 16 \<Longrightarrow> hexd ! n \<noteq> CHR ''|''"
proof -
  have "\<forall>n < 16. hexd ! n \<noteq> CHR ''|''" by code_simp
  then show "n < 16 \<Longrightarrow> hexd ! n \<noteq> CHR ''|''" by blast
qed

lemma tip_text_to_hex [simp]: "tip_text (to_hex d)"
  by (induction d)
    (auto simp: tip_text_def hex_of_byte_def hexd_no_bar nibble_bounds [simplified] dest: sym)

lemma tip_text_cancel:
  "tip_text s \<Longrightarrow> tip_text t \<Longrightarrow> s @ CHR ''|'' # r = t @ CHR ''|'' # r' \<Longrightarrow> s = t"
proof (induction s arbitrary: t)
  case Nil
  then show ?case by (cases t) (auto simp: tip_text_def)
next
  case (Cons c s)
  then show ?case by (cases t) (auto simp: tip_text_def)
qed

lemma starts_with_tip:
  assumes "tip_text s" "tip_text t"
  shows "starts_with (s @ ''|'') (t @ CHR ''|'' # r) \<longleftrightarrow> s = t"
proof
  assume "starts_with (s @ ''|'') (t @ CHR ''|'' # r)"
  then have "t @ CHR ''|'' # r = (s @ ''|'') @ drop (length (s @ ''|'')) (t @ CHR ''|'' # r)"
    by (metis append_take_drop_id starts_with_def)
  then show "s = t" using assms tip_text_cancel by (metis append.assoc append_Cons append_Nil)
qed (simp add: starts_with_def)

definition key_of :: "string \<Rightarrow> string \<Rightarrow> string" where
  "key_of tip rest = tip @ CHR ''|'' # rest"

definition ch_inv :: "challenges \<Rightarrow> bool" where
  "ch_inv st \<longleftrightarrow> distinct (map fst (ch_tips st)) \<and> distinct (map fst (ch_outstanding st)) \<and>
     (\<forall>hex tip. tbl_get (ch_tips st) hex = Some tip \<longrightarrow> tip_text tip) \<and>
     (\<forall>key hex. tbl_get (ch_outstanding st) key = Some hex \<longrightarrow>
        (\<exists>tip rest. key = key_of tip rest \<and> tbl_get (ch_tips st) hex = Some tip))"

lemma ch_inv_tip: "ch_inv st \<Longrightarrow> tbl_get (ch_tips st) hex = Some tip \<Longrightarrow> tip_text tip"
  unfolding ch_inv_def by blast

lemma ch_inv_outstanding:
  assumes "ch_inv st" "tbl_get (ch_outstanding st) key = Some hex"
  obtains tip rest where "key = key_of tip rest" "tbl_get (ch_tips st) hex = Some tip"
  using assms unfolding ch_inv_def by blast

text \<open>The daemon's steps: a poll for a template, whose random bytes are not those of a
  challenge in use, and the retirement of a challenge.\<close>

inductive ch_reach :: "challenges \<Rightarrow> bool" where
  start: "ch_reach no_challenges"
| poll: "ch_reach st \<Longrightarrow> rnd = None \<or> (\<exists>raw. rnd = Some raw \<and> tbl_get (ch_tips st) (to_hex raw) = None) \<Longrightarrow>
    ch_reach (snd (challenge_for_template (to_hex tip) merkle miner rnd st))"
| retire: "ch_reach st \<Longrightarrow> ch_reach (retire_challenge hex st)"

inductive_cases ch_reachE: "ch_reach st"

lemma get_tips_forget:
  "ch_inv st \<Longrightarrow> tbl_get (ch_tips (forget_tip_locked tip st)) hex =
     (case tbl_get (ch_tips st) hex of None \<Rightarrow> None | Some t \<Rightarrow> if t \<noteq> tip then Some t else None)"
  by (simp add: forget_tip_locked_def tbl_get_def ch_inv_def map_of_filter_distinct split: option.splits)

lemma get_outstanding_forget:
  "tbl_get (ch_outstanding (forget_tip_locked tip st)) key =
     (if starts_with (tip @ ''|'') key then None else tbl_get (ch_outstanding st) key)"
  by (simp add: forget_tip_locked_def tbl_get_def map_of_filter_key)

lemma forget_inv:
  assumes inv: "ch_inv st" and t: "tip_text tip"
  shows "ch_inv (forget_tip_locked tip st)"
proof -
  have "\<exists>t r. key = key_of t r \<and> tbl_get (ch_tips (forget_tip_locked tip st)) hex = Some t"
    if k: "tbl_get (ch_outstanding (forget_tip_locked tip st)) key = Some hex" for key hex
  proof -
    from k have k': "tbl_get (ch_outstanding st) key = Some hex" "\<not> starts_with (tip @ ''|'') key"
      by (auto simp: get_outstanding_forget split: if_splits)
    with inv obtain t' r where r: "key = key_of t' r" "tbl_get (ch_tips st) hex = Some t'"
      by (elim ch_inv_outstanding)
    with inv have "tip_text t'" by (blast intro: ch_inv_tip)
    with k'(2) r(1) t have "t' \<noteq> tip" by (auto simp: key_of_def starts_with_tip)
    with r inv show ?thesis by (auto simp: get_tips_forget)
  qed
  moreover have "tip_text t'" if "tbl_get (ch_tips (forget_tip_locked tip st)) hex = Some t'" for hex t'
    using that inv by (auto simp: get_tips_forget ch_inv_def split: option.splits if_splits)
  moreover have "distinct (map fst (ch_tips (forget_tip_locked tip st)))"
    "distinct (map fst (ch_outstanding (forget_tip_locked tip st)))"
    using inv by (simp_all add: forget_tip_locked_def ch_inv_def distinct_map_filter)
  ultimately show ?thesis by (simp add: ch_inv_def)
qed

lemma retire_inv: "ch_inv st \<Longrightarrow> ch_inv (retire_challenge hex st)"
proof (cases "tbl_get (ch_tips st) hex")
  case (Some tip)
  moreover assume inv: "ch_inv st"
  ultimately have "tip_text tip" by (auto simp: ch_inv_def)
  with inv Some show ?thesis by (simp add: retire_challenge_def forget_inv)
qed (simp add: retire_challenge_def)

lemma poll_inv:
  assumes inv: "ch_inv st" and t: "tip_text tip"
    and fresh: "\<And>raw. rnd = Some raw \<Longrightarrow> tbl_get (ch_tips st) (to_hex raw) = None"
  shows "ch_inv (snd (challenge_for_template tip merkle miner rnd st))"
proof (cases "tbl_get (ch_outstanding st) (key_of tip (merkle @ ''|'' @ miner))")
  case (Some found)
  with inv show ?thesis by (simp add: challenge_for_template_def key_of_def)
next
  case None
  then have n: "tbl_get (ch_outstanding st) (tip @ ''|'' @ merkle @ ''|'' @ miner) = None"
    by (simp add: key_of_def)
  show ?thesis
  proof (cases rnd)
    case None
    with n inv show ?thesis by (simp add: challenge_for_template_def)
  next
    case (Some raw)
    let ?key = "tip @ ''|'' @ merkle @ ''|'' @ miner"
    have st': "snd (challenge_for_template tip merkle miner rnd st) =
        \<lparr>ch_tips = tbl_put (ch_tips st) (to_hex raw) tip,
         ch_outstanding = tbl_put (ch_outstanding st) ?key (to_hex raw)\<rparr>"
      using n Some by (simp add: challenge_for_template_def Let_def)
    have "\<exists>t r. ?key = key_of t r \<and> tip = t"
      by (auto simp: key_of_def)
    moreover have "distinct (map fst (tbl_put t k v))" if "distinct (map fst t)" for t :: "(string, string) table" and k v
      using that by (simp add: tbl_put_def distinct_update)
    moreover have "hex \<noteq> to_hex raw" if "tbl_get (ch_outstanding st) key = Some hex" for key hex
      using that inv fresh [OF Some] by (auto elim: ch_inv_outstanding)
    ultimately show ?thesis
      using inv t unfolding st' ch_inv_def by (auto simp: tbl.get_put)
  qed
qed

lemma ch_reach_inv: "ch_reach st \<Longrightarrow> ch_inv st"
proof (induction rule: ch_reach.induct)
  case start
  then show ?case by (simp add: ch_inv_def no_challenges_def tbl_get_def)
next
  case (poll st rnd tip merkle miner)
  then show ?case by (auto intro!: poll_inv)
next
  case (retire st hex)
  then show ?case by (simp add: retire_inv)
qed

text \<open>The life of a challenge. In every reachable state a poll returns a challenge that is
  valid for exactly the polled tip, polling again returns the same one and draws nothing, and
  retiring it invalidates every challenge of that tip, of other miners and templates too, while
  those of other tips stay.\<close>

theorem challenge_lifecycle:
  assumes "ch_reach st" "tip = to_hex t" "tbl_get (ch_tips st) (to_hex raw) = None"
    "challenge_for_template tip merkle miner (Some raw) st = (hex, st')"
  shows "(challenge_was_issued hex tip' st' \<longleftrightarrow> tip' = tip) \<and>
    challenge_for_template tip merkle miner rnd st' = (hex, st') \<and>
    \<not> challenge_was_issued hex' tip (retire_challenge hex st') \<and>
    (tip' \<noteq> tip \<longrightarrow> challenge_was_issued hex' tip' (retire_challenge hex st') = challenge_was_issued hex' tip' st')"
proof -
  let ?key = "tip @ ''|'' @ merkle @ ''|'' @ miner"
  have "ch_reach (snd (challenge_for_template (to_hex t) merkle miner (Some raw) st))"
    using assms(1,3) by (auto intro: ch_reach.poll)
  with assms(2,4) have inv': "ch_inv st'" by (simp add: ch_reach_inv)
  have inv: "ch_inv st" using assms(1) by (rule ch_reach_inv)
  have out: "tbl_get (ch_outstanding st') ?key = Some hex"
    using assms(4) by (auto simp: challenge_for_template_def Let_def tbl.get_put split: option.splits)
  with inv' obtain tip2 rest where k: "?key = key_of tip2 rest" "tbl_get (ch_tips st') hex = Some tip2"
    by (elim ch_inv_outstanding)
  with inv' have "tip_text tip2" by (blast intro: ch_inv_tip)
  with k(1) assms(2) have "tip2 = tip"
    using tip_text_cancel [of tip2 tip rest "merkle @ ''|'' @ miner"] by (simp add: key_of_def)
  with k(2) have tip: "tbl_get (ch_tips st') hex = Some tip" by simp
  with out inv' show ?thesis
    by (auto simp: challenge_was_issued_def challenge_for_template_def Let_def retire_challenge_def
        get_tips_forget split: option.splits)
qed

lemma challenge_lifecycle_witness:
  "challenge_was_issued (to_hex [7]) (to_hex [1])
     (snd (challenge_for_template (to_hex [1]) ''m'' ''w'' (Some [7]) no_challenges))"
  using challenge_lifecycle [OF ch_reach.start refl, of "[7]" "[1]" "''m''" "''w''" "to_hex [7]"
      "snd (challenge_for_template (to_hex [1]) ''m'' ''w'' (Some [7]) no_challenges)" "to_hex [1]"]
  by (simp add: no_challenges_def tbl_get_def challenge_for_template_def Let_def)

end
