(* ===== verification/Difficulty.thy ===== *)
theory Difficulty
  imports Retarget Emission Storage
begin

text \<open>
  The difficulty of the next block (chain_rpc.cpp), computed from the header tables of the
  storage: the one-step rule of the first chain, which the activation height has made dead
  code, and the ten-block window.
\<close>

definition kMinDifficultyBits :: u32 where "kMinDifficultyBits = 2"
definition kMaxDifficultyBits :: u32 where "kMaxDifficultyBits = 4"
definition kInitialDifficultyBits :: u32 where "kInitialDifficultyBits = 4"
definition kTargetBlockSeconds :: u32 where "kTargetBlockSeconds = 60"

definition clamp_difficulty :: "u32 \<Rightarrow> u32" where
  "clamp_difficulty bits =
     (if bits < kMinDifficultyBits then kMinDifficultyBits
      else if bits > kMaxDifficultyBits then kMaxDifficultyBits else bits)"

definition next_difficulty_legacy :: "storage \<Rightarrow> u32" where
  "next_difficulty_legacy st =
     (if \<not> has_tip st then kInitialDifficultyBits
      else
        let tip_bits = tip_difficulty st;
            diff = clamp_difficulty (if tip_bits = 0 then kInitialDifficultyBits else tip_bits) in
        (case get_header_by_hash st (st_best_hash st) of
           None \<Rightarrow> diff
         | Some tip \<Rightarrow>
             if bh_height tip < 2 then diff
             else
               (case get_header_by_height st (bh_height tip - 1) of
                  None \<Rightarrow> diff
                | Some parent \<Rightarrow>
                    if bh_timestamp tip \<le> bh_timestamp parent then diff
                    else
                      let interval = bh_timestamp tip - bh_timestamp parent in
                      if interval < ucast kTargetBlockSeconds \<and> diff < kMaxDifficultyBits then diff + 1
                      else if interval > ucast kTargetBlockSeconds \<and> diff > kMinDifficultyBits then diff - 1
                      else diff)))"

definition window_bits :: "storage \<Rightarrow> u32" where
  "window_bits st =
     (let tip_bits = tip_difficulty st;
          bits = (if tip_bits = 0 then kInitialDifficultyBits else tip_bits);
          bits = (if bits < kRetargetMinBits then kRetargetMinBits else bits)
      in if bits > kRetargetMaxBits then kRetargetMaxBits else bits)"

definition next_difficulty_window :: "storage \<Rightarrow> u32" where
  "next_difficulty_window st =
     (if \<not> has_tip st then kInitialDifficultyBits
      else
        let bits = window_bits st in
        (case get_header_by_hash st (st_best_hash st) of
           None \<Rightarrow> bits
         | Some tip \<Rightarrow>
             if bh_height tip < 10 then bits
             else
               (case get_header_by_height st (bh_height tip - 9) of
                  None \<Rightarrow> bits
                | Some older \<Rightarrow>
                    let elapsed = bh_timestamp tip - bh_timestamp older in
                    retarget_difficulty_bits bits elapsed)))"

definition next_height_of :: "storage \<Rightarrow> u32" where
  "next_height_of st = (if has_tip st then st_best_height st + 1 else 1)"

definition next_difficulty :: "storage \<Rightarrow> u32" where
  "next_difficulty st =
     (if next_height_of st < kDifficultyActivationHeight then next_difficulty_legacy st
      else next_difficulty_window st)"

text \<open>The next difficulty is always between 2 and 24 bits, whatever the stored headers say;
  it is at most two bits away from the tip's difficulty brought into that band, equal to it below
  height ten, and 4 bits for the first block. The old one-step rule is never used, except that the
  32-bit next height wraps to zero on top of height 2^32 - 1.\<close>

theorem next_difficulty_band:
  assumes "st_best_height st \<noteq> - 1"
  shows "unat (next_difficulty st) \<in> {2..24} \<and>
    next_difficulty st = next_difficulty_window st \<and>
    (\<not> has_tip st \<longrightarrow> next_difficulty st = 4) \<and>
    (has_tip st \<longrightarrow> \<bar>int (unat (next_difficulty st)) - int (clamp_bits (window_bits st))\<bar> \<le> 2) \<and>
    (has_tip st \<and> (\<forall>tip. get_header_by_hash st (st_best_hash st) = Some tip \<longrightarrow> bh_height tip < 10) \<longrightarrow>
       next_difficulty st = window_bits st)"
proof -
  have "next_height_of st \<noteq> 0"
    using assms by (auto simp: next_height_of_def add_eq_0_iff2)
  then have "\<not> next_height_of st < kDifficultyActivationHeight"
    by (simp add: kDifficultyActivationHeight_def word_less_nat_alt unat_eq_zero)
  then have w: "next_difficulty st = next_difficulty_window st"
    by (simp add: next_difficulty_def)
  have bits: "2 \<le> unat (window_bits st)" "unat (window_bits st) \<le> 24"
    by (auto simp: window_bits_def Let_def kRetargetMinBits_def kRetargetMaxBits_def kInitialDifficultyBits_def
        word_less_nat_alt)
  then have same: "clamp_bits (window_bits st) = unat (window_bits st)"
    by (simp add: clamp_bits_def)
  show ?thesis
  proof (cases "has_tip st")
    case False
    then show ?thesis by (simp add: w next_difficulty_window_def kInitialDifficultyBits_def)
  next
    case True
    then have "next_difficulty_window st = window_bits st \<or>
        (\<exists>e. next_difficulty_window st = retarget_difficulty_bits (window_bits st) e)"
      by (auto simp: next_difficulty_window_def Let_def split: option.splits)
    then have "unat (next_difficulty_window st) \<in> {2..24} \<and>
        \<bar>int (unat (next_difficulty_window st)) - int (clamp_bits (window_bits st))\<bar> \<le> 2"
    proof (elim disjE exE)
      fix e assume e: "next_difficulty_window st = retarget_difficulty_bits (window_bits st) e"
      have "\<bar>int (unat (retarget_difficulty_bits (window_bits st) e)) - int (clamp_bits (window_bits st))\<bar> \<le> 2"
        using retarget_within_two [of "window_bits st" e] by linarith
      with retarget_range show ?thesis by (simp only: e)
    qed (use bits in \<open>simp add: same\<close>)
    moreover have "next_difficulty_window st = window_bits st"
      if "\<forall>tip. get_header_by_hash st (st_best_hash st) = Some tip \<longrightarrow> bh_height tip < 10"
      using True that by (auto simp: next_difficulty_window_def Let_def split: option.splits)
    ultimately show ?thesis using True by (simp add: w)
  qed
qed

lemma next_difficulty_band_witness: "next_difficulty (storage_new []) = 4"
proof -
  have "st_best_height (storage_new []) \<noteq> - 1" "\<not> has_tip (storage_new [])"
    by (simp_all add: storage_new_def has_tip_def)
  with next_difficulty_band [of "storage_new []"] show ?thesis by blast
qed

end
