(* ===== verification/Spend.thy ===== *)
theory Spend
  imports Names Flags Challenge Emission
begin

text \<open>
  What a transaction has to satisfy before it is accepted (chain_rpc.cpp): its inputs exist and
  cover its outputs, every input is signed by the owner of the coin, a name registration is
  made by the address that pays, and a flag transaction moves the escrow it announces. Used by
  \<open>sendtransaction\<close>, \<open>submitblock\<close> and the mempool replay.

  \<open>env\<close> holds what is outside src/: OpenSSL's SHA-256 and Ed25519 verification, the JSON parser
  and printer and its conversion of a floating point number to an integer, the files read from the
  data directory, whether a block file can be opened for writing, and the clock. A check is a
  \<open>unit res\<close>: \<open>Inl\<close> the reason it fails with, \<open>Inr ()\<close> when it passes.
\<close>

record env =
  ev_sha :: "bytes \<Rightarrow> h256"
  ev_evp :: "bytes \<Rightarrow> bytes \<Rightarrow> string \<Rightarrow> bool"
  ev_parse :: "string \<Rightarrow> json option"
  ev_dump :: "json \<Rightarrow> string"
  ev_wallet :: "string \<Rightarrow> json option"
  ev_names_file :: "json option"
  ev_now :: u64
  ev_opened :: bool
  ev_float :: "string \<Rightarrow> u64"

fun check_all :: "('a \<Rightarrow> unit res) \<Rightarrow> 'a list \<Rightarrow> unit res" where
  "check_all f [] = Inr ()"
| "check_all f (x # xs) = (case f x of Inl r \<Rightarrow> Inl r | Inr _ \<Rightarrow> check_all f xs)"

lemma check_all_Inr [simp]: "check_all f xs = Inr () \<longleftrightarrow> (\<forall>x \<in> set xs. f x = Inr ())"
  by (induction xs) (auto split: sum.splits)

subsection \<open>Coins\<close>

text \<open>
  A coin is looked up in the UTXO set, then among the outputs of the transactions that come
  before in the block (\<open>prior\<close>; a null pointer is the empty list). The result is its value,
  owner and the height it is from.
\<close>

definition prior_output :: "tx list \<Rightarrow> h256 \<Rightarrow> u32 \<Rightarrow> txout option" where
  "prior_output prior prev vout =
     map_option (\<lambda>tx. tx_outputs tx ! unat vout)
       (find (\<lambda>tx. tx_txid tx = prev \<and> unat vout < length (tx_outputs tx)) prior)"

definition find_outpoint ::
  "storage \<Rightarrow> h256 \<Rightarrow> u32 \<Rightarrow> tx list \<Rightarrow> u32 \<Rightarrow> (u64 \<times> string \<times> u32) option" where
  "find_outpoint st prev vout prior spend_height =
     (case utxo_lookup st prev vout of
        Some (value, owner, created) \<Rightarrow>
          Some (value, owner, if created = 0 then spend_height else created)
      | None \<Rightarrow>
          map_option (\<lambda>out. (to_value out, to_address out, spend_height)) (prior_output prior prev vout))"

definition spent_before :: "tx list \<Rightarrow> txin \<Rightarrow> bool" where
  "spent_before prior i \<longleftrightarrow>
     list_ex (\<lambda>earlier. list_ex (\<lambda>spent. ti_vout spent = ti_vout i \<and> ti_prev spent = ti_prev i)
                          (tx_inputs earlier)) prior"

text \<open>What one input adds: coins from before the change of unit are worth a thousandfold.\<close>

definition input_worth :: "storage \<Rightarrow> tx list \<Rightarrow> u32 \<Rightarrow> txin \<Rightarrow> u64 res" where
  "input_worth st prior spend_height i =
     (if spent_before prior i then Inl (TxErr Unknown_Input)
      else case find_outpoint st (ti_prev i) (ti_vout i) prior spend_height of
          None \<Rightarrow> Inl (TxErr Unknown_Input)
        | Some (value, owner, born) \<Rightarrow>
            if spend_height \<ge> kPiActivationHeight \<and> born < kPiActivationHeight then
              (if value > U64_MAX div kPiPerOldUnit then Inl (AmountErr Amount_Overflow)
               else Inr (value * kPiPerOldUnit))
            else Inr value)"

fun inputs_value :: "storage \<Rightarrow> tx list \<Rightarrow> u32 \<Rightarrow> txin list \<Rightarrow> u64 \<Rightarrow> u64 res" where
  "inputs_value st prior spend_height [] input_value = Inr input_value"
| "inputs_value st prior spend_height (i # ins) input_value =
     (case input_worth st prior spend_height i of
        Inl r \<Rightarrow> Inl r
      | Inr worth \<Rightarrow>
          if input_value > U64_MAX - worth then Inl (AmountErr Amount_Overflow)
          else inputs_value st prior spend_height ins (input_value + worth))"

definition outputs_value :: "tx \<Rightarrow> u64" where
  "outputs_value tx = fold (\<lambda>out v. v + to_value out) (tx_outputs tx) 0"

definition check_spendable :: "storage \<Rightarrow> tx \<Rightarrow> u32 \<Rightarrow> tx list \<Rightarrow> u64 \<Rightarrow> unit res" where
  "check_spendable st tx spend_height prior release =
     (if tx_inputs tx = [] then Inl (TxErr Inputs_Missing)
      else if tx_fee tx < min_fee_for_height spend_height then Inl (TxErr Fee_Too_Low)
      else case inputs_value st prior spend_height (tx_inputs tx) 0 of
          Inl r \<Rightarrow> Inl r
        | Inr input_value \<Rightarrow>
            let need = outputs_value tx + tx_fee tx + tx_escrow_lock tx;
                have' = input_value + release in
            if tx_flag_kind tx \<noteq> Flag_None then
              (if have' \<noteq> need then Inl (TxErr Insufficient_Funds) else Inr ())
            else if need > have' then Inl (TxErr Insufficient_Funds)
            else Inr ())"

subsection \<open>Registrations\<close>

definition register_input :: "env \<Rightarrow> storage \<Rightarrow> tx \<Rightarrow> tx list \<Rightarrow> txin \<Rightarrow> unit res" where
  "register_input ev st tx prior i =
     (case find_outpoint st (ti_prev i) (ti_vout i) prior 0 of
        None \<Rightarrow> Inl (TxErr Unknown_Input)
      | Some (value, owner, born) \<Rightarrow>
          if owner \<noteq> tx_reg_address tx then Inl (NameErr Signer_Mismatch)
          else
            let (good, pubkey) = decode_hex (ti_public_key_hex i) [] in
            if \<not> good \<or> long_address (ev_sha ev) pubkey \<noteq> tx_reg_address tx
            then Inl (NameErr Signer_Mismatch) else Inr ())"

text \<open>A reserved name needs a grant, which binds the name at once: the book is a result too.\<close>

definition admit_register ::
  "env \<Rightarrow> storage \<Rightarrow> book \<Rightarrow> tx \<Rightarrow> bool \<Rightarrow> tx list \<Rightarrow> unit res \<times> book" where
  "admit_register ev st g tx local_policy prior =
     (if \<not> tx_reg tx then (Inr (), g)
      else if \<not> valid_shortname (tx_name tx) then (Inl (NameErr Name_Invalid), g)
      else if \<not> is_long_address (tx_reg_address tx) then (Inl (NameErr Signer_Mismatch), g)
      else case check_all (register_input ev st tx prior) (tx_inputs tx) of
          Inl r \<Rightarrow> (Inl r, g)
        | Inr _ \<Rightarrow>
            (if (case lookup_name g (tx_name tx) of
                   Some (existing, _, _) \<Rightarrow> existing \<noteq> tx_reg_address tx | None \<Rightarrow> False)
             then (Inl (NameErr Name_Taken), g)
             else if is_reserved_name (tx_name tx) \<and> local_policy then
               (case grant_matches (ev_names_file ev) g (tx_name tx) (tx_reg_address tx) of
                  (granted, g') \<Rightarrow> (if granted then Inr () else Inl (NameErr Name_Reserved), g'))
             else (Inr (), g)))"

subsection \<open>Signatures\<close>

definition sign_payload :: "env \<Rightarrow> tx \<Rightarrow> string" where
  "sign_payload ev tx =
     (let inputs = JArray (map (\<lambda>i. JObject [(''prev_txid'', JString (to_hex (ti_prev i))),
                                             (''vout'', JUint (ucast (ti_vout i)))]) (tx_inputs tx));
          outputs = JArray (map (\<lambda>o'. JObject [(''address'', JString (to_address o')),
                                               (''value'', JUint (to_value o'))]) (tx_outputs tx));
          body0 = JObject [(''fee'', JUint (tx_fee tx)), (''inputs'', inputs), (''outputs'', outputs),
                           (''version'', JUint (ucast (tx_version tx)))];
          body1 = (if tx_reg tx
                   then jset (jset (jset body0 ''type'' (JString ''register''))
                               ''name'' (JString (tx_name tx))) ''address'' (JString (tx_reg_address tx))
                   else body0);
          body2 = (case tx_flag_kind tx of
                     Flag_None \<Rightarrow> body1
                   | Flag_Create \<Rightarrow>
                       fold (\<lambda>(k, v) b. jset b k v)
                         [(''type'', JString ''createflag''), (''flag_id'', JString (tx_flag_id tx)),
                          (''commitment'', JString (tx_commitment tx)),
                          (''awards_pubkey'', JString (tx_awards_pubkey tx)),
                          (''max_claims'', JUint (ucast (tx_max_claims tx))),
                          (''expires_height'', JUint (ucast (tx_expires_height tx))),
                          (''bounty_units'', JUint (tx_bounty_units tx)), (''note'', JString (tx_note tx))] body1
                   | Flag_Claim \<Rightarrow>
                       fold (\<lambda>(k, v) b. jset b k v)
                         [(''type'', JString ''claimflag''), (''flag_id'', JString (tx_flag_id tx)),
                          (''recipient'', JString (tx_recipient tx))] body1)
      in ev_dump ev body2)"

definition ed25519_verify :: "env \<Rightarrow> bytes \<Rightarrow> bytes \<Rightarrow> string \<Rightarrow> bool" where
  "ed25519_verify ev pubkey sig message \<longleftrightarrow>
     (if length pubkey \<noteq> 32 \<or> length sig \<noteq> 64 then False else ev_evp ev pubkey sig message)"

text \<open>The key file of an address, as far as it holds a usable key.\<close>

definition bound_public_key :: "env \<Rightarrow> string \<Rightarrow> string option" where
  "bound_public_key ev address =
     (if \<not> address_filename address then None
      else case ev_wallet ev address of
          None \<Rightarrow> None
        | Some doc \<Rightarrow>
            if \<not> is_object doc \<or> value_string doc ''scheme'' [] \<noteq> Some ''ed25519'' then None
            else (case jstring doc ''public_key'' of
                    None \<Rightarrow> None
                  | Some key \<Rightarrow>
                      let public_hex = lower_hex key; (good, raw) = decode_hex public_hex [] in
                      if good \<and> length raw = 32 then Some public_hex else None))"

definition verify_signed_input :: "env \<Rightarrow> string \<Rightarrow> txin \<Rightarrow> string \<Rightarrow> string option \<Rightarrow> unit res" where
  "verify_signed_input ev message i owner bound =
     (if ti_public_key_hex i = [] then Inl (SigErr Key_Mismatch)
      else
        let presented = lower_hex (ti_public_key_hex i) in
        if (case bound of Some b \<Rightarrow> presented \<noteq> b | None \<Rightarrow> False) then Inl (SigErr Key_Mismatch)
        else
          let (good, pubkey) = decode_hex presented [] in
          if \<not> good \<or> length pubkey \<noteq> 32 then Inl (SigErr Key_Mismatch)
          else if is_long_address owner \<and> long_address (ev_sha ev) pubkey \<noteq> owner
          then Inl (SigErr Key_Mismatch)
          else
            let (sig_good, sig) = decode_hex (ti_signature_hex i) [] in
            if \<not> sig_good \<or> \<not> ed25519_verify ev pubkey sig message
            then Inl (SigErr Signature_Invalid) else Inr ())"

definition verify_input ::
  "env \<Rightarrow> storage \<Rightarrow> string \<Rightarrow> bool \<Rightarrow> tx list \<Rightarrow> txin \<Rightarrow> unit res" where
  "verify_input ev st message require_local_key prior i =
     (case find_outpoint st (ti_prev i) (ti_vout i) prior 0 of
        None \<Rightarrow> Inl (TxErr Unknown_Input)
      | Some (value, owner, born) \<Rightarrow>
          let ps1_owner = is_long_address owner; bound = bound_public_key ev owner in
          if require_local_key \<and> bound = None \<and> \<not> ps1_owner then Inl (SigErr No_Spending_Key)
          else if ti_signature_hex i = [] then
            (if require_local_key \<or> ps1_owner then Inl (SigErr Signature_Missing) else Inr ())
          else verify_signed_input ev message i owner bound)"

definition verify_input_signatures ::
  "env \<Rightarrow> storage \<Rightarrow> tx \<Rightarrow> bool \<Rightarrow> tx list \<Rightarrow> unit res" where
  "verify_input_signatures ev st tx require_local_key prior =
     (if tx_inputs tx = [] then Inl (TxErr Inputs_Missing)
      else check_all (verify_input ev st (sign_payload ev tx) require_local_key prior) (tx_inputs tx))"

subsection \<open>Flags\<close>

definition claim_release :: "tx \<Rightarrow> flag list \<Rightarrow> tx list \<Rightarrow> u64" where
  "claim_release tx flags prior =
     (if tx_flag_kind tx \<noteq> Flag_Claim then 0
      else case flag_find flags (tx_flag_id tx) of
          Some flag \<Rightarrow> fl_bounty_units flag
        | None \<Rightarrow>
            (case find (\<lambda>earlier. tx_flag_kind earlier = Flag_Create \<and> tx_flag_id earlier = tx_flag_id tx) prior of
               Some earlier \<Rightarrow> tx_bounty_units earlier
             | None \<Rightarrow> 0))"

text \<open>The loop over a claim's outputs; the result is the number that pay the recipient.\<close>

fun claim_outputs :: "u64 \<Rightarrow> string \<Rightarrow> string \<Rightarrow> txout list \<Rightarrow> u32 \<Rightarrow> u32 res" where
  "claim_outputs bounty recipient awards [] paid = Inr paid"
| "claim_outputs bounty recipient awards (out # outs) paid =
     (if to_address out = recipient then
        (if bounty = 0 \<or> to_value out \<noteq> bounty then Inl (TxErr Malformed_Tx)
         else claim_outputs bounty recipient awards outs (paid + 1))
      else if to_address out \<noteq> awards then Inl (TxErr Malformed_Tx)
      else claim_outputs bounty recipient awards outs paid)"

text \<open>The inputs are not empty here: every caller runs \<open>check_spendable\<close> first.\<close>

definition flag_outputs_ok :: "env \<Rightarrow> storage \<Rightarrow> tx \<Rightarrow> flag option \<Rightarrow> tx list \<Rightarrow> unit res" where
  "flag_outputs_ok ev st tx flag prior =
     (if tx_flag_kind tx = Flag_None then Inr ()
      else case find_outpoint st (ti_prev (hd (tx_inputs tx))) (ti_vout (hd (tx_inputs tx))) prior 0 of
          None \<Rightarrow> Inl (TxErr Unknown_Input)
        | Some (ignored, payer, born) \<Rightarrow>
            if tx_flag_kind tx = Flag_Create then
              (if list_all (\<lambda>out. to_address out = payer) (tx_outputs tx) then Inr ()
               else Inl (TxErr Malformed_Tx))
            else
              (case flag of
                 None \<Rightarrow> Inl (FlagErr Unknown_Flag)
               | Some f \<Rightarrow>
                   let (good, raw) = decode_hex (fl_awards_pubkey f) [] in
                   if \<not> good then Inl (FlagErr Awards_Signature)
                   else (case claim_outputs (fl_bounty_units f) (tx_recipient tx)
                                (long_address (ev_sha ev) raw) (tx_outputs tx) 0 of
                           Inl r \<Rightarrow> Inl r
                         | Inr paid \<Rightarrow>
                             if fl_bounty_units f = 0 \<and> paid \<noteq> 0 then Inl (TxErr Malformed_Tx)
                             else if fl_bounty_units f > 0 \<and> paid \<noteq> 1 then Inl (TxErr Malformed_Tx)
                             else Inr ())))"

definition apply_flag_tx :: "flag list \<Rightarrow> tx \<Rightarrow> u32 \<Rightarrow> (flag list) res" where
  "apply_flag_tx flags tx height =
     (case tx_flag_kind tx of
        Flag_Create \<Rightarrow>
          flag_create flags \<lparr>fl_id = tx_flag_id tx, fl_commitment = tx_commitment tx,
            fl_awards_pubkey = tx_awards_pubkey tx, fl_max_claims = tx_max_claims tx,
            fl_expires_height = tx_expires_height tx, fl_bounty_units = tx_bounty_units tx,
            fl_note = tx_note tx, fl_escrow = 0, fl_txid = to_hex (tx_txid tx),
            fl_claimants = [], fl_claim_txids = []\<rparr>
      | Flag_Claim \<Rightarrow>
          flag_claim flags (tx_flag_id tx) (tx_recipient tx)
            (case tx_inputs tx of [] \<Rightarrow> [] | i # _ \<Rightarrow> lower_hex (ti_public_key_hex i))
            height (to_hex (tx_txid tx))
      | Flag_None \<Rightarrow> Inr flags)"

end
