(* ===== verification/Spend_Safe.thy ===== *)
theory Spend_Safe
  imports Spend Storage_Utxo
begin

text \<open>
  What the acceptance checks guarantee, and where they fall short: the balance check is exact as
  long as no sum wraps and no coin is listed twice, and both conditions are needed; a coin of a
  long address moves only with a signature by its key; a flag claim pays the bounty once.
\<close>

subsection \<open>The balance\<close>

definition worth_of :: "storage \<Rightarrow> tx list \<Rightarrow> u32 \<Rightarrow> txin \<Rightarrow> nat" where
  "worth_of st prior h i = (case input_worth st prior h i of Inl _ \<Rightarrow> 0 | Inr w \<Rightarrow> unat w)"

definition inputs_known :: "storage \<Rightarrow> tx list \<Rightarrow> u32 \<Rightarrow> txin list \<Rightarrow> bool" where
  "inputs_known st prior h ins \<longleftrightarrow> (\<forall>i \<in> set ins. \<exists>w. input_worth st prior h i = Inr w)"

lemma u64_room: "\<not> a > U64_MAX - w \<longleftrightarrow> unat a + unat w < 2 ^ 64" for a w :: u64
proof -
  have "unat (U64_MAX - w) = 2 ^ 64 - 1 - unat w"
    by (subst unat_sub) (simp_all add: unsigned_minus_1_eq_mask mask_eq_exp_minus_1)
  then show ?thesis
    using unsigned_less [of w, where ?'a = nat] by (auto simp: word_less_nat_alt)
qed

lemma inputs_value_exact:
  "inputs_value st prior h ins acc = Inr v \<longleftrightarrow>
     inputs_known st prior h ins \<and> unat acc + sum_list (map (worth_of st prior h) ins) < 2 ^ 64 \<and>
     unat v = unat acc + sum_list (map (worth_of st prior h) ins)"
proof (induction ins arbitrary: acc)
  case Nil
  then show ?case
    using unsigned_less [of acc, where ?'a = nat] by (auto simp: inputs_known_def word_unat_eq_iff)
next
  case (Cons i ins)
  show ?case
  proof (cases "input_worth st prior h i")
    case (Inl r)
    then show ?thesis by (simp add: inputs_known_def)
  next
    case (Inr w)
    show ?thesis
    proof (cases "unat acc + unat w < 2 ^ 64")
      case True
      then have u: "unat (acc + w) = unat acc + unat w" by (simp add: unat_word_ariths)
      from True have r: "\<not> acc > U64_MAX - w" by (simp only: u64_room not_False_eq_True)
      show ?thesis
        using Inr r Cons.IH [of "acc + w"] u
        by (simp add: inputs_known_def worth_of_def add.assoc)
    next
      case False
      then have "acc > U64_MAX - w" using u64_room [of w acc] by blast
      with Inr False show ?thesis by (simp add: worth_of_def)
    qed
  qed
qed

lemma outputs_fold: "unat (fold (\<lambda>out v. v + to_value out) outs (a :: u64)) =
   (unat a + sum_list (map (unat \<circ> to_value) outs)) mod 2 ^ 64"
proof (induction outs arbitrary: a)
  case Nil
  then show ?case using unsigned_less [of a, where ?'a = nat] by simp
next
  case (Cons out outs)
  then show ?case by (simp add: unat_word_ariths add.assoc mod_add_left_eq)
qed

lemma outputs_value_mod:
  "unat (outputs_value tx) = sum_list (map (unat \<circ> to_value) (tx_outputs tx)) mod 2 ^ 64"
  by (simp add: outputs_value_def outputs_fold)

definition spent_total :: "tx \<Rightarrow> nat" where
  "spent_total tx = sum_list (map (unat \<circ> to_value) (tx_outputs tx)) + unat (tx_fee tx) + unat (tx_escrow_lock tx)"

lemma need_exact:
  "spent_total tx < 2 ^ 64 \<Longrightarrow> unat (outputs_value tx + tx_fee tx + tx_escrow_lock tx) = spent_total tx"
  by (simp add: spent_total_def outputs_value_mod unat_word_ariths mod_add_left_eq)

text \<open>C11: The balance check is exact. As long as the sums fit in 64 bits, a transaction passes if
  and only if it has inputs, pays the minimum fee, all its inputs are known unspent coins, and
  outputs, fee and escrow are at most what the inputs and the released bounty are worth - exactly
  that much for a flag transaction.\<close>

theorem check_spendable_exact:
  assumes "spent_total tx < 2 ^ 64"
    "sum_list (map (worth_of st prior h) (tx_inputs tx)) + unat release < 2 ^ 64"
  shows "check_spendable st tx h prior release = Inr () \<longleftrightarrow>
    tx_inputs tx \<noteq> [] \<and> min_fee_for_height h \<le> tx_fee tx \<and> inputs_known st prior h (tx_inputs tx) \<and>
    (if tx_flag_kind tx = Flag_None
     then spent_total tx \<le> sum_list (map (worth_of st prior h) (tx_inputs tx)) + unat release
     else spent_total tx = sum_list (map (worth_of st prior h) (tx_inputs tx)) + unat release)"
proof (cases "inputs_value st prior h (tx_inputs tx) 0")
  case (Inl r)
  moreover have "\<not> inputs_known st prior h (tx_inputs tx)"
  proof
    assume k: "inputs_known st prior h (tx_inputs tx)"
    let ?v = "of_nat (sum_list (map (worth_of st prior h) (tx_inputs tx))) :: u64"
    from assms(2) have "unat ?v = sum_list (map (worth_of st prior h) (tx_inputs tx))"
      by (simp add: unat_of_nat_u64)
    with k assms(2) have "inputs_value st prior h (tx_inputs tx) 0 = Inr ?v"
      by (simp only: inputs_value_exact) simp
    with Inl show False by simp
  qed
  ultimately show ?thesis by (simp add: check_spendable_def)
next
  case (Inr v)
  then have v: "inputs_known st prior h (tx_inputs tx)"
    "unat v = sum_list (map (worth_of st prior h) (tx_inputs tx))"
    by (simp_all add: inputs_value_exact)
  have h': "unat (v + release) = sum_list (map (worth_of st prior h) (tx_inputs tx)) + unat release"
    using assms(2) v(2) by (simp add: unat_word_ariths)
  show ?thesis
    using Inr v(1) need_exact [OF assms(1)] h'
    by (auto simp: check_spendable_def Let_def word_less_nat_alt word_le_nat_alt word_unat_eq_iff not_le not_less)
qed

text \<open>A storage with one coin of 3000 pi, from height 5000.\<close>

definition demo_credit :: utxo_credit where
  "demo_credit = \<lparr>uc_txid = zero256, uc_vout = 0, uc_value = 3000, uc_address = ''a'', uc_height = 5000\<rparr>"

definition demo_storage :: storage where
  "demo_storage = snd (apply_utxos (storage_new []) [] [demo_credit])"

definition coin_in :: txin where
  "coin_in = \<lparr>ti_prev = zero256, ti_vout = 0, ti_signature_hex = [], ti_public_key_hex = []\<rparr>"

definition coin_pay :: "u64 \<Rightarrow> tx" where
  "coin_pay v = tx_default\<lparr>tx_fee := 1000, tx_inputs := [coin_in],
     tx_outputs := [\<lparr>to_value = v, to_address = ''b''\<rparr>]\<rparr>"

lemma coin_find: "utxo_find demo_storage zero256 0 = Some \<lparr>ur_value = 3000, ur_address = ''a'', ur_height = 5000\<rparr>"
  by (simp add: demo_storage_def demo_credit_def apply_utxos_def storage_new_def utxo_find_def tbl_get_def tbl_put_def Let_def)

lemma coin_worth: "input_worth demo_storage [] 5001 coin_in = Inr 3000"
  by (simp add: input_worth_def spent_before_def find_outpoint_def coin_in_def utxo_lookup_def coin_find
      kPiActivationHeight_def)

lemma check_spendable_exact_witness:
  "check_spendable demo_storage (coin_pay 2000) 5001 [] 0 = Inr () \<and>
   check_spendable demo_storage (coin_pay 2001) 5001 [] 0 \<noteq> Inr ()"
proof -
  have w: "worth_of demo_storage [] 5001 coin_in = 3000"
    by (simp add: worth_of_def coin_worth)
  have k: "inputs_known demo_storage [] 5001 [coin_in]"
    by (simp add: inputs_known_def coin_worth)
  show ?thesis
    using check_spendable_exact [of "coin_pay 2000" demo_storage "[]" 5001 0]
      check_spendable_exact [of "coin_pay 2001" demo_storage "[]" 5001 0]
    by (simp add: coin_pay_def tx_default_def spent_total_def w k min_fee_for_height_def kPiActivationHeight_def
        kMinFeePi_def)
qed

subsection \<open>Where the balance check fails\<close>

definition spends_of :: "tx \<Rightarrow> utxo_spend list" where
  "spends_of tx = map (\<lambda>i. \<lparr>us_txid = ti_prev i, us_vout = ti_vout i\<rparr>) (tx_inputs tx)"

lemma known_coin:
  "input_worth st [] h i = Inr w \<Longrightarrow> u_get (st_utxo st) (ti_prev i, ti_vout i) \<noteq> None"
  by (auto simp: input_worth_def find_outpoint_def prior_output_def utxo_lookup_def utxo_find_get
      split: if_splits option.splits)

text \<open>Both conditions of the balance check are needed. A transaction that lists one coin twice
  passes with outputs worth twice the coin, its signature check is the check of that one input, and
  the UTXO set accepts the double spend; and outputs whose sum is 2^64 too large pass exactly when
  the reduced sum does. Either way coins are created from nothing.\<close>

theorem check_spendable_inflates:
  assumes "input_worth st [] h i = Inr w" "2 * unat w < 2 ^ 64"
    "tx_inputs tx = [i, i]" "tx_flag_kind tx = Flag_None" "min_fee_for_height h \<le> tx_fee tx"
    "spent_total tx = 2 * unat w"
    "\<forall>c \<in> set credits. u_get (st_utxo st) (credit_op c) = None"
    "sum_list (map (unat \<circ> to_value) outs) = sum_list (map (unat \<circ> to_value) (tx_outputs tx')) + 2 ^ 64"
  shows "check_spendable st tx h [] 0 = Inr () \<and>
    (verify_input_signatures ev st tx k [] = Inr () \<longleftrightarrow> verify_input ev st (sign_payload ev tx) k [] i = Inr ()) \<and>
    fst (apply_utxos st (spends_of tx) credits) \<and>
    check_spendable st (tx'\<lparr>tx_outputs := outs\<rparr>) h' prior rel = check_spendable st tx' h' prior rel"
proof (intro conjI)
  have v: "inputs_value st [] h [i, i] 0 = Inr (w + w)"
  proof -
    have "\<not> w > U64_MAX - w" using assms(2) by (simp only: u64_room mult_2)
    then show ?thesis by (simp add: assms(1))
  qed
  have "unat (w + w) = 2 * unat w" using assms(2) by (simp add: unat_word_ariths)
  with need_exact [of tx] assms(2,6) have "outputs_value tx + tx_fee tx + tx_escrow_lock tx = w + w"
    by (simp add: word_unat_eq_iff)
  then show "check_spendable st tx h [] 0 = Inr ()"
    using assms(5) by (simp add: check_spendable_def assms(3,4) v Let_def not_less del: inputs_value.simps)
  show "verify_input_signatures ev st tx k [] = Inr () \<longleftrightarrow> verify_input ev st (sign_payload ev tx) k [] i = Inr ()"
    by (cases "verify_input ev st (sign_payload ev tx) k [] i") (simp_all add: verify_input_signatures_def assms(3))
  show "fst (apply_utxos st (spends_of tx) credits)"
    using known_coin [OF assms(1)] assms(7)
    by (simp add: apply_utxos_update utxo_ok_def spends_of_def assms(3) spend_op_def)
  have "outputs_value (tx'\<lparr>tx_outputs := outs\<rparr>) = outputs_value tx'"
    using assms(8) by (simp only: word_unat_eq_iff outputs_value_mod tx.simps) simp
  then show "check_spendable st (tx'\<lparr>tx_outputs := outs\<rparr>) h' prior rel = check_spendable st tx' h' prior rel"
    by (cases "inputs_value st prior h' (tx_inputs tx') 0") (simp_all add: check_spendable_def)
qed

lemma check_spendable_inflates_witness:
  "check_spendable demo_storage (coin_pay 5000\<lparr>tx_inputs := [coin_in, coin_in]\<rparr>) 5001 [] 0 = Inr ()"
proof -
  let ?out = "\<lparr>to_value = 2 ^ 63, to_address = ''b''\<rparr>" and ?tx = "coin_pay 5000\<lparr>tx_inputs := [coin_in, coin_in]\<rparr>"
  have wrap: "sum_list (map (unat \<circ> to_value) [?out, ?out]) = sum_list (map (unat \<circ> to_value) (tx_outputs tx_default)) + 2 ^ 64"
    by (simp add: tx_default_def)
  have tx: "tx_inputs ?tx = [coin_in, coin_in]" "tx_flag_kind ?tx = Flag_None" "min_fee_for_height 5001 \<le> tx_fee ?tx"
    "spent_total ?tx = 2 * unat (3000 :: u64)" "2 * unat (3000 :: u64) < 2 ^ 64"
    by (simp_all add: coin_pay_def tx_default_def min_fee_for_height_def kPiActivationHeight_def kMinFeePi_def spent_total_def)
  show ?thesis
    using check_spendable_inflates [OF coin_worth tx(5) tx(1-4) _ wrap, of "[]"] by simp
qed

subsection \<open>Signatures\<close>

definition signed_by :: "env \<Rightarrow> tx \<Rightarrow> txin \<Rightarrow> bytes \<Rightarrow> bool" where
  "signed_by ev tx i pubkey \<longleftrightarrow>
     decode_hex (lower_hex (ti_public_key_hex i)) [] = (True, pubkey) \<and> length pubkey = 32 \<and>
     (\<exists>sig. decode_hex (ti_signature_hex i) [] = (True, sig) \<and> length sig = 64 \<and>
        ev_evp ev pubkey sig (sign_payload ev tx))"

lemma verify_signed:
  assumes "verify_signed_input ev (sign_payload ev tx) i owner bound = Inr ()"
  shows "\<exists>pubkey. signed_by ev tx i pubkey \<and> (is_long_address owner \<longrightarrow> owner = long_address (ev_sha ev) pubkey) \<and>
    (\<forall>b. bound = Some b \<longrightarrow> lower_hex (ti_public_key_hex i) = b)"
  using assms
  by (auto simp: verify_signed_input_def signed_by_def ed25519_verify_def Let_def
      split: if_splits prod.splits option.splits)

text \<open>C12: No coin of a long address moves without its key. If the signature check passes, every input
  is a known coin, and if its owner is a long address, or local policy applies, the input is signed:
  an Ed25519 key whose hash is that address, and which is the key bound to the address in the wallet
  directory if there is one, verifies the signature over the transaction's payload.\<close>

theorem signatures_authorise:
  assumes "verify_input_signatures ev st tx require_local_key prior = Inr ()" "i \<in> set (tx_inputs tx)"
  shows "\<exists>value owner born. find_outpoint st (ti_prev i) (ti_vout i) prior 0 = Some (value, owner, born) \<and>
    (is_long_address owner \<or> require_local_key \<or> ti_signature_hex i \<noteq> [] \<longrightarrow>
      (\<exists>pubkey. signed_by ev tx i pubkey \<and>
         (is_long_address owner \<longrightarrow> owner = long_address (ev_sha ev) pubkey) \<and>
         (\<forall>b. bound_public_key ev owner = Some b \<longrightarrow> lower_hex (ti_public_key_hex i) = b)))"
proof -
  from assms have v: "verify_input ev st (sign_payload ev tx) require_local_key prior i = Inr ()"
    by (auto simp: verify_input_signatures_def split: if_splits)
  then obtain val owner born where
    f: "find_outpoint st (ti_prev i) (ti_vout i) prior 0 = Some (val, owner, born)"
    by (auto simp: verify_input_def split: option.splits)
  from v f have "ti_signature_hex i = [] \<and> \<not> require_local_key \<and> \<not> is_long_address owner \<or>
      verify_signed_input ev (sign_payload ev tx) i owner (bound_public_key ev owner) = Inr ()"
    by (auto simp: verify_input_def Let_def split: if_splits)
  with f verify_signed show ?thesis by blast
qed

definition demo_env :: env where
  "demo_env = \<lparr>ev_sha = (\<lambda>_. replicate 32 0xaa), ev_evp = (\<lambda>_ _ _. True), ev_parse = (\<lambda>_. None), ev_dump = (\<lambda>_. []),
     ev_wallet = (\<lambda>_. None), ev_names_file = None, ev_now = 0,
     ev_opened = True, ev_float = (\<lambda>_. 0)\<rparr>"

lemma signatures_authorise_witness:
  "\<exists>value owner born. find_outpoint demo_storage (ti_prev coin_in) (ti_vout coin_in) [] 0 = Some (value, owner, born)"
proof -
  have "verify_input_signatures demo_env demo_storage (coin_pay 1) False [] = Inr ()"
    by (simp add: verify_input_signatures_def verify_input_def coin_pay_def tx_default_def coin_in_def
        find_outpoint_def utxo_lookup_def coin_find is_long_address_def Let_def)
  from signatures_authorise [OF this, of coin_in] show ?thesis
    by (auto simp: coin_pay_def)
qed

subsection \<open>Flag claims\<close>

lemma claim_outputs_count:
  "claim_outputs bounty recipient awards outs paid = Inr n \<Longrightarrow>
   n = paid + of_nat (length (filter (\<lambda>out. to_address out = recipient) outs)) \<and>
   (\<forall>out \<in> set outs. if to_address out = recipient then bounty \<noteq> 0 \<and> to_value out = bounty else to_address out = awards)"
proof (induction outs arbitrary: paid)
  case (Cons out outs)
  show ?case
  proof (cases "to_address out = recipient")
    case True
    with Cons.prems have b: "bounty \<noteq> 0" "to_value out = bounty"
      and c: "claim_outputs bounty recipient awards outs (paid + 1) = Inr n"
      by (simp_all split: if_splits)
    from True b Cons.IH [OF c] show ?thesis by (simp add: add.assoc)
  next
    case False
    with Cons show ?thesis by (simp split: if_splits)
  qed
qed simp

text \<open>A claim pays its bounty once. If the balance and the output checks accept a claim of a
  flag and no sum wraps, exactly one output (none for a flag without bounty) pays the recipient, with
  exactly the bounty; every other output goes to the address of the flag's awards key, and together
  with the fee the outputs are worth exactly the inputs plus the bounty.\<close>

theorem flag_claim_pays_once:
  assumes "tx_flag_kind tx = Flag_Claim" "flag_find flags (tx_flag_id tx) = Some f"
    "flag_outputs_ok ev st tx (Some f) prior = Inr ()"
    "check_spendable st tx h prior (claim_release tx flags prior) = Inr ()"
    "length (tx_outputs tx) < 2 ^ 32" "spent_total tx < 2 ^ 64"
    "sum_list (map (worth_of st prior h) (tx_inputs tx)) + unat (fl_bounty_units f) < 2 ^ 64"
  shows "length (filter (\<lambda>out. to_address out = tx_recipient tx) (tx_outputs tx)) = (if fl_bounty_units f = 0 then 0 else 1) \<and>
    (\<forall>out \<in> set (tx_outputs tx). if to_address out = tx_recipient tx then to_value out = fl_bounty_units f
       else \<exists>raw. decode_hex (fl_awards_pubkey f) [] = (True, raw) \<and> to_address out = long_address (ev_sha ev) raw) \<and>
    spent_total tx = sum_list (map (worth_of st prior h) (tx_inputs tx)) + unat (fl_bounty_units f)"
proof -
  let ?n = "length (filter (\<lambda>out. to_address out = tx_recipient tx) (tx_outputs tx))"
  obtain good raw where raw: "decode_hex (fl_awards_pubkey f) [] = (good, raw)" by fastforce
  from assms(1,3) raw obtain paid where g: "good" and
    c: "claim_outputs (fl_bounty_units f) (tx_recipient tx) (long_address (ev_sha ev) raw) (tx_outputs tx) 0 = Inr paid" and
    p: "if fl_bounty_units f = 0 then paid = 0 else paid = 1"
    by (auto simp: flag_outputs_ok_def word_gt_0 split: option.splits if_splits sum.splits)
  note cc = claim_outputs_count [OF c]
  have "?n < 2 ^ 32" using assms(5) length_filter_le order_le_less_trans by blast
  then have "unat (of_nat ?n :: u32) = ?n" by (rule unat_of_nat_u32)
  with cc have n: "unat paid = ?n" by simp
  have "?n = (if fl_bounty_units f = 0 then 0 else 1)"
    using p n by (auto split: if_splits)
  moreover have "spent_total tx = sum_list (map (worth_of st prior h) (tx_inputs tx)) + unat (fl_bounty_units f)"
  proof -
    have rel: "claim_release tx flags prior = fl_bounty_units f"
      using assms(1,2) by (simp add: claim_release_def)
    from assms(4) obtain v where v: "inputs_value st prior h (tx_inputs tx) 0 = Inr v"
      and eq: "v + fl_bounty_units f = outputs_value tx + tx_fee tx + tx_escrow_lock tx"
      using assms(1) by (auto simp: check_spendable_def rel Let_def split: if_splits sum.splits)
    from v have "unat v = sum_list (map (worth_of st prior h) (tx_inputs tx))"
      by (simp add: inputs_value_exact)
    with assms(7) have "unat (v + fl_bounty_units f) = sum_list (map (worth_of st prior h) (tx_inputs tx)) + unat (fl_bounty_units f)"
      by (simp add: unat_word_ariths)
    with eq need_exact [OF assms(6)] show ?thesis by simp
  qed
  ultimately show ?thesis using cc raw g by (auto split: if_splits)
qed

definition demo_claim_flag :: flag where
  "demo_claim_flag = \<lparr>fl_id = ''f'', fl_commitment = [], fl_awards_pubkey = [], fl_max_claims = 1, fl_expires_height = 0,
     fl_bounty_units = 500, fl_note = [], fl_escrow = 500, fl_txid = [], fl_claimants = [], fl_claim_txids = []\<rparr>"

definition demo_claim :: tx where
  "demo_claim = (coin_pay 500)\<lparr>tx_flag_kind := Flag_Claim, tx_flag_id := ''f'', tx_recipient := ''b'', tx_fee := 3000\<rparr>"

lemma flag_claim_pays_once_witness:
  "length (filter (\<lambda>out. to_address out = ''b'') (tx_outputs demo_claim)) = 1"
proof -
  have k: "tx_flag_kind demo_claim = Flag_Claim" by (simp add: demo_claim_def)
  have f: "flag_find [demo_claim_flag] (tx_flag_id demo_claim) = Some demo_claim_flag"
    by (simp add: flag_find_def demo_claim_flag_def demo_claim_def)
  have o: "flag_outputs_ok demo_env demo_storage demo_claim (Some demo_claim_flag) [] = Inr ()"
    by (simp add: flag_outputs_ok_def k demo_claim_def coin_pay_def coin_in_def find_outpoint_def utxo_lookup_def
        coin_find demo_claim_flag_def decode_hex_def)
  have w: "sum_list (map (worth_of demo_storage [] 5001) (tx_inputs demo_claim)) = 3000"
    by (simp add: demo_claim_def coin_pay_def worth_of_def coin_worth)
  have r: "claim_release demo_claim [demo_claim_flag] [] = 500"
    by (simp add: claim_release_def k f) (simp add: demo_claim_flag_def)
  have s: "spent_total demo_claim = 3500"
    by (simp add: spent_total_def demo_claim_def coin_pay_def tx_default_def)
  have c: "check_spendable demo_storage demo_claim 5001 [] 500 = Inr ()"
    by (simp add: check_spendable_def demo_claim_def coin_pay_def coin_worth outputs_value_def tx_default_def
        min_fee_for_height_def kPiActivationHeight_def kMinFeePi_def)
  from flag_claim_pays_once [OF k f o, of 5001] w s c r show ?thesis
    by (simp add: demo_claim_flag_def demo_claim_def coin_pay_def)
qed

end
