(* ===== verification/Mempool.thy ===== *)
theory Mempool
  imports Spend Difficulty
begin

text \<open>
  The mempool as the chain code sees it (chain_rpc.cpp): the stored transactions parsed again and
  put in an order in which parents come before children, the acceptance of a new transaction
  (\<open>rpc_sendtransaction\<close>), and the replay of mempool.json after a restart.

  \<open>node\<close> is the daemon's state that these operations share: the storage, the name book
  \<open>g_names\<close>, the flag book \<open>g_flags\<close>, the challenges, and the time of the last template request.
\<close>

record node =
  nd_st :: storage
  nd_names :: book
  nd_flags :: "flag list"
  nd_chal :: challenges
  nd_template :: u64

definition dump_size :: "env \<Rightarrow> json \<Rightarrow> nat" where
  "dump_size ev j = length (ev_dump ev j)"

abbreviation parse_tx :: "env \<Rightarrow> json \<Rightarrow> u32 \<Rightarrow> tx res" where
  "parse_tx ev \<equiv> parse_user_tx (ev_sha ev) (dump_size ev)"

subsection \<open>Order\<close>

text \<open>An input of transaction \<open>i\<close> spends another transaction of the list that is not placed yet.\<close>

definition waiting :: "tx list \<Rightarrow> bool list \<Rightarrow> nat \<Rightarrow> bool" where
  "waiting txs used i \<longleftrightarrow>
     list_ex (\<lambda>inp. list_ex (\<lambda>j. \<not> (i = j \<or> used ! j) \<and> tx_txid (txs ! j) = ti_prev inp) [0..<length txs])
       (tx_inputs (txs ! i))"

definition order_step :: "tx list \<Rightarrow> nat \<Rightarrow> bool list \<times> tx list \<times> bool \<Rightarrow> bool list \<times> tx list \<times> bool" where
  "order_step txs i s =
     (case s of (used, ordered, progress) \<Rightarrow>
        if used ! i then s
        else if waiting txs used i then s
        else (used[i := True], ordered @ [txs ! i], True))"

definition order_pass :: "tx list \<Rightarrow> bool list \<Rightarrow> tx list \<Rightarrow> bool list \<times> tx list \<times> bool" where
  "order_pass txs used ordered = fold (order_step txs) [0..<length txs] (used, ordered, False)"

lemma order_steps_grow:
  "fold (order_step txs) is (used, ordered, p) = (used', ordered', p') \<Longrightarrow>
   length ordered \<le> length ordered' \<and> (p' \<and> \<not> p \<longrightarrow> length ordered < length ordered')"
proof (induction "is" arbitrary: used ordered p)
  case (Cons i "is")
  then show ?case
    by (auto simp: order_step_def split: if_splits) fastforce+
qed simp

lemma order_pass_grows:
  "order_pass txs used ordered = (used', ordered', True) \<Longrightarrow> length ordered < length ordered'"
  unfolding order_pass_def by (drule order_steps_grow) simp

function order_loop :: "tx list \<Rightarrow> bool list \<Rightarrow> tx list \<Rightarrow> bool list \<times> tx list" where
  "order_loop txs used ordered =
     (if length ordered < length txs then
        (case order_pass txs used ordered of
           (used', ordered', progress) \<Rightarrow>
             if progress then order_loop txs used' ordered' else (used', ordered'))
      else (used, ordered))"
  by pat_completeness auto
termination
  by (relation "measure (\<lambda>(txs, used, ordered). length txs - length ordered)")
    (auto dest!: order_pass_grows [OF sym])

definition order_txs :: "tx list \<Rightarrow> tx list" where
  "order_txs txs =
     (case order_loop txs (replicate (length txs) False) [] of
        (used, ordered) \<Rightarrow> ordered @ map ((!) txs) (filter (\<lambda>i. \<not> used ! i) [0..<length txs]))"

definition stored_tx :: "env \<Rightarrow> u32 \<Rightarrow> mem_tx \<Rightarrow> tx option" where
  "stored_tx ev next_height stored =
     (case ev_parse ev (string_of (mt_data stored)) of
        None \<Rightarrow> None
      | Some obj \<Rightarrow>
          (case parse_tx ev obj next_height of
             Inl _ \<Rightarrow> None | Inr tx \<Rightarrow> Some (tx\<lparr>tx_txid := mt_hash stored\<rparr>)))"

definition mempool_txs :: "env \<Rightarrow> storage \<Rightarrow> tx list" where
  "mempool_txs ev st =
     order_txs (List.map_filter (stored_tx ev (next_height_of st)) (get_mempool_transactions st 1000))"

subsection \<open>Acceptance\<close>

definition shares_input :: "tx list \<Rightarrow> tx \<Rightarrow> bool" where
  "shares_input prior tx \<longleftrightarrow>
     list_ex (\<lambda>existing. list_ex (\<lambda>i. list_ex (\<lambda>mine. ti_vout i = ti_vout mine \<and> ti_prev i = ti_prev mine)
                                        (tx_inputs tx)) (tx_inputs existing)) prior"

text \<open>A failing flag of an earlier transaction is ignored.\<close>

definition try_flag_tx :: "u32 \<Rightarrow> tx \<Rightarrow> flag list \<Rightarrow> flag list" where
  "try_flag_tx height tx flags = (case apply_flag_tx flags tx height of Inl _ \<Rightarrow> flags | Inr flags' \<Rightarrow> flags')"

text \<open>
  The checks of one transaction against coins, names and flags, in the order of
  \<open>rpc_submitblock\<close> and \<open>rpc_sendtransaction\<close>; on success the flag book with the transaction in
  it. The name book is a result in every case.
\<close>

definition admit_tx ::
  "env \<Rightarrow> storage \<Rightarrow> bool \<Rightarrow> u32 \<Rightarrow> tx list \<Rightarrow> tx \<Rightarrow> flag list \<Rightarrow> book \<Rightarrow> (flag list) res \<times> book" where
  "admit_tx ev st local_policy height prior tx flags g =
     (case check_spendable st tx height prior (claim_release tx flags prior) of
        Inl r \<Rightarrow> (Inl r, g)
      | Inr _ \<Rightarrow>
          (case verify_input_signatures ev st tx local_policy prior of
             Inl r \<Rightarrow> (Inl r, g)
           | Inr _ \<Rightarrow>
               (case admit_register ev st g tx local_policy prior of
                  (Inl r, g') \<Rightarrow> (Inl r, g')
                | (Inr _, g') \<Rightarrow>
                    (case flag_outputs_ok ev st tx (flag_find flags (tx_flag_id tx)) prior of
                       Inl r \<Rightarrow> (Inl r, g')
                     | Inr _ \<Rightarrow> (apply_flag_tx flags tx height, g')))))"

definition mem_entry :: "env \<Rightarrow> tx \<Rightarrow> mem_tx" where
  "mem_entry ev tx =
     \<lparr>mt_hash = tx_txid tx, mt_data = bytes_of (ev_dump ev (tx_to_json tx)),
      mt_timestamp = ev_now ev, mt_fee = tx_fee tx\<rparr>"

text \<open>The tail of \<open>rpc_sendtransaction\<close>: a name that cannot be kept takes the entry out again.\<close>

definition register_sent :: "tx \<Rightarrow> node \<Rightarrow> h256 res \<times> node" where
  "register_sent tx nd =
     (if tx_reg tx then
        (case remember_name (nd_names nd) (tx_name tx) (tx_reg_address tx) (reg_kind (tx_name tx))
                (to_hex (tx_txid tx)) False of
           Inl r \<Rightarrow> (Inl r, nd\<lparr>nd_st := remove_transaction (nd_st nd) (tx_txid tx)\<rparr>)
         | Inr g \<Rightarrow> (Inr (tx_txid tx), nd\<lparr>nd_names := g\<rparr>))
      else (Inr (tx_txid tx), nd))"

definition accept_sent :: "env \<Rightarrow> tx \<Rightarrow> flag list \<Rightarrow> node \<Rightarrow> h256 res \<times> node" where
  "accept_sent ev tx staged nd =
     register_sent tx (nd\<lparr>nd_st := snd (add_transaction (nd_st nd) (mem_entry ev tx)), nd_flags := staged\<rparr>)"

definition rpc_sendtransaction :: "env \<Rightarrow> json \<Rightarrow> node \<Rightarrow> h256 res \<times> node" where
  "rpc_sendtransaction ev params nd =
     (let obj = as_object_param (ev_parse ev) params; st = nd_st nd; next_height = next_height_of st in
      if \<not> is_object obj then (Inl (TxErr Malformed_Tx), nd)
      else case parse_tx ev obj next_height of
          Inl r \<Rightarrow> (Inl r, nd)
        | Inr tx0 \<Rightarrow>
            let tx = resolve_output_names (ev_sha ev) (nd_names nd) tx0 in
            if has_transaction st (tx_txid tx) then (Inl (TxErr Duplicate_Tx), nd)
            else
              let prior = mempool_txs ev st; staged = fold (try_flag_tx next_height) prior (nd_flags nd) in
              if tx_inputs tx = [] then accept_sent ev tx staged nd
              else
                (case admit_tx ev st True next_height prior tx staged (nd_names nd) of
                   (Inl r, g) \<Rightarrow> (Inl r, nd\<lparr>nd_names := g\<rparr>)
                 | (Inr staged', g) \<Rightarrow>
                     if shares_input prior tx then (Inl (TxErr Duplicate_Tx), nd\<lparr>nd_names := g\<rparr>)
                     else accept_sent ev tx staged' (nd\<lparr>nd_names := g\<rparr>)))"

subsection \<open>mempool.json\<close>

definition save_mempool :: "env \<Rightarrow> storage \<Rightarrow> json" where
  "save_mempool ev st =
     JArray (List.map_filter (\<lambda>stored. ev_parse ev (string_of (mt_data stored))) (get_mempool_transactions st 1000))"

text \<open>One entry of the file: kept only if it passes the checks on the restored chain.\<close>

definition load_entry :: "env \<Rightarrow> u32 \<Rightarrow> json \<Rightarrow> node \<Rightarrow> node" where
  "load_entry ev height obj nd =
     (case parse_tx ev obj height of
        Inl _ \<Rightarrow> nd
      | Inr tx0 \<Rightarrow>
          let tx = resolve_output_names (ev_sha ev) (nd_names nd) tx0; st = nd_st nd; flags = nd_flags nd in
          if has_transaction st (tx_txid tx) then nd
          else if tx_inputs tx = [] then nd
          else if check_spendable st tx height [] (claim_release tx flags []) \<noteq> Inr () then nd
          else if verify_input_signatures ev st tx True [] \<noteq> Inr () then nd
          else if flag_outputs_ok ev st tx (flag_find flags (tx_flag_id tx)) [] \<noteq> Inr () then nd
          else (case apply_flag_tx flags tx height of
                  Inl _ \<Rightarrow> nd
                | Inr flags' \<Rightarrow>
                    nd\<lparr>nd_flags := flags', nd_st := snd (add_transaction st (mem_entry ev tx))\<rparr>))"

definition load_mempool :: "env \<Rightarrow> json option \<Rightarrow> node \<Rightarrow> node" where
  "load_mempool ev file nd =
     (case file of
        Some (JArray arr) \<Rightarrow> fold (load_entry ev (next_height_of (nd_st nd))) arr nd
      | _ \<Rightarrow> nd)"

end
