(* ===== verification/Mempool_Order.thy ===== *)
theory Mempool_Order
  imports Mempool "HOL-Library.Multiset"
begin

text \<open>
  The order of the mempool: the loop ends, loses and repeats nothing, and puts every parent before
  its children unless the transactions spend each other in a circle.
\<close>

definition depends :: "tx list \<Rightarrow> nat \<Rightarrow> nat \<Rightarrow> bool" where
  "depends txs i j \<longleftrightarrow> i < length txs \<and> j < length txs \<and> i \<noteq> j \<and> (\<exists>inp \<in> set (tx_inputs (txs ! i)). tx_txid (txs ! j) = ti_prev inp)"

lemma waiting_iff: "i < length txs \<Longrightarrow> waiting txs used i \<longleftrightarrow> (\<exists>j. depends txs i j \<and> \<not> used ! j)"
  unfolding waiting_def depends_def list_ex_iff by (auto simp: Bex_def)

lemma order_step_simps [simp]:
  "used ! i \<or> waiting txs used i \<Longrightarrow> order_step txs i (used, ordered, p) = (used, ordered, p)"
  "\<not> used ! i \<Longrightarrow> \<not> waiting txs used i \<Longrightarrow>
   order_step txs i (used, ordered, p) = (used[i := True], ordered @ [txs ! i], True)"
  by (auto simp: order_step_def)

text \<open>What the loop maintains: the placed transactions, by index, with parents first.\<close>

definition placed :: "tx list \<Rightarrow> bool list \<Rightarrow> nat list \<Rightarrow> bool" where
  "placed txs used ids \<longleftrightarrow> distinct ids \<and> length used = length txs \<and> set ids = {i. i < length txs \<and> used ! i} \<and>
     (\<forall>k < length ids. \<forall>j. depends txs (ids ! k) j \<longrightarrow> j \<in> set (take k ids))"

lemma placed_start: "placed txs (replicate (length txs) False) []"
  by (auto simp: placed_def)

lemma placed_step:
  assumes "placed txs used ids" "i < length txs" "\<not> used ! i" "\<not> waiting txs used i"
  shows "placed txs (used[i := True]) (ids @ [i])"
proof -
  have "j \<in> set ids" if "depends txs i j" for j
    using assms that by (auto simp: placed_def waiting_iff depends_def)
  moreover have "set (ids @ [i]) = {j. j < length txs \<and> used[i := True] ! j}"
    using assms by (auto simp: placed_def nth_list_update)
  ultimately show ?thesis
    using assms by (auto simp: placed_def nth_append less_Suc_eq)
qed

lemma order_steps_placed:
  assumes "\<forall>i \<in> set xs. i < length txs" "placed txs used ids" "ordered = map ((!) txs) ids"
    "fold (order_step txs) xs (used, ordered, p) = (used', ordered', p')"
  shows "\<exists>ids'. placed txs used' ids' \<and> ordered' = map ((!) txs) ids'"
  using assms
proof (induction xs arbitrary: used ordered p ids)
  case Nil
  then show ?case by auto
next
  case (Cons i xs)
  show ?case
  proof (cases "used ! i \<or> waiting txs used i")
    case True
    with Cons.prems Cons.IH [of used ids ordered p] show ?thesis by simp
  next
    case False
    with Cons.prems have "placed txs (used[i := True]) (ids @ [i])" by (simp add: placed_step)
    with False Cons.prems Cons.IH [of "used[i := True]" "ids @ [i]" "ordered @ [txs ! i]" True]
    show ?thesis by simp
  qed
qed

lemma order_steps_flag: "fold (order_step txs) xs (used, ordered, True) = (used', ordered', p') \<Longrightarrow> p'"
  by (induction xs arbitrary: used ordered) (auto simp: order_step_def split: if_splits)

lemma order_steps_stuck:
  "fold (order_step txs) xs (used, ordered, False) = (used', ordered', False) \<Longrightarrow>
   used' = used \<and> ordered' = ordered \<and> (\<forall>i \<in> set xs. used ! i \<or> waiting txs used i)"
proof (induction xs)
  case (Cons i xs)
  show ?case
  proof (cases "used ! i \<or> waiting txs used i")
    case True
    with Cons show ?thesis by simp
  next
    case False
    with Cons.prems have "fold (order_step txs) xs (used[i := True], ordered @ [txs ! i], True) = (used', ordered', False)"
      by simp
    then show ?thesis by (auto dest: order_steps_flag)
  qed
qed simp

lemma order_loop_result:
  assumes "placed txs used ids" "ordered = map ((!) txs) ids" "order_loop txs used ordered = (used', ordered')"
  shows "\<exists>ids'. placed txs used' ids' \<and> ordered' = map ((!) txs) ids' \<and>
    (length ordered' \<ge> length txs \<or> (\<forall>i < length txs. used' ! i \<or> waiting txs used' i))"
  using assms
proof (induction txs used ordered arbitrary: ids rule: order_loop.induct)
  case (1 txs used ordered)
  obtain u r p where pass: "order_pass txs used ordered = (u, r, p)" by (metis prod_cases3)
  show ?case
  proof (cases "length ordered < length txs")
    case False
    with 1 show ?thesis by (auto simp: not_less)
  next
    case True
    from pass 1(2,3) obtain ids' where ids': "placed txs u ids'" "r = map ((!) txs) ids'"
      using order_steps_placed [of "[0..<length txs]" txs used ids ordered False u r p]
      by (auto simp: order_pass_def)
    show ?thesis
    proof (cases p)
      case True
      with 1(1) [OF \<open>length ordered < length txs\<close> pass [symmetric] refl True ids'] 1(4) pass \<open>length ordered < length txs\<close>
      show ?thesis by simp
    next
      case False
      with 1(4) pass True have "used' = u" "ordered' = r" by simp_all
      with False pass order_steps_stuck [of txs "[0..<length txs]" used ordered u r] ids'
      show ?thesis by (auto simp: order_pass_def)
    qed
  qed
qed

lemma order_txs_indices:
  obtains ids used where "placed txs used ids"
    "order_txs txs = map ((!) txs) (ids @ filter (\<lambda>i. \<not> used ! i) [0..<length txs])"
    "length ids \<ge> length txs \<or> (\<forall>i < length txs. used ! i \<or> waiting txs used i)"
proof -
  obtain u r where l: "order_loop txs (replicate (length txs) False) [] = (u, r)" by fastforce
  from order_loop_result [OF placed_start _ this] obtain ids where
    "placed txs u ids" "r = map ((!) txs) ids"
    "length r \<ge> length txs \<or> (\<forall>i < length txs. u ! i \<or> waiting txs u i)"
    by auto
  with l that show thesis by (simp add: order_txs_def)
qed

lemma placed_perm:
  assumes "placed txs used ids"
  shows "distinct (ids @ filter (\<lambda>i. \<not> used ! i) [0..<length txs])"
    "set (ids @ filter (\<lambda>i. \<not> used ! i) [0..<length txs]) = {0..<length txs}"
  using assms by (auto simp: placed_def)

lemma placed_all:
  assumes "placed txs used ids" "\<forall>i j. depends txs i j \<longrightarrow> rank j < (rank i :: nat)"
    "length ids \<ge> length txs \<or> (\<forall>i < length txs. used ! i \<or> waiting txs used i)"
  shows "\<forall>i < length txs. used ! i"
  using assms(3)
proof
  assume "length ids \<ge> length txs"
  moreover from assms(1) have "set ids \<subseteq> {..<length txs}" by (auto simp: placed_def)
  moreover from assms(1) have "distinct ids" by (simp add: placed_def)
  then have "card (set ids) = length ids" by (rule distinct_card)
  ultimately have "set ids = {..<length txs}"
    by (metis card_lessThan card_subset_eq card_mono finite_lessThan le_antisym)
  with assms(1) show ?thesis by (auto simp: placed_def)
next
  assume w: "\<forall>i < length txs. used ! i \<or> waiting txs used i"
  have "used ! i" if "i < length txs" for i
    using that
  proof (induction "rank i" arbitrary: i rule: less_induct)
    case less
    show ?case
    proof (rule ccontr)
      assume "\<not> used ! i"
      with w less.prems obtain j where j: "depends txs i j" "\<not> used ! j"
        by (auto simp: waiting_iff)
      with assms(2) less.hyps [of j] show False by (auto simp: depends_def)
    qed
  qed
  then show ?thesis by blast
qed

text \<open>C13: The mempool order is complete and puts parents first. The ordering loop returns every parsed
  transaction exactly once; and unless transactions spend each other in a circle, each one comes after
  all the others of the pool whose outputs it spends.\<close>

theorem mempool_order:
  assumes "\<forall>i j. depends txs i j \<longrightarrow> rank j < (rank i :: nat)"
  shows "mset (order_txs txs) = mset txs \<and>
    (\<forall>k m. k < length txs \<and> m < length txs \<and> m \<noteq> k \<and>
       (\<exists>inp \<in> set (tx_inputs (order_txs txs ! k)). tx_txid (order_txs txs ! m) = ti_prev inp) \<longrightarrow> m < k)"
proof -
  obtain ids used where p: "placed txs used ids"
    and os: "order_txs txs = map ((!) txs) (ids @ filter (\<lambda>i. \<not> used ! i) [0..<length txs])"
    and e: "length ids \<ge> length txs \<or> (\<forall>i < length txs. used ! i \<or> waiting txs used i)"
    by (rule order_txs_indices)
  let ?is = "ids @ filter (\<lambda>i. \<not> used ! i) [0..<length txs]"
  have "mset ?is = mset [0..<length txs]"
    using placed_perm [OF p] by (subst set_eq_iff_mset_eq_distinct [symmetric]) auto
  then have "mset (map ((!) txs) ?is) = mset (map ((!) txs) [0..<length txs])"
    by (metis mset_map)
  then have m: "mset (order_txs txs) = mset txs" by (simp only: os map_nth)
  from placed_all [OF p assms e] have "filter (\<lambda>i. \<not> used ! i) [0..<length txs] = []"
    by (auto simp: filter_empty_conv)
  with os have os': "order_txs txs = map ((!) txs) ids" by simp
  have len: "length ids = length txs"
    using mset_eq_length [OF m] by (simp add: os')
  have "m < k" if k: "k < length txs" "m < length txs" "m \<noteq> k"
    and inp: "inp \<in> set (tx_inputs (order_txs txs ! k))" "tx_txid (order_txs txs ! m) = ti_prev inp" for k m inp
  proof -
    from k len have "ids ! m \<in> set ids" "ids ! k \<in> set ids" by simp_all
    with p have "ids ! m < length txs" "ids ! k < length txs" by (auto simp: placed_def)
    moreover from p k len have "ids ! m \<noteq> ids ! k" by (simp add: placed_def nth_eq_iff_index_eq)
    ultimately have "depends txs (ids ! k) (ids ! m)" using inp k len by (auto simp: depends_def os')
    with p k len have "ids ! m \<in> set (take k ids)" by (simp add: placed_def)
    then obtain l where "l < k" "ids ! l = ids ! m" using k len by (auto simp: in_set_conv_nth)
    with p k len show ?thesis by (auto simp: placed_def nth_eq_iff_index_eq)
  qed
  with m show ?thesis by blast
qed

definition demo_child :: tx where
  "demo_child = tx_default\<lparr>tx_txid := replicate 32 2, tx_inputs := [\<lparr>ti_prev = replicate 32 1, ti_vout = 0,
     ti_signature_hex = [], ti_public_key_hex = []\<rparr>]\<rparr>"

definition demo_parent :: tx where
  "demo_parent = tx_default\<lparr>tx_txid := replicate 32 1\<rparr>"

lemma mempool_order_witness: "mset (order_txs [demo_child, demo_parent]) = mset [demo_child, demo_parent]"
proof -
  have "\<forall>i j. depends [demo_child, demo_parent] i j \<longrightarrow> (if j = 0 then 1 else 0) < (if i = 0 then 1 else (0 :: nat))"
    by (auto simp: depends_def demo_child_def demo_parent_def tx_default_def less_Suc_eq nth_Cons')
  from mempool_order [OF this] show ?thesis by blast
qed

end
