(* ===== verification/Mempool_Send.thy ===== *)
theory Mempool_Send
  imports Mempool Names_Files
begin

text \<open>
  What \<open>rpc_sendtransaction\<close> changes: a rejection leaves the ledger, the mempool and the name
  bindings as they were, and a registration without inputs is accepted without any check of a
  signature, a fee or a grant.
\<close>

lemma resolve_output_simps [simp]:
  "tx_inputs (resolve_output_names H g tx) = tx_inputs tx"
  "tx_reg (resolve_output_names H g tx) = tx_reg tx"
  "tx_name (resolve_output_names H g tx) = tx_name tx"
  "tx_reg_address (resolve_output_names H g tx) = tx_reg_address tx"
  by (simp_all add: resolve_output_names_def Let_def)

text \<open>A name can be taken without paying or signing. A registration whose list of inputs is empty
  skips every check of \<open>rpc_sendtransaction\<close>: any well-formed free name, reserved ones included and
  without a grant, is bound at once to any address that has no name.\<close>

theorem send_registers_unsigned:
  assumes "is_object obj" "parse_tx ev obj (next_height_of (nd_st nd)) = Inr tx0"
    "tx = resolve_output_names (ev_sha ev) (nd_names nd) tx0" "tx_inputs tx0 = []" "tx_reg tx" "\<not> has_transaction (nd_st nd) (tx_txid tx)"
    "valid_shortname (tx_name tx)" "is_long_address (tx_reg_address tx)"
    "find_name (nd_names nd) (tx_name tx) = None" "find_address (nd_names nd) (tx_reg_address tx) = None"
  shows "fst (rpc_sendtransaction ev obj nd) = Inr (tx_txid tx) \<and>
    map_option fst (lookup_name (nd_names (snd (rpc_sendtransaction ev obj nd))) (tx_name tx)) = Some (tx_reg_address tx)"
proof -
  have o: "as_object_param (ev_parse ev) obj = obj" using assms(1) by (simp add: as_object_param_def)
  obtain g where g: "remember_name (nd_names nd) (tx_name tx) (tx_reg_address tx) (reg_kind (tx_name tx))
      (to_hex (tx_txid tx)) False = Inr g"
    using assms(7-10) by (simp add: remember_name_def taken_by_other_def canonical_name_def Let_def)
  have "map_option fst (lookup_name g (tx_name tx)) = Some (tx_reg_address tx)"
    using remember_find(2) [OF g] by (auto simp: lookup_name_def)
  then show ?thesis
    using assms(1-6) g
    by (simp add: rpc_sendtransaction_def o Let_def accept_sent_def register_sent_def)
qed

definition demo_grab :: json where
  "demo_grab = JObject [(''version'', JUint 1), (''fee'', JString ''0.001''), (''type'', JString ''register''),
     (''name'', JString ''foundation''), (''address'', JString (demo_addr CHR ''a'')),
     (''inputs'', JArray []),
     (''outputs'', JArray [txout_to_json \<lparr>to_value = 1, to_address = ''bob''\<rparr>])]"

definition demo_node :: node where
  "demo_node = \<lparr>nd_st = storage_new [], nd_names = [], nd_flags = [], nd_chal = no_challenges, nd_template = 0\<rparr>"

definition grab_env :: env where
  "grab_env = \<lparr>ev_sha = (\<lambda>_. replicate 32 7), ev_evp = (\<lambda>_ _ _. False), ev_parse = (\<lambda>_. None), ev_dump = (\<lambda>_. []),
     ev_wallet = (\<lambda>_. None), ev_names_file = None, ev_now = 0,
     ev_opened = True, ev_float = (\<lambda>_. 0)\<rparr>"

definition grab_tx :: tx where
  "grab_tx = tx_default\<lparr>tx_fee := 1, tx_reg := True, tx_name := ''foundation'', tx_reg_address := demo_addr CHR ''a'',
     tx_outputs := [\<lparr>to_value = 1, to_address = ''bob''\<rparr>], tx_txid := replicate 32 7\<rparr>"

lemma grab_parse: "parse_tx grab_env demo_grab 1 = Inr grab_tx"
proof -
  have "parse_314st_pi ''0.001'' = Inr 1000" by code_simp
  moreover have "\<not> (3000 :: u32) \<le> 1" by (simp add: word_le_nat_alt)
  ultimately have fee: "stored_from_json_amount (JString ''0.001'') 1 True = Inr 1"
    by (simp add: stored_from_json_amount_def emission_consts stored_checked_def min_fee_for_height_def)
  have low: "fold_ps1_case (demo_addr CHR ''a'') = demo_addr CHR ''a''"
    by (simp add: fold_ps1_case_def demo_addr_def lower_hex_def in_range_def lower_ascii_def)
  have "length (canonical_tx (tx_default\<lparr>tx_fee := 1, tx_reg := True, tx_name := ''foundation'',
      tx_reg_address := demo_addr CHR ''a'', tx_inputs := [],
      tx_outputs := [\<lparr>to_value = 1, to_address = ''bob''\<rparr>]\<rparr>)) \<le> kMaxTxBytes"
    by (simp add: canonical_tx_def Let_def layout append_text_def tx_default_def demo_addr_def kMaxTxBytes_def zero256_def
        str16_def)
  moreover have "parse_outputs (JArray [txout_to_json \<lparr>to_value = 1, to_address = ''bob''\<rparr>]) 1 =
      Inr [\<lparr>to_value = 1, to_address = ''bob''\<rparr>]"
    by (simp add: parse_outputs_def parse_output_def txout_to_json_def jstring_def
        stored_from_json_amount_def stored_checked_def)
  ultimately show ?thesis
    using fee low
    by (simp add: parse_user_tx_def demo_grab_def grab_tx_def kMaxTxJsonBytes_def juint_def jstring_def dump_size_def
        grab_env_def parse_typed_def parse_body_def parse_inputs_def kMaxTxInputs_def Let_def)
      (simp add: tx_default_def)
qed

lemma send_registers_unsigned_witness:
  "map_option fst (lookup_name (nd_names (snd (rpc_sendtransaction grab_env demo_grab demo_node))) ''foundation'') =
     Some (demo_addr CHR ''a'')"
proof -
  have h: "next_height_of (nd_st demo_node) = 1"
    by (simp add: demo_node_def next_height_of_def has_tip_def storage_new_def)
  have "valid_shortname ''foundation''"
    by (simp add: valid_shortname_def is_letter_def name_char_def in_range_def)
  moreover have "resolve_output_names (ev_sha grab_env) (nd_names demo_node) grab_tx = grab_tx"
    by (simp add: resolve_output_names_def resolve_address_def lookup_name_def find_name_def demo_node_def grab_tx_def Let_def)
  moreover have "is_object demo_grab" by (simp add: demo_grab_def)
  ultimately show ?thesis
    using send_registers_unsigned [of demo_grab grab_env demo_node grab_tx grab_tx] h grab_parse
    by (simp add: grab_tx_def tx_default_def demo_node_def storage_new_def
        has_transaction_def tbl_get_def find_name_def find_address_def)
qed

subsection \<open>Rejections\<close>

definition same_bindings :: "book \<Rightarrow> book \<Rightarrow> bool" where
  "same_bindings g g' \<longleftrightarrow> (\<forall>q r. find_name g q = Some r \<longrightarrow>
     (\<exists>r'. find_name g' q = Some r' \<and> nm_address r' = nm_address r))"

lemma same_bindings_refl [simp]: "same_bindings g g"
  by (simp add: same_bindings_def)

lemma same_bindings_try [simp]: "same_bindings g (try_remember g name address kind txid False)"
  by (simp add: same_bindings_def try_remember_keeps)

lemma grant_bindings: "same_bindings g (snd (grant_matches file g name address))"
proof -
  have "snd (grant_matches file g name address) = g \<or>
      snd (grant_matches file g name address) = try_remember g name address ''reserved_bind'' [] False"
    by (auto simp: grant_matches_def split: option.splits)
  then show ?thesis by (elim disjE) simp_all
qed

lemma admit_register_bindings: "same_bindings g (snd (admit_register ev st g tx k prior))"
proof (cases "is_reserved_name (tx_name tx) \<and> k")
  case True
  then show ?thesis
    using grant_bindings [of g "ev_names_file ev" "tx_name tx" "tx_reg_address tx"]
    by (auto simp: admit_register_def split: sum.splits option.splits prod.splits)
qed (auto simp: admit_register_def split: sum.splits option.splits)

lemma admit_tx_bindings: "same_bindings g (snd (admit_tx ev st k h prior tx flags g))"
  using admit_register_bindings [of g ev st tx k prior]
  by (cases "admit_register ev st g tx k prior") (auto simp: admit_tx_def split: sum.splits)

text \<open>Two storages that answer every query alike; the mempool table may be listed in another order.\<close>

definition same_storage :: "storage \<Rightarrow> storage \<Rightarrow> bool" where
  "same_storage st st' \<longleftrightarrow> st' = st\<lparr>st_mempool := st_mempool st'\<rparr> \<and> (\<forall>h. get_transaction st' h = get_transaction st h)"

lemma same_storage_refl [simp]: "same_storage st st"
  by (simp add: same_storage_def)

lemma put_then_remove:
  "\<not> has_transaction st (mt_hash m) \<Longrightarrow>
   same_storage st (remove_transaction (snd (add_transaction st m)) (mt_hash m))"
  by (simp add: same_storage_def remove_transaction_def add_transaction_def get_transaction_def has_transaction_def
      tbl.get_put tbl.get_del)

lemma accept_sent_reject:
  assumes "accept_sent ev tx staged nd = (Inl r, nd')" "\<not> has_transaction (nd_st nd) (tx_txid tx)"
  shows "nd_chal nd' = nd_chal nd \<and> same_storage (nd_st nd) (nd_st nd') \<and> nd_names nd' = nd_names nd \<and> (\<exists>e. r = NameErr e)"
proof -
  have "\<exists>e. r' = NameErr e" if "remember_name g n a k t ow = Inl r'" for g n a k t ow r'
    using that by (auto simp: remember_name_def Let_def split: if_splits option.splits)
  then show ?thesis
    using assms put_then_remove [of "nd_st nd" "mem_entry ev tx"]
    by (auto simp: accept_sent_def register_sent_def mem_entry_def split: if_splits sum.splits)
qed



end
