(* ===== verification/Block.thy ===== *)
theory Block
  imports Mempool
begin

text \<open>
  The acceptance of a block, \<open>rpc_submitblock\<close> (chain_rpc.cpp): the stages of the check in the
  order of the code, and the update of the node when all pass. A stage returns \<open>Go\<close> its result,
  \<open>Stop\<close> the reason of the rejection, or \<open>Thrown\<close> when the JSON library throws out of the
  function. The last stage's failures of the UTXO update are only logged by the code, which goes
  on; so does the model.
\<close>

datatype 'a stage = Thrown | Stop reason | Go 'a

fun and_then :: "'a stage \<Rightarrow> ('a \<Rightarrow> 'b stage) \<Rightarrow> 'b stage" where
  "and_then Thrown f = Thrown"
| "and_then (Stop r) f = Stop r"
| "and_then (Go x) f = f x"

fun of_res :: "'a res \<Rightarrow> 'a stage" where
  "of_res (Inl r) = Stop r"
| "of_res (Inr x) = Go x"

definition require :: "bool \<Rightarrow> reason \<Rightarrow> unit stage" where
  "require b r = (if b then Go () else Stop r)"

definition need :: "'a option \<Rightarrow> reason \<Rightarrow> 'a stage" where
  "need x r = (case x of None \<Rightarrow> Stop r | Some y \<Rightarrow> Go y)"

lemma and_then_Go [simp]: "and_then m f = Go y \<longleftrightarrow> (\<exists>x. m = Go x \<and> f x = Go y)"
  by (cases m) simp_all

lemma of_res_Go [simp]: "of_res r = Go x \<longleftrightarrow> r = Inr x"
  by (cases r) simp_all

lemma require_Go [simp]: "require b r = Go u \<longleftrightarrow> b"
  by (simp add: require_def)

lemma need_Go [simp]: "need x r = Go y \<longleftrightarrow> x = Some y"
  by (simp add: need_def split: option.splits)

definition kMaxBlockBytes :: nat where "kMaxBlockBytes = 256 * 1024"

subsection \<open>The fields of the request\<close>

record fields =
  sb_block :: json
  sb_proof :: json
  sb_model :: string
  sb_serial :: h256
  sb_height :: u32
  sb_nonce :: u64
  sb_timestamp :: u64
  sb_difficulty :: u32
  sb_prev_hex :: string
  sb_merkle_hex :: string
  sb_hash_hex :: string
  sb_coinbase :: json
  sb_wallet :: string

definition jobject :: "json \<Rightarrow> string \<Rightarrow> json option" where
  "jobject obj k = (case jget obj k of None \<Rightarrow> None | Some v \<Rightarrow> if is_object v then Some v else None)"

definition submit_proof :: "json \<Rightarrow> (json \<times> string \<times> h256) stage" where
  "submit_proof block =
     and_then (need (jobject block ''hw_proof'') (HwErr Missing_Hw_Proof)) (\<lambda>proof.
     and_then (need (jstring proof ''model'') (HwErr Bad_Model)) (\<lambda>model.
     and_then (require (official_pi_model model) (HwErr Bad_Model)) (\<lambda>_.
     and_then (need (jstring proof ''serial_commitment'') (HwErr Bad_Commitment)) (\<lambda>commitment.
     and_then (need (from_hex commitment) (HwErr Bad_Commitment)) (\<lambda>serial.
     and_then (require (\<not> is_zero serial) (HwErr Bad_Commitment)) (\<lambda>_.
       Go (proof, model, serial)))))))"

definition submit_fields :: "json \<Rightarrow> fields stage" where
  "submit_fields block =
     and_then (require (is_object block \<and> block \<noteq> JObject []) (HeaderErr Missing_Block)) (\<lambda>_.
     and_then (submit_proof block) (\<lambda>(proof, model, serial).
     and_then (need (juint block ''version'') (HeaderErr Version_Invalid)) (\<lambda>version.
     and_then (require ((ucast version :: u32) = 1) (HeaderErr Version_Invalid)) (\<lambda>_.
     and_then (need (juint block ''height'') (HeaderErr Height_Not_Next)) (\<lambda>height.
     and_then (need (juint block ''nonce'') (HeaderErr Nonce_Invalid)) (\<lambda>nonce.
     and_then (need (juint block ''timestamp'') (HeaderErr Timestamp_Invalid)) (\<lambda>timestamp.
     and_then (need (juint block ''difficulty'') (HeaderErr Difficulty_Mismatch)) (\<lambda>difficulty.
     and_then (need (jstring block ''prev_block_hash'') (HeaderErr Prev_Not_Tip)) (\<lambda>prev_hex.
     and_then (need (jstring block ''merkle_root'') (HeaderErr Merkle_Mismatch)) (\<lambda>merkle_hex.
     and_then (need (jstring block ''hash'') (HeaderErr Pihash_Missing)) (\<lambda>hash_hex.
     and_then (need (jobject block ''coinbase'') (CoinbaseErr Coinbase_Missing)) (\<lambda>coinbase.
     and_then (need (jstring coinbase ''wallet'') (CoinbaseErr Wallet_Missing)) (\<lambda>wallet.
     and_then (require (wallet \<noteq> [] \<and> length wallet \<le> 256) (CoinbaseErr Wallet_Missing)) (\<lambda>_.
       Go \<lparr>sb_block = block, sb_proof = proof, sb_model = model, sb_serial = serial,
           sb_height = ucast height, sb_nonce = nonce, sb_timestamp = timestamp,
           sb_difficulty = ucast difficulty, sb_prev_hex = prev_hex, sb_merkle_hex = merkle_hex,
           sb_hash_hex = hash_hex, sb_coinbase = coinbase, sb_wallet = wallet\<rparr>))))))))))))))"

text \<open>The miner: shown name and payout address. A synced block may carry any literal wallet.\<close>

definition submit_miner :: "book \<Rightarrow> fields \<Rightarrow> bool \<Rightarrow> (string \<times> string) stage" where
  "submit_miner g f require_local_policy =
     (case resolve_miner g (sb_wallet f) of
        Inr (shown, payout) \<Rightarrow> Go (shown, payout)
      | Inl why \<Rightarrow>
          if \<not> require_local_policy then Go (sb_wallet f, sb_wallet f)
          else Stop (if why = NameErr Wallet_Required then CoinbaseErr Wallet_Missing else why))"

subsection \<open>The place in the chain\<close>

definition expect_prev :: "storage \<Rightarrow> h256" where
  "expect_prev st = (if has_tip st then st_best_hash st else zero256)"

definition submit_challenge ::
  "env \<Rightarrow> challenges \<Rightarrow> fields \<Rightarrow> h256 \<Rightarrow> bool \<Rightarrow> (string \<times> string) stage" where
  "submit_challenge ev ch f prev require_local_policy =
     (if sb_height f \<ge> 4 then
        and_then (need (jstring (sb_proof f) ''challenge'') (HwErr Challenge_Missing)) (\<lambda>given.
        and_then (require (given \<noteq> []) (HwErr Challenge_Missing)) (\<lambda>_.
        and_then (need (from_hex (lower_hex given)) (HwErr Challenge_Mismatch)) (\<lambda>raw.
        and_then (require (\<not> require_local_policy \<or> challenge_was_issued (lower_hex given) (to_hex prev) ch)
                    (HwErr Challenge_Mismatch)) (\<lambda>_.
        and_then (need (jstring (sb_proof f) ''serial'') (HwErr Serial_Malformed)) (\<lambda>serial_text.
        and_then (require (pi_serial_text serial_text) (HwErr Serial_Malformed)) (\<lambda>_.
        and_then (require (ev_sha ev (bytes_of serial_text @ raw) = sb_serial f) (HwErr Serial_Unbound)) (\<lambda>_.
          Go (lower_hex given, serial_text))))))))
      else Go ([], []))"

text \<open>\<open>coinbase.value("height", 0u)\<close> converts any number or boolean and throws on the rest.\<close>

definition value_u32 :: "env \<Rightarrow> json \<Rightarrow> string \<Rightarrow> u32 \<Rightarrow> u32 option" where
  "value_u32 ev obj k dflt =
     (case jget obj k of
        None \<Rightarrow> Some dflt
      | Some (JUint n) \<Rightarrow> Some (ucast n)
      | Some (JNegint n) \<Rightarrow> Some (ucast n)
      | Some (JFloat d) \<Rightarrow> Some (ucast (ev_float ev d))
      | Some (JBool b) \<Rightarrow> Some (if b then 1 else 0)
      | Some _ \<Rightarrow> None)"

definition parent_time :: "storage \<Rightarrow> u64 option" where
  "parent_time st =
     (if has_tip st then map_option bh_timestamp (get_header_by_hash st (st_best_hash st)) else Some 0)"

definition submit_link ::
  "env \<Rightarrow> node \<Rightarrow> fields \<Rightarrow> bool \<Rightarrow> (h256 \<times> string \<times> string) stage" where
  "submit_link ev nd f require_local_policy =
     (let st = nd_st nd in
      and_then (need (from_hex (sb_prev_hex f)) (HeaderErr Prev_Not_Tip)) (\<lambda>prev.
      and_then (require (prev = expect_prev st) (HeaderErr Prev_Not_Tip)) (\<lambda>_.
      and_then (require (sb_height f = next_height_of st) (HeaderErr Height_Not_Next)) (\<lambda>_.
      and_then (submit_challenge ev (nd_chal nd) f prev require_local_policy) (\<lambda>(challenge, serial_text).
      and_then (require (sb_difficulty f = next_difficulty st) (HeaderErr Difficulty_Mismatch)) (\<lambda>_.
      and_then (need (parent_time st) (HeaderErr Timestamp_Invalid)) (\<lambda>parent.
      and_then (require (sb_timestamp f > parent \<and> sb_timestamp f \<le> ev_now ev + 120)
                  (HeaderErr Timestamp_Invalid)) (\<lambda>_.
      (case value_u32 ev (sb_coinbase f) ''height'' 0 of
         None \<Rightarrow> Thrown
       | Some h \<Rightarrow>
           and_then (require (h = sb_height f) (CoinbaseErr Coinbase_Missing)) (\<lambda>_.
             Go (prev, challenge, serial_text)))))))))))"

subsection \<open>Transactions and coinbase\<close>

definition submit_txs :: "env \<Rightarrow> book \<Rightarrow> fields \<Rightarrow> (tx list) stage" where
  "submit_txs ev g f =
     (case jget (sb_block f) ''txs'' of
        None \<Rightarrow> Go []
      | Some JNull \<Rightarrow> Go []
      | Some (JArray items) \<Rightarrow>
          and_then (of_res (map_res (\<lambda>txj. parse_tx ev txj (sb_height f)) items)) (\<lambda>txs.
            Go (map (resolve_output_names (ev_sha ev) g) txs))
      | Some _ \<Rightarrow> Stop (TxErr Malformed_Tx))"

definition fee_total :: "tx list \<Rightarrow> u64" where
  "fee_total txs = fold (\<lambda>tx v. v + tx_fee tx) txs 0"

definition units_of :: "json \<Rightarrow> u64 option" where
  "units_of item =
     (case juint item ''units'' of Some n \<Rightarrow> Some n | None \<Rightarrow> juint item ''value'')"

definition coinbase_output :: "string \<Rightarrow> json \<Rightarrow> cb_out res" where
  "coinbase_output payout item =
     (if \<not> is_object item then Inl (CoinbaseErr Coinbase_Missing)
      else case (jstring item ''role'', jstring item ''address'') of
          (Some role, Some address) \<Rightarrow>
            (case units_of item of
               None \<Rightarrow> Inl (CoinbaseErr Coinbase_Missing)
             | Some units \<Rightarrow>
                 if address = [] then Inl (CoinbaseErr Coinbase_Missing)
                 else if role = ''miner'' \<and> address \<noteq> payout then Inl (CoinbaseErr Wallet_Missing)
                 else Inr \<lparr>cb_role = role, cb_address = address, cb_units = units\<rparr>)
        | _ \<Rightarrow> Inl (CoinbaseErr Coinbase_Missing))"

definition coinbase_outputs :: "string \<Rightarrow> json \<Rightarrow> (cb_out list) res" where
  "coinbase_outputs payout coinbase =
     (case jarray coinbase ''outputs'' of
        Some items \<Rightarrow> map_res (coinbase_output payout) items
      | None \<Rightarrow>
          (case juint coinbase ''value'' of
             Some v \<Rightarrow> Inr [\<lparr>cb_role = ''miner'', cb_address = payout, cb_units = v\<rparr>]
           | None \<Rightarrow> Inl (CoinbaseErr Coinbase_Missing)))"

record paid =
  pd_miner :: u64
  pd_validator :: u64
  pd_stakers :: u64
  pd_loans :: u64
  pd_foundation :: u64

text \<open>The sums per role, in 64-bit arithmetic.\<close>

fun paid_totals :: "cb_out list \<Rightarrow> paid \<Rightarrow> paid res" where
  "paid_totals [] p = Inr p"
| "paid_totals (out # outs) p =
     (if cb_role out = ''burn'' then Inl (CoinbaseErr Emission_Exceeded)
      else if cb_role out = ''miner'' then paid_totals outs (p\<lparr>pd_miner := pd_miner p + cb_units out\<rparr>)
      else if cb_role out = ''validator''
      then paid_totals outs (p\<lparr>pd_validator := pd_validator p + cb_units out\<rparr>)
      else if cb_role out = ''stakers''
      then paid_totals outs (p\<lparr>pd_stakers := pd_stakers p + cb_units out\<rparr>)
      else if cb_role out = ''loans'' then paid_totals outs (p\<lparr>pd_loans := pd_loans p + cb_units out\<rparr>)
      else if cb_role out = ''foundation'' then
        (if cb_address out \<noteq> kFoundationPayout then Inl (CoinbaseErr Foundation_Address)
         else paid_totals outs (p\<lparr>pd_foundation := pd_foundation p + cb_units out\<rparr>))
      else Inl (CoinbaseErr Emission_Exceeded))"

definition paid_none :: paid where
  "paid_none = \<lparr>pd_miner = 0, pd_validator = 0, pd_stakers = 0, pd_loans = 0, pd_foundation = 0\<rparr>"

definition check_coinbase :: "u32 \<Rightarrow> u64 \<Rightarrow> cb_out list \<Rightarrow> unit res" where
  "check_coinbase height fee_units cb_outs =
     (case paid_totals cb_outs paid_none of
        Inl r \<Rightarrow> Inl r
      | Inr p \<Rightarrow>
          let emit = emission_for height fee_units in
          if pd_stakers p > em_stakers emit \<or> pd_loans p > em_loans emit \<or> pd_foundation p \<noteq> em_foundation emit
          then Inl (CoinbaseErr Emission_Exceeded)
          else (case coinbase_subsidy_ok height fee_units (pd_miner p) (pd_validator p) of
                  Inl r \<Rightarrow> Inl r
                | Inr _ \<Rightarrow>
                    if height \<ge> kMiner216ActivationHeight \<and>
                       list_ex (\<lambda>out. cb_role out = ''validator'' \<and> \<not> is_ps1_payout (cb_address out)) cb_outs
                    then Inl (CoinbaseErr Validator_Address) else Inr ()))"

definition coinbase_from :: "(bytes \<Rightarrow> h256) \<Rightarrow> u32 \<Rightarrow> cb_out list \<Rightarrow> tx" where
  "coinbase_from H height outs =
     (let tx = tx_default\<lparr>tx_coinbase := True, tx_height := height, tx_fee := 0,
                tx_outputs := map (\<lambda>out. \<lparr>to_value = cb_units out, to_address = cb_address out\<rparr>)
                                (filter (\<lambda>out. cb_units out \<noteq> 0) outs)\<rparr>
      in tx\<lparr>tx_txid := txid_of H tx\<rparr>)"

definition submit_coinbase :: "env \<Rightarrow> fields \<Rightarrow> string \<Rightarrow> tx list \<Rightarrow> (cb_out list \<times> tx) stage" where
  "submit_coinbase ev f payout txs =
     and_then (of_res (coinbase_outputs payout (sb_coinbase f))) (\<lambda>cb_outs.
     and_then (of_res (check_coinbase (sb_height f) (fee_total txs) cb_outs)) (\<lambda>_.
       let cb = coinbase_from (ev_sha ev) (sb_height f) cb_outs in
     and_then (require (tx_outputs cb \<noteq> []) (CoinbaseErr Coinbase_Missing)) (\<lambda>_.
     and_then (require (case jstring (sb_coinbase f) ''txid'' of
                          Some t \<Rightarrow> t = to_hex (tx_txid cb) | None \<Rightarrow> True)
                (CoinbaseErr Coinbase_Missing)) (\<lambda>_.
       Go (cb_outs, cb)))))"

text \<open>The transactions one after the other, each on top of those before it.\<close>

fun admit_txs ::
  "env \<Rightarrow> storage \<Rightarrow> bool \<Rightarrow> u32 \<Rightarrow> tx list \<Rightarrow> tx list \<Rightarrow> flag list \<Rightarrow> book \<Rightarrow> (flag list) res \<times> book" where
  "admit_txs ev st k height prior [] flags g = (Inr flags, g)"
| "admit_txs ev st k height prior (tx # txs) flags g =
     (case admit_tx ev st k height prior tx flags g of
        (Inl r, g') \<Rightarrow> (Inl r, g')
      | (Inr flags', g') \<Rightarrow> admit_txs ev st k height (prior @ [tx]) txs flags' g')"

subsection \<open>Proof of work\<close>

definition block_digest :: "env \<Rightarrow> fields \<Rightarrow> h256 \<Rightarrow> h256 \<Rightarrow> h256" where
  "block_digest ev f prev root =
     (if sb_height f \<ge> 5
      then pihash_v2 1 prev root (sb_timestamp f) (sb_difficulty f) (sb_nonce f) (sb_model f) (sb_serial f)
      else pihash_v1 (ev_sha ev) 1 prev root (sb_timestamp f) (sb_difficulty f) (sb_nonce f) (sb_model f)
             (sb_serial f))"

definition submit_work :: "env \<Rightarrow> fields \<Rightarrow> h256 \<Rightarrow> tx list \<Rightarrow> (h256 \<times> h256) stage" where
  "submit_work ev f prev all_txs =
     (let root = merkle_root (ev_sha ev) (map tx_txid all_txs) in
      and_then (require (from_hex (sb_merkle_hex f) = Some root) (HeaderErr Merkle_Mismatch)) (\<lambda>_.
      and_then (require (sb_height f < 5 \<or>
                  (case jobject (sb_block f) ''pihash'' of
                     Some p \<Rightarrow> jstring p ''algorithm'' = Some ''pihash2'' | None \<Rightarrow> False))
                 (HeaderErr Pihash_Algorithm)) (\<lambda>_.
        let digest = block_digest ev f prev root in
      and_then (need (from_hex (sb_hash_hex f)) (HeaderErr Pihash_Missing)) (\<lambda>claimed.
      and_then (require (claimed = digest) (HeaderErr Pihash_Mismatch)) (\<lambda>_.
      and_then (require (validate_block_pow digest (sb_difficulty f)) (HeaderErr Pihash_Weak)) (\<lambda>_.
        Go (root, digest)))))))"

end
