(* ===== verification/Submit.thy ===== *)
theory Submit
  imports Block
begin

text \<open>
  \<open>rpc_submitblock\<close> as a whole (chain_rpc.cpp): the stages of theory Block one after the other, the
  JSON text of the block that is stored, and the update of storage, UTXO set, mempool, names, flags
  and challenges. The gossip to the peers and the log are not modelled; the files names.json and
  mempool.json that are written afterwards are \<open>save_names\<close> and \<open>save_mempool\<close> of the new state.
\<close>

record head =
  bk_fields :: fields
  bk_wallet :: string
  bk_prev :: h256
  bk_challenge :: string
  bk_serial_text :: string
  bk_txs :: "tx list"
  bk_outs :: "cb_out list"
  bk_cb :: tx

definition submit_head :: "env \<Rightarrow> node \<Rightarrow> bool \<Rightarrow> json \<Rightarrow> head stage" where
  "submit_head ev nd require_local_policy block =
     and_then (submit_fields block) (\<lambda>f.
     and_then (submit_miner (nd_names nd) f require_local_policy) (\<lambda>(shown, payout).
     and_then (submit_link ev nd f require_local_policy) (\<lambda>(prev, challenge, serial_text).
     and_then (submit_txs ev (nd_names nd) f) (\<lambda>txs.
     and_then (submit_coinbase ev f payout txs) (\<lambda>(cb_outs, cb).
       Go \<lparr>bk_fields = f, bk_wallet = shown, bk_prev = prev, bk_challenge = challenge,
           bk_serial_text = serial_text, bk_txs = txs, bk_outs = cb_outs, bk_cb = cb\<rparr>)))))"

subsection \<open>The stored block\<close>

definition coinbase_body :: "string \<Rightarrow> u32 \<Rightarrow> emission \<Rightarrow> tx \<Rightarrow> cb_out list \<Rightarrow> json" where
  "coinbase_body wallet height e cb outs =
     JObject
       [(''wallet'', JString wallet), (''height'', JUint (ucast height)),
        (''txid'', JString (to_hex (tx_txid cb))),
        (''unit'', JString (if height \<ge> kPiActivationHeight then ''0.000001 314ST'' else ''0.001 314ST'')),
        (''subsidy'', JString (units_314st (em_subsidy e) height)),
        (''subsidy_units'', JUint (em_subsidy e)),
        (''outputs'', JArray (map (\<lambda>out. JObject
           [(''role'', JString (cb_role out)), (''address'', JString (cb_address out)),
            (''units'', JUint (cb_units out)), (''amount'', JString (units_314st (cb_units out) height))])
           (filter (\<lambda>out. cb_units out \<noteq> 0) outs))),
        (''fee_units'', JUint (em_fee e)),
        (''shares_units'', JObject
           [(''miner'', JUint (em_miner_fee e)), (''stakers'', JUint (em_stakers e)),
            (''loans'', JUint (em_loans e)), (''foundation'', JUint (em_foundation e)),
            (''burn'', JUint (em_burn e))])]"

definition stored_proof :: "head \<Rightarrow> json" where
  "stored_proof h =
     JObject ([(''model'', JString (sb_model (bk_fields h))),
               (''serial_commitment'', JString (to_hex (sb_serial (bk_fields h))))] @
              (if sb_height (bk_fields h) \<ge> 4
               then [(''challenge'', JString (bk_challenge h)), (''serial'', JString (bk_serial_text h))]
               else []))"

definition stored_block :: "book \<Rightarrow> head \<Rightarrow> h256 \<Rightarrow> h256 \<Rightarrow> json" where
  "stored_block g h root digest =
     (let f = bk_fields h in
      fold (\<lambda>(k, v) b. jset b k v)
        [(''version'', JUint 1), (''height'', JUint (ucast (sb_height f))),
         (''prev_block_hash'', JString (to_hex (bk_prev h))), (''merkle_root'', JString (to_hex root)),
         (''timestamp'', JUint (sb_timestamp f)), (''difficulty'', JUint (ucast (sb_difficulty f))),
         (''nonce'', JUint (sb_nonce f)), (''hash'', JString (to_hex digest)),
         (''coinbase'', coinbase_body (bk_wallet h) (sb_height f)
            (emission_for (sb_height f) (fee_total (bk_txs h))) (bk_cb h) (bk_outs h)),
         (''txs'', JArray (map tx_to_json (bk_txs h))),
         (''names'', snapshot_including g (bk_txs h)),
         (''hw_proof'', stored_proof h)]
        (sb_block f))"

definition block_header_of :: "head \<Rightarrow> h256 \<Rightarrow> h256 \<Rightarrow> block_header" where
  "block_header_of h root digest =
     (let f = bk_fields h in
      \<lparr>bh_version = 1, bh_prev = bk_prev h, bh_merkle = root, bh_timestamp = sb_timestamp f,
       bh_difficulty = sb_difficulty f, bh_nonce = sb_nonce f, bh_hash = digest, bh_height = sb_height f\<rparr>)"

subsection \<open>The update\<close>

definition tx_spends :: "tx \<Rightarrow> utxo_spend list" where
  "tx_spends tx = map (\<lambda>i. \<lparr>us_txid = ti_prev i, us_vout = ti_vout i\<rparr>) (tx_inputs tx)"

definition tx_credits :: "u32 \<Rightarrow> tx \<Rightarrow> utxo_credit list" where
  "tx_credits height tx =
     map (\<lambda>(vout, out). \<lparr>uc_txid = tx_txid tx, uc_vout = of_nat vout, uc_value = to_value out,
                          uc_address = to_address out, uc_height = height\<rparr>)
       (enumerate 0 (tx_outputs tx))"

definition credit_coinbase :: "u32 \<Rightarrow> tx \<Rightarrow> storage \<Rightarrow> storage" where
  "credit_coinbase height cb st =
     (if tx_credits height cb = [] then st else snd (apply_utxos st [] (tx_credits height cb)))"

definition commit_tx :: "u32 \<Rightarrow> bool \<Rightarrow> tx \<Rightarrow> node \<Rightarrow> node" where
  "commit_tx height require_local_policy tx nd =
     nd\<lparr>nd_st := remove_transaction (snd (apply_utxos (nd_st nd) (tx_spends tx) (tx_credits height tx))) (tx_txid tx),
        nd_names := register_tx require_local_policy tx (nd_names nd)\<rparr>"

definition commit_block :: "bool \<Rightarrow> head \<Rightarrow> flag list \<Rightarrow> storage \<Rightarrow> node \<Rightarrow> node" where
  "commit_block require_local_policy h flags st nd =
     (let height = sb_height (bk_fields h);
          ch = (if height \<ge> 4 \<and> require_local_policy
                then retire_challenge (bk_challenge h) (nd_chal nd) else nd_chal nd);
          nd1 = nd\<lparr>nd_st := credit_coinbase height (bk_cb h) st, nd_chal := ch\<rparr>;
          nd2 = fold (commit_tx height require_local_policy) (bk_txs h) nd1
      in nd2\<lparr>nd_flags := flags\<rparr>)"

datatype submitted =
    Sub_Thrown
  | Sub_Crashed
  | Sub_Rejected reason
  | Sub_Accepted h256 u32 bool

definition submit_store ::
  "env \<Rightarrow> bool \<Rightarrow> head \<Rightarrow> flag list \<Rightarrow> h256 \<Rightarrow> h256 \<Rightarrow> node \<Rightarrow> submitted \<times> node" where
  "submit_store ev require_local_policy h flags root digest nd =
     (let dumped = ev_dump ev (stored_block (nd_names nd) h root digest);
          height = sb_height (bk_fields h); st = nd_st nd in
      if length dumped > kMaxBlockBytes then (Sub_Rejected (HeaderErr Block_Too_Large), nd)
      else if block_index st digest \<noteq> None then
        (Sub_Accepted digest
           (case get_header_by_hash st digest of Some found \<Rightarrow> bh_height found | None \<Rightarrow> height) True, nd)
      else (case store_block_with_header st digest (block_header_of h root digest) (bytes_of dumped) (ev_opened ev) of
              Out_Of_Bounds \<Rightarrow> (Sub_Crashed, nd)
            | Got (False, st') \<Rightarrow> (Sub_Rejected (HeaderErr Block_Too_Large), nd\<lparr>nd_st := st'\<rparr>)
            | Got (True, st') \<Rightarrow>
                (Sub_Accepted digest height False, commit_block require_local_policy h flags st' nd)))"

definition rpc_submitblock :: "env \<Rightarrow> json \<Rightarrow> bool \<Rightarrow> node \<Rightarrow> submitted \<times> node" where
  "rpc_submitblock ev params require_local_policy nd =
     (case submit_head ev nd require_local_policy (as_object_param (ev_parse ev) params) of
        Thrown \<Rightarrow> (Sub_Thrown, nd)
      | Stop r \<Rightarrow> (Sub_Rejected r, nd)
      | Go h \<Rightarrow>
          (case admit_txs ev (nd_st nd) require_local_policy (sb_height (bk_fields h)) [bk_cb h] (bk_txs h)
                  (nd_flags nd) (nd_names nd) of
             (Inl r, g) \<Rightarrow> (Sub_Rejected r, nd\<lparr>nd_names := g\<rparr>)
           | (Inr flags, g) \<Rightarrow>
               (case submit_work ev (bk_fields h) (bk_prev h) (bk_cb h # bk_txs h) of
                  Thrown \<Rightarrow> (Sub_Thrown, nd\<lparr>nd_names := g\<rparr>)
                | Stop r \<Rightarrow> (Sub_Rejected r, nd\<lparr>nd_names := g\<rparr>)
                | Go (root, digest) \<Rightarrow>
                    submit_store ev require_local_policy h flags root digest (nd\<lparr>nd_names := g\<rparr>))))"

end
