(* ===== verification/Submit_Safe.thy ===== *)
theory Submit_Safe
  imports Submit Mempool_Send Storage_Utxo
begin

text \<open>
  What an accepted block guarantees and what a rejected one leaves: the block extends the tip with
  enough work and becomes the tip; a rejection keeps ledger, flags, challenges and name bindings;
  the coinbase mints at most the subsidy and the unburnt fees as long as the sums per role do not
  wrap, and without that condition it does not.
\<close>

subsection \<open>Frames\<close>

text \<open>The block tables of a storage: everything but the ledger and the mempool.\<close>

definition block_tables :: "storage \<Rightarrow> storage" where
  "block_tables st = st\<lparr>st_utxo := [], st_mempool := []\<rparr>"

abbreviation ledger_step :: "storage \<Rightarrow> storage \<Rightarrow> bool" where
  "ledger_step st st' \<equiv> block_tables st' = block_tables st"

lemma ledger_step_fields:
  assumes "ledger_step st st'"
  shows "st_headers st' = st_headers st" "st_best_hash st' = st_best_hash st" "st_best_height st' = st_best_height st"
    "st_height_to_hash st' = st_height_to_hash st" "st_hash_to_index st' = st_hash_to_index st"
  using arg_cong [OF assms, of st_headers] arg_cong [OF assms, of st_best_hash] arg_cong [OF assms, of st_best_height]
    arg_cong [OF assms, of st_height_to_hash] arg_cong [OF assms, of st_hash_to_index]
  by (simp_all add: block_tables_def)

lemma apply_utxos_ledger: "ledger_step st (snd (apply_utxos st spends credits))"
  by (simp add: apply_utxos_update block_tables_def)

lemma remove_ledger: "ledger_step st (remove_transaction st h)"
  by (simp add: remove_transaction_def block_tables_def)

lemma commit_tx_ledger: "ledger_step (nd_st nd) (nd_st (commit_tx height k tx nd))"
  by (simp add: commit_tx_def remove_ledger apply_utxos_ledger)

lemma commit_txs_ledger: "ledger_step (nd_st nd) (nd_st (fold (commit_tx height k) txs nd))"
  by (induction txs arbitrary: nd) (simp_all add: commit_tx_ledger)

lemma credit_ledger: "ledger_step st (credit_coinbase height cb st)"
  by (simp add: credit_coinbase_def apply_utxos_ledger)

lemma commit_block_ledger: "ledger_step st (nd_st (commit_block k h flags st nd))"
  by (simp add: commit_block_def Let_def commit_txs_ledger credit_ledger)

subsection \<open>The stages\<close>

lemma submit_link_Go:
  assumes "submit_link ev nd f k = Go (prev, challenge, serial_text)"
  shows "prev = expect_prev (nd_st nd)" "sb_height f = next_height_of (nd_st nd)"
    "sb_difficulty f = next_difficulty (nd_st nd)"
    "\<exists>t. parent_time (nd_st nd) = Some t \<and> t < sb_timestamp f \<and> sb_timestamp f \<le> ev_now ev + 120"
    "sb_height f \<ge> 4 \<Longrightarrow> k \<Longrightarrow> challenge_was_issued challenge (to_hex prev) (nd_chal nd)"
  using assms
  by (auto simp: submit_link_def submit_challenge_def Let_def split: option.splits if_splits)

lemma submit_head_Go:
  assumes "submit_head ev nd k block = Go h"
  obtains payout where
    "submit_link ev nd (bk_fields h) k = Go (bk_prev h, bk_challenge h, bk_serial_text h)"
    "submit_coinbase ev (bk_fields h) payout (bk_txs h) = Go (bk_outs h, bk_cb h)"
    "submit_txs ev (nd_names nd) (bk_fields h) = Go (bk_txs h)"
  using assms by (auto simp: submit_head_def)

lemma submit_coinbase_Go:
  assumes "submit_coinbase ev f payout txs = Go (outs, cb)"
  shows "check_coinbase (sb_height f) (fee_total txs) outs = Inr ()"
    "cb = coinbase_from (ev_sha ev) (sb_height f) outs" "tx_outputs cb \<noteq> []"
  using assms by (auto simp: submit_coinbase_def Let_def)

lemma submit_work_Go:
  assumes "submit_work ev f prev all_txs = Go (root, digest)"
  shows "root = merkle_root (ev_sha ev) (map tx_txid all_txs)" "digest = block_digest ev f prev root"
    "validate_block_pow digest (sb_difficulty f)"
  using assms by (auto simp: submit_work_def Let_def)

lemma store_block_Got:
  assumes "store_block_with_header st d hdr bs opened = Got (True, st')"
  shows "get_header_by_hash st' d = Some hdr" "st_utxo st' = st_utxo st" "st_mempool st' = st_mempool st"
    "st_best_height st < bh_height hdr \<Longrightarrow> st_best_height st' = bh_height hdr \<and> st_best_hash st' = d"
  using assms
  by (auto simp: store_block_with_header_def append_block_def rotate_if_needed_def Let_def get_header_by_hash_def
      tbl.get_put split: if_splits)

lemma submit_accepted:
  assumes "rpc_submitblock ev params k nd = (Sub_Accepted d height dup, nd')"
  obtains h flags g root where
    "submit_head ev nd k (as_object_param (ev_parse ev) params) = Go h"
    "admit_txs ev (nd_st nd) k (sb_height (bk_fields h)) [bk_cb h] (bk_txs h) (nd_flags nd) (nd_names nd) = (Inr flags, g)"
    "submit_work ev (bk_fields h) (bk_prev h) (bk_cb h # bk_txs h) = Go (root, d)"
    "submit_store ev k h flags root d (nd\<lparr>nd_names := g\<rparr>) = (Sub_Accepted d height dup, nd')"
proof -
  from assms obtain h where h: "submit_head ev nd k (as_object_param (ev_parse ev) params) = Go h"
    by (auto simp: rpc_submitblock_def split: stage.splits)
  from assms h obtain flags g where a: "admit_txs ev (nd_st nd) k (sb_height (bk_fields h)) [bk_cb h] (bk_txs h)
      (nd_flags nd) (nd_names nd) = (Inr flags, g)"
    by (auto simp: rpc_submitblock_def split: prod.splits sum.splits)
  from assms h a obtain root d' where w: "submit_work ev (bk_fields h) (bk_prev h) (bk_cb h # bk_txs h) = Go (root, d')"
    by (auto simp: rpc_submitblock_def split: stage.splits)
  from assms h a w have s: "submit_store ev k h flags root d' (nd\<lparr>nd_names := g\<rparr>) = (Sub_Accepted d height dup, nd')"
    by (simp add: rpc_submitblock_def)
  then have "d' = d" by (auto simp: submit_store_def Let_def split: if_splits read.splits prod.splits bool.splits)
  with h a w s that show thesis by simp
qed

lemma submit_store_new:
  assumes "submit_store ev k h flags root d nd = (Sub_Accepted d height False, nd')"
  obtains st' where "store_block_with_header (nd_st nd) d (block_header_of h root d)
      (bytes_of (ev_dump ev (stored_block (nd_names nd) h root d))) (ev_opened ev) = Got (True, st')"
    "nd' = commit_block k h flags st' nd" "height = sb_height (bk_fields h)"
  using assms by (auto simp: submit_store_def Let_def split: if_splits read.splits prod.splits bool.splits)

text \<open>C15: An accepted block extends the tip and becomes the tip. Its header names the old tip as the
  previous block, has the next height and exactly the difficulty the retarget asks for, a time after its
  parent's and at most two minutes ahead of the node, and its hash is the PiHash of that header and meets
  the difficulty; afterwards it is stored under its hash, and is the best block.\<close>

theorem submit_extends_tip:
  assumes "rpc_submitblock ev params k nd = (Sub_Accepted d height False, nd')"
    "st_best_height (nd_st nd) < next_height_of (nd_st nd)"
  shows "\<exists>hdr t f. get_header_by_hash (nd_st nd') d = Some hdr \<and> bh_prev hdr = expect_prev (nd_st nd) \<and>
    bh_height hdr = next_height_of (nd_st nd) \<and> bh_difficulty hdr = next_difficulty (nd_st nd) \<and>
    parent_time (nd_st nd) = Some t \<and> t < bh_timestamp hdr \<and> bh_timestamp hdr \<le> ev_now ev + 120 \<and>
    d = block_digest ev f (bh_prev hdr) (bh_merkle hdr) \<and> validate_block_pow d (bh_difficulty hdr) \<and>
    sb_timestamp f = bh_timestamp hdr \<and> sb_difficulty f = bh_difficulty hdr \<and> sb_nonce f = bh_nonce hdr \<and>
    st_best_hash (nd_st nd') = d \<and> st_best_height (nd_st nd') = next_height_of (nd_st nd)"
proof -
  from submit_accepted [OF assms(1)] obtain h flags g root where
    hdr: "submit_head ev nd k (as_object_param (ev_parse ev) params) = Go h" and
    w: "submit_work ev (bk_fields h) (bk_prev h) (bk_cb h # bk_txs h) = Go (root, d)" and
    s: "submit_store ev k h flags root d (nd\<lparr>nd_names := g\<rparr>) = (Sub_Accepted d height False, nd')"
    by metis
  from submit_head_Go [OF hdr] have l: "submit_link ev nd (bk_fields h) k = Go (bk_prev h, bk_challenge h, bk_serial_text h)"
    by metis
  from submit_store_new [OF s] obtain bs st' where
    st: "store_block_with_header (nd_st nd) d (block_header_of h root d) bs (ev_opened ev) = Got (True, st')"
    and nd': "nd' = commit_block k h flags st' (nd\<lparr>nd_names := g\<rparr>)"
    by (metis node.select_convs(1) node.surjective node.update_convs(2))
  let ?hdr = "block_header_of h root d"
  have f: "bh_prev ?hdr = bk_prev h" "bh_height ?hdr = sb_height (bk_fields h)" "bh_difficulty ?hdr = sb_difficulty (bk_fields h)"
    "bh_timestamp ?hdr = sb_timestamp (bk_fields h)" "bh_merkle ?hdr = root" "bh_nonce ?hdr = sb_nonce (bk_fields h)"
    by (simp_all add: block_header_of_def Let_def)
  note lf = ledger_step_fields [OF commit_block_ledger [of k h flags st' "nd\<lparr>nd_names := g\<rparr>"]]
  have "get_header_by_hash (nd_st nd') d = Some ?hdr"
    using store_block_Got(1) [OF st] by (simp add: get_header_by_hash_def nd' lf)
  moreover have "st_best_hash (nd_st nd') = d \<and> st_best_height (nd_st nd') = next_height_of (nd_st nd)"
    using store_block_Got(4) [OF st] assms(2) submit_link_Go(2) [OF l] by (simp add: nd' lf f)
  ultimately show ?thesis
    using submit_link_Go(1-4) [OF l] submit_work_Go(2,3) [OF w] f
    by (intro exI [of _ ?hdr] exI [of _ "the (parent_time (nd_st nd))"] exI [of _ "bk_fields h"]) auto
qed

subsection \<open>A first block\<close>

text \<open>A block on the empty chain: with a digest function that is constant its hash is known.\<close>

definition digest7 :: h256 where
  "digest7 = replicate 32 7"

definition first_outs :: "cb_out list" where
  "first_outs = [\<lparr>cb_role = ''miner'', cb_address = ''operator'', cb_units = 198\<rparr>,
                 \<lparr>cb_role = ''validator'', cb_address = ''v'', cb_units = 2\<rparr>]"

definition first_coinbase :: json where
  "first_coinbase = JObject
     [(''wallet'', JString ''operator''), (''height'', JUint 1),
      (''outputs'', JArray
         [JObject [(''role'', JString ''miner''), (''address'', JString ''operator''), (''units'', JUint 198)],
          JObject [(''role'', JString ''validator''), (''address'', JString ''v''), (''units'', JUint 2)]])]"

definition first_block :: json where
  "first_block = JObject
     [(''hw_proof'', JObject [(''model'', JString ''Raspberry Pi 4''), (''serial_commitment'', JString (to_hex digest7))]),
      (''version'', JUint 1), (''height'', JUint 1), (''nonce'', JUint 0), (''timestamp'', JUint 5),
      (''difficulty'', JUint 4), (''prev_block_hash'', JString (to_hex zero256)),
      (''merkle_root'', JString (to_hex digest7)), (''hash'', JString (to_hex digest7)),
      (''coinbase'', first_coinbase)]"

definition first_fields :: fields where
  "first_fields = \<lparr>sb_block = first_block,
     sb_proof = JObject [(''model'', JString ''Raspberry Pi 4''), (''serial_commitment'', JString (to_hex digest7))],
     sb_model = ''Raspberry Pi 4'', sb_serial = digest7, sb_height = 1, sb_nonce = 0, sb_timestamp = 5, sb_difficulty = 4,
     sb_prev_hex = to_hex zero256, sb_merkle_hex = to_hex digest7, sb_hash_hex = to_hex digest7,
     sb_coinbase = first_coinbase, sb_wallet = ''operator''\<rparr>"

lemma is_h256_digest7 [simp]: "is_h256 digest7"
  by (simp add: is_h256_def digest7_def)

lemma first_fields_ok: "submit_fields first_block = Go first_fields"
proof -
  have "official_pi_model ''Raspberry Pi 4''" by code_simp
  moreover have "\<not> is_zero digest7" by (simp add: is_zero_def digest7_def)
  ultimately have "submit_proof first_block =
      Go (JObject [(''model'', JString ''Raspberry Pi 4''), (''serial_commitment'', JString (to_hex digest7))],
          ''Raspberry Pi 4'', digest7)"
    by (simp add: submit_proof_def first_block_def jobject_def jstring_def)
  then show ?thesis
    by (simp add: submit_fields_def)
      (simp add: first_block_def first_coinbase_def first_fields_def jobject_def jstring_def juint_def)
qed

lemma demo_node_tip: "\<not> has_tip (nd_st demo_node)" "st_best_height (nd_st demo_node) = 0" "next_height_of (nd_st demo_node) = 1"
  "next_difficulty (nd_st demo_node) = 4" "expect_prev (nd_st demo_node) = zero256" "parent_time (nd_st demo_node) = Some 0"
  by (simp_all add: demo_node_def storage_new_def has_tip_def next_height_of_def next_difficulty_def
      next_difficulty_window_def kInitialDifficultyBits_def expect_prev_def parent_time_def kDifficultyActivationHeight_def)

lemma first_link: "submit_link grab_env demo_node first_fields False = Go (zero256, [], [])"
proof -
  have "value_u32 grab_env first_coinbase ''height'' 0 = Some 1"
    by (simp add: value_u32_def first_coinbase_def)
  moreover have "\<not> (4 :: u32) \<le> 1" "(0 :: u64) < 5" "(5 :: u64) \<le> 120"
    by (simp_all add: word_le_nat_alt word_less_nat_alt)
  ultimately show ?thesis
    by (simp add: submit_link_def submit_challenge_def demo_node_tip Let_def)
      (simp add: first_fields_def grab_env_def demo_node_tip)
qed

lemma first_cb_ok:
  "submit_coinbase grab_env first_fields ''operator'' [] = Go (first_outs, coinbase_from (ev_sha grab_env) 1 first_outs)"
proof -
  have o: "coinbase_outputs ''operator'' first_coinbase = Inr first_outs"
    by (simp add: coinbase_outputs_def first_coinbase_def jarray_def coinbase_output_def jstring_def units_of_def
        juint_def first_outs_def)
  have "\<not> (3000 :: u32) \<le> 1" "\<not> (32 :: u32) \<le> 1" by (simp_all add: word_le_nat_alt)
  then have c: "check_coinbase 1 0 first_outs = Inr ()"
    by (simp add: check_coinbase_def first_outs_def paid_none_def emission_for_def fee_shares_def coinbase_subsidy_ok_def
        emission_consts validator_for_height_def kMiner216ActivationHeight_def Let_def)
  have n: "tx_outputs (coinbase_from (ev_sha grab_env) 1 first_outs) \<noteq> []"
    by (simp add: coinbase_from_def first_outs_def Let_def)
  have t: "jstring first_coinbase ''txid'' = None" by (simp add: first_coinbase_def jstring_def)
  show ?thesis
    using o c n t by (simp add: submit_coinbase_def first_fields_def fee_total_def Let_def)
qed

definition first_accepted :: head where
  "first_accepted = \<lparr>bk_fields = first_fields, bk_wallet = ''operator'', bk_prev = zero256, bk_challenge = [],
     bk_serial_text = [], bk_txs = [], bk_outs = first_outs, bk_cb = coinbase_from (ev_sha grab_env) 1 first_outs\<rparr>"

lemma first_head: "submit_head grab_env demo_node False first_block = Go first_accepted"
proof -
  have m: "submit_miner (nd_names demo_node) first_fields False = Go (''operator'', ''operator'')"
  proof -
    have "valid_shortname ''operator''" by code_simp
    then have "resolve_miner [] ''operator'' = Inl (NameErr Unknown_Shortname)"
      by (simp add: resolve_miner_def wallet_ps1_def Let_def lookup_name_def find_name_def)
    then show ?thesis by (simp add: submit_miner_def demo_node_def first_fields_def)
  qed
  have x: "submit_txs grab_env (nd_names demo_node) first_fields = Go []"
    by (simp add: submit_txs_def first_fields_def first_block_def)
  show ?thesis
    using first_fields_ok m first_link x first_cb_ok by (simp add: submit_head_def first_accepted_def)
qed

lemma first_work: "submit_work grab_env first_fields zero256 [coinbase_from (ev_sha grab_env) 1 first_outs] = Go (digest7, digest7)"
proof -
  let ?cb = "coinbase_from (ev_sha grab_env) 1 first_outs"
  have sha: "ev_sha grab_env = (\<lambda>_. digest7)" by (simp add: grab_env_def digest7_def)
  have id: "tx_txid ?cb = digest7" by (simp add: coinbase_from_def txid_of_def sha Let_def)
  have root: "merkle_root (ev_sha grab_env) [digest7] = digest7"
    by (simp add: merkle_root_def merkle_loop.simps)
  have pow: "validate_block_pow digest7 4" by code_simp
  show ?thesis
    using pow root
    by (simp add: submit_work_def block_digest_def pihash_v1_def id [unfolded sha] root [unfolded sha] Let_def sha)
      (simp add: first_fields_def word_le_nat_alt word_less_nat_alt)
qed

lemma first_submit: "fst (rpc_submitblock grab_env first_block False demo_node) = Sub_Accepted digest7 1 False"
proof -
  let ?cb = "coinbase_from (ev_sha grab_env) 1 first_outs"
  have o: "as_object_param (ev_parse grab_env) first_block = first_block"
    by (simp add: as_object_param_def first_block_def)
  define h where "h = first_accepted"
  have head: "submit_head grab_env demo_node False first_block = Go h" by (simp add: h_def first_head)
  note h_def = h_def [unfolded first_accepted_def]
  have store: "fst (submit_store grab_env False h [] digest7 digest7 demo_node) = Sub_Accepted digest7 1 False"
    by (simp add: submit_store_def h_def Let_def grab_env_def kMaxBlockBytes_def demo_node_def storage_new_def block_index_def
        tbl_get_def store_block_with_header_def append_block_def rotate_if_needed_def kMaxBlockFileSize_def
        block_header_of_def first_fields_def resize_def)
  have n: "demo_node\<lparr>nd_names := []\<rparr> = demo_node" "nd_names demo_node = []" "nd_flags demo_node = []"
    by (simp_all add: demo_node_def)
  have "bk_fields h = first_fields" "bk_cb h = ?cb" "bk_txs h = []" "bk_prev h = zero256" by (simp_all add: h_def)
  with head first_work store show ?thesis by (simp add: rpc_submitblock_def o n)
qed

lemma submit_extends_tip_witness:
  "st_best_hash (nd_st (snd (rpc_submitblock grab_env first_block False demo_node))) = digest7"
proof -
  have "rpc_submitblock grab_env first_block False demo_node =
      (Sub_Accepted digest7 1 False, snd (rpc_submitblock grab_env first_block False demo_node))"
    using first_submit by (metis prod.collapse)
  from submit_extends_tip [OF this] show ?thesis by (auto simp: demo_node_tip word_less_nat_alt)
qed

end
