(* ===== verification/Coinbase_Safe.thy ===== *)
theory Coinbase_Safe
  imports Block
begin

text \<open>
  How much a block may mint. The five payments of a coinbase are sums of 64-bit words: as long as the
  outputs add up to less than 2^64 the check bounds what they create, and beyond that it does not.
\<close>

definition role_units :: "string \<Rightarrow> cb_out list \<Rightarrow> u64" where
  "role_units role outs = sum_list (map cb_units (filter (\<lambda>out. cb_role out = role) outs))"

definition roles_ok :: "cb_out list \<Rightarrow> bool" where
  "roles_ok outs \<longleftrightarrow> (\<forall>out \<in> set outs.
     cb_role out \<in> {''miner'', ''validator'', ''stakers'', ''loans'', ''foundation''} \<and>
     (cb_role out = ''foundation'' \<longrightarrow> cb_address out = kFoundationPayout))"

lemma paid_totals_exact:
  "paid_totals outs p = Inr q \<longleftrightarrow> roles_ok outs \<and>
     q = \<lparr>pd_miner = pd_miner p + role_units ''miner'' outs, pd_validator = pd_validator p + role_units ''validator'' outs,
          pd_stakers = pd_stakers p + role_units ''stakers'' outs, pd_loans = pd_loans p + role_units ''loans'' outs,
          pd_foundation = pd_foundation p + role_units ''foundation'' outs\<rparr>"
proof (induction outs arbitrary: p)
  case Nil
  then show ?case by (cases p) (auto simp: roles_ok_def role_units_def)
next
  case (Cons out outs)
  consider (bad) "cb_role out \<notin> {''miner'', ''validator'', ''stakers'', ''loans'', ''foundation''}"
    | (m) "cb_role out = ''miner''" | (v) "cb_role out = ''validator''" | (s) "cb_role out = ''stakers''"
    | (l) "cb_role out = ''loans''" | (f) "cb_role out = ''foundation''"
    by blast
  then show ?case
  proof cases
    case bad
    then have "\<exists>r. paid_totals (out # outs) p = Inl r" by simp
    with bad show ?thesis by (auto simp: roles_ok_def simp del: paid_totals.simps)
  qed (simp_all add: Cons.IH roles_ok_def role_units_def add.assoc)
qed

text \<open>One more output of a role adds to that role only.\<close>

lemma role_units_append [simp]: "role_units r (a @ b) = role_units r a + role_units r b"
  by (simp add: role_units_def)

lemma unat_sum_words:
  "sum_list (map (unat \<circ> f) xs) < 2 ^ 64 \<Longrightarrow> unat (sum_list (map f xs) :: u64) = sum_list (map (unat \<circ> f) xs)"
  by (induction xs) (simp_all add: unat_word_ariths)

definition role_total :: "string \<Rightarrow> cb_out list \<Rightarrow> nat" where
  "role_total role outs = sum_list (map (unat \<circ> cb_units) (filter (\<lambda>out. cb_role out = role) outs))"

definition minted :: "cb_out list \<Rightarrow> nat" where
  "minted outs = sum_list (map (unat \<circ> cb_units) outs)"

lemma role_total_le: "role_total r outs \<le> minted outs"
  unfolding role_total_def minted_def by (induction outs) auto

lemma role_units_unat: "minted outs < 2 ^ 64 \<Longrightarrow> unat (role_units r outs) = role_total r outs"
  using role_total_le [of r outs]
  unfolding role_units_def role_total_def by (intro unat_sum_words) simp

lemma minted_roles:
  "roles_ok outs \<Longrightarrow> minted outs = role_total ''miner'' outs + role_total ''validator'' outs +
     role_total ''stakers'' outs + role_total ''loans'' outs + role_total ''foundation'' outs"
  by (induction outs) (auto simp: minted_def role_total_def roles_ok_def)

lemma check_coinbase_iff:
  "check_coinbase h fee outs = Inr () \<longleftrightarrow> roles_ok outs \<and>
     role_units ''stakers'' outs \<le> sh_stakers (fee_shares fee) \<and> role_units ''loans'' outs \<le> sh_loans (fee_shares fee) \<and>
     role_units ''foundation'' outs = sh_foundation (fee_shares fee) \<and>
     coinbase_subsidy_ok h fee (role_units ''miner'' outs) (role_units ''validator'' outs) = Inr () \<and>
     (h < kMiner216ActivationHeight \<or>
        (\<forall>out \<in> set outs. cb_role out = ''validator'' \<longrightarrow> is_ps1_payout (cb_address out)))"
proof (cases "roles_ok outs")
  case True
  let ?q = "\<lparr>pd_miner = role_units ''miner'' outs, pd_validator = role_units ''validator'' outs,
      pd_stakers = role_units ''stakers'' outs, pd_loans = role_units ''loans'' outs,
      pd_foundation = role_units ''foundation'' outs\<rparr>"
  have q: "paid_totals outs paid_none = Inr ?q"
    using True by (simp add: paid_totals_exact paid_none_def)
  show ?thesis
    using True
    by (cases "coinbase_subsidy_ok h fee (role_units ''miner'' outs) (role_units ''validator'' outs)")
      (auto simp: check_coinbase_def q emission_for_def Let_def list_ex_iff not_le not_less)
next
  case False
  then have "\<exists>r. paid_totals outs paid_none = Inl r"
    using paid_totals_exact [of outs paid_none] by (cases "paid_totals outs paid_none") auto
  with False show ?thesis by (auto simp: check_coinbase_def)
qed

text \<open>C17: A coinbase mints at most the subsidy and the unburnt fees - unless a sum wraps. If the outputs of
  an accepted coinbase add up to less than 2^64, they are worth at most 218000 pi (218 units below height
  3000) plus the fees less the burnt share. But every accepted coinbase is also accepted with two more
  miner outputs that add up to 2^64, which mint that amount for the miner.\<close>

theorem coinbase_mint_bound:
  assumes "check_coinbase h fee outs = Inr ()" "unat fee * 60 < 2 ^ 64" "a + b = 0"
  shows "(minted outs < 2 ^ 64 \<longrightarrow>
      minted outs + unat (sh_burn (fee_shares fee)) \<le> (if h \<ge> kPiActivationHeight then 218000 else 218) + unat fee) \<and>
    check_coinbase h fee (outs @ [\<lparr>cb_role = ''miner'', cb_address = payout, cb_units = a\<rparr>,
                                  \<lparr>cb_role = ''miner'', cb_address = payout, cb_units = b\<rparr>]) = Inr ()"
proof
  note c = assms(1) [unfolded check_coinbase_iff]
  note shares = fee_shares_unat [OF assms(2)]
  have le: "unat fee * 60 div 100 + unat fee * 20 div 100 + unat fee * 8 div 100 + unat fee * 7 div 100 \<le> unat fee"
    by simp
  show "minted outs < 2 ^ 64 \<longrightarrow>
      minted outs + unat (sh_burn (fee_shares fee)) \<le> (if h \<ge> kPiActivationHeight then 218000 else 218) + unat fee"
  proof
    assume "minted outs < 2 ^ 64"
    note u = role_units_unat [OF this]
    have m: "role_total ''miner'' outs + role_total ''validator'' outs \<le>
        (if h \<ge> kPiActivationHeight then 218000 else 218) + unat fee * 60 div 100"
      using c by (auto simp: coinbase_subsidy_iff [OF assms(2)] u kPiActivationHeight_def)
    have s: "role_total ''stakers'' outs \<le> unat fee * 20 div 100" "role_total ''loans'' outs \<le> unat fee * 8 div 100"
      "role_total ''foundation'' outs = unat fee * 7 div 100"
      using c shares(2,3,4) by (auto simp: word_le_nat_alt u simp flip: u)
    have "minted outs \<le> (if h \<ge> kPiActivationHeight then 218000 else 218) +
        (unat fee * 60 div 100 + unat fee * 20 div 100 + unat fee * 8 div 100 + unat fee * 7 div 100)"
      using minted_roles m s c by (simp split: if_splits)
    then show "minted outs + unat (sh_burn (fee_shares fee)) \<le> (if h \<ge> kPiActivationHeight then 218000 else 218) + unat fee"
      unfolding shares(5) using le by linarith
  qed
  have "role_units r [\<lparr>cb_role = ''miner'', cb_address = payout, cb_units = a\<rparr>,
      \<lparr>cb_role = ''miner'', cb_address = payout, cb_units = b\<rparr>] = 0" for r
    using assms(3) by (simp add: role_units_def)
  then show "check_coinbase h fee (outs @ [\<lparr>cb_role = ''miner'', cb_address = payout, cb_units = a\<rparr>,
      \<lparr>cb_role = ''miner'', cb_address = payout, cb_units = b\<rparr>]) = Inr ()"
    using c unfolding check_coinbase_iff by (auto simp: roles_ok_def)
qed

lemma coinbase_mint_bound_witness:
  "check_coinbase 1 0 [\<lparr>cb_role = ''miner'', cb_address = ''m'', cb_units = 198\<rparr>,
     \<lparr>cb_role = ''validator'', cb_address = ''v'', cb_units = 2\<rparr>,
     \<lparr>cb_role = ''miner'', cb_address = ''m'', cb_units = 2 ^ 63\<rparr>,
     \<lparr>cb_role = ''miner'', cb_address = ''m'', cb_units = 2 ^ 63\<rparr>] = Inr ()"
proof -
  let ?outs = "[\<lparr>cb_role = ''miner'', cb_address = ''m'', cb_units = 198\<rparr>,
     \<lparr>cb_role = ''validator'', cb_address = ''v'', cb_units = 2\<rparr>]"
  have "\<not> (3000 :: u32) \<le> 1" "\<not> (32 :: u32) \<le> 1" by (simp_all add: word_le_nat_alt)
  then have "check_coinbase 1 0 ?outs = Inr ()"
    by (simp add: check_coinbase_def paid_none_def emission_for_def fee_shares_def coinbase_subsidy_ok_def
        emission_consts validator_for_height_def kMiner216ActivationHeight_def Let_def)
  from coinbase_mint_bound [OF this, of "2 ^ 63" "2 ^ 63" "''m''"] show ?thesis by simp
qed

end
