(* ===== verification/Submit_Ledger.thy ===== *)
theory Submit_Ledger
  imports Submit_Safe Spend_Safe
begin

text \<open>
  A block and the ledger: a rejected block leaves it alone; for an accepted one every update of the
  UTXO set succeeds, and the set that results is the old one with the coins of the block's
  transactions added and those they spend taken out.
\<close>

subsection \<open>Rejected blocks\<close>

lemma same_bindings_trans: "same_bindings a b \<Longrightarrow> same_bindings b c \<Longrightarrow> same_bindings a c"
  unfolding same_bindings_def by metis

lemma admit_txs_bindings: "same_bindings g (snd (admit_txs ev st k h prior txs flags g))"
proof (induction txs arbitrary: prior flags g)
  case (Cons tx txs)
  obtain r g' where a: "admit_tx ev st k h prior tx flags g = (r, g')" by fastforce
  have b: "same_bindings g g'" using admit_tx_bindings [of g ev st k h prior tx flags] a by simp
  show ?case
  proof (cases r)
    case (Inl e)
    with a b show ?thesis by simp
  next
    case (Inr flags')
    with a same_bindings_trans [OF b Cons.IH] show ?thesis by simp
  qed
qed simp

lemma store_block_failed:
  "store_block_with_header st d hdr bs opened = Got (False, st') \<Longrightarrow> \<exists>f n. st' = st\<lparr>st_current_file := f, st_current_file_size := n\<rparr>"
  by (auto simp: store_block_with_header_def append_block_def rotate_if_needed_def Let_def split: if_splits)
    (metis storage.surjective storage.update_convs(3,4))

text \<open>C18: A rejected block changes nothing but grants. Flags, challenges, coins, mempool, headers and block
  files are as before, at most the write position moves to a new file, and no name changes its owner.\<close>

theorem submit_reject_frame:
  assumes "rpc_submitblock ev params k nd = (Sub_Rejected r, nd')"
  shows "nd_flags nd' = nd_flags nd \<and> nd_chal nd' = nd_chal nd \<and> same_bindings (nd_names nd) (nd_names nd') \<and>
    (\<exists>f n. nd_st nd' = (nd_st nd)\<lparr>st_current_file := f, st_current_file_size := n\<rparr>)"
proof -
  have same: "\<exists>f n. nd_st nd = (nd_st nd)\<lparr>st_current_file := f, st_current_file_size := n\<rparr>"
    by (metis storage.surjective storage.update_convs(3,4))
  show ?thesis
  proof (cases "submit_head ev nd k (as_object_param (ev_parse ev) params)")
    case (Go h)
    obtain res g where a: "admit_txs ev (nd_st nd) k (sb_height (bk_fields h)) [bk_cb h] (bk_txs h) (nd_flags nd)
        (nd_names nd) = (res, g)" by fastforce
    then have b: "same_bindings (nd_names nd) g"
      using admit_txs_bindings [of "nd_names nd" ev "nd_st nd" k "sb_height (bk_fields h)" "[bk_cb h]" "bk_txs h" "nd_flags nd"]
      by simp
    have "nd' = nd\<lparr>nd_names := g\<rparr> \<or>
        (\<exists>flags root d. submit_store ev k h flags root d (nd\<lparr>nd_names := g\<rparr>) = (Sub_Rejected r, nd'))"
      using assms Go a by (auto simp: rpc_submitblock_def split: sum.splits stage.splits prod.splits)
    then show ?thesis
    proof (elim disjE exE)
      assume "nd' = nd\<lparr>nd_names := g\<rparr>"
      with b same show ?thesis by simp
    next
      fix flags root d
      assume "submit_store ev k h flags root d (nd\<lparr>nd_names := g\<rparr>) = (Sub_Rejected r, nd')"
      then have "nd' = nd\<lparr>nd_names := g\<rparr> \<or> (\<exists>st' hdr bs. nd' = nd\<lparr>nd_names := g, nd_st := st'\<rparr> \<and>
          store_block_with_header (nd_st nd) d hdr bs (ev_opened ev) = Got (False, st'))"
        by (auto simp: submit_store_def Let_def split: if_splits read.splits prod.splits bool.splits)
      then show ?thesis
      proof (elim disjE exE conjE)
        fix st' hdr bs
        assume "nd' = nd\<lparr>nd_names := g, nd_st := st'\<rparr>"
          "store_block_with_header (nd_st nd) d hdr bs (ev_opened ev) = Got (False, st')"
        with b store_block_failed show ?thesis by simp
      qed (use b same in simp)
    qed
  qed (use assms same in \<open>auto simp: rpc_submitblock_def\<close>)
qed

lemma submit_reject_frame_witness:
  "nd_flags (snd (rpc_submitblock grab_env JNull True demo_node)) = nd_flags demo_node"
proof -
  have r: "rpc_submitblock grab_env JNull True demo_node = (Sub_Rejected (HeaderErr Missing_Block), demo_node)"
    by (simp add: rpc_submitblock_def as_object_param_def submit_head_def submit_fields_def require_def)
  from submit_reject_frame [OF r] show ?thesis by (simp add: r)
qed

subsection \<open>Coins of a transaction\<close>

definition coin_of :: "u32 \<Rightarrow> tx \<Rightarrow> u32 \<Rightarrow> utxo_record option" where
  "coin_of h t v =
     (if unat v < length (tx_outputs t)
      then Some \<lparr>ur_value = to_value (tx_outputs t ! unat v), ur_address = to_address (tx_outputs t ! unat v), ur_height = h\<rparr>
      else None)"

definition in_op :: "txin \<Rightarrow> outpoint" where
  "in_op i = (ti_prev i, ti_vout i)"

definition spent_ops :: "tx list \<Rightarrow> outpoint set" where
  "spent_ops txs = (\<Union>t \<in> set txs. in_op ` set (tx_inputs t))"

lemma of_nat_u32_eq: "n < 2 ^ 32 \<Longrightarrow> (of_nat n :: u32) = v \<longleftrightarrow> unat v = n"
  by (auto simp: word_unat_eq_iff unat_of_nat_u32)

lemma enumerate_lookup:
  "n + length outs \<le> 2 ^ 32 \<Longrightarrow>
   map_of (map (\<lambda>(v, out). ((x, of_nat v :: u32), f out)) (enumerate n outs)) (y, v) =
     (if y = x \<and> n \<le> unat v \<and> unat v < n + length outs then Some (f (outs ! (unat v - n))) else None)"
proof (induction outs arbitrary: n)
  case (Cons out outs)
  then have IH: "map_of (map (\<lambda>(v, out). ((x, of_nat v :: u32), f out)) (enumerate (Suc n) outs)) (y, v) =
      (if y = x \<and> Suc n \<le> unat v \<and> unat v < Suc n + length outs then Some (f (outs ! (unat v - Suc n))) else None)"
    by simp
  have "(of_nat n :: u32) = v \<longleftrightarrow> unat v = n" using Cons.prems by (intro of_nat_u32_eq) simp
  with IH show ?case
    by (auto simp: nth_Cons' Suc_diff_le)
qed simp

lemma distinct_credit_keys:
  "length (tx_outputs t) < 2 ^ 32 \<Longrightarrow> distinct (map credit_op (tx_credits h t))"
  by (auto simp: distinct_conv_nth tx_credits_def credit_op_def nth_enumerate_eq of_nat_u32_eq unat_of_nat_u32)

lemma map_of_rev_distinct: "distinct (map fst kvs) \<Longrightarrow> map_of (rev kvs) k = map_of kvs k"
proof (cases "map_of kvs k")
  case None
  then have "k \<notin> fst ` set (rev kvs)" by (simp add: map_of_eq_None_iff)
  then have "map_of (rev kvs) k = None" by (simp only: map_of_eq_None_iff) simp
  with None show ?thesis by simp
next
  case (Some v)
  moreover assume "distinct (map fst kvs)"
  then have "distinct (map fst (rev kvs))" by (simp flip: rev_map)
  ultimately show ?thesis by (simp add: map_of_is_SomeI map_of_SomeD)
qed

lemma credits_lookup:
  assumes "length (tx_outputs t) < 2 ^ 32"
  shows "map_of (rev (map credit_kv (tx_credits h t))) (y, v) = (if y = tx_txid t then coin_of h t v else None)"
proof -
  have "distinct (map fst (map credit_kv (tx_credits h t)))"
    using distinct_credit_keys [OF assms, of h] by (simp add: credit_kv_def comp_def)
  then have "map_of (rev (map credit_kv (tx_credits h t))) (y, v) = map_of (map credit_kv (tx_credits h t)) (y, v)"
    by (rule map_of_rev_distinct)
  moreover have "map credit_kv (tx_credits h t) =
      map (\<lambda>(v, out). ((tx_txid t, of_nat v), \<lparr>ur_value = to_value out, ur_address = to_address out, ur_height = h\<rparr>))
        (enumerate 0 (tx_outputs t))"
    by (simp add: tx_credits_def credit_kv_def credit_op_def credit_rec_def comp_def case_prod_unfold)
  ultimately show ?thesis
    using assms enumerate_lookup [of 0 "tx_outputs t" "tx_txid t"
        "\<lambda>out. \<lparr>ur_value = to_value out, ur_address = to_address out, ur_height = h\<rparr>"]
    by (simp add: coin_of_def)
qed

subsection \<open>The ledger after a block\<close>

text \<open>The coins after the transactions \<open>prior\<close> on top of the set \<open>u\<close>.\<close>

definition coins_after :: "u32 \<Rightarrow> utxo_table \<Rightarrow> tx list \<Rightarrow> outpoint \<Rightarrow> utxo_record option" where
  "coins_after h u prior p =
     (if p \<in> spent_ops prior then None
      else case find (\<lambda>t. tx_txid t = fst p) prior of Some t \<Rightarrow> coin_of h t (snd p) | None \<Rightarrow> u_get u p)"

definition fresh_ids :: "utxo_table \<Rightarrow> tx list \<Rightarrow> bool" where
  "fresh_ids u txs \<longleftrightarrow> distinct (map tx_txid txs) \<and> (\<forall>t \<in> set txs. \<forall>v. u_get u (tx_txid t, v) = None) \<and>
     (\<forall>t \<in> set txs. length (tx_outputs t) < 2 ^ 32)"

text \<open>The updates of the set by the transactions of a block all succeed.\<close>

fun updates_succeed :: "u32 \<Rightarrow> tx list \<Rightarrow> storage \<Rightarrow> bool" where
  "updates_succeed h [] st = True"
| "updates_succeed h (t # txs) st =
     (fst (apply_utxos st (tx_spends t) (tx_credits h t)) \<and>
      updates_succeed h txs (remove_transaction (snd (apply_utxos st (tx_spends t) (tx_credits h t))) (tx_txid t)))"

lemma admit_tx_inputs:
  assumes "admit_tx ev st k h prior tx flags g = (Inr flags', g')" "i \<in> set (tx_inputs tx)"
  shows "\<not> spent_before prior i" "find_outpoint st (ti_prev i) (ti_vout i) prior h \<noteq> None"
proof -
  from assms(1) have c: "check_spendable st tx h prior (claim_release tx flags prior) = Inr ()"
    by (auto simp: admit_tx_def split: sum.splits)
  then obtain v where "inputs_value st prior h (tx_inputs tx) 0 = Inr v"
    by (auto simp: check_spendable_def split: if_splits sum.splits)
  with assms(2) obtain w where "input_worth st prior h i = Inr w"
    by (auto simp: inputs_value_exact inputs_known_def)
  then show "\<not> spent_before prior i" "find_outpoint st (ti_prev i) (ti_vout i) prior h \<noteq> None"
    by (auto simp: input_worth_def split: if_splits option.splits)
qed

lemma in_op_eq: "in_op i = in_op j \<longleftrightarrow> ti_vout j = ti_vout i \<and> ti_prev j = ti_prev i"
  by (auto simp: in_op_def)

lemma spent_before_iff: "spent_before prior i \<longleftrightarrow> in_op i \<in> spent_ops prior"
  unfolding spent_before_def spent_ops_def list_ex_iff UN_iff image_iff in_op_eq by blast

lemma find_unique:
  "distinct (map tx_txid ts) \<Longrightarrow> t \<in> set ts \<Longrightarrow> find (\<lambda>t'. tx_txid t' = tx_txid t) ts = Some t"
  by (induction ts) (auto dest: imageI [of _ _ tx_txid])

lemma known_input:
  assumes "fresh_ids u all" "set prior \<subseteq> set all" "distinct (map tx_txid prior)" "u = st_utxo st"
    "find_outpoint st x v prior h \<noteq> None" "(x, v) \<notin> spent_ops prior"
  shows "coins_after h u prior (x, v) \<noteq> None \<and> (x \<in> tx_txid ` set all \<longrightarrow> x \<in> tx_txid ` set prior)"
proof -
  have "(\<exists>r. u_get u (x, v) = Some r) \<or> (\<exists>t \<in> set prior. tx_txid t = x \<and> unat v < length (tx_outputs t))"
    using assms(4,5)
    by (auto simp: find_outpoint_def utxo_lookup_def utxo_find_get prior_output_def find_Some_iff
        split: option.splits if_splits)
  then show ?thesis
  proof (elim disjE exE bexE conjE)
    fix r assume r: "u_get u (x, v) = Some r"
    then have n: "x \<notin> tx_txid ` set all" using assms(1) by (auto simp: fresh_ids_def)
    then have "find (\<lambda>t. tx_txid t = x) prior = None" using assms(2) by (auto simp: find_None_iff)
    with n r assms(6) show ?thesis by (simp add: coins_after_def)
  next
    fix t assume t: "t \<in> set prior" "tx_txid t = x" "unat v < length (tx_outputs t)"
    with find_unique [OF assms(3) t(1)] assms(6) show ?thesis
      by (auto simp: coins_after_def coin_of_def)
  qed
qed

lemma spend_op_in: "map spend_op (tx_spends t) = map in_op (tx_inputs t)"
  by (simp add: tx_spends_def spend_op_def in_op_def)

lemma credit_op_cases: "c \<in> set (tx_credits h t) \<Longrightarrow> \<exists>v. credit_op c = (tx_txid t, v)"
  by (auto simp: tx_credits_def credit_op_def)

text \<open>One transaction on top of the earlier ones.\<close>

lemma apply_tx_coins:
  assumes u: "\<And>p. u_get (st_utxo st) p = coins_after h u prior p"
    and known: "\<And>i. i \<in> set (tx_inputs t) \<Longrightarrow> coins_after h u prior (in_op i) \<noteq> None \<and> ti_prev i \<noteq> tx_txid t"
    and new: "find (\<lambda>t'. tx_txid t' = tx_txid t) prior = None" "\<And>v. u_get u (tx_txid t, v) = None"
      "\<And>v. (tx_txid t, v) \<notin> spent_ops prior" "length (tx_outputs t) < 2 ^ 32"
  shows "fst (apply_utxos st (tx_spends t) (tx_credits h t))"
    "u_get (st_utxo (snd (apply_utxos st (tx_spends t) (tx_credits h t)))) p = coins_after h u (prior @ [t]) p"
proof -
  have none: "coins_after h u prior (tx_txid t, v) = None" for v
    using new by (simp add: coins_after_def)
  have "u_get (st_utxo st) (spend_op s) \<noteq> None" if s: "s \<in> set (tx_spends t)" for s
  proof -
    from s obtain i where "i \<in> set (tx_inputs t)" "spend_op s = in_op i"
      by (auto simp: tx_spends_def spend_op_def in_op_def)
    with known u show ?thesis by simp
  qed
  moreover have "u_get (st_utxo st) (credit_op c) = None" if c: "c \<in> set (tx_credits h t)" for c
    using credit_op_cases [OF c] none u by auto
  ultimately have ok: "utxo_ok (st_utxo st) (tx_spends t) (tx_credits h t)"
    by (simp add: utxo_ok_def)
  then show "fst (apply_utxos st (tx_spends t) (tx_credits h t))" by (simp add: apply_utxos_update)
  obtain x v where p: "p = (x, v)" by fastforce
  have "u_get (st_utxo (snd (apply_utxos st (tx_spends t) (tx_credits h t)))) p =
      (case if x = tx_txid t then coin_of h t v else None of Some r \<Rightarrow> Some r
       | None \<Rightarrow> if p \<in> in_op ` set (tx_inputs t) then None else coins_after h u prior p)"
    using ok by (cases "x = tx_txid t")
      (simp_all add: apply_utxos_update utxo.get_update p u credits_lookup [OF new(4)] spend_op_in split: option.split)
  also have "\<dots> = coins_after h u (prior @ [t]) p"
  proof (cases "x = tx_txid t")
    case True
    have "p \<notin> in_op ` set (tx_inputs t)"
      using known True by (fastforce simp: p in_op_def)
    moreover have "p \<notin> spent_ops prior" using new(3) True by (simp add: p)
    ultimately show ?thesis
      using True new(1,2) none by (simp add: coins_after_def spent_ops_def p find_append split: option.splits)
  next
    case False
    then show ?thesis
      by (auto simp: coins_after_def spent_ops_def p find_append split: option.splits)
  qed
  finally show "u_get (st_utxo (snd (apply_utxos st (tx_spends t) (tx_credits h t)))) p = coins_after h u (prior @ [t]) p" .
qed

definition ledger_tx :: "u32 \<Rightarrow> tx \<Rightarrow> storage \<Rightarrow> storage" where
  "ledger_tx h t st =
     remove_transaction (snd (apply_utxos st (tx_spends t) (tx_credits h t))) (tx_txid t)"

lemma spent_ops_snoc: "spent_ops (prior @ [t]) = spent_ops prior \<union> in_op ` set (tx_inputs t)"
  by (auto simp: spent_ops_def)

lemma utxo_remove_transaction [simp]: "st_utxo (remove_transaction st x) = st_utxo st"
  by (simp add: remove_transaction_def)

lemma admitted_ledger:
  assumes "admit_txs ev st0 k h prior txs flags g = (Inr fl, g')"
    and "fresh_ids (st_utxo st0) (prior @ txs)"
    and "\<And>p. u_get (st_utxo st) p = coins_after h (st_utxo st0) prior p"
    and "\<And>t v. t \<in> set txs \<Longrightarrow> (tx_txid t, v) \<notin> spent_ops prior"
  shows "updates_succeed h txs st \<and>
    u_get (st_utxo (fold (ledger_tx h) txs st)) p = coins_after h (st_utxo st0) (prior @ txs) p"
  using assms
proof (induction txs arbitrary: prior flags g st)
  case (Cons t txs)
  let ?u = "st_utxo st0"
  from Cons.prems(1) obtain fl1 g1 where ad: "admit_tx ev st0 k h prior t flags g = (Inr fl1, g1)"
    and rest: "admit_txs ev st0 k h (prior @ [t]) txs fl1 g1 = (Inr fl, g')"
    by (auto split: sum.splits prod.splits)
  from Cons.prems(2) have d: "distinct (map tx_txid prior)" "tx_txid t \<notin> tx_txid ` set prior"
    "\<And>t'. t' \<in> set txs \<Longrightarrow> tx_txid t' \<notin> tx_txid ` set prior"
    by (auto simp: fresh_ids_def)
  have inp: "coins_after h ?u prior (in_op i) \<noteq> None" "ti_prev i \<in> tx_txid ` set (prior @ t # txs) \<Longrightarrow> ti_prev i \<in> tx_txid ` set prior"
    if "i \<in> set (tx_inputs t)" for i
    using known_input [OF Cons.prems(2) _ d(1) refl admit_tx_inputs(2) [OF ad that]]
      admit_tx_inputs(1) [OF ad that] by (auto simp: spent_before_iff in_op_def)
  have first: "find (\<lambda>t'. tx_txid t' = tx_txid t) prior = None"
    using d(2) unfolding find_None_iff by (metis image_eqI)
  have new: "\<And>v. u_get ?u (tx_txid t, v) = None"
    "\<And>v. (tx_txid t, v) \<notin> spent_ops prior" "length (tx_outputs t) < 2 ^ 32"
    using Cons.prems(2,4) by (auto simp: fresh_ids_def find_None_iff)
  have known: "coins_after h ?u prior (in_op i) \<noteq> None \<and> ti_prev i \<noteq> tx_txid t" if "i \<in> set (tx_inputs t)" for i
    using inp [OF that] d(2) by auto
  note step = apply_tx_coins [OF Cons.prems(3) known first new]
  have "(tx_txid t', v) \<notin> spent_ops (prior @ [t])" if "t' \<in> set txs" for t' v
  proof
    assume "(tx_txid t', v) \<in> spent_ops (prior @ [t])"
    moreover have "(tx_txid t', v) \<notin> spent_ops prior" using that by (intro Cons.prems(4)) simp
    ultimately obtain i where "i \<in> set (tx_inputs t)" "ti_prev i = tx_txid t'"
      by (auto simp: spent_ops_snoc in_op_def)
    with inp(2) [of i] d(3) [OF that] that show False by auto
  qed
  with Cons.IH [OF rest] Cons.prems(2) step
  show ?case by (simp add: ledger_tx_def)
qed simp

lemma updates_succeed_cong:
  "st_utxo st = st_utxo st' \<Longrightarrow> updates_succeed h txs st = updates_succeed h txs st'"
proof (induction txs arbitrary: st st')
  case (Cons t txs)
  have same: "st_utxo (snd (apply_utxos st a b)) = st_utxo (snd (apply_utxos st' a b))"
    "fst (apply_utxos st a b) = fst (apply_utxos st' a b)" for a b
    using Cons.prems by (simp_all add: apply_utxos_update)
  show ?case
    using Cons.IH [of "remove_transaction (snd (apply_utxos st (tx_spends t) (tx_credits h t))) (tx_txid t)"
        "remove_transaction (snd (apply_utxos st' (tx_spends t) (tx_credits h t))) (tx_txid t)"]
    by (simp add: same)
qed simp

lemma commit_storage:
  "nd_st (fold (commit_tx h k) txs nd) = fold (ledger_tx h) txs (nd_st nd)"
  by (induction txs arbitrary: nd) (simp_all add: commit_tx_def ledger_tx_def)

lemma credit_coinbase_eq: "credit_coinbase h cb st = snd (apply_utxos st [] (tx_credits h cb))"
  by (simp add: credit_coinbase_def apply_utxos_update utxo.update_def)

lemma store_block_utxo:
  "store_block_with_header st d hdr bs opened = Got (True, st') \<Longrightarrow> st_utxo st' = st_utxo st"
  by (auto simp: store_block_with_header_def append_block_def rotate_if_needed_def Let_def split: if_splits)

text \<open>C16: The refinement of the ledger. When a block is accepted and the ids of its transactions
  are new to the set and to each other, every update succeeds, and the coins afterwards are those of
  the abstract ledger: a coin the block spends is gone, an output of its transactions is a coin of its
  value, address and height, and every other coin is as before.\<close>

theorem submit_ledger_exact:
  assumes "rpc_submitblock ev params k nd = (Sub_Accepted digest height False, nd')"
    and "submit_head ev nd k (as_object_param (ev_parse ev) params) = Go b"
    and "fresh_ids (st_utxo (nd_st nd)) (bk_cb b # bk_txs b)"
  shows "updates_succeed (sb_height (bk_fields b)) (bk_cb b # bk_txs b) (nd_st nd) \<and>
    u_get (st_utxo (nd_st nd')) p =
      coins_after (sb_height (bk_fields b)) (st_utxo (nd_st nd)) (bk_cb b # bk_txs b) p"
proof -
  let ?h = "sb_height (bk_fields b)" and ?cb = "bk_cb b" and ?u = "st_utxo (nd_st nd)"
  from assms(1,2) obtain fl g st hdr bs where ad: "admit_txs ev (nd_st nd) k ?h [?cb] (bk_txs b) (nd_flags nd) (nd_names nd) = (Inr fl, g)"
    and st: "store_block_with_header (nd_st nd) digest hdr bs (ev_opened ev) = Got (True, st)"
    and nd': "nd' = commit_block k b fl st (nd\<lparr>nd_names := g\<rparr>)"
    by (auto simp: rpc_submitblock_def submit_store_def Let_def
        split: sum.splits stage.splits prod.splits if_splits read.splits bool.splits)
  have no_inputs: "tx_inputs ?cb = []"
    using assms(2) by (auto simp: submit_head_def submit_coinbase_def coinbase_from_def Let_def tx_default_def)
  note cb = apply_tx_coins [where st = st and prior = "[]" and t = ?cb and u = ?u and h = ?h]
  have cb1: "fst (apply_utxos st [] (tx_credits ?h ?cb))"
    "u_get (st_utxo (snd (apply_utxos st [] (tx_credits ?h ?cb)))) p = coins_after ?h ?u [?cb] p" for p
    using cb assms(3) no_inputs store_block_utxo [OF st]
    by (simp_all add: coins_after_def spent_ops_def fresh_ids_def tx_spends_def)
  have "u_get (st_utxo (credit_coinbase ?h ?cb st)) p = coins_after ?h ?u [?cb] p" for p
    using cb1(2) by (simp only: credit_coinbase_eq)
  from admitted_ledger [OF ad _ this] assms(3) no_inputs
  have led: "updates_succeed ?h (bk_txs b) (credit_coinbase ?h ?cb st)"
    "u_get (st_utxo (fold (ledger_tx ?h) (bk_txs b) (credit_coinbase ?h ?cb st))) p = coins_after ?h ?u (?cb # bk_txs b) p"
    by (simp_all add: spent_ops_def)
  have "updates_succeed ?h (bk_txs b) (remove_transaction (snd (apply_utxos (nd_st nd) [] (tx_credits ?h ?cb))) (tx_txid ?cb)) =
      updates_succeed ?h (bk_txs b) (credit_coinbase ?h ?cb st)"
    by (rule updates_succeed_cong) (simp add: credit_coinbase_eq apply_utxos_update store_block_utxo [OF st])
  moreover have "fst (apply_utxos (nd_st nd) [] (tx_credits ?h ?cb))"
    using cb1(1) by (simp add: apply_utxos_update store_block_utxo [OF st] split: if_splits)
  ultimately have "updates_succeed ?h (?cb # bk_txs b) (nd_st nd)"
    using led(1) no_inputs by (simp add: tx_spends_def)
  moreover have "nd_st nd' = fold (ledger_tx ?h) (bk_txs b) (credit_coinbase ?h ?cb st)"
    by (simp add: nd' commit_block_def commit_storage Let_def)
  ultimately show ?thesis using led(2) by simp
qed

lemma submit_ledger_exact_witness:
  "u_get (st_utxo (nd_st (snd (rpc_submitblock grab_env first_block False demo_node)))) (digest7, 0) =
     Some \<lparr>ur_value = cb_units (hd first_outs), ur_address = cb_address (hd first_outs), ur_height = 1\<rparr>"
proof -
  have r: "rpc_submitblock grab_env first_block False demo_node =
      (Sub_Accepted digest7 1 False, snd (rpc_submitblock grab_env first_block False demo_node))"
    using first_submit by (metis prod.collapse)
  have head: "submit_head grab_env demo_node False (as_object_param (ev_parse grab_env) first_block) = Go first_accepted"
    using first_head by (simp add: as_object_param_def first_block_def)
  have sha: "ev_sha grab_env = (\<lambda>_. digest7)" by (simp add: grab_env_def digest7_def)
  have id: "tx_txid (coinbase_from (\<lambda>_. digest7) 1 first_outs) = digest7"
    by (simp add: coinbase_from_def txid_of_def Let_def)
  have fresh: "fresh_ids (st_utxo (nd_st demo_node)) [coinbase_from (ev_sha grab_env) 1 first_outs]"
    by (simp add: fresh_ids_def demo_node_def storage_new_def u_get_def tbl_get_def coinbase_from_def first_outs_def Let_def)
  show ?thesis
    using submit_ledger_exact [OF r head, of "(digest7, 0)"] fresh
    by (simp add: first_accepted_def first_fields_def coins_after_def coin_of_def spent_ops_def sha id)
      (simp add: first_outs_def coinbase_from_def Let_def tx_default_def)
qed

end
