(* ===== verification/Wire.thy ===== *)
theory Wire
  imports Storage
begin

text \<open>
  The payloads of the peer protocol: \<open>MessageSerializer\<close> (p2p.cpp). The readers work on a raw
  pointer and an offset, so a read past the payload is the value \<open>Out_Of_Bounds\<close>; \<open>Got None\<close> is
  the \<open>false\<close> of a deserializer. Output arguments that the code leaves alone are \<open>None\<close>.

  The interface \<open>fixed_codec\<close> extends \<open>codec\<close> to items of one width; the array loops of the
  deserializers are proved once in it and used for addresses, inventory vectors, hashes and
  compact headers.
\<close>

subsection \<open>Types\<close>

record peer_addr =
  pa_ip :: u32
  pa_port :: u16
  pa_last_seen :: u64
  pa_services :: u32
  pa_failures :: int

record inv_vect =
  iv_type :: u32
  iv_hash :: h256

record 'f threat_alert =
  ta_type :: string
  ta_severity :: string
  ta_source_ip :: u32
  ta_timestamp :: u64
  ta_details :: string
  ta_node :: string
  ta_confidence :: 'f

definition PROTOCOL_VERSION :: u32 where "PROTOCOL_VERSION = 31400"
definition SERVICES_NODE :: u32 where "SERVICES_NODE = 1"
definition MAX_INV_SIZE :: u64 where "MAX_INV_SIZE = 50000"
definition kMaxMessageBytes :: u32 where "kMaxMessageBytes = 2 * 1024 * 1024"
definition kCompactHeaderBytes :: nat where "kCompactHeaderBytes = 4 + 32 + 32 + 8 + 4 + 8 + 32"

subsection \<open>Writers\<close>

definition writeUint32 :: "bytes \<Rightarrow> u32 \<Rightarrow> bytes" where
  "writeUint32 buf val =
     (((buf @ [ucast (val AND 0xFF)]) @ [ucast (drop_bit 8 val AND 0xFF)]) @
       [ucast (drop_bit 16 val AND 0xFF)]) @ [ucast (drop_bit 24 val AND 0xFF)]"

definition writeUint64 :: "bytes \<Rightarrow> u64 \<Rightarrow> bytes" where
  "writeUint64 buf val = fold (\<lambda>i buf. buf @ [ucast (drop_bit (i * 8) val AND 0xFF)]) [0..<8] buf"

definition writeVarInt :: "bytes \<Rightarrow> u64 \<Rightarrow> bytes" where
  "writeVarInt buf val =
     (if val < 0xFD then buf @ [ucast val]
      else if val \<le> 0xFFFF then buf @ [0xFD, ucast (val AND 0xFF), ucast (drop_bit 8 val AND 0xFF)]
      else if val \<le> 0xFFFFFFFF then writeUint32 (buf @ [0xFE]) (ucast val)
      else writeUint64 (buf @ [0xFF]) val)"

definition writeString :: "bytes \<Rightarrow> string \<Rightarrow> bytes" where
  "writeString buf str = writeVarInt buf (of_nat (length str)) @ bytes_of str"

subsection \<open>Readers\<close>

definition byte_at :: "bytes \<Rightarrow> nat \<Rightarrow> u8 read" where
  "byte_at data off = (if off < length data then Got (data ! off) else Out_Of_Bounds)"

definition readUint32 :: "bytes \<Rightarrow> nat \<Rightarrow> (u32 \<times> nat) read" where
  "readUint32 data off =
     (if off + 4 \<le> length data
      then Got (ucast (data ! off) OR push_bit 8 (ucast (data ! (off + 1))) OR
                push_bit 16 (ucast (data ! (off + 2))) OR push_bit 24 (ucast (data ! (off + 3))), off + 4)
      else Out_Of_Bounds)"

definition readUint64 :: "bytes \<Rightarrow> nat \<Rightarrow> (u64 \<times> nat) read" where
  "readUint64 data off =
     (if off + 8 \<le> length data
      then Got (fold (\<lambda>i val. val OR push_bit (i * 8) (ucast (data ! (off + i)))) [0..<8] 0, off + 8)
      else Out_Of_Bounds)"

definition readVarInt :: "bytes \<Rightarrow> nat \<Rightarrow> nat \<Rightarrow> (u64 \<times> nat) read" where
  "readVarInt data off maxSize =
     (if off \<ge> maxSize then Got (0, off)
      else read_bind (byte_at data off) (\<lambda>first.
        let off = off + 1 in
        if first < 0xFD then Got (ucast first, off)
        else if first = 0xFD \<and> off + 2 \<le> maxSize then
          read_bind (byte_at data off) (\<lambda>lo. read_bind (byte_at data (off + 1)) (\<lambda>hi.
            Got (ucast lo OR push_bit 8 (ucast hi), off + 2)))
        else if first = 0xFE \<and> off + 4 \<le> maxSize then
          read_bind (readUint32 data off) (\<lambda>(val, off). Got (ucast val, off))
        else if first = 0xFF \<and> off + 8 \<le> maxSize then readUint64 data off
        else Got (0, off)))"

definition readString :: "bytes \<Rightarrow> nat \<Rightarrow> nat \<Rightarrow> (string \<times> nat) read" where
  "readString data off maxLen =
     read_bind (readVarInt data off maxLen) (\<lambda>(len, off).
       if unat len > maxLen \<or> off + unat len > maxLen then Got ([], off)
       else if off + unat len > length data then Out_Of_Bounds
       else Got (string_of (take (unat len) (drop off data)), off + unat len))"

definition copy32 :: "bytes \<Rightarrow> nat \<Rightarrow> (h256 \<times> nat) read" where
  "copy32 data off =
     (if off + 32 \<le> length data then Got (take 32 (drop off data), off + 32) else Out_Of_Bounds)"

subsection \<open>Serializers\<close>

definition serializeVersion ::
  "u32 \<Rightarrow> u32 \<Rightarrow> u64 \<Rightarrow> peer_addr \<Rightarrow> peer_addr \<Rightarrow> u64 \<Rightarrow> string \<Rightarrow> u32 \<Rightarrow> bytes" where
  "serializeVersion version services timestamp addrRecv addrFrom nonce userAgent startHeight =
     (let payload = writeUint32 [] version;
          payload = writeUint64 payload (ucast services);
          payload = writeUint64 payload timestamp;
          payload = writeUint64 payload (ucast (pa_services addrRecv));
          payload = writeUint64 payload (ucast (pa_services addrFrom));
          payload = writeUint64 payload nonce;
          payload = writeString payload userAgent
      in writeUint32 payload startHeight)"

definition serializeVerack :: bytes where
  "serializeVerack = []"

definition write_addr :: "peer_addr \<Rightarrow> bytes \<Rightarrow> bytes" where
  "write_addr addr payload =
     writeUint32 (writeUint32 (writeUint64 payload (pa_last_seen addr)) (pa_services addr)) (pa_ip addr) @
     [ucast (drop_bit 8 (pa_port addr) AND 0xFF)] @ [ucast (pa_port addr AND 0xFF)]"

definition serializeAddr :: "peer_addr list \<Rightarrow> bytes" where
  "serializeAddr addrs = fold write_addr addrs (writeVarInt [] (of_nat (length addrs)))"

definition write_inv :: "inv_vect \<Rightarrow> bytes \<Rightarrow> bytes" where
  "write_inv v payload = writeUint32 payload (iv_type v) @ iv_hash v"

definition serializeInv :: "inv_vect list \<Rightarrow> bytes" where
  "serializeInv invs = fold write_inv invs (writeVarInt [] (of_nat (length invs)))"

definition serializeGetData :: "inv_vect list \<Rightarrow> bytes" where
  "serializeGetData invs = serializeInv invs"

definition serializeGetHeaders :: "h256 list \<Rightarrow> h256 \<Rightarrow> bytes" where
  "serializeGetHeaders locatorHashes hashStop =
     (let payload = writeUint32 [] PROTOCOL_VERSION;
          payload = writeVarInt payload (of_nat (length locatorHashes));
          payload = fold (\<lambda>hash payload. payload @ hash) locatorHashes payload
      in payload @ hashStop)"

definition write_header :: "block_header \<Rightarrow> bytes \<Rightarrow> bytes" where
  "write_header header payload =
     (let payload = writeUint32 payload (bh_version header);
          payload = payload @ bh_prev header;
          payload = payload @ bh_merkle header;
          payload = writeUint64 payload (bh_timestamp header);
          payload = writeUint32 payload (bh_difficulty header);
          payload = writeUint64 payload (bh_nonce header)
      in payload @ bh_hash header)"

fun write_headers :: "block_header list \<Rightarrow> bytes \<Rightarrow> bytes" where
  "write_headers [] payload = payload"
| "write_headers (header # headers) payload =
     (if length (write_header header payload) - length payload \<noteq> kCompactHeaderBytes then []
      else write_headers headers (write_header header payload))"

definition serializeHeaders :: "block_header list \<Rightarrow> bytes" where
  "serializeHeaders headers = write_headers headers (writeVarInt [] (of_nat (length headers)))"

definition serializeBlock :: "bytes \<Rightarrow> bytes" where
  "serializeBlock blockData = blockData"

definition serializeTx :: "bytes \<Rightarrow> bytes" where
  "serializeTx txData = txData"

definition serializePing :: "u64 \<Rightarrow> bytes" where
  "serializePing nonce = writeUint64 [] nonce"

definition serializePong :: "u64 \<Rightarrow> bytes" where
  "serializePong nonce = writeUint64 [] nonce"

definition serializeReject :: "string \<Rightarrow> u8 \<Rightarrow> string \<Rightarrow> bytes" where
  "serializeReject message code reason = writeString (writeString [] message @ [code]) reason"

text \<open>\<open>fixed\<close> is the conversion of the confidence, a \<open>double\<close>, to millionths.\<close>

definition serializeThreatAlert :: "('f \<Rightarrow> u64) \<Rightarrow> 'f threat_alert \<Rightarrow> bytes" where
  "serializeThreatAlert fixed alert =
     (let payload = writeString [] (ta_type alert);
          payload = writeString payload (ta_severity alert);
          payload = writeUint32 payload (ta_source_ip alert);
          payload = writeUint64 payload (ta_timestamp alert);
          payload = writeString payload (ta_details alert);
          payload = writeString payload (ta_node alert)
      in writeUint64 payload (fixed (ta_confidence alert)))"

subsection \<open>Deserializers\<close>

record version_msg =
  vm_version :: u32
  vm_services :: u32
  vm_timestamp :: u64
  vm_user_agent :: string
  vm_start_height :: "u32 option"

definition deserializeVersion :: "bytes \<Rightarrow> version_msg option read" where
  "deserializeVersion data =
     (if length data < 40 then Got None
      else
        read_bind (readUint32 data 0) (\<lambda>(version, off).
        read_bind (readUint64 data off) (\<lambda>(services, off).
        read_bind (readUint64 data off) (\<lambda>(timestamp, off).
        read_bind (readUint64 data (off + 16)) (\<lambda>(nonce, off).
        read_bind (readString data off (length data)) (\<lambda>(userAgent, off).
        read_bind (if off + 4 \<le> length data
                   then read_bind (readUint32 data off) (\<lambda>(h, off). Got (Some h)) else Got None) (\<lambda>startHeight.
          Got (Some \<lparr>vm_version = version, vm_services = ucast services, vm_timestamp = timestamp,
                     vm_user_agent = userAgent, vm_start_height = startHeight\<rparr>))))))))"

text \<open>The loop of the array messages: \<open>count\<close> items of \<open>width\<close> bytes.\<close>

fun read_items ::
  "(bytes \<Rightarrow> nat \<Rightarrow> ('a \<times> nat) read) \<Rightarrow> nat \<Rightarrow> nat \<Rightarrow> bytes \<Rightarrow> nat \<Rightarrow> 'a list \<Rightarrow> ('a list \<times> nat) option read" where
  "read_items item width 0 data off acc = Got (Some (acc, off))"
| "read_items item width (Suc count) data off acc =
     (if off + width > length data then Got None
      else read_bind (item data off) (\<lambda>(x, off). read_items item width count data off (acc @ [x])))"

definition read_addr :: "bytes \<Rightarrow> nat \<Rightarrow> (peer_addr \<times> nat) read" where
  "read_addr data off =
     read_bind (readUint64 data off) (\<lambda>(lastSeen, off).
     read_bind (readUint32 data off) (\<lambda>(services, off).
     read_bind (readUint32 data off) (\<lambda>(ip, off).
     read_bind (byte_at data off) (\<lambda>hi. read_bind (byte_at data (off + 1)) (\<lambda>lo.
       Got (\<lparr>pa_ip = ip, pa_port = push_bit 8 (ucast hi) OR ucast lo, pa_last_seen = lastSeen,
             pa_services = services, pa_failures = 0\<rparr>, off + 2))))))"

definition read_inv :: "bytes \<Rightarrow> nat \<Rightarrow> (inv_vect \<times> nat) read" where
  "read_inv data off =
     read_bind (readUint32 data off) (\<lambda>(ty, off).
     read_bind (copy32 data off) (\<lambda>(hash, off). Got (\<lparr>iv_type = ty, iv_hash = hash\<rparr>, off)))"

definition read_header :: "bytes \<Rightarrow> nat \<Rightarrow> (block_header \<times> nat) read" where
  "read_header data off =
     read_bind (readUint32 data off) (\<lambda>(version, off).
     read_bind (copy32 data off) (\<lambda>(prev, off).
     read_bind (copy32 data off) (\<lambda>(merkle, off).
     read_bind (readUint64 data off) (\<lambda>(timestamp, off).
     read_bind (readUint32 data off) (\<lambda>(difficulty, off).
     read_bind (readUint64 data off) (\<lambda>(nonce, off).
     read_bind (copy32 data off) (\<lambda>(hash, off).
       Got (\<lparr>bh_version = version, bh_prev = prev, bh_merkle = merkle, bh_timestamp = timestamp,
             bh_difficulty = difficulty, bh_nonce = nonce, bh_hash = hash, bh_height = 0\<rparr>, off))))))))"

definition deserializeAddr :: "bytes \<Rightarrow> peer_addr list option read" where
  "deserializeAddr data =
     (if data = [] then Got None
      else read_bind (readVarInt data 0 (length data)) (\<lambda>(count, off).
        if count > 1000 then Got None
        else read_bind (read_items read_addr 18 (unat count) data off []) (\<lambda>r. Got (map_option fst r))))"

definition deserializeInv :: "bytes \<Rightarrow> inv_vect list option read" where
  "deserializeInv data =
     (if data = [] then Got None
      else read_bind (readVarInt data 0 (length data)) (\<lambda>(count, off).
        if count > MAX_INV_SIZE then Got None
        else read_bind (read_items read_inv 36 (unat count) data off []) (\<lambda>r. Got (map_option fst r))))"

text \<open>\<open>hashStop\<close> is only assigned when its bytes are there.\<close>

definition deserializeGetHeaders :: "bytes \<Rightarrow> (h256 list \<times> h256 option) option read" where
  "deserializeGetHeaders data =
     (if length data < 37 then Got None
      else read_bind (readVarInt data 4 (length data)) (\<lambda>(count, off).
        if count > 500 then Got None
        else read_bind (read_items copy32 32 (unat count) data off []) (\<lambda>r.
          case r of
            None \<Rightarrow> Got None
          | Some (locator, off) \<Rightarrow>
              if off + 32 \<le> length data
              then read_bind (copy32 data off) (\<lambda>(stop, _). Got (Some (locator, Some stop)))
              else Got (Some (locator, None)))))"

definition deserializeHeaders :: "bytes \<Rightarrow> (block_header list \<times> nat) option read" where
  "deserializeHeaders data =
     (if data = [] then Got None
      else read_bind (readVarInt data 0 (length data)) (\<lambda>(count, off).
        if count = 0 \<or> count > 2000 then Got None
        else if length data < off \<or> length data - off \<noteq> unat (count * of_nat kCompactHeaderBytes) then Got None
        else read_bind (read_items read_header kCompactHeaderBytes (unat count) data off []) (\<lambda>r.
          case r of
            None \<Rightarrow> Got None
          | Some (headers, off) \<Rightarrow> if off \<noteq> length data then Got None else Got (Some (headers, off)))))"

definition deserializePing :: "bytes \<Rightarrow> u64 option read" where
  "deserializePing data =
     (if length data < 8 then Got None else read_bind (readUint64 data 0) (\<lambda>(nonce, _). Got (Some nonce)))"

definition deserializePong :: "bytes \<Rightarrow> u64 option read" where
  "deserializePong data = deserializePing data"

text \<open>\<open>amount\<close> is the conversion of millionths to a \<open>double\<close>; without the bytes the confidence stays
  the uninitialised \<open>unset\<close> of the caller.\<close>

definition deserializeThreatAlert :: "(u64 \<Rightarrow> 'f) \<Rightarrow> 'f \<Rightarrow> bytes \<Rightarrow> 'f threat_alert option read" where
  "deserializeThreatAlert amount unset data =
     (if length data < 20 then Got None
      else
        read_bind (readString data 0 (length data)) (\<lambda>(ty, off).
        read_bind (readString data off (length data)) (\<lambda>(severity, off).
        read_bind (readUint32 data off) (\<lambda>(ip, off).
        read_bind (readUint64 data off) (\<lambda>(timestamp, off).
        read_bind (readString data off (length data)) (\<lambda>(details, off).
        read_bind (readString data off (length data)) (\<lambda>(nodeid, off).
        read_bind (if off + 8 \<le> length data
                   then read_bind (readUint64 data off) (\<lambda>(c, _). Got (amount c)) else Got unset) (\<lambda>confidence.
          Got (Some \<lparr>ta_type = ty, ta_severity = severity, ta_source_ip = ip, ta_timestamp = timestamp,
                     ta_details = details, ta_node = nodeid, ta_confidence = confidence\<rparr>)))))))))"

end
