(* ===== verification/Wire_Laws.thy ===== *)
theory Wire_Laws
  imports Wire
begin

text \<open>
  The laws of the wire format: what a writer puts in a payload the reader at that offset gets
  back, an array message is read item by item without leaving the payload, and what a
  deserializer accepts is what a serializer writes.
\<close>

subsection \<open>Words\<close>

lemma writeUint32_layout [layout]: "writeUint32 buf v = buf @ le_bytes 4 v"
  by (simp add: writeUint32_def le_bytes_def upt_rec)

lemma writeUint64_layout [layout]: "writeUint64 buf v = buf @ le_bytes 8 v"
  by (simp only: writeUint64_def fold_snoc le_bytes_def ucast_mask_u8 mult.commute)

lemma take_4_drop: "off + 4 \<le> length data \<Longrightarrow>
    take 4 (drop off data) = [data ! off, data ! (off + 1), data ! (off + 2), data ! (off + 3)]"
  by (rule nth_equalityI) (auto simp: less_Suc_eq numeral_eq_Suc)

lemma le_bytes_read32:
  fixes a b c d :: u8
  shows "le_bytes 4 (ucast a OR push_bit 8 (ucast b) OR push_bit 16 (ucast c) OR push_bit 24 (ucast d) :: u32) =
    [a, b, c, d]"
proof -
  let ?w = "ucast a OR push_bit 8 (ucast b) OR push_bit 16 (ucast c) OR push_bit 24 (ucast d) :: u32"
  have "(ucast ?w :: u8) = a" "(ucast (drop_bit 8 ?w) :: u8) = b"
    "(ucast (drop_bit 16 ?w) :: u8) = c" "(ucast (drop_bit 24 ?w) :: u8) = d"
    by (rule bit_word_eqI; auto simp: bit_simps dest: bit_imp_le_length)+
  then show ?thesis by (simp add: le_bytes_def upt_rec)
qed

lemma readUint32_total:
  assumes "off + 4 \<le> length data"
  shows "\<exists>v. le_bytes 4 v = take 4 (drop off data) \<and> readUint32 data off = Got (v, off + 4)"
  using assms by (simp add: readUint32_def take_4_drop le_bytes_read32)

lemma fold_or_bytes:
  fixes f :: "nat \<Rightarrow> u8"
  assumes "n \<le> 8"
  shows "\<forall>k. bit (fold (\<lambda>i val. val OR push_bit (i * 8) (ucast (f i))) [0..<n] (0 :: u64)) k =
    (k < 8 * n \<and> bit (f (k div 8)) (k mod 8))"
  using assms
proof (induction n)
  case (Suc n)
  have "bit (push_bit (n * 8) (ucast (f n)) :: u64) k = (8 * n \<le> k \<and> k < 8 * Suc n \<and> bit (f (k div 8)) (k mod 8))" for k
  proof (cases "8 * n \<le> k \<and> k < 8 * Suc n")
    case True
    then have "k div 8 = n" "k mod 8 = k - n * 8" "k < 64" "k - n * 8 < 64" using Suc.prems
      by (auto simp: div_nat_eqI modulo_nat_def)
    with True show ?thesis by (simp add: bit_simps)
  next
    case False
    then show ?thesis by (auto simp: bit_simps dest: bit_imp_le_length)
  qed
  note new = this
  show ?case
  proof
    fix k
    have "bit (fold (\<lambda>i val. val OR push_bit (i * 8) (ucast (f i))) [0..<n] (0 :: u64)) k =
        (k < 8 * n \<and> bit (f (k div 8)) (k mod 8))"
      using Suc.IH Suc.prems by simp
    then show "bit (fold (\<lambda>i val. val OR push_bit (i * 8) (ucast (f i))) [0..<Suc n] (0 :: u64)) k =
        (k < 8 * Suc n \<and> bit (f (k div 8)) (k mod 8))"
      by (simp only: upt_Suc_append [OF le0] fold_append comp_apply fold_simps bit_or_iff new) auto
  qed
qed simp

lemma readUint64_total:
  assumes "off + 8 \<le> length data"
  shows "\<exists>v. le_bytes 8 v = take 8 (drop off data) \<and> readUint64 data off = Got (v, off + 8)"
proof -
  let ?v = "fold (\<lambda>i val. val OR push_bit (i * 8) (ucast (data ! (off + i)))) [0..<8] (0 :: u64)"
  have "(ucast (drop_bit (8 * i) ?v) :: u8) = data ! (off + i)" if "i < 8" for i
  proof (rule bit_word_eqI)
    fix k assume "k < LENGTH(8)"
    then have "k + 8 * i < 64" "(k + 8 * i) div 8 = i" "(k + 8 * i) mod 8 = k" using that by auto
    then show "bit (ucast (drop_bit (8 * i) ?v) :: u8) k = bit (data ! (off + i)) k"
      using fold_or_bytes [of 8 "\<lambda>i. data ! (off + i)"] \<open>k < LENGTH(8)\<close>
      by (simp only: bit_ucast_iff bit_drop_bit_eq comp_def) (simp add: add.commute)
  qed
  then have "le_bytes 8 ?v = take 8 (drop off data)"
    using assms by (intro nth_equalityI) (auto simp: le_bytes_def)
  with assms show ?thesis by (auto simp: readUint64_def)
qed

lemma copy32_total: "off + 32 \<le> length data \<Longrightarrow> copy32 data off = Got (take 32 (drop off data), off + 32)"
  by (simp add: copy32_def)

lemma byte_at_total [simp]: "off < length data \<Longrightarrow> byte_at data off = Got (data ! off)"
  by (simp add: byte_at_def)

subsection \<open>Items of one width\<close>

locale fixed_codec =
  fixes wr :: "'a \<Rightarrow> bytes"
    and rd :: "bytes \<Rightarrow> nat \<Rightarrow> ('a \<times> nat) read"
    and ok :: "'a \<Rightarrow> bool"
    and width :: nat
  assumes wr_eq: "ok x \<Longrightarrow> ok y \<Longrightarrow> wr x = wr y \<Longrightarrow> x = y"
    and wr_width: "ok x \<Longrightarrow> length (wr x) = width"
    and rd_total: "off + width \<le> length data \<Longrightarrow>
      \<exists>x. ok x \<and> wr x = take width (drop off data) \<and> rd data off = Got (x, off + width)"
begin

lemma rd_back: "ok x \<Longrightarrow> rd (pre @ wr x @ post) (length pre) = Got (x, length pre + length (wr x))"
proof -
  assume x: "ok x"
  then obtain y where "ok y" "wr y = wr x" "rd (pre @ wr x @ post) (length pre) = Got (y, length pre + width)"
    using rd_total [of "length pre" "pre @ wr x @ post"] wr_width [of x] by auto
  with x wr_eq [of y x] wr_width [of x] show ?thesis by simp
qed

text \<open>The array loop never leaves the payload; it fails exactly when the items do not fit.\<close>

lemma items_total:
  "off + width * n \<le> length data \<Longrightarrow>
   \<exists>xs. length xs = n \<and> (\<forall>x \<in> set xs. ok x) \<and> concat (map wr xs) = take (width * n) (drop off data) \<and>
     read_items rd width n data off acc = Got (Some (acc @ xs, off + width * n))"
proof (induction n arbitrary: off acc)
  case (Suc n)
  then obtain x where x: "ok x" "wr x = take width (drop off data)" "rd data off = Got (x, off + width)"
    using rd_total [of off data] by auto
  from Suc.IH [of "off + width" "acc @ [x]"] Suc.prems obtain xs where
    xs: "length xs = n" "\<forall>x \<in> set xs. ok x" "concat (map wr xs) = take (width * n) (drop (off + width) data)"
    "read_items rd width n data (off + width) (acc @ [x]) = Got (Some (acc @ [x] @ xs, off + width + width * n))"
    by (auto simp: add.assoc)
  have "concat (map wr (x # xs)) = take (width * Suc n) (drop off data)"
    using x(2) xs(3) by (simp add: take_add add.commute)
  with x xs Suc.prems show ?case
    by (intro exI [of _ "x # xs"]) (simp add: add.assoc)
qed simp

lemma items_short:
  "off \<le> length data \<Longrightarrow> length data < off + width * n \<Longrightarrow> read_items rd width n data off acc = Got None"
proof (induction n arbitrary: off acc)
  case (Suc n)
  show ?case
  proof (cases "off + width \<le> length data")
    case True
    then obtain x where "rd data off = Got (x, off + width)" using rd_total by blast
    with Suc True show ?thesis by (simp add: add.assoc)
  qed simp
qed simp

lemma items_in:
  assumes "off \<le> length data"
  shows "\<exists>r. read_items rd width n data off acc = Got r \<and> (\<forall>xs off'. r = Some (xs, off') \<longrightarrow> off' \<le> length data)"
  using items_total [of off n data acc] items_short [OF assms, of n acc] by (cases "off + width * n \<le> length data") auto

lemma concat_width: "\<forall>x \<in> set xs. ok x \<Longrightarrow> length (concat (map wr xs)) = width * length xs"
  by (induction xs) (simp_all add: wr_width)

lemma items_back:
  assumes "\<forall>x \<in> set xs. ok x"
  shows "read_items rd width (length xs) (pre @ concat (map wr xs) @ post) (length pre) acc =
    Got (Some (acc @ xs, length pre + width * length xs))"
  using assms
proof (induction xs arbitrary: pre acc)
  case (Cons x xs)
  then show ?case
    using Cons.IH [of "pre @ wr x" "acc @ [x]"] rd_back [of x pre "concat (map wr xs) @ post"]
    by (simp add: wr_width)
qed simp

end

sublocale fixed_codec \<subseteq> codec wr rd ok
  by unfold_locales (rule rd_back)

interpretation w32: fixed_codec "le_bytes 4 :: u32 \<Rightarrow> bytes" readUint32 "\<lambda>_. True" 4
  by unfold_locales (simp_all add: le_bytes_inject readUint32_total)

interpretation w64: fixed_codec "le_bytes 8 :: u64 \<Rightarrow> bytes" readUint64 "\<lambda>_. True" 8
  by unfold_locales (simp_all add: le_bytes_inject readUint64_total)

interpretation w256: fixed_codec "\<lambda>h :: h256. h" copy32 is_h256 32
  by unfold_locales (auto simp: copy32_def is_h256_def)

subsection \<open>Lengths and texts\<close>

lemma bits_below:
  assumes "unat (v :: u64) < 2 ^ n" "bit v k"
  shows "k < n"
proof -
  have "take_bit n v = v"
    using assms(1) by (simp only: word_unat_eq_iff unsigned_take_bit_eq take_bit_nat_eq_self)
  with assms(2) show ?thesis by (metis bit_take_bit_iff)
qed

lemma ucast_back8: "(v :: u64) < 253 \<Longrightarrow> ucast (ucast v :: u8) = v"
  by (rule bit_word_eqI) (auto simp: bit_simps word_less_nat_alt dest: bits_below [of v 8, rotated])

lemma byte_below_FD: "(v :: u64) < 253 \<Longrightarrow> (ucast v :: u8) < 253"
proof -
  assume "v < 253"
  then have "unat v < 253" by (simp add: word_less_nat_alt)
  then have "take_bit 8 (unat v) < 253" by (simp add: take_bit_eq_mod)
  then have "unat (ucast v :: u8) < 253" by (simp add: unsigned_ucast_eq flip: unsigned_take_bit_eq)
  then show ?thesis by (simp add: word_less_nat_alt)
qed

lemma ucast_back16:
  assumes "(v :: u64) \<le> 0xFFFF"
  shows "ucast (ucast v :: u8) OR push_bit 8 (ucast (ucast (drop_bit 8 v) :: u8)) = v"
proof (rule bit_word_eqI)
  fix k
  have "unat v < 2 ^ 16" using assms by (simp add: word_le_nat_alt)
  note below = bits_below [OF this]
  show "bit (ucast (ucast v :: u8) OR push_bit 8 (ucast (ucast (drop_bit 8 v) :: u8)) :: u64) k = bit v k"
    using below [of k] by (auto simp: bit_simps dest: bit_imp_le_length)
qed

lemma ucast_back32:
  assumes "(v :: u64) \<le> 0xFFFFFFFF"
  shows "ucast (ucast v :: u32) = v"
proof (rule bit_word_eqI)
  fix k
  have "unat v < 2 ^ 32" using assms by (simp add: word_le_nat_alt)
  from bits_below [OF this, of k] show "bit (ucast (ucast v :: u32) :: u64) k = bit v k"
    by (auto simp: bit_simps)
qed

interpretation varint: codec "writeVarInt []" "\<lambda>data off. readVarInt data off (length data)" "\<lambda>_. True"
proof
  fix v :: u64 and pre post :: bytes
  let ?data = "pre @ writeVarInt [] v @ post"
  consider (b1) "v < 0xFD" | (b2) "\<not> v < 0xFD" "v \<le> 0xFFFF" | (b4) "\<not> v < 0xFD" "\<not> v \<le> 0xFFFF" "v \<le> 0xFFFFFFFF"
    | (b8) "\<not> v < 0xFD" "\<not> v \<le> 0xFFFF" "\<not> v \<le> 0xFFFFFFFF"
    by blast
  then show "readVarInt ?data (length pre) (length ?data) = Got (v, length pre + length (writeVarInt [] v))"
  proof cases
    case b1
    then show ?thesis by (simp add: writeVarInt_def readVarInt_def byte_below_FD ucast_back8)
  next
    case b2
    then show ?thesis
      by (simp add: writeVarInt_def readVarInt_def nth_append ucast_back16 Let_def)
  next
    case b4
    then show ?thesis
      using w32.rd_wr_at [where x = "ucast v" and n = "Suc (length pre)" and pre = "pre @ [0xFE]" and post = post]
      by (simp add: writeVarInt_def readVarInt_def writeUint32_layout Let_def ucast_back32)
  next
    case b8
    then show ?thesis
      using w64.rd_wr_at [where x = v and n = "Suc (length pre)" and pre = "pre @ [0xFF]" and post = post]
      by (simp add: writeVarInt_def readVarInt_def writeUint64_layout Let_def)
  qed
qed

lemma writeVarInt_layout [layout]: "writeVarInt buf v = buf @ writeVarInt [] v"
  by (simp add: writeVarInt_def layout)

definition fits64 :: "string \<Rightarrow> bool" where
  "fits64 s \<longleftrightarrow> length s < 2 ^ 64"

lemma writeString_layout [layout]: "writeString buf s = buf @ writeString [] s"
  by (simp add: writeString_def writeVarInt_layout [of buf])

interpretation vtext: codec "writeString []" "\<lambda>data off. readString data off (length data)" fits64
proof
  fix s :: string and pre post :: bytes
  assume "fits64 s"
  then have "unat (of_nat (length s) :: u64) = length s" by (simp add: fits64_def unat_of_nat)
  with varint.rd_wr [where x = "of_nat (length s)" and pre = pre and post = "bytes_of s @ post"]
  show "readString (pre @ writeString [] s @ post) (length pre) (length (pre @ writeString [] s @ post)) =
      Got (s, length pre + length (writeString [] s))"
    by (simp add: readString_def writeString_def)
qed

text \<open>A variable-length integer is never read past its bound.\<close>

lemma readVarInt_in:
  "n \<le> length data \<Longrightarrow> off \<le> n \<Longrightarrow> \<exists>v off'. readVarInt data off n = Got (v, off') \<and> off \<le> off' \<and> off' \<le> n"
  using readUint32_total [of "off + 1" data] readUint64_total [of "off + 1" data]
  by (auto simp: readVarInt_def Let_def)

lemma readString_in:
  "off \<le> length data \<Longrightarrow> \<exists>s off'. readString data off (length data) = Got (s, off') \<and> off' \<le> length data"
  using readVarInt_in [of "length data" data off]
  by (auto simp: readString_def)

end
