(* ===== verification/Wire_Msg.thy ===== *)
theory Wire_Msg
  imports Wire_Laws
begin

text \<open>
  The messages: round trips, and reads that stay inside the payload.
\<close>

subsection \<open>Items\<close>

lemma write_addr_layout [layout]:
  "write_addr a payload = payload @ le_bytes 8 (pa_last_seen a) @ le_bytes 4 (pa_services a) @ le_bytes 4 (pa_ip a) @
     [ucast (drop_bit 8 (pa_port a)), ucast (pa_port a)]"
  by (simp add: write_addr_def layout)

lemma write_inv_layout [layout]: "write_inv i payload = payload @ le_bytes 4 (iv_type i) @ iv_hash i"
  by (simp add: write_inv_def layout)

lemma write_header_layout [layout]:
  "write_header h payload = payload @ le_bytes 4 (bh_version h) @ bh_prev h @ bh_merkle h @
     le_bytes 8 (bh_timestamp h) @ le_bytes 4 (bh_difficulty h) @ le_bytes 8 (bh_nonce h) @ bh_hash h"
  by (simp add: write_header_def layout Let_def)

lemma port_bytes:
  fixes hi lo :: u8
  shows "(ucast (drop_bit 8 (push_bit 8 (ucast hi) OR ucast lo :: u16)) :: u8) = hi"
    "(ucast (push_bit 8 (ucast hi) OR ucast lo :: u16) :: u8) = lo"
  by (rule bit_word_eqI; auto simp: bit_simps dest: bit_imp_le_length)+

lemma port_inject:
  fixes p q :: u16
  assumes "(ucast (drop_bit 8 p) :: u8) = ucast (drop_bit 8 q)" "(ucast p :: u8) = ucast q"
  shows "p = q"
proof (rule bit_word_eqI)
  fix k assume "k < LENGTH(16)"
  with assms [THEN arg_cong, of "\<lambda>w. bit w (k - 8)"] assms [THEN arg_cong, of "\<lambda>w. bit w k"]
  show "bit p k = bit q k" by (cases "k < 8") (auto simp: bit_simps)
qed

definition addr_ok :: "peer_addr \<Rightarrow> bool" where
  "addr_ok a \<longleftrightarrow> pa_failures a = 0"

definition inv_ok :: "inv_vect \<Rightarrow> bool" where
  "inv_ok i \<longleftrightarrow> is_h256 (iv_hash i)"

definition compact_ok :: "block_header \<Rightarrow> bool" where
  "compact_ok h \<longleftrightarrow> is_h256 (bh_prev h) \<and> is_h256 (bh_merkle h) \<and> is_h256 (bh_hash h) \<and> bh_height h = 0"

interpretation waddr: fixed_codec "\<lambda>a. write_addr a []" read_addr addr_ok 18
proof
  fix x y assume "addr_ok x" "addr_ok y" "write_addr x [] = write_addr y []"
  then show "x = y"
    by (cases x, cases y) (auto simp: addr_ok_def layout le_bytes_inject intro: port_inject)
next
  fix data off assume le: "off + 18 \<le> length (data :: bytes)"
  obtain ls where ls: "le_bytes 8 (ls :: u64) = take 8 (drop off data)" "readUint64 data off = Got (ls, off + 8)"
    using readUint64_total [of off data] le by auto
  obtain sv where sv: "le_bytes 4 (sv :: u32) = take 4 (drop (off + 8) data)" "readUint32 data (off + 8) = Got (sv, off + 12)"
    using readUint32_total [of "off + 8" data] le by auto
  obtain ip where ip: "le_bytes 4 (ip :: u32) = take 4 (drop (off + 12) data)" "readUint32 data (off + 12) = Got (ip, off + 16)"
    using readUint32_total [of "off + 12" data] le by auto
  have "take 18 (drop off data) = take (8 + (4 + (4 + 2))) (drop off data)" by simp
  also have "\<dots> = take 8 (drop off data) @ take 4 (drop (off + 8) data) @ take 4 (drop (off + 12) data) @ take 2 (drop (off + 16) data)"
    by (simp only: take_add drop_drop) (simp add: add.commute)
  also have "take 2 (drop (off + 16) data) = [data ! (off + 16), data ! (17 + off)]"
    using le by (intro nth_equalityI) (auto simp: less_Suc_eq numeral_eq_Suc)
  finally show "\<exists>x. addr_ok x \<and> write_addr x [] = take 18 (drop off data) \<and> read_addr data off = Got (x, off + 18)"
    using le ls sv ip by (simp add: read_addr_def layout addr_ok_def port_bytes [simplified])
qed (simp add: layout)

interpretation winv: fixed_codec "\<lambda>i. write_inv i []" read_inv inv_ok 36
proof
  fix x y assume "inv_ok x" "inv_ok y" "write_inv x [] = write_inv y []"
  then show "x = y"
    by (cases x, cases y) (auto simp: inv_ok_def layout le_bytes_inject)
next
  fix data off assume le: "off + 36 \<le> length (data :: bytes)"
  obtain ty where ty: "le_bytes 4 (ty :: u32) = take 4 (drop off data)" "readUint32 data off = Got (ty, off + 4)"
    using readUint32_total [of off data] le by auto
  have "take 36 (drop off data) = take (4 + 32) (drop off data)" by simp
  also have "\<dots> = take 4 (drop off data) @ take 32 (drop (off + 4) data)"
    by (simp only: take_add drop_drop) (simp add: add.commute)
  finally show "\<exists>x. inv_ok x \<and> write_inv x [] = take 36 (drop off data) \<and> read_inv data off = Got (x, off + 36)"
    using le ty by (simp add: read_inv_def layout inv_ok_def is_h256_def copy32_total)
qed (auto simp: layout inv_ok_def)

interpretation wheader: fixed_codec "\<lambda>h. write_header h []" read_header compact_ok kCompactHeaderBytes
proof
  fix x y assume "compact_ok x" "compact_ok y" "write_header x [] = write_header y []"
  then show "x = y"
    by (cases x, cases y) (auto simp: compact_ok_def layout le_bytes_inject dest!: is_h256_length)
next
  fix data off assume "off + kCompactHeaderBytes \<le> length (data :: bytes)"
  then have le: "off + 120 \<le> length data" by (simp add: kCompactHeaderBytes_def)
  obtain v where v: "le_bytes 4 (v :: u32) = take 4 (drop off data)" "readUint32 data off = Got (v, off + 4)"
    using readUint32_total [of off data] le by auto
  obtain t where t: "le_bytes 8 (t :: u64) = take 8 (drop (68 + off) data)" "readUint64 data (68 + off) = Got (t, 76 + off)"
    using readUint64_total [of "68 + off" data] le by auto
  obtain d where d: "le_bytes 4 (d :: u32) = take 4 (drop (76 + off) data)" "readUint32 data (76 + off) = Got (d, 80 + off)"
    using readUint32_total [of "76 + off" data] le by auto
  obtain n where n: "le_bytes 8 (n :: u64) = take 8 (drop (80 + off) data)" "readUint64 data (80 + off) = Got (n, 88 + off)"
    using readUint64_total [of "80 + off" data] le by auto
  have "take 120 (drop off data) = take (4 + (32 + (32 + (8 + (4 + (8 + 32)))))) (drop off data)" by simp
  also have "\<dots> = take 4 (drop off data) @ take 32 (drop (off + 4) data) @ take 32 (drop (36 + off) data) @
      take 8 (drop (68 + off) data) @ take 4 (drop (76 + off) data) @ take 8 (drop (80 + off) data) @ take 32 (drop (88 + off) data)"
    by (simp only: take_add drop_drop) (simp add: add.commute)
  finally show "\<exists>x. compact_ok x \<and> write_header x [] = take kCompactHeaderBytes (drop off data) \<and>
      read_header data off = Got (x, off + kCompactHeaderBytes)"
    using le v t d n
    by (intro exI [of _ "\<lparr>bh_version = v, bh_prev = take 32 (drop (off + 4) data), bh_merkle = take 32 (drop (36 + off) data),
      bh_timestamp = t, bh_difficulty = d, bh_nonce = n, bh_hash = take 32 (drop (88 + off) data), bh_height = 0\<rparr>"])
     (simp add: read_header_def layout compact_ok_def is_h256_def copy32_total kCompactHeaderBytes_def)
qed (simp add: layout compact_ok_def kCompactHeaderBytes_def is_h256_def)

subsection \<open>Arrays\<close>

lemma fold_write:
  assumes "\<And>x payload. w x payload = payload @ w x []"
  shows "fold w xs payload = payload @ concat (map (\<lambda>x. w x []) xs)"
proof (induction xs arbitrary: payload)
  case (Cons x xs)
  show ?case using Cons [of "w x payload"] assms [of x payload] by simp
qed simp

lemma serializeAddr_layout:
  "serializeAddr addrs = writeVarInt [] (of_nat (length addrs)) @ concat (map (\<lambda>a. write_addr a []) addrs)"
  unfolding serializeAddr_def by (rule fold_write) (simp add: layout)

lemma serializeInv_layout:
  "serializeInv invs = writeVarInt [] (of_nat (length invs)) @ concat (map (\<lambda>i. write_inv i []) invs)"
  unfolding serializeInv_def by (rule fold_write) (simp add: layout)

lemma fold_hashes: "fold (\<lambda>hash payload. payload @ hash) hs payload = payload @ concat hs"
  by (induction hs arbitrary: payload) simp_all

text \<open>The height does not travel.\<close>

definition compact :: "block_header \<Rightarrow> block_header" where
  "compact h = h\<lparr>bh_height := 0\<rparr>"

definition hashes_ok :: "block_header \<Rightarrow> bool" where
  "hashes_ok h \<longleftrightarrow> is_h256 (bh_prev h) \<and> is_h256 (bh_merkle h) \<and> is_h256 (bh_hash h)"

lemma write_headers_layout:
  "\<forall>h \<in> set hs. hashes_ok h \<Longrightarrow>
   write_headers hs payload = payload @ concat (map (\<lambda>h. write_header h []) (map compact hs))"
proof (induction hs arbitrary: payload)
  case (Cons h hs)
  then have "length (write_header h payload) - length payload = kCompactHeaderBytes"
    by (auto simp: layout hashes_ok_def is_h256_def kCompactHeaderBytes_def)
  with Cons show ?case by (simp add: layout compact_def)
qed simp

lemma unat_count: "n < 2 ^ 64 \<Longrightarrow> unat (of_nat n :: u64) = n"
  by (simp add: unat_of_nat)


lemma read_count:
  "readVarInt (pre @ writeVarInt [] v @ post) (length pre) (length pre + (length (writeVarInt [] v) + length post)) =
     Got (v, length pre + length (writeVarInt [] v))"
  using varint.rd_wr [where x = v and pre = pre and post = post] by simp

lemmas read_count_front = read_count [of "[]", simplified]

lemma writeVarInt_nonempty [simp]: "writeVarInt [] v \<noteq> []"
  by (simp add: writeVarInt_def layout)

lemma count_le: "n \<le> b \<Longrightarrow> b < 2 ^ 64 \<Longrightarrow> \<not> (of_nat n :: u64) > of_nat b"
  by (simp add: word_less_nat_alt unat_of_nat_u64)

lemma addr_back:
  assumes "length addrs \<le> 1000" "\<forall>a \<in> set addrs. addr_ok a"
  shows "deserializeAddr (serializeAddr addrs) = Got (Some addrs)"
proof -
  let ?c = "writeVarInt [] (of_nat (length addrs))"
  have "unat (of_nat (length addrs) :: u64) = length addrs" using assms(1) by (simp add: unat_of_nat)
  moreover have "\<not> (of_nat (length addrs) :: u64) > 1000" using count_le [OF assms(1)] by simp
  ultimately show ?thesis
    using waddr.items_back [OF assms(2), of ?c "[]" "[]"]
    by (simp add: deserializeAddr_def serializeAddr_layout read_count_front)
qed

lemma inv_back:
  assumes "length invs \<le> 50000" "\<forall>i \<in> set invs. inv_ok i"
  shows "deserializeInv (serializeInv invs) = Got (Some invs)"
proof -
  let ?c = "writeVarInt [] (of_nat (length invs))"
  have "unat (of_nat (length invs) :: u64) = length invs" using assms(1) by (simp add: unat_of_nat)
  moreover have "\<not> (of_nat (length invs) :: u64) > MAX_INV_SIZE" using count_le [OF assms(1)] by (simp add: MAX_INV_SIZE_def)
  ultimately show ?thesis
    using winv.items_back [OF assms(2), of ?c "[]" "[]"]
    by (simp add: deserializeInv_def serializeInv_layout read_count_front)
qed

lemma headers_back:
  assumes "1 \<le> length hs" "length hs \<le> 2000" "\<forall>h \<in> set hs. hashes_ok h"
  shows "deserializeHeaders (serializeHeaders hs) = Got (Some (map compact hs, length (serializeHeaders hs)))"
proof -
  let ?c = "writeVarInt [] (of_nat (length hs))"
  have ok: "\<forall>h \<in> set (map compact hs). compact_ok h" using assms(3) by (auto simp: compact_ok_def hashes_ok_def compact_def)
  have u: "unat (of_nat (length hs) :: u64) = length hs" using assms(2) by (simp add: unat_of_nat)
  then have z: "(of_nat (length hs) :: u64) \<noteq> 0" using assms(1) by (auto simp: word_unat_eq_iff)
  have b: "\<not> (of_nat (length hs) :: u64) > 2000" using count_le [OF assms(2)] by simp
  have p: "unat (of_nat (length hs) * of_nat kCompactHeaderBytes :: u64) = kCompactHeaderBytes * length hs"
    using assms(2) u by (simp add: unat_word_ariths kCompactHeaderBytes_def mult.commute)
  define B where "B = concat (map (\<lambda>h. write_header h []) (map compact hs))"
  have l: "length B = kCompactHeaderBytes * length hs"
    unfolding B_def using wheader.concat_width [OF ok] by simp
  have r: "readVarInt (?c @ B) 0 (length ?c + length B) = Got (of_nat (length hs), length ?c)"
    by (rule read_count_front)
  have i: "read_items read_header kCompactHeaderBytes (length hs) (?c @ B) (length ?c) [] =
      Got (Some (map compact hs, length ?c + length B))"
    using wheader.items_back [OF ok, of ?c "[]" "[]", folded B_def] by (simp add: l)
  have s: "serializeHeaders hs = ?c @ B"
    by (simp add: serializeHeaders_def write_headers_layout [OF assms(3)] B_def)
  show ?thesis
    using u z b p r i by (simp add: deserializeHeaders_def s l)
qed

lemma getheaders_back:
  assumes "length hs \<le> 500" "\<forall>h \<in> set hs. is_h256 h" "is_h256 stop"
  shows "deserializeGetHeaders (serializeGetHeaders hs stop) = Got (Some (hs, Some stop))"
proof -
  let ?v = "le_bytes 4 PROTOCOL_VERSION" and ?c = "writeVarInt [] (of_nat (length hs))"
  define B where "B = concat hs"
  have ser: "serializeGetHeaders hs stop = ?v @ ?c @ B @ stop"
    by (simp add: serializeGetHeaders_def fold_hashes Let_def writeUint32_layout writeVarInt_layout [of "le_bytes _ _"] B_def)
  have u: "unat (of_nat (length hs) :: u64) = length hs" using assms(1) by (simp add: unat_of_nat)
  have b: "\<not> (of_nat (length hs) :: u64) > 500" using count_le [OF assms(1)] by simp
  have l: "length B = 32 * length hs" "length stop = 32" "1 \<le> length ?c"
    using w256.concat_width [OF assms(2)] assms(3) by (simp_all add: is_h256_def B_def Suc_le_eq)
  have r: "readVarInt (?v @ ?c @ B @ stop) 4 (4 + (length ?c + length (B @ stop))) = Got (of_nat (length hs), 4 + length ?c)"
    using read_count [of ?v "of_nat (length hs)" "B @ stop"] by simp
  have i: "read_items copy32 32 (length hs) (?v @ ?c @ B @ stop) (4 + length ?c) [] = Got (Some (hs, 4 + length ?c + length B))"
    using w256.items_back [OF assms(2), of "?v @ ?c" stop "[]"] by (simp add: l B_def [symmetric])
  have st: "copy32 (?v @ ?c @ B @ stop) (4 + length ?c + length B) = Got (stop, 4 + length ?c + length B + 32)"
    using w256.rd_wr_at [OF assms(3), of _ "?v @ ?c @ B" "[]"] by (simp add: l add.assoc)
  show ?thesis
    using u b r i st l by (simp add: deserializeGetHeaders_def ser)
qed

lemma version_back:
  assumes "fits64 userAgent"
  shows "deserializeVersion (serializeVersion version services timestamp ar af nonce userAgent startHeight) =
    Got (Some \<lparr>vm_version = version, vm_services = services, vm_timestamp = timestamp,
               vm_user_agent = userAgent, vm_start_height = Some startHeight\<rparr>)"
proof -
  let ?h = "le_bytes 4 version @ le_bytes 8 (ucast services :: u64) @ le_bytes 8 timestamp @
    le_bytes 8 (ucast (pa_services ar) :: u64) @ le_bytes 8 (ucast (pa_services af) :: u64) @ le_bytes 8 nonce"
  let ?ua = "writeString [] userAgent" and ?e = "le_bytes 4 startHeight"
  have ser: "serializeVersion version services timestamp ar af nonce userAgent startHeight = ?h @ ?ua @ ?e"
    by (simp add: serializeVersion_def Let_def writeUint32_layout writeUint64_layout
        writeString_layout [of "_ @ _"])
  have u: "(ucast (ucast services :: u64) :: u32) = services" by (rule bit_word_eqI) (auto simp: bit_simps)
  have r1: "readUint32 (?h @ ?ua @ ?e) 0 = Got (version, 4)"
    using w32.rd_wr_front [where x = version] by simp
  have r2: "readUint64 (?h @ ?ua @ ?e) 4 = Got (ucast services, 12)"
    using w64.rd_wr_at [where x = "ucast services" and n = 4 and pre = "le_bytes 4 version"] by simp
  have r3: "readUint64 (?h @ ?ua @ ?e) 12 = Got (timestamp, 20)"
    using w64.rd_wr_at [where x = timestamp and n = 12 and pre = "le_bytes 4 version @ le_bytes 8 (ucast services :: u64)"] by simp
  have r4: "readUint64 (?h @ ?ua @ ?e) 36 = Got (nonce, 44)"
    using w64.rd_wr_at [where x = nonce and n = 36 and pre = "le_bytes 4 version @ le_bytes 8 (ucast services :: u64) @ le_bytes 8 timestamp @
      le_bytes 8 (ucast (pa_services ar) :: u64) @ le_bytes 8 (ucast (pa_services af) :: u64)"] by simp
  have r5: "readString (?h @ ?ua @ ?e) 44 (length (?h @ ?ua @ ?e)) = Got (userAgent, 44 + length ?ua)"
    using vtext.rd_wr_at [OF assms, of 44 ?h ?e] by simp
  have r6: "readUint32 (?h @ ?ua @ ?e) (44 + length ?ua) = Got (startHeight, 48 + length ?ua)"
    using w32.rd_wr_at [where x = startHeight and n = "44 + length ?ua" and pre = "?h @ ?ua" and post = "[]"] by simp
  have "length (?h @ ?ua @ ?e) = 48 + length ?ua" by simp
  then show ?thesis
    unfolding ser deserializeVersion_def using r1 r2 r3 r4 r5 r6 by (simp add: u del: append_assoc)
qed

lemma ping_back: "deserializePing (serializePing nonce) = Got (Some nonce)"
  using w64.rd_wr_front [where x = nonce and post = "[]"]
  by (simp add: deserializePing_def serializePing_def writeUint64_layout)

text \<open>C19: Every message arrives as it was sent. Version, address, inventory, block-locator, header and
  ping payloads within the protocol's limits are read back exactly by the deserializer of their kind;
  a header comes back without its height, which does not travel.\<close>

theorem wire_round_trips:
  assumes "fits64 userAgent"
    and "length addrs \<le> 1000" "\<forall>a \<in> set addrs. addr_ok a"
    and "length invs \<le> 50000" "\<forall>i \<in> set invs. inv_ok i"
    and "length locator \<le> 500" "\<forall>h \<in> set locator. is_h256 h" "is_h256 stop"
    and "1 \<le> length hs" "length hs \<le> 2000" "\<forall>h \<in> set hs. hashes_ok h"
  shows "deserializeVersion (serializeVersion version services timestamp ar af nonce userAgent startHeight) =
      Got (Some \<lparr>vm_version = version, vm_services = services, vm_timestamp = timestamp,
                 vm_user_agent = userAgent, vm_start_height = Some startHeight\<rparr>) \<and>
    deserializeAddr (serializeAddr addrs) = Got (Some addrs) \<and>
    deserializeInv (serializeInv invs) = Got (Some invs) \<and>
    deserializeGetHeaders (serializeGetHeaders locator stop) = Got (Some (locator, Some stop)) \<and>
    deserializeHeaders (serializeHeaders hs) = Got (Some (map compact hs, length (serializeHeaders hs))) \<and>
    deserializePing (serializePing nonce) = Got (Some nonce)"
  using version_back [OF assms(1)] addr_back [OF assms(2,3)] inv_back [OF assms(4,5)]
    getheaders_back [OF assms(6-8)] headers_back [OF assms(9-11)] ping_back
  by simp

definition wire_header :: block_header where
  "wire_header = \<lparr>bh_version = 1, bh_prev = zero256, bh_merkle = zero256, bh_timestamp = 7, bh_difficulty = 4,
     bh_nonce = 9, bh_hash = zero256, bh_height = 5\<rparr>"

lemma wire_round_trips_witness:
  "deserializeHeaders (serializeHeaders [wire_header]) = Got (Some ([compact wire_header], length (serializeHeaders [wire_header])))"
  using wire_round_trips [of "''x''" "[]" "[]" "[]" zero256 "[wire_header]"]
  by (simp add: fits64_def wire_header_def hashes_ok_def)

subsection \<open>Bounds\<close>

lemma count_in:
  "data \<noteq> [] \<Longrightarrow> \<exists>v off. readVarInt data 0 (length data) = Got (v, off) \<and> off \<le> length data"
  using readVarInt_in [of "length data" data 0] by auto

lemma addr_in: "deserializeAddr data \<noteq> Out_Of_Bounds"
proof (cases "data = []")
  case False
  then obtain v off where v: "readVarInt data 0 (length data) = Got (v, off)" "off \<le> length data"
    using count_in by blast
  obtain r where "read_items read_addr 18 (unat v) data off [] = Got r" using waddr.items_in [OF v(2)] by blast
  with v False show ?thesis by (simp add: deserializeAddr_def)
qed (simp add: deserializeAddr_def)

lemma inv_in: "deserializeInv data \<noteq> Out_Of_Bounds"
proof (cases "data = []")
  case False
  then obtain v off where v: "readVarInt data 0 (length data) = Got (v, off)" "off \<le> length data"
    using count_in by blast
  obtain r where "read_items read_inv 36 (unat v) data off [] = Got r" using winv.items_in [OF v(2)] by blast
  with v False show ?thesis by (simp add: deserializeInv_def)
qed (simp add: deserializeInv_def)

lemma headers_in: "deserializeHeaders data \<noteq> Out_Of_Bounds"
proof (cases "data = []")
  case False
  then obtain v off where v: "readVarInt data 0 (length data) = Got (v, off)" "off \<le> length data"
    using count_in by blast
  obtain r where "read_items read_header kCompactHeaderBytes (unat v) data off [] = Got r"
    using wheader.items_in [OF v(2)] by blast
  with v False show ?thesis by (auto simp: deserializeHeaders_def split: option.splits)
qed (simp add: deserializeHeaders_def)

lemma getheaders_in: "deserializeGetHeaders data \<noteq> Out_Of_Bounds"
proof (cases "length data < 37")
  case False
  then obtain v off where v: "readVarInt data 4 (length data) = Got (v, off)" "off \<le> length data"
    using readVarInt_in [of "length data" data 4] by auto
  obtain r where "read_items copy32 32 (unat v) data off [] = Got r" using w256.items_in [OF v(2)] by blast
  with v False show ?thesis by (auto simp: deserializeGetHeaders_def copy32_def split: option.splits)
qed (simp add: deserializeGetHeaders_def)

lemma version_in: "deserializeVersion data = Out_Of_Bounds \<longleftrightarrow> 40 \<le> length data \<and> length data < 44"
proof (cases "40 \<le> length data")
  case True
  obtain a b c where abc: "readUint32 data 0 = Got (a, 4)" "readUint64 data 4 = Got (b, 12)" "readUint64 data 12 = Got (c, 20)"
    using readUint32_total [of 0 data] readUint64_total [of 4 data] readUint64_total [of 12 data] True by auto
  show ?thesis
  proof (cases "length data < 44")
    case False
    then obtain n ua off where "readUint64 data 36 = Got (n, 44)" "readString data 44 (length data) = Got (ua, off)"
      using readUint64_total [of 36 data] readString_in [of 44 data] by auto
    with True False abc show ?thesis
      using readUint32_total [of off data] by (auto simp: deserializeVersion_def)
  qed (use True abc in \<open>simp add: deserializeVersion_def readUint64_def\<close>)
qed (simp add: deserializeVersion_def)

lemma ping_in: "deserializePing data \<noteq> Out_Of_Bounds"
  using readUint64_total [of 0 data] by (cases "length data < 8") (auto simp: deserializePing_def)

text \<open>A payload is never read past its end, with two exceptions. For any bytes a peer sends, the
  deserializers of addresses, inventories, locators, headers and pings read inside the payload. That of
  the version message reads past it exactly for payloads of 40 to 43 bytes, and that of the threat alert
  does for a 20-byte payload whose first text fills it.\<close>

theorem wire_reads_in_bounds:
  "deserializeAddr data \<noteq> Out_Of_Bounds \<and> deserializeInv data \<noteq> Out_Of_Bounds \<and>
   deserializeGetHeaders data \<noteq> Out_Of_Bounds \<and> deserializeHeaders data \<noteq> Out_Of_Bounds \<and>
   deserializePing data \<noteq> Out_Of_Bounds \<and>
   (deserializeVersion data = Out_Of_Bounds \<longleftrightarrow> 40 \<le> length data \<and> length data < 44) \<and>
   deserializeThreatAlert amount unset (19 # replicate 19 0) = Out_Of_Bounds"
proof -
  have s: "readString (19 # replicate 19 0) 0 20 = Got (string_of (replicate 19 0), 20)"
    "readString (19 # replicate 19 0) 20 20 = Got ([], 20)"
    by (simp_all add: readString_def readVarInt_def Let_def string_of_def [of "[]"])
  have "readUint32 (19 # replicate 19 0) 20 = Out_Of_Bounds" by (simp add: readUint32_def)
  then have "deserializeThreatAlert amount unset (19 # replicate 19 0) = Out_Of_Bounds"
    by (simp add: deserializeThreatAlert_def s)
  with addr_in inv_in getheaders_in headers_in ping_in version_in show ?thesis by blast
qed

end
