(* ===== verification/AddrMan.thy ===== *)
theory AddrMan
  imports Wire
begin

text \<open>
  The address manager \<open>AddrMan\<close> and the counters of \<open>ThreatDetector\<close> (p2p.cpp). Time is an
  argument. Every \<open>AddrMan\<close> operation holds \<open>mutex_\<close>, which is not recursive: \<open>ban\<close> is
  called with the mutex held or not, and \<open>None\<close> is the thread that waits for itself. The random
  choice of \<open>select\<close> is an argument. The scores of \<open>ThreatDetector\<close> in floating point are not
  modelled.
\<close>

subsection \<open>Addresses\<close>

record addrman =
  am_list :: "peer_addr list"
  am_banned :: "(u32, u64) table"

definition same_peer :: "peer_addr \<Rightarrow> peer_addr \<Rightarrow> bool" where
  "same_peer a b \<longleftrightarrow> pa_ip a = pa_ip b \<and> pa_port a = pa_port b"

definition isBanned :: "addrman \<Rightarrow> u64 \<Rightarrow> peer_addr \<Rightarrow> bool" where
  "isBanned am now addr =
     (case tbl_get (am_banned am) (pa_ip addr) of Some until \<Rightarrow> until > now | None \<Rightarrow> False)"

definition addr_add :: "u64 \<Rightarrow> peer_addr \<Rightarrow> addrman \<Rightarrow> addrman" where
  "addr_add now addr am =
     (if isBanned am now addr then am
      else if list_ex (\<lambda>existing. same_peer existing addr) (am_list am) then am
      else am\<lparr>am_list := am_list am @ [addr]\<rparr>)"

text \<open>\<open>None\<close> is the exception of an empty choice.\<close>

definition addr_select :: "addrman \<Rightarrow> u64 \<Rightarrow> nat \<Rightarrow> peer_addr option" where
  "addr_select am now dis =
     (let candidates = filter (\<lambda>addr. \<not> isBanned am now addr \<and> pa_failures addr < 5) (am_list am) in
      if am_list am = [] then None
      else if candidates = [] then None
      else Some (candidates ! (dis mod length candidates)))"

definition getMany :: "addrman \<Rightarrow> u64 \<Rightarrow> nat \<Rightarrow> peer_addr list" where
  "getMany am now n = filter (\<lambda>addr. \<not> isBanned am now addr) (take n (am_list am))"

fun upd_first :: "(peer_addr \<Rightarrow> peer_addr) \<Rightarrow> peer_addr \<Rightarrow> peer_addr list \<Rightarrow> peer_addr list" where
  "upd_first f addr [] = []"
| "upd_first f addr (existing # rest) =
     (if same_peer existing addr then f existing # rest else existing # upd_first f addr rest)"

definition markGood :: "u64 \<Rightarrow> peer_addr \<Rightarrow> addrman \<Rightarrow> addrman" where
  "markGood now addr am =
     am\<lparr>am_list := upd_first (\<lambda>a. a\<lparr>pa_failures := 0, pa_last_seen := now\<rparr>) addr (am_list am)\<rparr>"

definition markAttempt :: "u64 \<Rightarrow> peer_addr \<Rightarrow> addrman \<Rightarrow> addrman" where
  "markAttempt now addr am = am\<lparr>am_list := upd_first (\<lambda>a. a\<lparr>pa_last_seen := now\<rparr>) addr (am_list am)\<rparr>"

definition addr_ban :: "bool \<Rightarrow> u64 \<Rightarrow> peer_addr \<Rightarrow> addrman \<Rightarrow> addrman option" where
  "addr_ban held now addr am =
     (if held then None else Some (am\<lparr>am_banned := tbl_put (am_banned am) (pa_ip addr) (now + 86400)\<rparr>))"

definition markFailure :: "u64 \<Rightarrow> peer_addr \<Rightarrow> addrman \<Rightarrow> addrman option" where
  "markFailure now addr am =
     (case find (\<lambda>existing. same_peer existing addr) (am_list am) of
        None \<Rightarrow> Some am
      | Some existing \<Rightarrow>
          let am = am\<lparr>am_list := upd_first (\<lambda>a. a\<lparr>pa_failures := pa_failures a + 1\<rparr>) addr (am_list am)\<rparr> in
          if pa_failures existing + 1 \<ge> 10 then addr_ban True now addr am else Some am)"

definition cleanupBans :: "u64 \<Rightarrow> addrman \<Rightarrow> addrman" where
  "cleanupBans now am = am\<lparr>am_banned := filter (\<lambda>(ip, until). \<not> until \<le> now) (am_banned am)\<rparr>"

text \<open>\<open>resolve\<close> is \<open>inet_pton\<close>, or else the first IPv4 address of \<open>getaddrinfo\<close>.\<close>

fun addBootstrapPeers :: "(string \<Rightarrow> u32 option) \<Rightarrow> u64 \<Rightarrow> u16 \<Rightarrow> string list \<Rightarrow> addrman \<Rightarrow> addrman" where
  "addBootstrapPeers resolve now port [] am = am"
| "addBootstrapPeers resolve now port (host # hosts) am =
     (case resolve host of
        None \<Rightarrow> addBootstrapPeers resolve now port hosts am
      | Some ip \<Rightarrow>
          addr_add now \<lparr>pa_ip = ip, pa_port = port, pa_last_seen = now, pa_services = SERVICES_NODE, pa_failures = 0\<rparr> am)"

subsection \<open>Threat counters\<close>

record 'f threats =
  th_attempts :: "(u32, u64 list) table"
  th_messages :: "(u32, u32) table"
  th_history :: "'f threat_alert list"
  th_known :: "u32 set"

definition analyzeMessagePattern :: "u32 \<Rightarrow> nat \<Rightarrow> 'f threats \<Rightarrow> bool \<times> 'f threats" where
  "analyzeMessagePattern ip payloadSize th =
     (let n = (case tbl_get (th_messages th) ip of Some n \<Rightarrow> n | None \<Rightarrow> 0) + 1 in
      (n > 1000 \<or> payloadSize > 10 * 1024 * 1024, th\<lparr>th_messages := tbl_put (th_messages th) ip n\<rparr>))"

definition analyzeConnectionPattern :: "u64 \<Rightarrow> u32 \<Rightarrow> 'f threats \<Rightarrow> bool \<times> 'f threats" where
  "analyzeConnectionPattern now ip th =
     (let attempts = (case tbl_get (th_attempts th) ip of Some ts \<Rightarrow> ts | None \<Rightarrow> []) @ [now];
          attempts = filter (\<lambda>timestamp. \<not> now - timestamp > 60000000000) attempts in
      (length attempts > 10, th\<lparr>th_attempts := tbl_put (th_attempts th) ip attempts\<rparr>))"

definition detectDDoSPattern :: "u32 list \<Rightarrow> bool" where
  "detectDDoSPattern ips =
     (list_ex (\<lambda>subnet. length (filter (\<lambda>ip. ip AND 0xFFFFFF00 = subnet) ips) > 20)
        (remdups (map (\<lambda>ip. ip AND 0xFFFFFF00) ips)) \<or> length ips > 100)"

definition detectSybilAttack :: "string list \<Rightarrow> bool" where
  "detectSybilAttack agents =
     list_ex (\<lambda>ua. length (filter ((=) ua) agents) > length agents div 2 \<and> length agents > 10)
       (remdups (filter (\<lambda>ua. ua \<noteq> []) agents))"

definition recordThreat :: "'f threat_alert \<Rightarrow> 'f threats \<Rightarrow> 'f threats" where
  "recordThreat alert th =
     (let history = th_history th @ [alert] in
      th\<lparr>th_history := (if length history > 1000 then tl history else history),
         th_known := insert (ta_source_ip alert) (th_known th)\<rparr>)"

definition getRecentThreats :: "u64 \<Rightarrow> u64 \<Rightarrow> 'f threats \<Rightarrow> 'f threat_alert list" where
  "getRecentThreats now timeWindow th =
     filter (\<lambda>threat. now - ta_timestamp threat < timeWindow) (th_history th)"

definition isKnownThreat :: "u32 \<Rightarrow> 'f threats \<Rightarrow> bool" where
  "isKnownThreat ip th \<longleftrightarrow> ip \<in> th_known th"

subsection \<open>What the manager hands out\<close>

text \<open>The operations of the class, at any times.\<close>

inductive am_reach :: "addrman \<Rightarrow> bool" where
  start: "am_reach \<lparr>am_list = [], am_banned = []\<rparr>"
| add: "am_reach am \<Longrightarrow> am_reach (addr_add now addr am)"
| good: "am_reach am \<Longrightarrow> am_reach (markGood now addr am)"
| attempt: "am_reach am \<Longrightarrow> am_reach (markAttempt now addr am)"
| failure: "am_reach am \<Longrightarrow> markFailure now addr am = Some am' \<Longrightarrow> am_reach am'"
| ban: "am_reach am \<Longrightarrow> addr_ban False now addr am = Some am' \<Longrightarrow> am_reach am'"
| cleanup: "am_reach am \<Longrightarrow> am_reach (cleanupBans now am)"
| bootstrap: "am_reach am \<Longrightarrow> am_reach (addBootstrapPeers resolve now port hosts am)"

definition addr_key :: "peer_addr \<Rightarrow> u32 \<times> u16" where
  "addr_key a = (pa_ip a, pa_port a)"

lemma same_peer_key: "same_peer a b \<longleftrightarrow> addr_key a = addr_key b"
  by (simp add: same_peer_def addr_key_def)

lemma addr_key_updates [simp]:
  "addr_key (a\<lparr>pa_failures := n\<rparr>) = addr_key a" "addr_key (a\<lparr>pa_last_seen := t\<rparr>) = addr_key a"
  by (simp_all add: addr_key_def)

lemma keys_upd_first:
  "(\<And>a. addr_key (f a) = addr_key a) \<Longrightarrow> map addr_key (upd_first f addr xs) = map addr_key xs"
  by (induction xs) simp_all

lemma distinct_add: "distinct (map addr_key (am_list am)) \<Longrightarrow> distinct (map addr_key (am_list (addr_add now addr am)))"
  by (auto simp: addr_add_def list_ex_iff same_peer_key)

lemma am_reach_distinct: "am_reach am \<Longrightarrow> distinct (map addr_key (am_list am))"
proof (induction rule: am_reach.induct)
  case (bootstrap am resolve now port hosts)
  then show ?case
  proof (induction hosts)
    case (Cons host hosts)
    then show ?case by (auto simp: distinct_add split: option.splits)
  qed simp
qed (auto simp: distinct_add markGood_def markAttempt_def markFailure_def addr_ban_def cleanupBans_def keys_upd_first
    Let_def split: option.splits if_splits)

text \<open>C20: Only usable addresses are handed out, and each once. In every state of the address
  manager no address is listed twice; what \<open>select\<close> picks is listed, not banned and has failed fewer
  than five times in a row, and it picks one whenever there is such an address; what is sent to peers
  by \<open>getMany\<close> is not banned.\<close>

theorem addrman_hands_out:
  assumes "am_reach am"
  shows "distinct (map addr_key (am_list am)) \<and>
    (case addr_select am now dis of
       Some a \<Rightarrow> a \<in> set (am_list am) \<and> \<not> isBanned am now a \<and> pa_failures a < 5
     | None \<Rightarrow> list_all (\<lambda>a. isBanned am now a \<or> 5 \<le> pa_failures a) (am_list am)) \<and>
    list_all (\<lambda>a. a \<in> set (am_list am) \<and> \<not> isBanned am now a) (getMany am now n) \<and> length (getMany am now n) \<le> n"
proof -
  let ?c = "filter (\<lambda>addr. \<not> isBanned am now addr \<and> pa_failures addr < 5) (am_list am)"
  have "?c ! (dis mod length ?c) \<in> set ?c" if "?c \<noteq> []" using that by (intro nth_mem) simp
  then have "case addr_select am now dis of
       Some a \<Rightarrow> a \<in> set (am_list am) \<and> \<not> isBanned am now a \<and> pa_failures a < 5
     | None \<Rightarrow> list_all (\<lambda>a. isBanned am now a \<or> 5 \<le> pa_failures a) (am_list am)"
    by (auto simp: addr_select_def Let_def filter_empty_conv list_all_iff not_less split: option.splits)
  moreover have "length (getMany am now n) \<le> n"
    unfolding getMany_def by (rule order_trans [OF length_filter_le]) simp
  ultimately show ?thesis
    using am_reach_distinct [OF assms] by (auto simp: getMany_def list_all_iff dest: in_set_takeD)
qed

definition demo_peer_addr :: peer_addr where
  "demo_peer_addr = \<lparr>pa_ip = 16909060, pa_port = 17675, pa_last_seen = 0, pa_services = 1, pa_failures = 0\<rparr>"

definition demo_addrman :: addrman where
  "demo_addrman = addr_add 5 demo_peer_addr \<lparr>am_list = [], am_banned = []\<rparr>"

lemma demo_addrman_simp: "demo_addrman = \<lparr>am_list = [demo_peer_addr], am_banned = []\<rparr>"
  by (simp add: demo_addrman_def addr_add_def isBanned_def tbl_get_def)

lemma demo_addrman_reach: "am_reach demo_addrman"
  unfolding demo_addrman_def by (intro am_reach.intros)

lemma addrman_hands_out_witness: "addr_select demo_addrman 5 0 = Some demo_peer_addr"
  using addrman_hands_out [OF demo_addrman_reach, of 5 0 0]
  by (auto simp: demo_addrman_simp isBanned_def tbl_get_def demo_peer_addr_def split: option.splits)

subsection \<open>Bans and failures\<close>

lemma distinct_put: "distinct (map fst t) \<Longrightarrow> distinct (map fst (tbl_put t k v))"
  by (simp add: tbl_put_def distinct_update)

lemma am_reach_banned: "am_reach am \<Longrightarrow> distinct (map fst (am_banned am))"
proof (induction rule: am_reach.induct)
  case (bootstrap am resolve now port hosts)
  then show ?case
    by (induction hosts) (auto simp: addr_add_def split: option.splits)
qed (auto simp: addr_add_def markGood_def markAttempt_def markFailure_def addr_ban_def cleanupBans_def distinct_put
    Let_def distinct_map_filter split: option.splits if_splits)

lemma map_of_filter_vals:
  "distinct (map fst xs) \<Longrightarrow> map_of (filter (\<lambda>(k, v). P v) xs) k =
     (case map_of xs k of Some v \<Rightarrow> if P v then Some v else None | None \<Rightarrow> None)"
proof (induction xs)
  case (Cons x xs)
  then have "map_of xs (fst x) = None" by (simp add: map_of_eq_None_iff)
  with Cons show ?case by (cases x) (auto split: option.splits)
qed simp

text \<open>A ban lasts 24 hours and no cleanup shortens it. After a ban at time \<open>now\<close> exactly the
  addresses with that IP, and those banned before, are banned; the ban ends at \<open>now\<close> plus 86400
  seconds; and removing expired entries changes the answer for no later time.\<close>

theorem ban_lasts:
  assumes "am_reach am" "addr_ban False now addr am = Some am'" "u \<le> t"
  shows "isBanned am' t b = (if pa_ip b = pa_ip addr then t < now + 86400 else isBanned am t b) \<and>
    isBanned (cleanupBans u am) t b = isBanned am t b"
proof -
  have "tbl_get (filter (\<lambda>(ip, until). \<not> until \<le> u) (am_banned am)) k =
      (case tbl_get (am_banned am) k of Some v \<Rightarrow> if v \<le> u then None else Some v | None \<Rightarrow> None)" for k
    using map_of_filter_vals [OF am_reach_banned [OF assms(1)], of "\<lambda>v. \<not> v \<le> u" k]
    by (simp add: tbl_get_def split: option.splits)
  with assms(2,3) show ?thesis
    by (auto simp: addr_ban_def isBanned_def cleanupBans_def tbl.get_put split: option.splits)
qed

text \<open>\<open>n\<close> failed connections to one address in a row.\<close>

fun fail_times :: "nat \<Rightarrow> u64 \<Rightarrow> peer_addr \<Rightarrow> addrman \<Rightarrow> addrman option" where
  "fail_times 0 now addr am = Some am"
| "fail_times (Suc n) now addr am =
     (case fail_times n now addr am of None \<Rightarrow> None | Some am' \<Rightarrow> markFailure now addr am')"

lemma find_upd_first:
  "(\<And>a. addr_key (f a) = addr_key a) \<Longrightarrow> find (\<lambda>x. same_peer x addr) xs = Some a \<Longrightarrow>
   find (\<lambda>x. same_peer x addr) (upd_first f addr xs) = Some (f a)"
  by (induction xs) (auto simp: same_peer_key)

lemma fail_times_counts:
  assumes "find (\<lambda>x. same_peer x addr) (am_list am) = Some a" "pa_failures a = 0"
  shows "n \<le> 9 \<Longrightarrow> \<exists>am' a'. fail_times n now addr am = Some am' \<and> am_banned am' = am_banned am \<and>
    find (\<lambda>x. same_peer x addr) (am_list am') = Some a' \<and> pa_failures a' = int n"
proof (induction n)
  case (Suc n)
  then obtain am' a' where a: "fail_times n now addr am = Some am'" "am_banned am' = am_banned am"
    "find (\<lambda>x. same_peer x addr) (am_list am') = Some a'" "pa_failures a' = int n" by auto
  then show ?case
    using Suc.prems find_upd_first [OF _ a(3), of "\<lambda>a. a\<lparr>pa_failures := pa_failures a + 1\<rparr>"]
    by (auto simp: markFailure_def Let_def)
qed (use assms in simp)

text \<open>The tenth failure in a row never ends. Nine failed connections to a listed address only
  count; the tenth calls \<open>ban\<close> while it holds the manager's mutex, so the thread waits for itself and
  the address is not banned.\<close>

theorem tenth_failure_hangs:
  assumes "find (\<lambda>x. same_peer x addr) (am_list am) = Some a" "pa_failures a = 0"
  shows "(\<exists>am'. fail_times 9 now addr am = Some am' \<and> am_banned am' = am_banned am) \<and>
    fail_times 10 now addr am = None"
proof -
  obtain am' a' where a: "fail_times 9 now addr am = Some am'" "am_banned am' = am_banned am"
    "find (\<lambda>x. same_peer x addr) (am_list am') = Some a'" "pa_failures a' = 9"
    using fail_times_counts [OF assms, of 9 now] by auto
  have "fail_times 10 now addr am = fail_times (Suc 9) now addr am" by simp
  also have "\<dots> = markFailure now addr am'" by (simp only: fail_times.simps a(1) option.case)
  also have "\<dots> = None" using a(3,4) by (simp add: markFailure_def addr_ban_def Let_def)
  finally show ?thesis using a(1,2) by blast
qed

lemma tenth_failure_hangs_witness: "fail_times 10 5 demo_peer_addr demo_addrman = None"
  using tenth_failure_hangs [of demo_peer_addr demo_addrman demo_peer_addr 5]
  by (simp add: demo_addrman_simp same_peer_def demo_peer_addr_def)

lemma ban_lasts_witness:
  "isBanned \<lparr>am_list = [demo_peer_addr], am_banned = [(pa_ip demo_peer_addr, 86405)]\<rparr> 86404 demo_peer_addr"
proof -
  have "addr_ban False 5 demo_peer_addr demo_addrman = Some \<lparr>am_list = [demo_peer_addr], am_banned = [(pa_ip demo_peer_addr, 86405)]\<rparr>"
    by (simp add: addr_ban_def demo_addrman_simp tbl_put_def)
  from ban_lasts [OF demo_addrman_reach this order_refl, of 86404 demo_peer_addr] show ?thesis
    by (simp add: word_less_nat_alt)
qed

end
