(* ===== verification/Chain.thy ===== *)
theory Chain
  imports Submit
begin

text \<open>
  The active chain (chain_rpc.cpp): the blocks found on disk, the choice of the longest linked
  chain among them, the replay of a chain into an empty ledger (\<open>apply_chain\<close>), and the three
  users of it: \<open>restore_chain\<close> at start, \<open>rpc_replay_chain\<close>, and \<open>rpc_adopt_peer_chain\<close>, which
  moves the node to a peer's taller chain. The content of mempool.json is an argument of each
  replay. An exception of the JSON library leaves the functions with the state changed so far.
\<close>

record found_block =
  fb_index :: u64
  fb_height :: u32
  fb_prev :: h256
  fb_hash :: h256
  fb_obj :: json

subsection \<open>Conversions that throw\<close>

definition get_u32 :: "env \<Rightarrow> json \<Rightarrow> u32 option" where
  "get_u32 ev v =
     (case v of
        JUint n \<Rightarrow> Some (ucast n) | JNegint n \<Rightarrow> Some (ucast n)
      | JFloat d \<Rightarrow> Some (ucast (ev_float ev d)) | JBool b \<Rightarrow> Some (if b then 1 else 0) | _ \<Rightarrow> None)"

definition value_u64 :: "env \<Rightarrow> json \<Rightarrow> string \<Rightarrow> u64 \<Rightarrow> u64 option" where
  "value_u64 ev obj k dflt =
     (case jget obj k of
        None \<Rightarrow> Some dflt
      | Some (JUint n) \<Rightarrow> Some n | Some (JNegint n) \<Rightarrow> Some n
      | Some (JFloat d) \<Rightarrow> Some (ev_float ev d) | Some (JBool b) \<Rightarrow> Some (if b then 1 else 0)
      | Some _ \<Rightarrow> None)"

subsection \<open>Blocks on disk\<close>

definition found_block_at :: "env \<Rightarrow> storage \<Rightarrow> u64 \<Rightarrow> found_block option" where
  "found_block_at ev st i =
     (case read_block st i of
        None \<Rightarrow> None
      | Some raw \<Rightarrow>
          (case ev_parse ev (string_of raw) of
             None \<Rightarrow> None
           | Some obj \<Rightarrow>
               (case (jget obj ''height'', jget obj ''hash'', jget obj ''prev_block_hash'') of
                  (Some height, Some (JString hash), Some (JString prev)) \<Rightarrow>
                    (case (get_u32 ev height, from_hex prev, from_hex hash) of
                       (Some h, Some p, Some d) \<Rightarrow>
                         Some \<lparr>fb_index = i, fb_height = h, fb_prev = p, fb_hash = d, fb_obj = obj\<rparr>
                     | _ \<Rightarrow> None)
                | _ \<Rightarrow> None)))"

definition load_found_blocks :: "env \<Rightarrow> storage \<Rightarrow> found_block list" where
  "load_found_blocks ev st =
     List.map_filter (\<lambda>i. found_block_at ev st (of_nat i)) [0..<unat (st_next_index st)]"

subsection \<open>The linked chain that ends in a block\<close>

text \<open>\<open>by_hash\<close>: for every hash the entry with the smallest index.\<close>

definition note_hash :: "found_block list \<Rightarrow> nat \<Rightarrow> (h256, nat) table \<Rightarrow> (h256, nat) table" where
  "note_hash found i by_hash =
     (case tbl_get by_hash (fb_hash (found ! i)) of
        None \<Rightarrow> tbl_put by_hash (fb_hash (found ! i)) i
      | Some j \<Rightarrow>
          if fb_index (found ! i) < fb_index (found ! j) then tbl_put by_hash (fb_hash (found ! i)) i else by_hash)"

definition by_hash_of :: "found_block list \<Rightarrow> (h256, nat) table" where
  "by_hash_of found = fold (note_hash found) [0..<length found] []"

fun walk_back :: "nat \<Rightarrow> found_block list \<Rightarrow> (h256, nat) table \<Rightarrow> h256 \<Rightarrow> nat list \<Rightarrow> (nat list) option" where
  "walk_back 0 found by_hash cursor rv = Some rv"
| "walk_back (Suc left) found by_hash cursor rv =
     (case tbl_get by_hash cursor of
        None \<Rightarrow> None
      | Some i \<Rightarrow>
          if is_zero (fb_prev (found ! i)) then Some (rv @ [i])
          else if left = 0 then None
          else walk_back left found by_hash (fb_prev (found ! i)) (rv @ [i]))"

fun link_chain :: "found_block list \<Rightarrow> u32 \<Rightarrow> h256 \<Rightarrow> bool" where
  "link_chain [] expect prev = True"
| "link_chain (block # blocks) expect prev =
     (if fb_height block \<noteq> expect \<or> fb_prev block \<noteq> prev then False
      else link_chain blocks (expect + 1) (fb_hash block))"

definition chain_ending_at :: "found_block list \<Rightarrow> h256 \<Rightarrow> found_block list" where
  "chain_ending_at found tip =
     (case walk_back (length found + 1) found (by_hash_of found) tip [] of
        None \<Rightarrow> []
      | Some rv \<Rightarrow>
          if rv = [] \<or> \<not> is_zero (fb_prev (found ! last rv)) then []
          else
            let chain = map ((!) found) (rev rv) in
            if link_chain chain 1 zero256 then chain else [])"

subsection \<open>The longest chain\<close>

definition choose_step ::
  "found_block list \<Rightarrow> nat \<Rightarrow> nat \<times> u32 \<times> u64 \<Rightarrow> nat \<times> u32 \<times> u64" where
  "choose_step found i s =
     (case s of (best, best_height, best_index) \<Rightarrow>
        let chain = chain_ending_at found (fb_hash (found ! i)) in
        if chain = [] \<or> unat (fb_height (last chain)) \<noteq> length chain then s
        else
          let height = fb_height (last chain) in
          if best = length found \<or> height > best_height \<or>
             height = best_height \<and> fb_index (found ! i) < best_index
          then (i, height, fb_index (found ! i)) else s)"

definition choose_longest_chain :: "found_block list \<Rightarrow> found_block list" where
  "choose_longest_chain found =
     (case fold (choose_step found) [0..<length found] (length found, 0, 0) of
        (best, best_height, best_index) \<Rightarrow>
          if best = length found then [] else chain_ending_at found (fb_hash (found ! best)))"

subsection \<open>Replay\<close>

datatype applied = Ap_Thrown | Ap_Failed | Ap_Ok

definition header_of_item :: "env \<Rightarrow> found_block \<Rightarrow> block_header option" where
  "header_of_item ev item =
     (case (value_u32 ev (fb_obj item) ''version'' 1,
            value_string (fb_obj item) ''merkle_root'' (replicate 64 (CHR ''0'')),
            value_u64 ev (fb_obj item) ''timestamp'' 0,
            value_u32 ev (fb_obj item) ''difficulty'' 0,
            value_u64 ev (fb_obj item) ''nonce'' 0) of
        (Some version, Some merkle, Some timestamp, Some difficulty, Some nonce) \<Rightarrow>
          Some \<lparr>bh_version = version, bh_prev = fb_prev item, bh_merkle = snd (from_hex_into merkle zero256),
                bh_timestamp = timestamp, bh_difficulty = difficulty, bh_nonce = nonce,
                bh_hash = fb_hash item, bh_height = fb_height item\<rparr>
      | _ \<Rightarrow> None)"

text \<open>The stored coinbase outputs; \<open>None\<close> when an address is not a string.\<close>

fun replay_outputs :: "h256 \<Rightarrow> u32 \<Rightarrow> json list \<Rightarrow> u32 \<Rightarrow> (utxo_credit list) option" where
  "replay_outputs txid height [] vout = Some []"
| "replay_outputs txid height (o' # os) vout =
     (case (if is_object o' then (case units_of o' of Some units \<Rightarrow> if units > 0 then Some units else None
                                  | None \<Rightarrow> None) else None) of
        None \<Rightarrow> replay_outputs txid height os (vout + 1)
      | Some units \<Rightarrow>
          (case value_string o' ''address'' [] of
             None \<Rightarrow> None
           | Some address \<Rightarrow>
               map_option ((#) \<lparr>uc_txid = txid, uc_vout = vout, uc_value = units, uc_address = address,
                                uc_height = height\<rparr>)
                 (replay_outputs txid height os (vout + 1))))"

definition replay_coinbase :: "env \<Rightarrow> found_block \<Rightarrow> (utxo_credit list) option" where
  "replay_coinbase ev item =
     (case jobject (fb_obj item) ''coinbase'' of
        None \<Rightarrow> Some []
      | Some cb \<Rightarrow>
          (case (case jstring cb ''txid'' of None \<Rightarrow> None | Some t \<Rightarrow> from_hex t) of
             None \<Rightarrow> Some []
           | Some txid \<Rightarrow>
               (case jarray cb ''outputs'' of
                  Some outs \<Rightarrow> replay_outputs txid (fb_height item) outs 0
                | None \<Rightarrow>
                    (case (value_u64 ev cb ''value'' 0, value_string cb ''wallet'' []) of
                       (Some v, Some wallet) \<Rightarrow>
                         Some [\<lparr>uc_txid = txid, uc_vout = 0, uc_value = v, uc_address = wallet,
                                uc_height = fb_height item\<rparr>]
                     | _ \<Rightarrow> None))))"

fun replay_txs :: "env \<Rightarrow> u32 \<Rightarrow> json list \<Rightarrow> node \<Rightarrow> bool \<times> node" where
  "replay_txs ev height [] nd = (True, nd)"
| "replay_txs ev height (txj # txjs) nd =
     (case parse_tx ev txj height of
        Inl _ \<Rightarrow> replay_txs ev height txjs nd
      | Inr tx \<Rightarrow>
          (case apply_utxos (nd_st nd) (tx_spends tx) (tx_credits height tx) of
             (False, _) \<Rightarrow> (False, nd)
           | (True, st) \<Rightarrow>
               (case apply_flag_tx (nd_flags nd) tx height of
                  Inl _ \<Rightarrow> (False, nd\<lparr>nd_st := st\<rparr>)
                | Inr flags \<Rightarrow> replay_txs ev height txjs (nd\<lparr>nd_st := st, nd_flags := flags\<rparr>))))"

definition absorb_item :: "found_block \<Rightarrow> node \<Rightarrow> applied \<times> node" where
  "absorb_item item nd =
     (case absorb_block_names (nd_names nd) (fb_obj item) of
        (g, fine) \<Rightarrow> (if fine then Ap_Ok else Ap_Thrown, nd\<lparr>nd_names := g\<rparr>))"

definition replay_item :: "env \<Rightarrow> found_block \<Rightarrow> node \<Rightarrow> applied \<times> node" where
  "replay_item ev item nd =
     (case header_of_item ev item of
        None \<Rightarrow> (Ap_Thrown, nd)
      | Some header \<Rightarrow>
          (case index_existing_block (nd_st nd) (fb_index item) header of
             (False, _) \<Rightarrow> (Ap_Failed, nd)
           | (True, st) \<Rightarrow>
               let nd1 = nd\<lparr>nd_st := st\<rparr> in
               (case replay_coinbase ev item of
                  None \<Rightarrow> (Ap_Thrown, nd1)
                | Some credits \<Rightarrow>
                    (case (if credits = [] then (True, st) else apply_utxos st [] credits) of
                       (False, _) \<Rightarrow> (Ap_Failed, nd1)
                     | (True, st2) \<Rightarrow>
                         let nd2 = nd\<lparr>nd_st := st2\<rparr> in
                         (case (case jarray (fb_obj item) ''txs'' of
                                  None \<Rightarrow> (True, nd2) | Some txjs \<Rightarrow> replay_txs ev (fb_height item) txjs nd2) of
                            (False, nd3) \<Rightarrow> (Ap_Failed, nd3)
                          | (True, nd3) \<Rightarrow> absorb_item item nd3)))))"

fun apply_chain :: "env \<Rightarrow> found_block list \<Rightarrow> node \<Rightarrow> applied \<times> node" where
  "apply_chain ev [] nd = (Ap_Ok, nd)"
| "apply_chain ev (item # items) nd =
     (case replay_item ev item nd of
        (Ap_Ok, nd') \<Rightarrow> apply_chain ev items nd'
      | (r, nd') \<Rightarrow> (r, nd'))"

definition reset_chain :: "node \<Rightarrow> node" where
  "reset_chain nd = nd\<lparr>nd_flags := [], nd_st := reset_active_chain (nd_st nd)\<rparr>"

definition restore_chain :: "env \<Rightarrow> json option \<Rightarrow> node \<Rightarrow> applied \<times> node" where
  "restore_chain ev mempool_file nd =
     (let nd1 = nd\<lparr>nd_flags := [], nd_names := load_names_file (ev_names_file ev) (nd_names nd)\<rparr>;
          chosen = choose_longest_chain (load_found_blocks ev (nd_st nd1));
          nd2 = nd1\<lparr>nd_st := reset_active_chain (nd_st nd1)\<rparr> in
      if chosen = [] then (Ap_Ok, load_mempool ev mempool_file nd2)
      else (case apply_chain ev chosen nd2 of
              (Ap_Ok, nd3) \<Rightarrow> (Ap_Ok, load_mempool ev mempool_file nd3)
            | (r, nd3) \<Rightarrow> (r, nd3)))"

definition rpc_replay_chain :: "env \<Rightarrow> json option \<Rightarrow> h256 \<Rightarrow> node \<Rightarrow> applied \<times> node" where
  "rpc_replay_chain ev mempool_file tip_hash nd =
     (let chosen = chain_ending_at (load_found_blocks ev (nd_st nd)) tip_hash in
      if chosen = [] \<or> fb_hash (last chosen) \<noteq> tip_hash then (Ap_Failed, nd)
      else (case apply_chain ev chosen (reset_chain nd) of
              (Ap_Ok, nd') \<Rightarrow> (Ap_Ok, load_mempool ev mempool_file nd')
            | (r, nd') \<Rightarrow> (r, nd')))"

subsection \<open>A peer's chain\<close>

fun submit_all :: "env \<Rightarrow> json list \<Rightarrow> node \<Rightarrow> submitted \<times> node" where
  "submit_all ev [] nd = (Sub_Accepted zero256 0 False, nd)"
| "submit_all ev (block # blocks) nd =
     (case rpc_submitblock ev block False nd of
        (Sub_Accepted d h dup, nd') \<Rightarrow> submit_all ev blocks nd'
      | (r, nd') \<Rightarrow> (r, nd'))"

fun gossip_list :: "env \<Rightarrow> json list \<Rightarrow> ((bytes \<times> h256) list) option" where
  "gossip_list ev [] = Some []"
| "gossip_list ev (block # blocks) =
     (case (if is_object block then value_string block ''hash'' [] else None) of
        None \<Rightarrow> None
      | Some hash \<Rightarrow>
          (case from_hex hash of
             None \<Rightarrow> gossip_list ev blocks
           | Some digest \<Rightarrow> map_option ((#) (bytes_of (ev_dump ev block), digest)) (gossip_list ev blocks)))"

datatype adopted = Ad_Thrown | Ad_Crashed | Ad_No | Ad_Yes "(bytes \<times> h256) list"

text \<open>\<open>Ad_Yes\<close> carries the blocks that are then gossiped.\<close>

definition adopt_blocks :: "env \<Rightarrow> json option \<Rightarrow> json list \<Rightarrow> bool \<Rightarrow> h256 \<Rightarrow> node \<Rightarrow> adopted \<times> node" where
  "adopt_blocks ev file_back blocks had old_tip nd =
     (case submit_all ev blocks nd of
        (Sub_Accepted d h dup, nd') \<Rightarrow>
          (case gossip_list ev blocks of None \<Rightarrow> (Ad_Thrown, nd') | Some gs \<Rightarrow> (Ad_Yes gs, nd'))
      | (Sub_Rejected r, nd') \<Rightarrow>
          (if had
           then (case rpc_replay_chain ev file_back old_tip nd' of
                   (Ap_Thrown, nd'') \<Rightarrow> (Ad_Thrown, nd'')
                 | (_, nd'') \<Rightarrow> (Ad_No, nd''))
           else (Ad_No, nd'))
      | (Sub_Thrown, nd') \<Rightarrow> (Ad_Thrown, nd')
      | (Sub_Crashed, nd') \<Rightarrow> (Ad_Crashed, nd'))"

definition rpc_adopt_peer_chain ::
  "env \<Rightarrow> json option \<Rightarrow> json option \<Rightarrow> h256 \<Rightarrow> json list \<Rightarrow> node \<Rightarrow> adopted \<times> node" where
  "rpc_adopt_peer_chain ev file file_back ancestor blocks nd =
     (if blocks = [] \<or> \<not> is_object (last blocks) then (Ad_No, nd)
      else case value_u32 ev (last blocks) ''height'' 0 of
          None \<Rightarrow> (Ad_Thrown, nd)
        | Some peer_height \<Rightarrow>
            let st = nd_st nd;
                local_height = (if has_tip st then st_best_height st else 0);
                had = has_tip st;
                old_tip = (if had then st_best_hash st else zero256) in
            if peer_height \<le> local_height then (Ad_No, nd)
            else if had \<and> old_tip = ancestor then adopt_blocks ev file_back blocks had old_tip nd
            else (case rpc_replay_chain ev file ancestor nd of
                    (Ap_Thrown, nd') \<Rightarrow> (Ad_Thrown, nd')
                  | (Ap_Failed, nd') \<Rightarrow> (Ad_No, nd')
                  | (Ap_Ok, nd') \<Rightarrow> adopt_blocks ev file_back blocks had old_tip nd'))"

subsection \<open>Mining activity\<close>

definition rpc_note_template_request :: "env \<Rightarrow> node \<Rightarrow> node" where
  "rpc_note_template_request ev nd = nd\<lparr>nd_template := ev_now ev\<rparr>"

definition rpc_mining_active :: "env \<Rightarrow> node \<Rightarrow> bool" where
  "rpc_mining_active ev nd \<longleftrightarrow>
     nd_template nd \<noteq> 0 \<and> ev_now ev \<ge> nd_template nd \<and> ev_now ev - nd_template nd \<le> 600"

end
