(* ===== verification/Chain_Tip.thy ===== *)
theory Chain_Tip
  imports Chain Submit_Safe
begin

text \<open>
  What a replay leaves behind: the last block of the replayed chain is the tip, at the height of
  its number, and every height of the chain is in the table; and what that means for the adoption
  of a peer's chain.
\<close>

subsection \<open>One block\<close>

lemma replay_txs_ledger: "replay_txs ev h txjs nd = (r, nd') \<Longrightarrow> ledger_step (nd_st nd) (nd_st nd')"
proof (induction txjs arbitrary: nd)
  case (Cons txj txjs)
  show ?case
  proof (cases "parse_tx ev txj h")
    case (Inr tx)
    obtain b st where a: "apply_utxos (nd_st nd) (tx_spends tx) (tx_credits h tx) = (b, st)" by fastforce
    have l: "ledger_step (nd_st nd) st" using apply_utxos_ledger [of "nd_st nd" "tx_spends tx" "tx_credits h tx"] a by simp
    show ?thesis
      using Cons.prems Cons.IH [of "nd\<lparr>nd_st := st, nd_flags := _\<rparr>"] Inr a l
      by (auto split: bool.splits sum.splits)
  qed (use Cons in simp)
qed simp

lemma replay_item_Ok:
  assumes "replay_item ev item nd = (Ap_Ok, nd')"
  obtains hdr st where "bh_hash hdr = fb_hash item" "bh_height hdr = fb_height item" "bh_prev hdr = fb_prev item"
    "index_existing_block (nd_st nd) (fb_index item) hdr = (True, st)" "ledger_step st (nd_st nd')"
proof -
  from assms obtain hdr where h: "header_of_item ev item = Some hdr" by (auto simp: replay_item_def split: option.splits)
  then have hf: "bh_hash hdr = fb_hash item" "bh_height hdr = fb_height item" "bh_prev hdr = fb_prev item"
    by (auto simp: header_of_item_def split: option.splits)
  from assms h obtain st where st: "index_existing_block (nd_st nd) (fb_index item) hdr = (True, st)"
    by (auto simp: replay_item_def split: prod.splits bool.splits)
  from assms h st obtain credits where c: "replay_coinbase ev item = Some credits"
    by (auto simp: replay_item_def Let_def split: option.splits)
  from assms h st c obtain st2 where a: "(if credits = [] then (True, st) else apply_utxos st [] credits) = (True, st2)"
    by (auto simp: replay_item_def Let_def split: prod.splits bool.splits)
  then have l2: "ledger_step st st2"
    using apply_utxos_ledger [of st "[]" credits] by (auto split: if_splits)
  let ?r = "case jarray (fb_obj item) ''txs'' of None \<Rightarrow> (True, nd\<lparr>nd_st := st2\<rparr>)
    | Some txjs \<Rightarrow> replay_txs ev (fb_height item) txjs (nd\<lparr>nd_st := st2\<rparr>)"
  obtain b nd3 where r: "?r = (b, nd3)" by fastforce
  then have l3: "ledger_step st2 (nd_st nd3)"
    using replay_txs_ledger [of ev "fb_height item" _ "nd\<lparr>nd_st := st2\<rparr>"] by (auto split: option.splits)
  have "nd_st nd' = nd_st nd3"
  proof -
    have "replay_item ev item nd = (case b of False \<Rightarrow> (Ap_Failed, nd3) | True \<Rightarrow> absorb_item item nd3)"
      by (simp only: replay_item_def h st c a r Let_def option.case prod.case bool.case)
    with assms show ?thesis by (auto simp: absorb_item_def split: bool.splits prod.splits if_splits)
  qed
  with l2 l3 show thesis by (intro that [OF hf st]) simp
qed

subsection \<open>The whole chain\<close>

text \<open>The tables after the replay of \<open>done\<close>: heights 1 to the number of blocks.\<close>

definition replayed :: "found_block list \<Rightarrow> storage \<Rightarrow> bool" where
  "replayed done st \<longleftrightarrow>
     (if done = [] then st_height_to_hash st = [] \<and> st_best_hash st = zero256 \<and> st_best_height st = 0
      else length (st_height_to_hash st) = Suc (length done) \<and>
        (\<forall>i < length done. st_height_to_hash st ! Suc i = fb_hash (done ! i)) \<and>
        st_best_hash st = fb_hash (last done) \<and> unat (st_best_height st) = length done)"

lemma replayed_step:
  assumes "replayed done st" "index_existing_block st i hdr = (True, st')" "bh_hash hdr = fb_hash b"
    "unat (bh_height hdr) = Suc (length done)"
  shows "replayed (done @ [b]) st'"
proof -
  let ?h = "bh_height hdr"
  have best: "unat (st_best_height st) = length done" using assms(1) by (auto simp: replayed_def split: if_splits)
  have len: "length (st_height_to_hash st) \<le> unat ?h" using assms(1,4) by (auto simp: replayed_def split: if_splits)
  from assms(2) have st': "st_height_to_hash st' = (resize (st_height_to_hash st) (Suc (unat ?h)))[unat ?h := bh_hash hdr]"
    "st_best_hash st' = bh_hash hdr" "st_best_height st' = ?h"
    using len best assms(4) by (auto simp: index_existing_block_def Let_def word_less_nat_alt split: if_splits)
  have "resize (st_height_to_hash st) (Suc (unat ?h)) =
      st_height_to_hash st @ replicate (Suc (unat ?h) - length (st_height_to_hash st)) zero256"
    using len by (rule resize_grow)
  with st' assms(1,3,4) show ?thesis
    by (auto simp: replayed_def nth_append nth_list_update less_Suc_eq split: if_splits)
qed

lemma replayed_ledger: "replayed done st \<Longrightarrow> ledger_step st st' \<Longrightarrow> replayed done st'"
proof -
  assume "replayed done st" and l: "ledger_step st st'"
  then show ?thesis by (simp add: replayed_def ledger_step_fields [OF l])
qed

lemma apply_chain_replayed:
  assumes "apply_chain ev items nd = (Ap_Ok, nd')" "replayed done (nd_st nd)"
    "link_chain items (of_nat (Suc (length done))) p" "length done + length items < 2 ^ 32"
  shows "replayed (done @ items) (nd_st nd')"
  using assms
proof (induction items arbitrary: nd "done" p)
  case (Cons item items)
  obtain nd1 where r: "replay_item ev item nd = (Ap_Ok, nd1)" and rest: "apply_chain ev items nd1 = (Ap_Ok, nd')"
    using Cons.prems(1) by (auto split: prod.splits applied.splits)
  obtain hdr st where h: "bh_hash hdr = fb_hash item" "bh_height hdr = fb_height item"
    "index_existing_block (nd_st nd) (fb_index item) hdr = (True, st)" "ledger_step st (nd_st nd1)"
    using replay_item_Ok [OF r] by metis
  have l: "fb_height item = of_nat (Suc (length done))" "link_chain items (of_nat (Suc (length done)) + 1) (fb_hash item)"
    using Cons.prems(3) by (auto split: if_splits)
  have u: "unat (bh_height hdr) = Suc (length done)"
    using Cons.prems(4) by (simp only: h(2) l(1) unat_of_nat) simp
  have "replayed (done @ [item]) (nd_st nd1)"
    by (rule replayed_ledger [OF replayed_step [OF Cons.prems(2) h(3,1) u] h(4)])
  with Cons.IH [OF rest this, of "fb_hash item"] l(2) Cons.prems(4) show ?case by (simp add: add.commute)
qed simp

lemma reset_replayed: "replayed [] (nd_st (reset_chain nd))"
  by (simp add: replayed_def reset_chain_def reset_active_chain_def)

lemma load_entry_ledger: "ledger_step (nd_st nd) (nd_st (load_entry ev h obj nd))"
  by (auto simp: load_entry_def Let_def add_transaction_def block_tables_def split: sum.splits)

lemma load_mempool_ledger: "ledger_step (nd_st nd) (nd_st (load_mempool ev file nd))"
proof -
  have "ledger_step (nd_st nd) (nd_st (fold (load_entry ev h) arr nd))" for h arr
    by (induction arr arbitrary: nd) (simp_all add: load_entry_ledger)
  then show ?thesis by (auto simp: load_mempool_def split: option.splits json.splits)
qed

lemma chain_ending_linked:
  "chain_ending_at found tip \<noteq> [] \<Longrightarrow> link_chain (chain_ending_at found tip) 1 zero256"
  by (auto simp: chain_ending_at_def Let_def split: option.splits if_splits)

lemma chain_ending_length: "length (chain_ending_at found tip) \<le> Suc (length found)"
proof -
  have "walk_back n found t c rv = Some rv' \<Longrightarrow> length rv' \<le> length rv + n" for n t c rv rv'
    by (induction n arbitrary: c rv) (fastforce split: option.splits if_splits)+
  from this [of "length found + 1" "by_hash_of found" tip "[]"] show ?thesis
    by (auto simp: chain_ending_at_def Let_def split: option.splits if_splits)
qed

lemma found_blocks_few: "length (load_found_blocks ev st) \<le> unat (st_next_index st)"
  unfolding load_found_blocks_def List.map_filter_def by (simp add: order_trans [OF length_filter_le])

lemma replay_result:
  assumes "rpc_replay_chain ev file tip nd = (Ap_Ok, nd')" "unat (st_next_index (nd_st nd)) < 2 ^ 32 - 1"
  shows "st_best_hash (nd_st nd') = tip \<and>
    replayed (chain_ending_at (load_found_blocks ev (nd_st nd)) tip) (nd_st nd')"
proof -
  let ?c = "chain_ending_at (load_found_blocks ev (nd_st nd)) tip"
  from assms(1) obtain nd1 where c: "?c \<noteq> []" "fb_hash (last ?c) = tip"
    and a: "apply_chain ev ?c (reset_chain nd) = (Ap_Ok, nd1)" and nd': "nd' = load_mempool ev file nd1"
    by (auto simp: rpc_replay_chain_def Let_def split: if_splits prod.splits applied.splits)
  have "length ?c < 2 ^ 32"
    using chain_ending_length [of "load_found_blocks ev (nd_st nd)" tip] found_blocks_few [of ev "nd_st nd"] assms(2)
    by linarith
  then have "replayed ?c (nd_st nd1)"
    using apply_chain_replayed [OF a reset_replayed, of zero256] chain_ending_linked [OF c(1)] by simp
  then have "replayed ?c (nd_st nd')"
    unfolding nd' using replayed_ledger load_mempool_ledger by metis
  then show ?thesis using c by (simp add: replayed_def)
qed

text \<open>C22: A successful replay moves the node to the asked block. Afterwards that block is the tip,
  the heights 1 to its height hold the hashes of the chain that ends in it, and the best height is
  the length of that chain.\<close>

theorem replay_chain_tip:
  assumes "rpc_replay_chain ev file tip nd = (Ap_Ok, nd')" "unat (st_next_index (nd_st nd)) < 2 ^ 32 - 1"
  shows "st_best_hash (nd_st nd') = tip \<and>
    replayed (chain_ending_at (load_found_blocks ev (nd_st nd)) tip) (nd_st nd')"
  by (rule replay_result [OF assms])

end
