(* ===== verification/Chain_Adopt.thy ===== *)
theory Chain_Adopt
  imports Chain_Tip Tx_Json
begin

text \<open>
  The adoption of a peer's chain: blocks the node already stores are accepted but not applied, and
  an exception while a block is checked leaves the node on the common ancestor.
\<close>

lemma submit_store_not_thrown: "fst (submit_store ev k h flags root d nd) \<noteq> Sub_Thrown"
  by (auto simp: submit_store_def Let_def split: read.splits prod.splits bool.splits)

lemma submit_thrown_frame:
  assumes "rpc_submitblock ev params k nd = (Sub_Thrown, nd')"
  shows "\<exists>g. nd' = nd\<lparr>nd_names := g\<rparr>"
proof -
  have same: "\<exists>g. nd = nd\<lparr>nd_names := g\<rparr>" by (metis node.surjective node.update_convs(2))
  have "\<not> submit_store ev k h flags root d n = (Sub_Thrown, nd')" for h flags root d n
    using submit_store_not_thrown [of ev k h flags root d n] by auto
  with assms same show ?thesis
    by (auto simp: rpc_submitblock_def split: stage.splits prod.splits sum.splits)
qed


subsection \<open>A concrete attack\<close>

definition old_block :: json where
  "old_block = JObject [(''height'', JUint 1), (''hash'', JString (to_hex digest7)), (''prev_block_hash'', JString (to_hex zero256))]"

definition fork_env :: env where
  "fork_env = grab_env\<lparr>ev_parse := \<lambda>_. Some old_block\<rparr>"

definition fork_storage :: storage where
  "fork_storage = (storage_new [(0, [2, 0, 0, 0, 123, 125])])\<lparr>st_next_index := 1,
     st_index := [\<lparr>bp_file = 0, bp_offset = 0, bp_size = 2\<rparr>],
     st_height_to_hash := [zero256, replicate 32 8], st_best_hash := replicate 32 8, st_best_height := 1\<rparr>"

definition fork_node :: node where
  "fork_node = demo_node\<lparr>nd_st := fork_storage\<rparr>"

definition old_item :: found_block where
  "old_item = \<lparr>fb_index = 0, fb_height = 1, fb_prev = zero256, fb_hash = digest7, fb_obj = old_block\<rparr>"

lemma fork_found: "load_found_blocks fork_env fork_storage = [old_item]"
proof -
  have "read_block fork_storage 0 = Some [123, 125]"
    by (simp add: read_block_def fork_storage_def storage_new_def tbl_get_def le32_at_def Let_def)
  then have "found_block_at fork_env fork_storage 0 = Some old_item"
    by (simp add: found_block_at_def fork_env_def old_block_def get_u32_def old_item_def)
  moreover have "unat (st_next_index fork_storage) = 1" by (simp add: fork_storage_def)
  ultimately show ?thesis by (simp add: load_found_blocks_def List.map_filter_def)
qed

lemma fork_chain: "chain_ending_at [old_item] digest7 = [old_item]"
proof -
  have "by_hash_of [old_item] = [(digest7, 0)]"
    by (simp add: by_hash_of_def note_hash_def old_item_def tbl_get_def tbl_put_def)
  moreover have "is_zero zero256" by (simp add: is_zero_def zero256_def)
  ultimately show ?thesis
    by (simp add: chain_ending_at_def tbl_get_def Let_def numeral_eq_Suc) (simp add: old_item_def)
qed

definition fork_header :: block_header where
  "fork_header = \<lparr>bh_version = 1, bh_prev = zero256, bh_merkle = zero256, bh_timestamp = 0, bh_difficulty = 0,
     bh_nonce = 0, bh_hash = digest7, bh_height = 1\<rparr>"

definition fork_replayed :: node where
  "fork_replayed = demo_node\<lparr>nd_st := snd (index_existing_block (reset_active_chain fork_storage) 0 fork_header)\<rparr>"

lemma fork_replay: "rpc_replay_chain fork_env None digest7 fork_node = (Ap_Ok, fork_replayed)"
proof -
  have z: "replicate 64 (CHR ''0'') = to_hex zero256" by code_simp
  have h: "header_of_item fork_env old_item = Some fork_header"
    by (simp add: header_of_item_def old_item_def old_block_def value_u32_def value_u64_def value_string_def z
        from_hex_into_def fork_header_def)
  have "index_existing_block (reset_active_chain fork_storage) 0 fork_header = (True, nd_st fork_replayed)"
    by (simp add: fork_replayed_def index_existing_block_def fork_storage_def reset_active_chain_def Let_def)
  moreover have "nd_st (reset_chain fork_node) = reset_active_chain fork_storage" "nd_names (reset_chain fork_node) = []"
    by (simp_all add: reset_chain_def fork_node_def demo_node_def)
  moreover have "replay_coinbase fork_env old_item = Some []"
    by (simp add: replay_coinbase_def old_item_def old_block_def jobject_def)
  moreover have "jarray (fb_obj old_item) ''txs'' = None" "jarray (fb_obj old_item) ''names'' = None"
    by (simp_all add: old_item_def old_block_def jarray_def)
  moreover have "reset_chain fork_node\<lparr>nd_st := nd_st fork_replayed\<rparr> = fork_replayed"
    by (simp add: reset_chain_def fork_node_def fork_replayed_def demo_node_def)
  ultimately have "replay_item fork_env old_item (reset_chain fork_node) = (Ap_Ok, fork_replayed)"
    using h by (simp add: replay_item_def absorb_item_def absorb_block_names_def Let_def old_item_def)
  then show ?thesis
    by (simp add: rpc_replay_chain_def fork_found fork_chain Let_def load_mempool_def fork_node_def)
      (simp add: old_item_def)
qed

lemma replay_chain_tip_witness:
  "st_best_hash (nd_st fork_replayed) = digest7 \<and>
   replayed (chain_ending_at (load_found_blocks fork_env (nd_st fork_node)) digest7) (nd_st fork_replayed)"
  by (rule replay_chain_tip [OF fork_replay]) (simp add: fork_node_def fork_storage_def)

lemma fork_replayed_tip:
  "has_tip (nd_st fork_replayed)" "st_best_hash (nd_st fork_replayed) = digest7" "st_best_height (nd_st fork_replayed) = 1"
  "get_header_by_hash (nd_st fork_replayed) digest7 = Some fork_header" "nd_names fork_replayed = []"
  by (simp_all add: fork_replayed_def index_existing_block_def fork_storage_def reset_active_chain_def Let_def has_tip_def
      fork_header_def resize_def storage_new_def get_header_by_hash_def tbl_get_def tbl_put_def demo_node_def)

definition bad_coinbase :: json where
  "bad_coinbase = JObject [(''wallet'', JString ''operator''), (''height'', JString ''x'')]"

definition bad_block :: json where
  "bad_block = JObject
     [(''hw_proof'', JObject [(''model'', JString ''Raspberry Pi 4''), (''serial_commitment'', JString (to_hex digest7))]),
      (''version'', JUint 1), (''height'', JUint 2), (''nonce'', JUint 0), (''timestamp'', JUint 5),
      (''difficulty'', JUint (ucast (next_difficulty (nd_st fork_replayed)))), (''prev_block_hash'', JString (to_hex digest7)),
      (''merkle_root'', JString (to_hex digest7)), (''hash'', JString (to_hex digest7)),
      (''coinbase'', bad_coinbase)]"

lemma bad_block_throws: "rpc_submitblock fork_env bad_block False fork_replayed = (Sub_Thrown, fork_replayed)"
proof -
  have "official_pi_model ''Raspberry Pi 4''" by code_simp
  moreover have "\<not> is_zero digest7" by (simp add: is_zero_def digest7_def)
  ultimately have p: "submit_proof bad_block =
      Go (JObject [(''model'', JString ''Raspberry Pi 4''), (''serial_commitment'', JString (to_hex digest7))],
          ''Raspberry Pi 4'', digest7)"
    by (simp add: submit_proof_def bad_block_def jobject_def jstring_def)
  define f where "f = \<lparr>sb_block = bad_block,
     sb_proof = JObject [(''model'', JString ''Raspberry Pi 4''), (''serial_commitment'', JString (to_hex digest7))],
     sb_model = ''Raspberry Pi 4'', sb_serial = digest7, sb_height = 2, sb_nonce = 0, sb_timestamp = 5,
     sb_difficulty = next_difficulty (nd_st fork_replayed),
     sb_prev_hex = to_hex digest7, sb_merkle_hex = to_hex digest7, sb_hash_hex = to_hex digest7,
     sb_coinbase = bad_coinbase, sb_wallet = ''operator''\<rparr>"
  have f: "submit_fields bad_block = Go f"
    using p by (simp add: submit_fields_def)
      (simp add: bad_block_def bad_coinbase_def f_def jobject_def jstring_def juint_def)
  obtain shown payout where m: "submit_miner (nd_names fork_replayed) f False = Go (shown, payout)"
    by (cases "resolve_miner (nd_names fork_replayed) (sb_wallet f)") (auto simp: submit_miner_def)
  have v: "value_u32 fork_env bad_coinbase ''height'' 0 = None" by (simp add: value_u32_def bad_coinbase_def)
  have n: "(0 :: u64) < 5" "(5 :: u64) \<le> 120" "\<not> (4 :: u32) \<le> 2" "ev_now fork_env = 0"
    by (simp_all add: word_le_nat_alt word_less_nat_alt fork_env_def grab_env_def)
  have l: "submit_link fork_env fork_replayed f False = Thrown"
    using n v fork_replayed_tip by (simp add: submit_link_def submit_challenge_def f_def Let_def expect_prev_def next_height_of_def parent_time_def require_def need_def)
      (simp add: fork_header_def)
  have "as_object_param (ev_parse fork_env) bad_block = bad_block"
    by (simp add: as_object_param_def bad_block_def)
  with f m l show ?thesis by (simp add: rpc_submitblock_def submit_head_def)
qed


subsection \<open>Blocks that are already stored\<close>

lemma submit_head_height:
  assumes "submit_head ev nd k block = Go h"
  shows "\<exists>n. juint block ''height'' = Some n \<and> sb_height (bk_fields h) = ucast n \<and> sb_height (bk_fields h) = next_height_of (nd_st nd)"
  using assms by (auto simp: submit_head_def submit_fields_def dest!: submit_link_Go(2))

lemma submit_known_frame:
  assumes "rpc_submitblock ev params k nd = (Sub_Accepted d height True, nd')"
  shows "\<exists>g. nd' = nd\<lparr>nd_names := g\<rparr>"
proof -
  from submit_accepted [OF assms] obtain h flags g root where
    "submit_store ev k h flags root d (nd\<lparr>nd_names := g\<rparr>) = (Sub_Accepted d height True, nd')" by metis
  then show ?thesis
    by (auto simp: submit_store_def Let_def split: if_splits read.splits prod.splits bool.splits)
qed

text \<open>A block the node has stored before is accepted and not applied. The answer is \<open>accepted\<close>, but
  ledger, flags and tip stay as they are; so the next block of the same chain does not follow the tip
  and is not accepted, whatever it holds: sending a stored branch again cannot bring a node back to it.\<close>

theorem known_block_not_applied:
  assumes "rpc_submitblock ev b False nd = (Sub_Accepted d height True, nd1)" "is_object b" "is_object b'"
    and "juint b ''height'' = Some n" "juint b' ''height'' = Some (n + 1)"
  shows "nd_st nd1 = nd_st nd \<and> nd_flags nd1 = nd_flags nd \<and>
    (\<forall>d' h' dup. fst (rpc_submitblock ev b' False nd1) \<noteq> Sub_Accepted d' h' dup)"
proof -
  obtain g where g: "nd1 = nd\<lparr>nd_names := g\<rparr>" using submit_known_frame [OF assms(1)] by blast
  have obj: "as_object_param (ev_parse ev) b = b" "as_object_param (ev_parse ev) b' = b'"
    using assms(2,3) by (cases b; simp add: as_object_param_def; fail) (cases b'; use assms(3) in \<open>simp add: as_object_param_def\<close>)
  from submit_accepted [OF assms(1)] obtain h where "submit_head ev nd False b = Go h" using obj by metis
  then have n: "ucast n = next_height_of (nd_st nd)" using submit_head_height assms(4) by fastforce
  have False if acc: "fst (rpc_submitblock ev b' False nd1) = Sub_Accepted d' h' dup" for d' h' dup
  proof -
    obtain nd2 where "rpc_submitblock ev b' False nd1 = (Sub_Accepted d' h' dup, nd2)" using acc by (metis prod.collapse)
    from submit_accepted [OF this] obtain h2 where "submit_head ev nd1 False b' = Go h2" using obj by metis
    then have "ucast (n + 1) = next_height_of (nd_st nd)" using submit_head_height [of ev nd1 False b' h2] assms(5) g by auto
    with n have "(ucast (n + 1) :: u32) = ucast n" by simp
    then have "bit (ucast (n + 1) :: u32) 0 = bit (ucast n :: u32) 0" by simp
    then show False by (simp only: bit_ucast_iff) (simp add: bit_0)
  qed
  then show ?thesis using g by auto
qed

definition known_node :: node where
  "known_node = demo_node\<lparr>nd_st := (storage_new [])\<lparr>st_hash_to_index := [(digest7, 0)]\<rparr>\<rparr>"

lemma known_node_tip: "\<not> has_tip (nd_st known_node)" "st_best_height (nd_st known_node) = 0" "next_height_of (nd_st known_node) = 1"
  "next_difficulty (nd_st known_node) = 4" "expect_prev (nd_st known_node) = zero256" "parent_time (nd_st known_node) = Some 0"
  by (simp_all add: known_node_def storage_new_def has_tip_def next_height_of_def next_difficulty_def
      next_difficulty_window_def kInitialDifficultyBits_def expect_prev_def parent_time_def kDifficultyActivationHeight_def)

lemma known_head: "submit_head grab_env known_node False first_block = Go first_accepted"
proof -
  have "value_u32 grab_env first_coinbase ''height'' 0 = Some 1"
    by (simp add: value_u32_def first_coinbase_def)
  moreover have "\<not> (4 :: u32) \<le> 1" "(0 :: u64) < 5" "(5 :: u64) \<le> 120"
    by (simp_all add: word_le_nat_alt word_less_nat_alt)
  ultimately have l: "submit_link grab_env known_node first_fields False = Go (zero256, [], [])"
    by (simp add: submit_link_def submit_challenge_def known_node_tip Let_def)
      (simp add: first_fields_def grab_env_def known_node_tip)
  have n: "nd_names known_node = nd_names demo_node" by (simp add: known_node_def)
  from first_head obtain shown payout where m: "submit_miner (nd_names demo_node) first_fields False = Go (shown, payout)"
    and x: "submit_txs grab_env (nd_names demo_node) first_fields = Go (bk_txs first_accepted)"
    and c: "submit_coinbase grab_env first_fields payout (bk_txs first_accepted) = Go (bk_outs first_accepted, bk_cb first_accepted)"
    and w: "shown = bk_wallet first_accepted"
    using first_fields_ok by (auto simp: submit_head_def first_accepted_def)
  show ?thesis
    using first_fields_ok l m x c w by (simp add: submit_head_def n) (simp add: first_accepted_def)
qed

lemma known_submit: "fst (rpc_submitblock grab_env first_block False known_node) = Sub_Accepted digest7 1 True"
proof -
  have nd: "nd_names known_node = []" "nd_flags known_node = []" "known_node\<lparr>nd_names := []\<rparr> = known_node"
    by (simp_all add: known_node_def demo_node_def)
  have o: "as_object_param (ev_parse grab_env) first_block = first_block"
    by (simp add: as_object_param_def first_block_def)
  have w: "submit_work grab_env (bk_fields first_accepted) (bk_prev first_accepted) [bk_cb first_accepted] = Go (digest7, digest7)"
    using first_work by (simp add: first_accepted_def)
  have s: "fst (submit_store grab_env False first_accepted [] digest7 digest7 known_node) = Sub_Accepted digest7 1 True"
    by (simp add: submit_store_def first_accepted_def Let_def grab_env_def kMaxBlockBytes_def known_node_def block_index_def
        tbl_get_def get_header_by_hash_def storage_new_def first_fields_def)
  have t: "bk_txs first_accepted = []" by (simp add: first_accepted_def)
  show ?thesis by (simp add: rpc_submitblock_def o known_head t nd w s)
qed

lemma known_block_not_applied_witness:
  "fst (rpc_submitblock grab_env first_block False known_node) = Sub_Accepted digest7 1 True \<and>
   nd_st (snd (rpc_submitblock grab_env first_block False known_node)) = nd_st known_node"
proof -
  have s: "fst (rpc_submitblock grab_env first_block False known_node) = Sub_Accepted digest7 1 True"
    by (rule known_submit)
  have b: "juint first_block ''height'' = Some 1" "juint (JObject [(''height'', JUint 2)]) ''height'' = Some (1 + 1)"
    by (simp_all add: juint_def first_block_def)
  have "rpc_submitblock grab_env first_block False known_node =
      (Sub_Accepted digest7 1 True, snd (rpc_submitblock grab_env first_block False known_node))"
    using s by (metis prod.collapse)
  from known_block_not_applied [OF this _ _ b] s show ?thesis by (simp add: first_block_def)
qed

end
