(* ===== verification/Chain_Longest.thy ===== *)
theory Chain_Longest
  imports Chain_Tip
begin

text \<open>
  The choice of the chain after a restart is right: among all linked chains of the stored blocks a
  longest one is taken, and among those the one whose last block was stored first.
\<close>

definition linked :: "found_block list \<Rightarrow> found_block list \<Rightarrow> bool" where
  "linked found c \<longleftrightarrow> c \<noteq> [] \<and> set c \<subseteq> set found \<and> link_chain c 1 zero256 \<and> length c < 2 ^ 32"

text \<open>The hash determines the block, and is never zero.\<close>

definition sane_blocks :: "found_block list \<Rightarrow> bool" where
  "sane_blocks found \<longleftrightarrow> length found < 2 ^ 32 - 1 \<and>
     (\<forall>a \<in> set found. is_h256 (fb_prev a) \<and> fb_hash a \<noteq> zero256 \<and>
        (\<forall>b \<in> set found. fb_hash a = fb_hash b \<longrightarrow> fb_prev a = fb_prev b \<and> fb_height a = fb_height b))"

definition fb_key :: "found_block \<Rightarrow> u32 \<times> h256 \<times> h256" where
  "fb_key b = (fb_height b, fb_prev b, fb_hash b)"

subsection \<open>The index by hash\<close>

lemma by_hash_steps:
  assumes "n \<le> length found"
  shows "(\<forall>h i. tbl_get (fold (note_hash found) [0..<n] []) h = Some i \<longrightarrow> i < n \<and> fb_hash (found ! i) = h) \<and>
    (\<forall>i < n. tbl_get (fold (note_hash found) [0..<n] []) (fb_hash (found ! i)) \<noteq> None)"
  using assms
proof (induction n)
  case (Suc n)
  define T where "T = fold (note_hash found) [0..<n] []"
  from Suc have IH: "\<And>h i. tbl_get T h = Some i \<Longrightarrow> i < n \<and> fb_hash (found ! i) = h"
    "\<And>i. i < n \<Longrightarrow> tbl_get T (fb_hash (found ! i)) \<noteq> None" by (auto simp: T_def)
  have step: "fold (note_hash found) [0..<Suc n] [] = note_hash found n T" by (simp add: T_def)
  show ?case
    unfolding step using IH by (fastforce simp: note_hash_def tbl.get_put less_Suc_eq split: option.splits if_splits)
qed (simp add: tbl_get_def)

lemma by_hash_Some: "tbl_get (by_hash_of found) h = Some i \<Longrightarrow> i < length found \<and> fb_hash (found ! i) = h"
  using by_hash_steps [of "length found" found] by (auto simp: by_hash_of_def)

lemma by_hash_known: "b \<in> set found \<Longrightarrow> \<exists>i. tbl_get (by_hash_of found) (fb_hash b) = Some i"
  using by_hash_steps [of "length found" found] by (fastforce simp: by_hash_of_def in_set_conv_nth)

subsection \<open>Linked chains\<close>

lemma link_chain_nth:
  "link_chain c e p \<Longrightarrow> i < length c \<Longrightarrow>
   fb_height (c ! i) = e + of_nat i \<and> fb_prev (c ! i) = (if i = 0 then p else fb_hash (c ! (i - 1)))"
proof (induction c arbitrary: e p i)
  case (Cons b c)
  then show ?case by (cases i) (auto simp: nth_Cons' split: if_splits)
qed simp

lemma link_chain_keys: "map fb_key xs = map fb_key ys \<Longrightarrow> link_chain xs e p = link_chain ys e p"
proof (induction xs arbitrary: ys e p)
  case (Cons x xs)
  then obtain y ys' where "ys = y # ys'" "fb_key x = fb_key y" "map fb_key xs = map fb_key ys'" by (cases ys) auto
  moreover have "link_chain xs (e + 1) (fb_hash x) = link_chain ys' (e + 1) (fb_hash x)" by (rule Cons.IH) fact
  ultimately show ?case by (auto simp: fb_key_def [of x] fb_key_def [of y])
qed simp

lemma sane_facts: "sane_blocks found \<Longrightarrow> a \<in> set found \<Longrightarrow> is_h256 (fb_prev a) \<and> fb_hash a \<noteq> zero256"
  unfolding sane_blocks_def by blast

lemma sane_key:
  assumes "sane_blocks found" "a \<in> set found" "b \<in> set found" "fb_hash a = fb_hash b"
  shows "fb_key a = fb_key b"
proof -
  have "fb_prev a = fb_prev b \<and> fb_height a = fb_height b"
    using assms unfolding sane_blocks_def by blast
  with assms(4) show ?thesis by (simp add: fb_key_def)
qed

lemma linked_height:
  assumes "linked found c" "i < length c"
  shows "unat (fb_height (c ! i)) = Suc i"
proof -
  have "fb_height (c ! i) = of_nat (Suc i)" using assms link_chain_nth [of c 1 zero256 i] by (simp add: linked_def)
  then show ?thesis using assms by (simp add: linked_def unat_of_nat_u32 del: of_nat_Suc)
qed

lemma linked_length:
  assumes "linked found c"
  shows "length c \<le> length found"
proof -
  have "distinct c"
    using linked_height [OF assms] by (auto simp: distinct_conv_nth) (metis Suc_inject)
  then have "length c = card (set c)" by (simp add: distinct_card)
  also have "\<dots> \<le> card (set found)" using assms by (intro card_mono) (auto simp: linked_def)
  finally show ?thesis using card_length [of found] by linarith
qed

subsection \<open>The walk\<close>

lemma walk_back_linked:
  assumes sane: "sane_blocks found" and c: "linked found c"
  shows "j < length c \<Longrightarrow> j < n \<Longrightarrow>
    \<exists>is. walk_back n found (by_hash_of found) (fb_hash (c ! j)) rv = Some (rv @ is) \<and> is \<noteq> [] \<and>
      (\<forall>i \<in> set is. i < length found) \<and> map (\<lambda>i. fb_key (found ! i)) is = rev (map fb_key (take (Suc j) c))"
proof (induction j arbitrary: n rv)
  case (0 n)
  then obtain m where n: "n = Suc m" by (cases n) auto
  have mem: "c ! 0 \<in> set found" using 0 c by (auto simp: linked_def)
  then obtain i where i: "tbl_get (by_hash_of found) (fb_hash (c ! 0)) = Some i" using by_hash_known by blast
  note ii = by_hash_Some [OF i]
  have k: "fb_key (found ! i) = fb_key (c ! 0)"
    using ii by (intro sane_key [OF sane _ mem]) auto
  have "fb_prev (c ! 0) = zero256" using c 0 link_chain_nth [of c 1 zero256 0] by (simp add: linked_def)
  with k have "is_zero (fb_prev (found ! i))" by (simp add: fb_key_def is_zero_def zero256_def)
  moreover have "take (Suc 0) c = [c ! 0]" using 0 by (simp add: take_Suc_conv_app_nth)
  ultimately show ?case using i ii k by (intro exI [of _ "[i]"]) (simp add: n)
next
  case (Suc j n)
  then obtain m where n: "n = Suc m" "j < m" by (cases n) auto
  have mem: "c ! Suc j \<in> set found" "c ! j \<in> set found" using Suc.prems c by (auto simp: linked_def)
  then obtain i where i: "tbl_get (by_hash_of found) (fb_hash (c ! Suc j)) = Some i" using by_hash_known by blast
  note ii = by_hash_Some [OF i]
  have k: "fb_key (found ! i) = fb_key (c ! Suc j)"
    using ii by (intro sane_key [OF sane _ mem(1)]) auto
  have p: "fb_prev (c ! Suc j) = fb_hash (c ! j)" using c Suc.prems link_chain_nth [of c 1 zero256 "Suc j"] by (simp add: linked_def)
  have "is_h256 (fb_prev (c ! Suc j))" "fb_hash (c ! j) \<noteq> zero256" using sane_facts [OF sane] mem by blast+
  with p have nz: "\<not> is_zero (fb_prev (found ! i))" using k by (simp add: fb_key_def is_zero_iff)
  obtain "is" where is': "walk_back m found (by_hash_of found) (fb_hash (c ! j)) (rv @ [i]) = Some ((rv @ [i]) @ is)"
    "\<forall>i \<in> set is. i < length found" "map (\<lambda>i. fb_key (found ! i)) is = rev (map fb_key (take (Suc j) c))"
    using Suc.IH [of m "rv @ [i]"] Suc.prems n by auto
  have t: "take (Suc (Suc j)) c = take (Suc j) c @ [c ! Suc j]" using Suc.prems by (simp add: take_Suc_conv_app_nth)
  have "fb_prev (found ! i) = fb_hash (c ! j)" using k p by (simp add: fb_key_def)
  then have w: "walk_back n found (by_hash_of found) (fb_hash (c ! Suc j)) rv = Some (rv @ i # is)"
    using is'(1) i nz n by simp
  have m: "map (\<lambda>i. fb_key (found ! i)) (i # is) = rev (map fb_key (take (Suc (Suc j)) c))"
    using is'(3) k by (simp only: t) simp
  have "\<forall>i \<in> set (i # is). i < length found" using is'(2) ii by simp
  with w m show ?case by blast
qed

lemma chain_ending_complete:
  assumes "sane_blocks found" "linked found c"
  shows "map fb_key (chain_ending_at found (fb_hash (last c))) = map fb_key c"
proof -
  let ?n = "length c - 1"
  have l: "?n < length c" "?n < length found + 1" "last c = c ! ?n" "Suc ?n = length c"
    using assms(2) linked_length [OF assms(2)] by (auto simp: linked_def last_conv_nth)
  from walk_back_linked [OF assms l(1,2), of "[]"] obtain "is" where
    w: "walk_back (length found + 1) found (by_hash_of found) (fb_hash (last c)) [] = Some is" "is \<noteq> []"
    and k: "map (\<lambda>i. fb_key (found ! i)) is = rev (map fb_key c)"
    using l by auto
  have kc: "map fb_key (map ((!) found) (rev is)) = map fb_key c"
    using arg_cong [OF k, of rev] by (simp add: rev_map comp_def)
  have "fb_key (found ! last is) = last (map (\<lambda>i. fb_key (found ! i)) is)" using w(2) by (simp add: last_map)
  also have "\<dots> = fb_key (hd c)" using assms(2) by (simp add: k last_rev hd_map linked_def)
  finally have "fb_prev (found ! last is) = fb_prev (c ! 0)" using assms(2) by (simp add: fb_key_def linked_def hd_conv_nth)
  also have "\<dots> = zero256" using assms(2) link_chain_nth [of c 1 zero256 0] by (auto simp: linked_def)
  finally have "is_zero (fb_prev (found ! last is))" by (simp add: is_zero_def zero256_def)
  moreover have "link_chain (map ((!) found) (rev is)) 1 zero256"
    using link_chain_keys [OF kc] assms(2) by (simp add: linked_def)
  ultimately show ?thesis using w kc by (simp add: chain_ending_at_def)
qed

lemma walk_back_sound:
  "walk_back n found (by_hash_of found) cursor rv = Some rv' \<Longrightarrow> \<forall>i \<in> set rv. i < length found \<Longrightarrow>
   (\<forall>i \<in> set rv'. i < length found) \<and> (n > 0 \<longrightarrow> (\<exists>i tl. rv' = rv @ i # tl \<and> fb_hash (found ! i) = cursor))"
proof (induction n arbitrary: cursor rv)
  case (Suc n)
  then obtain i where i: "tbl_get (by_hash_of found) cursor = Some i" by (auto split: option.splits)
  note ii = by_hash_Some [OF i]
  show ?case
  proof (cases "is_zero (fb_prev (found ! i))")
    case False
    then have "walk_back n found (by_hash_of found) (fb_prev (found ! i)) (rv @ [i]) = Some rv'" "n > 0"
      using Suc.prems i by (auto split: if_splits)
    with Suc.IH [of "fb_prev (found ! i)" "rv @ [i]"] Suc.prems ii show ?thesis by auto
  qed (use Suc i ii in auto)
qed simp

lemma chain_ending_sound:
  assumes "chain_ending_at found tip \<noteq> []" "length found < 2 ^ 32 - 1"
  shows "linked found (chain_ending_at found tip)" "fb_hash (last (chain_ending_at found tip)) = tip"
proof -
  from assms(1) obtain rv where w: "walk_back (length found + 1) found (by_hash_of found) tip [] = Some rv"
    and c: "chain_ending_at found tip = map ((!) found) (rev rv)" "rv \<noteq> []"
    by (auto simp: chain_ending_at_def Let_def split: option.splits if_splits)
  from walk_back_sound [OF w] obtain i tl where r: "\<forall>i \<in> set rv. i < length found" "rv = i # tl" "fb_hash (found ! i) = tip"
    by auto
  have "length (chain_ending_at found tip) < 2 ^ 32" using chain_ending_length [of found tip] assms(2) by linarith
  then show "linked found (chain_ending_at found tip)"
    using chain_ending_linked [OF assms(1)] assms(1) r(1) by (auto simp: linked_def c)
  show "fb_hash (last (chain_ending_at found tip)) = tip" using r by (simp add: c last_map)
qed

subsection \<open>The choice\<close>

lemma linked_last_height:
  assumes "linked found c"
  shows "unat (fb_height (last c)) = length c"
proof -
  have c: "c \<noteq> []" using assms by (simp add: linked_def)
  then have "unat (fb_height (c ! (length c - 1))) = Suc (length c - 1)" by (intro linked_height [OF assms]) simp
  with c show ?thesis by (simp add: last_conv_nth)
qed

text \<open>What the loop has found among the first \<open>n\<close> blocks.\<close>

definition chosen_upto :: "found_block list \<Rightarrow> nat \<Rightarrow> nat \<times> u32 \<times> u64 \<Rightarrow> bool" where
  "chosen_upto found n s =
     (case s of (best, best_height, best_index) \<Rightarrow>
        if best = length found then \<forall>i < n. chain_ending_at found (fb_hash (found ! i)) = []
        else best < n \<and> chain_ending_at found (fb_hash (found ! best)) \<noteq> [] \<and>
          unat best_height = length (chain_ending_at found (fb_hash (found ! best))) \<and>
          best_index = fb_index (found ! best) \<and>
          (\<forall>i < n. length (chain_ending_at found (fb_hash (found ! i))) < unat best_height \<or>
             length (chain_ending_at found (fb_hash (found ! i))) = unat best_height \<and> best_index \<le> fb_index (found ! i)))"

lemma chosen_uptoD:
  assumes "chosen_upto found n (best, best_height, best_index)" "best \<noteq> length found"
  shows "best < n" "chain_ending_at found (fb_hash (found ! best)) \<noteq> []"
    "unat best_height = length (chain_ending_at found (fb_hash (found ! best)))" "best_index = fb_index (found ! best)"
    "\<And>i. i < n \<Longrightarrow> length (chain_ending_at found (fb_hash (found ! i))) < unat best_height \<or>
       length (chain_ending_at found (fb_hash (found ! i))) = unat best_height \<and> best_index \<le> fb_index (found ! i)"
  using assms unfolding chosen_upto_def prod.case if_not_P [OF assms(2)] by blast+

lemma choose_step_upto:
  assumes "length found < 2 ^ 32 - 1" "n < length found" "chosen_upto found n s"
  shows "chosen_upto found (Suc n) (choose_step found n s)"
proof -
  obtain best best_height best_index where s: "s = (best, best_height, best_index)" by (cases s)
  define c where "c = chain_ending_at found (fb_hash (found ! n))"
  show ?thesis
  proof (cases "c = []")
    case True
    then have "choose_step found n s = s" by (simp add: choose_step_def s c_def)
    with True assms(3) show ?thesis by (auto simp: chosen_upto_def s less_Suc_eq c_def split: if_splits)
  next
    case False
    have h: "unat (fb_height (last c)) = length c"
      using linked_last_height [OF chain_ending_sound(1) [OF False [unfolded c_def] assms(1)]] by (simp add: c_def)
    define cond where "cond \<longleftrightarrow> best = length found \<or> length c > unat best_height \<or>
      length c = unat best_height \<and> fb_index (found ! n) < best_index"
    have step: "choose_step found n s = (if cond then (n, fb_height (last c), fb_index (found ! n)) else s)"
      using False h by (simp add: choose_step_def s c_def [symmetric] Let_def cond_def word_less_nat_alt word_unat_eq_iff)
    show ?thesis
    proof (cases cond)
      case True
      have "length (chain_ending_at found (fb_hash (found ! i))) < length c \<or>
          length (chain_ending_at found (fb_hash (found ! i))) = length c \<and> fb_index (found ! n) \<le> fb_index (found ! i)"
        if "i < n" for i
        using assms(3) True that False unfolding chosen_upto_def s cond_def by (auto split: if_splits)
      with True False assms(2) h show ?thesis
        unfolding step chosen_upto_def c_def by (auto simp: less_Suc_eq)
    next
      case other: False
      then have eq: "choose_step found n s = s" by (simp add: step)
      have less: "best \<noteq> length found" "length c < unat best_height \<or> length c = unat best_height \<and> best_index \<le> fb_index (found ! n)"
        using other by (auto simp: cond_def)
      note up = chosen_uptoD [OF assms(3) [unfolded s] less(1)]
      have "length (chain_ending_at found (fb_hash (found ! i))) < unat best_height \<or>
             length (chain_ending_at found (fb_hash (found ! i))) = unat best_height \<and> best_index \<le> fb_index (found ! i)"
        if "i < Suc n" for i
        using that up(5) [of i] less(2) by (cases "i = n") (auto simp: c_def)
      with up(1-4) less(1) show ?thesis unfolding eq unfolding s chosen_upto_def by simp
    qed
  qed
qed

lemma choose_loop:
  assumes "length found < 2 ^ 32 - 1"
  shows "n \<le> length found \<Longrightarrow> chosen_upto found n (fold (choose_step found) [0..<n] (length found, 0, 0))"
proof (induction n)
  case (Suc n)
  then show ?case using choose_step_upto [OF assms, of n] by simp
qed (simp add: chosen_upto_def)

text \<open>C21: A restart takes the longest chain. Whatever blocks are on disk, in whatever order, the chain
  that is chosen is linked from height 1 upwards, no linked chain of stored blocks is longer, and among
  the longest it is one whose last block was stored first; no chain is chosen only if there is none.\<close>

theorem longest_chain_chosen:
  assumes "sane_blocks found"
  shows "if choose_longest_chain found = [] then \<not> (\<exists>c. linked found c)
    else linked found (choose_longest_chain found) \<and>
      (\<forall>c. linked found c \<longrightarrow> length c < length (choose_longest_chain found) \<or>
         length c = length (choose_longest_chain found) \<and>
         (\<exists>b \<in> set found. fb_hash b = fb_hash (last (choose_longest_chain found)) \<and> fb_index b \<le> fb_index (last c)))"
proof -
  have few: "length found < 2 ^ 32 - 1" using assms by (simp add: sane_blocks_def)
  obtain best best_height best_index where
    s: "fold (choose_step found) [0..<length found] (length found, 0, 0) = (best, best_height, best_index)"
    by (metis prod_cases3)
  have up: "chosen_upto found (length found) (best, best_height, best_index)"
    using choose_loop [OF few order_refl] by (simp add: s)
  have cand: "\<exists>i < length found. found ! i = last c \<and> length (chain_ending_at found (fb_hash (found ! i))) = length c"
    if c: "linked found c" for c
  proof -
    have "last c \<in> set found" using c by (auto simp: linked_def)
    then obtain i where "i < length found" "found ! i = last c" by (auto simp: in_set_conv_nth)
    with arg_cong [OF chain_ending_complete [OF assms c], of length] show ?thesis by auto
  qed
  show ?thesis
  proof (cases "best = length found")
    case True
    then have e: "choose_longest_chain found = []" by (simp add: choose_longest_chain_def s)
    have none: "\<And>i. i < length found \<Longrightarrow> chain_ending_at found (fb_hash (found ! i)) = []"
      using up True by (simp add: chosen_upto_def)
    have "\<not> linked found c" for c
    proof
      assume "linked found c"
      with cand [OF this] none have "length c = 0" by (metis list.size(3))
      with \<open>linked found c\<close> show False by (simp add: linked_def)
    qed
    with e show ?thesis by simp
  next
    case False
    let ?ch = "chain_ending_at found (fb_hash (found ! best))"
    have ch: "choose_longest_chain found = ?ch" using False by (simp add: choose_longest_chain_def s)
    note u = chosen_uptoD [OF up False]
    note sound = chain_ending_sound [OF u(2) few]
    have "length c < length ?ch \<or> length c = length ?ch \<and>
        (\<exists>b \<in> set found. fb_hash b = fb_hash (last ?ch) \<and> fb_index b \<le> fb_index (last c))" if c: "linked found c" for c
    proof -
      obtain i where "i < length found" "found ! i = last c" "length (chain_ending_at found (fb_hash (found ! i))) = length c"
        using cand [OF c] by blast
      with u(5) [of i] u(3,4) sound(2) nth_mem [OF u(1)] show ?thesis by auto
    qed
    with sound(1) u(2) show ?thesis by (simp add: ch)
  qed
qed

definition two_blocks :: "found_block list" where
  "two_blocks = [\<lparr>fb_index = 0, fb_height = 1, fb_prev = zero256, fb_hash = replicate 32 1, fb_obj = JNull\<rparr>,
     \<lparr>fb_index = 1, fb_height = 1, fb_prev = zero256, fb_hash = replicate 32 2, fb_obj = JNull\<rparr>,
     \<lparr>fb_index = 2, fb_height = 2, fb_prev = replicate 32 2, fb_hash = replicate 32 3, fb_obj = JNull\<rparr>]"

lemma longest_chain_chosen_witness: "2 \<le> length (choose_longest_chain two_blocks)"
proof -
  have s: "sane_blocks two_blocks" by (simp add: sane_blocks_def two_blocks_def is_h256_def zero256_def)
  have l: "linked two_blocks [two_blocks ! 1, two_blocks ! 2]" by (simp add: linked_def two_blocks_def)
  note t = longest_chain_chosen [OF s]
  show ?thesis
  proof (cases "choose_longest_chain two_blocks = []")
    case True
    with t have "\<not> linked two_blocks [two_blocks ! 1, two_blocks ! 2]" by simp
    with l show ?thesis by simp
  next
    case False
    from t [unfolded if_not_P [OF False]] l
    have "length [two_blocks ! 1, two_blocks ! 2] \<le> length (choose_longest_chain two_blocks)"
      by (blast intro: less_imp_le eq_refl)
    then show ?thesis by simp
  qed
qed

end
