(* ===== verification/Template.thy ===== *)
theory Template
  imports Chain Submit_Safe
begin

text \<open>
  The block template for miners, \<open>rpc_getblocktemplate\<close>, and the two queries beside it
  (\<open>rpc_getblockchaininfo\<close>, \<open>rpc_getmempool\<close>; chain_rpc.cpp). A template is a JSON document, the
  answer \<open>rejected("clock behind tip")\<close>, or the exception with the reason of the failed name
  lookup. The small numbers of the document (version, rounds) are shown as the client parses them.
\<close>

datatype template = Tpl_Error reason | Tpl_Rejected reason | Tpl_Block json

text \<open>Who gets the validator output: the Foundation unless a ps1 address or a name of one is asked.\<close>

definition template_validator :: "env \<Rightarrow> book \<Rightarrow> json \<Rightarrow> string res" where
  "template_validator ev g params =
     (case jget (as_object_param (ev_parse ev) params) ''validator'' of
        None \<Rightarrow> Inr kFoundationPayout
      | Some JNull \<Rightarrow> Inr kFoundationPayout
      | Some (JString asked) \<Rightarrow>
          if asked = [] then Inr kFoundationPayout
          else (case resolve_miner g asked of
                  Inl why \<Rightarrow> Inl why
                | Inr (_, payout) \<Rightarrow>
                    if is_ps1_payout payout then Inr payout else Inl (NameErr Unknown_Shortname))
      | Some _ \<Rightarrow> Inl (NameErr Unknown_Shortname))"

text \<open>\<open>None\<close> when the clock is more than two minutes behind the tip.\<close>

definition template_stamp :: "u64 \<Rightarrow> storage \<Rightarrow> u64 option" where
  "template_stamp now st =
     (case (if has_tip st then get_header_by_hash st (expect_prev st) else None) of
        None \<Rightarrow> Some now
      | Some parent \<Rightarrow>
          if now \<le> bh_timestamp parent then
            (let next = bh_timestamp parent + 1 in if next > now + 120 then None else Some next)
          else Some now)"

text \<open>Transactions without inputs are listed, but neither their fee nor their id counts.\<close>

definition mined_txs :: "tx list \<Rightarrow> tx list" where
  "mined_txs txs = filter (\<lambda>tx. tx_inputs tx \<noteq> []) txs"

definition template_proof :: "u32 \<Rightarrow> string \<Rightarrow> json" where
  "template_proof height challenge =
     JObject ([(''model'', JString []), (''serial_commitment'', JString [])] @
       (if height \<ge> 4
        then [(''challenge'', JString challenge),
              (''serial_rule'', JString ''sha256(serial_utf8 || challenge_bytes)'')]
        else []))"

definition template_pihash :: "u32 \<Rightarrow> json" where
  "template_pihash height =
     (if height \<ge> 5
      then JObject [(''algorithm'', JString ''pihash2''), (''domain'', JString ''PiHash2''), (''rounds'', JUint 1),
                    (''memory_mb'', JUint 32), (''difficulty_means'', JString ''leading zero bits'')]
      else JObject [(''algorithm'', JString ''sha256-pihash1''), (''domain'', JString ''PiHash1''),
                    (''difficulty_means'', JString ''leading zero bits'')])"

definition template_json ::
  "u32 \<Rightarrow> h256 \<Rightarrow> u64 \<Rightarrow> u32 \<Rightarrow> emission \<Rightarrow> json \<Rightarrow> tx \<Rightarrow> h256 \<Rightarrow> tx list \<Rightarrow> string \<Rightarrow> json" where
  "template_json height prev stamp difficulty e coinbase cb root txs challenge =
     JObject [(''version'', JUint 1), (''height'', JUint (ucast height)), (''prev_block_hash'', JString (to_hex prev)),
       (''timestamp'', JUint stamp), (''difficulty'', JUint (ucast difficulty)), (''subsidy_units'', JUint (em_subsidy e)),
       (''coinbase'', coinbase), (''coinbase_txid'', JString (to_hex (tx_txid cb))), (''merkle_root'', JString (to_hex root)),
       (''txs'', JArray (map tx_to_json txs)), (''hw_proof'', template_proof height challenge),
       (''pihash'', template_pihash height)]"

text \<open>\<open>rnd\<close> is what \<open>RAND_bytes\<close> gives when a challenge is needed.\<close>

definition template_block ::
  "env \<Rightarrow> h256 option \<Rightarrow> string \<Rightarrow> string \<Rightarrow> string \<Rightarrow> node \<Rightarrow> template \<times> node" where
  "template_block ev rnd shown payout validator nd =
     (let st = nd_st nd;
          next_height = st_best_height st + 1;
          prev = expect_prev st;
          txs = mempool_txs ev st;
          emit = emission_for next_height (fee_total (mined_txs txs));
          cb_outs = template_coinbase payout validator emit;
          cb = coinbase_from (ev_sha ev) next_height cb_outs;
          root = merkle_root (ev_sha ev) (tx_txid cb # map tx_txid (mined_txs txs)) in
      case template_stamp (ev_now ev) st of
        None \<Rightarrow> (Tpl_Rejected (HeaderErr Clock_Behind_Tip), nd)
      | Some stamp \<Rightarrow>
          (let (challenge, ch) =
             (if next_height \<ge> 4 then challenge_for_template (to_hex prev) (to_hex root) payout rnd (nd_chal nd)
              else ([], nd_chal nd))
           in (Tpl_Block (template_json next_height prev stamp (next_difficulty st) emit
                 (coinbase_body shown next_height emit cb cb_outs) cb root txs challenge),
               nd\<lparr>nd_chal := ch\<rparr>)))"

definition rpc_getblocktemplate :: "env \<Rightarrow> h256 option \<Rightarrow> json \<Rightarrow> node \<Rightarrow> template \<times> node" where
  "rpc_getblocktemplate ev rnd params nd0 =
     (let nd = rpc_note_template_request ev nd0 in
      case resolve_miner (nd_names nd) (wallet_from_params (ev_parse ev) params) of
        Inl why \<Rightarrow> (Tpl_Error why, nd)
      | Inr (shown, payout) \<Rightarrow>
          (case template_validator ev (nd_names nd) params of
             Inl why \<Rightarrow> (Tpl_Error why, nd)
           | Inr validator \<Rightarrow> template_block ev rnd shown payout validator nd))"

definition rpc_getblockchaininfo :: "node \<Rightarrow> json" where
  "rpc_getblockchaininfo nd =
     (let height = st_best_height (nd_st nd) in
      JObject [(''height'', JUint (ucast height)), (''bestblockhash'', JString (to_hex (st_best_hash (nd_st nd)))),
        (''pi_activation_height'', JUint (ucast kPiActivationHeight)),
        (''amount_scale'', JUint (ucast (amount_scale_for_next (height + 1))))])"

end
