(* ===== verification/Template_Mine.thy ===== *)
theory Template_Mine
  imports Template Coinbase_Safe Names_Book Tx_Json Tx_Canon
begin

text \<open>
  A template can be mined: once a miner has filled in the hardware proof, the nonce and the hash of
  a template, the node that made it accepts the block as far as the transactions and the size of
  the block allow.
\<close>

subsection \<open>Miner and validator\<close>

lemma lower_hex_id:
  "list_all (\<lambda>c. in_range c CHR ''0'' CHR ''9'' \<or> in_range c CHR ''a'' CHR ''f'') s \<Longrightarrow> lower_hex s = s"
  by (induction s) (auto simp: lower_hex_map lower_hex_char_def in_range_def)

lemma wallet_ps1_again: "wallet_ps1 w = Some p \<Longrightarrow> wallet_ps1 p = Some p \<and> length p = 67"
proof -
  assume a: "wallet_ps1 w = Some p"
  then have l: "is_long_address p" by (auto simp: wallet_ps1_def Let_def split: if_splits)
  then have "take 3 p = ''ps1''" "lower_hex (drop 3 p) = drop 3 p" "length p = 67"
    by (auto simp: is_long_address_def intro: lower_hex_id)
  moreover have "''ps1'' @ drop 3 p = p" using calculation(1) by (metis append_take_drop_id)
  ultimately show ?thesis using l by (simp add: wallet_ps1_def lower_ascii_ps1 Let_def)
qed

lemma resolve_miner_again:
  assumes "book_ok g" "resolve_miner g w = Inr (shown, payout)"
  shows "resolve_miner g shown = Inr (shown, payout)" "shown \<noteq> []" "length shown \<le> 256" "length payout = 67"
proof -
  have "resolve_miner g shown = Inr (shown, payout) \<and> shown \<noteq> [] \<and> length shown \<le> 256 \<and> length payout = 67"
  proof (cases "wallet_ps1 w")
    case (Some p)
    then have "shown = p" "payout = p" using assms(2) by (auto simp: resolve_miner_def split: if_splits)
    with wallet_ps1_again [OF Some] show ?thesis by (auto simp: resolve_miner_def)
  next
    case None
    then obtain kind where l: "lookup_name g w = Some (payout, shown, kind)"
      using assms(2) by (auto simp: resolve_miner_def split: if_splits option.splits)
    then obtain rec where r: "find_name g w = Some rec" "nm_address rec = payout" "nm_name rec = shown" "nm_kind rec = kind"
      by (auto simp: lookup_name_def)
    then have m: "rec \<in> set g" by (auto dest: find_name_in)
    with assms(1) r have v: "valid_shortname shown" "is_long_address payout"
      by (auto simp: book_ok_def list_all_iff)
    then have len: "2 \<le> length shown" "length shown \<le> 32" by (auto simp: valid_shortname_def split: if_splits)
    have "find_name g shown = Some rec" using find_name_member [OF assms(1) m] r by simp
    moreover have "wallet_ps1 shown = None" using len by (simp add: wallet_ps1_def Let_def)
    ultimately have "resolve_miner g shown = Inr (shown, payout)"
      using v(1) len r by (auto simp: resolve_miner_def lookup_name_def)
    with len v(2) show ?thesis by (auto simp: is_long_address_def)
  qed
  then show "resolve_miner g shown = Inr (shown, payout)" "shown \<noteq> []" "length shown \<le> 256" "length payout = 67" by auto
qed

lemma foundation_is_ps1: "is_ps1_payout kFoundationPayout"
  by (simp add: is_ps1_payout_def kFoundationPayout_def is_long_address_def lower_ascii_def in_range_def)

lemma template_validator_ps1: "template_validator ev g params = Inr v \<Longrightarrow> is_ps1_payout v"
  by (auto simp: template_validator_def foundation_is_ps1 split: option.splits json.splits if_splits sum.splits)

subsection \<open>The coinbase\<close>

lemma template_coinbase_checked:
  assumes "unat fee * 60 < 2 ^ 64" "is_ps1_payout v"
  shows "check_coinbase h fee (template_coinbase w v (emission_for h fee)) = Inr ()"
proof -
  let ?e = "emission_for h fee"
  have "unat (miner_cap ?e) = unat (miner_subsidy_for_height h) + unat fee * 60 div 100"
    by (rule miner_cap_unat [OF assms(1)])
  then have sub: "coinbase_subsidy_ok h fee (miner_cap ?e) (em_validator ?e) = Inr ()"
    unfolding coinbase_subsidy_iff [OF assms(1)]
    by (auto simp: subsidy_split(2) validator_for_height_def emission_for_def emission_consts not_le Let_def)
  have "paid_totals (template_coinbase w v ?e) paid_none =
      Inr \<lparr>pd_miner = miner_cap ?e, pd_validator = em_validator ?e, pd_stakers = em_stakers ?e, pd_loans = em_loans ?e,
        pd_foundation = em_foundation ?e\<rparr>"
    by (simp add: template_coinbase_def paid_none_def word_gt_0)
  then show ?thesis
    using sub assms(2)
    by (simp add: check_coinbase_def Let_def list_ex_iff) (auto simp: template_coinbase_def)
qed

lemma template_coinbase_listed:
  assumes "unat fee * 60 < 2 ^ 64" "w \<noteq> []" "v \<noteq> []"
  shows "list_all (\<lambda>out. cb_units out \<noteq> 0 \<and> cb_address out \<noteq> [] \<and> (cb_role out = ''miner'' \<longrightarrow> cb_address out = w))
    (template_coinbase w v (emission_for h fee))"
proof -
  have "unat (miner_cap (emission_for h fee)) \<noteq> 0"
    using miner_cap_unat [OF assms(1), of h] by (simp add: subsidy_split(2))
  then have "miner_cap (emission_for h fee) \<noteq> 0" by (metis unat_0)
  moreover have "em_validator (emission_for h fee) \<noteq> 0"
    by (simp add: emission_for_def validator_for_height_def emission_consts Let_def)
  ultimately show ?thesis using assms(2,3) by (auto simp: template_coinbase_def kFoundationPayout_def)
qed

lemma coinbase_read_back:
  assumes "list_all (\<lambda>out. cb_units out \<noteq> 0 \<and> cb_address out \<noteq> [] \<and> (cb_role out = ''miner'' \<longrightarrow> cb_address out = w)) outs"
  shows "coinbase_outputs w (coinbase_body shown h e cb outs) = Inr outs"
proof -
  have f: "filter (\<lambda>out. cb_units out \<noteq> 0) outs = outs"
    using assms by (induction outs) auto
  have "map_res (coinbase_output w) (map (\<lambda>out. JObject
           [(''role'', JString (cb_role out)), (''address'', JString (cb_address out)),
            (''units'', JUint (cb_units out)), (''amount'', JString (units_314st (cb_units out) h))]) outs) = Inr outs"
    using assms
    by (induction outs) (auto simp: coinbase_output_def jstring_def units_of_def juint_def)
  then show ?thesis by (simp add: coinbase_outputs_def coinbase_body_def jarray_def f)
qed


subsection \<open>The challenge\<close>

text \<open>Every challenge that is out is bound to its tip and is the lower-case text of 32 bytes.\<close>

definition chal_ok :: "challenges \<Rightarrow> bool" where
  "chal_ok ch \<longleftrightarrow> ch_inv ch \<and> list_all (\<lambda>(key, hex). from_hex hex \<noteq> None \<and> lower_hex hex = hex) (ch_outstanding ch)"

lemma lower_hex_to_hex: "is_h256 raw \<Longrightarrow> lower_hex (to_hex raw) = to_hex raw"
  using from_hex_SomeD(2) [OF from_hex_to_hex [of raw]] by simp

lemma challenge_issued:
  assumes "chal_ok ch" "is_h256 raw" "challenge_for_template (to_hex tip) merkle miner (Some raw) ch = (c, ch')"
  shows "challenge_was_issued c (to_hex tip) ch' \<and> lower_hex c = c \<and> from_hex c \<noteq> None"
proof (cases "tbl_get (ch_outstanding ch) (key_of (to_hex tip) (merkle @ ''|'' @ miner))")
  case None
  then have "c = to_hex raw" "ch' = \<lparr>ch_tips = tbl_put (ch_tips ch) c (to_hex tip),
      ch_outstanding = tbl_put (ch_outstanding ch) (key_of (to_hex tip) (merkle @ ''|'' @ miner)) c\<rparr>"
    using assms(3) by (auto simp: challenge_for_template_def key_of_def Let_def)
  then show ?thesis
    using assms(2) by (simp add: challenge_was_issued_def tbl.get_put lower_hex_to_hex)
next
  case (Some found)
  then have c: "c = found" "ch' = ch" using assms(3) by (auto simp: challenge_for_template_def key_of_def)
  have "(key_of (to_hex tip) (merkle @ ''|'' @ miner), found) \<in> set (ch_outstanding ch)"
    using Some by (auto simp: tbl_get_def dest: map_of_SomeD)
  then have h: "from_hex found \<noteq> None \<and> lower_hex found = found"
    using assms(1) by (auto simp: chal_ok_def list_all_iff)
  have inv: "ch_inv ch" using assms(1) by (simp add: chal_ok_def)
  obtain tip' rest where k: "key_of (to_hex tip) (merkle @ ''|'' @ miner) = key_of tip' rest"
    and t: "tbl_get (ch_tips ch) found = Some tip'"
    using inv Some by (elim ch_inv_outstanding)
  have "tip' = to_hex tip"
    using tip_text_cancel [of "to_hex tip" tip'] ch_inv_tip [OF inv t] k by (auto simp: key_of_def)
  with t h c show ?thesis by (simp add: challenge_was_issued_def)
qed

subsection \<open>What the miner does\<close>

definition template_challenge :: "json \<Rightarrow> string" where
  "template_challenge t =
     (case jobject t ''hw_proof'' of
        None \<Rightarrow> []
      | Some proof \<Rightarrow> (case jstring proof ''challenge'' of None \<Rightarrow> [] | Some c \<Rightarrow> c))"

text \<open>The transactions that can be spent, the hardware proof, the nonce and the hash are filled in.\<close>

definition spendable_txs :: "json \<Rightarrow> json list" where
  "spendable_txs t =
     filter (\<lambda>j. jget j ''spendable'' = Some (JBool True)) (case jarray t ''txs'' of None \<Rightarrow> [] | Some txs \<Rightarrow> txs)"

definition mined_block :: "json \<Rightarrow> string \<Rightarrow> string \<Rightarrow> h256 \<Rightarrow> u64 \<Rightarrow> h256 \<Rightarrow> json" where
  "mined_block t model serial commitment nonce digest =
     jset (jset (jset (jset t ''txs'' (JArray (spendable_txs t)))
       ''hw_proof'' (JObject [(''model'', JString model), (''serial_commitment'', JString (to_hex commitment)),
          (''challenge'', JString (template_challenge t)), (''serial'', JString serial)]))
       ''nonce'' (JUint nonce)) ''hash'' (JString (to_hex digest))"

text \<open>The commitment binds the serial to the challenge, and the digest is the proof of work.\<close>

definition binds_serial :: "env \<Rightarrow> json \<Rightarrow> string \<Rightarrow> string \<Rightarrow> h256 \<Rightarrow> bool" where
  "binds_serial ev t model serial commitment \<longleftrightarrow>
     official_pi_model model \<and> pi_serial_text serial \<and> is_h256 commitment \<and> \<not> is_zero commitment \<and>
     (case from_hex (template_challenge t) of
        None \<Rightarrow> True | Some raw \<Rightarrow> ev_sha ev (bytes_of serial @ raw) = commitment)"

definition solves :: "env \<Rightarrow> json \<Rightarrow> string \<Rightarrow> h256 \<Rightarrow> u64 \<Rightarrow> h256 \<Rightarrow> bool" where
  "solves ev t model commitment nonce digest \<longleftrightarrow>
     (case (juint t ''height'', jstring t ''prev_block_hash'', jstring t ''merkle_root'', juint t ''timestamp'',
            juint t ''difficulty'') of
        (Some height, Some prev_hex, Some root_hex, Some stamp, Some bits) \<Rightarrow>
          (case (from_hex prev_hex, from_hex root_hex) of
             (Some prev, Some root) \<Rightarrow>
               digest = (if (ucast height :: u32) \<ge> 5
                 then pihash_v2 1 prev root stamp (ucast bits) nonce model commitment
                 else pihash_v1 (ev_sha ev) 1 prev root stamp (ucast bits) nonce model commitment) \<and>
               is_h256 digest \<and> validate_block_pow digest (ucast bits)
           | _ \<Rightarrow> False)
      | _ \<Rightarrow> False)"

subsection \<open>The node that made the template\<close>

definition reprints :: "env \<Rightarrow> node \<Rightarrow> tx \<Rightarrow> bool" where
  "reprints ev nd tx \<longleftrightarrow>
     parse_tx ev (tx_to_json tx) (next_height_of (nd_st nd)) = Inr tx \<and>
     resolve_output_names (ev_sha ev) (nd_names nd) tx = tx"

definition template_ready :: "env \<Rightarrow> node \<Rightarrow> bool" where
  "template_ready ev nd \<longleftrightarrow>
     (let st = nd_st nd; txs = mined_txs (mempool_txs ev st) in
      book_ok (nd_names nd) \<and> chal_ok (nd_chal nd) \<and> is_h256 (expect_prev st) \<and>
      (if has_tip st
       then (case get_header_by_hash st (st_best_hash st) of None \<Rightarrow> False | Some p \<Rightarrow> bh_timestamp p < 2 ^ 63)
       else st_best_height st = 0 \<and> 0 < ev_now ev) \<and>
      list_all (reprints ev nd) txs \<and> unat (fee_total txs) * 60 < 2 ^ 64)"

lemma merkle_loop_h256:
  "hash_fn H \<Longrightarrow> ids \<noteq> [] \<Longrightarrow> (length ids = 1 \<Longrightarrow> is_h256 (hd ids)) \<Longrightarrow> is_h256 (hd (merkle_loop H ids))"
proof (induction H ids rule: merkle_loop.induct)
  case (1 H ids)
  show ?case
  proof (cases "length ids > 1")
    case True
    then obtain a b rest where "ids = a # b # rest" by (cases ids; cases "tl ids") auto
    then have n: "merkle_level H ids \<noteq> []" by (simp flip: length_greater_0_conv)
    moreover have "is_h256 (hd (merkle_level H ids))" using hash_fn.merkle_level_h256 [OF 1(2), of ids] hd_in_set [OF n] by blast
    ultimately have "is_h256 (hd (merkle_loop H (merkle_level H ids)))" using "1.IH" [OF True 1(2)] by simp
    with True show ?thesis by (subst merkle_loop.simps) simp
  next
    case False
    with 1 have "length ids = 1" by (cases ids) auto
    with 1 False show ?thesis by (subst merkle_loop.simps) simp
  qed
qed


subsection \<open>The stages of the check\<close>

definition mined_fields ::
  "json \<Rightarrow> json \<Rightarrow> string \<Rightarrow> u32 \<Rightarrow> h256 \<Rightarrow> h256 \<Rightarrow> u64 \<Rightarrow> u32 \<Rightarrow> string \<Rightarrow> string \<Rightarrow> h256 \<Rightarrow> u64 \<Rightarrow> h256 \<Rightarrow> json \<Rightarrow> fields" where
  "mined_fields block coinbase shown height prev root stamp bits model serial commitment nonce digest proof =
     \<lparr>sb_block = block, sb_proof = proof, sb_model = model, sb_serial = commitment, sb_height = height,
      sb_nonce = nonce, sb_timestamp = stamp, sb_difficulty = bits, sb_prev_hex = to_hex prev,
      sb_merkle_hex = to_hex root, sb_hash_hex = to_hex digest, sb_coinbase = coinbase, sb_wallet = shown\<rparr>"

lemma mined_submit_fields:
  assumes "t = template_json height prev stamp bits e coinbase cb root txs c"
    and "is_object coinbase" "jstring coinbase ''wallet'' = Some shown" "shown \<noteq> []" "length shown \<le> 256"
    and "official_pi_model model" "is_h256 commitment" "\<not> is_zero commitment"
  shows "submit_fields (mined_block t model serial commitment nonce digest) =
    Go (mined_fields (mined_block t model serial commitment nonce digest) coinbase shown height prev root stamp bits
      model serial commitment nonce digest
      (JObject [(''model'', JString model), (''serial_commitment'', JString (to_hex commitment)),
          (''challenge'', JString (template_challenge t)), (''serial'', JString serial)]))"
proof -
  let ?b = "mined_block t model serial commitment nonce digest"
  have o: "is_object t" by (simp add: assms(1) template_json_def)
  have g: "jget ?b k = (if k = ''hash'' then Some (JString (to_hex digest)) else if k = ''nonce'' then Some (JUint nonce)
      else if k = ''hw_proof'' then Some (JObject [(''model'', JString model), (''serial_commitment'', JString (to_hex commitment)),
          (''challenge'', JString (template_challenge t)), (''serial'', JString serial)])
      else if k = ''txs'' then Some (JArray (spendable_txs t)) else jget t k)" for k
    using o by (simp add: mined_block_def)
  have b: "is_object ?b" "?b \<noteq> JObject []"
    using o by (simp add: mined_block_def) (metis g jget.simps(1) map_of.simps(1) option.distinct(1))
  have p: "submit_proof ?b = Go (JObject [(''model'', JString model), (''serial_commitment'', JString (to_hex commitment)),
          (''challenge'', JString (template_challenge t)), (''serial'', JString serial)], model, commitment)"
    using assms(6-8) by (simp add: submit_proof_def jobject_def jstring_def g)
  have u: "ucast (ucast w :: u64) = w" for w :: u32 by simp
  show ?thesis
    using assms(2-5)
    by (simp add: submit_fields_def b p jobject_def jstring_def juint_def g)
      (simp add: assms(1) template_json_def mined_fields_def u)
qed

lemma spendable_txs_template:
  "t = template_json height prev stamp bits e coinbase cb root txs c \<Longrightarrow> spendable_txs t = map tx_to_json (mined_txs txs)"
proof -
  have s: "jget (tx_to_json tx) ''spendable'' = Some (JBool (tx_inputs tx \<noteq> []))" for tx by (simp add: tx_to_json_def)
  have "filter (\<lambda>j. jget j ''spendable'' = Some (JBool True)) (map tx_to_json txs) = map tx_to_json (mined_txs txs)"
    by (induction txs) (simp_all add: s mined_txs_def)
  then show "t = template_json height prev stamp bits e coinbase cb root txs c \<Longrightarrow> spendable_txs t = map tx_to_json (mined_txs txs)"
    by (simp add: spendable_txs_def template_json_def jarray_def)
qed

lemma map_res_reprints:
  "list_all (\<lambda>tx. f (tx_to_json tx) = Inr tx) txs \<Longrightarrow> map_res f (map tx_to_json txs) = Inr txs"
  by (induction txs) simp_all


lemma template_stamp_ok:
  assumes "template_stamp now st = Some stamp" "unat now + 120 < 2 ^ 64"
    "if has_tip st then (case get_header_by_hash st (st_best_hash st) of None \<Rightarrow> False | Some p \<Rightarrow> bh_timestamp p < 2 ^ 63)
     else 0 < now"
  obtains parent where "parent_time st = Some parent" "parent < stamp" "unat stamp \<le> unat now + 120"
proof (cases "has_tip st")
  case False
  then have "stamp = now" using assms(1) by (simp add: template_stamp_def)
  with False assms(3) show thesis by (intro that [of 0]) (auto simp: parent_time_def)
next
  case True
  with assms(3) obtain p where p: "get_header_by_hash st (st_best_hash st) = Some p" "bh_timestamp p < 2 ^ 63"
    by (auto split: option.splits)
  have n: "unat (bh_timestamp p + 1) = Suc (unat (bh_timestamp p))"
    using p(2) by (simp add: unat_word_ariths word_less_nat_alt)
  have m: "unat (now + 120) = unat now + 120" using assms(2) by (simp add: unat_word_ariths)
  have "template_stamp now st = (if now \<le> bh_timestamp p
      then if bh_timestamp p + 1 > now + 120 then None else Some (bh_timestamp p + 1) else Some now)"
    using True p by (simp add: template_stamp_def expect_prev_def Let_def)
  then have "bh_timestamp p < stamp \<and> unat stamp \<le> unat now + 120"
    using assms(1) n m by (auto simp: word_less_nat_alt word_le_nat_alt split: if_splits)
  with True p show thesis by (intro that [of "bh_timestamp p"]) (simp_all add: parent_time_def)
qed

lemma template_shape:
  assumes "rpc_getblocktemplate ev rnd params nd = (Tpl_Block t, nd')"
  obtains shown payout validator stamp c ch w e cb_outs cb root where
    "resolve_miner (nd_names nd) w = Inr (shown, payout)" "is_ps1_payout validator"
    "template_stamp (ev_now ev) (nd_st nd) = Some stamp"
    "e = emission_for (st_best_height (nd_st nd) + 1) (fee_total (mined_txs (mempool_txs ev (nd_st nd))))"
    "cb_outs = template_coinbase payout validator e"
    "cb = coinbase_from (ev_sha ev) (st_best_height (nd_st nd) + 1) cb_outs"
    "root = merkle_root (ev_sha ev) (tx_txid cb # map tx_txid (mined_txs (mempool_txs ev (nd_st nd))))"
    "t = template_json (st_best_height (nd_st nd) + 1) (expect_prev (nd_st nd)) stamp (next_difficulty (nd_st nd)) e
       (coinbase_body shown (st_best_height (nd_st nd) + 1) e cb cb_outs) cb root (mempool_txs ev (nd_st nd)) c"
    "(c, ch) = (if st_best_height (nd_st nd) + 1 \<ge> 4
       then challenge_for_template (to_hex (expect_prev (nd_st nd))) (to_hex root) payout rnd (nd_chal nd) else ([], nd_chal nd))"
    "nd' = nd\<lparr>nd_template := ev_now ev, nd_chal := ch\<rparr>"
proof -
  define nd1 where "nd1 = rpc_note_template_request ev nd"
  have s: "nd_st nd1 = nd_st nd" "nd_names nd1 = nd_names nd" "nd_chal nd1 = nd_chal nd"
    by (simp_all add: nd1_def rpc_note_template_request_def)
  obtain shown payout validator where r: "resolve_miner (nd_names nd) (wallet_from_params (ev_parse ev) params) = Inr (shown, payout)"
    and v: "template_validator ev (nd_names nd) params = Inr validator"
    and b: "template_block ev rnd shown payout validator nd1 = (Tpl_Block t, nd')"
    using assms by (auto simp: rpc_getblocktemplate_def Let_def s [unfolded nd1_def] nd1_def split: sum.splits)
  let ?h = "st_best_height (nd_st nd) + 1"
  let ?txs = "mempool_txs ev (nd_st nd)"
  let ?e = "emission_for ?h (fee_total (mined_txs ?txs))"
  let ?outs = "template_coinbase payout validator ?e"
  let ?cb = "coinbase_from (ev_sha ev) ?h ?outs"
  let ?root = "merkle_root (ev_sha ev) (tx_txid ?cb # map tx_txid (mined_txs ?txs))"
  let ?ch = "if ?h \<ge> 4 then challenge_for_template (to_hex (expect_prev (nd_st nd))) (to_hex ?root) payout rnd (nd_chal nd)
    else ([], nd_chal nd)"
  obtain stamp where st: "template_stamp (ev_now ev) (nd_st nd) = Some stamp"
    using b by (auto simp: template_block_def s Let_def split: option.splits)
  obtain c ch where ch: "?ch = (c, ch)" by fastforce
  have "t = template_json ?h (expect_prev (nd_st nd)) stamp (next_difficulty (nd_st nd)) ?e
       (coinbase_body shown ?h ?e ?cb ?outs) ?cb ?root ?txs c \<and> nd' = nd1\<lparr>nd_chal := ch\<rparr>"
    using b unfolding template_block_def s Let_def st option.case ch prod.case by simp
  then show thesis
    using ch by (intro that [OF r template_validator_ps1 [OF v] st refl refl refl refl, of c ch])
      (simp_all add: nd1_def rpc_note_template_request_def)
qed


lemma template_head:
  fixes ev nd later commitment nonce digest model serial
  defines "ev' \<equiv> ev\<lparr>ev_now := later\<rparr>" and "st \<equiv> nd_st nd"
  assumes tpl: "rpc_getblocktemplate ev rnd params nd = (Tpl_Block t, nd')"
    and ready: "template_ready ev nd" and rnd: "rnd = Some raw" "is_h256 raw" and sha: "hash_fn (ev_sha ev)"
    and time: "ev_now ev \<le> later" "unat later + 120 < 2 ^ 64"
    and binds: "binds_serial ev t model serial commitment" and solves: "solves ev t model commitment nonce digest"
  obtains h root where "submit_head ev' nd' True (mined_block t model serial commitment nonce digest) = Go h"
    "submit_work ev' (bk_fields h) (bk_prev h) (bk_cb h # bk_txs h) = Go (root, digest)"
    "bk_txs h = mined_txs (mempool_txs ev st)" "sb_height (bk_fields h) = next_height_of st"
proof -
  let ?b = "mined_block t model serial commitment nonce digest"
  let ?txs = "mined_txs (mempool_txs ev st)"
  define height where "height = next_height_of st"
  have R: "book_ok (nd_names nd)" "chal_ok (nd_chal nd)" "is_h256 (expect_prev st)"
    "list_all (reprints ev nd) ?txs" "unat (fee_total ?txs) * 60 < 2 ^ 64"
    and tip: "if has_tip st then (case get_header_by_hash st (st_best_hash st) of None \<Rightarrow> False | Some p \<Rightarrow> bh_timestamp p < 2 ^ 63)
       else 0 < ev_now ev" and tip0: "\<not> has_tip st \<Longrightarrow> st_best_height st = 0"
    using ready by (auto simp: template_ready_def Let_def st_def split: if_splits)
  have H: "st_best_height st + 1 = height" using tip0 by (simp add: height_def next_height_of_def)
  obtain shown payout validator stamp c ch w e cb_outs cb root where
    rm: "resolve_miner (nd_names nd) w = Inr (shown, payout)" and v: "is_ps1_payout validator"
    and stamp: "template_stamp (ev_now ev) st = Some stamp"
    and e: "e = emission_for height (fee_total ?txs)" and outs: "cb_outs = template_coinbase payout validator e"
    and cb: "cb = coinbase_from (ev_sha ev) height cb_outs" and root: "root = merkle_root (ev_sha ev) (tx_txid cb # map tx_txid ?txs)"
    and t: "t = template_json height (expect_prev st) stamp (next_difficulty st) e (coinbase_body shown height e cb cb_outs) cb root
       (mempool_txs ev st) c"
    and ch: "(c, ch) = (if height \<ge> 4
       then challenge_for_template (to_hex (expect_prev st)) (to_hex root) payout rnd (nd_chal nd) else ([], nd_chal nd))"
    and nd': "nd' = nd\<lparr>nd_template := ev_now ev, nd_chal := ch\<rparr>"
    by (rule template_shape [OF tpl, folded st_def, unfolded H]) (rule that; assumption)
  note again = resolve_miner_again [OF R(1) rm]
  have B: "official_pi_model model" "pi_serial_text serial" "is_h256 commitment" "\<not> is_zero commitment"
    using binds by (simp_all add: binds_serial_def)
  let ?proof = "JObject [(''model'', JString model), (''serial_commitment'', JString (to_hex commitment)),
          (''challenge'', JString (template_challenge t)), (''serial'', JString serial)]"
  define f where "f = mined_fields ?b (coinbase_body shown height e cb cb_outs) shown height (expect_prev st) root stamp (next_difficulty st)
      model serial commitment nonce digest ?proof"
  have f: "submit_fields ?b = Go f"
    unfolding f_def by (rule mined_submit_fields [OF t _ _ again(2,3) B(1,3,4)]) (simp_all add: coinbase_body_def jstring_def)
  note f_sel = f_def mined_fields_def
  have miner: "submit_miner (nd_names nd') f True = Go (shown, payout)"
    using again(1) by (simp add: submit_miner_def nd' f_sel)
  have idc: "is_h256 (tx_txid cb)" using hash_fn.H_length [OF sha] by (simp add: cb coinbase_from_def txid_of_def Let_def)
  have rooth: "is_h256 root" using merkle_loop_h256 [OF sha, of "tx_txid cb # map tx_txid ?txs"] idc
    by (simp add: root merkle_root_def)
  have chal: "\<exists>serial_text. submit_challenge ev' (nd_chal nd') f (expect_prev st) True = Go (if height \<ge> 4 then c else [], serial_text)"
  proof (cases "height \<ge> 4")
    case False
    then show ?thesis by (simp add: submit_challenge_def f_sel)
  next
    case True
    then have i: "challenge_was_issued c (to_hex (expect_prev st)) ch" "lower_hex c = c" "from_hex c \<noteq> None"
      using challenge_issued [OF R(2) rnd(2)] ch rnd(1) by (metis (no_types, lifting))+
    then obtain raw' where r: "from_hex c = Some raw'" by blast
    have tc: "template_challenge t = c" using True by (simp add: template_challenge_def t template_json_def jobject_def template_proof_def jstring_def)
    have "ev_sha ev (bytes_of serial @ raw') = commitment" using binds r by (simp add: binds_serial_def tc)
    moreover have "c \<noteq> []" using r by (auto simp: from_hex_def from_hex_into_def)
    ultimately show ?thesis
      using True i r B(2) tc by (simp add: submit_challenge_def f_sel jstring_def nd' ev'_def)
  qed
  obtain parent where parent: "parent_time st = Some parent" "parent < stamp" "unat stamp \<le> unat (ev_now ev) + 120"
    using template_stamp_ok [OF stamp _ tip] time by (auto simp: word_le_nat_alt)
  have "stamp \<le> later + 120"
    using parent(3) time by (simp add: word_le_nat_alt unat_word_ariths)
  moreover have "value_u32 ev' (coinbase_body shown height e cb cb_outs) ''height'' 0 = Some height"
    by (simp add: value_u32_def coinbase_body_def)
  ultimately have link: "\<exists>cs. submit_link ev' nd' f True = Go (expect_prev st, cs)"
    using chal parent R(3) by (auto simp: submit_link_def f_sel nd' st_def [symmetric] height_def [symmetric] ev'_def Let_def)
  have parses: "map_res (\<lambda>txj. parse_tx ev' txj height) (map tx_to_json ?txs) = Inr ?txs"
  proof (rule map_res_reprints)
    have d: "dump_size ev' = dump_size ev" "ev_sha ev' = ev_sha ev" by (simp_all add: ev'_def dump_size_def fun_eq_iff)
    show "list_all (\<lambda>tx. parse_tx ev' (tx_to_json tx) height = Inr tx) ?txs"
      using R(4) by (simp add: list_all_iff reprints_def d height_def st_def)
  qed
  have same: "map (resolve_output_names (ev_sha ev) (nd_names nd)) ?txs = ?txs"
    using R(4) by (intro map_idI) (simp add: list_all_iff reprints_def)
  have tx: "submit_txs ev' (nd_names nd') f = Go ?txs"
  proof -
    have "jget ?b ''txs'' = Some (JArray (map tx_to_json ?txs))"
      by (simp add: mined_block_def t spendable_txs_template [OF refl]) (simp add: template_json_def)
    then show ?thesis using parses same by (simp add: submit_txs_def f_sel) (simp add: ev'_def nd')
  qed
  have cbo: "submit_coinbase ev' f payout ?txs = Go (cb_outs, cb)"
  proof -
    have ne: "payout \<noteq> []" "validator \<noteq> []" using again(4) v by (auto simp: is_ps1_payout_def)
    have l: "list_all (\<lambda>out. cb_units out \<noteq> 0 \<and> cb_address out \<noteq> [] \<and> (cb_role out = ''miner'' \<longrightarrow> cb_address out = payout)) cb_outs"
      unfolding outs e by (rule template_coinbase_listed [OF R(5) ne])
    have "cb_outs \<noteq> []" by (simp add: outs template_coinbase_def)
    then have "tx_outputs cb \<noteq> []" using l by (cases cb_outs) (auto simp: cb coinbase_from_def Let_def)
    moreover have "jstring (coinbase_body shown height e cb cb_outs) ''txid'' = Some (to_hex (tx_txid cb))"
      by (simp add: coinbase_body_def jstring_def)
    ultimately show ?thesis
      using coinbase_read_back [OF l, of shown height e cb] template_coinbase_checked [OF R(5) v, of height payout]
      by (simp add: submit_coinbase_def f_sel Let_def outs e cb ev'_def)
  qed
  from link obtain c2 s2 where link: "submit_link ev' nd' f True = Go (expect_prev st, c2, s2)" by auto
  define h where "h = \<lparr>bk_fields = f, bk_wallet = shown, bk_prev = expect_prev st, bk_challenge = c2,
     bk_serial_text = s2, bk_txs = ?txs, bk_outs = cb_outs, bk_cb = cb\<rparr>"
  have head: "submit_head ev' nd' True ?b = Go h" using f miner link tx cbo by (simp add: submit_head_def h_def)
  have u: "ucast (ucast x :: u64) = x" for x :: u32 by simp
  have "solves ev t model commitment nonce digest \<longleftrightarrow>
      digest = block_digest ev' f (expect_prev st) root \<and> is_h256 digest \<and> validate_block_pow digest (next_difficulty st)"
    using R(3) rooth by (simp add: solves_def t template_json_def juint_def jstring_def block_digest_def f_sel ev'_def u)
  with solves have S: "digest = block_digest ev' f (expect_prev st) root" "is_h256 digest" "validate_block_pow digest (next_difficulty st)"
    by blast+
  have ids: "merkle_root (ev_sha ev') (map tx_txid (cb # ?txs)) = root" by (simp add: root ev'_def)
  have "jobject ?b ''pihash'' = Some (template_pihash height)"
    by (simp add: jobject_def mined_block_def t) (simp add: template_json_def template_pihash_def)
  then have "height < 5 \<or> (case jobject (sb_block f) ''pihash'' of
                     Some p \<Rightarrow> jstring p ''algorithm'' = Some ''pihash2'' | None \<Rightarrow> False)"
    by (simp add: f_sel template_pihash_def jstring_def not_le)
  then have "submit_work ev' f (expect_prev st) (cb # ?txs) = Go (root, digest)"
    using S(1) [symmetric] S(2,3) rooth unfolding submit_work_def ids Let_def by (simp add: f_sel)
  then show thesis by (intro that [OF head]) (simp_all add: h_def f_sel height_def)
qed


subsection \<open>Property\<close>



definition tpl_env :: env where
  "tpl_env = grab_env\<lparr>ev_now := 100\<rparr>"

definition tpl_json :: json where
  "tpl_json =
     (let e = emission_for 1 0; outs = template_coinbase kFoundationPayout kFoundationPayout e;
          cb = coinbase_from (\<lambda>_. digest7) 1 outs in
      template_json 1 zero256 100 4 e (coinbase_body kFoundationPayout 1 e cb outs) cb digest7 [] [])"

lemma tpl_made:
  "rpc_getblocktemplate tpl_env (Some digest7) (JArray [JString kFoundationPayout]) demo_node =
     (Tpl_Block tpl_json, demo_node\<lparr>nd_template := 100\<rparr>)"
proof -
  have w: "wallet_ps1 kFoundationPayout = Some kFoundationPayout"
    by (simp add: wallet_ps1_def kFoundationPayout_def is_long_address_def lower_ascii_def lower_hex_map lower_hex_char_def
        in_range_def Let_def)
  have len: "length kFoundationPayout = 67" "kFoundationPayout \<noteq> []" by (simp_all add: kFoundationPayout_def)
  have r: "resolve_miner [] kFoundationPayout = Inr (kFoundationPayout, kFoundationPayout)"
    using len by (simp add: resolve_miner_def w)
  have v: "template_validator tpl_env [] (JArray [JString kFoundationPayout]) = Inr kFoundationPayout"
    by (simp add: template_validator_def as_object_param_def tpl_env_def grab_env_def)
  have m: "mempool_txs tpl_env (nd_st demo_node) = []"
    by (simp add: mempool_txs_def demo_node_def storage_new_def get_mempool_transactions_def order_txs_def order_loop.simps
        List.map_filter_def)
  have s: "template_stamp 100 (nd_st demo_node) = Some 100" by (simp add: template_stamp_def demo_node_tip)
  have sha: "ev_sha tpl_env = (\<lambda>_. digest7)" "ev_now tpl_env = 100" by (simp_all add: tpl_env_def grab_env_def digest7_def)
  have n: "nd_st (demo_node\<lparr>nd_template := 100\<rparr>) = nd_st demo_node" "nd_chal (demo_node\<lparr>nd_template := 100\<rparr>) = nd_chal demo_node"
    "nd_names (demo_node\<lparr>nd_template := 100\<rparr>) = []" "demo_node\<lparr>nd_template := 100, nd_chal := nd_chal demo_node\<rparr> = demo_node\<lparr>nd_template := 100\<rparr>"
    by (simp_all add: demo_node_def)
  have id: "tx_txid (coinbase_from (\<lambda>_. digest7) 1 outs) = digest7" for outs
    by (simp add: coinbase_from_def txid_of_def Let_def)
  have root: "merkle_root (\<lambda>_. digest7) [digest7] = digest7"
    by (simp add: merkle_root_def merkle_loop.simps)
  have four: "\<not> (4 :: u32) \<le> 1" by (simp add: word_le_nat_alt)
  have "template_block tpl_env (Some digest7) kFoundationPayout kFoundationPayout kFoundationPayout (demo_node\<lparr>nd_template := 100\<rparr>) =
      (Tpl_Block tpl_json, demo_node\<lparr>nd_template := 100\<rparr>)"
    unfolding template_block_def n sha Let_def m s demo_node_tip
    by (simp add: mined_txs_def fee_total_def id root four n tpl_json_def Let_def)
  then show ?thesis
    by (simp add: rpc_getblocktemplate_def rpc_note_template_request_def sha wallet_from_params_def n r v Let_def)
qed

lemma tpl_node_ready: "template_ready tpl_env demo_node"
  by (simp add: template_ready_def Let_def demo_node_tip) (simp add: demo_node_def book_ok_def chal_ok_def ch_inv_def
    no_challenges_def tbl_get_def mempool_txs_def storage_new_def get_mempool_transactions_def order_txs_def order_loop.simps
    List.map_filter_def mined_txs_def fee_total_def is_h256_def zero256_def tpl_env_def)



end
