(* ===== verification/Queries.thy ===== *)
theory Queries
  imports Mempool Storage_Utxo
begin

text \<open>
  The queries of the daemon that change no ledger state (chain_rpc.cpp): headers and blocks, coins of
  an address, names, flags and the mempool. An exception is \<open>None\<close>. Queries that read names.json first
  return the name book as well. \<open>exists\<close> tells whether a wallet file is there.
\<close>

subsection \<open>Headers and blocks\<close>

text \<open>\<open>std::stoul\<close> in base ten: leading blanks, a sign, and digits up to the first other character.\<close>

definition is_blank :: "char \<Rightarrow> bool" where
  "is_blank c \<longleftrightarrow> c = CHR '' '' \<or> in_range c (CHR 0x09) (CHR 0x0D)"

definition stoul :: "string \<Rightarrow> u64 option" where
  "stoul text =
     (let s = dropWhile is_blank text;
          neg = (s \<noteq> [] \<and> s ! 0 = CHR ''-'');
          d = (if s \<noteq> [] \<and> (s ! 0 = CHR ''-'' \<or> s ! 0 = CHR ''+'') then drop 1 s else s);
          digits = takeWhile (\<lambda>c. in_range c CHR ''0'' CHR ''9'') d in
      if digits = [] \<or> dec_val digits \<ge> 2 ^ 64 then None
      else Some (if neg then - of_nat (dec_val digits) else of_nat (dec_val digits)))"

definition header_key :: "json \<Rightarrow> json option" where
  "header_key params =
     (case (case params of JArray [] \<Rightarrow> None | JArray (p # _) \<Rightarrow> Some p | _ \<Rightarrow> Some params) of
        None \<Rightarrow> None
      | Some key \<Rightarrow>
          (case jget key ''height'' of
             Some h \<Rightarrow> Some h
           | None \<Rightarrow> (case jget key ''hash'' of Some h \<Rightarrow> Some h | None \<Rightarrow> Some key)))"

definition find_header :: "storage \<Rightarrow> json \<Rightarrow> block_header option" where
  "find_header st params =
     (case header_key params of
        Some (JUint n) \<Rightarrow> get_header_by_height st (ucast n)
      | Some (JString text) \<Rightarrow>
          if length text = 64
          then (case from_hex text of None \<Rightarrow> None | Some h \<Rightarrow> get_header_by_hash st h)
          else (case stoul text of None \<Rightarrow> None | Some n \<Rightarrow> get_header_by_height st (ucast n))
      | _ \<Rightarrow> None)"

definition header_json :: "block_header \<Rightarrow> json" where
  "header_json h =
     JObject [(''hash'', JString (to_hex (bh_hash h))), (''height'', JUint (ucast (bh_height h))),
       (''version'', JUint (ucast (bh_version h))), (''prev_block_hash'', JString (to_hex (bh_prev h))),
       (''merkle_root'', JString (to_hex (bh_merkle h))), (''timestamp'', JUint (bh_timestamp h)),
       (''difficulty'', JUint (ucast (bh_difficulty h))), (''nonce'', JUint (bh_nonce h))]"

text \<open>Assigning to a member of something that is neither an object nor null throws, and is caught.\<close>

definition rpc_getblock :: "env \<Rightarrow> storage \<Rightarrow> json \<Rightarrow> json option" where
  "rpc_getblock ev st params =
     (case find_header st params of
        None \<Rightarrow> None
      | Some h \<Rightarrow>
          Some (case (case block_index st (bh_hash h) of None \<Rightarrow> None | Some i \<Rightarrow> read_block st i) of
                  None \<Rightarrow> header_json h
                | Some raw \<Rightarrow>
                    (let marked = (\<lambda>obj. jset (jset obj ''hash'' (JString (to_hex (bh_hash h))))
                                           ''height'' (JUint (ucast (bh_height h)))) in
                     case ev_parse ev (string_of raw) of
                       Some (JObject kvs) \<Rightarrow> marked (JObject kvs)
                     | Some JNull \<Rightarrow> marked (JObject [])
                     | _ \<Rightarrow> header_json h)))"

definition rpc_getheader :: "storage \<Rightarrow> json \<Rightarrow> json option" where
  "rpc_getheader st params = map_option header_json (find_header st params)"

subsection \<open>Coins of an address\<close>

definition unspent_query :: "env \<Rightarrow> json \<Rightarrow> string" where
  "unspent_query ev params =
     (case params of
        JArray (JString s # _) \<Rightarrow> s
      | JString s \<Rightarrow> s
      | _ \<Rightarrow>
          let obj = as_object_param (ev_parse ev) params in
          (case jstring obj ''address'' of
             Some a \<Rightarrow> a
           | None \<Rightarrow> (case jstring obj ''name'' of Some n \<Rightarrow> n | None \<Rightarrow> [])))"

text \<open>Address and shown name of a query: a bound name, a ps1 address in any case, or the text itself.\<close>

definition unspent_address :: "book \<Rightarrow> string \<Rightarrow> string \<times> string" where
  "unspent_address g query =
     (case lookup_name g query of
        Some (resolved, shown, _) \<Rightarrow> (resolved, shown)
      | None \<Rightarrow>
          (case wallet_ps1 query of
             None \<Rightarrow> (query, [])
           | Some ps1 \<Rightarrow> (ps1, case lookup_ps1 g ps1 of Some (shown, _) \<Rightarrow> shown | None \<Rightarrow> [])))"

definition unspent_row :: "utxo_entry \<Rightarrow> u64 \<Rightarrow> json" where
  "unspent_row row pi =
     JObject [(''txid'', JString (ue_txid_hex row)), (''vout'', JUint (ucast (ue_vout row))),
       (''units'', JUint (ue_units row)), (''pi'', JUint pi), (''height'', JUint (ucast (ue_height row))),
       (''address'', JString (ue_address row)), (''amount'', JString (format_314st_pi pi))]"

text \<open>A coin that is not representable, or would wrap the sum, is left out.\<close>

fun unspent_rows :: "utxo_entry list \<Rightarrow> u64 \<Rightarrow> u64 \<Rightarrow> (utxo_entry \<times> u64) list \<times> u64 \<times> u64" where
  "unspent_rows [] units total_pi = ([], units, total_pi)"
| "unspent_rows (row # rows) units total_pi =
     (case stored_to_pi (ue_units row) (ue_height row) of
        None \<Rightarrow> unspent_rows rows units total_pi
      | Some pi \<Rightarrow>
          if total_pi > U64_MAX - pi then unspent_rows rows units total_pi
          else (case unspent_rows rows (units + ue_units row) (total_pi + pi) of
                  (shown, t, tp) \<Rightarrow> ((row, pi) # shown, t, tp)))"

definition rpc_listunspent :: "env \<Rightarrow> json \<Rightarrow> node \<Rightarrow> json \<times> node" where
  "rpc_listunspent ev params nd =
     (let query = unspent_query ev params;
          g = load_names_file (ev_names_file ev) (nd_names nd);
          (address, shown) = unspent_address g query;
          (rows, units, total_pi) = unspent_rows (list_utxos (nd_st nd) address) 0 0 in
      (JObject ([(''address'', JString address), (''units'', JUint units), (''pi'', JUint total_pi),
           (''amount'', JString (format_314st_pi total_pi)),
           (''utxos'', JArray (map (\<lambda>(row, pi). unspent_row row pi) rows))] @
          (if shown \<noteq> [] then [(''name'', JString shown)] else []) @
          (if query \<noteq> [] \<and> query \<noteq> address then [(''query'', JString query)] else [])),
       nd\<lparr>nd_names := g\<rparr>))"

subsection \<open>Names\<close>

definition normalize_ps1 :: "string \<Rightarrow> string option" where
  "normalize_ps1 text =
     (if length text \<noteq> 67 then None
      else if is_long_address (lower_ascii text) then Some (lower_ascii text) else None)"

definition not_found :: json where
  "not_found = JObject [(''found'', JBool False)]"

definition wallet_exists :: "(string \<Rightarrow> bool) \<Rightarrow> string \<Rightarrow> bool" where
  "wallet_exists exists name \<longleftrightarrow> address_filename name \<and> exists name"

definition ps1_hit :: "(string \<Rightarrow> bool) \<Rightarrow> book \<Rightarrow> string option \<Rightarrow> json" where
  "ps1_hit exists g ps1 =
     (case ps1 of
        None \<Rightarrow> not_found
      | Some a \<Rightarrow>
          let names = map nm_name (filter (\<lambda>rec. nm_address rec = a) g) in
          if \<not> wallet_exists exists a \<and> names = [] then not_found
          else JObject [(''found'', JBool True), (''address'', JString a), (''names'', JArray (map JString names))])"

definition lookup_query :: "env \<Rightarrow> json \<Rightarrow> string \<times> string" where
  "lookup_query ev params =
     (let obj = as_object_param (ev_parse ev) params in
      if is_object obj
      then (case jstring obj ''name'' of
              Some n \<Rightarrow> (n, [])
            | None \<Rightarrow> (case jstring obj ''address'' of Some a \<Rightarrow> ([], a) | None \<Rightarrow> ([], [])))
      else (case params of JString s \<Rightarrow> (s, []) | _ \<Rightarrow> ([], [])))"

definition name_hit :: "string \<Rightarrow> string \<Rightarrow> json" where
  "name_hit name address =
     JObject [(''found'', JBool True), (''name'', JString name), (''address'', JString address),
       (''reserved'', JBool (is_reserved_name name))]"

definition namelookup :: "(string \<Rightarrow> bool) \<Rightarrow> book \<Rightarrow> string \<Rightarrow> string \<Rightarrow> json" where
  "namelookup exists g by_name by_address =
     (if by_address \<noteq> [] then ps1_hit exists g (normalize_ps1 by_address)
      else if by_name = [] then not_found
      else if normalize_ps1 by_name \<noteq> None then ps1_hit exists g (normalize_ps1 by_name)
      else case lookup_name g by_name of
          Some (address, shown, _) \<Rightarrow> name_hit shown address
        | None \<Rightarrow>
            if wallet_exists exists by_name then name_hit by_name by_name
            else if fold_name by_name \<noteq> by_name \<and> wallet_exists exists (fold_name by_name)
            then name_hit (fold_name by_name) (fold_name by_name)
            else not_found)"

definition rpc_namelookup :: "env \<Rightarrow> (string \<Rightarrow> bool) \<Rightarrow> json \<Rightarrow> node \<Rightarrow> json \<times> node" where
  "rpc_namelookup ev exists params nd =
     (let g = load_names_file (ev_names_file ev) (nd_names nd); (by_name, by_address) = lookup_query ev params in
      (namelookup exists g by_name by_address, nd\<lparr>nd_names := g\<rparr>))"

definition rpc_name_snapshot :: "env \<Rightarrow> node \<Rightarrow> json \<times> node" where
  "rpc_name_snapshot ev nd =
     (let g = load_names_file (ev_names_file ev) (nd_names nd) in
      (name_snapshot_unlocked g, nd\<lparr>nd_names := g\<rparr>))"

subsection \<open>Flags and mempool\<close>

definition send_typed :: "string \<Rightarrow> env \<Rightarrow> json \<Rightarrow> node \<Rightarrow> (h256 res \<times> node) option" where
  "send_typed wanted ev params nd =
     (let obj = as_object_param (ev_parse ev) params in
      if \<not> is_object obj then Some (Inl (TxErr Malformed_Tx), nd)
      else case value_string obj ''type'' [] of
          None \<Rightarrow> None
        | Some t \<Rightarrow>
            if t \<noteq> wanted then Some (Inl (TxErr Malformed_Tx), nd) else Some (rpc_sendtransaction ev obj nd))"

definition rpc_createflag :: "env \<Rightarrow> json \<Rightarrow> node \<Rightarrow> (h256 res \<times> node) option" where
  "rpc_createflag = send_typed ''createflag''"

definition rpc_claimflag :: "env \<Rightarrow> json \<Rightarrow> node \<Rightarrow> (h256 res \<times> node) option" where
  "rpc_claimflag = send_typed ''claimflag''"

definition flag_summary :: "flag \<Rightarrow> (string \<times> json) list" where
  "flag_summary f =
     [(''flag_id'', JString (fl_id f)), (''max_claims'', JUint (ucast (fl_max_claims f))),
      (''claim_count'', JUint (of_nat (length (fl_claimants f)))), (''expires_height'', JUint (ucast (fl_expires_height f))),
      (''bounty_units'', JUint (fl_bounty_units f)), (''note'', JString (fl_note f))]"

definition rpc_listflags :: "env \<Rightarrow> flag list \<Rightarrow> json \<Rightarrow> json" where
  "rpc_listflags ev flags params =
     (let obj = as_object_param (ev_parse ev) params in
      case jstring obj ''flag_id'' of
        Some i \<Rightarrow>
          (case flag_find flags i of
             None \<Rightarrow> not_found
           | Some f \<Rightarrow>
               JObject (flag_summary f @
                 [(''found'', JBool True), (''commitment'', JString (fl_commitment f)),
                  (''awards_pubkey'', JString (fl_awards_pubkey f)), (''escrow'', JUint (fl_escrow f)),
                  (''claimants'', JArray (map JString (fl_claimants f)))]))
      | None \<Rightarrow>
          (case jstring obj ''address'' of
             Some a \<Rightarrow> JObject [(''flag_ids'', JArray (map JString (claimed_by flags a)))]
           | None \<Rightarrow> JObject [(''flags'', JArray (map (\<lambda>f. JObject (flag_summary f)) flags))]))"

definition rpc_getmempool :: "env \<Rightarrow> storage \<Rightarrow> json" where
  "rpc_getmempool ev st =
     (let items = map tx_to_json (mempool_txs ev st) in
      JObject [(''count'', JUint (of_nat (length items))),
        (''bytes'', JUint (fold (\<lambda>item b. b + (case juint item ''size'' of Some n \<Rightarrow> n | None \<Rightarrow> 0)) items 0)),
        (''transactions'', JArray items)])"

subsection \<open>The sums of a listing\<close>

lemma stored_to_pi_ge: "stored_to_pi units h = Some pi \<Longrightarrow> unat units \<le> unat pi"
  by (auto simp: stored_to_pi_Some_iff split: if_splits)

lemma unspent_rows_sums:
  assumes "unspent_rows rows units total_pi = (shown, t, tp)" "units \<le> total_pi"
  shows "unat tp = unat total_pi + (\<Sum>(row, pi) \<leftarrow> shown. unat pi) \<and>
    unat t = unat units + (\<Sum>(row, pi) \<leftarrow> shown. unat (ue_units row)) \<and>
    list_all (\<lambda>(row, pi). row \<in> set rows \<and> stored_to_pi (ue_units row) (ue_height row) = Some pi) shown"
  using assms
proof (induction rows arbitrary: units total_pi shown)
  case (Cons row rows)
  show ?case
  proof (cases "stored_to_pi (ue_units row) (ue_height row)")
    case None
    with Cons.prems Cons.IH [of units total_pi shown] show ?thesis by (auto simp: list_all_iff)
  next
    case (Some pi)
    show ?thesis
    proof (cases "total_pi > U64_MAX - pi")
      case True
      with Some Cons.prems Cons.IH [of units total_pi shown] show ?thesis by (auto simp: list_all_iff)
    next
      case False
      then obtain rest where rest: "unspent_rows rows (units + ue_units row) (total_pi + pi) = (rest, t, tp)"
        and shown: "shown = (row, pi) # rest"
        using Some Cons.prems by (auto split: prod.splits)
      have pi_sum: "unat (total_pi + pi) = unat total_pi + unat pi" using False by (rule no_add_overflow)
      then have "unat total_pi + unat pi < 2 ^ 64" using unat_u64_less [of "total_pi + pi"] by simp
      moreover have "unat units + unat (ue_units row) \<le> unat total_pi + unat pi"
        using Cons.prems(2) stored_to_pi_ge [OF Some] by (simp add: word_le_nat_alt)
      ultimately have u: "unat (total_pi + pi) = unat total_pi + unat pi"
        "unat (units + ue_units row) = unat units + unat (ue_units row)"
        "units + ue_units row \<le> total_pi + pi"
        by (simp_all add: unat_word_ariths word_le_nat_alt)
      from Cons.IH [OF rest u(3)] Some shown u(1,2) show ?thesis by (auto simp: list_all_iff)
    qed
  qed
qed simp

lemma unspent_rows_all:
  assumes "list_all (\<lambda>row. stored_to_pi (ue_units row) (ue_height row) \<noteq> None) rows"
    "unat total_pi + (\<Sum>row \<leftarrow> rows. unat (the (stored_to_pi (ue_units row) (ue_height row)))) < 2 ^ 64"
  shows "map fst (fst (unspent_rows rows units total_pi)) = rows"
  using assms
proof (induction rows arbitrary: units total_pi)
  case (Cons row rows)
  then obtain pi where pi: "stored_to_pi (ue_units row) (ue_height row) = Some pi" by auto
  have lt: "unat total_pi + unat pi < 2 ^ 64" using Cons.prems(2) pi by simp
  then have "\<not> total_pi > U64_MAX - pi" using add_overflow [of pi total_pi] by auto
  moreover have "unat (total_pi + pi) = unat total_pi + unat pi" using lt by (simp add: unat_word_ariths)
  ultimately have "map fst (fst (unspent_rows rows (units + ue_units row) (total_pi + pi))) = rows"
    using Cons.prems pi by (intro Cons.IH) simp_all
  with \<open>\<not> total_pi > U64_MAX - pi\<close> pi show ?case by (auto split: prod.split)
qed simp


subsection \<open>Property\<close>

text \<open>What \<open>listunspent\<close> reports adds up. The totals never wrap: they are the exact sums of the listed
  coins, each of which is in the UTXO set, pays the address and is shown with its worth in pi; and when all
  coins of the address together are worth less than 2^64 pi, none is left out.\<close>

theorem listunspent_adds_up:
  assumes "unspent_rows (list_utxos st address) 0 0 = (shown, units, total_pi)"
  shows "unat total_pi = (\<Sum>(row, pi) \<leftarrow> shown. unat pi) \<and>
    unat units = (\<Sum>(row, pi) \<leftarrow> shown. unat (ue_units row)) \<and>
    list_all (\<lambda>(row, pi). row \<in> set (list_utxos st address) \<and> stored_to_pi (ue_units row) (ue_height row) = Some pi) shown \<and>
    (list_all (\<lambda>row. stored_to_pi (ue_units row) (ue_height row) \<noteq> None) (list_utxos st address) \<and>
     (\<Sum>row \<leftarrow> list_utxos st address. unat (the (stored_to_pi (ue_units row) (ue_height row)))) < 2 ^ 64 \<longrightarrow>
       map fst shown = list_utxos st address)"
  using unspent_rows_sums [OF assms] unspent_rows_all [of "list_utxos st address" 0 0] assms by auto

lemma listunspent_adds_up_witness:
  "fst (snd (unspent_rows (list_utxos demo_storage ''a'') 0 0)) = 5 \<and>
   snd (snd (unspent_rows (list_utxos demo_storage ''a'') 0 0)) = 5000 \<and>
   map fst (fst (unspent_rows (list_utxos demo_storage ''a'') 0 0)) = list_utxos demo_storage ''a''"
proof -
  let ?row = "\<lparr>ue_txid_hex = to_hex zero256, ue_vout = 0, ue_units = 5, ue_address = ''a'', ue_height = 1\<rparr>"
  have l: "list_utxos demo_storage ''a'' = [?row]" by code_simp
  have w: "stored_to_pi 5 1 = Some 5000" by code_simp
  have u: "unspent_rows (list_utxos demo_storage ''a'') 0 0 = ([(?row, 5000)], 5, 5000)"
    by (simp add: l w)
  from listunspent_adds_up [OF u] show ?thesis by (simp add: u l w)
qed

end
