(* ===== verification/Peer.thy ===== *)
theory Peer
  imports Wire AddrMan Chain
begin

text \<open>
  A connection to a peer and the part of the server its messages reach (p2p.cpp): sending, the
  handshake, addresses, inventories, data requests, pings and threat alerts. The JSON blocks and
  transactions are in theory Sync.

  A \<open>peer\<close> keeps what was sent on its socket; \<open>ne_ok n\<close> tells whether the n-th message gets
  through, and the socket is closed at the first that does not. Messages for all peers with a
  finished handshake are logged in \<open>sv_bcast\<close>, addresses that are offered for dialling in
  \<open>sv_dial\<close>. \<open>sv_down\<close> is the end of the process: a read past the end of a message, a write
  past the end of a table, or a lock that is never released. The receive buffer is an argument
  of the message loop, in theory Frame.
\<close>

datatype msg_type =
    M_Version | M_Verack | M_Addr | M_Inv | M_Getdata | M_Headers | M_Getheaders | M_Block | M_Tx
  | M_Ping | M_Pong | M_Reject | M_Getblocks | M_Threat_Alert

definition msg_types :: "msg_type list" where
  "msg_types = [M_Version, M_Verack, M_Addr, M_Inv, M_Getdata, M_Headers, M_Getheaders, M_Block, M_Tx,
                M_Ping, M_Pong, M_Reject, M_Getblocks, M_Threat_Alert]"

fun type_code :: "msg_type \<Rightarrow> u8" where
  "type_code M_Version = 0" | "type_code M_Verack = 1" | "type_code M_Addr = 2" | "type_code M_Inv = 3"
| "type_code M_Getdata = 4" | "type_code M_Headers = 5" | "type_code M_Getheaders = 6" | "type_code M_Block = 7"
| "type_code M_Tx = 8" | "type_code M_Ping = 9" | "type_code M_Pong = 10" | "type_code M_Reject = 11"
| "type_code M_Getblocks = 12" | "type_code M_Threat_Alert = 13"

definition INV_TX :: u32 where "INV_TX = 1"
definition INV_BLOCK :: u32 where "INV_BLOCK = 2"
definition BAN_SCORE_THRESHOLD :: int where "BAN_SCORE_THRESHOLD = 100"
definition MAX_PEERS :: nat where "MAX_PEERS = 125"

record peer =
  pr_open :: bool
  pr_addr :: peer_addr
  pr_inbound :: bool
  pr_handshake :: bool
  pr_version_received :: bool
  pr_verack_received :: bool
  pr_version_sent :: bool
  pr_verack_sent :: bool
  pr_last_ping :: int
  pr_last_pong :: int
  pr_last_recv :: int
  pr_ban_score :: int
  pr_version :: u32
  pr_services :: u32
  pr_start_height :: u32
  pr_asked_from_start :: bool
  pr_agent :: string
  pr_ping_nonce :: u64
  pr_known_inv :: "inv_vect set"
  pr_sent :: "(msg_type \<times> bytes) list"

definition new_peer :: "int \<Rightarrow> peer_addr \<Rightarrow> bool \<Rightarrow> peer" where
  "new_peer ticks addr inbound =
     \<lparr>pr_open = True, pr_addr = addr, pr_inbound = inbound, pr_handshake = False, pr_version_received = False,
      pr_verack_received = False, pr_version_sent = False, pr_verack_sent = False, pr_last_ping = 0, pr_last_pong = 0,
      pr_last_recv = ticks, pr_ban_score = 0, pr_version = 0, pr_services = 0, pr_start_height = 0,
      pr_asked_from_start = False, pr_agent = [], pr_ping_nonce = 0, pr_known_inv = {}, pr_sent = []\<rparr>"

record held_block =
  hb_body :: json
  hb_hash :: string
  hb_prev :: string
  hb_height :: u32

record server =
  sv_node :: node
  sv_addrman :: addrman
  sv_threats :: "u64 option threats"
  sv_best_height :: u32
  sv_held :: "held_block list"
  sv_refused :: "string list"
  sv_bcast :: "(msg_type \<times> bytes) list"
  sv_dial :: "(u32 \<times> u16) list"
  sv_down :: bool

text \<open>What the handlers take from outside: the chain's environment, the socket, the steady clock, the
  random device, the own addresses, the environment variable PISECURE_SENTINEL, the two readings of
  mempool.json in an adoption, what the stack holds where \<open>hashStop\<close> and \<open>startHeight\<close> are not
  set, and the tests on \<open>double\<close>s: whether the peer's threat score is above 0.7, and an unset
  confidence above 0.8.\<close>

record netenv =
  ne_ev :: env
  ne_ok :: "nat \<Rightarrow> bool"
  ne_ticks :: int
  ne_nonce :: u64
  ne_own :: "u32 \<Rightarrow> bool"
  ne_sentinel :: "string option"
  ne_pool_file :: "json option"
  ne_pool_back :: "json option"
  ne_stack :: h256
  ne_start :: u32
  ne_suspicious :: bool
  ne_unset_high :: bool

definition sentinelEnabled :: "netenv \<Rightarrow> bool" where
  "sentinelEnabled ne =
     (case ne_sentinel ne of
        None \<Rightarrow> False
      | Some raw \<Rightarrow> raw \<noteq> [] \<and> lower_ascii raw \<in> {''1'', ''true'', ''yes'', ''on''})"

subsection \<open>Sending\<close>

definition frame_msg :: "msg_type \<Rightarrow> bytes \<Rightarrow> bytes" where
  "frame_msg ty payload = writeUint32 [type_code ty] (of_nat (length payload)) @ payload"

text \<open>\<open>sendRawData\<close>: what each call of \<open>send\<close> does. \<open>Wait_Ready\<close> is a full socket that becomes
  writable within 20 seconds. The result is what was written and whether all of it was; \<open>None\<close> is a
  script that ends before the loop does.\<close>

datatype send_call = Sent nat | Interrupted | Wait_Ready | Broken

fun sendRawData :: "bytes \<Rightarrow> send_call list \<Rightarrow> (bytes \<times> bool) option" where
  "sendRawData [] calls = Some ([], True)"
| "sendRawData data [] = None"
| "sendRawData data (Sent n # calls) =
     (if n = 0 then Some ([], False)
      else map_option (\<lambda>(written, ok). (take n data @ written, ok)) (sendRawData (drop n data) calls))"
| "sendRawData data (Interrupted # calls) = sendRawData data calls"
| "sendRawData data (Wait_Ready # calls) = sendRawData data calls"
| "sendRawData data (Broken # calls) = Some ([], False)"

definition sendMessage :: "netenv \<Rightarrow> msg_type \<Rightarrow> bytes \<Rightarrow> peer \<Rightarrow> peer" where
  "sendMessage ne ty payload p =
     (if \<not> pr_open p then p
      else if ne_ok ne (length (pr_sent p)) then p\<lparr>pr_sent := pr_sent p @ [(ty, payload)]\<rparr>
      else p\<lparr>pr_open := False\<rparr>)"

definition disconnectPeer :: "peer \<Rightarrow> peer" where
  "disconnectPeer p = p\<lparr>pr_open := False\<rparr>"

definition increaseBanScore :: "int \<Rightarrow> peer \<Rightarrow> peer" where
  "increaseBanScore amount p = p\<lparr>pr_ban_score := pr_ban_score p + amount\<rparr>"

definition shouldBan :: "peer \<Rightarrow> bool" where
  "shouldBan p \<longleftrightarrow> pr_ban_score p \<ge> BAN_SCORE_THRESHOLD"

definition getIdleTime :: "int \<Rightarrow> peer \<Rightarrow> int" where
  "getIdleTime ticks p = (ticks - pr_last_recv p) div 1000000000"

definition sendToAll :: "msg_type \<Rightarrow> bytes \<Rightarrow> server \<Rightarrow> server" where
  "sendToAll ty payload sv = sv\<lparr>sv_bcast := sv_bcast sv @ [(ty, payload)]\<rparr>"

definition broadcastInv :: "inv_vect \<Rightarrow> server \<Rightarrow> server" where
  "broadcastInv v = sendToAll M_Inv (serializeInv [v])"

text \<open>The best height the server announces follows the tip.\<close>

definition note_best :: "server \<Rightarrow> server" where
  "note_best sv =
     (if has_tip (nd_st (sv_node sv)) then sv\<lparr>sv_best_height := st_best_height (nd_st (sv_node sv))\<rparr> else sv)"

definition gossipBlock :: "bytes \<Rightarrow> h256 \<Rightarrow> server \<Rightarrow> server" where
  "gossipBlock raw hash sv =
     (let sv1 = broadcastInv \<lparr>iv_type = INV_BLOCK, iv_hash = hash\<rparr> (note_best sv) in
      if raw \<noteq> [] then sendToAll M_Block (serializeBlock raw) sv1 else sv1)"

definition requestBlock :: "h256 \<Rightarrow> server \<Rightarrow> server" where
  "requestBlock hash = sendToAll M_Getdata (serializeGetData [\<lparr>iv_type = INV_BLOCK, iv_hash = hash\<rparr>])"

text \<open>The locator of a chain whose height table is too short for its tip reads past the table.\<close>

definition requestHeaders :: "server \<Rightarrow> server" where
  "requestHeaders sv =
     (case get_block_locator_hashes (nd_st (sv_node sv)) of
        None \<Rightarrow> sv\<lparr>sv_down := True\<rparr>
      | Some locator \<Rightarrow> sendToAll M_Getheaders (serializeGetHeaders locator zero256) sv)"

definition ask_headers :: "netenv \<Rightarrow> peer \<times> server \<Rightarrow> peer \<times> server" where
  "ask_headers ne c =
     (case c of (p, sv) \<Rightarrow>
        (case get_block_locator_hashes (nd_st (sv_node sv)) of
           None \<Rightarrow> (p, sv\<lparr>sv_down := True\<rparr>)
         | Some locator \<Rightarrow> (sendMessage ne M_Getheaders (serializeGetHeaders locator zero256) p, sv)))"

subsection \<open>Handshake\<close>

definition no_addr :: peer_addr where
  "no_addr = \<lparr>pa_ip = 0, pa_port = 0, pa_last_seen = 0, pa_services = 0, pa_failures = 0\<rparr>"

definition sendVersion :: "netenv \<Rightarrow> peer \<times> server \<Rightarrow> peer \<times> server" where
  "sendVersion ne c =
     (case c of (p, sv) \<Rightarrow>
        if pr_version_sent p \<or> \<not> pr_open p then (p, sv)
        else
          let sv1 = note_best sv;
              payload = serializeVersion PROTOCOL_VERSION SERVICES_NODE (ev_now (ne_ev ne)) (pr_addr p) no_addr
                (ne_nonce ne) ''/pisecured:1.0/'' (sv_best_height sv1) in
          (sendMessage ne M_Version payload (p\<lparr>pr_version_sent := True\<rparr>), sv1))"

definition sendVerack :: "netenv \<Rightarrow> peer \<Rightarrow> peer" where
  "sendVerack ne p =
     (if pr_verack_sent p \<or> \<not> pr_open p then p
      else sendMessage ne M_Verack serializeVerack (p\<lparr>pr_verack_sent := True\<rparr>))"

definition sendAddr :: "netenv \<Rightarrow> server \<Rightarrow> peer \<Rightarrow> peer" where
  "sendAddr ne sv p =
     (let addrs = getMany (sv_addrman sv) (ev_now (ne_ev ne)) 1000 in
      if addrs \<noteq> [] then sendMessage ne M_Addr (serializeAddr addrs) p else p)"

definition sendPing :: "netenv \<Rightarrow> peer \<Rightarrow> peer" where
  "sendPing ne p =
     sendMessage ne M_Ping (serializePing (ne_nonce ne)) (p\<lparr>pr_ping_nonce := ne_nonce ne, pr_last_ping := ne_ticks ne\<rparr>)"

definition ping_step :: "netenv \<Rightarrow> peer \<Rightarrow> peer" where
  "ping_step ne p =
     (if pr_handshake p
      then (let p1 = sendPing ne p in if getIdleTime (ne_ticks ne) p1 > 600 then disconnectPeer p1 else p1)
      else p)"

definition dialDirectoryPeers :: "(u32 \<times> u16) list \<Rightarrow> server \<Rightarrow> server" where
  "dialDirectoryPeers learned sv = sv\<lparr>sv_dial := sv_dial sv @ learned\<rparr>"

definition exchangeAddresses :: "netenv \<Rightarrow> server \<Rightarrow> server" where
  "exchangeAddresses ne sv =
     (let addrs = getMany (sv_addrman sv) (ev_now (ne_ev ne)) 1000;
          sv1 = (if addrs \<noteq> [] then sendToAll M_Addr (serializeAddr addrs) sv else sv) in
      dialDirectoryPeers (map (\<lambda>a. (pa_ip a, pa_port a)) (getMany (sv_addrman sv) (ev_now (ne_ev ne)) 32)) sv1)"

text \<open>A message that is read past its end.\<close>

definition overrun :: "peer \<times> server \<Rightarrow> peer \<times> server" where
  "overrun c = (case c of (p, sv) \<Rightarrow> (p, sv\<lparr>sv_down := True\<rparr>))"

text \<open>\<open>startHeight\<close> is not set by a message that ends before it: it stays what the stack held.\<close>

definition handleVersion :: "netenv \<Rightarrow> bytes \<Rightarrow> peer \<times> server \<Rightarrow> peer \<times> server" where
  "handleVersion ne payload c =
     (case c of (p, sv) \<Rightarrow>
        if pr_version_received p then (p, sv)
        else (case deserializeVersion payload of
                Out_Of_Bounds \<Rightarrow> overrun (p, sv)
              | Got None \<Rightarrow> (increaseBanScore 10 p, sv)
              | Got (Some m) \<Rightarrow>
                  let p1 = p\<lparr>pr_version_received := True, pr_version := vm_version m, pr_services := vm_services m,
                             pr_start_height := (case vm_start_height m of Some h \<Rightarrow> h
                                                 | None \<Rightarrow> ne_start ne),
                             pr_agent := vm_user_agent m\<rparr> in
                  if pr_inbound p1 \<and> ne_own ne (pa_ip (pr_addr p1)) then (disconnectPeer p1, sv)
                  else (let p2 = sendVerack ne p1 in
                        if pr_inbound p2 then sendVersion ne (p2, sv) else (p2, sv))))"

definition handleVerack :: "netenv \<Rightarrow> peer \<times> server \<Rightarrow> peer \<times> server" where
  "handleVerack ne c =
     (case c of (p, sv) \<Rightarrow>
        if pr_verack_received p \<or> pr_handshake p then (p, sv)
        else
          let p1 = sendAddr ne sv (p\<lparr>pr_verack_received := True, pr_handshake := True\<rparr>);
              sv1 = exchangeAddresses ne sv in
          if pr_start_height p1 > sv_best_height sv1 then ask_headers ne (p1, sv1) else (p1, sv1))"


subsection \<open>Addresses, inventories and data\<close>

definition handleAddr :: "netenv \<Rightarrow> bytes \<Rightarrow> peer \<times> server \<Rightarrow> peer \<times> server" where
  "handleAddr ne payload c =
     (case c of (p, sv) \<Rightarrow>
        (case deserializeAddr payload of
           Out_Of_Bounds \<Rightarrow> overrun (p, sv)
         | Got None \<Rightarrow> (p, sv)
         | Got (Some addrs) \<Rightarrow>
             (p, dialDirectoryPeers (map (\<lambda>a. (pa_ip a, pa_port a)) addrs)
                   (sv\<lparr>sv_addrman := fold (addr_add (ev_now (ne_ev ne))) addrs (sv_addrman sv)\<rparr>))))"

definition inv_step :: "storage \<Rightarrow> inv_vect \<Rightarrow> inv_vect set \<times> inv_vect list \<Rightarrow> inv_vect set \<times> inv_vect list" where
  "inv_step st v s =
     (case s of (known, toRequest) \<Rightarrow>
        if iv_type v = INV_BLOCK \<and> block_index st (iv_hash v) \<noteq> None then s
        else if v \<in> known then s
        else (insert v known, toRequest @ [v]))"

definition handleInv :: "netenv \<Rightarrow> bytes \<Rightarrow> peer \<times> server \<Rightarrow> peer \<times> server" where
  "handleInv ne payload c =
     (case c of (p, sv) \<Rightarrow>
        (case deserializeInv payload of
           Out_Of_Bounds \<Rightarrow> overrun (p, sv)
         | Got None \<Rightarrow> (increaseBanScore 10 p, sv)
         | Got (Some invs) \<Rightarrow>
             (let (known, toRequest) = fold (inv_step (nd_st (sv_node sv))) invs (pr_known_inv p, []);
                  p1 = p\<lparr>pr_known_inv := known\<rparr> in
              (if toRequest \<noteq> [] then sendMessage ne M_Getdata (serializeGetData toRequest) p1 else p1, sv))))"

definition getdata_reply :: "storage \<Rightarrow> inv_vect \<Rightarrow> (msg_type \<times> bytes) option" where
  "getdata_reply st v =
     (if iv_type v = INV_BLOCK
      then (case block_index st (iv_hash v) of
              None \<Rightarrow> None
            | Some i \<Rightarrow> map_option (\<lambda>b. (M_Block, serializeBlock b)) (read_block st i))
      else if iv_type v = INV_TX
      then map_option (\<lambda>tx. (M_Tx, serializeTx (mt_data tx))) (get_transaction st (iv_hash v))
      else None)"

definition send_reply :: "netenv \<Rightarrow> storage \<Rightarrow> inv_vect \<Rightarrow> peer \<Rightarrow> peer" where
  "send_reply ne st v p =
     (case getdata_reply st v of None \<Rightarrow> p | Some (ty, payload) \<Rightarrow> sendMessage ne ty payload p)"

definition handleGetData :: "netenv \<Rightarrow> bytes \<Rightarrow> peer \<times> server \<Rightarrow> peer \<times> server" where
  "handleGetData ne payload c =
     (case c of (p, sv) \<Rightarrow>
        (case deserializeInv payload of
           Out_Of_Bounds \<Rightarrow> overrun (p, sv)
         | Got None \<Rightarrow> (increaseBanScore 10 p, sv)
         | Got (Some invs) \<Rightarrow> (fold (send_reply ne (nd_st (sv_node sv))) invs p, sv)))"

text \<open>The headers from \<open>h\<close> on; at most 2000, up to \<open>hashStop\<close>, and only while the table has them.\<close>

function headers_from :: "storage \<Rightarrow> h256 \<Rightarrow> u32 \<Rightarrow> block_header list \<Rightarrow> block_header list" where
  "headers_from st hashStop h acc =
     (if h \<le> st_best_height st \<and> length acc < 2000
      then (case get_header_by_height st h of
              None \<Rightarrow> acc
            | Some header \<Rightarrow>
                if bh_hash header = hashStop then acc @ [header]
                else headers_from st hashStop (h + 1) (acc @ [header]))
      else acc)"
  by pat_completeness auto
termination
  by (relation "measure (\<lambda>(st, stop, h, acc). 2000 - length acc)") auto

declare headers_from.simps [simp del]

fun first_known :: "storage \<Rightarrow> h256 list \<Rightarrow> block_header option" where
  "first_known st [] = None"
| "first_known st (hash # hashes) =
     (case get_header_by_hash st hash of Some header \<Rightarrow> Some header | None \<Rightarrow> first_known st hashes)"

definition headers_reply :: "storage \<Rightarrow> h256 list \<Rightarrow> h256 \<Rightarrow> block_header list" where
  "headers_reply st locator hashStop =
     headers_from st hashStop (case first_known st locator of Some h \<Rightarrow> bh_height h + 1 | None \<Rightarrow> 1) []"

definition handleGetHeaders :: "netenv \<Rightarrow> bytes \<Rightarrow> peer \<times> server \<Rightarrow> peer \<times> server" where
  "handleGetHeaders ne payload c =
     (case c of (p, sv) \<Rightarrow>
        (case deserializeGetHeaders payload of
           Out_Of_Bounds \<Rightarrow> overrun (p, sv)
         | Got None \<Rightarrow> (increaseBanScore 10 p, sv)
         | Got (Some (locator, stop)) \<Rightarrow>
             let hashStop = (case stop of Some s \<Rightarrow> s | None \<Rightarrow> ne_stack ne);
                 headers = headers_reply (nd_st (sv_node sv)) locator hashStop in
             (if headers \<noteq> [] then sendMessage ne M_Headers (serializeHeaders headers) p else p, sv)))"

subsection \<open>Pings and alerts\<close>

definition handlePing :: "netenv \<Rightarrow> bytes \<Rightarrow> peer \<times> server \<Rightarrow> peer \<times> server" where
  "handlePing ne payload c =
     (case c of (p, sv) \<Rightarrow>
        (case deserializePing payload of
           Out_Of_Bounds \<Rightarrow> overrun (p, sv)
         | Got None \<Rightarrow> (p, sv)
         | Got (Some nonce) \<Rightarrow> (sendMessage ne M_Pong (serializePong nonce) p, sv)))"

definition handlePong :: "netenv \<Rightarrow> bytes \<Rightarrow> peer \<times> server \<Rightarrow> peer \<times> server" where
  "handlePong ne payload c =
     (case c of (p, sv) \<Rightarrow>
        (case deserializePong payload of
           Out_Of_Bounds \<Rightarrow> overrun (p, sv)
         | Got None \<Rightarrow> (p, sv)
         | Got (Some nonce) \<Rightarrow>
             (if nonce = pr_ping_nonce p then p\<lparr>pr_last_pong := ne_ticks ne\<rparr> else p, sv)))"

definition htonl :: "u32 \<Rightarrow> u32" where
  "htonl x = read_be32 (write_le32 x)"

definition ban_ip :: "netenv \<Rightarrow> u32 \<Rightarrow> server \<Rightarrow> server" where
  "ban_ip ne ip sv =
     (case addr_ban False (ev_now (ne_ev ne)) (no_addr\<lparr>pa_ip := ip\<rparr>) (sv_addrman sv) of
        None \<Rightarrow> sv\<lparr>sv_down := True\<rparr> | Some am \<Rightarrow> sv\<lparr>sv_addrman := am\<rparr>)"

text \<open>Other peers that are disconnected are not part of the state.\<close>

definition activateCoordinatedDefense ::
  "netenv \<Rightarrow> u64 option threat_alert \<Rightarrow> peer \<times> server \<Rightarrow> peer \<times> server" where
  "activateCoordinatedDefense ne alert c =
     (case c of (p, sv) \<Rightarrow>
        if \<not> sentinelEnabled ne then (p, sv)
        else if ta_type alert = ''ddos_attack'' then (p, ban_ip ne (htonl (ta_source_ip alert)) sv)
        else if ta_type alert = ''sybil_attack'' then
          (if htonl (pa_ip (pr_addr p)) = ta_source_ip alert \<or> ne_suspicious ne then disconnectPeer p else p, sv)
        else (p, sv))"

text \<open>The confidence is in millionths; above 0.8 means more than 800000 of them.\<close>

definition handleThreatAlert :: "netenv \<Rightarrow> bytes \<Rightarrow> peer \<times> server \<Rightarrow> peer \<times> server" where
  "handleThreatAlert ne payload c =
     (case c of (p, sv) \<Rightarrow>
        if \<not> sentinelEnabled ne then (p, sv)
        else (case deserializeThreatAlert Some None payload of
                Out_Of_Bounds \<Rightarrow> overrun (p, sv)
              | Got None \<Rightarrow> (p, sv)
              | Got (Some alert) \<Rightarrow>
                  (let sv1 = sv\<lparr>sv_threats := recordThreat alert (sv_threats sv)\<rparr>;
                       (p2, sv2) = (if ta_severity alert = ''high'' \<or> ta_severity alert = ''critical''
                                    then activateCoordinatedDefense ne alert (p, sv1) else (p, sv1));
                       high = (case ta_confidence alert of Some n \<Rightarrow> n > 800000 | None \<Rightarrow> ne_unset_high ne) in
                   (p2, if high then ban_ip ne (htonl (ta_source_ip alert)) sv2 else sv2))))"

subsection \<open>New connections\<close>

definition shouldAcceptConnection :: "bool \<Rightarrow> nat \<Rightarrow> bool" where
  "shouldAcceptConnection probed peers \<longleftrightarrow> probed \<and> peers < MAX_PEERS"

definition acceptConnection :: "netenv \<Rightarrow> bool \<Rightarrow> nat \<Rightarrow> peer_addr \<Rightarrow> server \<Rightarrow> (peer option \<times> server)" where
  "acceptConnection ne probed peers addr sv =
     (let a = addr\<lparr>pa_last_seen := ev_now (ne_ev ne), pa_services := 0\<rparr> in
      if \<not> shouldAcceptConnection probed peers then (None, sv)
      else if isBanned (sv_addrman sv) (ev_now (ne_ev ne)) a then (None, sv)
      else (case sendVersion ne (new_peer (ne_ticks ne) a True, sv) of (p, sv') \<Rightarrow> (Some p, sv')))"

text \<open>What the sockets do for an outgoing connection; the address may be the server's own.\<close>

datatype dialled = Dial_Self | Dial_No_Socket | Dial_Failed | Dial_Connected

definition connectToPeer :: "netenv \<Rightarrow> dialled \<Rightarrow> peer_addr \<Rightarrow> server \<Rightarrow> (peer option \<times> server)" where
  "connectToPeer ne what addr sv =
     (case what of
        Dial_Self \<Rightarrow> (None, sv)
      | Dial_No_Socket \<Rightarrow> (None, sv)
      | Dial_Failed \<Rightarrow>
          (None, case markFailure (ev_now (ne_ev ne)) addr (sv_addrman sv) of
                   None \<Rightarrow> sv\<lparr>sv_down := True\<rparr> | Some am \<Rightarrow> sv\<lparr>sv_addrman := am\<rparr>)
      | Dial_Connected \<Rightarrow>
          (case sendVersion ne (new_peer (ne_ticks ne) addr False, sv) of
             (p, sv') \<Rightarrow> (Some p, sv'\<lparr>sv_addrman := markAttempt (ev_now (ne_ev ne)) addr (sv_addrman sv')\<rparr>)))"

end
