(* ===== verification/Sync.thy ===== *)
theory Sync
  imports Peer
begin

text \<open>
  Blocks, headers and transactions from a peer (p2p.cpp): \<open>handleHeaders\<close>, \<open>handleBlock\<close>,
  \<open>handleTx\<close>, the blocks that do not follow the tip and the adoption of a peer's chain built
  from them. Log output and the messages to WebSocket subscribers are not modelled; the locks
  are free when a handler runs.
\<close>

subsection \<open>Headers\<close>

text \<open>\<open>HW_Ask\<close> is a first header that links to nothing known, \<open>HW_Bad\<close> one that breaks the chain.\<close>

datatype header_walk = HW_Ask | HW_Bad | HW_Done "inv_vect list"

fun walk_headers :: "storage \<Rightarrow> block_header option \<Rightarrow> block_header list \<Rightarrow> inv_vect list \<Rightarrow> header_walk" where
  "walk_headers st prev [] req = HW_Done req"
| "walk_headers st prev (header # headers) req =
     (case (case prev of
              Some p \<Rightarrow> Some (bh_height p + 1)
            | None \<Rightarrow>
                if bh_prev header = zero256 then Some 1
                else map_option (\<lambda>known. bh_height known + 1) (get_header_by_hash st (bh_prev header))) of
        None \<Rightarrow> HW_Ask
      | Some height \<Rightarrow>
          if (case prev of Some p \<Rightarrow> bh_prev header \<noteq> bh_hash p | None \<Rightarrow> False) then HW_Bad
          else walk_headers st (Some (header\<lparr>bh_height := height\<rparr>)) headers
                 (if block_index st (bh_hash header) = None
                  then req @ [\<lparr>iv_type = INV_BLOCK, iv_hash = bh_hash header\<rparr>] else req))"

definition handleHeaders :: "netenv \<Rightarrow> bytes \<Rightarrow> peer \<times> server \<Rightarrow> peer \<times> server" where
  "handleHeaders ne payload c =
     (case c of (p, sv) \<Rightarrow>
        (case deserializeHeaders payload of
           Out_Of_Bounds \<Rightarrow> overrun (p, sv)
         | Got None \<Rightarrow> (disconnectPeer p, sv)
         | Got (Some (headers, consumed)) \<Rightarrow>
             if consumed \<noteq> length payload then (disconnectPeer p, sv)
             else if headers = [] then (p, sv)
             else (case walk_headers (nd_st (sv_node sv)) None headers [] of
                     HW_Ask \<Rightarrow>
                       (if \<not> pr_asked_from_start p
                        then sendMessage ne M_Getheaders (serializeGetHeaders [] zero256) (p\<lparr>pr_asked_from_start := True\<rparr>)
                        else p, sv)
                   | HW_Bad \<Rightarrow> (disconnectPeer p, sv)
                   | HW_Done req \<Rightarrow>
                       let p1 = (if req \<noteq> [] then sendMessage ne M_Getdata (serializeGetData req) p else p);
                           p2 = (if length headers = 2000
                                 then sendMessage ne M_Getheaders (serializeGetHeaders [bh_hash (last headers)] zero256) p1
                                 else p1) in (p2, sv))))"

subsection \<open>Blocks off the tip\<close>

definition parse_hex32 :: "string \<Rightarrow> h256 option" where
  "parse_hex32 text =
     (if length text \<noteq> 64 then None
      else case hex_prefix text of (d, ok) \<Rightarrow> if ok then Some d else None)"

definition lower_copy :: "string \<Rightarrow> string" where
  "lower_copy text = lower_ascii text"

fun put_held :: "held_block \<Rightarrow> held_block list \<Rightarrow> held_block list option" where
  "put_held b [] = None"
| "put_held b (h # hs) =
     (if hb_hash h = hb_hash b then Some (b # hs) else map_option ((#) h) (put_held b hs))"

definition kMaxHeld :: nat where "kMaxHeld = 4000"
definition kMaxRefused :: nat where "kMaxRefused = 256"

definition noteOffTipBlock :: "json \<Rightarrow> held_block list \<Rightarrow> held_block list" where
  "noteOffTipBlock block held =
     (case (jstring block ''hash'', jstring block ''prev_block_hash'', juint block ''height'') of
        (Some hash, Some prev, Some height) \<Rightarrow>
          (let b = \<lparr>hb_body = block, hb_hash = lower_copy hash, hb_prev = lower_copy prev, hb_height = ucast height\<rparr> in
           if hb_height b = 0 then held
           else if parse_hex32 (hb_hash b) = None \<or> parse_hex32 (hb_prev b) = None then held
           else (case put_held b held of
                   Some held' \<Rightarrow> held'
                 | None \<Rightarrow> (if length held \<ge> kMaxHeld then tl held else held) @ [b]))
      | _ \<Rightarrow> held)"

subsection \<open>The candidate chain\<close>

text \<open>The hashes from the tip down; the guard is the best height plus two, in 32 bits.\<close>

fun canonical_walk :: "nat \<Rightarrow> storage \<Rightarrow> h256 \<Rightarrow> h256 list" where
  "canonical_walk 0 st cursor = []"
| "canonical_walk (Suc guard) st cursor =
     cursor # (case get_header_by_hash st cursor of
                 None \<Rightarrow> []
               | Some header \<Rightarrow> if bh_prev header = zero256 then [] else canonical_walk guard st (bh_prev header))"

definition canonical_hashes :: "storage \<Rightarrow> h256 list" where
  "canonical_hashes st =
     (if has_tip st then canonical_walk (unat (st_best_height st + 2)) st (st_best_hash st) else [])"

definition drop_canonical :: "h256 list \<Rightarrow> held_block list \<Rightarrow> held_block list" where
  "drop_canonical canonical held =
     filter (\<lambda>b. \<not> (case parse_hex32 (hb_hash b) of None \<Rightarrow> False | Some raw \<Rightarrow> raw \<in> set canonical)) held"

definition held_index :: "held_block list \<Rightarrow> (string, nat) table" where
  "held_index held = fold (\<lambda>i t. tbl_put t (hb_hash (held ! i)) i) [0..<length held] []"

fun held_walk ::
  "nat \<Rightarrow> h256 list \<Rightarrow> held_block list \<Rightarrow> (string, nat) table \<Rightarrow> nat \<Rightarrow> string list \<Rightarrow> nat list \<Rightarrow> (h256 \<times> nat list) option" where
  "held_walk 0 canonical held by_hash cursor seen rv = None"
| "held_walk (Suc guard) canonical held by_hash cursor seen rv =
     (if hb_hash (held ! cursor) \<in> set seen then None
      else case parse_hex32 (hb_prev (held ! cursor)) of
          None \<Rightarrow> None
        | Some prev \<Rightarrow>
            if prev = zero256 then None
            else if prev \<in> set canonical then Some (prev, rv @ [cursor])
            else (case tbl_get by_hash (hb_prev (held ! cursor)) of
                    None \<Rightarrow> None
                  | Some next \<Rightarrow>
                      held_walk guard canonical held by_hash next (hb_hash (held ! cursor) # seen) (rv @ [cursor])))"

fun link_held :: "held_block list \<Rightarrow> h256 \<Rightarrow> u32 \<Rightarrow> json list option" where
  "link_held [] want_prev want_height = Some []"
| "link_held (b # bs) want_prev want_height =
     (case (parse_hex32 (hb_prev b), parse_hex32 (hb_hash b)) of
        (Some prev, Some hash) \<Rightarrow>
          if prev \<noteq> want_prev \<or> hb_height b \<noteq> want_height then None
          else map_option ((#) (hb_body b)) (link_held bs hash (want_height + 1))
      | _ \<Rightarrow> None)"

fun stamps_ahead :: "u64 \<Rightarrow> json list \<Rightarrow> bool" where
  "stamps_ahead now [] = False"
| "stamps_ahead now (body # bodies) =
     (case juint body ''timestamp'' of
        None \<Rightarrow> False
      | Some stamp \<Rightarrow> if stamp > now + 120 then True else stamps_ahead now bodies)"

record candidate =
  ca_height :: u32
  ca_tip :: string
  ca_ancestor :: h256
  ca_bodies :: "json list"

text \<open>The chain of held blocks from a known block up to the \<open>i\<close>-th held one.\<close>

definition candidate_at ::
  "u64 \<Rightarrow> storage \<Rightarrow> h256 list \<Rightarrow> held_block list \<Rightarrow> string list \<Rightarrow> nat \<Rightarrow> candidate option" where
  "candidate_at now st canonical held refused i =
     (let local = (if has_tip st then st_best_height st else 0) in
      if hb_height (held ! i) \<le> local then None
      else if hb_hash (held ! i) \<in> set refused then None
      else case held_walk (length held + 1) canonical held (held_index held) i [] [] of
          None \<Rightarrow> None
        | Some (ancestor, rv) \<Rightarrow>
            (case get_header_by_hash st ancestor of
               None \<Rightarrow> None
             | Some header \<Rightarrow>
                 (case link_held (map ((!) held) (rev rv)) ancestor (bh_height header + 1) of
                    None \<Rightarrow> None
                  | Some bodies \<Rightarrow>
                      if bodies = [] \<or> stamps_ahead now bodies then None
                      else Some \<lparr>ca_height = hb_height (held ! i), ca_tip = hb_hash (held ! i), ca_ancestor = ancestor,
                                 ca_bodies = bodies\<rparr>)))"

definition candidate_step ::
  "u64 \<Rightarrow> storage \<Rightarrow> h256 list \<Rightarrow> held_block list \<Rightarrow> string list \<Rightarrow> nat \<Rightarrow> candidate option \<Rightarrow> candidate option" where
  "candidate_step now st canonical held refused i best =
     (case candidate_at now st canonical held refused i of
        None \<Rightarrow> best
      | Some c \<Rightarrow> (case best of None \<Rightarrow> Some c | Some b \<Rightarrow> if ca_height c > ca_height b then Some c else best))"

definition best_candidate ::
  "u64 \<Rightarrow> storage \<Rightarrow> h256 list \<Rightarrow> held_block list \<Rightarrow> string list \<Rightarrow> candidate option" where
  "best_candidate now st canonical held refused =
     fold (candidate_step now st canonical held refused) [0..<length held] None"

definition refuse_tip :: "string \<Rightarrow> string list \<Rightarrow> string list" where
  "refuse_tip tip refused =
     (if tip \<in> set refused then refused
      else (if length refused \<ge> kMaxRefused then tl refused else refused) @ [tip])"

text \<open>After an adoption: its blocks and its refusal are forgotten.\<close>

definition forget_adopted :: "candidate \<Rightarrow> server \<Rightarrow> server" where
  "forget_adopted best sv =
     (let applied = List.map_filter (\<lambda>body. map_option lower_copy (jstring body ''hash'')) (ca_bodies best) in
      sv\<lparr>sv_held := filter (\<lambda>b. hb_hash b \<notin> set applied) (sv_held sv),
         sv_refused := filter (\<lambda>t. t \<noteq> ca_tip best) (sv_refused sv)\<rparr>)"

definition adoptLaterPeerChain :: "netenv \<Rightarrow> server \<Rightarrow> server" where
  "adoptLaterPeerChain ne sv0 =
     (let st = nd_st (sv_node sv0);
          canonical = canonical_hashes st;
          sv = (if canonical \<noteq> [] then sv0\<lparr>sv_held := drop_canonical canonical (sv_held sv0)\<rparr> else sv0) in
      case best_candidate (ev_now (ne_ev ne)) st canonical (sv_held sv) (sv_refused sv) of
        None \<Rightarrow> sv
      | Some best \<Rightarrow>
          (let (r, nd) = rpc_adopt_peer_chain (ne_ev ne) (ne_pool_file ne) (ne_pool_back ne) (ca_ancestor best)
                           (ca_bodies best) (sv_node sv);
               sv1 = sv\<lparr>sv_node := nd\<rparr> in
           case r of
             Ad_Crashed \<Rightarrow> sv1\<lparr>sv_down := True\<rparr>
           | Ad_Yes gossip \<Rightarrow> forget_adopted best (note_best (fold (\<lambda>(raw, hash). gossipBlock raw hash) gossip sv1))
           | _ \<Rightarrow>
               if ca_height best > (if has_tip (nd_st nd) then st_best_height (nd_st nd) else 0)
               then sv1\<lparr>sv_refused := refuse_tip (ca_tip best) (sv_refused sv1)\<rparr> else sv1))"

definition syncLaterPeers :: "netenv \<Rightarrow> peer \<times> server \<Rightarrow> peer \<times> server" where
  "syncLaterPeers ne c =
     (case c of (p, sv) \<Rightarrow>
        let sv1 = note_best sv;
            (p2, sv2) = (if \<not> pr_handshake p \<or> \<not> pr_open p \<or> pr_start_height p \<le> sv_best_height sv1 then (p, sv1)
                         else ask_headers ne (p, sv1)) in
        (p2, adoptLaterPeerChain ne sv2))"


subsection \<open>Blocks\<close>

text \<open>\<open>this->gossipBlock\<close> at the end of an accepted, new block: what was stored is sent to all.\<close>

definition gossip_stored :: "h256 \<Rightarrow> server \<Rightarrow> server" where
  "gossip_stored digest sv =
     (let st = nd_st (sv_node sv) in
      case (case block_index st digest of None \<Rightarrow> None | Some i \<Rightarrow> read_block st i) of
        None \<Rightarrow> gossipBlock [] digest sv
      | Some raw \<Rightarrow> gossipBlock raw digest sv)"

definition off_tip :: "reason \<Rightarrow> bool" where
  "off_tip r \<longleftrightarrow> contains_text (reason_text r) ''does not link'' \<or> contains_text (reason_text r) ''does not extend''"

definition lenient :: "reason \<Rightarrow> bool" where
  "lenient r \<longleftrightarrow> contains_text (reason_text r) ''pihash'' \<or> contains_text (reason_text r) ''PoW'' \<or>
     contains_text (reason_text r) ''hw_proof''"

text \<open>A rejected JSON block. \<open>block.value("hash", "")\<close> throws when the hash is not a string.\<close>

definition block_rejected :: "netenv \<Rightarrow> json \<Rightarrow> reason \<Rightarrow> peer \<times> server \<Rightarrow> peer \<times> server" where
  "block_rejected ne block r c =
     (case c of (p, sv) \<Rightarrow>
        if \<not> is_object block \<or> value_string block ''hash'' [] = None then (increaseBanScore 10 p, sv)
        else if off_tip r then
          (let sv1 = note_best (adoptLaterPeerChain ne (sv\<lparr>sv_held := noteOffTipBlock block (sv_held sv)\<rparr>)) in
           if pr_start_height p > sv_best_height sv1 then ask_headers ne (p, sv1) else (p, sv1))
        else (if lenient r then p else increaseBanScore 20 p, sv))"

definition handle_json_block :: "netenv \<Rightarrow> bytes \<Rightarrow> peer \<times> server \<Rightarrow> peer \<times> server" where
  "handle_json_block ne payload c =
     (case c of (p, sv) \<Rightarrow>
        if length payload > kMaxBlockBytes then (increaseBanScore 20 p, sv)
        else (case ev_parse (ne_ev ne) (string_of payload) of
                None \<Rightarrow> (increaseBanScore 10 p, sv)
              | Some block \<Rightarrow>
                  (case rpc_submitblock (ne_ev ne) block False (sv_node sv) of
                     (Sub_Thrown, nd) \<Rightarrow> (increaseBanScore 10 p, sv\<lparr>sv_node := nd\<rparr>)
                   | (Sub_Crashed, nd) \<Rightarrow> (p, sv\<lparr>sv_node := nd, sv_down := True\<rparr>)
                   | (Sub_Rejected r, nd) \<Rightarrow> block_rejected ne block r (p, sv\<lparr>sv_node := nd\<rparr>)
                   | (Sub_Accepted digest height dup, nd) \<Rightarrow>
                       (let sv1 = sv\<lparr>sv_node := nd\<rparr>; sv2 = (if dup then sv1 else gossip_stored digest sv1) in
                        (p, sv2\<lparr>sv_best_height := st_best_height (nd_st nd)\<rparr>)))))"

text \<open>A block that is not JSON: the header is its first 112 bytes.\<close>

definition binary_header :: "(bytes \<Rightarrow> h256) \<Rightarrow> bytes \<Rightarrow> block_header read" where
  "binary_header H payload =
     read_bind (readUint32 payload 0) (\<lambda>(version, off).
     read_bind (copy32 payload off) (\<lambda>(prev, off).
     read_bind (copy32 payload off) (\<lambda>(merkle, off).
     read_bind (readUint64 payload off) (\<lambda>(timestamp, off).
     read_bind (readUint32 payload off) (\<lambda>(difficulty, off).
     read_bind (readUint64 payload off) (\<lambda>(nonce, off).
       Got \<lparr>bh_version = version, bh_prev = prev, bh_merkle = merkle, bh_timestamp = timestamp, bh_difficulty = difficulty,
            bh_nonce = nonce, bh_hash = H (take 112 payload), bh_height = 0\<rparr>))))))"

definition handle_binary_block :: "netenv \<Rightarrow> bytes \<Rightarrow> peer \<times> server \<Rightarrow> peer \<times> server" where
  "handle_binary_block ne payload c =
     (case c of (p, sv) \<Rightarrow>
        if length payload < 112 then (increaseBanScore 10 p, sv)
        else (case binary_header (ev_sha (ne_ev ne)) payload of
                Out_Of_Bounds \<Rightarrow> overrun (p, sv)
              | Got header0 \<Rightarrow>
                  let st = nd_st (sv_node sv) in
                  if \<not> validate_block_pow (bh_hash header0) (bh_difficulty header0) then (increaseBanScore 50 p, sv)
                  else (case get_header_by_hash st (bh_prev header0) of
                          None \<Rightarrow> (p, sv)
                        | Some prev \<Rightarrow>
                            (let header = header0\<lparr>bh_height := bh_height prev + 1\<rparr> in
                             if \<not> validate_block_header header (Some prev) then (increaseBanScore 30 p, sv)
                             else (case store_block_with_header st (bh_hash header) header payload (ev_opened (ne_ev ne)) of
                                     Out_Of_Bounds \<Rightarrow> (p, sv\<lparr>sv_down := True\<rparr>)
                                   | Got (False, st') \<Rightarrow> (p, sv\<lparr>sv_node := (sv_node sv)\<lparr>nd_st := st'\<rparr>\<rparr>)
                                   | Got (True, st') \<Rightarrow>
                                       (p, broadcastInv \<lparr>iv_type = INV_BLOCK, iv_hash = bh_hash header\<rparr>
                                             (sv\<lparr>sv_node := (sv_node sv)\<lparr>nd_st := st'\<rparr>\<rparr>)))))))"

definition handleBlock :: "netenv \<Rightarrow> bytes \<Rightarrow> peer \<times> server \<Rightarrow> peer \<times> server" where
  "handleBlock ne payload c =
     (if payload \<noteq> [] \<and> payload ! 0 = of_char CHR ''{'' then handle_json_block ne payload c
      else handle_binary_block ne payload c)"

subsection \<open>Transactions\<close>

text \<open>A JSON document with more inputs than a transaction may have.\<close>

definition too_many_inputs :: "env \<Rightarrow> bytes \<Rightarrow> bool" where
  "too_many_inputs ev payload \<longleftrightarrow>
     payload \<noteq> [] \<and> payload ! 0 = of_char CHR ''{'' \<and>
     (case ev_parse ev (string_of payload) of
        None \<Rightarrow> False
      | Some obj \<Rightarrow> (case jarray obj ''inputs'' of None \<Rightarrow> False | Some ins \<Rightarrow> length ins > kMaxTxInputs))"

definition handleTx :: "netenv \<Rightarrow> bytes \<Rightarrow> peer \<times> server \<Rightarrow> peer \<times> server" where
  "handleTx ne payload c =
     (case c of (p, sv) \<Rightarrow>
        let st = nd_st (sv_node sv); tx_hash = ev_sha (ne_ev ne) payload in
        if has_transaction st tx_hash then (p, sv)
        else if length payload > kMaxTxJsonBytes then (increaseBanScore 10 p, sv)
        else if too_many_inputs (ne_ev ne) payload then (increaseBanScore 10 p, sv)
        else
          (case add_transaction st \<lparr>mt_hash = tx_hash, mt_data = payload, mt_timestamp = ev_now (ne_ev ne), mt_fee = 0\<rparr> of
             (added, st') \<Rightarrow>
               (p, (if added then broadcastInv \<lparr>iv_type = INV_TX, iv_hash = tx_hash\<rparr> else (\<lambda>sv. sv))
                     (sv\<lparr>sv_node := (sv_node sv)\<lparr>nd_st := st'\<rparr>\<rparr>))))"

end
