(* ===== verification/Frame.thy ===== *)
theory Frame
  imports Sync Wire_Laws Mempool_Send
begin

text \<open>
  The message loop of a connection, \<open>processMessages\<close> (p2p.cpp): the frames in the receive buffer, the
  dispatch to the handlers, and the bans. The result does not depend on how the bytes are cut into
  reads: the messages are handled one by one, as they were framed by the sender.
\<close>

subsection \<open>One frame\<close>

datatype frame_read = F_More | F_Bad | F_Msg msg_type bytes bytes

definition frame_len :: "bytes \<Rightarrow> u32" where
  "frame_len buf =
     ucast (buf ! 1) OR push_bit 8 (ucast (buf ! 2)) OR push_bit 16 (ucast (buf ! 3)) OR push_bit 24 (ucast (buf ! 4))"

definition next_frame :: "bytes \<Rightarrow> frame_read" where
  "next_frame buf =
     (if length buf < 5 then F_More
      else
        let code = unat (buf ! 0); len = unat (frame_len buf) in
        if code \<ge> length msg_types \<or> len > unat kMaxMessageBytes then F_Bad
        else if msg_types ! code = M_Block \<and> len > kMaxBlockBytes then F_Bad
        else if msg_types ! code = M_Tx \<and> len > kMaxTxJsonBytes then F_Bad
        else if length buf < 5 + len then F_More
        else F_Msg (msg_types ! code) (take len (drop 5 buf)) (drop (5 + len) buf))"

lemma next_frame_shorter: "next_frame buf = F_Msg ty payload rest \<Longrightarrow> length rest < length buf"
  by (auto simp: next_frame_def Let_def split: if_splits)

lemma next_frame_append:
  "next_frame a = F_Bad \<Longrightarrow> next_frame (a @ b) = F_Bad"
  "next_frame a = F_Msg ty payload rest \<Longrightarrow> next_frame (a @ b) = F_Msg ty payload (rest @ b)"
proof -
  have l: "5 \<le> length a \<Longrightarrow> frame_len (a @ b) = frame_len a" by (simp add: frame_len_def nth_append)
  have h: "5 \<le> length a \<Longrightarrow> (a @ b) ! 0 = a ! 0" by (cases a) auto
  show "next_frame a = F_Bad \<Longrightarrow> next_frame (a @ b) = F_Bad"
    by (cases "5 \<le> length a") (auto simp: next_frame_def Let_def l h split: if_splits)
  show "next_frame a = F_Msg ty payload rest \<Longrightarrow> next_frame (a @ b) = F_Msg ty payload (rest @ b)"
    by (cases "5 \<le> length a") (auto simp: next_frame_def Let_def l h split: if_splits)
qed

subsection \<open>The loop\<close>

function drain ::
  "(msg_type \<Rightarrow> bytes \<Rightarrow> 'c \<Rightarrow> 'c) \<Rightarrow> ('c \<Rightarrow> bool) \<Rightarrow> ('c \<Rightarrow> bool) \<Rightarrow> ('c \<Rightarrow> 'c) \<Rightarrow> ('c \<Rightarrow> 'c) \<Rightarrow> bytes \<Rightarrow> 'c \<Rightarrow> bytes \<times> 'c" where
  "drain dispatch alive banned close expel buf c =
     (case next_frame buf of
        F_More \<Rightarrow> (buf, c)
      | F_Bad \<Rightarrow> ([], close c)
      | F_Msg ty payload rest \<Rightarrow>
          (let c' = dispatch ty payload c in
           if \<not> alive c' then ([], c')
           else if banned c' then ([], expel c')
           else drain dispatch alive banned close expel rest c'))"
  by pat_completeness auto
termination
  by (relation "measure (\<lambda>(d, a, b, cl, e, buf, c). length buf)") (auto dest: next_frame_shorter)

declare drain.simps [simp del]

text \<open>The messages one after the other, without any framing.\<close>

fun handle_all ::
  "(msg_type \<Rightarrow> bytes \<Rightarrow> 'c \<Rightarrow> 'c) \<Rightarrow> ('c \<Rightarrow> bool) \<Rightarrow> ('c \<Rightarrow> bool) \<Rightarrow> ('c \<Rightarrow> 'c) \<Rightarrow> (msg_type \<times> bytes) list \<Rightarrow> 'c \<Rightarrow> 'c" where
  "handle_all dispatch alive banned expel [] c = c"
| "handle_all dispatch alive banned expel ((ty, payload) # msgs) c =
     (let c' = dispatch ty payload c in
      if \<not> alive c' then c'
      else if banned c' then expel c'
      else handle_all dispatch alive banned expel msgs c')"

definition fits_frame :: "msg_type \<times> bytes \<Rightarrow> bool" where
  "fits_frame m \<longleftrightarrow>
     length (snd m) \<le> unat kMaxMessageBytes \<and> (fst m = M_Block \<longrightarrow> length (snd m) \<le> kMaxBlockBytes) \<and>
     (fst m = M_Tx \<longrightarrow> length (snd m) \<le> kMaxTxJsonBytes)"

lemma type_code_nth: "unat (type_code ty) < length msg_types \<and> msg_types ! unat (type_code ty) = ty"
  by (cases ty) (simp_all add: msg_types_def)

lemma frame_len_write: "frame_len (writeUint32 [code] n @ rest) = n"
proof -
  have "readUint32 (writeUint32 [code] n @ rest) 1 = Got (n, 5)"
    using w32.rd_wr_at [where x = n and n = 1 and pre = "[code]" and post = rest] by (simp add: writeUint32_layout)
  then show ?thesis by (simp add: readUint32_def frame_len_def del: One_nat_def split: if_splits)
qed

lemma next_frame_written:
  assumes "fits_frame (ty, payload)"
  shows "next_frame (frame_msg ty payload @ rest) = F_Msg ty payload rest"
proof -
  let ?b = "frame_msg ty payload @ rest"
  have len: "length (writeUint32 [type_code ty] n) = 5" for n by (simp add: writeUint32_def)
  have "length payload \<le> unat kMaxMessageBytes" using assms by (simp add: fits_frame_def)
  then have u: "unat (of_nat (length payload) :: u32) = length payload"
    by (simp add: kMaxMessageBytes_def unat_of_nat_u32)
  have "frame_len ?b = of_nat (length payload)" by (simp add: frame_msg_def frame_len_write)
  with u have l: "unat (frame_len ?b) = length payload" by simp
  have c: "?b ! 0 = type_code ty" by (simp add: frame_msg_def writeUint32_def)
  have t: "take (length payload) (drop 5 ?b) = payload" "drop (5 + length payload) ?b = rest" "length ?b \<ge> 5 + length payload"
    using len by (simp_all add: frame_msg_def)
  show ?thesis
    using assms type_code_nth [of ty] t l c by (auto simp: next_frame_def Let_def fits_frame_def)
qed

locale framing =
  fixes dispatch :: "msg_type \<Rightarrow> bytes \<Rightarrow> 'c \<Rightarrow> 'c" and alive banned :: "'c \<Rightarrow> bool" and close expel :: "'c \<Rightarrow> 'c"
  assumes close_dead: "\<not> alive (close c)" and expel_dead: "\<not> alive (expel c)"
begin

lemma drain_append:
  "drain dispatch alive banned close expel (a @ b) c =
     (case drain dispatch alive banned close expel a c of
        (rest, c') \<Rightarrow> if rest = [] \<and> \<not> alive c' then ([], c') else drain dispatch alive banned close expel (rest @ b) c')"
  if "alive c"
  using that
proof (induction "length a" arbitrary: a c rule: less_induct)
  case less
  show ?case
  proof (cases "next_frame a")
    case F_More
    then have "drain dispatch alive banned close expel a c = (a, c)" by (subst drain.simps) simp
    with less.prems show ?thesis by simp
  next
    case F_Bad
    then have "next_frame (a @ b) = F_Bad" by (rule next_frame_append)
    then have "drain dispatch alive banned close expel (a @ b) c = ([], close c)"
      "drain dispatch alive banned close expel a c = ([], close c)"
      using F_Bad by (subst drain.simps; simp)+
    then show ?thesis by (simp add: close_dead)
  next
    case (F_Msg ty payload rest)
    note m = F_Msg next_frame_append(2) [OF F_Msg, of b]
    let ?c = "dispatch ty payload c"
    have d: "drain dispatch alive banned close expel (a @ b) c =
        (if \<not> alive ?c then ([], ?c) else if banned ?c then ([], expel ?c)
         else drain dispatch alive banned close expel (rest @ b) ?c)"
      "drain dispatch alive banned close expel a c =
        (if \<not> alive ?c then ([], ?c) else if banned ?c then ([], expel ?c)
         else drain dispatch alive banned close expel rest ?c)"
      using m by (subst drain.simps; simp add: Let_def)+
    show ?thesis
      using less.hyps [OF next_frame_shorter [OF F_Msg], of ?c] by (simp add: d expel_dead)
  qed
qed

lemma drain_ends:
  assumes "drain dispatch alive banned close expel a c = (rest, c')" "alive c"
  shows "if alive c' then next_frame rest = F_More else rest = []"
  using assms
proof (induction "length a" arbitrary: a c rule: less_induct)
  case less
  show ?case
  proof (cases "next_frame a")
    case (F_Msg ty payload r)
    let ?c = "dispatch ty payload c"
    have "drain dispatch alive banned close expel a c =
        (if \<not> alive ?c then ([], ?c) else if banned ?c then ([], expel ?c)
         else drain dispatch alive banned close expel r ?c)"
      by (subst drain.simps) (simp add: F_Msg Let_def)
    with less.prems less.hyps [OF next_frame_shorter [OF F_Msg], of ?c] show ?thesis
      by (auto simp: expel_dead split: if_splits)
  qed (use less.prems in \<open>subst (asm) drain.simps, auto simp: close_dead\<close>)+
qed

lemma drain_keeps:
  assumes "\<And>ty payload c. f (dispatch ty payload c) = f c"
    "drain dispatch alive banned close expel a c = (rest, c')" "alive c'"
  shows "f c' = f c"
  using assms(2,3)
proof (induction "length a" arbitrary: a c rule: less_induct)
  case less
  show ?case
  proof (cases "next_frame a")
    case (F_Msg ty payload r)
    let ?c = "dispatch ty payload c"
    have "drain dispatch alive banned close expel a c =
        (if \<not> alive ?c then ([], ?c) else if banned ?c then ([], expel ?c)
         else drain dispatch alive banned close expel r ?c)"
      by (subst drain.simps) (simp add: F_Msg Let_def)
    with less.prems less.hyps [OF next_frame_shorter [OF F_Msg], of ?c] assms(1) [of ty payload c] show ?thesis
      by (auto simp: expel_dead split: if_splits)
  qed (use less.prems in \<open>subst (asm) drain.simps, auto simp: close_dead\<close>)+
qed

lemma drain_frames:
  "list_all fits_frame msgs \<Longrightarrow>
   drain dispatch alive banned close expel (concat (map (\<lambda>(ty, payload). frame_msg ty payload) msgs)) c =
     ([], handle_all dispatch alive banned expel msgs c)"
proof (induction msgs arbitrary: c)
  case Nil
  then show ?case by (subst drain.simps) (simp add: next_frame_def)
next
  case (Cons m msgs)
  obtain ty payload where m: "m = (ty, payload)" by (cases m)
  have n: "next_frame (concat (map (\<lambda>(ty, payload). frame_msg ty payload) (m # msgs))) =
      F_Msg ty payload (concat (map (\<lambda>(ty, payload). frame_msg ty payload) msgs))"
    using Cons.prems next_frame_written [of ty payload] by (simp add: m)
  show ?case
    by (subst drain.simps) (use n Cons in \<open>simp add: m Let_def\<close>)
qed

end


subsection \<open>The connection\<close>

fun dispatch_msg :: "netenv \<Rightarrow> msg_type \<Rightarrow> bytes \<Rightarrow> peer \<times> server \<Rightarrow> peer \<times> server" where
  "dispatch_msg ne M_Version payload c = handleVersion ne payload c"
| "dispatch_msg ne M_Verack payload c = handleVerack ne c"
| "dispatch_msg ne M_Addr payload c = handleAddr ne payload c"
| "dispatch_msg ne M_Inv payload c = handleInv ne payload c"
| "dispatch_msg ne M_Getdata payload c = handleGetData ne payload c"
| "dispatch_msg ne M_Getheaders payload c = handleGetHeaders ne payload c"
| "dispatch_msg ne M_Headers payload c = handleHeaders ne payload c"
| "dispatch_msg ne M_Block payload c = handleBlock ne payload c"
| "dispatch_msg ne M_Tx payload c = handleTx ne payload c"
| "dispatch_msg ne M_Ping payload c = handlePing ne payload c"
| "dispatch_msg ne M_Pong payload c = handlePong ne payload c"
| "dispatch_msg ne M_Threat_Alert payload c = handleThreatAlert ne payload c"
| "dispatch_msg ne M_Reject payload c = c"
| "dispatch_msg ne M_Getblocks payload c = c"

text \<open>A connection goes on while its socket is open and the process runs.\<close>

definition conn_alive :: "peer \<times> server \<Rightarrow> bool" where
  "conn_alive c \<longleftrightarrow> (case c of (p, sv) \<Rightarrow> pr_open p \<and> \<not> sv_down sv)"

definition conn_banned :: "peer \<times> server \<Rightarrow> bool" where
  "conn_banned c \<longleftrightarrow> shouldBan (fst c)"

definition conn_close :: "peer \<times> server \<Rightarrow> peer \<times> server" where
  "conn_close c = (case c of (p, sv) \<Rightarrow> (disconnectPeer p, sv))"

definition conn_expel :: "netenv \<Rightarrow> peer \<times> server \<Rightarrow> peer \<times> server" where
  "conn_expel ne c = (case c of (p, sv) \<Rightarrow> (disconnectPeer p, ban_ip ne (pa_ip (pr_addr p)) sv))"

text \<open>What \<open>recv\<close> gives: at most 4096 bytes, nothing yet, or the end of the connection.\<close>

datatype received = R_Data bytes | R_Nothing | R_Closed

definition processMessages :: "netenv \<Rightarrow> received \<Rightarrow> bytes \<times> peer \<times> server \<Rightarrow> bytes \<times> peer \<times> server" where
  "processMessages ne r s =
     (case s of (buf, p, sv) \<Rightarrow>
        if \<not> conn_alive (p, sv) then s
        else (case r of
                R_Closed \<Rightarrow> (buf, disconnectPeer p, sv)
              | R_Nothing \<Rightarrow> s
              | R_Data chunk \<Rightarrow>
                  drain (dispatch_msg ne) conn_alive conn_banned conn_close (conn_expel ne) (buf @ chunk)
                    (p\<lparr>pr_last_recv := ne_ticks ne\<rparr>, sv)))"

interpretation conn: framing "dispatch_msg ne" conn_alive conn_banned conn_close "conn_expel ne"
  by unfold_locales (auto simp: conn_alive_def conn_close_def conn_expel_def disconnectPeer_def split: prod.splits)

subsection \<open>The time of the last read\<close>

lemma send_recv [simp]:
  "pr_last_recv (sendMessage ne ty payload p) = pr_last_recv p"
  "pr_last_recv (increaseBanScore n p) = pr_last_recv p" "pr_last_recv (disconnectPeer p) = pr_last_recv p"
  "pr_last_recv (sendVerack ne p) = pr_last_recv p" "pr_last_recv (sendAddr ne sv p) = pr_last_recv p"
  by (simp_all add: sendMessage_def increaseBanScore_def disconnectPeer_def sendVerack_def sendAddr_def Let_def)

lemma send2_recv [simp]:
  "pr_last_recv (fst (ask_headers ne c)) = pr_last_recv (fst c)" "pr_last_recv (fst (sendVersion ne c)) = pr_last_recv (fst c)"
  "pr_last_recv (fst (overrun c)) = pr_last_recv (fst c)"
  by (auto simp: ask_headers_def sendVersion_def overrun_def Let_def split: prod.splits option.splits)

lemma fold_reply_recv [simp]: "pr_last_recv (fold (send_reply ne st) invs p) = pr_last_recv p"
  by (induction invs arbitrary: p) (auto simp: send_reply_def split: option.splits)

lemma block_recv: "pr_last_recv (fst (handleBlock ne payload c)) = pr_last_recv (fst c)"
  by (auto simp: handleBlock_def handle_json_block_def handle_binary_block_def block_rejected_def Let_def
      split: prod.splits option.splits submitted.splits read.splits bool.splits)

lemma dispatch_recv: "pr_last_recv (fst (dispatch_msg ne ty payload c)) = pr_last_recv (fst c)"
proof (cases ty)
  case M_Block
  then show ?thesis by (simp add: block_recv)
qed (cases c; auto simp: handleVersion_def handleVerack_def handleAddr_def handleInv_def handleGetData_def handleGetHeaders_def
    handleHeaders_def handleTx_def handlePing_def handlePong_def handleThreatAlert_def activateCoordinatedDefense_def Let_def
    split: read.splits option.splits header_walk.splits prod.splits)+


subsection \<open>Property\<close>

abbreviation conn_drain :: "netenv \<Rightarrow> bytes \<Rightarrow> peer \<times> server \<Rightarrow> bytes \<times> peer \<times> server" where
  "conn_drain ne \<equiv> drain (dispatch_msg ne) conn_alive conn_banned conn_close (conn_expel ne)"

definition read_chunks :: "netenv \<Rightarrow> bytes list \<Rightarrow> bytes \<times> peer \<times> server \<Rightarrow> bytes \<times> peer \<times> server" where
  "read_chunks ne chunks s = fold (\<lambda>chunk s. processMessages ne (R_Data chunk) s) chunks s"

lemma read_chunks_dead: "\<not> conn_alive c \<Longrightarrow> read_chunks ne chunks (buf, c) = (buf, c)"
  by (induction chunks) (auto simp: read_chunks_def processMessages_def split: prod.splits)

lemma read_chunks_drain:
  assumes "conn_alive c" "pr_last_recv (fst c) = ne_ticks ne" "next_frame buf = F_More"
  shows "read_chunks ne chunks (buf, c) = conn_drain ne (buf @ concat chunks) c"
  using assms
proof (induction chunks arbitrary: buf c)
  case Nil
  then show ?case by (simp add: read_chunks_def) (subst drain.simps, simp)
next
  case (Cons chunk chunks)
  obtain p sv where c: "c = (p, sv)" by (cases c)
  have same: "(p\<lparr>pr_last_recv := ne_ticks ne\<rparr>, sv) = c" using Cons.prems(2) by (simp add: c)
  obtain rest c' where d: "conn_drain ne (buf @ chunk) c = (rest, c')" by (metis surj_pair)
  have step: "read_chunks ne (chunk # chunks) (buf, c) = read_chunks ne chunks (rest, c')"
    using Cons.prems(1) d same by (simp add: read_chunks_def processMessages_def c)
  have app: "conn_drain ne (buf @ concat (chunk # chunks)) c =
      (if rest = [] \<and> \<not> conn_alive c' then ([], c') else conn_drain ne (rest @ concat chunks) c')"
    using conn.drain_append [OF Cons.prems(1), of ne "buf @ chunk" "concat chunks"] d by simp
  show ?case
  proof (cases "conn_alive c'")
    case True
    then have "next_frame rest = F_More" using conn.drain_ends [OF d Cons.prems(1)] by simp
    moreover have "pr_last_recv (fst c') = ne_ticks ne"
      using conn.drain_keeps [where f = "\<lambda>c. pr_last_recv (fst c)", OF dispatch_recv d True] Cons.prems(2) by simp
    ultimately show ?thesis using Cons.IH [OF True] True by (simp only: step app) simp
  next
    case False
    then have "rest = []" using conn.drain_ends [OF d Cons.prems(1)] by simp
    with False show ?thesis unfolding step app by (simp add: read_chunks_dead)
  qed
qed

text \<open>C27: How the bytes are cut into reads does not matter. Whatever sequence of reads delivers a stream of
  well-sized frames, the connection ends up as if its messages had been handled one after the other
  as they were sent, up to the first that closes the connection or brings the ban score to its limit, and
  nothing is left in the buffer.\<close>

theorem stream_delivers:
  assumes "conn_alive (p, sv)" "chunks \<noteq> []" "list_all fits_frame msgs"
    "concat chunks = concat (map (\<lambda>(ty, payload). frame_msg ty payload) msgs)"
  shows "read_chunks ne chunks ([], p, sv) =
    ([], handle_all (dispatch_msg ne) conn_alive conn_banned (conn_expel ne) msgs (p\<lparr>pr_last_recv := ne_ticks ne\<rparr>, sv))"
proof -
  let ?c = "(p\<lparr>pr_last_recv := ne_ticks ne\<rparr>, sv)"
  have alive: "conn_alive ?c" using assms(1) by (simp add: conn_alive_def)
  obtain chunk rest where ch: "chunks = chunk # rest" using assms(2) by (cases chunks) auto
  have "read_chunks ne chunks ([], p, sv) = read_chunks ne chunks ([], ?c)"
    using assms(1) alive by (simp add: ch read_chunks_def processMessages_def)
  also have "\<dots> = conn_drain ne (concat chunks) ?c"
    using read_chunks_drain [OF alive, of ne "[]" chunks] by (simp add: next_frame_def)
  finally show ?thesis using conn.drain_frames [OF assms(3), of ne ?c] by (simp add: assms(4))
qed


definition demo_net :: netenv where
  "demo_net = \<lparr>ne_ev = grab_env, ne_ok = (\<lambda>_. True), ne_ticks = 5, ne_nonce = 0, ne_own = (\<lambda>_. False),
     ne_sentinel = None, ne_pool_file = None, ne_pool_back = None, ne_stack = zero256, ne_start = 0, ne_suspicious = False,
     ne_unset_high = False\<rparr>"

definition demo_server :: server where
  "demo_server = \<lparr>sv_node = demo_node, sv_addrman = \<lparr>am_list = [], am_banned = []\<rparr>,
     sv_threats = \<lparr>th_attempts = [], th_messages = [], th_history = [], th_known = {}\<rparr>, sv_best_height = 0,
     sv_held = [], sv_refused = [], sv_bcast = [], sv_dial = [], sv_down = False\<rparr>"

definition demo_conn :: peer where
  "demo_conn = new_peer 0 no_addr True"

lemma stream_delivers_witness:
  "\<exists>p. read_chunks demo_net [take 3 (frame_msg M_Ping (serializePing 7)), drop 3 (frame_msg M_Ping (serializePing 7))]
      ([], demo_conn, demo_server) = ([], p, demo_server) \<and> pr_sent p = [(M_Pong, serializePong 7)]"
proof -
  have a: "conn_alive (demo_conn, demo_server)"
    by (simp add: conn_alive_def demo_conn_def new_peer_def demo_server_def)
  have f: "list_all fits_frame [(M_Ping, serializePing 7)]"
    by (simp add: fits_frame_def kMaxMessageBytes_def serializePing_def writeUint64_layout)
  have d: "deserializePing (serializePing 7) = Got (Some 7)" by code_simp
  have h: "handle_all (dispatch_msg demo_net) conn_alive conn_banned (conn_expel demo_net) [(M_Ping, serializePing 7)]
      (demo_conn\<lparr>pr_last_recv := ne_ticks demo_net\<rparr>, demo_server) =
      (demo_conn\<lparr>pr_last_recv := 5, pr_sent := [(M_Pong, serializePong 7)]\<rparr>, demo_server)"
    by (simp add: handlePing_def d sendMessage_def demo_conn_def new_peer_def demo_net_def conn_alive_def demo_server_def
        conn_banned_def shouldBan_def BAN_SCORE_THRESHOLD_def)
  from stream_delivers [OF a _ f, of "[take 3 (frame_msg M_Ping (serializePing 7)), drop 3 (frame_msg M_Ping (serializePing 7))]"
      demo_net] h show ?thesis by simp
qed

end
