(* ===== verification/Sync_Safe.thy ===== *)
theory Sync_Safe
  imports Frame Template_Mine
begin

text \<open>
  What a single peer can do with one message: a block that is not JSON takes the tip without proof
  of work, and a relayed transaction makes the node's block templates unminable.
\<close>

subsection \<open>A block that is not JSON\<close>

text \<open>Version, the tip's hash, an empty Merkle root, a time, difficulty 0 and nonce 0; then filler up to
  the 112 bytes the handler asks for.\<close>

definition free_block :: "h256 \<Rightarrow> u64 \<Rightarrow> bytes" where
  "free_block tip stamp =
     le_bytes 4 (1 :: u32) @ tip @ zero256 @ le_bytes 8 stamp @ le_bytes 4 (0 :: u32) @ le_bytes 8 (0 :: u64) @ replicate 24 0"

lemma length_free_block: "is_h256 tip \<Longrightarrow> length (free_block tip stamp) = 112"
  by (simp add: free_block_def is_h256_def zero256_def)

lemma free_block_header:
  assumes "is_h256 tip"
  shows "binary_header H (free_block tip stamp) =
    Got \<lparr>bh_version = 1, bh_prev = tip, bh_merkle = zero256, bh_timestamp = stamp, bh_difficulty = 0, bh_nonce = 0,
         bh_hash = H (free_block tip stamp), bh_height = 0\<rparr>"
proof -
  let ?b = "free_block tip stamp"
  have t: "take 112 ?b = ?b" using length_free_block [OF assms] by simp
  have z: "is_h256 zero256" by (simp add: is_h256_def zero256_def)
  have l: "length tip = 32" "length zero256 = 32" using assms z by (simp_all add: is_h256_def)
  have r: "readUint32 ?b 0 = Got (1, 4)"
    using w32.rd_wr_at [where x = "1 :: u32" and n = 0 and pre = "[]"] by (simp add: free_block_def)
  moreover have "copy32 ?b 4 = Got (tip, 36)"
    using w256.rd_wr_at [OF assms, where n = 4 and pre = "le_bytes 4 (1 :: u32)"] l by (simp add: free_block_def)
  moreover have "copy32 ?b 36 = Got (zero256, 68)"
    using w256.rd_wr_at [OF z, where n = 36 and pre = "le_bytes 4 (1 :: u32) @ tip"] l by (simp add: free_block_def)
  moreover have "readUint64 ?b 68 = Got (stamp, 76)"
    using w64.rd_wr_at [where x = stamp and n = 68 and pre = "le_bytes 4 (1 :: u32) @ tip @ zero256"] l by (simp add: free_block_def)
  moreover have "readUint32 ?b 76 = Got (0, 80)"
    using w32.rd_wr_at [where x = "0 :: u32" and n = 76 and pre = "le_bytes 4 (1 :: u32) @ tip @ zero256 @ le_bytes 8 stamp"] l
    by (simp add: free_block_def)
  moreover have "readUint64 ?b 80 = Got (0, 88)"
    using w64.rd_wr_at [where x = "0 :: u64" and n = 80 and pre =
      "le_bytes 4 (1 :: u32) @ tip @ zero256 @ le_bytes 8 stamp @ le_bytes 4 (0 :: u32)"] l
    by (simp add: free_block_def)
  ultimately show ?thesis by (simp add: binary_header_def t)
qed

lemma pow_difficulty_0: "validate_block_pow h 0"
  by (simp add: validate_block_pow_def)

lemma store_higher_wins:
  assumes "st_best_height st < bh_height header" "unat (bh_height header) < 2 ^ 32 - 1"
  shows "\<exists>st'. store_block_with_header st h header b True = Got (True, st') \<and>
    st_best_hash st' = h \<and> st_best_height st' = bh_height header \<and> st_utxo st' = st_utxo st"
proof -
  obtain st1 where a: "append_block st b True = (True, st1)"
    and same: "st_utxo st1 = st_utxo st" "st_best_height st1 = st_best_height st" "st_height_to_hash st1 = st_height_to_hash st"
    by (auto simp: append_block_def rotate_if_needed_def Let_def)
  have n: "unat (bh_height header + 1) = Suc (unat (bh_height header))"
    using assms(2) by (simp add: unat_word_ariths)
  show ?thesis
    using assms(1) by (auto simp: store_block_with_header_def a same Let_def n resize_def)
qed

text \<open>C25: A block that is not JSON takes the tip for free. A node with a tip to which a peer, handshake or not,
  sends 112 bytes that name the tip, a later time and difficulty 0 stores them as its new best block: no proof of
  work, no required difficulty, no hardware proof, no coinbase and no time limit is asked for, the coins, names
  and flags stay as they are, and the peer's ban score does not change.\<close>

theorem binary_block_takes_tip:
  assumes "get_header_by_hash (nd_st (sv_node sv)) (st_best_hash (nd_st (sv_node sv))) = Some tip"
    and "bh_hash tip = st_best_hash (nd_st (sv_node sv))" "bh_height tip = st_best_height (nd_st (sv_node sv))"
    and "is_h256 (bh_hash tip)" "unat (bh_height tip) < 2 ^ 32 - 2" "bh_timestamp tip < stamp" "ev_opened (ne_ev ne)"
  shows "\<exists>sv'. dispatch_msg ne M_Block (free_block (bh_hash tip) stamp) (p, sv) = (p, sv') \<and>
    st_best_hash (nd_st (sv_node sv')) = ev_sha (ne_ev ne) (free_block (bh_hash tip) stamp) \<and>
    st_best_height (nd_st (sv_node sv')) = bh_height tip + 1 \<and>
    st_utxo (nd_st (sv_node sv')) = st_utxo (nd_st (sv_node sv)) \<and>
    nd_names (sv_node sv') = nd_names (sv_node sv) \<and> nd_flags (sv_node sv') = nd_flags (sv_node sv)"
proof -
  let ?b = "free_block (bh_hash tip) stamp"
  let ?st = "nd_st (sv_node sv)"
  have len: "length ?b = 112" by (rule length_free_block [OF assms(4)])
  have b0: "?b ! 0 = 1" "?b \<noteq> []" by (simp_all add: free_block_def le_bytes_def upt_rec)
  have h1: "unat (bh_height tip + 1) = Suc (unat (bh_height tip))"
    using assms(5) by (simp add: unat_word_ariths)
  then have gt: "st_best_height ?st < bh_height tip + 1" using assms(3) by (simp add: word_less_nat_alt)
  have up: "bh_hash tip = bh_hash tip" "\<not> stamp \<le> bh_timestamp tip" "stamp \<noteq> 0"
    using assms(6) by (auto simp: not_le)
  let ?hd = "\<lparr>bh_version = 1, bh_prev = bh_hash tip, bh_merkle = zero256, bh_timestamp = stamp, bh_difficulty = 0, bh_nonce = 0,
       bh_hash = ev_sha (ne_ev ne) ?b, bh_height = bh_height tip + 1\<rparr>"
  obtain st' where s: "store_block_with_header ?st (ev_sha (ne_ev ne) ?b) ?hd ?b (ev_opened (ne_ev ne)) = Got (True, st')"
    and st': "st_best_hash st' = ev_sha (ne_ev ne) ?b" "st_best_height st' = bh_height tip + 1" "st_utxo st' = st_utxo ?st"
    using store_higher_wins [of ?st ?hd "ev_sha (ne_ev ne) ?b" ?b] gt h1 assms(5,7) by auto
  have "handleBlock ne ?b (p, sv) = (p, broadcastInv \<lparr>iv_type = INV_BLOCK, iv_hash = ev_sha (ne_ev ne) ?b\<rparr>
      (sv\<lparr>sv_node := (sv_node sv)\<lparr>nd_st := st'\<rparr>\<rparr>))"
    using assms(1,2) up s b0 len
    by (simp add: handleBlock_def handle_binary_block_def free_block_header [OF assms(4) [unfolded assms(2)]] pow_difficulty_0 Let_def
        validate_block_header_def)
  then show ?thesis using st' by (simp add: broadcastInv_def sendToAll_def)
qed


definition tip_header :: block_header where
  "tip_header = \<lparr>bh_version = 1, bh_prev = zero256, bh_merkle = zero256, bh_timestamp = 7, bh_difficulty = 24, bh_nonce = 0,
     bh_hash = digest7, bh_height = 5\<rparr>"

definition tip_server :: server where
  "tip_server = demo_server\<lparr>sv_node := demo_node\<lparr>nd_st := (storage_new [])\<lparr>st_headers := [(digest7, tip_header)],
     st_height_to_hash := replicate 6 digest7, st_best_hash := digest7, st_best_height := 5\<rparr>\<rparr>\<rparr>"

lemma binary_block_takes_tip_witness:
  "\<exists>sv'. dispatch_msg demo_net M_Block (free_block digest7 8) (demo_conn, tip_server) = (demo_conn, sv') \<and>
    st_best_height (nd_st (sv_node sv')) = 6"
proof -
  have "get_header_by_hash (nd_st (sv_node tip_server)) (st_best_hash (nd_st (sv_node tip_server))) = Some tip_header"
    by (simp add: tip_server_def get_header_by_hash_def tbl_get_def)
  moreover have "bh_hash tip_header = st_best_hash (nd_st (sv_node tip_server))"
    "bh_height tip_header = st_best_height (nd_st (sv_node tip_server))" "is_h256 (bh_hash tip_header)"
    "unat (bh_height tip_header) < 2 ^ 32 - 2" "bh_timestamp tip_header < 8" "ev_opened (ne_ev demo_net)"
    by (simp_all add: tip_server_def tip_header_def word_less_nat_alt demo_net_def grab_env_def)
  ultimately show ?thesis
    using binary_block_takes_tip [of tip_server tip_header 8 demo_net demo_conn] by (auto simp: tip_header_def)
qed

subsection \<open>A relayed transaction\<close>

text \<open>\<open>handleTx\<close> keys the transaction by the digest of the message, and its id becomes that digest.\<close>

lemma order_single: "order_txs [x] = [x]"
proof -
  have w: "waiting [x] [False] 0 = False" by (simp add: waiting_def list_ex_iff)
  have "order_pass [x] [False] [] = ([True], [x], True)"
    by (simp add: order_pass_def order_step_def w)
  then have "order_loop [x] [False] [] = ([True], [x])"
    by (subst order_loop.simps) simp
  then show ?thesis by (simp add: order_txs_def)
qed

definition relayed :: "env \<Rightarrow> bytes \<Rightarrow> mem_tx" where
  "relayed ev payload = \<lparr>mt_hash = ev_sha ev payload, mt_data = payload, mt_timestamp = ev_now ev, mt_fee = 0\<rparr>"

lemma handleTx_adds:
  assumes "st_mempool (nd_st (sv_node sv)) = []" "length payload \<le> kMaxTxJsonBytes"
    "\<not> too_many_inputs (ne_ev ne) payload"
  obtains sv' where "dispatch_msg ne M_Tx payload (p, sv) = (p, sv')"
    "nd_st (sv_node sv') = (nd_st (sv_node sv))\<lparr>st_mempool := [(ev_sha (ne_ev ne) payload, relayed (ne_ev ne) payload)]\<rparr>"
    "nd_names (sv_node sv') = nd_names (sv_node sv)"
  using assms
  by (simp add: handleTx_def has_transaction_def tbl_get_def add_transaction_def Let_def broadcastInv_def sendToAll_def
      relayed_def tbl_put_def)

lemma relayed_pool:
  assumes "st_mempool st = [(h, relayed ev payload)]" "ev_parse ev (string_of payload) = Some obj"
    "parse_tx ev obj (next_height_of st) = Inr tx"
  shows "mempool_txs ev st = [tx\<lparr>tx_txid := ev_sha ev payload\<rparr>]"
  using assms
  by (simp add: mempool_txs_def get_mempool_transactions_def List.map_filter_def stored_tx_def relayed_def order_single)

lemma merkle_root_two: "hash_fn H \<Longrightarrow> merkle_root H [a, b] = sha256_pair H a b"
  by (simp add: merkle_root_def) (subst merkle_loop.simps, simp add: merkle_level_def, subst merkle_loop.simps, simp)


text \<open>C26: One relayed transaction makes every template unminable. A node with an empty mempool that receives from
  any peer a well-formed transaction with inputs (its signatures and coins are not looked at) keeps it under the
  digest of the message. Unless the hash of a pair of ids collides, every block completed from a template of
  that node is then refused by the node itself, whatever work is put into it: the template's Merkle root is
  over the digest of the message, the block's over the id of the transaction.\<close>

theorem relayed_tx_spoils_template:
  fixes ne sv payload
  defines "ev \<equiv> ne_ev ne" and "st \<equiv> nd_st (sv_node sv)"
  assumes "st_mempool st = []" "length payload \<le> kMaxTxJsonBytes" "\<not> too_many_inputs ev payload"
    and "ev_parse ev (string_of payload) = Some obj" "parse_tx ev obj (next_height_of st) = Inr tx" "tx_inputs tx \<noteq> []"
    and "parse_tx ev (tx_to_json (tx\<lparr>tx_txid := ev_sha ev payload\<rparr>)) (next_height_of st) = Inr tx"
    and "resolve_output_names (ev_sha ev) (nd_names (sv_node sv)) tx = tx"
    and "hash_fn (ev_sha ev)" "\<And>c. is_h256 c \<Longrightarrow> sha256_pair (ev_sha ev) c (ev_sha ev payload) \<noteq> sha256_pair (ev_sha ev) c (tx_txid tx)"
    and "dispatch_msg ne M_Tx payload (p, sv) = (p', sv')"
    and "rpc_getblocktemplate ev rnd params (sv_node sv') = (Tpl_Block t, nd)"
  shows "p' = p \<and>
    (\<forall>d h dup. fst (rpc_submitblock (ev\<lparr>ev_now := later\<rparr>) (mined_block t model serial commitment nonce digest) k nd)
      \<noteq> Sub_Accepted d h dup)"
proof -
  let ?b = "mined_block t model serial commitment nonce digest" and ?ev = "ev\<lparr>ev_now := later\<rparr>"
  let ?tx = "tx\<lparr>tx_txid := ev_sha ev payload\<rparr>"
  obtain sv2 where sv2: "dispatch_msg ne M_Tx payload (p, sv) = (p, sv2)"
    "nd_st (sv_node sv2) = st\<lparr>st_mempool := [(ev_sha ev payload, relayed ev payload)]\<rparr>"
    "nd_names (sv_node sv2) = nd_names (sv_node sv)"
    using handleTx_adds [OF assms(3-5) [unfolded ev_def st_def]] by (metis ev_def st_def)
  then have sv': "sv' = sv2" "p' = p" using assms(13) by simp_all
  let ?st = "nd_st (sv_node sv')"
  have nh: "next_height_of ?st = next_height_of st" by (simp add: sv' sv2 next_height_of_def has_tip_def)
  have pool: "mempool_txs ev ?st = [?tx]"
  proof (rule relayed_pool [OF _ assms(6)])
    show "st_mempool ?st = [(ev_sha ev payload, relayed ev payload)]" by (simp add: sv' sv2)
    show "parse_tx ev obj (next_height_of ?st) = Inr tx" by (simp only: nh assms(7))
  qed
  have mined: "mined_txs [?tx] = [?tx]" using assms(8) by (simp add: mined_txs_def)
  obtain shown payout validator stamp c ch w e cb_outs cb root where
    cb: "cb = coinbase_from (ev_sha ev) (st_best_height ?st + 1) cb_outs"
    and root: "root = merkle_root (ev_sha ev) [tx_txid cb, ev_sha ev payload]"
    and t: "t = template_json (st_best_height ?st + 1) (expect_prev ?st) stamp (next_difficulty ?st) e
       (coinbase_body shown (st_best_height ?st + 1) e cb cb_outs) cb root [?tx] c"
    and nd: "nd = (sv_node sv')\<lparr>nd_template := ev_now ev, nd_chal := ch\<rparr>"
    by (rule template_shape [OF assms(14), unfolded pool mined]) (rule that; simp)
  have idc: "is_h256 (tx_txid cb)" using hash_fn.H_length [OF assms(11)] by (simp add: cb coinbase_from_def txid_of_def Let_def)
  have False if acc: "fst (rpc_submitblock ?ev ?b k nd) = Sub_Accepted d h dup" for d h dup
  proof -
    have o: "as_object_param q ?b = ?b" for q by (simp add: as_object_param_def mined_block_def t template_json_def)
    obtain nd2 where "rpc_submitblock ?ev ?b k nd = (Sub_Accepted d h dup, nd2)" using acc by (metis prod.collapse)
    from submit_accepted [OF this] obtain hh root' where
      head: "submit_head ?ev nd k ?b = Go hh" and work: "submit_work ?ev (bk_fields hh) (bk_prev hh) (bk_cb hh # bk_txs hh) = Go (root', d)"
      unfolding o by metis
    from head obtain f shown' payout' prev ch' s' txs outs cb' where
      f: "submit_fields ?b = Go f" and link: "submit_link ?ev nd f k = Go (prev, ch', s')"
      and txs: "submit_txs ?ev (nd_names nd) f = Go txs" and cbo: "submit_coinbase ?ev f payout' txs = Go (outs, cb')"
      and hh: "bk_fields hh = f" "bk_txs hh = txs" "bk_cb hh = cb'"
      by (auto simp: submit_head_def)
    have fb: "sb_block f = ?b" "jstring ?b ''merkle_root'' = Some (sb_merkle_hex f)" "jobject ?b ''coinbase'' = Some (sb_coinbase f)"
      using f by (auto simp: submit_fields_def)
    have merkle: "sb_merkle_hex f = to_hex root"
      using fb(2) by (simp add: jstring_def mined_block_def t template_json_def)
    have coinbase: "sb_coinbase f = coinbase_body shown (st_best_height ?st + 1) e cb cb_outs"
      using fb(3) by (simp add: jobject_def mined_block_def t template_json_def coinbase_body_def)
    have height: "sb_height f = next_height_of st"
      using link by (auto simp: submit_link_def Let_def nd nh [symmetric])
    have "jget ?b ''txs'' = Some (JArray [tx_to_json ?tx])"
      by (simp add: mined_block_def t spendable_txs_template [OF refl] mined) (simp add: template_json_def)
    moreover have "parse_tx ?ev (tx_to_json ?tx) (next_height_of st) = Inr tx"
      using assms(9) by (simp add: dump_size_def [abs_def])
    ultimately have "txs = [tx]"
      using txs assms(10) by (simp add: submit_txs_def fb(1) height nd sv' sv2)
    moreover have "tx_txid cb' = tx_txid cb"
      using cbo by (auto simp: submit_coinbase_def coinbase Let_def coinbase_body_def jstring_def)
    ultimately have "from_hex (to_hex root) = Some (merkle_root (ev_sha ev) [tx_txid cb, tx_txid tx])"
      using work by (auto simp: submit_work_def hh merkle Let_def)
    moreover have "is_h256 root" by (simp add: root merkle_root_two [OF assms(11)] sha256_pair_def hash_fn.H_length [OF assms(11)])
    ultimately show False
      using assms(12) [OF idc] by (simp add: root merkle_root_two [OF assms(11)])
  qed
  then show ?thesis using sv' by blast
qed


text \<open>A hash that gives the second half of a pair, to see the ids apart.\<close>

definition pair_hash :: "bytes \<Rightarrow> h256" where
  "pair_hash m = (if length m = 64 then map (\<lambda>i. m ! (32 + i)) [0..<32] else if length m = 2 then zero256 else digest7)"

definition relay_net :: netenv where
  "relay_net = demo_net\<lparr>ne_ev := grab_env\<lparr>ev_sha := pair_hash, ev_parse := \<lambda>_. Some demo_doc, ev_now := 100\<rparr>\<rparr>"

lemma pair_hash_fn: "hash_fn pair_hash"
  by unfold_locales (simp add: pair_hash_def is_h256_def zero256_def digest7_def)

lemma demo_canonical: "length (canonical_tx (demo_tx\<lparr>tx_txid := h\<rparr>)) = 77"
  by (simp add: canonical_tx_def Let_def layout append_text_def str16_def demo_tx_def tx_default_def demo_in_def demo_out_def zero256_def)


lemma relay_parses:
  assumes "is_object obj" "juint obj ''version'' = Some 1" "jget obj ''fee'' = Some fee_field"
    "fee_field = JString ''0.001'' \<or> fee_field = JUint 1" "jstring obj ''type'' = None"
    "jget obj ''inputs'' = Some (JArray [txin_to_json demo_in])" "jget obj ''outputs'' = Some (JArray [txout_to_json demo_out])"
  shows "parse_user_tx pair_hash (\<lambda>_. 0) obj 1 = Inr (demo_tx\<lparr>tx_txid := digest7\<rparr>)"
proof -
  have "parse_314st_pi ''0.001'' = Inr 1000" by code_simp
  moreover have "\<not> (3000 :: u32) \<le> 1" by (simp add: word_le_nat_alt)
  ultimately have fee: "stored_from_json_amount fee_field 1 True = Inr 1"
    using assms(4) by (auto simp: stored_from_json_amount_def emission_consts stored_checked_def min_fee_for_height_def)
  have i: "parse_inputs (JArray [txin_to_json demo_in]) = Inr [demo_in]"
    by (simp add: parse_inputs_def parse_input_print demo_in_def)
  have o: "parse_outputs (JArray [txout_to_json demo_out]) 1 = Inr [demo_out]"
    by (simp add: parse_outputs_def parse_output_def demo_out_def txout_to_json_def jstring_def
        stored_from_json_amount_def stored_checked_def)
  have c: "length (canonical_tx (tx_default\<lparr>tx_fee := 1, tx_inputs := [demo_in], tx_outputs := [demo_out]\<rparr>)) = 77"
    using demo_canonical [of zero256] by (simp add: demo_tx_def tx_default_def canonical_tx_def Let_def)
  show ?thesis
    using assms fee i o c
    by (simp add: parse_user_tx_def demo_tx_def kMaxTxJsonBytes_def parse_body_def kMaxTxInputs_def Let_def kMaxTxBytes_def
        pair_hash_def)
qed


lemma relay_env: "dump_size (ne_ev relay_net) = (\<lambda>_. 0)" "ev_sha (ne_ev relay_net) = pair_hash" "ev_now (ne_ev relay_net) = 100"
  "ev_parse (ne_ev relay_net) = (\<lambda>_. Some demo_doc)"
  by (simp_all add: relay_net_def grab_env_def dump_size_def fun_eq_iff)

lemma demo_doc_parses: "parse_tx (ne_ev relay_net) demo_doc 1 = Inr (demo_tx\<lparr>tx_txid := digest7\<rparr>)"
  unfolding relay_env by (rule relay_parses [where fee_field = "JString ''0.001''"]) (simp_all add: demo_doc_def juint_def jstring_def)

lemma demo_print_parses:
  "parse_tx (ne_ev relay_net) (tx_to_json (demo_tx\<lparr>tx_txid := h\<rparr>)) 1 = Inr (demo_tx\<lparr>tx_txid := digest7\<rparr>)"
  unfolding relay_env
  by (rule relay_parses [where fee_field = "JUint 1"])
    (simp_all add: tx_to_json_def demo_tx_def tx_default_def juint_def jstring_def)

definition relay_payload :: bytes where
  "relay_payload = bytes_of ''{}''"

lemma relay_template:
  assumes "dispatch_msg relay_net M_Tx relay_payload (demo_conn, demo_server) = (demo_conn, sv')"
  shows "\<exists>t nd. rpc_getblocktemplate (ne_ev relay_net) (Some digest7) (JArray [JString kFoundationPayout]) (sv_node sv') = (Tpl_Block t, nd)"
proof -
  have "sv_node sv' = demo_node\<lparr>nd_st := nd_st (sv_node sv')\<rparr>" "st_height_to_hash (nd_st (sv_node sv')) = []"
    using assms by (auto simp: handleTx_def Let_def demo_server_def demo_node_def storage_new_def has_transaction_def
        tbl_get_def add_transaction_def broadcastInv_def sendToAll_def increaseBanScore_def split: if_splits)
  then have n: "nd_names (sv_node sv') = []" "template_stamp 100 (nd_st (sv_node sv')) = Some 100"
    by (simp_all add: demo_node_def template_stamp_def has_tip_def) (metis node.select_convs(2) node.update_convs(1) demo_node_def)
  have w: "wallet_ps1 kFoundationPayout = Some kFoundationPayout"
    by (simp add: wallet_ps1_def kFoundationPayout_def is_long_address_def lower_ascii_def lower_hex_map lower_hex_char_def
        in_range_def Let_def)
  have r: "resolve_miner [] kFoundationPayout = Inr (kFoundationPayout, kFoundationPayout)"
    using w by (simp add: resolve_miner_def) (simp add: kFoundationPayout_def)
  have v: "template_validator (ne_ev relay_net) [] (JArray [JString kFoundationPayout]) = Inr kFoundationPayout"
    by (simp add: template_validator_def as_object_param_def relay_env demo_doc_def)
  show ?thesis
    using n r v by (simp add: rpc_getblocktemplate_def rpc_note_template_request_def wallet_from_params_def Let_def template_block_def
        relay_env split: prod.splits)
qed

lemma relayed_tx_spoils_template_witness:
  "\<exists>t nd. \<forall>later model serial commitment nonce digest k d h dup.
     fst (rpc_submitblock ((ne_ev relay_net)\<lparr>ev_now := later\<rparr>) (mined_block t model serial commitment nonce digest) k nd)
       \<noteq> Sub_Accepted d h dup"
proof -
  let ?ev = "ne_ev relay_net"
  have st: "next_height_of (nd_st (sv_node demo_server)) = 1" "st_mempool (nd_st (sv_node demo_server)) = []"
    "nd_names (sv_node demo_server) = []"
    by (simp_all add: demo_server_def demo_node_tip) (simp_all add: demo_node_def storage_new_def)
  have many: "\<not> too_many_inputs ?ev relay_payload"
    by (simp add: too_many_inputs_def relay_env demo_doc_def jarray_def kMaxTxInputs_def)
  have len: "length relay_payload = 2" by (simp add: relay_payload_def bytes_of_def)
  obtain sv' where sv': "dispatch_msg relay_net M_Tx relay_payload (demo_conn, demo_server) = (demo_conn, sv')"
    by (rule handleTx_adds [of demo_server relay_payload relay_net demo_conn]) (use st many len in \<open>simp_all add: kMaxTxJsonBytes_def\<close>)
  from relay_template [OF this] obtain t nd where
    t: "rpc_getblocktemplate ?ev (Some digest7) (JArray [JString kFoundationPayout]) (sv_node sv') = (Tpl_Block t, nd)" by blast
  let ?tx = "demo_tx\<lparr>tx_txid := digest7\<rparr>"
  have p1: "parse_tx ?ev demo_doc (next_height_of (nd_st (sv_node demo_server))) = Inr ?tx"
    "parse_tx ?ev (tx_to_json (?tx\<lparr>tx_txid := ev_sha ?ev relay_payload\<rparr>)) (next_height_of (nd_st (sv_node demo_server))) = Inr ?tx"
    using demo_doc_parses demo_print_parses by (simp_all add: st)
  have r: "resolve_output_names (ev_sha ?ev) (nd_names (sv_node demo_server)) ?tx = ?tx"
    by (simp add: resolve_output_names_def st resolve_address_def lookup_name_def find_name_def demo_tx_def Let_def)
  have apart: "sha256_pair (ev_sha ?ev) c (ev_sha ?ev relay_payload) \<noteq> sha256_pair (ev_sha ?ev) c (tx_txid ?tx)" if "is_h256 c" for c
  proof -
    have half: "pair_hash (c @ x) = x" if "length x = 32" for x
      using \<open>is_h256 c\<close> that by (simp add: pair_hash_def is_h256_def nth_append list_eq_iff_nth_eq)
    have "pair_hash relay_payload = zero256" by (simp add: pair_hash_def len)
    then show ?thesis
      using half [of zero256] half [of digest7]
      by (simp add: sha256_pair_def append_bytes_def relay_env) (simp add: zero256_def digest7_def)
  qed
  have "tx_inputs ?tx \<noteq> []" "length relay_payload \<le> kMaxTxJsonBytes" "ev_parse ?ev (string_of relay_payload) = Some demo_doc"
    "hash_fn (ev_sha ?ev)"
    using pair_hash_fn by (simp_all add: demo_tx_def len kMaxTxJsonBytes_def relay_env)
  from relayed_tx_spoils_template [OF st(2) this(2) many this(3) p1(1) this(1) p1(2) r this(4) apart sv' t] show ?thesis by blast
qed

end
