(* ===== verification/Rpc.thy ===== *)
theory Rpc
  imports Template Queries Sync
begin

text \<open>
  The JSON-RPC front of the daemon on its WebSocket (ws_server.cpp): the methods, the answer to a
  request, and the receive callback that puts the fragments of a message together, with its limits.
  The chain, the names and the peers are the state; a reply is the JSON document that is sent.

  \<open>rpc_env\<close> holds what a request takes from outside: the environment of the handlers, the random
  bytes of a challenge, which wallet files exist, the text of an exception of the library, the number
  of peers, the answers of the methods on peers, threats, validator purse and releases, and the
  state of the purse that a subscriber is shown.
\<close>

datatype called = C_Result json | C_Throw string | C_Unknown | C_Down

record rpc_env =
  rq_net :: netenv
  rq_rnd :: "h256 option"
  rq_exists :: "string \<Rightarrow> bool"
  rq_what :: string
  rq_peers :: u32
  rq_other :: "string \<Rightarrow> json \<Rightarrow> called"
  rq_bucket :: "json option"

record ws_conn =
  wc_blocks :: bool
  wc_threats :: bool
  wc_bucket :: bool
  wc_rx :: string
  wc_skip :: bool

definition ws_new :: ws_conn where
  "ws_new = \<lparr>wc_blocks = False, wc_threats = False, wc_bucket = False, wc_rx = [], wc_skip = False\<rparr>"

definition kMaxWsMessage :: nat where "kMaxWsMessage = kMaxBlockBytes + 4096"

subsection \<open>Answers of the chain as documents\<close>

definition rejected :: "reason \<Rightarrow> json" where
  "rejected r = JObject [(''status'', JString ''rejected''), (''reason'', JString (reason_text r))]"

definition sent_json :: "h256 res \<Rightarrow> json" where
  "sent_json r =
     (case r of
        Inl why \<Rightarrow> rejected why
      | Inr txid \<Rightarrow> JObject [(''status'', JString ''accepted''), (''txid'', JString (to_hex txid))])"

definition submitted_json :: "h256 \<Rightarrow> u32 \<Rightarrow> bool \<Rightarrow> json" where
  "submitted_json digest height dup =
     JObject ([(''status'', JString ''accepted''), (''hash'', JString (to_hex digest)), (''height'', JUint (ucast height))] @
       (if dup then [(''duplicate'', JBool True)] else []))"

subsection \<open>Methods\<close>

text \<open>The methods on the chain; \<open>None\<close> for any other name.\<close>

definition chain_method :: "rpc_env \<Rightarrow> string \<Rightarrow> json \<Rightarrow> server \<Rightarrow> (called \<times> server) option" where
  "chain_method rq method params sv =
     (let ev = ne_ev (rq_net rq); nd = sv_node sv; st = nd_st nd;
          put = (\<lambda>nd'. sv\<lparr>sv_node := nd'\<rparr>);
          typed = (\<lambda>r. case r of None \<Rightarrow> (C_Throw (rq_what rq), sv)
                             | Some (sent, nd') \<Rightarrow> (C_Result (sent_json sent), put nd')) in
      if method = ''getblock'' then
        Some (case rpc_getblock ev st params of Some doc \<Rightarrow> C_Result doc | None \<Rightarrow> C_Throw ''Block not found'', sv)
      else if method = ''getheader'' then
        Some (case rpc_getheader st params of Some doc \<Rightarrow> C_Result doc | None \<Rightarrow> C_Throw ''Header not found'', sv)
      else if method = ''listunspent'' then
        Some (case rpc_listunspent ev params nd of (doc, nd') \<Rightarrow> (C_Result doc, put nd'))
      else if method = ''namelookup'' then
        Some (case rpc_namelookup ev (rq_exists rq) params nd of (doc, nd') \<Rightarrow> (C_Result doc, put nd'))
      else if method = ''getmempool'' then Some (C_Result (rpc_getmempool ev st), sv)
      else if method = ''sendtransaction'' then
        Some (case rpc_sendtransaction ev params nd of (sent, nd') \<Rightarrow> (C_Result (sent_json sent), put nd'))
      else if method = ''createflag'' then Some (typed (rpc_createflag ev params nd))
      else if method = ''claimflag'' then Some (typed (rpc_claimflag ev params nd))
      else if method = ''listflags'' then Some (C_Result (rpc_listflags ev (nd_flags nd) params), sv)
      else if method = ''getblockchaininfo'' then Some (C_Result (rpc_getblockchaininfo nd), sv)
      else if method = ''getblocktemplate'' then
        Some (case rpc_getblocktemplate ev (rq_rnd rq) params nd of
                (Tpl_Error why, nd') \<Rightarrow> (C_Throw (reason_text why), put nd')
              | (Tpl_Rejected why, nd') \<Rightarrow> (C_Result (rejected why), put nd')
              | (Tpl_Block doc, nd') \<Rightarrow> (C_Result doc, put nd'))
      else if method = ''submitblock'' then
        Some (case rpc_submitblock ev params True nd of
                (Sub_Thrown, nd') \<Rightarrow> (C_Throw (rq_what rq), put nd')
              | (Sub_Crashed, nd') \<Rightarrow> (C_Down, (put nd')\<lparr>sv_down := True\<rparr>)
              | (Sub_Rejected why, nd') \<Rightarrow> (C_Result (rejected why), put nd')
              | (Sub_Accepted digest height dup, nd') \<Rightarrow>
                  (C_Result (submitted_json digest height dup),
                   if dup then put nd' else gossip_stored digest (put nd')))
      else None)"

text \<open>The topic of a subscription; \<open>None\<close> when the first parameter is not a string.\<close>

definition topic_of :: "json \<Rightarrow> string option" where
  "topic_of params = (case params of JArray (p # _) \<Rightarrow> as_string p | _ \<Rightarrow> Some [])"

definition subscribe :: "string \<Rightarrow> ws_conn \<Rightarrow> ws_conn" where
  "subscribe topic wc =
     (if topic = ''blocks'' then wc\<lparr>wc_blocks := True\<rparr>
      else if topic = ''threats'' then wc\<lparr>wc_threats := True\<rparr>
      else if topic = ''bucket'' then wc\<lparr>wc_bucket := True\<rparr> else wc)"

definition json_empty :: "json \<Rightarrow> bool" where
  "json_empty j = (case j of JNull \<Rightarrow> True | JArray xs \<Rightarrow> xs = [] | JObject kvs \<Rightarrow> kvs = [] | _ \<Rightarrow> False)"

definition ws_method :: "rpc_env \<Rightarrow> string \<Rightarrow> json \<Rightarrow> ws_conn \<times> server \<Rightarrow> called \<times> ws_conn \<times> server" where
  "ws_method rq method params c =
     (case c of (wc, sv) \<Rightarrow>
        let st = nd_st (sv_node sv) in
        if method = ''subscribe'' then
          (case topic_of params of
             None \<Rightarrow> (C_Throw (rq_what rq), wc, sv)
           | Some topic \<Rightarrow>
               (C_Result (JObject [(''status'', JString ''subscribed''), (''topic'', JString topic)]), subscribe topic wc, sv))
        else if method = ''ping'' then (C_Result (JObject [(''status'', JString ''pong'')]), wc, sv)
        else if method = ''getblockcount'' then
          (C_Result (JObject [(''count'', JUint (ucast (st_best_height st)))]), wc, sv)
        else if method = ''getnetworkstats'' then
          (C_Result (JObject [(''best_height'', JUint (ucast (st_best_height st))), (''peer_count'', JUint (ucast (rq_peers rq)))]),
           wc, sv)
        else if method = ''gettransaction'' then
          ((if json_empty params then C_Throw ''gettransaction requires tx hash parameter''
            else C_Result (JObject [(''found'', JBool False), (''hash'', JString ''placeholder_tx_hash'')])), wc, sv)
        else (case chain_method rq method params sv of
                Some (r, sv') \<Rightarrow> (r, wc, sv')
              | None \<Rightarrow> (rq_other rq method params, wc, sv)))"

subsection \<open>Requests\<close>

definition rpc_error :: "u64 \<Rightarrow> string \<Rightarrow> json" where
  "rpc_error code message = JObject [(''code'', JNegint code), (''message'', JString message)]"

definition ws_frame :: "string \<Rightarrow> json \<Rightarrow> json \<Rightarrow> json" where
  "ws_frame kind body i = JObject [(''jsonrpc'', JString ''2.0''), (kind, body), (''id'', i)]"

text \<open>\<open>None\<close>: the method is not a string, an exception of the caller; or the process is gone.\<close>

definition ws_answer :: "called \<Rightarrow> json \<Rightarrow> json option" where
  "ws_answer r i =
     (case r of
        C_Result doc \<Rightarrow> Some (ws_frame ''result'' doc i)
      | C_Throw what \<Rightarrow> Some (ws_frame ''error'' (rpc_error (- 32603) (''Internal error: '' @ what)) i)
      | C_Unknown \<Rightarrow> Some (ws_frame ''error'' (rpc_error (- 32601) ''Method not found'') i)
      | C_Down \<Rightarrow> None)"

definition handle_request :: "rpc_env \<Rightarrow> json \<Rightarrow> ws_conn \<times> server \<Rightarrow> json option \<times> ws_conn \<times> server" where
  "handle_request rq req c =
     (let i = (case jget req ''id'' of Some v \<Rightarrow> v | None \<Rightarrow> JNull) in
      if jget req ''jsonrpc'' \<noteq> Some (JString ''2.0'') then
        (Some (ws_frame ''error'' (rpc_error (- 32600) ''Invalid Request'') i), c)
      else (case value_string req ''method'' [] of
              None \<Rightarrow> (None, c)
            | Some method \<Rightarrow>
                (case ws_method rq method (case jget req ''params'' of Some p \<Rightarrow> p | None \<Rightarrow> JArray []) c of
                   (r, c') \<Rightarrow> (ws_answer r i, c'))))"

subsection \<open>Receiving\<close>

definition head_method :: "string \<Rightarrow> string \<Rightarrow> bool" where
  "head_method msg name =
     (let head = take 512 msg; q = [char_of (34 :: nat)] in
      contains_text head (q @ ''method'' @ q @ '':'' @ q @ name @ q) \<or>
      contains_text head (q @ ''method'' @ q @ '': '' @ q @ name @ q))"

definition limit_reason :: "string \<Rightarrow> string" where
  "limit_reason msg =
     (if head_method msg ''sendtransaction'' \<or> \<not> head_method msg ''submitblock'' then ''tx too large'' else ''block too large'')"

definition limit_error :: "string \<Rightarrow> json" where
  "limit_error why = ws_frame ''error'' (rpc_error (- 32600) why) JNull"

definition parse_error :: "rpc_env \<Rightarrow> json" where
  "parse_error rq = JObject [(''jsonrpc'', JString ''2.0''), (''error'', rpc_error (- 32700) (''Parse error: '' @ rq_what rq))]"

definition ws_event :: "string \<Rightarrow> json \<Rightarrow> json" where
  "ws_event name body = JObject [(''jsonrpc'', JString ''2.0''), (''method'', JString name), (''params'', body)]"

text \<open>What a subscriber is shown at once; the same exceptions again, which are answered too.\<close>

definition ws_snapshot :: "rpc_env \<Rightarrow> json \<Rightarrow> server \<Rightarrow> json list" where
  "ws_snapshot rq req sv =
     (case (if is_object req then value_string req ''method'' [] else None) of
        None \<Rightarrow> [parse_error rq]
      | Some method \<Rightarrow>
          if method \<noteq> ''subscribe'' then []
          else (case topic_of (case jget req ''params'' of Some p \<Rightarrow> p | None \<Rightarrow> JArray []) of
                  None \<Rightarrow> [parse_error rq]
                | Some topic \<Rightarrow>
                    if topic = ''bucket'' then
                      (case rq_bucket rq of None \<Rightarrow> [] | Some body \<Rightarrow> [ws_event ''bucket'' body])
                    else if topic = ''blocks'' then
                      [ws_event ''block'' (JObject [(''type'', JString ''tip''),
                         (''height'', JUint (ucast (st_best_height (nd_st (sv_node sv)))))])]
                    else []))"

definition ws_message :: "rpc_env \<Rightarrow> string \<Rightarrow> ws_conn \<times> server \<Rightarrow> json list \<times> ws_conn \<times> server" where
  "ws_message rq msg c =
     (let submit = head_method msg ''submitblock''; spend = head_method msg ''sendtransaction'' in
      if (spend \<or> \<not> submit) \<and> length msg > kMaxTxJsonBytes + 1024 then ([limit_error ''tx too large''], c)
      else if submit \<and> length msg > kMaxWsMessage then ([limit_error ''block too large''], c)
      else (case ev_parse (ne_ev (rq_net rq)) msg of
              None \<Rightarrow> ([parse_error rq], c)
            | Some req \<Rightarrow>
                (case handle_request rq req c of
                   (None, wc, sv) \<Rightarrow> (if sv_down sv then [] else [parse_error rq], wc, sv)
                 | (Some resp, wc, sv) \<Rightarrow> (resp # ws_snapshot rq req sv, wc, sv))))"

text \<open>\<open>LWS_CALLBACK_RECEIVE\<close>: a fragment, and whether it is the last one of its message.\<close>

definition ws_receive :: "rpc_env \<Rightarrow> string \<times> bool \<Rightarrow> ws_conn \<times> server \<Rightarrow> json list \<times> ws_conn \<times> server" where
  "ws_receive rq f c =
     (case (f, c) of ((chunk, final), (wc, sv)) \<Rightarrow>
        if wc_skip wc then
          ([], if final then (wc\<lparr>wc_skip := False, wc_rx := []\<rparr>, sv) else (wc, sv))
        else if length (wc_rx wc) + length chunk > kMaxWsMessage then
          ([limit_error (limit_reason (wc_rx wc))], wc\<lparr>wc_rx := [], wc_skip := \<not> final\<rparr>, sv)
        else if \<not> final then ([], wc\<lparr>wc_rx := wc_rx wc @ chunk\<rparr>, sv)
        else ws_message rq (wc_rx wc @ chunk) (wc\<lparr>wc_rx := []\<rparr>, sv))"

text \<open>A sequence of fragments; the replies in order.\<close>

fun ws_receive_all :: "rpc_env \<Rightarrow> (string \<times> bool) list \<Rightarrow> ws_conn \<times> server \<Rightarrow> json list \<times> ws_conn \<times> server" where
  "ws_receive_all rq [] c = ([], c)"
| "ws_receive_all rq (f # fs) c =
     (case ws_receive rq f c of (out, c1) \<Rightarrow> (case ws_receive_all rq fs c1 of (out', c2) \<Rightarrow> (out @ out', c2)))"


subsection \<open>A message in fragments\<close>

text \<open>What of a message is in the buffer when a fragment is too much for it.\<close>

fun kept_part :: "string \<Rightarrow> string list \<Rightarrow> string" where
  "kept_part rx [] = rx"
| "kept_part rx (c # cs) = (if length rx + length c > kMaxWsMessage then rx else kept_part (rx @ c) cs)"

lemma receive_parts:
  assumes "\<not> wc_skip wc" "length (wc_rx wc) + length (concat cs) \<le> kMaxWsMessage"
  shows "ws_receive_all rq (map (\<lambda>c. (c, False)) cs @ fs) (wc, sv) =
    ws_receive_all rq fs (wc\<lparr>wc_rx := wc_rx wc @ concat cs\<rparr>, sv)"
  using assms
proof (induction cs arbitrary: wc)
  case (Cons c cs)
  then show ?case using Cons.IH [of "wc\<lparr>wc_rx := wc_rx wc @ c\<rparr>"] by (auto simp: ws_receive_def split: prod.splits)
qed simp

lemma receive_skipped:
  assumes "wc_skip wc"
  shows "ws_receive_all rq (map (\<lambda>c. (c, False)) cs @ [(l, True)]) (wc, sv) = ([], wc\<lparr>wc_skip := False, wc_rx := []\<rparr>, sv)"
  using assms by (induction cs) (auto simp: ws_receive_def)

lemma receive_too_long:
  assumes "\<not> wc_skip wc" "length (wc_rx wc) + length (concat cs @ l) > kMaxWsMessage"
  shows "ws_receive_all rq (map (\<lambda>c. (c, False)) cs @ [(l, True)]) (wc, sv) =
    ([limit_error (limit_reason (kept_part (wc_rx wc) (cs @ [l])))], wc\<lparr>wc_rx := [], wc_skip := False\<rparr>, sv)"
  using assms
proof (induction cs arbitrary: wc)
  case Nil
  then show ?case by (simp add: ws_receive_def)
next
  case (Cons c cs)
  show ?case
  proof (cases "length (wc_rx wc) + length c > kMaxWsMessage")
    case True
    then show ?thesis using Cons.prems receive_skipped [of "wc\<lparr>wc_rx := [], wc_skip := True\<rparr>"]
      by (simp add: ws_receive_def)
  next
    case False
    then show ?thesis using Cons.prems Cons.IH [of "wc\<lparr>wc_rx := wc_rx wc @ c\<rparr>"] by (simp add: ws_receive_def)
  qed
qed

text \<open>C28: A message is handled the same however it is cut into fragments: one of at most
  \<open>kMaxWsMessage\<close> bytes exactly as if it had come whole, a longer one not at all. The longer one is
  answered by a single error, which depends on what was in the buffer by then, and the rest of it is
  dropped: afterwards the connection is ready for the next message and nothing else has changed.\<close>

theorem ws_fragments:
  "ws_receive_all rq (map (\<lambda>c. (c, False)) cs @ [(l, True)]) (wc\<lparr>wc_rx := [], wc_skip := False\<rparr>, sv) =
   (if length (concat cs @ l) \<le> kMaxWsMessage
    then ws_message rq (concat cs @ l) (wc\<lparr>wc_rx := [], wc_skip := False\<rparr>, sv)
    else ([limit_error (limit_reason (kept_part [] (cs @ [l])))], wc\<lparr>wc_rx := [], wc_skip := False\<rparr>, sv))"
proof (cases "length (concat cs @ l) \<le> kMaxWsMessage")
  case True
  have clear: "wc\<lparr>wc_skip := False, wc_rx := []\<rparr> = wc\<lparr>wc_rx := [], wc_skip := False\<rparr>" by (cases wc) simp
  from True show ?thesis
    using receive_parts [of "wc\<lparr>wc_rx := [], wc_skip := False\<rparr>" cs rq "[(l, True)]"] clear by (simp add: ws_receive_def split: prod.splits)
next
  case False
  then show ?thesis using receive_too_long [of "wc\<lparr>wc_rx := [], wc_skip := False\<rparr>" cs l rq] by simp
qed

subsection \<open>Sessions\<close>

text \<open>
  The sessions libwebsockets reports, the callback for every event, start and stop. A session is told by a
  number, the place of its data. What it subscribes to and has in its buffer depends on its own events only.
\<close>

subsection \<open>The server\<close>

record ws_server =
  wv_running :: bool
  wv_conns :: "(nat \<times> ws_conn) list"

definition ws_idle :: ws_server where
  "ws_idle = \<lparr>wv_running = False, wv_conns = []\<rparr>"

text \<open>Neither the port nor the certificate is tried before \<open>start\<close> returns: that is left to the thread.\<close>

definition ws_start :: "ws_server \<Rightarrow> bool \<times> ws_server" where
  "ws_start v = (if wv_running v then (False, v) else (True, v\<lparr>wv_running := True\<rparr>))"

definition ws_stop :: "ws_server \<Rightarrow> ws_server" where
  "ws_stop v = (if \<not> wv_running v then v else v\<lparr>wv_running := False, wv_conns := []\<rparr>)"

text \<open>What libwebsockets reports. It clears the data of a session before it is established.\<close>

datatype ws_reason = Ws_Established nat | Ws_Receive rpc_env nat string bool | Ws_Closed nat | Ws_Other

fun reason_of :: "nat \<Rightarrow> ws_reason \<Rightarrow> bool" where
  "reason_of k (Ws_Established i) \<longleftrightarrow> i = k"
| "reason_of k (Ws_Receive rq i chunk final) \<longleftrightarrow> i = k"
| "reason_of k (Ws_Closed i) \<longleftrightarrow> i = k"
| "reason_of k Ws_Other \<longleftrightarrow> False"

text \<open>The first session with a number, and changing it.\<close>

definition session :: "nat \<Rightarrow> ws_server \<Rightarrow> ws_conn option" where
  "session k v = map_option snd (List.find (\<lambda>(i, wc). i = k) (wv_conns v))"

definition put_session :: "nat \<Rightarrow> ws_conn \<Rightarrow> ws_server \<Rightarrow> ws_server" where
  "put_session k wc v = v\<lparr>wv_conns := map (\<lambda>(i, old). (i, if i = k then wc else old)) (wv_conns v)\<rparr>"

definition callback_pisecure :: "ws_reason \<Rightarrow> ws_server \<times> server \<Rightarrow> (nat \<times> json) list \<times> ws_server \<times> server" where
  "callback_pisecure e c =
     (case c of (v, sv) \<Rightarrow>
        (case e of
           Ws_Established k \<Rightarrow> ([], v\<lparr>wv_conns := wv_conns v @ [(k, ws_new)]\<rparr>, sv)
         | Ws_Receive rq k chunk final \<Rightarrow>
             (case session k v of
                None \<Rightarrow> ([], v, sv)
              | Some wc \<Rightarrow>
                  (case ws_receive rq (chunk, final) (wc, sv) of
                     (out, wc', sv') \<Rightarrow> (map (Pair k) out, put_session k wc' v, sv')))
         | Ws_Closed k \<Rightarrow> ([], v\<lparr>wv_conns := filter (\<lambda>(i, wc). i \<noteq> k) (wv_conns v)\<rparr>, sv)
         | Ws_Other \<Rightarrow> ([], v, sv)))"

fun ws_events :: "ws_reason list \<Rightarrow> ws_server \<times> server \<Rightarrow> (nat \<times> json) list \<times> ws_server \<times> server" where
  "ws_events [] c = ([], c)"
| "ws_events (e # es) c =
     (case callback_pisecure e c of (out, c1) \<Rightarrow> (case ws_events es c1 of (out', c2) \<Rightarrow> (out @ out', c2)))"

subsection \<open>A session and the others\<close>

text \<open>What a fragment makes of its session does not depend on the state of the node.\<close>

definition own_receive :: "rpc_env \<Rightarrow> string \<times> bool \<Rightarrow> ws_conn \<Rightarrow> ws_conn" where
  "own_receive rq f wc = fst (snd (ws_receive rq f (wc, undefined)))"

lemma method_own: "fst (snd (ws_method rq method params (wc, sv))) = fst (snd (ws_method rq method params (wc, sv')))"
  by (auto simp: ws_method_def Let_def split: option.splits)

lemma request_own: "fst (snd (handle_request rq req (wc, sv))) = fst (snd (handle_request rq req (wc, sv')))"
  by (auto simp: handle_request_def Let_def split_def method_own [of rq _ _ wc sv sv'] split: option.splits)

lemma message_own: "fst (snd (ws_message rq msg (wc, sv))) = fst (snd (ws_message rq msg (wc, sv')))"
proof -
  have "fst (snd (case r of (None, wc, sv) \<Rightarrow> (f sv, wc, sv) | (Some resp, wc, sv) \<Rightarrow> (g resp sv, wc, sv))) = fst (snd r)"
    for r :: "json option \<times> ws_conn \<times> server" and f :: "server \<Rightarrow> json list" and g
    by (auto split: prod.split option.split)
  then show ?thesis using request_own [of rq _ wc sv sv'] by (simp add: ws_message_def Let_def split: option.split)
qed

lemma receive_own: "fst (snd (ws_receive rq f (wc, sv))) = own_receive rq f wc"
  by (cases f) (simp add: ws_receive_def own_receive_def message_own [of rq _ _ sv undefined])

text \<open>The events of one session, alone.\<close>

fun own_event :: "nat \<Rightarrow> ws_reason \<Rightarrow> ws_conn option \<Rightarrow> ws_conn option" where
  "own_event k (Ws_Established i) s = (if i = k \<and> s = None then Some ws_new else s)"
| "own_event k (Ws_Receive rq i chunk final) s = (if i = k then map_option (own_receive rq (chunk, final)) s else s)"
| "own_event k (Ws_Closed i) s = (if i = k then None else s)"
| "own_event k Ws_Other s = s"

lemma session_put: "session k (put_session i wc v) = (if i = k then map_option (\<lambda>_. wc) (session k v) else session k v)"
proof -
  have "map_option snd (List.find (\<lambda>(j, x). j = k) (map (\<lambda>(j, old). (j, if j = i then wc else old)) l)) =
      (if i = k then map_option (\<lambda>_. wc) (map_option snd (List.find (\<lambda>(j, x). j = k) l)) else map_option snd (List.find (\<lambda>(j, x). j = k) l))" for l
    by (induction l) auto
  then show ?thesis by (simp add: session_def put_session_def)
qed

lemma session_close: "session k (v\<lparr>wv_conns := filter (\<lambda>(i, wc). i \<noteq> j) (wv_conns v)\<rparr>) = (if j = k then None else session k v)"
proof -
  have "map_option snd (List.find (\<lambda>(i, x). i = k) (filter (\<lambda>(i, wc). i \<noteq> j) l)) =
      (if j = k then None else map_option snd (List.find (\<lambda>(i, x). i = k) l))" for l :: "(nat \<times> ws_conn) list"
    by (induction l) auto
  then show ?thesis by (simp add: session_def)
qed

lemma session_open: "session k (v\<lparr>wv_conns := wv_conns v @ [(i, wc)]\<rparr>) = (if i = k \<and> session k v = None then Some wc else session k v)"
  by (auto simp: session_def find_append split: option.splits)

lemma callback_own: "callback_pisecure e (v, sv) = (out, v', sv') \<Longrightarrow> session k v' = own_event k e (session k v)"
proof (cases e)
  case (Ws_Receive rq i chunk final)
  assume a: "callback_pisecure e (v, sv) = (out, v', sv')"
  show ?thesis
  proof (cases "session i v")
    case None
    then show ?thesis using a by (auto simp: callback_pisecure_def Ws_Receive)
  next
    case (Some wc)
    obtain o1 wc1 sv1 where r: "ws_receive rq (chunk, final) (wc, sv) = (o1, wc1, sv1)" by (metis surj_pair)
    then have "wc1 = own_receive rq (chunk, final) wc" using receive_own [of rq "(chunk, final)" wc sv] by simp
    then show ?thesis using a Some by (auto simp: callback_pisecure_def Ws_Receive r session_put)
  qed
qed (auto simp: callback_pisecure_def session_open session_close)

text \<open>C40: The sessions do not get at each other. However the events of all sessions are mixed, and whatever they have the
  node do, a session's buffer and subscriptions are what its own events alone make of them.\<close>

theorem sessions_separate:
  "session k (fst (snd (ws_events es (v, sv)))) = fold (own_event k) (filter (reason_of k) es) (session k v)"
proof (induction es arbitrary: v sv)
  case (Cons e es)
  obtain out v1 sv1 where c: "callback_pisecure e (v, sv) = (out, v1, sv1)" by (metis surj_pair)
  have "\<not> reason_of k e \<Longrightarrow> own_event k e s = s" for s by (cases e) auto
  then show ?case using Cons.IH [of v1 sv1] callback_own [OF c, of k] by (simp add: c split: prod.split) (metis fst_conv snd_conv)
qed simp

text \<open>No buffer grows beyond the largest message.\<close>

lemma method_buffer: "wc_rx (fst (snd (ws_method rq method params (wc, sv)))) = wc_rx wc"
  by (auto simp: ws_method_def subscribe_def Let_def split: option.splits)

lemma message_buffer: "wc_rx (fst (snd (ws_message rq msg (wc, sv)))) = wc_rx wc"
proof -
  have r: "wc_rx (fst (snd (handle_request rq req (wc, sv)))) = wc_rx wc" for req
    by (auto simp: handle_request_def Let_def split_def method_buffer split: option.splits)
  have "fst (snd (case x of (None, wc, sv) \<Rightarrow> (f sv, wc, sv) | (Some resp, wc, sv) \<Rightarrow> (g resp sv, wc, sv))) = fst (snd x)"
    for x :: "json option \<times> ws_conn \<times> server" and f :: "server \<Rightarrow> json list" and g
    by (auto split: prod.split option.split)
  then show ?thesis using r by (simp add: ws_message_def Let_def split: option.split)
qed

lemma receive_bound: "length (wc_rx wc) \<le> kMaxWsMessage \<Longrightarrow> length (wc_rx (own_receive rq f wc)) \<le> kMaxWsMessage"
  by (cases f) (auto simp: own_receive_def ws_receive_def message_buffer)

lemma session_bound: "session k v = None \<Longrightarrow> session k (fst (snd (ws_events es (v, sv)))) = Some wc \<Longrightarrow> length (wc_rx wc) \<le> kMaxWsMessage"
proof -
  define ok where "ok = (\<lambda>s :: ws_conn option. case s of None \<Rightarrow> True | Some wc \<Rightarrow> length (wc_rx wc) \<le> kMaxWsMessage)"
  have "ok s \<Longrightarrow> ok (own_event k e s)" for e s
    by (cases e; cases s) (simp_all add: ok_def ws_new_def receive_bound)
  then have "ok s \<Longrightarrow> ok (fold (own_event k) es s)" for es s by (induction es arbitrary: s) simp_all
  moreover assume "session k v = None" "session k (fst (snd (ws_events es (v, sv)))) = Some wc"
  ultimately show ?thesis unfolding sessions_separate ok_def by (metis option.simps(4,5))
qed

end
