(* ===== verification/Wallet.thy ===== *)
theory Wallet
  imports Queries
begin

text \<open>
  The command-line wallet (pswallet/src/main.cpp): how it reads its keys, learns the money format
  and the coins from the daemon, chooses coins, and builds and signs transactions.

  A function that fails gives \<open>Inl\<close>: \<open>Some\<close> the message it prints, or \<open>None\<close> for an exception of the
  JSON library, which \<open>main\<close> prints. \<open>wenv\<close> holds what is outside: the daemon's answers, the key files,
  the JSON parser and printer, the passphrase, and OpenSSL's decryption (scrypt and ChaCha20-Poly1305)
  and Ed25519 signing. Of coins with equal worth, which \<open>std::sort\<close> may leave in any order, the
  first listed comes first.
\<close>

type_synonym 'a wres = "string option + 'a"

abbreviation fail :: "string \<Rightarrow> 'a wres" where "fail why \<equiv> Inl (Some why)"

fun wbind :: "'a wres \<Rightarrow> ('a \<Rightarrow> 'b wres) \<Rightarrow> 'b wres" where
  "wbind (Inl e) f = Inl e"
| "wbind (Inr x) f = f x"

lemma wbind_Inr_iff [simp]: "wbind m f = Inr y \<longleftrightarrow> (\<exists>x. m = Inr x \<and> f x = Inr y)"
  by (cases m) auto

fun map_wres :: "('a \<Rightarrow> 'b wres) \<Rightarrow> 'a list \<Rightarrow> ('b list) wres" where
  "map_wres f [] = Inr []"
| "map_wres f (x # xs) = wbind (f x) (\<lambda>y. wbind (map_wres f xs) (\<lambda>ys. Inr (y # ys)))"

record wkey =
  wk_address :: string
  wk_public_hex :: string
  wk_secret_hex :: string

record wenv =
  we_rpc :: "string \<Rightarrow> json \<Rightarrow> string + json"
  we_file :: "string \<Rightarrow> string option"
  we_parse :: "string \<Rightarrow> json option"
  we_dump :: "json \<Rightarrow> string"
  we_float :: "string \<Rightarrow> u64"
  we_pass :: "string option"
  we_unseal :: "string \<Rightarrow> bytes \<Rightarrow> u64 \<times> u64 \<times> u64 \<Rightarrow> bytes \<Rightarrow> string \<Rightarrow> bytes \<Rightarrow> bytes option"
  we_sign :: "bytes \<Rightarrow> string \<Rightarrow> bytes option"
  we_dry_run :: bool

subsection \<open>Reading JSON\<close>

text \<open>\<open>obj.value(k, d)\<close> and the conversions of its result; \<open>for (auto &x : v)\<close> over a value.\<close>

definition jvalue :: "(json \<Rightarrow> 'a option) \<Rightarrow> json \<Rightarrow> string \<Rightarrow> 'a \<Rightarrow> 'a wres" where
  "jvalue conv obj k d =
     (if \<not> is_object obj then Inl None
      else case jget obj k of
          None \<Rightarrow> Inr d
        | Some v \<Rightarrow> (case conv v of None \<Rightarrow> Inl None | Some x \<Rightarrow> Inr x))"

definition as_number :: "(string \<Rightarrow> u64) \<Rightarrow> json \<Rightarrow> u64 option" where
  "as_number fl v =
     (case v of
        JUint n \<Rightarrow> Some n | JNegint n \<Rightarrow> Some n | JFloat d \<Rightarrow> Some (fl d) | JBool b \<Rightarrow> Some (if b then 1 else 0)
      | _ \<Rightarrow> None)"

definition as_number32 :: "(string \<Rightarrow> u64) \<Rightarrow> json \<Rightarrow> u32 option" where
  "as_number32 fl v = map_option ucast (as_number fl v)"

definition as_bool :: "json \<Rightarrow> bool option" where
  "as_bool v = (case v of JBool b \<Rightarrow> Some b | _ \<Rightarrow> None)"

fun jitems :: "json \<Rightarrow> json list" where
  "jitems JNull = []"
| "jitems (JArray xs) = xs"
| "jitems (JObject kvs) = map snd kvs"
| "jitems v = [v]"

definition jitems_of :: "json \<Rightarrow> string \<Rightarrow> (json list) wres" where
  "jitems_of obj k = wbind (jvalue Some obj k (JArray [])) (\<lambda>v. Inr (jitems v))"

text \<open>\<open>tx[k]\<close> on a document of the wallet's own, where the member is always there.\<close>

definition jfield :: "json \<Rightarrow> string \<Rightarrow> json" where
  "jfield j k = (case jget j k of Some v \<Rightarrow> v | None \<Rightarrow> JNull)"

definition call :: "wenv \<Rightarrow> string \<Rightarrow> json \<Rightarrow> json wres" where
  "call w method params = (case we_rpc w method params of Inl err \<Rightarrow> fail err | Inr doc \<Rightarrow> Inr doc)"

subsection \<open>Keys\<close>

definition read_wallet_doc :: "wenv \<Rightarrow> string \<Rightarrow> json wres" where
  "read_wallet_doc w address =
     (case we_file w address of
        None \<Rightarrow> fail (''no spending key for '' @ address)
      | Some raw \<Rightarrow>
          (case we_parse w raw of
             None \<Rightarrow> fail (''spending key for '' @ address @ '' is not ed25519'')
           | Some doc \<Rightarrow>
               if \<not> is_object doc then fail (''spending key for '' @ address @ '' is not ed25519'')
               else wbind (jvalue as_string doc ''scheme'' []) (\<lambda>scheme.
                 if scheme \<noteq> ''ed25519'' \<or> jstring doc ''public_key'' = None
                 then fail (''spending key for '' @ address @ '' is not ed25519'') else Inr doc)))"

definition kScryptN :: u64 where "kScryptN = 16384"
definition kScryptR :: u64 where "kScryptR = 8"
definition kScryptP :: u64 where "kScryptP = 1"

text \<open>A member that is not hex of the right length fails the whole test; one of another type throws.\<close>

definition hex_member :: "json \<Rightarrow> string \<Rightarrow> nat \<Rightarrow> bytes wres" where
  "hex_member enc k n =
     wbind (jvalue as_string enc k []) (\<lambda>hex.
       case decode_hex hex [] of
         (good, raw) \<Rightarrow> if good \<and> length raw = n then Inr raw else fail ''spending key is not ed25519'')"

definition open_seed :: "wenv \<Rightarrow> string \<Rightarrow> string \<Rightarrow> json \<Rightarrow> string wres" where
  "open_seed w pass public_hex enc =
     (if \<not> is_object enc then fail ''spending key is not ed25519''
      else
        wbind (jvalue as_string enc ''kdf'' []) (\<lambda>kdf.
        if kdf \<noteq> ''scrypt'' then fail ''spending key is not ed25519'' else
        wbind (jvalue as_string enc ''cipher'' []) (\<lambda>cipher.
        if cipher \<noteq> ''chacha20poly1305'' then fail ''spending key is not ed25519'' else
        wbind (hex_member enc ''salt'' 16) (\<lambda>salt.
        wbind (hex_member enc ''nonce'' 12) (\<lambda>nonce.
        wbind (hex_member enc ''ciphertext'' 48) (\<lambda>packed.
        wbind (jvalue (as_number (we_float w)) enc ''kdf_n'' kScryptN) (\<lambda>n.
        wbind (jvalue (as_number (we_float w)) enc ''kdf_r'' kScryptR) (\<lambda>r.
        wbind (jvalue (as_number (we_float w)) enc ''kdf_p'' kScryptP) (\<lambda>p.
          case we_unseal w pass salt (n, r, p) nonce public_hex packed of
            None \<Rightarrow> fail ''wrong passphrase''
          | Some plain \<Rightarrow> Inr (to_hex plain))))))))))"

definition load_key :: "wenv \<Rightarrow> string \<Rightarrow> wkey wres" where
  "load_key w address =
     wbind (read_wallet_doc w address) (\<lambda>doc.
       let public_hex = or_empty (jstring doc ''public_key'');
           made = (\<lambda>secret. \<lparr>wk_address = address, wk_public_hex = public_hex, wk_secret_hex = secret\<rparr>) in
       case jget doc ''secret_key_enc'' of
         Some enc \<Rightarrow>
           (case we_pass w of
              None \<Rightarrow> fail ''passphrase required''
            | Some pass \<Rightarrow> wbind (open_seed w pass public_hex enc) (\<lambda>secret. Inr (made secret)))
       | None \<Rightarrow>
           (case jstring doc ''secret_key'' of
              None \<Rightarrow> fail (''no spending key for '' @ address)
            | Some secret \<Rightarrow> Inr (made secret)))"

subsection \<open>Signing\<close>

definition ed25519_sign :: "wenv \<Rightarrow> string \<Rightarrow> string \<Rightarrow> string wres" where
  "ed25519_sign w secret_hex message =
     (case decode_hex secret_hex [] of
        (good, seed) \<Rightarrow>
          if \<not> good \<or> length seed \<noteq> 32 then fail ''spending key is not ed25519''
          else (case we_sign w seed message of
                  None \<Rightarrow> fail ''signature invalid''
                | Some sig \<Rightarrow> if length sig = 64 then Inr (to_hex sig) else fail ''signature invalid''))"

definition spend_input :: "json \<Rightarrow> json" where
  "spend_input i = JObject [(''prev_txid'', jfield i ''prev_txid''), (''vout'', jfield i ''vout'')]"

definition spend_output :: "json \<Rightarrow> json" where
  "spend_output out = JObject [(''address'', jfield out ''address''), (''value'', jfield out ''value'')]"

definition copy_fields :: "json \<Rightarrow> string list \<Rightarrow> json \<Rightarrow> json" where
  "copy_fields tx ks body = fold (\<lambda>k b. jset b k (jfield tx k)) ks body"

definition spend_body :: "json \<Rightarrow> json wres" where
  "spend_body tx =
     (let body = JObject [(''fee'', jfield tx ''fee''),
                   (''inputs'', JArray (map spend_input (jitems (jfield tx ''inputs'')))),
                   (''outputs'', JArray (map spend_output (jitems (jfield tx ''outputs'')))),
                   (''version'', jfield tx ''version'')] in
      wbind (jvalue as_string tx ''type'' []) (\<lambda>kind. Inr (
        if kind = ''register'' then
          copy_fields tx [''name'', ''address''] (jset body ''type'' (JString ''register''))
        else if kind = ''createflag'' then
          copy_fields tx [''flag_id'', ''commitment'', ''awards_pubkey'', ''max_claims'', ''expires_height'', ''bounty_units'',
            ''note''] (jset body ''type'' (JString ''createflag''))
        else if kind = ''claimflag'' then
          copy_fields tx [''flag_id'', ''recipient''] (jset body ''type'' (JString ''claimflag''))
        else body)))"

definition spend_payload :: "wenv \<Rightarrow> json \<Rightarrow> string wres" where
  "spend_payload w tx = wbind (spend_body tx) (\<lambda>body. Inr (we_dump w body))"

definition sign_tx :: "wenv \<Rightarrow> wkey \<Rightarrow> json \<Rightarrow> json wres" where
  "sign_tx w key tx =
     wbind (spend_payload w tx) (\<lambda>message.
     wbind (ed25519_sign w (wk_secret_hex key) message) (\<lambda>sig.
       Inr (jset tx ''inputs''
         (JArray (map (\<lambda>i. jset (jset i ''public_key'' (JString (wk_public_hex key))) ''signature'' (JString sig))
                   (jitems (jfield tx ''inputs'')))))))"

subsection \<open>Money\<close>

record money =
  mo_activation :: u32
  mo_scale :: u32

definition load_money :: "wenv \<Rightarrow> money wres" where
  "load_money w =
     (case we_rpc w ''getblockchaininfo'' (JObject []) of
        Inl _ \<Rightarrow> fail ''daemon did not report pi_activation_height''
      | Inr info \<Rightarrow>
          (case juint info ''pi_activation_height'' of
             None \<Rightarrow> fail ''daemon did not report pi_activation_height''
           | Some activation \<Rightarrow>
               (case juint info ''amount_scale'' of
                  None \<Rightarrow> fail ''daemon did not report amount_scale''
                | Some scale \<Rightarrow>
                    if scale \<noteq> 1 \<and> scale \<noteq> 1000 then fail ''daemon did not report amount_scale''
                    else if activation = 0 \<or> activation > 0xffffffff
                    then fail ''daemon did not report pi_activation_height''
                    else Inr \<lparr>mo_activation = ucast activation, mo_scale = ucast scale\<rparr>)))"

definition within_milli :: "string \<Rightarrow> bool" where
  "within_milli text =
     (case str_find CHR ''.'' text of
        None \<Rightarrow> True
      | Some dot \<Rightarrow> length (dropWhile (\<lambda>c. c = CHR ''0'') (rev (drop (dot + 1) text))) \<le> 3)"

definition not_multiple :: "money \<Rightarrow> string" where
  "not_multiple m = ''amount must be a multiple of 0.001 314ST until height '' @ dec_string (unat (mo_activation m))"

text \<open>The stored amount and its pi.\<close>

definition parse_amount :: "string \<Rightarrow> money \<Rightarrow> (u64 \<times> u64) wres" where
  "parse_amount text m =
     (case parse_314st_pi text of
        Inl r \<Rightarrow> fail (reason_text r)
      | Inr pi \<Rightarrow>
          if mo_scale m = 1000 then Inr (pi, pi)
          else if \<not> within_milli text \<or> pi mod 1000 \<noteq> 0 then fail (not_multiple m)
          else Inr (pi div 1000, pi))"

definition parse_fee :: "string \<Rightarrow> money \<Rightarrow> (u64 \<times> u64) wres" where
  "parse_fee text m =
     wbind (parse_amount text m) (\<lambda>(stored, pi).
       if mo_scale m = 1000 \<and> pi < 314 then fail ''fee too low'' else Inr (stored, pi))"

definition resolve_wallet_address :: "wenv \<Rightarrow> string \<Rightarrow> string wres" where
  "resolve_wallet_address w text =
     (case normalize_ps1 text of
        Some ps1 \<Rightarrow> Inr ps1
      | None \<Rightarrow>
          wbind (call w ''namelookup'' (JObject [(''name'', JString text)])) (\<lambda>result.
          wbind (jvalue as_bool result ''found'' True) (\<lambda>found.
            if \<not> found \<or> jget result ''address'' = None then Inr text
            else (case jstring result ''address'' of None \<Rightarrow> Inl None | Some a \<Rightarrow> Inr a))))"

text \<open>An empty address is a failure of the caller; nothing is in the message then.\<close>

definition some_address :: "wenv \<Rightarrow> string \<Rightarrow> string wres" where
  "some_address w text = wbind (resolve_wallet_address w text) (\<lambda>a. if a = [] then fail [] else Inr a)"

subsection \<open>Coins\<close>

record coin =
  co_txid :: string
  co_vout :: u32
  co_units :: u64
  co_worth :: u64
  co_pi :: u64

definition set_worth :: "money \<Rightarrow> u64 \<Rightarrow> coin \<Rightarrow> coin wres" where
  "set_worth m pi c =
     (if mo_scale m = 1000 then Inr (c\<lparr>co_pi := pi, co_worth := pi\<rparr>)
      else if pi mod 1000 \<noteq> 0 then fail (not_multiple m)
      else Inr (c\<lparr>co_pi := pi, co_worth := pi div 1000\<rparr>))"

definition coin_from_row :: "wenv \<Rightarrow> money \<Rightarrow> json \<Rightarrow> coin wres" where
  "coin_from_row w m row =
     wbind (jvalue as_string row ''txid'' []) (\<lambda>txid.
     wbind (jvalue (as_number32 (we_float w)) row ''vout'' 0) (\<lambda>vout.
     wbind (jvalue (as_number (we_float w)) row ''units'' 0) (\<lambda>units.
       let c = \<lparr>co_txid = txid, co_vout = vout, co_units = units, co_worth = 0, co_pi = 0\<rparr> in
       if txid = [] \<or> units = 0 then fail ''transaction output invalid''
       else case juint row ''pi'' of
           Some pi \<Rightarrow> set_worth m pi c
         | None \<Rightarrow>
             if mo_scale m \<noteq> 1 then fail ''utxo missing pi''
             else if units > U64_MAX div 1000 then fail ''amount overflow''
             else set_worth m (units * 1000) c)))"

text \<open>The rows of a listing; one of no units that cannot be read is skipped.\<close>

fun coins_of_rows :: "wenv \<Rightarrow> money \<Rightarrow> json list \<Rightarrow> (coin list) wres" where
  "coins_of_rows w m [] = Inr []"
| "coins_of_rows w m (row # rows) =
     (case coin_from_row w m row of
        Inl None \<Rightarrow> Inl None
      | Inl (Some why) \<Rightarrow>
          wbind (jvalue (as_number (we_float w)) row ''units'' 0) (\<lambda>units.
            if units = 0 then coins_of_rows w m rows else fail why)
      | Inr c \<Rightarrow> wbind (coins_of_rows w m rows) (\<lambda>cs. Inr (c # cs)))"

definition outpoints_of_tx :: "wenv \<Rightarrow> json \<Rightarrow> ((string \<times> u32) list) wres" where
  "outpoints_of_tx w tx =
     wbind (jitems_of tx ''inputs'') (\<lambda>ins.
       map_wres (\<lambda>i. wbind (jvalue as_string i ''prev_txid'' []) (\<lambda>txid.
                     wbind (jvalue (as_number32 (we_float w)) i ''vout'' 0) (\<lambda>vout. Inr (txid, vout)))) ins)"

text \<open>The outpoints that unconfirmed transactions spend.\<close>

definition pool_outpoints :: "wenv \<Rightarrow> json list \<Rightarrow> ((string \<times> u32) list) wres" where
  "pool_outpoints w txs = wbind (map_wres (outpoints_of_tx w) txs) (\<lambda>spent. Inr (concat spent))"

definition coin_spent :: "(string \<times> u32) list \<Rightarrow> coin \<Rightarrow> bool" where
  "coin_spent spent c \<longleftrightarrow> (co_txid c, co_vout c) \<in> set spent"

text \<open>An output of an unconfirmed transaction to the address, unless it is spent or known already.\<close>

definition pending_coin ::
  "wenv \<Rightarrow> money \<Rightarrow> string \<Rightarrow> (string \<times> u32) list \<Rightarrow> string \<Rightarrow> u32 \<Rightarrow> json \<Rightarrow> coin list \<Rightarrow> (coin list) wres" where
  "pending_coin w m address spent txid vout out coins =
     wbind (jvalue as_string out ''address'' []) (\<lambda>owner.
       if owner \<noteq> address then Inr coins
       else if (txid, vout) \<in> set spent \<or> (\<exists>c \<in> set coins. co_txid c = txid \<and> co_vout c = vout) \<or> txid = [] then Inr coins
       else wbind (jvalue (as_number (we_float w)) out ''value'' 0) (\<lambda>units.
         if units = 0 then Inr coins
         else if mo_scale m = 1000 then
           Inr (coins @ [\<lparr>co_txid = txid, co_vout = vout, co_units = units, co_worth = units, co_pi = units\<rparr>])
         else if units > U64_MAX div 1000 then fail ''amount overflow''
         else Inr (coins @ [\<lparr>co_txid = txid, co_vout = vout, co_units = units, co_worth = units, co_pi = units * 1000\<rparr>])))"

fun pending_outputs ::
  "wenv \<Rightarrow> money \<Rightarrow> string \<Rightarrow> (string \<times> u32) list \<Rightarrow> string \<Rightarrow> u32 \<Rightarrow> json list \<Rightarrow> coin list \<Rightarrow> (coin list) wres" where
  "pending_outputs w m address spent txid vout [] coins = Inr coins"
| "pending_outputs w m address spent txid vout (out # outs) coins =
     wbind (pending_coin w m address spent txid vout out coins)
       (\<lambda>coins'. pending_outputs w m address spent txid (vout + 1) outs coins')"

fun pending_coins ::
  "wenv \<Rightarrow> money \<Rightarrow> string \<Rightarrow> (string \<times> u32) list \<Rightarrow> json list \<Rightarrow> coin list \<Rightarrow> (coin list) wres" where
  "pending_coins w m address spent [] coins = Inr coins"
| "pending_coins w m address spent (tx # txs) coins =
     wbind (jvalue as_string tx ''txid'' []) (\<lambda>txid.
     wbind (jitems_of tx ''outputs'') (\<lambda>outs.
     wbind (pending_outputs w m address spent txid 0 outs coins) (\<lambda>coins'.
       pending_coins w m address spent txs coins')))"

definition coins_for :: "wenv \<Rightarrow> string \<Rightarrow> money \<Rightarrow> bool \<Rightarrow> (coin list) wres" where
  "coins_for w address m confirmed_only =
     wbind (call w ''listunspent'' (JObject [(''address'', JString address)])) (\<lambda>listed.
     wbind (jitems_of listed ''utxos'') (\<lambda>rows.
     wbind (coins_of_rows w m rows) (\<lambda>coins.
     wbind (call w ''getmempool'' (JObject [])) (\<lambda>pool.
     wbind (jitems_of pool ''transactions'') (\<lambda>txs.
     wbind (pool_outpoints w txs) (\<lambda>spent.
       let free = filter (\<lambda>c. \<not> coin_spent spent c) coins in
       if confirmed_only then Inr free else pending_coins w m address spent txs free))))))"

text \<open>The largest first, until they are enough; at most 200.\<close>

definition by_worth_desc :: "coin list \<Rightarrow> coin list" where
  "by_worth_desc cs = sort_key (\<lambda>c. U64_MAX - co_worth c) cs"

fun pick_coins :: "u64 \<Rightarrow> coin list \<Rightarrow> coin list \<Rightarrow> u64 \<Rightarrow> (coin list \<times> u64) wres" where
  "pick_coins need [] chosen got = Inr (chosen, got)"
| "pick_coins need (c # cs) chosen got =
     (if got \<ge> need \<or> length chosen \<ge> 200 then Inr (chosen, got)
      else if got > U64_MAX - co_worth c then fail ''amount overflow''
      else pick_coins need cs (chosen @ [c]) (got + co_worth c))"

definition take_units :: "wenv \<Rightarrow> string \<Rightarrow> money \<Rightarrow> u64 \<Rightarrow> (coin list \<times> u64) wres" where
  "take_units w address m need =
     wbind (coins_for w address m True) (\<lambda>coins.
     wbind (pick_coins need (by_worth_desc coins) [] 0) (\<lambda>(chosen, got).
       if got < need then fail (address @ '' has no coin covering the flag fee'') else Inr (chosen, got - need)))"

end
