(* ===== verification/Wallet_Cmd.thy ===== *)
theory Wallet_Cmd
  imports Wallet
begin

text \<open>
  The wallet's commands that build a transaction: \<open>send\<close>, \<open>consolidate\<close>, \<open>register\<close>, \<open>flag create\<close> and
  \<open>flag claim\<close>, and \<open>balance\<close> (pswallet/src/main.cpp). A command ends with the lines it prints, or with
  the message of its failure. Each of them sends at most one transaction, as its last call of the
  daemon; \<open>..._tx\<close> is the signed document.
\<close>

datatype outcome = W_Out "string list" | W_Err "string option"

definition outcome_of :: "(string list) wres \<Rightarrow> outcome" where
  "outcome_of r = (case r of Inl e \<Rightarrow> W_Err e | Inr ls \<Rightarrow> W_Out ls)"

definition inputs_json :: "coin list \<Rightarrow> json" where
  "inputs_json cs =
     JArray (map (\<lambda>c. JObject [(''prev_txid'', JString (co_txid c)), (''vout'', JUint (ucast (co_vout c)))]) cs)"

definition output_json :: "string \<Rightarrow> u64 \<Rightarrow> json" where
  "output_json address v = JObject [(''address'', JString address), (''value'', JUint v)]"

definition transfer_doc :: "u64 \<Rightarrow> coin list \<Rightarrow> json list \<Rightarrow> json" where
  "transfer_doc fee chosen outs =
     JObject [(''version'', JUint 1), (''fee'', JUint fee), (''inputs'', inputs_json chosen), (''outputs'', JArray outs)]"

text \<open>Handing a transaction in: the txid, or why it was rejected.\<close>

definition hand_in :: "wenv \<Rightarrow> string \<Rightarrow> string \<Rightarrow> json \<Rightarrow> string wres" where
  "hand_in w method dflt tx =
     wbind (call w method tx) (\<lambda>result.
     wbind (jvalue as_string result ''status'' []) (\<lambda>status.
       if status \<noteq> ''accepted'' then wbind (jvalue as_string result ''reason'' dflt) (\<lambda>why. fail why)
       else jvalue as_string result ''txid'' []))"

subsection \<open>send\<close>

text \<open>The coins a payment may use. Unlike \<open>coins_for\<close> it counts the reserved ones.\<close>

definition send_coins :: "wenv \<Rightarrow> money \<Rightarrow> string \<Rightarrow> (coin list) wres" where
  "send_coins w m src =
     wbind (call w ''listunspent'' (JObject [(''address'', JString src)])) (\<lambda>listed.
     wbind (call w ''getmempool'' (JObject [])) (\<lambda>pool.
     wbind (jitems_of pool ''transactions'') (\<lambda>txs.
     wbind (pool_outpoints w txs) (\<lambda>reserved.
     wbind (jitems_of listed ''utxos'') (\<lambda>rows.
     wbind (coins_of_rows w m rows) (\<lambda>coins.
       let available = filter (\<lambda>c. \<not> coin_spent reserved c) coins in
       if available = [] \<and> coins \<noteq> [] then fail ''coins reserved by an unconfirmed transaction''
       else Inr (by_worth_desc available)))))))"

definition short_of :: "string \<Rightarrow> u64 \<Rightarrow> u64 \<Rightarrow> string" where
  "short_of src pay_pi fee_pi =
     src @ '' has no coin covering '' @ format_314st_pi pay_pi @ '' 314ST plus fee '' @ format_314st_pi fee_pi @ '' 314ST''"

definition default_fee :: "money \<Rightarrow> string" where
  "default_fee m = (if mo_scale m = 1000 then ''0.000314'' else ''0.001'')"

definition send_doc :: "string \<Rightarrow> string \<Rightarrow> u64 \<Rightarrow> u64 \<Rightarrow> coin list \<Rightarrow> u64 \<Rightarrow> json" where
  "send_doc src dst pay fee chosen change =
     transfer_doc fee chosen (output_json dst pay # (if change > 0 then [output_json src change] else []))"

text \<open>The amount in stored units, the amount in pi, and the signed transaction.\<close>

definition send_tx :: "wenv \<Rightarrow> string \<Rightarrow> string \<Rightarrow> string \<Rightarrow> string \<Rightarrow> (u64 \<times> u64 \<times> json) wres" where
  "send_tx w src dst amount fee_text =
     wbind (load_money w) (\<lambda>m.
     wbind (parse_amount amount m) (\<lambda>(pay, pay_pi).
     wbind (parse_fee (if fee_text = [] then default_fee m else fee_text) m) (\<lambda>(fee, fee_pi).
     wbind (some_address w src) (\<lambda>src_addr.
     wbind (some_address w dst) (\<lambda>dst_addr.
     wbind (load_key w src_addr) (\<lambda>key.
     wbind (send_coins w m src_addr) (\<lambda>available.
       if pay > U64_MAX - fee then fail ''amount overflow''
       else
         let need = pay + fee in
         wbind (pick_coins need available [] 0) (\<lambda>(chosen, got).
           if got < need then fail (short_of src pay_pi fee_pi)
           else wbind (sign_tx w key (send_doc src_addr dst_addr pay fee chosen (got - need)))
                  (\<lambda>tx. Inr (pay, pay_pi, tx))))))))))"

definition cmd_send :: "wenv \<Rightarrow> string \<Rightarrow> string \<Rightarrow> string \<Rightarrow> string \<Rightarrow> outcome" where
  "cmd_send w src dst amount fee_text =
     outcome_of (wbind (send_tx w src dst amount fee_text) (\<lambda>(pay, pay_pi, tx).
       let shown = format_314st_pi pay_pi @ '' 314ST'' in
       if we_dry_run w then Inr [dec_string (unat pay) @ '' units'', shown, ''signed'']
       else wbind (hand_in w ''sendtransaction'' ''send rejected'' tx) (\<lambda>txid. Inr [shown, txid])))"

subsection \<open>consolidate\<close>

text \<open>The sum of the first \<open>n\<close> coins; \<open>None\<close> when it would wrap.\<close>

fun sum_worth :: "coin list \<Rightarrow> u64 \<Rightarrow> u64 option" where
  "sum_worth [] got = Some got"
| "sum_worth (c # cs) got = (if got > U64_MAX - co_worth c then None else sum_worth cs (got + co_worth c))"

text \<open>From \<open>n\<close> coins down to two: the first number whose transaction is small enough.\<close>

fun consolidate_loop :: "wenv \<Rightarrow> wkey \<Rightarrow> string \<Rightarrow> u64 \<Rightarrow> coin list \<Rightarrow> nat \<Rightarrow> (json option) wres" where
  "consolidate_loop w key src fee coins 0 = Inr None"
| "consolidate_loop w key src fee coins (Suc n) =
     (if Suc n < 2 then Inr None
      else case sum_worth (take (Suc n) coins) 0 of
          None \<Rightarrow> consolidate_loop w key src fee coins n
        | Some got \<Rightarrow>
            if got \<le> fee then consolidate_loop w key src fee coins n
            else wbind (sign_tx w key (transfer_doc fee (take (Suc n) coins) [output_json src (got - fee)])) (\<lambda>tx.
              if length (we_dump w tx) > 64 * 1024 then consolidate_loop w key src fee coins n else Inr (Some tx)))"

definition consolidate_tx :: "wenv \<Rightarrow> string \<Rightarrow> string \<Rightarrow> (json option) wres" where
  "consolidate_tx w src fee_text =
     wbind (load_money w) (\<lambda>m.
     wbind (parse_fee (if fee_text = [] then default_fee m else fee_text) m) (\<lambda>(fee, fee_pi).
     wbind (some_address w src) (\<lambda>src_addr.
     wbind (load_key w src_addr) (\<lambda>key.
     wbind (coins_for w src_addr m False) (\<lambda>coins.
       if length coins < 2 then Inr None
       else consolidate_loop w key src_addr fee (sort_key co_worth coins) (min (length coins) 200))))))"

definition cmd_consolidate :: "wenv \<Rightarrow> string \<Rightarrow> string \<Rightarrow> outcome" where
  "cmd_consolidate w src fee_text =
     outcome_of (wbind (consolidate_tx w src fee_text) (\<lambda>made.
       case made of
         None \<Rightarrow> Inr [''nothing to consolidate'']
       | Some tx \<Rightarrow>
           if we_dry_run w then Inr [''signed'']
           else wbind (hand_in w ''sendtransaction'' ''send rejected'' tx) (\<lambda>txid. Inr [txid])))"

subsection \<open>register\<close>

text \<open>The document names.json is replaced by; \<open>raw\<close> is the file, when it can be read.\<close>

definition marked_row :: "string \<Rightarrow> string \<Rightarrow> json \<Rightarrow> (json \<times> bool) wres" where
  "marked_row name ps1 row =
     (if \<not> is_object row then Inr (row, False)
      else wbind (jvalue as_string row ''name'' []) (\<lambda>n.
        if fold_name n = fold_name name
        then Inr (jset (jset row ''name'' (JString name)) ''address'' (JString ps1), True)
        else Inr (row, False)))"

definition write_grant :: "wenv \<Rightarrow> string option \<Rightarrow> string \<Rightarrow> string \<Rightarrow> json wres" where
  "write_grant w raw name ps1 =
     (case (case raw of
              None \<Rightarrow> Some (JObject [(''reserved_bind'', JArray []), (''names'', JArray [])])
            | Some text \<Rightarrow> we_parse w text) of
        None \<Rightarrow> fail ''names.json is not json''
      | Some doc \<Rightarrow>
          if \<not> is_object doc \<and> doc \<noteq> JNull then Inl None
          else
            let doc0 = (if doc = JNull then JObject [] else doc);
                rows = (case jarray doc0 ''reserved_bind'' of Some rs \<Rightarrow> rs | None \<Rightarrow> []) in
            wbind (map_wres (marked_row name ps1) rows) (\<lambda>marked.
              let rows' = map fst marked @
                    (if list_ex snd marked then []
                     else [JObject [(''name'', JString name), (''address'', JString ps1)]]) in
              Inr (jset doc0 ''reserved_bind'' (JArray rows'))))"

definition register_doc :: "string \<Rightarrow> string \<Rightarrow> u64 \<Rightarrow> coin \<Rightarrow> json" where
  "register_doc name ps1 fee c =
     JObject [(''version'', JUint 1), (''type'', JString ''register''), (''name'', JString name), (''address'', JString ps1),
       (''fee'', JUint fee), (''inputs'', inputs_json [c]), (''outputs'', JArray [output_json ps1 (co_worth c - fee)])]"

definition register_spend :: "wenv \<Rightarrow> money \<Rightarrow> string \<Rightarrow> string \<Rightarrow> json wres" where
  "register_spend w m name ps1 =
     (let fee = (if mo_scale m = 1000 then 1000 else 1); need = (if mo_scale m = 1000 then 2000 else 2) in
      wbind (load_key w ps1) (\<lambda>key.
      wbind (coins_for w ps1 m False) (\<lambda>coins.
        case find (\<lambda>c. co_worth c \<ge> need) coins of
          None \<Rightarrow> fail (ps1 @ '' has no coin covering the register fee '' @ format_314st_pi 1000 @ '' 314ST'')
        | Some c \<Rightarrow> sign_tx w key (register_doc name ps1 fee c))))"

text \<open>The second result is what names.json is overwritten with, before anything else is known.\<close>

definition cmd_register ::
  "wenv \<Rightarrow> string option \<Rightarrow> bool \<Rightarrow> string \<Rightarrow> string \<Rightarrow> bool \<Rightarrow> outcome \<times> json option" where
  "cmd_register w raw can_write name ps1_in grant =
     (case (if valid_shortname name then normalize_ps1 ps1_in else None) of
        None \<Rightarrow> (W_Err (Some ''usage: pswallet register NAME ps1...''), None)
      | Some ps1 \<Rightarrow>
          if is_reserved_name name \<and> \<not> grant then (W_Err (Some ''name is reserved''), None)
          else if grant \<and> \<not> is_reserved_name name then (W_Err (Some ''grant is only for a reserved name''), None)
          else (case load_money w of
                  Inl e \<Rightarrow> (W_Err e, None)
                | Inr m \<Rightarrow>
                    (let rest = outcome_of (wbind (register_spend w m name ps1) (\<lambda>tx.
                           wbind (hand_in w ''sendtransaction'' ''register rejected'' tx) (\<lambda>txid. Inr [txid]))) in
                     if \<not> grant then (rest, None)
                     else (case write_grant w raw name ps1 of
                             Inl e \<Rightarrow> (W_Err e, None)
                           | Inr doc \<Rightarrow>
                               if can_write then (rest, Some doc)
                               else (W_Err (Some ''could not write names.json''), None)))))"

subsection \<open>Flags\<close>

text \<open>\<open>strtoul\<close> in base ten: no value without digits or with a rest; too large is the largest value.\<close>

definition strtoul :: "string \<Rightarrow> u64 option" where
  "strtoul text =
     (let s = dropWhile is_blank text;
          neg = (s \<noteq> [] \<and> s ! 0 = CHR ''-'');
          d = (if s \<noteq> [] \<and> (s ! 0 = CHR ''-'' \<or> s ! 0 = CHR ''+'') then drop 1 s else s) in
      if d = [] \<or> \<not> is_digits d then None
      else if dec_val d \<ge> 2 ^ 64 then Some U64_MAX
      else Some (if neg then - of_nat (dec_val d) else of_nat (dec_val d)))"

definition flag_doc ::
  "u64 \<Rightarrow> string \<Rightarrow> string \<Rightarrow> string \<Rightarrow> u64 \<Rightarrow> u64 \<Rightarrow> u64 \<Rightarrow> string \<Rightarrow> coin list \<Rightarrow> json list \<Rightarrow> json" where
  "flag_doc fee i commitment awards_pub max_claims expires bounty note chosen outs =
     JObject [(''version'', JUint 1), (''fee'', JUint fee), (''type'', JString ''createflag''), (''flag_id'', JString i),
       (''commitment'', JString commitment), (''awards_pubkey'', JString awards_pub), (''max_claims'', JUint max_claims),
       (''expires_height'', JUint expires), (''bounty_units'', JUint bounty), (''note'', JString note),
       (''inputs'', inputs_json chosen), (''outputs'', JArray outs)]"

definition claim_doc :: "u64 \<Rightarrow> string \<Rightarrow> string \<Rightarrow> coin list \<Rightarrow> json list \<Rightarrow> json" where
  "claim_doc fee i recipient chosen outs =
     JObject [(''version'', JUint 1), (''fee'', JUint fee), (''type'', JString ''claimflag''), (''flag_id'', JString i),
       (''recipient'', JString recipient), (''inputs'', inputs_json chosen), (''outputs'', JArray outs)]"

definition flag_fee :: "money \<Rightarrow> u64" where
  "flag_fee m = (if mo_scale m = 1000 then 1000 else 1)"

text \<open>\<open>creator\<close> is the default wallet, empty when there is none.\<close>

definition flag_create_tx ::
  "wenv \<Rightarrow> string \<Rightarrow> string \<Rightarrow> string \<Rightarrow> string \<Rightarrow> string \<Rightarrow> string \<Rightarrow> string \<Rightarrow> string \<Rightarrow> json wres" where
  "flag_create_tx w creator i commitment awards max_text expires_text bounty_text note =
     wbind (load_money w) (\<lambda>m.
     if length note > 80 then fail ''malformed transaction'' else
     case (strtoul max_text, strtoul expires_text, strtoul bounty_text) of
       (Some max_claims, Some expires, Some bounty) \<Rightarrow>
         if max_claims = 0 \<and> bounty \<noteq> 0 then fail ''unlimited flag cannot pay''
         else
           wbind (some_address w awards) (\<lambda>awards_addr.
           wbind (read_wallet_doc w awards_addr) (\<lambda>awards_doc.
             let awards_pub = lower_hex (or_empty (jstring awards_doc ''public_key'')) in
             if creator = [] then fail ''no spending key''
             else
               wbind (load_key w creator) (\<lambda>key.
               let lock = bounty * max_claims; fee = flag_fee m in
               if lock > U64_MAX - fee then fail ''amount overflow''
               else
                 wbind (take_units w creator m (lock + fee)) (\<lambda>(chosen, change).
                   sign_tx w key (flag_doc fee i commitment awards_pub max_claims expires bounty note chosen
                     (if change > 0 then [output_json creator change] else []))))))
     | _ \<Rightarrow> fail ''malformed transaction'')"

text \<open>\<open>wallet_of\<close> finds the wallet file with a public key (\<open>wallet_with_pubkey\<close>), empty when there is none.\<close>

definition flag_claim_tx :: "wenv \<Rightarrow> (string \<Rightarrow> string wres) \<Rightarrow> string \<Rightarrow> string \<Rightarrow> json wres" where
  "flag_claim_tx w wallet_of i recipient_text =
     wbind (load_money w) (\<lambda>m.
     case normalize_ps1 recipient_text of
       None \<Rightarrow> fail ''malformed transaction''
     | Some recipient \<Rightarrow>
         wbind (call w ''listflags'' (JObject [(''flag_id'', JString i)])) (\<lambda>flag.
         wbind (jvalue as_bool flag ''found'' False) (\<lambda>found.
         if \<not> found then fail ''unknown flag'' else
         wbind (jvalue as_string flag ''awards_pubkey'' []) (\<lambda>pub.
         wbind (wallet_of (lower_hex pub)) (\<lambda>awards.
         if awards = [] then fail ''no spending key for awards'' else
         wbind (load_key w awards) (\<lambda>key.
         wbind (jvalue (as_number (we_float w)) flag ''bounty_units'' 0) (\<lambda>bounty.
         wbind (take_units w awards m (flag_fee m)) (\<lambda>(chosen, change).
           sign_tx w key (claim_doc (flag_fee m) i recipient chosen
             ((if bounty > 0 then [output_json recipient bounty] else []) @
              (if change > 0 then [output_json awards change] else [])))))))))))"

definition cmd_flag_create ::
  "wenv \<Rightarrow> string \<Rightarrow> string \<Rightarrow> string \<Rightarrow> string \<Rightarrow> string \<Rightarrow> string \<Rightarrow> string \<Rightarrow> string \<Rightarrow> outcome" where
  "cmd_flag_create w creator i commitment awards max_text expires_text bounty_text note =
     outcome_of (wbind (flag_create_tx w creator i commitment awards max_text expires_text bounty_text note) (\<lambda>tx.
       wbind (hand_in w ''createflag'' ''flag rejected'' tx) (\<lambda>txid. Inr [txid])))"

definition cmd_flag_claim :: "wenv \<Rightarrow> (string \<Rightarrow> string wres) \<Rightarrow> string \<Rightarrow> string \<Rightarrow> outcome" where
  "cmd_flag_claim w wallet_of i recipient_text =
     outcome_of (wbind (flag_claim_tx w wallet_of i recipient_text) (\<lambda>tx.
       wbind (hand_in w ''claimflag'' ''flag rejected'' tx) (\<lambda>txid. Inr [txid])))"

subsection \<open>balance\<close>

text \<open>What unconfirmed outputs of one transaction add; a sum that would wrap ends its outputs.\<close>

fun pending_of_tx :: "wenv \<Rightarrow> string \<Rightarrow> json list \<Rightarrow> u64 \<Rightarrow> u64 wres" where
  "pending_of_tx w address [] pending = Inr pending"
| "pending_of_tx w address (out # outs) pending =
     wbind (jvalue as_string out ''address'' []) (\<lambda>owner.
       if owner \<noteq> address then pending_of_tx w address outs pending
       else wbind (jvalue (as_number (we_float w)) out ''value'' 0) (\<lambda>v.
         if pending > U64_MAX - v then Inr U64_MAX else pending_of_tx w address outs (pending + v)))"

fun pending_total :: "wenv \<Rightarrow> string \<Rightarrow> json list \<Rightarrow> u64 \<Rightarrow> u64 wres" where
  "pending_total w address [] pending = Inr pending"
| "pending_total w address (tx # txs) pending =
     wbind (jitems_of tx ''outputs'') (\<lambda>outs.
     wbind (pending_of_tx w address outs pending) (\<lambda>pending'. pending_total w address txs pending'))"

definition pending_pi :: "wenv \<Rightarrow> u64 \<Rightarrow> u64" where
  "pending_pi w pending =
     (if (case load_money w of Inl _ \<Rightarrow> False | Inr m \<Rightarrow> mo_scale m = 1000) then pending
      else if pending > U64_MAX div 1000 then U64_MAX else pending * 1000)"

definition cmd_balance :: "wenv \<Rightarrow> string \<Rightarrow> outcome" where
  "cmd_balance w who =
     outcome_of (wbind (some_address w who) (\<lambda>address.
     wbind (call w ''listunspent'' (JObject [(''address'', JString address)])) (\<lambda>result.
     wbind (jvalue as_string result ''amount'' ''0.000000'') (\<lambda>amount.
       let first = amount @ '' 314ST'' in
       case we_rpc w ''getmempool'' (JObject []) of
         Inl _ \<Rightarrow> Inr [first]
       | Inr pool \<Rightarrow>
           wbind (jitems_of pool ''transactions'') (\<lambda>txs.
           wbind (pending_total w address txs 0) (\<lambda>pending.
             Inr (if pending > 0 then [first, ''unconfirmed '' @ format_314st_pi (pending_pi w pending) @ '' 314ST'']
                  else [first])))))))"

end
