(* ===== verification/Wallet_Send.thy ===== *)
theory Wallet_Send
  imports Wallet_Cmd Rpc Names_Book Tx_Json Tx_Canon Spend_Safe
begin

text \<open>
  The wallet and the daemon together: a payment that \<open>pswallet send\<close> builds from the daemon's own
  answers is accepted by that daemon.
\<close>

text \<open>The daemon's answer to a call, as \<open>ws_call\<close> unwraps it.\<close>

definition ask_daemon :: "rpc_env \<Rightarrow> server \<Rightarrow> string \<Rightarrow> json \<Rightarrow> string + json" where
  "ask_daemon rq sv method params =
     (case fst (ws_method rq method params (ws_new, sv)) of
        C_Result doc \<Rightarrow> Inr doc
      | C_Throw why \<Rightarrow> Inl (''Internal error: '' @ why)
      | C_Unknown \<Rightarrow> Inl ''Method not found''
      | C_Down \<Rightarrow> Inl ''websocket read failed'')"

lemma ask_simps:
  "ask_daemon rq sv ''getblockchaininfo'' params = Inr (rpc_getblockchaininfo (sv_node sv))"
  "ask_daemon rq sv ''getmempool'' params = Inr (rpc_getmempool (ne_ev (rq_net rq)) (nd_st (sv_node sv)))"
  "ask_daemon rq sv ''listunspent'' params = Inr (fst (rpc_listunspent (ne_ev (rq_net rq)) params (sv_node sv)))"
  "ask_daemon rq sv ''sendtransaction'' params =
     Inr (sent_json (fst (rpc_sendtransaction (ne_ev (rq_net rq)) params (sv_node sv))))"
  by (simp_all add: ask_daemon_def ws_method_def chain_method_def Let_def split: prod.splits)

subsection \<open>Choosing coins\<close>

lemma pick_coins_sum:
  "pick_coins wanted cs chosen got = Inr (chosen', got') \<Longrightarrow>
   \<exists>ds. chosen' = chosen @ ds \<and> set ds \<subseteq> set cs \<and> sum_worth ds got = Some got' \<and>
     (length chosen \<le> 200 \<longrightarrow> length chosen' \<le> 200)"
proof (induction cs arbitrary: chosen got)
  case (Cons c cs)
  show ?case
  proof (cases "got \<ge> wanted \<or> length chosen \<ge> 200")
    case True
    with Cons.prems show ?thesis by auto
  next
    case False
    then have room: "\<not> got > U64_MAX - co_worth c" and n: "pick_coins wanted cs (chosen @ [c]) (got + co_worth c) = Inr (chosen', got')"
      using Cons.prems by (auto split: if_splits)
    from Cons.IH [OF n] obtain ds where "chosen' = chosen @ c # ds" "set ds \<subseteq> set cs"
      "sum_worth ds (got + co_worth c) = Some got'" "length (chosen @ [c]) \<le> 200 \<longrightarrow> length chosen' \<le> 200" by auto
    with room False show ?thesis by (intro exI [of _ "c # ds"]) auto
  qed
qed simp

lemma sum_worth_inputs:
  assumes "sum_worth cs got = Some got'" "\<And>c. c \<in> set cs \<Longrightarrow> input_worth st prior h (f c) = Inr (co_worth c)"
  shows "inputs_value st prior h (map f cs) got = Inr got'"
  using assms by (induction cs arbitrary: got) (auto split: if_splits)

lemma set_by_worth [simp]: "set (by_worth_desc cs) = set cs"
  by (simp add: by_worth_desc_def)

subsection \<open>The daemon's listing\<close>

definition scaled :: "money \<Rightarrow> u64 \<Rightarrow> u64" where
  "scaled m pi = (if mo_scale m = 1000 then pi else pi div 1000)"

lemma coin_of_row:
  assumes "coin_from_row w m (unspent_row row pi) = Inr c"
  shows "co_txid c = ue_txid_hex row \<and> co_vout c = ue_vout row \<and> co_worth c = scaled m pi"
  using assms
  by (auto simp: coin_from_row_def unspent_row_def jvalue_def as_number32_def as_number_def juint_def set_worth_def scaled_def
      Let_def split: if_splits)

lemma coins_of_listing:
  "coins_of_rows w m (map (\<lambda>(row, pi). unspent_row row pi) rows) = Inr cs \<Longrightarrow> c \<in> set cs \<Longrightarrow>
   \<exists>(row, pi) \<in> set rows. co_txid c = ue_txid_hex row \<and> co_vout c = ue_vout row \<and> co_worth c = scaled m pi"
proof (induction rows arbitrary: cs)
  case (Cons rp rows)
  obtain row pi where rp: "rp = (row, pi)" by (cases rp)
  show ?case
  proof (cases "coin_from_row w m (unspent_row row pi)")
    case (Inl e)
    with Cons.prems rp have "coins_of_rows w m (map (\<lambda>(row, pi). unspent_row row pi) rows) = Inr cs"
      by (auto split: option.splits if_splits)
    with Cons.IH Cons.prems(2) show ?thesis by (auto simp: rp)
  next
    case (Inr c0)
    with Cons.prems rp obtain cs0 where "coins_of_rows w m (map (\<lambda>(row, pi). unspent_row row pi) rows) = Inr cs0" "cs = c0 # cs0"
      by auto
    with Cons.IH [of cs0] Cons.prems(2) coin_of_row [OF Inr] show ?thesis by (auto simp: rp)
  qed
qed simp

lemma pool_outpoints_printed:
  "pool_outpoints w (map tx_to_json txs) = Inr (concat (map (\<lambda>tx. map (\<lambda>i. (to_hex (ti_prev i), ti_vout i)) (tx_inputs tx)) txs))"
proof -
  have i: "map_wres (\<lambda>i. wbind (jvalue as_string i ''prev_txid'' []) (\<lambda>txid.
        wbind (jvalue (as_number32 (we_float w)) i ''vout'' 0) (\<lambda>vout. Inr (txid, vout)))) (map txin_to_json ins) =
      Inr (map (\<lambda>i. (to_hex (ti_prev i), ti_vout i)) ins)" for ins
    by (induction ins) (simp_all add: jvalue_def txin_to_json_def as_number32_def as_number_def)
  have "jitems_of (tx_to_json tx) ''inputs'' = Inr (map txin_to_json (tx_inputs tx))" for tx
    by (simp add: jitems_of_def jvalue_def tx_to_json_def)
  then have t: "outpoints_of_tx w (tx_to_json tx) = Inr (map (\<lambda>i. (to_hex (ti_prev i), ti_vout i)) (tx_inputs tx))" for tx
    by (simp add: outpoints_of_tx_def i)
  have "map_wres (outpoints_of_tx w) (map tx_to_json txs) = Inr (map (\<lambda>tx. map (\<lambda>i. (to_hex (ti_prev i), ti_vout i)) (tx_inputs tx)) txs)"
    by (induction txs) (simp_all add: t)
  then show ?thesis by (simp add: pool_outpoints_def)
qed

text \<open>What is assumed of the ledger: every coin of the address has a 32-byte id, and was created above
  height zero and not above the tip.\<close>

definition coins_ok :: "storage \<Rightarrow> string \<Rightarrow> bool" where
  "coins_ok st address \<longleftrightarrow> utxo_wf (st_utxo st) \<and>
     list_all (\<lambda>row. ue_height row \<noteq> 0 \<and> ue_height row \<le> st_best_height st \<and> from_hex (ue_txid_hex row) \<noteq> None)
       (list_utxos st address)"

lemma listed_coin:
  assumes "coins_ok st address" "row \<in> set (list_utxos st address)" "address \<noteq> []"
  obtains t where "is_h256 t" "ue_txid_hex row = to_hex t" "from_hex (to_hex t) = Some t"
    "utxo_lookup st t (ue_vout row) = Some (ue_units row, address, ue_height row)"
proof -
  have wf: "utxo_wf (st_utxo st)" using assms(1) by (simp add: coins_ok_def)
  obtain k r where kr: "(k, r) \<in> set (st_utxo st)" "row \<in> set (utxo_row address (k, r))"
    using assms(2) by (auto simp: list_utxos_def)
  then obtain t v where k: "k = utxo_key t v" using wf by (auto simp: utxo_wf_def)
  with kr(2) have row: "row = \<lparr>ue_txid_hex = to_hex t, ue_vout = v, ue_units = ur_value r, ue_address = ur_address r, ue_height = ur_height r\<rparr>"
    and a: "address = [] \<or> ur_address r = address" by (auto simp: utxo_row_def split: if_splits)
  have "utxo_find st t v = Some r" using wf kr(1) k by (simp add: utxo_wf_def utxo_find_def tbl_get_def)
  moreover have "from_hex (to_hex t) \<noteq> None" using assms(1,2) row by (auto simp: coins_ok_def list_all_iff)
  then obtain d where d: "from_hex (to_hex t) = Some d" by blast
  then have "length (to_hex d) = length (to_hex t)" using from_hex_SomeD(2) [OF d] by simp
  then have "is_h256 t" using from_hex_SomeD(1) [OF d] by (simp add: is_h256_def)
  ultimately show thesis using row a assms(3) by (intro that [of t]) (simp_all add: utxo_lookup_def)
qed


text \<open>What a listed coin is worth to the wallet is what it is worth as an input.\<close>

lemma listed_worth:
  assumes "utxo_lookup st t v = Some (units, a, h)" "stored_to_pi units h = Some pi" "h \<noteq> 0" "h \<le> st_best_height st"
    "scale = (if st_best_height st + 1 \<ge> kPiActivationHeight then 1000 else 1)" "st_best_height st + 1 \<noteq> 0"
    "mo_scale m = scale" "\<not> spent_before prior i" "ti_prev i = t" "ti_vout i = v"
  shows "input_worth st prior (st_best_height st + 1) i = Inr (scaled m pi)"
proof -
  let ?n = "st_best_height st + 1"
  have lt: "h < ?n" using assms(4,6) unatSuc [of "st_best_height st"]
    by (simp add: word_less_nat_alt word_le_nat_alt add.commute)
  have o: "find_outpoint st t v prior ?n = Some (units, a, h)" using assms(1,3) by (simp add: find_outpoint_def)
  show ?thesis
  proof (cases "?n \<ge> kPiActivationHeight")
    case True
    then have sc: "scaled m pi = pi" using assms(5,7) by (simp add: scaled_def)
    show ?thesis
    proof (cases "h \<ge> kPiActivationHeight")
      case high: True
      then have "pi = units" using assms(2) by (simp add: stored_to_pi_def)
      moreover have "\<not> h < kPiActivationHeight" using high by (simp add: not_less)
      ultimately show ?thesis using sc o assms(8-10) by (simp add: input_worth_def)
    next
      case low: False
      then have "\<not> units > U64_MAX div kPiPerOldUnit" "pi = units * kPiPerOldUnit"
        using assms(2) by (auto simp: stored_to_pi_def split: if_splits)
      with low True sc o assms(8-10) show ?thesis by (simp add: input_worth_def not_le)
    qed
  next
    case False
    then have low: "\<not> h \<ge> kPiActivationHeight" using lt by auto
    then have "unat pi = unat units * 1000" using assms(2) by (simp add: stored_to_pi_Some_iff)
    then have "pi div 1000 = units" by (simp add: word_unat_eq_iff unat_div)
    moreover have "scaled m pi = pi div 1000" using False assms(5,7) by (simp add: scaled_def)
    ultimately show ?thesis using False o assms(8-10) by (simp add: input_worth_def)
  qed
qed

subsection \<open>The signed document\<close>

definition signed_input :: "string \<Rightarrow> bytes \<Rightarrow> coin \<Rightarrow> txin" where
  "signed_input public_hex sig c =
     \<lparr>ti_prev = (case from_hex (co_txid c) of None \<Rightarrow> zero256 | Some t \<Rightarrow> t), ti_vout = co_vout c,
      ti_signature_hex = to_hex sig, ti_public_key_hex = public_hex\<rparr>"

definition signed_input_json :: "string \<Rightarrow> bytes \<Rightarrow> coin \<Rightarrow> json" where
  "signed_input_json public_hex sig c =
     JObject [(''prev_txid'', JString (co_txid c)), (''vout'', JUint (ucast (co_vout c))),
       (''public_key'', JString public_hex), (''signature'', JString (to_hex sig))]"

definition signed_doc :: "u64 \<Rightarrow> string \<Rightarrow> bytes \<Rightarrow> coin list \<Rightarrow> json list \<Rightarrow> json" where
  "signed_doc fee public_hex sig chosen outs =
     JObject [(''version'', JUint 1), (''fee'', JUint fee), (''inputs'', JArray (map (signed_input_json public_hex sig) chosen)),
       (''outputs'', JArray outs)]"

definition transfer_body :: "u64 \<Rightarrow> coin list \<Rightarrow> txout list \<Rightarrow> json" where
  "transfer_body fee chosen outs =
     JObject [(''fee'', JUint fee), (''inputs'', inputs_json chosen), (''outputs'', JArray (map txout_to_json outs)),
       (''version'', JUint 1)]"

lemma transfer_doc_body:
  "spend_body (transfer_doc fee chosen (map txout_to_json outs)) = Inr (transfer_body fee chosen outs)"
proof -
  have i: "map (spend_input \<circ> (\<lambda>c. JObject [(''prev_txid'', JString (co_txid c)), (''vout'', JUint (ucast (co_vout c)))])) chosen =
      map (\<lambda>c. JObject [(''prev_txid'', JString (co_txid c)), (''vout'', JUint (ucast (co_vout c)))]) chosen"
    by (simp add: spend_input_def jfield_def)
  have o: "map (spend_output \<circ> txout_to_json) outs = map txout_to_json outs"
    by (simp add: spend_output_def jfield_def txout_to_json_def)
  show ?thesis
    by (simp add: spend_body_def transfer_doc_def jfield_def inputs_json_def jvalue_def transfer_body_def i o)
qed

lemma sign_transfer:
  assumes "sign_tx w key (transfer_doc fee chosen (map txout_to_json outs)) = Inr tx"
  obtains seed sig where "decode_hex (wk_secret_hex key) [] = (True, seed)" "length seed = 32" "length sig = 64"
    "we_sign w seed (we_dump w (transfer_body fee chosen outs)) = Some sig"
    "tx = signed_doc fee (wk_public_hex key) sig chosen (map txout_to_json outs)"
proof -
  let ?msg = "we_dump w (transfer_body fee chosen outs)"
  obtain hex where hex: "ed25519_sign w (wk_secret_hex key) ?msg = Inr hex"
    and tx: "tx = jset (transfer_doc fee chosen (map txout_to_json outs)) ''inputs''
       (JArray (map (\<lambda>i. jset (jset i ''public_key'' (JString (wk_public_hex key))) ''signature'' (JString hex))
          (jitems (jfield (transfer_doc fee chosen (map txout_to_json outs)) ''inputs''))))"
    using assms by (auto simp: sign_tx_def spend_payload_def transfer_doc_body)
  obtain seed sig where s: "decode_hex (wk_secret_hex key) [] = (True, seed)" "length seed = 32" "length sig = 64"
    "we_sign w seed ?msg = Some sig" "hex = to_hex sig"
    using hex by (auto simp: ed25519_sign_def split: prod.splits if_splits option.splits)
  have "tx = signed_doc fee (wk_public_hex key) sig chosen (map txout_to_json outs)"
    by (simp add: tx s(5) signed_doc_def signed_input_json_def transfer_doc_def jfield_def inputs_json_def comp_def)
  with s show thesis by (intro that)
qed

definition payment :: "(bytes \<Rightarrow> h256) \<Rightarrow> u64 \<Rightarrow> string \<Rightarrow> bytes \<Rightarrow> coin list \<Rightarrow> txout list \<Rightarrow> tx" where
  "payment H fee public_hex sig chosen outs =
     (let t = tx_default\<lparr>tx_fee := fee, tx_inputs := map (signed_input public_hex sig) chosen, tx_outputs := outs\<rparr> in
      t\<lparr>tx_txid := H (canonical_tx t)\<rparr>)"

lemma canonical_short:
  assumes "length ins \<le> 200" "\<forall>i \<in> set ins. is_h256 (ti_prev i)" "length outs \<le> 2" "\<forall>out \<in> set outs. length (to_address out) = 67"
  shows "length (canonical_tx (tx_default\<lparr>tx_fee := fee, tx_inputs := ins, tx_outputs := outs\<rparr>)) \<le> kMaxTxBytes"
proof -
  have i: "length (concat (map enc_in (map in_op ins))) = 36 * length ins"
    using assms(2) by (induction ins) (auto simp: enc_in_def in_op_def is_h256_def)
  have o: "length (concat (map enc_out outs)) \<le> 77 * length outs"
    using assms(4) by (induction outs) (auto simp: enc_out_def str16_def bytes_of_def)
  show ?thesis using i o assms(1,3)
    by (simp add: canonical_layout tx_default_def flag_part_def reg_part_def bytes_of_def kMaxTxBytes_def)
qed

end
