(* ===== verification/Wallet_Safe.thy ===== *)
theory Wallet_Safe
  imports Wallet_Send Mempool_Send Template_Mine Frame
begin

text \<open>A wallet payment, from the key file to the mempool.  The first lemmas read the signed document back the way the
  daemon parses it; the middle ones show that the coins \<open>send_coins\<close> offers are coins \<open>check_spendable\<close> accepts at the next
  height; the last put the two together: what \<open>send_tx\<close> signs, \<open>rpc_sendtransaction\<close> takes.\<close>

subsection \<open>Reading the signed document\<close>
lemma parse_signed_input:
  "from_hex (co_txid c) \<noteq> None \<Longrightarrow> parse_input (signed_input_json pub sig c) = Inr (signed_input pub sig c)"
  by (auto simp: parse_input_def signed_input_json_def signed_input_def jstring_def juint_def or_empty_def)

lemma parse_signed:
  assumes "stored_checked h True fee = Inr fee" "length chosen \<le> 200" "\<forall>c \<in> set chosen. from_hex (co_txid c) \<noteq> None"
    "outs \<noteq> []" "length outs \<le> 2" "\<forall>out \<in> set outs. length (to_address out) = 67 \<and> to_value out \<noteq> 0"
    "dump_size ev (signed_doc fee pub sig chosen (map txout_to_json outs)) \<le> kMaxTxJsonBytes"
  shows "parse_tx ev (signed_doc fee pub sig chosen (map txout_to_json outs)) h = Inr (payment (ev_sha ev) fee pub sig chosen outs)"
proof -
  let ?doc = "signed_doc fee pub sig chosen (map txout_to_json outs)"
  have m: "map_res parse_input (map (signed_input_json pub sig) cs) = Inr (map (signed_input pub sig) cs)"
    if "\<forall>c \<in> set cs. from_hex (co_txid c) \<noteq> None" for cs
    using that by (induction cs) (simp_all add: parse_signed_input)
  have ins: "parse_inputs (JArray (map (signed_input_json pub sig) chosen)) = Inr (map (signed_input pub sig) chosen)"
    by (simp add: parse_inputs_def m [OF assms(3)])
  have o: "map_res (parse_output h) (map txout_to_json os) = Inr os"
    if "\<forall>out \<in> set os. length (to_address out) = 67 \<and> to_value out \<noteq> 0" for os
    using that by (induction os) (auto simp: parse_output_def txout_to_json_def jstring_def stored_from_json_amount_def stored_checked_def)
  have outs: "parse_outputs (JArray (map txout_to_json outs)) h = Inr outs"
    using assms(4) by (simp add: parse_outputs_def o [OF assms(6)])
  have size: "length (canonical_tx (tx_default\<lparr>tx_fee := fee, tx_inputs := map (signed_input pub sig) chosen, tx_outputs := outs\<rparr>)) \<le> kMaxTxBytes"
  proof (rule canonical_short)
    show "\<forall>i \<in> set (map (signed_input pub sig) chosen). is_h256 (ti_prev i)"
      using assms(3) by (auto simp: signed_input_def zero256_def is_h256_def split: option.splits dest: from_hex_SomeD)
  qed (use assms in auto)
  have g: "jget ?doc ''inputs'' = Some (JArray (map (signed_input_json pub sig) chosen))" "jget ?doc ''outputs'' = Some (JArray (map txout_to_json outs))"
    "juint ?doc ''version'' = Some 1" "jget ?doc ''fee'' = Some (JUint fee)" "jstring ?doc ''type'' = None" "is_object ?doc"
    by (simp_all add: signed_doc_def juint_def jstring_def)
  have body: "parse_body (ev_sha ev) ?doc h (tx_default\<lparr>tx_fee := fee\<rparr>) = Inr (payment (ev_sha ev) fee pub sig chosen outs)"
    using size assms(2) by (simp add: parse_body_def g ins outs kMaxTxInputs_def payment_def Let_def)
  show ?thesis using assms(1,7) body
    by (simp add: parse_user_tx_def g stored_from_json_amount_def)
qed

lemma payment_payload:
  assumes "\<forall>c \<in> set chosen. \<exists>t. is_h256 t \<and> co_txid c = to_hex t"
  shows "sign_payload ev (payment H fee pub sig chosen outs) = ev_dump ev (transfer_body fee chosen outs)"
proof -
  have i: "map (\<lambda>i. JObject [(''prev_txid'', JString (to_hex (ti_prev i))), (''vout'', JUint (ucast (ti_vout i)))])
      (map (signed_input pub sig) chosen) =
    map (\<lambda>c. JObject [(''prev_txid'', JString (co_txid c)), (''vout'', JUint (ucast (co_vout c)))]) chosen"
    using assms by (auto simp: signed_input_def)
  have o: "map (\<lambda>o'. JObject [(''address'', JString (to_address o')), (''value'', JUint (to_value o'))]) outs = map txout_to_json outs"
    by (simp add: txout_to_json_def)
  show ?thesis
    by (simp add: sign_payload_def payment_def tx_default_def transfer_body_def inputs_json_def i [unfolded map_map comp_def] o comp_def)
qed

lemma normalize_long: "is_long_address a \<Longrightarrow> normalize_ps1 a = Some a"
proof -
  assume l: "is_long_address a"
  have "lower_ascii s = s" if "list_all (\<lambda>c. in_range c CHR ''0'' CHR ''9'' \<or> in_range c CHR ''a'' CHR ''z'') s" for s
    using that by (induction s) (auto simp: lower_ascii_def in_range_def)
  moreover have "list_all (\<lambda>c. in_range c CHR ''0'' CHR ''9'' \<or> in_range c CHR ''a'' CHR ''z'') a"
  proof -
    have "list_all (\<lambda>c. in_range c CHR ''0'' CHR ''9'' \<or> in_range c CHR ''a'' CHR ''z'') (take 3 a)"
      using l by (simp add: is_long_address_def in_range_def)
    moreover have "list_all (\<lambda>c. in_range c CHR ''0'' CHR ''9'' \<or> in_range c CHR ''a'' CHR ''z'') (drop 3 a)"
      using l unfolding is_long_address_def list_all_iff by (fastforce simp: in_range_def)
    ultimately show ?thesis by (metis append_take_drop_id list_all_append)
  qed
  ultimately show ?thesis using l by (simp add: normalize_ps1_def is_long_address_def)
qed

lemma resolve_long: "is_long_address a \<Longrightarrow> some_address w a = Inr a"
  by (auto simp: some_address_def resolve_wallet_address_def normalize_long is_long_address_def)

lemma long_not_named: "book_ok g \<Longrightarrow> is_long_address a \<Longrightarrow> lookup_name g a = None"
proof -
  assume g: "book_ok g" and a: "is_long_address a"
  have "fold_name (nm_name r) \<noteq> fold_name a" if "r \<in> set g" for r
  proof -
    have "length (nm_name r) \<le> 32" using g that by (auto simp: book_ok_def list_all_iff valid_shortname_def split: if_splits)
    moreover have "length (fold_name s) = length s" for s by (simp add: fold_name_def lower_ascii_def)
    ultimately have "length (fold_name (nm_name r)) \<noteq> length (fold_name a)" using a by (simp add: is_long_address_def)
    then show ?thesis by auto
  qed
  then show ?thesis by (simp add: lookup_name_def find_name_None)
qed

lemma wallet_ps1_long: "is_long_address a \<Longrightarrow> wallet_ps1 a = Some a"
proof -
  assume l: "is_long_address a"
  then have "take 3 a = ''ps1''" "lower_hex (drop 3 a) = drop 3 a" "length a = 67"
    by (auto simp: is_long_address_def intro: lower_hex_id)
  moreover have "''ps1'' @ drop 3 a = a" using calculation(1) by (metis append_take_drop_id)
  ultimately show ?thesis using l by (simp add: wallet_ps1_def lower_ascii_ps1 Let_def)
qed

subsection \<open>The coins of a payment\<close>

lemma listed_utxos:
  assumes "book_inv (nd_names nd)" "is_long_address a"
  shows "jitems_of (fst (rpc_listunspent ev (JObject [(''address'', JString a)]) nd)) ''utxos'' =
    Inr (map (\<lambda>(row, pi). unspent_row row pi) (fst (unspent_rows (list_utxos (nd_st nd) a) 0 0)))"
proof -
  let ?g = "load_names_file (ev_names_file ev) (nd_names nd)"
  have "book_inv ?g" using assms(1) by (rule load_names_file_inv)
  then have "lookup_name ?g a = None" using long_not_named assms(2) by (auto simp: Names_Book.book_inv_def)
  then have "fst (unspent_address ?g a) = a"
    by (simp add: unspent_address_def wallet_ps1_long [OF assms(2)] split: option.split)
  then show ?thesis
    by (auto simp: rpc_listunspent_def unspent_query_def as_object_param_def jstring_def jitems_of_def jvalue_def Let_def
        split: prod.splits)
qed

lemma send_coins_sound:
  assumes "we_rpc w = ask_daemon rq sv" "send_coins w m src = Inr available" "is_long_address src"
    "book_inv (nd_names (sv_node sv))" "coins_ok (nd_st (sv_node sv)) src" "c \<in> set available"
    "mo_scale m = (if st_best_height (nd_st (sv_node sv)) + 1 \<ge> kPiActivationHeight then 1000 else 1)"
    "st_best_height (nd_st (sv_node sv)) + 1 \<noteq> 0"
  obtains t where "is_h256 t" "co_txid c = to_hex t" "from_hex (to_hex t) = Some t"
    "\<And>h. \<exists>v b. find_outpoint (nd_st (sv_node sv)) t (co_vout c) (mempool_txs (ne_ev (rq_net rq)) (nd_st (sv_node sv))) h = Some (v, src, b)"
    "\<And>pub sig. input_worth (nd_st (sv_node sv)) (mempool_txs (ne_ev (rq_net rq)) (nd_st (sv_node sv)))
        (st_best_height (nd_st (sv_node sv)) + 1) (signed_input pub sig c) = Inr (co_worth c)"
    "\<And>pub sig. \<not> spent_before (mempool_txs (ne_ev (rq_net rq)) (nd_st (sv_node sv))) (signed_input pub sig c)"
proof -
  let ?st = "nd_st (sv_node sv)"
  let ?ev = "ne_ev (rq_net rq)"
  let ?txs = "mempool_txs ?ev ?st"
  have src: "src \<noteq> []" using assms(3) by (auto simp: is_long_address_def)
  have pool: "jitems_of (rpc_getmempool ?ev ?st) ''transactions'' = Inr (map tx_to_json ?txs)"
    by (simp add: rpc_getmempool_def jitems_of_def jvalue_def Let_def)
  obtain coins where coins: "coins_of_rows w m (map (\<lambda>(row, pi). unspent_row row pi) (fst (unspent_rows (list_utxos ?st src) 0 0))) = Inr coins"
    and c: "c \<in> set coins" "(co_txid c, co_vout c) \<notin> set (concat (map (\<lambda>tx. map (\<lambda>i. (to_hex (ti_prev i), ti_vout i)) (tx_inputs tx)) ?txs))"
    using assms(2,6)
    by (auto simp: send_coins_def call_def assms(1) ask_simps listed_utxos [OF assms(4,3)] pool pool_outpoints_printed
        coin_spent_def Let_def split: if_splits)
  from coins_of_listing [OF coins c(1)] obtain row pi where rp: "(row, pi) \<in> set (fst (unspent_rows (list_utxos ?st src) 0 0))"
    and cr: "co_txid c = ue_txid_hex row" "co_vout c = ue_vout row" "co_worth c = scaled m pi" by auto
  obtain shown t tp where u: "unspent_rows (list_utxos ?st src) 0 0 = (shown, t, tp)" by (cases "unspent_rows (list_utxos ?st src) 0 0")
  have "(row, pi) \<in> set shown" using rp by (simp add: u)
  with unspent_rows_sums [OF u] have "row \<in> set (list_utxos ?st src) \<and> stored_to_pi (ue_units row) (ue_height row) = Some pi"
    by (auto simp: list_all_iff)
  then have row: "row \<in> set (list_utxos ?st src)" "stored_to_pi (ue_units row) (ue_height row) = Some pi" by auto
  obtain t where t: "is_h256 t" "ue_txid_hex row = to_hex t" "from_hex (to_hex t) = Some t"
    "utxo_lookup ?st t (ue_vout row) = Some (ue_units row, src, ue_height row)"
    by (rule listed_coin [OF assms(5) row(1) src])
  have h: "ue_height row \<noteq> 0" "ue_height row \<le> st_best_height ?st"
    using assms(5) row(1) by (auto simp: coins_ok_def list_all_iff)
  have si: "ti_prev (signed_input pub sig c) = t" "ti_vout (signed_input pub sig c) = ue_vout row" for pub sig
    using t cr by (simp_all add: signed_input_def)
  have ns: "\<not> spent_before ?txs (signed_input pub sig c)" for pub sig
    using c(2) unfolding cr t(2) by (fastforce simp: spent_before_def list_ex_iff si image_iff)
  show thesis
  proof (rule that [OF t(1) _ t(3)])
    show "co_txid c = to_hex t" using cr t by simp
    show "\<exists>v b. find_outpoint ?st t (co_vout c) ?txs h = Some (v, src, b)" for h
      using t(4) cr by (simp add: find_outpoint_def)
    show "input_worth ?st ?txs (st_best_height ?st + 1) (signed_input pub sig c) = Inr (co_worth c)" for pub sig
      using listed_worth [OF t(4) row(2) h refl assms(8,7) ns si] cr by simp
    show "\<not> spent_before ?txs (signed_input pub sig c)" for pub sig by (rule ns)
  qed
qed


subsection \<open>Acceptance\<close>

lemma payment_outputs: "tx_outputs (payment H fee pub sig chosen outs) = outs"
  "tx_inputs (payment H fee pub sig chosen outs) = map (signed_input pub sig) chosen"
  "tx_fee (payment H fee pub sig chosen outs) = fee" "tx_flag_kind (payment H fee pub sig chosen outs) = Flag_None"
  "tx_escrow_lock (payment H fee pub sig chosen outs) = 0" "\<not> tx_reg (payment H fee pub sig chosen outs)"
  by (simp_all add: payment_def Let_def tx_default_def)

lemma payment_not_named:
  assumes "book_ok g" "\<forall>out \<in> set outs. is_long_address (to_address out)"
  shows "resolve_output_names H g (payment H fee pub sig chosen outs) = payment H fee pub sig chosen outs"
proof -
  have r: "resolve_address g (to_address out) = to_address out" if "out \<in> set outs" for out
    using long_not_named [OF assms(1)] assms(2) that by (simp add: resolve_address_def)
  have m: "map (\<lambda>out. out\<lparr>to_address := resolve_address g (to_address out)\<rparr>) outs = outs"
    by (rule map_idI) (simp add: r)
  have "\<not> list_ex (\<lambda>out. resolve_address g (to_address out) \<noteq> to_address out) outs" using r by (auto simp: list_ex_iff)
  then show ?thesis using m
    by (simp add: resolve_output_names_def payment_outputs)
qed

lemma payment_spendable:
  assumes "chosen \<noteq> []" "min_fee_for_height h \<le> fee" "inputs_value st prior h (map (signed_input pub sig) chosen) 0 = Inr got"
    "fold (\<lambda>out v. v + to_value out) outs 0 + fee = got"
  shows "check_spendable st (payment H fee pub sig chosen outs) h prior 0 = Inr ()"
  using assms by (simp add: check_spendable_def payment_outputs outputs_value_def Let_def not_less)

text \<open>The wallet holds the key of the address: its key file gives a key whose signatures verify under \<open>pub\<close>
  (the correctness of Ed25519), \<open>pub\<close> hashes to the address, and the daemon knows no other key for it.\<close>

definition spends_for :: "env \<Rightarrow> wenv \<Rightarrow> string \<Rightarrow> bytes \<Rightarrow> bool" where
  "spends_for ev w src pub \<longleftrightarrow>
     is_long_address src \<and> length pub = 32 \<and> long_address (ev_sha ev) pub = src \<and>
     (bound_public_key ev src = None \<or> bound_public_key ev src = Some (to_hex pub)) \<and>
     (case load_key w src of
        Inl _ \<Rightarrow> False
      | Inr key \<Rightarrow> wk_public_hex key = to_hex pub \<and>
          (\<forall>seed message sig. decode_hex (wk_secret_hex key) [] = (True, seed) \<and> we_sign w seed message = Some sig \<longrightarrow>
             ev_evp ev pub sig message))"

lemma lower_to_hex: "length d = 32 \<Longrightarrow> lower_hex (to_hex d) = to_hex d"
  by (rule lower_hex_to_hex) (simp add: is_h256_def)

lemma payment_signed:
  assumes "spends_for ev w src pub" "load_key w src = Inr key" "decode_hex (wk_secret_hex key) [] = (True, seed)"
    "we_sign w seed (ev_dump ev (transfer_body fee chosen outs)) = Some sig" "length sig = 64" "chosen \<noteq> []"
    "\<And>c. c \<in> set chosen \<Longrightarrow> \<exists>t. is_h256 t \<and> co_txid c = to_hex t \<and> (\<exists>v b. find_outpoint st t (co_vout c) prior 0 = Some (v, src, b))"
  shows "verify_input_signatures ev st (payment H fee (to_hex pub) sig chosen outs) True prior = Inr ()"
proof -
  let ?msg = "ev_dump ev (transfer_body fee chosen outs)"
  have msg: "sign_payload ev (payment H fee (to_hex pub) sig chosen outs) = ?msg"
    using assms(7) by (intro payment_payload) blast
  have sp: "is_long_address src" "length pub = 32" "long_address (ev_sha ev) pub = src"
    "bound_public_key ev src = None \<or> bound_public_key ev src = Some (to_hex pub)" "ev_evp ev pub sig ?msg"
    using assms(1-4) by (auto simp: spends_for_def)
  have n: "to_hex pub \<noteq> []" "to_hex sig \<noteq> []" using sp(2) assms(5) by (auto simp flip: length_0_conv)
  have "verify_input ev st ?msg True prior (signed_input (to_hex pub) sig c) = Inr ()" if c: "c \<in> set chosen" for c
  proof -
    obtain t v b where t: "is_h256 t" "co_txid c = to_hex t" "find_outpoint st t (co_vout c) prior 0 = Some (v, src, b)"
      using assms(7) [OF c] by blast
    then have s: "ti_prev (signed_input (to_hex pub) sig c) = t" "ti_vout (signed_input (to_hex pub) sig c) = co_vout c"
      "ti_signature_hex (signed_input (to_hex pub) sig c) = to_hex sig" "ti_public_key_hex (signed_input (to_hex pub) sig c) = to_hex pub"
      by (simp_all add: signed_input_def)
    show ?thesis
      using sp n assms(5) by (auto simp: verify_input_def verify_signed_input_def s t(3) lower_to_hex ed25519_verify_def)
  qed
  then show ?thesis using assms(6) by (simp add: verify_input_signatures_def msg payment_outputs)
qed


lemma parse_amount_pos: "parse_amount text m = Inr (stored, pi) \<Longrightarrow> stored \<noteq> 0 \<and> pi \<noteq> 0"
proof -
  assume a: "parse_amount text m = Inr (stored, pi)"
  then have p: "parse_314st_pi text = Inr pi" by (auto simp: parse_amount_def split: sum.splits if_splits)
  then obtain w f where "parse_parts w f = Inr pi" by (auto simp: parse_314st_pi_def Let_def split: if_splits)
  then have z: "pi \<noteq> 0" by (auto simp: parse_parts_def Let_def split: option.splits if_splits)
  have "pi div 1000 \<noteq> 0" if "pi mod 1000 = 0"
  proof
    assume "pi div 1000 = 0"
    with that have "unat pi div 1000 = 0" "unat pi mod 1000 = 0"
      using unat_div [of pi 1000] unat_mod [of pi 1000] by simp_all
    then have "unat pi = 0" by (metis div_mult_mod_eq add_0 mult_0)
    with z show False by (simp add: unat_eq_zero)
  qed
  with a z p show ?thesis by (auto simp: parse_amount_def split: if_splits)
qed

lemma fee_stored:
  assumes "parse_fee text m = Inr (fee, fee_pi)" "mo_scale m = (if h \<ge> kPiActivationHeight then 1000 else 1)"
  shows "stored_checked h True fee = Inr fee \<and> min_fee_for_height h \<le> fee"
proof -
  have a: "parse_amount text m = Inr (fee, fee_pi)" "mo_scale m = 1000 \<longrightarrow> \<not> fee_pi < 314"
    using assms(1) by (auto simp: parse_fee_def split: if_splits prod.splits)
  have nz: "fee \<noteq> 0" using parse_amount_pos [OF a(1)] by simp
  then have one: "\<not> fee < 1" by (simp add: not_less word_le_nat_alt unat_gt_0 Suc_le_eq)
  have "fee = fee_pi" if "mo_scale m = 1000" using a(1) that by (auto simp: parse_amount_def split: sum.splits if_splits)
  then have "\<not> fee < min_fee_for_height h" using a(2) assms(2) one by (auto simp: min_fee_for_height_def kMinFeePi_def)
  with nz show ?thesis by (simp add: stored_checked_def not_less)
qed

lemma money_of_daemon:
  assumes "we_rpc w = ask_daemon rq sv" "load_money w = Inr m"
  shows "mo_scale m = (if st_best_height (nd_st (sv_node sv)) + 1 \<ge> kPiActivationHeight then 1000 else 1)"
  using assms
  by (auto simp: load_money_def ask_simps rpc_getblockchaininfo_def juint_def amount_scale_for_next_def kPiPerOldUnit_def Let_def
      split: if_splits)

definition paid_outputs :: "string \<Rightarrow> string \<Rightarrow> u64 \<Rightarrow> u64 \<Rightarrow> txout list" where
  "paid_outputs src dst pay change =
     \<lparr>to_value = pay, to_address = dst\<rparr> # (if change > 0 then [\<lparr>to_value = change, to_address = src\<rparr>] else [])"

lemma send_doc_outputs: "send_doc src dst pay fee chosen change = transfer_doc fee chosen (map txout_to_json (paid_outputs src dst pay change))"
  by (simp add: send_doc_def paid_outputs_def txout_to_json_def output_json_def)

text \<open>A node the transaction may reach: the chain, the mempool and the flags it was built on.\<close>

definition same_ledger :: "node \<Rightarrow> node \<Rightarrow> bool" where
  "same_ledger nd nd' \<longleftrightarrow> nd_st nd' = nd_st nd \<and> nd_flags nd' = nd_flags nd \<and> book_inv (nd_names nd')"

lemma payment_accepted:
  assumes "parse_tx ev tx (next_height_of st) = Inr t" "resolve_output_names (ev_sha ev) (nd_names nd) t = t"
    "\<not> has_transaction st (tx_txid t)" "tx_inputs t \<noteq> []" "tx_flag_kind t = Flag_None" "\<not> tx_reg t" "nd_st nd = st"
    "check_spendable st t (next_height_of st) (mempool_txs ev st) 0 = Inr ()"
    "verify_input_signatures ev st t True (mempool_txs ev st) = Inr ()" "\<not> shares_input (mempool_txs ev st) t" "is_object tx"
  obtains nd' where "rpc_sendtransaction ev tx nd = (Inr (tx_txid t), nd')" "has_transaction (nd_st nd') (tx_txid t)"
proof -
  have adm: "admit_tx ev st True (next_height_of st) (mempool_txs ev st) t fs (nd_names nd) = (Inr fs, nd_names nd)" for fs
    using assms(5,6,8,9)
    by (simp add: admit_tx_def claim_release_def admit_register_def flag_outputs_ok_def apply_flag_tx_def)
  have "as_object_param (ev_parse ev) tx = tx" using assms(11) by (simp add: as_object_param_def)
  then show thesis
    using assms(1-4,6,7,10,11) adm
    by (intro that) (auto simp: rpc_sendtransaction_def accept_sent_def register_sent_def add_transaction_def mem_entry_def
        has_transaction_def tbl.get_put Let_def)
qed


subsection \<open>A payment arrives\<close>

lemma payment_apart:
  assumes "\<And>c. c \<in> set chosen \<Longrightarrow> \<not> spent_before prior (signed_input pub sig c)"
  shows "\<not> shares_input prior (payment H fee pub sig chosen outs)"
  using assms by (fastforce simp: shares_input_def spent_before_def payment_outputs list_ex_iff)

text \<open>What has to hold of the daemon's state for an address.\<close>

definition ready_to_spend :: "env \<Rightarrow> node \<Rightarrow> string \<Rightarrow> bool" where
  "ready_to_spend ev nd src \<longleftrightarrow>
     has_tip (nd_st nd) \<and> st_best_height (nd_st nd) + 1 \<noteq> 0 \<and> coins_ok (nd_st nd) src \<and> book_inv (nd_names nd)"

lemma send_accepted:
  assumes w: "we_rpc w = ask_daemon rq sv" "we_dump w = ev_dump (ne_ev (rq_net rq))"
    and key: "spends_for (ne_ev (rq_net rq)) w src pub" "is_long_address dst"
    and st: "ready_to_spend (ne_ev (rq_net rq)) (sv_node sv) src"
    and tx: "send_tx w src dst amount fee_text = Inr (pay, pay_pi, tx)"
    and size: "dump_size (ne_ev (rq_net rq)) tx \<le> kMaxTxJsonBytes"
    and nd: "same_ledger (sv_node sv) nd"
    and fresh: "\<And>t. parse_tx (ne_ev (rq_net rq)) tx (next_height_of (nd_st nd)) = Inr t \<Longrightarrow> \<not> has_transaction (nd_st nd) (tx_txid t)"
  obtains txid nd' where "rpc_sendtransaction (ne_ev (rq_net rq)) tx nd = (Inr txid, nd')" "has_transaction (nd_st nd') txid"
proof -
  let ?ev = "ne_ev (rq_net rq)"
  let ?st = "nd_st (sv_node sv)"
  let ?h = "st_best_height ?st + 1"
  let ?prior = "mempool_txs ?ev ?st"
  have tip: "has_tip ?st" "?h \<noteq> 0" "coins_ok ?st src" "book_inv (nd_names (sv_node sv))" using st by (simp_all add: ready_to_spend_def)
  have h: "next_height_of ?st = ?h" using tip(1) by (simp add: next_height_of_def)
  have src: "is_long_address src" using key(1) by (simp add: spends_for_def)
  have nd_st: "nd_st nd = ?st" "book_ok (nd_names nd)" using nd by (auto simp: same_ledger_def Names_Book.book_inv_def)
  obtain m fee fee_pi k available chosen got where m: "load_money w = Inr m"
    and pay: "parse_amount amount m = Inr (pay, pay_pi)" and fee: "\<exists>text. parse_fee text m = Inr (fee, fee_pi)"
    and k: "load_key w src = Inr k" and av: "send_coins w m src = Inr available"
    and room: "\<not> pay > U64_MAX - fee" and pick: "pick_coins (pay + fee) available [] 0 = Inr (chosen, got)" and enough: "\<not> got < pay + fee"
    and signed: "sign_tx w k (send_doc src dst pay fee chosen (got - (pay + fee))) = Inr tx"
    using tx by (auto simp: send_tx_def resolve_long [OF src] resolve_long [OF key(2)] Let_def split: prod.splits if_splits) blast+
  let ?outs = "paid_outputs src dst pay (got - (pay + fee))"
  have scale: "mo_scale m = (if ?h \<ge> kPiActivationHeight then 1000 else 1)" by (rule money_of_daemon [OF w(1) m])
  obtain seed sig where s: "decode_hex (wk_secret_hex k) [] = (True, seed)" "length sig = 64"
    "we_sign w seed (ev_dump ?ev (transfer_body fee chosen ?outs)) = Some sig"
    "tx = signed_doc fee (wk_public_hex k) sig chosen (map txout_to_json ?outs)"
    using sign_transfer [OF signed [unfolded send_doc_outputs]] w(2) by metis
  have pub: "wk_public_hex k = to_hex pub" using key(1) k by (auto simp: spends_for_def)
  have f: "stored_checked ?h True fee = Inr fee" "min_fee_for_height ?h \<le> fee" using fee fee_stored [OF _ scale] by blast+
  have pos: "pay \<noteq> 0" using parse_amount_pos [OF pay] by simp
  have sum: "unat (pay + fee) = unat pay + unat fee" using room by (rule no_add_overflow)
  have ds: "set chosen \<subseteq> set available" "sum_worth chosen 0 = Some got" "length chosen \<le> 200"
    using pick_coins_sum [OF pick] by auto
  have "pay + fee \<noteq> 0" using sum pos by (metis add_is_0 unat_0 unat_eq_zero)
  then have ne: "chosen \<noteq> []" using ds(2) enough by (auto simp: not_less)
  have c: "\<exists>t. is_h256 t \<and> co_txid c = to_hex t \<and> from_hex (to_hex t) = Some t \<and>
      (\<forall>h. \<exists>v b. find_outpoint ?st t (co_vout c) ?prior h = Some (v, src, b)) \<and>
      input_worth ?st ?prior ?h (signed_input (to_hex pub) sig c) = Inr (co_worth c) \<and>
      \<not> spent_before ?prior (signed_input (to_hex pub) sig c)" if "c \<in> set chosen" for c
  proof -
    have "c \<in> set available" using that ds(1) by blast
    from send_coins_sound [OF w(1) av src tip(4,3) this scale tip(2)] show ?thesis by metis
  qed
  let ?t = "payment (ev_sha ?ev) fee (to_hex pub) sig chosen ?outs"
  have parsed: "parse_tx ?ev tx (next_height_of ?st) = Inr ?t"
    unfolding h s(4) pub
  proof (rule parse_signed)
    show "\<forall>c \<in> set chosen. from_hex (co_txid c) \<noteq> None" using c by force
    show "\<forall>out \<in> set ?outs. length (to_address out) = 67 \<and> to_value out \<noteq> 0"
      using pos src key(2) by (auto simp: paid_outputs_def is_long_address_def)
    show "dump_size ?ev (signed_doc fee (to_hex pub) sig chosen (map txout_to_json ?outs)) \<le> kMaxTxJsonBytes"
      using size by (simp add: s(4) pub)
  qed (use f ds in \<open>auto simp: paid_outputs_def\<close>)
  have spend: "check_spendable ?st ?t (next_height_of ?st) ?prior 0 = Inr ()"
    unfolding h
  proof (rule payment_spendable [OF ne f(2)])
    show "inputs_value ?st ?prior ?h (map (signed_input (to_hex pub) sig) chosen) 0 = Inr got"
      by (rule sum_worth_inputs [OF ds(2)]) (use c in blast)
    show "fold (\<lambda>out v. v + to_value out) ?outs 0 + fee = got" 
      by (cases "got - (pay + fee) = 0") (simp_all add: paid_outputs_def word_gt_0 algebra_simps)
  qed
  have sigs: "verify_input_signatures ?ev ?st ?t True ?prior = Inr ()"
    by (rule payment_signed [OF key(1) k s(1,3,2) ne]) (use c in blast)
  have apart: "\<not> shares_input ?prior ?t" by (rule payment_apart) (use c in blast)
  have named: "resolve_output_names (ev_sha ?ev) (nd_names nd) ?t = ?t"
    by (rule payment_not_named [OF nd_st(2)]) (use src key(2) in \<open>auto simp: paid_outputs_def\<close>)
  have obj: "is_object tx" by (simp add: s(4) signed_doc_def)
  have "tx_inputs ?t \<noteq> []" using ne by (simp add: payment_outputs)
  from payment_accepted [OF parsed named _ this _ _ nd_st(1) spend sigs apart obj]
  show thesis using fresh [unfolded nd_st, OF parsed] that by (auto simp: payment_outputs)
qed

text \<open>C31: A payment the wallet builds is a payment the daemon takes. Let the wallet hold the key of \<open>src\<close>
  and ask a daemon whose coins of that address are sound and whose tip is not the last height; then
  whatever the amount, the fee and the recipient, the document \<open>send\<close> signs (when it does not fail) is
  accepted by \<open>sendtransaction\<close> at any node with the same ledger, the transaction is in the mempool
  afterwards, and at that daemon itself \<open>pswallet send\<close> ends with the amount and the txid.\<close>

theorem sent_is_accepted:
  assumes "we_rpc w = ask_daemon rq sv" "we_dump w = ev_dump (ne_ev (rq_net rq))" "spends_for (ne_ev (rq_net rq)) w src pub"
    "is_long_address dst" "ready_to_spend (ne_ev (rq_net rq)) (sv_node sv) src"
    "send_tx w src dst amount fee_text = Inr (pay, pay_pi, tx)" "dump_size (ne_ev (rq_net rq)) tx \<le> kMaxTxJsonBytes"
    "\<And>t. parse_tx (ne_ev (rq_net rq)) tx (next_height_of (nd_st (sv_node sv))) = Inr t \<Longrightarrow> \<not> has_transaction (nd_st (sv_node sv)) (tx_txid t)"
  shows "(\<forall>nd. same_ledger (sv_node sv) nd \<longrightarrow>
        (\<exists>txid nd'. rpc_sendtransaction (ne_ev (rq_net rq)) tx nd = (Inr txid, nd') \<and> has_transaction (nd_st nd') txid)) \<and>
    (\<not> we_dry_run w \<longrightarrow>
       (\<exists>txid. cmd_send w src dst amount fee_text = W_Out [format_314st_pi pay_pi @ '' 314ST'', to_hex txid]))"
proof -
  have sent: "\<exists>txid nd'. rpc_sendtransaction (ne_ev (rq_net rq)) tx nd = (Inr txid, nd') \<and> has_transaction (nd_st nd') txid"
    if nd: "same_ledger (sv_node sv) nd" for nd
    using send_accepted [OF assms(1-7) nd] assms(8) nd unfolding same_ledger_def by metis
  have "same_ledger (sv_node sv) (sv_node sv)" using assms(5) by (simp add: same_ledger_def ready_to_spend_def)
  from sent [OF this] obtain txid nd' where "rpc_sendtransaction (ne_ev (rq_net rq)) tx (sv_node sv) = (Inr txid, nd')" by blast
  then have "call w ''sendtransaction'' tx = Inr (sent_json (Inr txid))"
    using assms(1) by (simp add: call_def ask_simps)
  then have "hand_in w ''sendtransaction'' ''send rejected'' tx = Inr (to_hex txid)"
    by (simp add: hand_in_def sent_json_def jvalue_def)
  with sent assms(6) show ?thesis
    by (auto simp: cmd_send_def outcome_of_def Let_def)
qed

definition pay_key :: bytes where "pay_key = replicate 32 0"

definition pay_server :: server where
  "pay_server = demo_server\<lparr>sv_node := demo_node\<lparr>nd_st := (storage_new [])\<lparr>
     st_height_to_hash := replicate 6 zero256, st_best_height := 5,
     st_utxo := [(utxo_key (replicate 32 1) 0, \<lparr>ur_value = 5, ur_address = demo_addr CHR ''a'', ur_height = 1\<rparr>)]\<rparr>\<rparr>\<rparr>"

definition pay_rpc :: rpc_env where
  "pay_rpc = \<lparr>rq_net = demo_net\<lparr>ne_ev := demo_env\<rparr>, rq_rnd = None, rq_exists = (\<lambda>_. True), rq_what = [], rq_peers = 0,
     rq_other = (\<lambda>_ _. C_Unknown), rq_bucket = None\<rparr>"

definition pay_wallet :: wenv where
  "pay_wallet = \<lparr>we_rpc = ask_daemon pay_rpc pay_server, we_file = (\<lambda>_. Some []),
     we_parse = (\<lambda>_. Some (JObject [(''scheme'', JString ''ed25519''), (''public_key'', JString (to_hex pay_key)),
       (''secret_key'', JString (to_hex pay_key))])),
     we_dump = (\<lambda>_. []), we_float = (\<lambda>_. 0), we_pass = None, we_unseal = (\<lambda>_ _ _ _ _ _. None),
     we_sign = (\<lambda>_ _. Some (replicate 64 1)), we_dry_run = False\<rparr>"

lemma pay_long: "is_long_address (demo_addr CHR ''a'')" by code_simp

lemma pay_rows: "list_utxos (nd_st (sv_node pay_server)) (demo_addr CHR ''a'') =
   [\<lparr>ue_txid_hex = to_hex (replicate 32 1), ue_vout = 0, ue_units = 5, ue_address = demo_addr CHR ''a'', ue_height = 1\<rparr>]" by code_simp

lemma pay_state: "utxo_wf (st_utxo (nd_st (sv_node pay_server))) \<and> st_best_height (nd_st (sv_node pay_server)) = 5 \<and>
   has_tip (nd_st (sv_node pay_server)) \<and> nd_names (sv_node pay_server) = []"
  by (auto simp: utxo_wf_def pay_server_def demo_server_def demo_node_def has_tip_def)

lemma pay_hex: "from_hex (to_hex (replicate 32 1)) \<noteq> None" by code_simp

lemma pay_ready: "ready_to_spend demo_env (sv_node pay_server) (demo_addr CHR ''a'')"
  using pay_state pay_hex by (simp add: ready_to_spend_def coins_ok_def pay_rows Names_Book.book_inv_def book_ok_def)

lemma pay_load: "load_key pay_wallet (demo_addr CHR ''a'') =
  Inr \<lparr>wk_address = demo_addr CHR ''a'', wk_public_hex = to_hex pay_key, wk_secret_hex = to_hex pay_key\<rparr>"
  by (simp add: load_key_def read_wallet_doc_def pay_wallet_def jvalue_def jstring_def or_empty_def Let_def)

lemma pay_spends: "spends_for demo_env pay_wallet (demo_addr CHR ''a'') pay_key"
proof -
  have "long_address (ev_sha demo_env) pay_key = demo_addr CHR ''a''" by code_simp
  then show ?thesis
    by (simp add: spends_for_def pay_load pay_long pay_key_def bound_public_key_def demo_env_def)
qed

lemma pay_money: "load_money pay_wallet = Inr \<lparr>mo_activation = 3000, mo_scale = 1\<rparr>"
  by code_simp

lemma pay_amount: "parse_amount ''0.002'' \<lparr>mo_activation = 3000, mo_scale = 1\<rparr> = Inr (2, 2000)" by code_simp

lemma pay_fee: "parse_fee ''0.001'' \<lparr>mo_activation = 3000, mo_scale = 1\<rparr> = Inr (1, 1000)" by code_simp

lemma pay_listing:
  "\<exists>listed rows pool. call pay_wallet ''listunspent'' (JObject [(''address'', JString (demo_addr CHR ''a''))]) = Inr listed \<and>
     jitems_of listed ''utxos'' = Inr rows \<and>
     coins_of_rows pay_wallet \<lparr>mo_activation = 3000, mo_scale = 1\<rparr> rows =
       Inr [\<lparr>co_txid = to_hex (replicate 32 1), co_vout = 0, co_units = 5, co_worth = 5, co_pi = 5000\<rparr>] \<and>
     call pay_wallet ''getmempool'' (JObject []) = Inr pool \<and> jitems_of pool ''transactions'' = Inr []"
proof -
  have "jitems_of (fst (rpc_listunspent demo_env (JObject [(''address'', JString (demo_addr CHR ''a''))]) (sv_node pay_server))) ''utxos'' =
    Inr (map (\<lambda>(row, pi). unspent_row row pi) (fst (unspent_rows (list_utxos (nd_st (sv_node pay_server)) (demo_addr CHR ''a'')) 0 0)))"
    by (rule listed_utxos) (use pay_ready pay_long in \<open>auto simp: ready_to_spend_def\<close>)
  moreover have "jitems_of (rpc_getmempool demo_env (nd_st (sv_node pay_server))) ''transactions'' = Inr []"
    "stored_to_pi 5 1 = Some 5000" "to_hex (replicate 32 1) \<noteq> []" by code_simp+
  ultimately show ?thesis
    by (simp add: call_def pay_wallet_def ask_simps pay_rpc_def demo_net_def pay_rows unspent_row_def
        coin_from_row_def jvalue_def as_number32_def as_number_def juint_def set_worth_def Let_def)
qed

lemma pay_coins: "send_coins pay_wallet \<lparr>mo_activation = 3000, mo_scale = 1\<rparr> (demo_addr CHR ''a'') = Inr
  [\<lparr>co_txid = to_hex (replicate 32 1), co_vout = 0, co_units = 5, co_worth = 5, co_pi = 5000\<rparr>]"
  using pay_listing by (auto simp: send_coins_def pool_outpoints_def coin_spent_def by_worth_desc_def)

lemma pay_signs: "\<exists>sig. ed25519_sign pay_wallet (to_hex pay_key) [] = Inr sig"
proof -
  have "(case ed25519_sign pay_wallet (to_hex pay_key) [] of Inr _ \<Rightarrow> True | Inl _ \<Rightarrow> False)" by code_simp
  then show ?thesis by (auto split: sum.splits)
qed

lemma pay_dump: "we_dump pay_wallet j = []"
  by (simp add: pay_wallet_def)

lemma pay_sent: "\<exists>pay pay_pi tx. send_tx pay_wallet (demo_addr CHR ''a'') (demo_addr CHR ''a'') ''0.002'' [] = Inr (pay, pay_pi, tx)"
  using pay_signs
  by (auto simp: send_tx_def pay_money pay_amount default_fee_def pay_fee resolve_long [OF pay_long] pay_load pay_coins
      sign_tx_def spend_payload_def spend_body_def jvalue_def pay_dump Let_def send_doc_def transfer_doc_def)

lemma sent_is_accepted_witness:
  "\<exists>txid. cmd_send pay_wallet (demo_addr CHR ''a'') (demo_addr CHR ''a'') ''0.002'' [] = W_Out [''0.002000 314ST'', to_hex txid]"
proof -
  have ev: "ne_ev (rq_net pay_rpc) = demo_env" by (simp add: pay_rpc_def)
  obtain pay pay_pi tx where tx: "send_tx pay_wallet (demo_addr CHR ''a'') (demo_addr CHR ''a'') ''0.002'' [] = Inr (pay, pay_pi, tx)"
    using pay_sent by blast
  have pi: "pay_pi = 2000" using tx by (auto simp: send_tx_def pay_money pay_amount Let_def split: prod.splits if_splits)
  have none: "\<not> has_transaction (nd_st (sv_node pay_server)) txid" for txid
    by (simp add: has_transaction_def pay_server_def demo_server_def demo_node_def storage_new_def tbl_get_def)
  have size: "dump_size demo_env tx \<le> kMaxTxJsonBytes" by (simp add: dump_size_def demo_env_def kMaxTxJsonBytes_def)
  have shown: "format_314st_pi 2000 = ''0.002000''" by code_simp
  have w: "we_rpc pay_wallet = ask_daemon pay_rpc pay_server" "we_dump pay_wallet = ev_dump (ne_ev (rq_net pay_rpc))" "\<not> we_dry_run pay_wallet"
    by (simp_all add: pay_wallet_def pay_rpc_def demo_env_def)
  from sent_is_accepted [OF w(1,2) pay_spends [folded ev] pay_long pay_ready [folded ev] tx size [folded ev] none] w(3) show ?thesis
    by (simp add: pi shown)
qed

end
