(* ===== verification/Wallet_Flags.thy ===== *)
theory Wallet_Flags
  imports Wallet_Safe
begin

text \<open>
  The wallet's flag commands against the daemon: what they send is never accepted, because the daemon
  asks every transaction with a \<open>type\<close> for the members \<open>name\<close> and \<open>address\<close> of a registration, and
  \<open>cmd_flag_create\<close> and \<open>cmd_flag_claim\<close> write neither.
\<close>

lemma sign_tx_fields:
  assumes "sign_tx w key tx = Inr tx'" "is_object tx"
  shows "is_object tx'" "k \<noteq> ''inputs'' \<Longrightarrow> jget tx' k = jget tx k"
  using assms by (auto simp: sign_tx_def)

definition typed_tx :: "string \<Rightarrow> json \<Rightarrow> bool" where
  "typed_tx kind tx \<longleftrightarrow> is_object tx \<and> jstring tx ''type'' = Some kind \<and> jget tx ''name'' = None \<and> juint tx ''version'' = Some 1 \<and>
     jget tx ''fee'' \<noteq> None"

lemma typed_tx_signed:
  assumes "sign_tx w key tx = Inr tx'" "typed_tx kind tx"
  shows "typed_tx kind tx'"
  using assms sign_tx_fields [OF assms(1)] by (simp add: typed_tx_def jstring_def juint_def)

lemma flag_create_typed: "flag_create_tx w creator i commitment awards n e b note = Inr tx \<Longrightarrow> typed_tx ''createflag'' tx"
  by (auto simp: flag_create_tx_def Let_def split: option.splits prod.splits if_splits elim!: typed_tx_signed)
    (auto simp: typed_tx_def flag_doc_def jstring_def juint_def)

lemma flag_claim_typed: "flag_claim_tx w wallet_of i r = Inr tx \<Longrightarrow> typed_tx ''claimflag'' tx"
  by (auto simp: flag_claim_tx_def Let_def split: option.splits prod.splits if_splits elim!: typed_tx_signed)
    (auto simp: typed_tx_def claim_doc_def jstring_def juint_def)

lemma typed_tx_unnamed:
  assumes "typed_tx kind tx"
  shows "parse_tx ev tx h \<noteq> Inr t"
    "kind = ''createflag'' \<or> kind = ''claimflag'' \<Longrightarrow> dump_size ev tx \<le> kMaxTxJsonBytes \<Longrightarrow>
     stored_from_json_amount (jfield tx ''fee'') h True = Inr fee \<Longrightarrow>
     parse_flag_fields tx kind (tx_default\<lparr>tx_fee := fee\<rparr>) = Inr t' \<Longrightarrow> parse_tx ev tx h = Inl (NameErr Name_Invalid)"
  using assms
  by (auto simp: typed_tx_def parse_user_tx_def parse_typed_def jstring_def jfield_def Let_def split: option.splits sum.splits)

lemma ask_flags:
  "send_typed ''createflag'' (ne_ev (rq_net rq)) tx (sv_node sv) = Some (r, nd') \<Longrightarrow> ask_daemon rq sv ''createflag'' tx = Inr (sent_json r)"
  "send_typed ''claimflag'' (ne_ev (rq_net rq)) tx (sv_node sv) = Some (r, nd') \<Longrightarrow> ask_daemon rq sv ''claimflag'' tx = Inr (sent_json r)"
  by (simp_all add: ask_daemon_def ws_method_def chain_method_def rpc_createflag_def rpc_claimflag_def Let_def)

lemma hand_in_rejected:
  "call w method tx = Inr (rejected why) \<Longrightarrow> hand_in w method dflt tx = fail (reason_text why)"
  by (simp add: hand_in_def rejected_def jvalue_def)

lemma flag_sent:
  assumes "we_rpc w = ask_daemon rq sv" "typed_tx kind tx" "kind = ''createflag'' \<or> kind = ''claimflag''"
    "parse_tx (ne_ev (rq_net rq)) tx (next_height_of (nd_st (sv_node sv))) = Inl why"
  shows "hand_in w kind dflt tx = fail (reason_text why)"
proof (rule hand_in_rejected)
  let ?ev = "ne_ev (rq_net rq)"
  have tx: "is_object tx" "as_object_param (ev_parse ?ev) tx = tx" "value_string tx ''type'' [] = Some kind"
    using assms(2) by (auto simp: typed_tx_def as_object_param_def value_string_def jstring_def split: option.splits)
  have "rpc_sendtransaction ?ev tx (sv_node sv) = (Inl why, sv_node sv)"
    using tx assms(4) by (simp add: rpc_sendtransaction_def)
  then have "send_typed kind ?ev tx (sv_node sv) = Some (Inl why, sv_node sv)" using tx by (simp add: send_typed_def)
  then show "call w kind tx = Inr (rejected why)"
    using assms(1,3) ask_flags by (auto simp: call_def sent_json_def)
qed

lemma flag_never_sent:
  assumes "we_rpc w = ask_daemon rq sv" "typed_tx kind tx" "kind = ''createflag'' \<or> kind = ''claimflag''"
  obtains why where "hand_in w kind dflt tx = fail why"
proof -
  obtain why where "parse_tx (ne_ev (rq_net rq)) tx (next_height_of (nd_st (sv_node sv))) = Inl why"
    using typed_tx_unnamed(1) [OF assms(2)] by (cases "parse_tx (ne_ev (rq_net rq)) tx (next_height_of (nd_st (sv_node sv)))") auto
  from flag_sent [OF assms this] that show thesis by blast
qed

text \<open>The wallet's flag commands never succeed. Against the daemon, \<open>flag create\<close> and \<open>flag claim\<close> end
  with a failure whatever they are given; when the transaction is built and small enough and its fee
  and its flag fields are good, the failure is \<open>name invalid\<close>, the answer to a registration
  without a name.\<close>

theorem wallet_flags_rejected:
  assumes "we_rpc w = ask_daemon rq sv"
  shows "cmd_flag_create w creator i commitment awards max_text expires_text bounty_text note \<noteq> W_Out ls \<and>
    cmd_flag_claim w wallet_of j recipient_text \<noteq> W_Out ls \<and>
    (\<forall>tx fee t. flag_create_tx w creator i commitment awards max_text expires_text bounty_text note = Inr tx \<and>
       dump_size (ne_ev (rq_net rq)) tx \<le> kMaxTxJsonBytes \<and>
       stored_from_json_amount (jfield tx ''fee'') (next_height_of (nd_st (sv_node sv))) True = Inr fee \<and>
       parse_flag_fields tx ''createflag'' (tx_default\<lparr>tx_fee := fee\<rparr>) = Inr t \<longrightarrow>
       cmd_flag_create w creator i commitment awards max_text expires_text bounty_text note = W_Err (Some ''name invalid''))"
proof (intro conjI allI impI)
  show "cmd_flag_create w creator i commitment awards max_text expires_text bounty_text note \<noteq> W_Out ls"
  proof (cases "flag_create_tx w creator i commitment awards max_text expires_text bounty_text note")
    case (Inr tx)
    from flag_never_sent [OF assms flag_create_typed [OF this]]
    obtain why where "hand_in w ''createflag'' ''flag rejected'' tx = fail why" by blast
    with Inr show ?thesis by (simp add: cmd_flag_create_def outcome_of_def)
  qed (simp add: cmd_flag_create_def outcome_of_def)
  show "cmd_flag_claim w wallet_of j recipient_text \<noteq> W_Out ls"
  proof (cases "flag_claim_tx w wallet_of j recipient_text")
    case (Inr tx)
    from flag_never_sent [OF assms flag_claim_typed [OF this]]
    obtain why where "hand_in w ''claimflag'' ''flag rejected'' tx = fail why" by blast
    with Inr show ?thesis by (simp add: cmd_flag_claim_def outcome_of_def)
  qed (simp add: cmd_flag_claim_def outcome_of_def)
next
  fix tx fee t
  assume a: "flag_create_tx w creator i commitment awards max_text expires_text bounty_text note = Inr tx \<and>
       dump_size (ne_ev (rq_net rq)) tx \<le> kMaxTxJsonBytes \<and>
       stored_from_json_amount (jfield tx ''fee'') (next_height_of (nd_st (sv_node sv))) True = Inr fee \<and>
       parse_flag_fields tx ''createflag'' (tx_default\<lparr>tx_fee := fee\<rparr>) = Inr t"
  then have "typed_tx ''createflag'' tx" by (auto intro: flag_create_typed)
  with a flag_sent [OF assms this] typed_tx_unnamed(2) [OF this] show
    "cmd_flag_create w creator i commitment awards max_text expires_text bounty_text note = W_Err (Some ''name invalid'')"
    by (simp add: cmd_flag_create_def outcome_of_def)
qed

lemma pay_confirmed: "coins_for pay_wallet (demo_addr CHR ''a'') \<lparr>mo_activation = 3000, mo_scale = 1\<rparr> True = Inr
  [\<lparr>co_txid = to_hex (replicate 32 1), co_vout = 0, co_units = 5, co_worth = 5, co_pi = 5000\<rparr>]"
  using pay_listing by (auto simp: coins_for_def pool_outpoints_def coin_spent_def)

definition pay_commitment :: string where "pay_commitment = to_hex (replicate 32 0)"

lemma pay_doc: "\<exists>doc. read_wallet_doc pay_wallet (demo_addr CHR ''a'') = Inr doc \<and> jstring doc ''public_key'' = Some (to_hex pay_key)"
  by (simp add: read_wallet_doc_def pay_wallet_def jvalue_def jstring_def)

lemma pay_flag: "\<exists>tx t. flag_create_tx pay_wallet (demo_addr CHR ''a'') ''f'' pay_commitment (demo_addr CHR ''a'') ''1'' ''100'' ''2'' ''n'' = Inr tx \<and>
   jfield tx ''fee'' = JUint 1 \<and> parse_flag_fields tx ''createflag'' (tx_default\<lparr>tx_fee := 1\<rparr>) = Inr t"
proof -
  have n: "strtoul ''1'' = Some 1" "strtoul ''100'' = Some 100" "strtoul ''2'' = Some 2"
    by (simp_all add: strtoul_def is_blank_def is_digits_def dec_val_def in_range_def digit_val_def Let_def)
  have h: "hex64 pay_commitment" "hex64 (lower_hex (to_hex pay_key))" "flag_id_ok ''f''" by code_simp+
  have e: "\<exists>lock. escrow_lock 1 2 = Inr lock" by (simp add: escrow_lock_def)
  obtain doc where doc: "read_wallet_doc pay_wallet (demo_addr CHR ''a'') = Inr doc" "or_empty (jstring doc ''public_key'') = to_hex pay_key"
    using pay_doc by (auto simp: or_empty_def)
  have "demo_addr CHR ''a'' \<noteq> []" by (simp add: demo_addr_def)
  then have "flag_create_tx pay_wallet (demo_addr CHR ''a'') ''f'' pay_commitment (demo_addr CHR ''a'') ''1'' ''100'' ''2'' ''n'' =
      sign_tx pay_wallet \<lparr>wk_address = demo_addr CHR ''a'', wk_public_hex = to_hex pay_key, wk_secret_hex = to_hex pay_key\<rparr>
        (flag_doc 1 ''f'' pay_commitment (lower_hex (to_hex pay_key)) 1 100 2 ''n''
          [\<lparr>co_txid = to_hex (replicate 32 1), co_vout = 0, co_units = 5, co_worth = 5, co_pi = 5000\<rparr>] [output_json (demo_addr CHR ''a'') 2])"
    by (simp add: flag_create_tx_def pay_money n resolve_long [OF pay_long] pay_load Let_def take_units_def pay_confirmed doc
        by_worth_desc_def flag_fee_def)
  with pay_signs e show ?thesis
    by (auto simp: sign_tx_def spend_payload_def spend_body_def jvalue_def pay_dump flag_doc_def jfield_def
        parse_flag_fields_def parse_create_fields_def jstring_def juint_def h Let_def)
qed

lemma wallet_flags_rejected_witness:
  "cmd_flag_create pay_wallet (demo_addr CHR ''a'') ''f'' pay_commitment (demo_addr CHR ''a'') ''1'' ''100'' ''2'' ''n'' =
   W_Err (Some ''name invalid'')"
proof -
  have ev: "ne_ev (rq_net pay_rpc) = demo_env" by (simp add: pay_rpc_def)
  have w: "we_rpc pay_wallet = ask_daemon pay_rpc pay_server" by (simp add: pay_wallet_def)
  have size: "dump_size demo_env tx \<le> kMaxTxJsonBytes" for tx by (simp add: dump_size_def demo_env_def kMaxTxJsonBytes_def)
  have fee: "stored_from_json_amount (JUint 1) (next_height_of (nd_st (sv_node pay_server))) True = Inr 1" by code_simp
  obtain tx t where "flag_create_tx pay_wallet (demo_addr CHR ''a'') ''f'' pay_commitment (demo_addr CHR ''a'') ''1'' ''100'' ''2'' ''n'' = Inr tx"
    "jfield tx ''fee'' = JUint 1" "parse_flag_fields tx ''createflag'' (tx_default\<lparr>tx_fee := 1\<rparr>) = Inr t"
    using pay_flag by blast
  with wallet_flags_rejected [OF w, of "demo_addr CHR ''a''" "''f''" pay_commitment "demo_addr CHR ''a''" "''1''" "''100''" "''2''" "''n''" "[]"
      Inr "[]" "[]"] size fee show ?thesis by (simp add: ev)
qed

end
