(* ===== verification/Wallet_Coins.thy ===== *)
theory Wallet_Coins
  imports Wallet_Send "HOL-Library.Multiset"
begin

text \<open>
  What the wallet's choice of coins is worth (\<open>pick_coins\<close> over \<open>by_worth_desc\<close>). Taking the largest
  first is best: no other choice of as many coins is worth more, so the choice is as short as any that
  covers the payment, and a wallet that finds it cannot pay with two hundred coins is right.
\<close>

definition coins_worth :: "coin list \<Rightarrow> nat" where
  "coins_worth cs = (\<Sum>c\<leftarrow>cs. unat (co_worth c))"

lemma coins_worth_simps [simp]: "coins_worth [] = 0" "coins_worth (c # cs) = unat (co_worth c) + coins_worth cs"
  "coins_worth (cs @ ds) = coins_worth cs + coins_worth ds"
  by (simp_all add: coins_worth_def)

lemma take_most:
  fixes f :: "'a \<Rightarrow> nat"
  assumes "sorted_wrt (\<lambda>a b. f b \<le> f a) cs" "D \<subseteq># mset cs" "size D \<le> n"
  shows "sum_mset (image_mset f D) \<le> (\<Sum>c\<leftarrow>take n cs. f c)"
  using assms
proof (induction cs arbitrary: n D)
  case (Cons c cs)
  show ?case
  proof (cases n)
    case 0
    with Cons.prems show ?thesis by simp
  next
    case (Suc m)
    obtain d where d: "D = {#} \<or> d \<in># D \<and> f d \<le> f c \<and> D - {#d#} \<subseteq># mset cs"
    proof (cases "c \<in># D")
      case True
      with Cons.prems(2) have "D - {#c#} \<subseteq># mset cs" by (simp add: insert_subset_eq_iff subset_eq_diff_conv)
      with True that show thesis by blast
    next
      case False
      have s: "D \<subseteq># mset cs" unfolding subseteq_mset_def
      proof (rule allI)
        show "count D a \<le> count (mset cs) a" for a
          using mset_subset_eq_count [OF Cons.prems(2), of a] False by (cases "a = c") (auto simp: not_in_iff)
      qed
      show thesis
      proof (cases "D = {#}")
        case False
        then obtain d where "d \<in># D" by blast
        moreover have "d \<in> set cs" using s calculation by (metis mset_subset_eqD set_mset_mset)
        moreover have "f d \<le> f c" using Cons.prems(1) calculation(2) by simp
        moreover have "D - {#d#} \<subseteq># mset cs" by (rule subset_mset.order_trans [OF diff_subset_eq_self s])
        ultimately show thesis using that by blast
      qed (use that in blast)
    qed
    show ?thesis
    proof (cases "D = {#}")
      case False
      with d have d: "d \<in># D" "f d \<le> f c" "D - {#d#} \<subseteq># mset cs" by auto
      have "size (D - {#d#}) \<le> m" using d(1) Cons.prems(3) Suc by (simp add: size_Diff_singleton)
      from Cons.IH [OF _ d(3) this] Cons.prems(1) have "sum_mset (image_mset f (D - {#d#})) \<le> (\<Sum>c\<leftarrow>take m cs. f c)" by simp
      moreover have "sum_mset (image_mset f D) = f d + sum_mset (image_mset f (D - {#d#}))"
        using d(1) by (metis image_mset_add_mset insert_DiffM sum_mset.insert)
      ultimately show ?thesis using d(2) Suc by simp
    qed simp
  qed
qed simp

lemma by_worth_sorted: "sorted_wrt (\<lambda>a b. unat (co_worth b) \<le> unat (co_worth a)) (by_worth_desc cs)"
proof -
  have k: "U64_MAX - a \<le> U64_MAX - b \<longleftrightarrow> unat b \<le> unat a" for a b :: u64
  proof -
    have "unat (U64_MAX - x) = 2 ^ 64 - 1 - unat x" for x :: u64
      by (subst unat_sub) (simp_all add: u64_max_unat)
    then show ?thesis using unat_u64_less [of a] unat_u64_less [of b] by (simp add: word_le_nat_alt) linarith
  qed
  have "sorted (map (\<lambda>c. U64_MAX - co_worth c) (by_worth_desc cs))" by (simp add: by_worth_desc_def)
  then show ?thesis by (simp add: sorted_map k)
qed

lemma mset_by_worth [simp]: "mset (by_worth_desc cs) = mset cs"
  by (simp add: by_worth_desc_def)

text \<open>The loop: how far it went, what it added up, and why it stopped.\<close>

lemma pick_coins_run:
  "pick_coins wanted cs chosen got = Inr (chosen', got') \<Longrightarrow> length chosen \<le> 200 \<Longrightarrow>
   \<exists>n. chosen' = chosen @ take n cs \<and> n \<le> length cs \<and> length chosen + n \<le> 200 \<and> unat got' = unat got + coins_worth (take n cs) \<and>
     (\<forall>k < n. unat got + coins_worth (take k cs) < unat wanted) \<and>
     (unat got' < unat wanted \<longrightarrow> n = length cs \<or> length chosen + n = 200)"
proof (induction cs arbitrary: chosen got)
  case (Cons c cs)
  show ?case
  proof (cases "got \<ge> wanted \<or> length chosen \<ge> 200")
    case True
    with Cons.prems show ?thesis by (intro exI [of _ 0]) (auto simp: word_le_nat_alt)
  next
    case False
    then have room: "\<not> got > U64_MAX - co_worth c" and n: "pick_coins wanted cs (chosen @ [c]) (got + co_worth c) = Inr (chosen', got')"
      using Cons.prems by (auto split: if_splits)
    have sum: "unat (got + co_worth c) = unat got + unat (co_worth c)" using room by (rule no_add_overflow)
    from Cons.IH [OF n] False obtain m where m: "chosen' = chosen @ c # take m cs" "m \<le> length cs" "length chosen + Suc m \<le> 200"
      "unat got' = unat got + coins_worth (take (Suc m) (c # cs))"
      "\<forall>k < m. unat got + coins_worth (take (Suc k) (c # cs)) < unat wanted"
      "unat got' < unat wanted \<longrightarrow> m = length cs \<or> length chosen + Suc m = 200"
      by (auto simp: sum add.assoc)
    have "unat got < unat wanted" using False by (simp add: word_le_nat_alt)
    then have "\<forall>k < Suc m. unat got + coins_worth (take k (c # cs)) < unat wanted"
      using m(5) by (auto simp: less_Suc_eq_0_disj)
    with m show ?thesis by (intro exI [of _ "Suc m"]) auto
  qed
qed auto

lemma pick_coins_fails:
  "pick_coins wanted cs chosen got = Inl e \<Longrightarrow> length chosen \<le> 200 \<Longrightarrow>
   e = Some ''amount overflow'' \<and>
   (\<exists>n. n \<le> length cs \<and> length chosen + n \<le> 200 \<and> unat got + coins_worth (take n cs) \<ge> 2 ^ 64)"
proof (induction cs arbitrary: chosen got)
  case (Cons c cs)
  then have c: "length chosen < 200" by (auto split: if_splits)
  show ?case
  proof (cases "got > U64_MAX - co_worth c")
    case True
    then have "unat got + unat (co_worth c) \<ge> 2 ^ 64" by (rule add_overflow)
    with True Cons.prems c show ?thesis by (intro conjI exI [of _ 1]) (auto split: if_splits)
  next
    case False
    then have "pick_coins wanted cs (chosen @ [c]) (got + co_worth c) = Inl e" "unat (got + co_worth c) = unat got + unat (co_worth c)"
      using Cons.prems no_add_overflow [OF False] by (auto split: if_splits)
    with Cons.IH [OF this(1)] c obtain n where "e = Some ''amount overflow''" "n \<le> length cs" "length chosen + Suc n \<le> 200"
      "unat got + coins_worth (take (Suc n) (c # cs)) \<ge> 2 ^ 64" by (auto simp: add.assoc)
    then show ?thesis by (intro conjI exI [of _ "Suc n"]) auto
  qed
qed simp

text \<open>The worth of a choice, given as a multiset.\<close>

definition worth_sum :: "coin multiset \<Rightarrow> nat" where
  "worth_sum D = (\<Sum>c\<in>#D. unat (co_worth c))"

lemma take_subseteq: "mset (take n cs) \<subseteq># mset cs"
  by (metis append_take_drop_id mset_append mset_subset_eq_add_left)

lemma best_choice:
  assumes "D \<subseteq># mset coins" "size D \<le> n"
  shows "worth_sum D \<le> coins_worth (take n (by_worth_desc coins))"
  unfolding worth_sum_def coins_worth_def by (rule take_most [OF by_worth_sorted]) (use assms in auto)

text \<open>C32: The wallet chooses its coins as well as can be. What \<open>pick_coins\<close> takes of the coins, the
  largest first, is at most two hundred of them, each taken once, and worth exactly the sum it
  reports. If the sum covers the payment then no choice of fewer coins covers it; if it falls short
  then no choice of two hundred coins or fewer does. It fails only when two hundred or fewer of
  the coins are worth more than 64 bits hold.\<close>

theorem coin_choice_best:
  "case pick_coins wanted (by_worth_desc coins) [] 0 of
     Inl e \<Rightarrow> e = Some ''amount overflow'' \<and> (\<exists>D. D \<subseteq># mset coins \<and> size D \<le> 200 \<and> worth_sum D \<ge> 2 ^ 64)
   | Inr (chosen, got) \<Rightarrow>
       mset chosen \<subseteq># mset coins \<and> length chosen \<le> 200 \<and> worth_sum (mset chosen) = unat got \<and>
       (if got < wanted then \<forall>D. D \<subseteq># mset coins \<and> size D \<le> 200 \<longrightarrow> worth_sum D < unat wanted
        else \<forall>D. D \<subseteq># mset coins \<and> size D < length chosen \<longrightarrow> worth_sum D < unat wanted)"
proof (cases "pick_coins wanted (by_worth_desc coins) [] 0")
  case (Inl e)
  from pick_coins_fails [OF this] obtain n where e: "e = Some ''amount overflow''" and n: "n \<le> 200"
    "2 ^ 64 \<le> coins_worth (take n (by_worth_desc coins))" by auto
  have "mset (take n (by_worth_desc coins)) \<subseteq># mset coins"
    using take_subseteq [of n "by_worth_desc coins"] by simp
  moreover have "worth_sum (mset (take n (by_worth_desc coins))) = coins_worth (take n (by_worth_desc coins))"
    by (simp add: worth_sum_def coins_worth_def sum_mset_sum_list flip: mset_map)
  ultimately have "\<exists>D. D \<subseteq># mset coins \<and> size D \<le> 200 \<and> worth_sum D \<ge> 2 ^ 64"
    using n by (intro exI [of _ "mset (take n (by_worth_desc coins))"]) auto
  with Inl e show ?thesis by simp
next
  case (Inr r)
  obtain chosen got where r: "r = (chosen, got)" by (cases r)
  from pick_coins_run [OF Inr [unfolded r]] obtain n where n: "chosen = take n (by_worth_desc coins)" "n \<le> length coins" "n \<le> 200"
    "unat got = coins_worth chosen" "\<forall>k < n. coins_worth (take k (by_worth_desc coins)) < unat wanted"
    "unat got < unat wanted \<longrightarrow> n = length coins \<or> n = 200" by (auto simp flip: size_mset)
  have len: "length (by_worth_desc coins) = length coins" by (simp add: by_worth_desc_def)
  have "mset chosen \<subseteq># mset coins" using take_subseteq [of n "by_worth_desc coins"] by (simp add: n(1))
  moreover have "worth_sum (mset chosen) = unat got"
    by (simp add: worth_sum_def coins_worth_def n(4) sum_mset_sum_list flip: mset_map)
  moreover have "worth_sum D < unat wanted" if "D \<subseteq># mset coins" "size D < length chosen" for D
    using best_choice [OF that(1) order_refl] n(1,2,5) that(2) len by force
  moreover have "worth_sum D < unat wanted" if "D \<subseteq># mset coins" "size D \<le> 200" "got < wanted" for D
  proof -
    have "size D \<le> n" using n(6) that size_mset_mono [OF that(1)] by (auto simp: word_less_nat_alt)
    from best_choice [OF that(1) this] show ?thesis using n(1,4) that(3) by (simp add: word_less_nat_alt)
  qed
  ultimately show ?thesis using Inr r n(1,2,3) len by auto
qed

definition demo_coins :: "coin list" where
  "demo_coins = map (\<lambda>v. \<lparr>co_txid = ''t'', co_vout = 0, co_units = v, co_worth = v, co_pi = v\<rparr>) [3, 1, 4]"

lemma coin_choice_best_witness: "worth_sum {#demo_coins ! 2#} < 6 \<and> fst (projr (pick_coins 6 (by_worth_desc demo_coins) [] 0)) = [demo_coins ! 2, demo_coins ! 0]"
proof -
  have "(case pick_coins 6 (by_worth_desc demo_coins) [] 0 of Inl e \<Rightarrow> False | Inr (chosen, got) \<Rightarrow> chosen = [demo_coins ! 2, demo_coins ! 0] \<and> got = 7)"
    by code_simp
  then have p: "pick_coins 6 (by_worth_desc demo_coins) [] 0 = Inr ([demo_coins ! 2, demo_coins ! 0], 7)"
    by (auto split: sum.splits)
  have "{#demo_coins ! 2#} \<subseteq># mset demo_coins" by (simp add: demo_coins_def)
  with p coin_choice_best [where wanted = 6 and coins = demo_coins] show ?thesis by simp
qed

end
