(* ===== verification/Update_Text.thy ===== *)
theory Update_Text
  imports Queries
begin

text \<open>
  The text handling of the updater (common/release_update.cpp): version numbers, the names of release
  assets, the SHA256SUMS file, and the quoting of shell words. \<open>std::atoi\<close> on a run of digits is the
  one of glibc: \<open>strtol\<close>, which stops at the largest \<open>long\<close>, cut to 32 bits.
\<close>

subsection \<open>Words\<close>

definition trim :: "string \<Rightarrow> string" where
  "trim s = rev (dropWhile is_blank (rev (dropWhile is_blank s)))"

text \<open>Trailing line ends and blanks taken off.\<close>

definition strip_end :: "char list \<Rightarrow> string \<Rightarrow> string" where
  "strip_end cs s = rev (dropWhile (\<lambda>c. c \<in> set cs) (rev s))"

definition line_end :: "char list" where "line_end = [CHR 0x0A, CHR 0x0D]"

text \<open>\<open>doc.erase(k)\<close> on an object.\<close>

fun jdel :: "json \<Rightarrow> string \<Rightarrow> json" where
  "jdel (JObject kvs) k = JObject (AList.delete k kvs)"
| "jdel j k = j"

definition shell_single :: "string \<Rightarrow> string" where
  "shell_single s =
     CHR 0x27 # concat (map (\<lambda>c. if c = CHR 0x27 then [CHR 0x27, CHR 0x5C, CHR 0x27, CHR 0x27] else [c]) s) @ [CHR 0x27]"

definition https_url :: "string \<Rightarrow> bool" where
  "https_url url \<longleftrightarrow> take 8 url = ''https://'' \<and> CHR 0x27 \<notin> set url \<and> CHR '' '' \<notin> set url"

text \<open>The part of a path after its last slash.\<close>

definition base_name :: "string \<Rightarrow> string" where
  "base_name p = rev (takeWhile (\<lambda>c. c \<noteq> CHR ''/'') (rev p))"

subsection \<open>Versions\<close>

definition atoi :: "string \<Rightarrow> int" where
  "atoi digits = sint (word_of_int (min (int (dec_val digits)) (2 ^ 63 - 1)) :: 32 word)"

text \<open>The loop of \<open>version_parts\<close>: \<open>cur\<close> is the number being read.\<close>

fun version_loop :: "string \<Rightarrow> string \<Rightarrow> int list" where
  "version_loop cur [] = (if cur = [] then [] else [atoi cur])"
| "version_loop cur (c # cs) =
     (if in_range c CHR ''0'' CHR ''9'' then version_loop (cur @ [c]) cs
      else if cur = [] then version_loop [] cs
      else atoi cur # version_loop [] cs)"

definition version_parts :: "string \<Rightarrow> int list" where
  "version_parts s =
     (let t = trim s in version_loop [] (if t \<noteq> [] \<and> (t ! 0 = CHR ''v'' \<or> t ! 0 = CHR ''V'') then drop 1 t else t))"

definition part :: "int list \<Rightarrow> nat \<Rightarrow> int" where
  "part xs i = (if i < length xs then xs ! i else 0)"

fun compare_from :: "int list \<Rightarrow> int list \<Rightarrow> nat list \<Rightarrow> int" where
  "compare_from a b [] = 0"
| "compare_from a b (i # is) =
     (if part a i < part b i then - 1 else if part a i > part b i then 1 else compare_from a b is)"

definition compare_versions :: "string \<Rightarrow> string \<Rightarrow> int" where
  "compare_versions l r =
     (let a = version_parts l; b = version_parts r in compare_from a b [0 ..< max (length a) (length b)])"

subsection \<open>Assets and hashes\<close>

definition asset_name_ok :: "bool \<Rightarrow> string \<Rightarrow> bool" where
  "asset_name_ok x86 name =
     (let prefix = (if x86 then ''pisecure-v'' else ''pisecure-pi5-v'');
          suffix = (if x86 then ''-x86_64.tar.gz'' else ''-aarch64.tar.gz'') in
      length name > length prefix + length suffix \<and> take (length prefix) name = prefix \<and>
      drop (length name - length suffix) name = suffix)"

definition is_xdigit :: "char \<Rightarrow> bool" where
  "is_xdigit c \<longleftrightarrow> in_range c CHR ''0'' CHR ''9'' \<or> in_range c CHR ''a'' CHR ''f'' \<or> in_range c CHR ''A'' CHR ''F''"

text \<open>What follows the first occurrence of a text.\<close>

fun after_first :: "string \<Rightarrow> string \<Rightarrow> string option" where
  "after_first pat [] = (if pat = [] then Some [] else None)"
| "after_first pat (c # cs) =
     (if take (length pat) (c # cs) = pat then Some (drop (length pat) (c # cs)) else after_first pat cs)"

definition body_sha256 :: "string \<Rightarrow> string" where
  "body_sha256 body =
     (case after_first ''sha256:'' body of
        None \<Rightarrow> []
      | Some rest \<Rightarrow>
          let hex = lower_hex (takeWhile is_xdigit (dropWhile (\<lambda>c. \<not> is_xdigit c) rest)) in
          if length hex = 64 then hex else [])"

text \<open>\<open>std::getline\<close> until it fails.\<close>

function getlines :: "string \<Rightarrow> string list" where
  "getlines s =
     (if s = [] then []
      else takeWhile (\<lambda>c. c \<noteq> CHR 0x0A) s # getlines (drop 1 (dropWhile (\<lambda>c. c \<noteq> CHR 0x0A) s)))"
  by pat_completeness auto
termination
proof (relation "measure length")
  fix s :: string
  assume "s \<noteq> []"
  moreover have "length (dropWhile (\<lambda>c. c \<noteq> CHR 0x0A) s) \<le> length s" by (rule length_dropWhile_le)
  ultimately show "(drop 1 (dropWhile (\<lambda>c. c \<noteq> CHR 0x0A) s), s) \<in> measure length"
    by (cases s) auto
qed simp

declare getlines.simps [simp del]

text \<open>A line of SHA256SUMS: the hash and the name it is of.\<close>

definition sums_line :: "string \<Rightarrow> (string \<times> string) option" where
  "sums_line raw =
     (let line = (if raw \<noteq> [] \<and> last raw = CHR 0x0D then butlast raw else raw);
          hex = takeWhile is_xdigit line in
      if length hex \<noteq> 64 then None
      else
        let rest = dropWhile is_blank (drop 64 line);
            name = (if rest \<noteq> [] \<and> (rest ! 0 = CHR ''*'' \<or> rest ! 0 = CHR '' '') then drop 1 rest else rest) in
        Some (lower_hex hex, name))"

fun sums_find :: "string \<Rightarrow> string list \<Rightarrow> string" where
  "sums_find member [] = []"
| "sums_find member (l # ls) =
     (case sums_line l of
        None \<Rightarrow> sums_find member ls
      | Some (hex, name) \<Rightarrow>
          if base_name name = base_name member \<or> name = member then hex else sums_find member ls)"

definition sums_hash_for :: "string \<Rightarrow> string \<Rightarrow> string" where
  "sums_hash_for sums member = sums_find member (getlines sums)"

end
