(* ===== verification/Update.thy ===== *)
theory Update
  imports Update_Text
begin

text \<open>
  The updater (common/release_update.cpp): asking for the latest release, recording it, downloading
  and verifying a member of its archive, installing it, and the restart.

  The files are a map from paths to contents. \<open>upd_env\<close> is what is outside: curl, tar, mkstemp, the
  JSON library, OpenSSL's SHA-256, and which files can be opened, written, renamed and made
  executable. An exception is \<open>None\<close>. Contents have no NUL where the code reads them through a C
  string.
\<close>

type_synonym files = "string \<Rightarrow> string option"

record upd_env =
  up_x86 :: bool
  up_temp :: "string \<Rightarrow> string option"
  up_get :: "string \<Rightarrow> int \<times> string option"
  up_parse :: "string \<Rightarrow> json option"
  up_dump :: "json \<Rightarrow> string"
  up_sha :: "bytes \<Rightarrow> h256"
  up_listing :: "string \<Rightarrow> string"
  up_member :: "string \<Rightarrow> string \<Rightarrow> string \<times> bool"
  up_open :: "string \<Rightarrow> bool"
  up_short :: "string \<Rightarrow> string \<Rightarrow> string option"
  up_chmod :: "string \<Rightarrow> bool"
  up_rename :: "string \<Rightarrow> string \<Rightarrow> bool"

datatype report_kind = Rep_Current | Rep_Newer | Rep_Skipped

record report =
  rp_kind :: report_kind
  rp_line :: string
  rp_local :: string
  rp_tag :: string
  rp_url :: string
  rp_sha256 :: string
  rp_asset :: string

subsection \<open>Files and commands\<close>

text \<open>\<open>mkstemp\<close>: the six letters for a template, and the empty file.\<close>

definition make_temp :: "upd_env \<Rightarrow> string \<Rightarrow> files \<Rightarrow> (string \<times> files) option" where
  "make_temp ue template fs =
     (case up_temp ue template of None \<Rightarrow> None | Some x \<Rightarrow> Some (template @ x, fs(template @ x \<mapsto> [])))"

definition remove_file :: "string \<Rightarrow> files \<Rightarrow> files" where
  "remove_file path fs = fs(path := None)"

text \<open>An \<open>std::ofstream\<close> with \<open>trunc\<close>; whether all of the text was written.\<close>

definition write_file :: "upd_env \<Rightarrow> string \<Rightarrow> string \<Rightarrow> files \<Rightarrow> bool \<times> files" where
  "write_file ue path content fs =
     (case up_short ue path content of
        None \<Rightarrow> (True, fs(path \<mapsto> content))
      | Some got \<Rightarrow> (False, fs(path \<mapsto> got)))"

definition curl_status :: "upd_env \<Rightarrow> string \<Rightarrow> string \<Rightarrow> files \<Rightarrow> int \<times> files" where
  "curl_status ue url path fs =
     (if \<not> https_url url then (0, fs)
      else case up_get ue url of
          (http, None) \<Rightarrow> (http, fs)
        | (http, Some body) \<Rightarrow> (http, fs(path \<mapsto> body)))"

definition file_sha256 :: "upd_env \<Rightarrow> string \<Rightarrow> files \<Rightarrow> string" where
  "file_sha256 ue path fs = (case fs path of None \<Rightarrow> [] | Some content \<Rightarrow> to_hex (up_sha ue (bytes_of content)))"

definition content_of :: "string \<Rightarrow> files \<Rightarrow> string" where
  "content_of path fs = (case fs path of None \<Rightarrow> [] | Some content \<Rightarrow> content)"

text \<open>\<open>fgets\<close> with a buffer of \<open>n + 1\<close>, until it fails.\<close>

function fgets_all :: "nat \<Rightarrow> string \<Rightarrow> string list" where
  "fgets_all n s =
     (if s = [] \<or> n = 0 then []
      else let l = takeWhile (\<lambda>c. c \<noteq> CHR 0x0A) (take n s);
               k = (if length l < length (take n s) then length l + 1 else length l) in
           take k s # fgets_all n (drop k s))"
  by pat_completeness auto
termination
proof (relation "measure (\<lambda>(n, s). length s)")
  fix n :: nat and s l :: string and k :: nat
  assume s: "\<not> (s = [] \<or> n = 0)" and l: "l = takeWhile (\<lambda>c. c \<noteq> CHR 0x0A) (take n s)"
    and k: "k = (if length l < length (take n s) then length l + 1 else length l)"
  have "take n s \<noteq> []" using s by simp
  then have "k \<noteq> 0" by (auto simp: k)
  with s show "((n, drop k s), n, s) \<in> measure (\<lambda>(n, s). length s)" by simp
qed simp

declare fgets_all.simps [simp del]

definition member_line :: "string \<Rightarrow> string \<Rightarrow> bool" where
  "member_line suffix line \<longleftrightarrow>
     line = suffix \<or>
     (length line > length suffix \<and> drop (length line - length suffix) line = suffix \<and>
      line ! (length line - length suffix - 1) = CHR ''/'')"

definition tar_member :: "upd_env \<Rightarrow> string \<Rightarrow> string \<Rightarrow> files \<Rightarrow> string" where
  "tar_member ue tar suffix fs =
     (case find (member_line suffix) (map trim (fgets_all 511 (up_listing ue (content_of tar fs)))) of
        None \<Rightarrow> [] | Some line \<Rightarrow> line)"

definition tar_text :: "upd_env \<Rightarrow> string \<Rightarrow> string \<Rightarrow> files \<Rightarrow> string" where
  "tar_text ue tar member fs = fst (up_member ue (content_of tar fs) member)"

definition tar_extract_file :: "upd_env \<Rightarrow> string \<Rightarrow> string \<Rightarrow> string \<Rightarrow> files \<Rightarrow> bool \<times> files" where
  "tar_extract_file ue tar member dest fs =
     (if \<not> up_open ue dest then (False, fs)
      else case up_member ue (content_of tar fs) member of (out, good) \<Rightarrow> (good, fs(dest \<mapsto> out)))"

subsection \<open>Asking for a release\<close>

definition kVersionFile :: string where "kVersionFile = ''/etc/pisecure/pisecured.version''"

definition local_version :: "string \<Rightarrow> files \<Rightarrow> string" where
  "local_version compile_time fs =
     (case fs kVersionFile of
        None \<Rightarrow> compile_time
      | Some content \<Rightarrow> let t = trim content in if t \<noteq> [] then t else compile_time)"

definition skipped :: "report \<Rightarrow> report" where
  "skipped r = r\<lparr>rp_kind := Rep_Skipped, rp_line := ''update check skipped''\<rparr>"

definition report_new :: "string \<Rightarrow> report" where
  "report_new here = \<lparr>rp_kind = Rep_Skipped, rp_line = [], rp_local = here, rp_tag = [], rp_url = [], rp_sha256 = [], rp_asset = []\<rparr>"

text \<open>The hash of the asset found so far, from a SHA256SUMS file among the assets.\<close>

definition read_sums :: "upd_env \<Rightarrow> string \<Rightarrow> report \<Rightarrow> files \<Rightarrow> report \<times> files" where
  "read_sums ue url r fs =
     (case make_temp ue ''/tmp/pisecure-sums-'' fs of
        None \<Rightarrow> (r, fs)
      | Some (path, fs1) \<Rightarrow>
          (case curl_status ue url path fs1 of (http, fs2) \<Rightarrow>
             let hashed = sums_hash_for (content_of path fs2) (rp_asset r) in
             (if http = 200 \<and> hashed \<noteq> [] then r\<lparr>rp_sha256 := hashed\<rparr> else r, remove_file path fs2)))"

text \<open>\<open>asset.value(k, "")\<close>, which throws on anything but an object.\<close>

definition asset_value :: "json \<Rightarrow> string \<Rightarrow> string option" where
  "asset_value asset k = (if is_object asset then value_string asset k [] else None)"

definition read_asset :: "upd_env \<Rightarrow> json \<Rightarrow> report \<Rightarrow> files \<Rightarrow> (report \<times> files) option" where
  "read_asset ue asset r fs =
     (case asset_value asset ''name'' of
        None \<Rightarrow> None
      | Some name \<Rightarrow>
          (case (if asset_name_ok (up_x86 ue) name
                 then map_option (\<lambda>url. r\<lparr>rp_asset := name, rp_url := url\<rparr>) (asset_value asset ''browser_download_url'')
                 else Some r) of
             None \<Rightarrow> None
           | Some r1 \<Rightarrow>
               if name \<noteq> ''SHA256SUMS'' then Some (r1, fs)
               else (case asset_value asset ''browser_download_url'' of
                       None \<Rightarrow> None
                     | Some url \<Rightarrow> Some (read_sums ue url r1 fs))))"

fun read_assets :: "upd_env \<Rightarrow> json list \<Rightarrow> report \<Rightarrow> files \<Rightarrow> (report \<times> files) option" where
  "read_assets ue [] r fs = Some (r, fs)"
| "read_assets ue (a # as) r fs =
     (case read_asset ue a r fs of None \<Rightarrow> None | Some (r1, fs1) \<Rightarrow> read_assets ue as r1 fs1)"

definition judge :: "report \<Rightarrow> report" where
  "judge r =
     (if rp_tag r = [] \<or> rp_url r = [] then skipped r
      else if compare_versions (rp_tag r) (rp_local r) \<le> 0 then
        r\<lparr>rp_kind := Rep_Current, rp_line := ''update check: '' @ rp_tag r @ '' is current''\<rparr>
      else
        r\<lparr>rp_kind := Rep_Newer,
          rp_line := ''update available: '' @ rp_tag r @ '' '' @ rp_url r @
            (if rp_sha256 r \<noteq> [] then '' sha256 '' @ rp_sha256 r else [])\<rparr>)"

definition kLatest :: string where
  "kLatest = ''https://api.github.com/repos/UnderhillForge/PiSecure/releases/latest''"

definition check_release :: "upd_env \<Rightarrow> string \<Rightarrow> files \<Rightarrow> (report \<times> files) option" where
  "check_release ue compile_time fs =
     (let r = report_new (local_version compile_time fs) in
      case make_temp ue ''/tmp/pisecure-release-'' fs of
        None \<Rightarrow> Some (skipped r, fs)
      | Some (path, fs1) \<Rightarrow>
          (case curl_status ue kLatest path fs1 of (http, fs2) \<Rightarrow>
             if http \<noteq> 200 then Some (skipped r, remove_file path fs2)
             else (case (case fs2 path of None \<Rightarrow> None | Some raw \<Rightarrow> up_parse ue raw) of
                     None \<Rightarrow> Some (skipped r, remove_file path fs2)
                   | Some doc \<Rightarrow>
                       (case (asset_value doc ''tag_name'', asset_value doc ''body'') of
                          (Some tag, Some body) \<Rightarrow>
                            (case read_assets ue (case jarray doc ''assets'' of Some as \<Rightarrow> as | None \<Rightarrow> [])
                                    (r\<lparr>rp_tag := tag, rp_sha256 := body_sha256 body\<rparr>) (remove_file path fs2) of
                               None \<Rightarrow> None
                             | Some (r1, fs3) \<Rightarrow> Some (judge r1, fs3))
                        | _ \<Rightarrow> None))))"

definition write_available :: "upd_env \<Rightarrow> string \<Rightarrow> report \<Rightarrow> files \<Rightarrow> bool \<times> files" where
  "write_available ue path r fs =
     (let doc = JObject [(''current'', JString (rp_local r)), (''tag'', JString (rp_tag r)), (''url'', JString (rp_url r)),
                  (''sha256'', JString (rp_sha256 r)), (''asset'', JString (rp_asset r))];
          tmp = path @ ''.tmp'' in
      if \<not> up_open ue tmp then (False, fs)
      else
        let fs1 = snd (write_file ue tmp (up_dump ue doc @ [CHR 0x0A]) fs) in
        if up_rename ue tmp path then (True, (remove_file tmp fs1)(path := fs1 tmp)) else (False, fs1))"

subsection \<open>Download and install\<close>

definition download_member :: "upd_env \<Rightarrow> report \<Rightarrow> string \<Rightarrow> string \<Rightarrow> files \<Rightarrow> (string + unit) \<times> files" where
  "download_member ue r member dest fs =
     (if rp_url r = [] \<or> \<not> https_url (rp_url r) then (Inl ''update check skipped'', fs)
      else if take 16 dest = ''/opt/pisecure/'' then (Inl ''refusing to replace a running install path'', fs)
      else case make_temp ue ''/tmp/pisecure-ota-'' fs of
        None \<Rightarrow> (Inl ''could not store the release download'', fs)
      | Some (tar, fs1) \<Rightarrow>
          (case curl_status ue (rp_url r) tar fs1 of (http, fs2) \<Rightarrow>
             if http \<noteq> 200 then (Inl ''update check skipped'', remove_file tar fs2)
             else if rp_sha256 r \<noteq> [] \<and> file_sha256 ue tar fs2 \<noteq> rp_sha256 r
             then (Inl ''release sha256 does not match'', remove_file tar fs2)
             else
               let sums_member = tar_member ue tar ''SHA256SUMS'' fs2; bin_member = tar_member ue tar member fs2 in
               if sums_member = [] \<or> bin_member = [] then (Inl (''release archive has no '' @ member), remove_file tar fs2)
               else
                 let expected = sums_hash_for (tar_text ue tar sums_member fs2) bin_member in
                 if expected = [] then (Inl (''could not verify '' @ member), remove_file tar fs2)
                 else (case tar_extract_file ue tar bin_member dest fs2 of (good, fs3) \<Rightarrow>
                         if \<not> good then (Inl (''could not verify '' @ member), remove_file tar fs3)
                         else
                           let fs4 = remove_file tar fs3 in
                           if file_sha256 ue dest fs4 \<noteq> expected
                           then (Inl (member @ '' sha256 does not match SHA256SUMS''), remove_file dest fs4)
                           else (Inr (), fs4))))"

text \<open>\<open>out << in.rdbuf()\<close> fails when there is nothing to copy.\<close>

definition copy_bytes :: "upd_env \<Rightarrow> string \<Rightarrow> string \<Rightarrow> files \<Rightarrow> bool \<times> files" where
  "copy_bytes ue src dst fs =
     (if \<not> up_open ue dst then (False, fs)
      else case fs src of
          None \<Rightarrow> (False, fs(dst \<mapsto> []))
        | Some content \<Rightarrow> if content = [] then (False, fs(dst \<mapsto> [])) else write_file ue dst content fs)"

definition install_member :: "upd_env \<Rightarrow> report \<Rightarrow> string \<Rightarrow> string \<Rightarrow> files \<Rightarrow> (string + unit) \<times> files" where
  "install_member ue r member final fs =
     (case make_temp ue ''/tmp/pisecure-bin-'' fs of
        None \<Rightarrow> (Inl ''update check skipped'', fs)
      | Some (tmp, fs1) \<Rightarrow>
          (case download_member ue r member tmp fs1 of
             (Inl err, fs2) \<Rightarrow> (Inl err, remove_file tmp fs2)
           | (Inr _, fs2) \<Rightarrow>
               let staged = final @ ''.new'' in
               (case copy_bytes ue tmp staged fs2 of (copied, fs3) \<Rightarrow>
                  if \<not> copied then (Inl (''could not stage '' @ member), remove_file staged (remove_file tmp fs3))
                  else
                    let fs4 = remove_file tmp fs3 in
                    if \<not> up_chmod ue staged \<or> \<not> up_rename ue staged final
                    then (Inl (''could not install '' @ member), remove_file staged fs4)
                    else (Inr (), (remove_file staged fs4)(final := fs4 staged)))))"

definition kDaemon :: string where "kDaemon = ''/opt/pisecure/pisecured''"

definition restore_running_image :: "upd_env \<Rightarrow> files \<Rightarrow> bool \<times> files" where
  "restore_running_image ue fs =
     (case copy_bytes ue ''/proc/self/exe'' kDaemon fs of (copied, fs1) \<Rightarrow> (copied \<and> up_chmod ue kDaemon, fs1))"

definition apply_daemon :: "upd_env \<Rightarrow> report \<Rightarrow> files \<Rightarrow> (string + unit) \<times> files" where
  "apply_daemon ue r fs =
     (case install_member ue r ''pisecured'' kDaemon fs of
        (Inl err, fs1) \<Rightarrow> (Inl err, fs1)
      | (Inr _, fs1) \<Rightarrow>
          if \<not> up_open ue kVersionFile then (Inl ''could not record version'', snd (restore_running_image ue fs1))
          else (case write_file ue kVersionFile (rp_tag r @ [CHR 0x0A]) fs1 of (written, fs2) \<Rightarrow>
                  if \<not> written then (Inl ''could not record version'', snd (restore_running_image ue fs2))
                  else (Inr (), fs2)))"

subsection \<open>The daemon's own check\<close>

text \<open>\<open>Daemon::check_for_update\<close>: the line it logs, and whether a restart is asked for.\<close>

definition check_for_update :: "upd_env \<Rightarrow> string \<Rightarrow> string \<Rightarrow> bool \<Rightarrow> files \<Rightarrow> string \<times> bool \<times> files" where
  "check_for_update ue compile_time available apply_it fs =
     (case check_release ue compile_time fs of
        None \<Rightarrow> (''update check skipped'', False, fs)
      | Some (r, fs1) \<Rightarrow>
          if rp_kind r \<noteq> Rep_Newer then (rp_line r, False, fs1)
          else
            let fs2 = snd (write_available ue available r fs1) in
            if \<not> apply_it then (rp_line r, False, fs2)
            else (case apply_daemon ue r fs2 of
                    (Inl err, fs3) \<Rightarrow> (err, False, fs3)
                  | (Inr _, fs3) \<Rightarrow> (''update applied '' @ rp_tag r, True, fs3)))"

subsection \<open>The wallet's update and \<open>pisecured update download\<close>\<close>

text \<open>How \<open>apply_user_update\<close> ends: it returns, fails, or replaces the process by another program.
  \<open>unpack\<close> gives the paths tar unpacks from an archive, \<open>script\<close> whether its update.sh succeeds,
  \<open>has_args\<close> whether the arguments for a restart were recorded, \<open>execs\<close> whether the program can be started.\<close>

datatype user_end = U_Done | U_Fail string | U_Exec string

definition user_archive :: "upd_env \<Rightarrow> report \<Rightarrow> files \<Rightarrow> (string + string) \<times> files" where
  "user_archive ue r fs =
     (if rp_url r = [] \<or> \<not> https_url (rp_url r) \<or> rp_kind r \<noteq> Rep_Newer then (Inl ''update check skipped'', fs)
      else case make_temp ue ''/tmp/pisecure-ota-'' fs of
        None \<Rightarrow> (Inl ''could not store the release download'', fs)
      | Some (tar, fs1) \<Rightarrow>
          (case curl_status ue (rp_url r) tar fs1 of (http, fs2) \<Rightarrow>
             if http \<noteq> 200 then (Inl ''update check skipped'', remove_file tar fs2)
             else if rp_sha256 r \<noteq> [] \<and> file_sha256 ue tar fs2 \<noteq> rp_sha256 r
             then (Inl ''release sha256 does not match'', remove_file tar fs2)
             else if up_temp ue ''/tmp/pisecure-apply-'' = None
             then (Inl ''could not store the release download'', remove_file tar fs2)
             else (Inr (content_of tar fs2), remove_file tar fs2)))"

definition apply_user_update ::
  "upd_env \<Rightarrow> (string \<Rightarrow> (string list) option) \<Rightarrow> (string \<Rightarrow> bool) \<Rightarrow> bool \<Rightarrow> bool \<Rightarrow> report \<Rightarrow> string \<Rightarrow> files \<Rightarrow> user_end \<times> files" where
  "apply_user_update ue unpack script has_args execs r relaunch fs =
     (case user_archive ue r fs of
        (Inl err, fs1) \<Rightarrow> (U_Fail err, fs1)
      | (Inr archive, fs1) \<Rightarrow>
          (case unpack archive of
             None \<Rightarrow> (U_Fail ''could not read the release archive'', fs1)
           | Some members \<Rightarrow>
               (if ''update.sh'' \<notin> set members then U_Fail ''release archive has no update.sh''
                else if \<not> script archive then U_Fail ''could not install the release''
                else if relaunch = [] then U_Done
                else if \<not> has_args then U_Fail (''update installed; start '' @ relaunch)
                else if execs then U_Exec relaunch
                else U_Fail (''update installed; could not start '' @ relaunch),
                fs1)))"

text \<open>The daemon's restart: \<open>supervised\<close> is whether systemd started it, \<open>scheduled\<close> whether systemd-run took the restart.\<close>

definition restart_after_apply :: "bool \<Rightarrow> bool \<Rightarrow> bool \<Rightarrow> bool \<Rightarrow> user_end" where
  "restart_after_apply supervised scheduled has_args execs =
     (if supervised then (if scheduled then U_Done else U_Fail ''update installed; systemctl restart pisecured'')
      else if \<not> has_args then U_Fail ''update installed; start /opt/pisecure/pisecured''
      else if execs then U_Exec kDaemon
      else U_Fail ''update installed; could not exec pisecured'')"

text \<open>Whether PISECURE_NO_UPDATE turns the checks off.\<close>

definition no_update_env :: "string option \<Rightarrow> bool" where
  "no_update_env v \<longleftrightarrow> (case v of None \<Rightarrow> False | Some flag \<Rightarrow> flag \<in> {''1'', ''true'', ''TRUE'', ''yes''})"

text \<open>\<open>maybe_check_update\<close> of the wallet: the report it shows, what it fails with if it does, and how it ends;
  \<open>answer\<close> is the user's line, \<open>None\<close> when the input is no terminal or ends.\<close>

datatype wallet_check = WC_Skip | WC_Shown report | WC_Failed string bool | WC_Gone string | WC_Updated | WC_Thrown

definition maybe_check_update ::
  "upd_env \<Rightarrow> (string \<Rightarrow> (string list) option) \<Rightarrow> (string \<Rightarrow> bool) \<Rightarrow> bool \<Rightarrow> bool \<Rightarrow> bool \<Rightarrow> string option \<Rightarrow> string option \<Rightarrow> string \<Rightarrow> files \<Rightarrow>
   wallet_check \<times> files" where
  "maybe_check_update ue unpack script has_args execs no_check env answer release fs =
     (if no_check \<or> no_update_env env then (WC_Skip, fs)
      else case check_release ue release fs of
        None \<Rightarrow> (WC_Thrown, fs)
      | Some (r, fs1) \<Rightarrow>
          if rp_kind r \<noteq> Rep_Newer \<or> (answer \<noteq> Some ''y'' \<and> answer \<noteq> Some ''Y'') then (WC_Shown r, fs1)
          else (case apply_user_update ue unpack script has_args execs r ''/opt/pisecure/pswallet'' fs1 of
                  (U_Done, fs2) \<Rightarrow> (WC_Updated, fs2)
                | (U_Exec p, fs2) \<Rightarrow> (WC_Gone p, fs2)
                | (U_Fail err, fs2) \<Rightarrow> (WC_Failed err (take 16 err = ''update installed''), fs2)))"

end
