(* ===== verification/Update_Safe.thy ===== *)
theory Update_Safe
  imports Update
begin

text \<open>
  What the updater promises: version numbers are ordered, a quoted word is read back as it is, and a
  file is only installed when it has the hash the verified archive lists for it; a failed installation
  leaves the installed file alone.
\<close>

subsection \<open>Versions\<close>

lemma part_max [simp]: "length xs \<le> i \<Longrightarrow> part xs i = 0"
  by (simp add: part_def)

lemma compare_from_range: "compare_from a b is \<in> {- 1, 0, 1}"
  by (induction "is") auto

lemma compare_from_swap: "compare_from b a is = - compare_from a b is"
  by (induction "is") auto

lemma compare_from_trans: "compare_from a b is \<le> 0 \<Longrightarrow> compare_from b c is \<le> 0 \<Longrightarrow> compare_from a c is \<le> 0"
proof (induction "is")
  case (Cons i "is")
  then show ?case by (auto split: if_splits)
qed simp

lemma compare_from_append: "compare_from a b (is @ js) = (if compare_from a b is = 0 then compare_from a b js else compare_from a b is)"
  by (induction "is") auto

lemma compare_from_beyond: "\<forall>i \<in> set js. length a \<le> i \<and> length b \<le> i \<Longrightarrow> compare_from a b js = 0"
  by (induction js) auto

lemma compare_versions_upto:
  assumes "length (version_parts l) \<le> n" "length (version_parts r) \<le> n"
  shows "compare_versions l r = compare_from (version_parts l) (version_parts r) [0 ..< n]"
proof -
  let ?m = "max (length (version_parts l)) (length (version_parts r))"
  have "[0 ..< n] = [0 ..< ?m] @ [?m ..< n]" using assms by (metis le_add_diff_inverse max.bounded_iff upt_add_eq_append zero_le)
  moreover have "compare_from (version_parts l) (version_parts r) [?m ..< n] = 0" by (rule compare_from_beyond) auto
  ultimately show ?thesis by (simp add: compare_versions_def compare_from_append Let_def)
qed

text \<open>Version numbers are ordered: comparing gives -1, 0 or 1, comparing the other way round gives the
  opposite, and the order is transitive, whatever the two texts are.\<close>

theorem versions_ordered:
  "compare_versions l r \<in> {- 1, 0, 1} \<and> compare_versions r l = - compare_versions l r \<and> compare_versions l l = 0 \<and>
   (compare_versions l r \<le> 0 \<and> compare_versions r s \<le> 0 \<longrightarrow> compare_versions l s \<le> 0)"
proof -
  let ?n = "max (length (version_parts l)) (max (length (version_parts r)) (length (version_parts s)))"
  have lr: "compare_versions l r = compare_from (version_parts l) (version_parts r) [0 ..< ?n]"
    and rs: "compare_versions r s = compare_from (version_parts r) (version_parts s) [0 ..< ?n]"
    and ls: "compare_versions l s = compare_from (version_parts l) (version_parts s) [0 ..< ?n]"
    and rl: "compare_versions r l = compare_from (version_parts r) (version_parts l) [0 ..< ?n]"
    by (rule compare_versions_upto; simp)+
  have "compare_from a a is = 0" for a "is" by (induction "is") auto
  then have "compare_versions l l = 0" by (simp add: compare_versions_def Let_def)
  moreover have "compare_versions l r \<in> {- 1, 0, 1}" unfolding lr by (rule compare_from_range)
  moreover have "compare_versions r l = - compare_versions l r" unfolding lr rl by (rule compare_from_swap)
  moreover have "compare_versions l r \<le> 0 \<and> compare_versions r s \<le> 0 \<longrightarrow> compare_versions l s \<le> 0"
    unfolding lr rs ls using compare_from_trans by blast
  ultimately show ?thesis by blast
qed

lemma versions_ordered_witness: "compare_versions ''1.2'' ''v1.10'' = - 1 \<and> compare_versions ''1.2'' ''2'' \<le> 0"
proof -
  have p: "version_parts ''1.2'' = [1, 2]" "version_parts ''v1.10'' = [1, 10]" "version_parts ''2'' = [2]"
    by (simp_all add: version_parts_def trim_def is_blank_def in_range_def atoi_def dec_val_def digit_val_def)
  have "compare_versions ''1.2'' ''v1.10'' = - 1" "compare_versions ''v1.10'' ''2'' = - 1"
    by (simp_all add: compare_versions_def p part_def upt_conv_Cons)
  with versions_ordered [of "''1.2''" "''v1.10''" "''2''"] show ?thesis by simp
qed

lemma trim_idem [simp]: "trim (trim s) = trim s"
proof -
  let ?t = "dropWhile is_blank s"
  have e: "dropWhile is_blank (trim s) = trim s"
  proof (cases "trim s")
    case (Cons c cs)
    then obtain u where u: "?t = trim s @ u"
      by (metis append_eq_append_conv2 rev_append rev_rev_ident takeWhile_dropWhile_id trim_def)
    have "\<not> is_blank c" using hd_dropWhile [of is_blank s] u Cons by auto
    with Cons show ?thesis by simp
  qed simp
  then show ?thesis by (simp add: trim_def [of "trim s"]) (simp add: trim_def)
qed

lemma trim_newline: "trim (s @ [CHR 0x0A]) = trim s"
proof -
  have b: "is_blank CHR 0x0A" by (simp add: is_blank_def in_range_def)
  show ?thesis
  proof (cases "\<forall>c \<in> set s. is_blank c")
    case True
    then have "dropWhile is_blank s = []" "dropWhile is_blank (s @ [CHR 0x0A]) = []" using b by auto
    then show ?thesis by (simp only: trim_def)
  next
    case False
    then have "dropWhile is_blank (s @ [CHR 0x0A]) = dropWhile is_blank s @ [CHR 0x0A]"
      by (auto simp: dropWhile_append)
    then show ?thesis using b by (simp add: trim_def)
  qed
qed

lemma compare_trim: "compare_versions s (trim s) = 0"
proof -
  have "version_parts (trim s) = version_parts s" by (simp add: version_parts_def)
  then have "compare_versions s (trim s) = compare_versions s s" by (simp add: compare_versions_def)
  moreover have "compare_from a a is = 0" for a "is" by (induction "is") auto
  ultimately show ?thesis by (simp add: compare_versions_def Let_def)
qed

subsection \<open>Quoting\<close>

text \<open>How a shell reads a word (POSIX 2.2): between single quotes everything is literal; outside them a
  backslash makes the next character literal, and a blank or an operator character ends the word.\<close>

definition ends_word :: "char \<Rightarrow> bool" where
  "ends_word c \<longleftrightarrow> is_blank c \<or> c \<in> set ''|&;<>()$`'' \<or> c = CHR 0x22"

fun shell_word :: "bool \<Rightarrow> string \<Rightarrow> (string \<times> string) option" where
  "shell_word quoted [] = (if quoted then None else Some ([], []))"
| "shell_word True (c # cs) =
     (if c = CHR 0x27 then shell_word False cs else map_option (\<lambda>(w, rest). (c # w, rest)) (shell_word True cs))"
| "shell_word False (c # cs) =
     (if c = CHR 0x27 then shell_word True cs
      else if c = CHR 0x5C then
        (case cs of [] \<Rightarrow> None | d # ds \<Rightarrow> map_option (\<lambda>(w, rest). (d # w, rest)) (shell_word False ds))
      else if ends_word c then Some ([], c # cs)
      else map_option (\<lambda>(w, rest). (c # w, rest)) (shell_word False cs))"

lemma shell_quoted:
  "shell_word True (concat (map (\<lambda>c. if c = CHR 0x27 then [CHR 0x27, CHR 0x5C, CHR 0x27, CHR 0x27] else [c]) s) @ CHR 0x27 # rest) =
   map_option (\<lambda>(w, r). (s @ w, r)) (shell_word False rest)"
  by (induction s) (auto simp: option.map_comp comp_def case_prod_unfold option.map_ident)

text \<open>A quoted text is one word of the shell, and that word is the text itself, whatever characters
  it has: no path or URL can break out of the commands the updater builds.\<close>

theorem quoted_is_one_word:
  "shell_word False (shell_single s @ CHR '' '' # rest) = Some (s, CHR '' '' # rest) \<and>
   shell_word False (shell_single s) = Some (s, [])"
proof -
  have "ends_word CHR '' ''" by (simp add: ends_word_def is_blank_def)
  then show ?thesis using shell_quoted [of s "CHR '' '' # rest"] shell_quoted [of s "[]"]
    by (simp add: shell_single_def)
qed

subsection \<open>Installation\<close>

lemma download_frame:
  assumes "download_member ue r member dest fs = (res, fs')" "p \<noteq> dest" "take 18 p \<noteq> ''/tmp/pisecure-ota-''"
  shows "fs' p = fs p"
proof -
  have t: "p \<noteq> ''/tmp/pisecure-ota-'' @ x" for x using assms(3) by auto
  show ?thesis using assms(1,2) t
    by (auto simp: download_member_def make_temp_def curl_status_def remove_file_def tar_extract_file_def Let_def
        split: if_splits option.splits prod.splits)
qed

text \<open>What a successful download rests on: the archive \<open>c\<close> that the URL gave, and the member \<open>bin\<close> of it.\<close>

definition verified :: "upd_env \<Rightarrow> report \<Rightarrow> string \<Rightarrow> string \<Rightarrow> bool" where
  "verified ue r member img \<longleftrightarrow>
     (\<exists>c sums bin. https_url (rp_url r) \<and> (up_get ue (rp_url r) = (200, Some c) \<or> up_get ue (rp_url r) = (200, None) \<and> c = []) \<and>
        (rp_sha256 r \<noteq> [] \<longrightarrow> to_hex (up_sha ue (bytes_of c)) = rp_sha256 r) \<and>
        member_line ''SHA256SUMS'' sums \<and> member_line member bin \<and> up_member ue c bin = (img, True) \<and>
        sums_hash_for (fst (up_member ue c sums)) bin = to_hex (up_sha ue (bytes_of img)))"

lemma tar_member_line: "tar_member ue tar suffix fs = l \<Longrightarrow> l \<noteq> [] \<Longrightarrow> member_line suffix l"
  by (auto simp: tar_member_def find_Some_iff split: option.splits)

lemma download_verified:
  assumes "download_member ue r member dest fs = (Inr u, fs')" "take 18 dest \<noteq> ''/tmp/pisecure-ota-''"
  shows "\<exists>img. fs' dest = Some img \<and> verified ue r member img"
proof -
  have t: "dest \<noteq> ''/tmp/pisecure-ota-'' @ x" "''/tmp/pisecure-ota-'' @ x \<noteq> dest" for x using assms(2) by auto
  obtain x fs1 fs2 tar where h: "https_url (rp_url r)" and tar: "tar = ''/tmp/pisecure-ota-'' @ x" "fs1 = fs(tar \<mapsto> [])"
    and get: "curl_status ue (rp_url r) tar fs1 = (200, fs2)"
    and sha: "rp_sha256 r \<noteq> [] \<longrightarrow> file_sha256 ue tar fs2 = rp_sha256 r"
    and sums: "tar_member ue tar ''SHA256SUMS'' fs2 \<noteq> []" and bin: "tar_member ue tar member fs2 \<noteq> []"
    and ex: "\<exists>fs3. tar_extract_file ue tar (tar_member ue tar member fs2) dest fs2 = (True, fs3) \<and>
      fs' = remove_file tar fs3 \<and>
      file_sha256 ue dest fs' = sums_hash_for (tar_text ue tar (tar_member ue tar ''SHA256SUMS'' fs2) fs2) (tar_member ue tar member fs2)"
    using assms(1)
    by (auto simp: download_member_def make_temp_def Let_def split: if_splits option.splits prod.splits)
  obtain c where c: "fs2 tar = Some c" "up_get ue (rp_url r) = (200, Some c) \<or> up_get ue (rp_url r) = (200, None) \<and> c = []"
    using get h tar by (auto simp: curl_status_def split: prod.splits option.splits)
  have td: "tar \<noteq> dest" "dest \<noteq> tar" using t tar by simp_all
  obtain img where im: "up_member ue c (tar_member ue tar member fs2) = (img, True)" "fs' dest = Some img"
    using ex td by (auto simp: tar_extract_file_def content_of_def c remove_file_def split: if_splits prod.splits)
  have "verified ue r member img"
    unfolding verified_def
    using h c(2) sha sums bin ex im c(1) tar_member_line [OF refl sums] tar_member_line [OF refl bin]
    by (intro exI [of _ c] exI [of _ "tar_member ue tar ''SHA256SUMS'' fs2"] exI [of _ "tar_member ue tar member fs2"])
      (auto simp: file_sha256_def tar_text_def content_of_def)
  with im show ?thesis by blast
qed

lemma copy_frame: "copy_bytes ue src dst fs = (good, fs') \<Longrightarrow> p \<noteq> dst \<Longrightarrow> fs' p = fs p"
  by (auto simp: copy_bytes_def write_file_def split: if_splits option.splits)

lemma copy_copies: "copy_bytes ue src dst fs = (True, fs') \<Longrightarrow> fs' dst = fs src \<and> fs src \<noteq> None"
  by (auto simp: copy_bytes_def write_file_def split: if_splits option.splits)

definition outside_tmp :: "string \<Rightarrow> bool" where
  "outside_tmp p \<longleftrightarrow> take 5 p \<noteq> ''/tmp/''"

lemma outside_tmp_neq: "outside_tmp p \<Longrightarrow> take 5 q = ''/tmp/'' \<Longrightarrow> p \<noteq> q"
  by (auto simp: outside_tmp_def)

lemma outside_ota: "outside_tmp q \<Longrightarrow> take 18 q \<noteq> ''/tmp/pisecure-ota-''"
proof
  assume "take 18 q = ''/tmp/pisecure-ota-''" "outside_tmp q"
  moreover have "take 5 q = take 5 (take 18 q)" by simp
  ultimately show False by (simp add: outside_tmp_def)
qed

lemma install_run:
  assumes "install_member ue r member final fs = (res, fs')" "outside_tmp final" "outside_tmp (final @ ''.new'')"
  shows "(case res of Inl _ \<Rightarrow> fs' final = fs final | Inr _ \<Rightarrow> \<exists>img. fs' final = Some img \<and> verified ue r member img) \<and>
    (\<forall>p. outside_tmp p \<and> p \<noteq> final \<and> p \<noteq> final @ ''.new'' \<longrightarrow> fs' p = fs p)"
proof (cases "make_temp ue ''/tmp/pisecure-bin-'' fs")
  case None
  with assms show ?thesis by (auto simp: install_member_def)
next
  case (Some a)
  then obtain x where a: "a = (''/tmp/pisecure-bin-'' @ x, fs(''/tmp/pisecure-bin-'' @ x \<mapsto> []))"
    by (auto simp: make_temp_def split: option.splits)
  let ?t = "''/tmp/pisecure-bin-'' @ x"
  obtain down fs2 where d: "download_member ue r member ?t (fs(?t \<mapsto> [])) = (down, fs2)" by (cases "download_member ue r member ?t (fs(?t \<mapsto> []))")
  have t: "p \<noteq> ?t" if "outside_tmp p" for p using that by (auto simp: outside_tmp_def)
  have fr: "fs2 p = fs p" if "outside_tmp p" for p
    using download_frame [OF d t [OF that] outside_ota [OF that]] t [OF that] by simp
  show ?thesis
  proof (cases down)
    case (Inl e)
    with assms(1) Some a d have "res = Inl e" "fs' = remove_file ?t fs2" by (auto simp: install_member_def)
    with fr t assms(2) show ?thesis by (simp add: remove_file_def)
  next
    case (Inr u)
    obtain copied fs3 where c: "copy_bytes ue ?t (final @ ''.new'') fs2 = (copied, fs3)" by (cases "copy_bytes ue ?t (final @ ''.new'') fs2")
    have fr3: "fs3 p = fs p" if "outside_tmp p" "p \<noteq> final @ ''.new''" for p
      using copy_frame [OF c that(2)] fr [OF that(1)] by simp
    show ?thesis
    proof (cases "copied \<and> up_chmod ue (final @ ''.new'') \<and> up_rename ue (final @ ''.new'') final")
      case True
      with assms(1) Some a d Inr c have r: "res = Inr ()"
        "fs' = (remove_file (final @ ''.new'') (remove_file ?t fs3))(final := remove_file ?t fs3 (final @ ''.new''))"
        by (auto simp: install_member_def Let_def)
      obtain img where "fs2 ?t = Some img" "verified ue r member img"
        using download_verified [OF d [unfolded Inr]] by auto
      moreover have "fs3 (final @ ''.new'') = fs2 ?t" using copy_copies c True by auto
      ultimately have "fs' final = Some img \<and> verified ue r member img"
        using t [OF assms(3)] by (simp add: r remove_file_def)
      moreover have "fs' p = fs p" if "outside_tmp p" "p \<noteq> final" "p \<noteq> final @ ''.new''" for p
        using fr3 [OF that(1,3)] that t [OF that(1)] by (simp add: r remove_file_def)
      ultimately show ?thesis using r by auto
    next
      case False
      with assms(1) Some a d Inr c have r: "\<exists>e. res = Inl e" "fs' = remove_file (final @ ''.new'') (remove_file ?t fs3)"
        by (auto simp: install_member_def remove_file_def Let_def fun_upd_twist split: if_splits)
      have "fs' p = fs p" if "outside_tmp p" "p \<noteq> final @ ''.new''" for p
        using fr3 [OF that] that t [OF that(1)] by (simp add: r remove_file_def)
      with r(1) assms(2) show ?thesis by auto
    qed
  qed
qed

subsection \<open>Where the code differs from what it says\<close>

text \<open>The header says that \<open>download_member\<close> refuses a destination under /opt/pisecure. The comparison takes
  sixteen characters of the destination against the fourteen of \<open>/opt/pisecure/\<close>, so only that
  directory itself is refused, and no file in it.\<close>

lemma refusal_void:
  "m \<noteq> [] \<Longrightarrow> fst (download_member ue r member (''/opt/pisecure/'' @ m) fs) \<noteq> Inl ''refusing to replace a running install path''"
proof -
  assume "m \<noteq> []"
  then have "take 16 (''/opt/pisecure/'' @ m) \<noteq> ''/opt/pisecure/''" by (cases m) auto
  then show ?thesis by (auto simp: download_member_def Let_def split: option.splits prod.splits)
qed

text \<open>The header says that \<open>check_release\<close> never throws. A release without notes, whose \<open>body\<close> is null, makes it
  throw.\<close>

lemma null_body_throws:
  assumes "up_temp ue ''/tmp/pisecure-release-'' = Some x" "up_get ue kLatest = (200, Some raw)" "up_parse ue raw = Some doc"
    "is_object doc" "jget doc ''body'' = Some JNull"
  shows "check_release ue ct fs = None"
proof -
  have "https_url kLatest" by (simp add: https_url_def kLatest_def)
  moreover have "asset_value doc ''body'' = None" using assms by (simp add: asset_value_def value_string_def)
  ultimately show ?thesis using assms
    by (simp add: check_release_def make_temp_def curl_status_def Let_def split: option.splits)
qed

text \<open>A SHA256SUMS that comes before the archive among the assets is looked up under no name: its hash for the
  archive is not used.\<close>

lemma sums_first_unused:
  assumes "rp_asset r = []" "\<forall>l \<in> set (getlines (content_of (''/tmp/pisecure-sums-'' @ x)
      (snd (curl_status ue url (''/tmp/pisecure-sums-'' @ x) (fs(''/tmp/pisecure-sums-'' @ x \<mapsto> [])))))).
      case sums_line l of None \<Rightarrow> True | Some (_, name) \<Rightarrow> base_name name \<noteq> []"
    "up_temp ue ''/tmp/pisecure-sums-'' = Some x"
  shows "rp_sha256 (fst (read_sums ue url r fs)) = rp_sha256 r"
proof -
  have "sums_find [] ls = []" if "\<forall>l \<in> set ls. case sums_line l of None \<Rightarrow> True | Some (_, name) \<Rightarrow> base_name name \<noteq> []" for ls
    using that by (induction ls) (auto simp: base_name_def split: option.splits prod.splits)
  with assms show ?thesis
    by (auto simp: read_sums_def make_temp_def sums_hash_for_def Let_def split: prod.splits)
qed

subsection \<open>SHA256SUMS\<close>

text \<open>The file as sha256sum prints it.\<close>

definition print_sums :: "(string \<times> string) list \<Rightarrow> string" where
  "print_sums rows = concat (map (\<lambda>(hex, name). hex @ ''  '' @ name @ [CHR 0x0A]) rows)"

definition sums_row_ok :: "string \<times> string \<Rightarrow> bool" where
  "sums_row_ok row \<longleftrightarrow> (case row of (hex, name) \<Rightarrow>
     length hex = 64 \<and> list_all is_xdigit hex \<and> lower_hex hex = hex \<and> name \<noteq> [] \<and> CHR 0x0A \<notin> set name \<and> last name \<noteq> CHR 0x0D \<and>
     \<not> is_blank (name ! 0) \<and> name ! 0 \<noteq> CHR ''*'')"

lemma getlines_line: "CHR 0x0A \<notin> set l \<Longrightarrow> getlines (l @ CHR 0x0A # rest) = l # getlines rest"
proof -
  assume "CHR 0x0A \<notin> set l"
  then have "takeWhile (\<lambda>c. c \<noteq> CHR 0x0A) (l @ CHR 0x0A # rest) = l" "dropWhile (\<lambda>c. c \<noteq> CHR 0x0A) (l @ CHR 0x0A # rest) = CHR 0x0A # rest"
    by (induction l) auto
  then show ?thesis by (simp add: getlines.simps [of "l @ CHR 0x0A # rest"])
qed

lemma sums_line_printed: "sums_row_ok (hex, name) \<Longrightarrow> sums_line (hex @ ''  '' @ name) = Some (hex, name)"
proof -
  assume ok: "sums_row_ok (hex, name)"
  then have l: "last (hex @ ''  '' @ name) \<noteq> CHR 0x0D" and n: "name \<noteq> []" by (auto simp: sums_row_ok_def)
  have "\<not> is_xdigit CHR '' ''" by (simp add: is_xdigit_def in_range_def)
  then have "takeWhile is_xdigit (hex @ ''  '' @ name) = hex"
    using ok by (auto simp: sums_row_ok_def list_all_iff takeWhile_append)
  moreover have "dropWhile is_blank (''  '' @ name) = name"
    using ok n by (cases name) (auto simp: sums_row_ok_def is_blank_def)
  moreover have "name ! 0 \<noteq> CHR '' ''" using ok by (auto simp: sums_row_ok_def is_blank_def)
  ultimately show ?thesis using ok l by (simp add: sums_line_def sums_row_ok_def Let_def)
qed

text \<open>A SHA256SUMS file gives each name its hash: looked up in the file as sha256sum prints it, a member has the
  hash of the first row whose name, or whose name after the last slash, is that of the member, and none
  when there is no such row.\<close>

theorem sums_lookup:
  assumes "list_all sums_row_ok rows"
  shows "sums_hash_for (print_sums rows) member =
    (case find (\<lambda>(_, name). base_name name = base_name member \<or> name = member) rows of Some (hex, _) \<Rightarrow> hex | None \<Rightarrow> [])"
  using assms
proof (induction rows)
  case Nil
  then show ?case by (simp add: sums_hash_for_def print_sums_def getlines.simps)
next
  case (Cons row rows)
  obtain hex name where row: "row = (hex, name)" by (cases row)
  with Cons.prems have ok: "sums_row_ok (hex, name)" by simp
  then have "CHR 0x0A \<notin> set (hex @ ''  '' @ name)"
    by (auto simp: sums_row_ok_def list_all_iff is_xdigit_def in_range_def)
  from getlines_line [OF this, of "print_sums rows"] have
    "getlines (print_sums (row # rows)) = (hex @ ''  '' @ name) # getlines (print_sums rows)"
    by (simp add: print_sums_def row)
  with Cons row sums_line_printed [OF ok] show ?case by (simp add: sums_hash_for_def)
qed

lemma sums_lookup_witness:
  "sums_hash_for (print_sums [(replicate 64 CHR ''a'', ''x/a''), (replicate 64 CHR ''b'', ''pisecured'')]) ''out/pisecured'' = replicate 64 CHR ''b''"
proof -
  have "list_all sums_row_ok [(replicate 64 CHR ''a'', ''x/a''), (replicate 64 CHR ''b'', ''pisecured'')]"
    by (simp add: sums_row_ok_def is_xdigit_def in_range_def is_blank_def lower_hex_def list_all_iff)
  from sums_lookup [OF this, of "''out/pisecured''"] show ?thesis by (simp add: base_name_def)
qed

end
