(* ===== verification/Update_Apply.thy ===== *)
theory Update_Apply
  imports Update_Safe
begin

text \<open>
  The daemon updating itself: what \<open>apply_daemon\<close> leaves behind in every case, and that an update that
  was applied is not offered again.
\<close>

subsection \<open>Applying\<close>

lemma paths: "outside_tmp kDaemon" "outside_tmp (kDaemon @ ''.new'')" "outside_tmp kVersionFile" "outside_tmp ''/proc/self/exe''"
  "kVersionFile \<noteq> kDaemon" "kDaemon \<noteq> kVersionFile" "kVersionFile \<noteq> kDaemon @ ''.new''" "''/proc/self/exe'' \<noteq> kDaemon"
  "''/proc/self/exe'' \<noteq> kDaemon @ ''.new''" "''/proc/self/exe'' \<noteq> kVersionFile" "kDaemon \<noteq> ''/proc/self/exe''"
  by (simp_all add: outside_tmp_def kDaemon_def kVersionFile_def)

text \<open>The running image can be written back.\<close>

definition restorable :: "upd_env \<Rightarrow> files \<Rightarrow> bool" where
  "restorable ue fs \<longleftrightarrow> up_open ue kDaemon \<and>
     (case fs ''/proc/self/exe'' of None \<Rightarrow> False | Some c \<Rightarrow> c \<noteq> [] \<and> up_short ue kDaemon c = None)"

lemma restored: "restorable ue fs \<Longrightarrow> snd (restore_running_image ue fs) kDaemon = fs ''/proc/self/exe''"
  by (auto simp: restorable_def restore_running_image_def copy_bytes_def write_file_def split: option.splits)

lemma apply_run: "apply_daemon ue r fs = (Inr u, fs') \<Longrightarrow>
   (\<exists>img. fs' kDaemon = Some img \<and> verified ue r ''pisecured'' img) \<and> fs' kVersionFile = Some (rp_tag r @ [CHR 0x0A])"
proof -
  assume a: "apply_daemon ue r fs = (Inr u, fs')"
  then obtain u' fs1 where i: "install_member ue r ''pisecured'' kDaemon fs = (Inr u', fs1)"
    and w: "write_file ue kVersionFile (rp_tag r @ [CHR 0x0A]) fs1 = (True, fs')"
    by (auto simp: apply_daemon_def split: prod.splits sum.splits if_splits)
  from install_run [OF i paths(1,2)] w paths(6) show ?thesis by (auto simp: write_file_def split: option.splits)
qed

lemma compare_range: "compare_versions l r \<in> {- 1, 0, 1}"
  by (simp only: compare_versions_def Let_def compare_from_range)

lemma newer_compare: "check_release ue ct fs = Some (r, fs1) \<Longrightarrow> rp_kind r = Rep_Newer \<Longrightarrow> compare_versions (rp_tag r) (rp_local r) > 0"
  by (auto simp: check_release_def judge_def skipped_def report_new_def Let_def split: option.splits prod.splits if_splits)

text \<open>C34: Updating the daemon is all or nothing. When \<open>apply_daemon\<close> succeeds, the installed file is the
  member of the release archive with the hash the archive's SHA256SUMS lists for it, the archive has the hash
  of the report if that gives one, and the version file holds the tag of the release. When it
  fails and the running image can be written back, the installed file is the one from before or the
  running image.\<close>

theorem apply_daemon_verified:
  "case apply_daemon ue r fs of
     (Inr _, fs') \<Rightarrow> (\<exists>img. fs' kDaemon = Some img \<and> verified ue r ''pisecured'' img) \<and> fs' kVersionFile = Some (rp_tag r @ [CHR 0x0A])
   | (Inl _, fs') \<Rightarrow> restorable ue fs \<longrightarrow> fs' kDaemon = fs kDaemon \<or> fs' kDaemon = fs ''/proc/self/exe''"
proof -
  obtain res fs1 where i: "install_member ue r ''pisecured'' kDaemon fs = (res, fs1)"
    by (cases "install_member ue r ''pisecured'' kDaemon fs")
  note run = install_run [OF i paths(1,2)]
  show ?thesis
  proof (cases res)
    case (Inl e)
    from i run Inl show ?thesis by (simp add: apply_daemon_def)
  next
    case (Inr u)
    then obtain img where img: "fs1 kDaemon = Some img" "verified ue r ''pisecured'' img" using run by auto
    have exe: "fs1 ''/proc/self/exe'' = fs ''/proc/self/exe''" using run paths by blast
    have undo: "snd (restore_running_image ue fs2) kDaemon = fs ''/proc/self/exe''"
      if "restorable ue fs" "fs2 ''/proc/self/exe'' = fs ''/proc/self/exe''" for fs2
      using restored [of ue fs2] that by (simp add: restorable_def)
    obtain written fs2 where w: "write_file ue kVersionFile (rp_tag r @ [CHR 0x0A]) fs1 = (written, fs2)"
      by (cases "write_file ue kVersionFile (rp_tag r @ [CHR 0x0A]) fs1")
    then have keep: "p \<noteq> kVersionFile \<Longrightarrow> fs2 p = fs1 p" for p by (auto simp: write_file_def split: option.splits)
    have new: "written \<Longrightarrow> fs2 kVersionFile = Some (rp_tag r @ [CHR 0x0A])" using w by (auto simp: write_file_def split: option.splits)
    show ?thesis
      using i Inr w img new keep [OF paths(6)] keep [OF paths(10)] exe undo by (auto simp: apply_daemon_def)
  qed
qed

subsection \<open>Asking again\<close>

text \<open>What a report says of the release does not depend on the files, only its \<open>local\<close> does.\<close>

definition re_local :: "string \<Rightarrow> report \<Rightarrow> report" where
  "re_local l r = r\<lparr>rp_local := l\<rparr>"

lemma re_local_simps [simp]: "rp_asset (re_local l r) = rp_asset r" "rp_tag (re_local l r) = rp_tag r" "rp_url (re_local l r) = rp_url r"
  "rp_sha256 (re_local l r) = rp_sha256 r" "rp_local (re_local l r) = l"
  "(re_local l r)\<lparr>rp_sha256 := h\<rparr> = re_local l (r\<lparr>rp_sha256 := h\<rparr>)"
  "(re_local l r)\<lparr>rp_asset := a, rp_url := u\<rparr> = re_local l (r\<lparr>rp_asset := a, rp_url := u\<rparr>)"
  by (simp_all add: re_local_def)

lemma read_sums_again: "fst (read_sums ue url (re_local l r) fs') = re_local l (fst (read_sums ue url r fs))"
  by (auto simp: read_sums_def make_temp_def curl_status_def content_of_def Let_def split: option.splits prod.splits)

lemma read_asset_again:
  "read_asset ue a r fs = Some (r1, fs1) \<Longrightarrow> \<exists>fs1'. read_asset ue a (re_local l r) fs' = Some (re_local l r1, fs1')"
proof -
  assume a: "read_asset ue a r fs = Some (r1, fs1)"
  have s: "\<exists>fs1'. read_sums ue url (re_local l r2) fs' = (re_local l r1, fs1')" if "read_sums ue url r2 fs = (r1, fs1)" for url r2
    using read_sums_again [of ue url l r2 fs' fs] that by (metis fst_conv prod.exhaust_sel)
  show ?thesis using a s by (auto simp: read_asset_def split: option.splits if_splits)
qed

lemma read_assets_again:
  "read_assets ue as r fs = Some (r1, fs1) \<Longrightarrow> \<exists>fs1'. read_assets ue as (re_local l r) fs' = Some (re_local l r1, fs1')"
proof (induction "as" arbitrary: r fs fs')
  case (Cons a "as")
  then obtain r2 fs2 where a: "read_asset ue a r fs = Some (r2, fs2)" and n: "read_assets ue as r2 fs2 = Some (r1, fs1)"
    by (auto split: option.splits)
  from read_asset_again [OF a] obtain fs2' where "read_asset ue a (re_local l r) fs' = Some (re_local l r2, fs2')" by blast
  with Cons.IH [OF n] show ?case by fastforce
qed simp

lemma read_sums_keeps: "read_sums ue url r fs = (r1, fs1) \<Longrightarrow>
   rp_local r1 = rp_local r \<and> rp_tag r1 = rp_tag r \<and> (outside_tmp p \<longrightarrow> fs1 p = fs p)"
  by (auto simp: read_sums_def make_temp_def curl_status_def remove_file_def outside_tmp_def Let_def split: option.splits prod.splits if_splits)

lemma read_assets_keeps: "read_assets ue as r fs = Some (r1, fs1) \<Longrightarrow>
   rp_local r1 = rp_local r \<and> rp_tag r1 = rp_tag r \<and> (outside_tmp p \<longrightarrow> fs1 p = fs p)"
proof (induction "as" arbitrary: r fs)
  case (Cons a "as")
  then obtain r2 fs2 where a: "read_asset ue a r fs = Some (r2, fs2)" and n: "read_assets ue as r2 fs2 = Some (r1, fs1)"
    by (auto split: option.splits)
  have "rp_local r2 = rp_local r \<and> rp_tag r2 = rp_tag r \<and> (outside_tmp p \<longrightarrow> fs2 p = fs p)"
    using a by (auto simp: read_asset_def split: option.splits if_splits dest!: read_sums_keeps)
  with Cons.IH [OF n] show ?case by simp
qed simp

text \<open>The release document a check gets, when it gets one.\<close>

lemma check_newer:
  assumes "check_release ue ct fs = Some (r, fs1)" "rp_kind r = Rep_Newer"
  shows "rp_local r = local_version ct fs \<and> rp_tag r \<noteq> [] \<and> (outside_tmp p \<longrightarrow> fs1 p = fs p) \<and>
    (\<exists>fs2. check_release ue ct fs' = Some (judge (re_local (local_version ct fs') r), fs2))"
proof -
  obtain x http fs3 raw doc tag body r0 where t: "up_temp ue ''/tmp/pisecure-release-'' = Some x"
    and c: "curl_status ue kLatest (''/tmp/pisecure-release-'' @ x) (fs(''/tmp/pisecure-release-'' @ x \<mapsto> [])) = (200, fs3)"
    and d: "fs3 (''/tmp/pisecure-release-'' @ x) = Some raw" "up_parse ue raw = Some doc"
    and m: "asset_value doc ''tag_name'' = Some tag" "asset_value doc ''body'' = Some body"
    and a: "read_assets ue (case jarray doc ''assets'' of Some as \<Rightarrow> as | None \<Rightarrow> [])
       ((report_new (local_version ct fs))\<lparr>rp_tag := tag, rp_sha256 := body_sha256 body\<rparr>)
       (remove_file (''/tmp/pisecure-release-'' @ x) fs3) = Some (r0, fs1)" "r = judge r0"
    using assms
    by (auto simp: check_release_def make_temp_def skipped_def Let_def split: option.splits prod.splits if_splits)
  let ?p = "''/tmp/pisecure-release-'' @ x"
  obtain fs3' where c': "curl_status ue kLatest ?p (fs'(?p \<mapsto> [])) = (200, fs3')" "fs3' ?p = Some raw"
    using c d(1) by (auto simp: curl_status_def split: if_splits prod.splits option.splits)
  let ?r = "(report_new (local_version ct fs))\<lparr>rp_tag := tag, rp_sha256 := body_sha256 body\<rparr>"
  have l: "re_local (local_version ct fs') ?r = (report_new (local_version ct fs'))\<lparr>rp_tag := tag, rp_sha256 := body_sha256 body\<rparr>"
    by (simp add: re_local_def report_new_def)
  from read_assets_again [OF a(1), of "local_version ct fs'" "remove_file ?p fs3'"] obtain fs2 where
    "read_assets ue (case jarray doc ''assets'' of Some as \<Rightarrow> as | None \<Rightarrow> [])
       ((report_new (local_version ct fs'))\<lparr>rp_tag := tag, rp_sha256 := body_sha256 body\<rparr>) (remove_file ?p fs3') =
       Some (re_local (local_version ct fs') r0, fs2)" by (auto simp: l)
  then have again: "check_release ue ct fs' = Some (judge (re_local (local_version ct fs') r0), fs2)"
    using t c' d(2) m by (simp add: check_release_def make_temp_def Let_def)
  have j: "judge (re_local v r0) = judge (re_local v r)" for v
    by (simp add: a(2) judge_def re_local_def skipped_def)
  have "outside_tmp p \<longrightarrow> fs1 p = fs p"
    using read_assets_keeps [OF a(1), of p] c by (auto simp: remove_file_def curl_status_def outside_tmp_def split: if_splits prod.splits option.splits)
  moreover have "rp_local r = local_version ct fs" using read_assets_keeps [OF a(1)] by (simp add: a(2) judge_def skipped_def report_new_def)
  moreover have "rp_tag r \<noteq> []" using assms(2) by (auto simp: a(2) judge_def skipped_def split: if_splits)
  ultimately show ?thesis using again j by auto
qed

text \<open>C33: An update is applied once. When the daemon's check applies the release and asks for a
  restart, the release was newer than the version it ran; afterwards the version it finds is that of the
  release, which is newer than the one before, and the same check with the same release on
  GitHub applies nothing and asks for no restart.\<close>

theorem update_applied_once:
  assumes "check_release ue ct fs = Some (r, fs1)" "trim (rp_tag r) \<noteq> []"
    "check_for_update ue ct available True fs = (line, True, fs')"
  shows "rp_kind r = Rep_Newer \<and> local_version ct fs' = trim (rp_tag r) \<and>
    compare_versions (local_version ct fs') (local_version ct fs) = 1 \<and>
    (\<exists>img. fs' kDaemon = Some img \<and> verified ue r ''pisecured'' img) \<and>
    (\<exists>fs2. check_for_update ue ct available True fs' = (''update check: '' @ rp_tag r @ '' is current'', False, fs2))"
proof -
  let ?old = "local_version ct fs"
  have newer: "rp_kind r = Rep_Newer" using assms by (auto simp: check_for_update_def split: if_splits)
  note n = check_newer [OF assms(1) newer]
  obtain fs2 u where ap: "apply_daemon ue r fs2 = (Inr u, fs')"
    using assms(1,3) newer by (auto simp: check_for_update_def Let_def split: prod.splits sum.splits)
  from apply_run [OF ap] obtain img where img: "fs' kDaemon = Some img" "verified ue r ''pisecured'' img"
    and v: "fs' kVersionFile = Some (rp_tag r @ [CHR 0x0A])" by blast
  have loc: "local_version ct fs' = trim (rp_tag r)" using v assms(2) by (simp add: local_version_def trim_newline)
  have "rp_url r \<noteq> []" using img(2) by (auto simp: verified_def https_url_def)
  have up: "compare_versions (rp_tag r) ?old = 1"
    using newer_compare [OF assms(1) newer] compare_range [of "rp_tag r" ?old] n by auto
  have up': "compare_versions (local_version ct fs') ?old = 1" using up by (simp add: loc compare_versions_def version_parts_def)
  obtain fs3 where again: "check_release ue ct fs' = Some (judge (re_local (local_version ct fs') r), fs3)" using n by blast
  have "judge (re_local (local_version ct fs') r) =
      (re_local (local_version ct fs') r)\<lparr>rp_kind := Rep_Current, rp_line := ''update check: '' @ rp_tag r @ '' is current''\<rparr>"
    using n \<open>rp_url r \<noteq> []\<close> by (simp add: judge_def loc compare_trim)
  with again have "check_for_update ue ct available True fs' = (''update check: '' @ rp_tag r @ '' is current'', False, fs3)"
    by (simp add: check_for_update_def)
  with newer loc up' img show ?thesis by blast
qed

definition demo_release :: json where
  "demo_release = JObject [(''tag_name'', JString ''v2''), (''body'', JString []),
     (''assets'', JArray [JObject [(''name'', JString ''pisecure-v2-x86_64.tar.gz''), (''browser_download_url'', JString ''https://x'')]])]"

definition demo_update :: upd_env where
  "demo_update = \<lparr>up_x86 = True, up_temp = (\<lambda>_. Some ''abcdef''), up_get = (\<lambda>_. (200, Some ''r'')), up_parse = (\<lambda>_. Some demo_release),
     up_dump = (\<lambda>_. []), up_sha = (\<lambda>_. replicate 32 0xaa), up_listing = (\<lambda>_. ''SHA256SUMS'' @ [CHR 0x0A] @ ''pisecured'' @ [CHR 0x0A]),
     up_member = (\<lambda>_ m. (if m = ''SHA256SUMS'' then replicate 64 CHR ''a'' @ ''  pisecured'' else ''new'', True)),
     up_open = (\<lambda>_. True), up_short = (\<lambda>_ _. None), up_chmod = (\<lambda>_. True), up_rename = (\<lambda>_ _. True)\<rparr>"

definition demo_files :: files where
  "demo_files = [kVersionFile \<mapsto> ''v1'', kDaemon \<mapsto> ''old'']"

lemma demo_check: "\<exists>r fs1. check_release demo_update ''v1'' demo_files = Some (r, fs1) \<and> rp_tag r = ''v2''"
proof -
  have "(case check_release demo_update ''v1'' demo_files of None \<Rightarrow> False | Some (r, _) \<Rightarrow> rp_tag r = ''v2'')" by code_simp
  then show ?thesis by (auto split: option.splits prod.splits)
qed

lemma demo_applied: "\<exists>line fs'. check_for_update demo_update ''v1'' ''a'' True demo_files = (line, True, fs')"
proof -
  have "fst (snd (check_for_update demo_update ''v1'' ''a'' True demo_files))" by code_simp
  then show ?thesis by (metis prod.collapse)
qed

lemma update_applied_once_witness:
  "\<exists>line fs' fs2. check_for_update demo_update ''v1'' ''a'' True demo_files = (line, True, fs') \<and>
     check_for_update demo_update ''v1'' ''a'' True fs' = (''update check: v2 is current'', False, fs2)"
proof -
  obtain r fs1 line fs' where c: "check_release demo_update ''v1'' demo_files = Some (r, fs1)" "rp_tag r = ''v2''"
    and a: "check_for_update demo_update ''v1'' ''a'' True demo_files = (line, True, fs')"
    using demo_check demo_applied by blast
  have "trim (rp_tag r) \<noteq> []" by (simp add: c trim_def is_blank_def in_range_def)
  from update_applied_once [OF c(1) this a] a show ?thesis by (auto simp: c(2))
qed

lemma apply_daemon_verified_witness:
  "\<exists>fs'. apply_daemon (demo_update\<lparr>up_open := (\<lambda>p. p \<noteq> kVersionFile)\<rparr>) ((report_new ''v1'')\<lparr>rp_url := ''https://x''\<rparr>)
      (demo_files(''/proc/self/exe'' \<mapsto> ''old'')) = (Inl ''could not record version'', fs') \<and> fs' kDaemon = Some ''old''"
proof -
  let ?ue = "demo_update\<lparr>up_open := (\<lambda>p. p \<noteq> kVersionFile)\<rparr>"
  let ?r = "(report_new ''v1'')\<lparr>rp_url := ''https://x''\<rparr>"
  let ?fs = "demo_files(''/proc/self/exe'' \<mapsto> ''old'')"
  have "fst (apply_daemon ?ue ?r ?fs) = Inl ''could not record version''" by code_simp
  then obtain fs' where a: "apply_daemon ?ue ?r ?fs = (Inl ''could not record version'', fs')" by (metis prod.collapse)
  have "restorable ?ue ?fs" by (simp add: restorable_def demo_update_def paths)
  with apply_daemon_verified [where ue = ?ue and r = ?r and fs = ?fs] a show ?thesis by (auto simp: demo_files_def paths)
qed

end
