(* ===== verification/Config.thy ===== *)
theory Config
  imports Update_Text
begin

text \<open>
  The daemon's configuration (config.cpp): the environment variables, the command line and what
  \<open>--testnet\<close> changes at the end. The percentage of the validator rewards is a \<open>double\<close>: \<open>cv_stod\<close> says
  of its text whether it can be read, whether it is over the network's maximum and whether it is
  positive, and the configuration keeps the text.
\<close>

datatype percentage = Pct_Default | Pct_Max | Pct_Text string

record config =
  cf_datadir :: string
  cf_conf_file :: string
  cf_rpc_bind :: string
  cf_rpc_port :: int
  cf_ws_bind :: string
  cf_ws_port :: int
  cf_ws_enabled :: bool
  cf_http_enabled :: bool
  cf_ws_tls :: bool
  cf_tls_cert :: string
  cf_tls_key :: string
  cf_p2p_bind :: string
  cf_p2p_port :: int
  cf_peers :: "string list"
  cf_testnet :: bool
  cf_validate_only :: bool
  cf_daemonize :: bool
  cf_no_update_check :: bool
  cf_apply_update :: bool
  cf_max_peers :: int
  cf_hybrid_storage :: bool
  cf_rewards :: bool
  cf_percentage :: percentage
  cf_wallet :: string
  cf_bucket :: string

definition config_new :: config where
  "config_new = \<lparr>cf_datadir = [], cf_conf_file = [], cf_rpc_bind = ''0.0.0.0'', cf_rpc_port = 3144, cf_ws_bind = ''0.0.0.0'',
     cf_ws_port = 3144, cf_ws_enabled = True, cf_http_enabled = False, cf_ws_tls = False, cf_tls_cert = [], cf_tls_key = [],
     cf_p2p_bind = ''0.0.0.0'', cf_p2p_port = 3141, cf_peers = [], cf_testnet = False, cf_validate_only = False,
     cf_daemonize = False, cf_no_update_check = False, cf_apply_update = False, cf_max_peers = 32, cf_hybrid_storage = True,
     cf_rewards = True, cf_percentage = Pct_Default, cf_wallet = [], cf_bucket = []\<rparr>"

record conf_env =
  cv_home :: "string option"
  cv_testnet :: bool
  cv_data_dir :: "string option"
  cv_host :: "string option"
  cv_port :: "string option"
  cv_no_update :: "string option"
  cv_stod :: "string \<Rightarrow> (bool \<times> bool) option"

text \<open>\<open>std::filesystem::path::operator/\<close> with a relative path.\<close>

definition path_join :: "string \<Rightarrow> string \<Rightarrow> string" where
  "path_join p q = (if p = [] \<or> last p = CHR ''/'' then p @ q else p @ ''/'' @ q)"

definition default_datadir :: "conf_env \<Rightarrow> bool \<Rightarrow> string" where
  "default_datadir cv testnet =
     (let base = (case cv_home cv of None \<Rightarrow> ''.'' | Some home \<Rightarrow> home) in
      if testnet \<or> cv_testnet cv then path_join base ''.pisecure-testnet'' else path_join base ''.pisecure'')"

text \<open>\<open>std::stoi\<close>: leading blanks, a sign, and digits up to the first other character; it throws without
  digits and out of the range of \<open>int\<close>.\<close>

definition stoi :: "string \<Rightarrow> int option" where
  "stoi text =
     (let s = dropWhile is_blank text;
          neg = (s \<noteq> [] \<and> s ! 0 = CHR ''-'');
          d = takeWhile (\<lambda>c. in_range c CHR ''0'' CHR ''9'')
                (if s \<noteq> [] \<and> (s ! 0 = CHR ''-'' \<or> s ! 0 = CHR ''+'') then drop 1 s else s);
          v = (if neg then - int (dec_val d) else int (dec_val d)) in
      if d = [] \<or> v < - (2 ^ 31) \<or> v > 2 ^ 31 - 1 then None else Some v)"

text \<open>\<open>std::atoi\<close>: \<open>strtol\<close>, cut to an \<open>int\<close>.\<close>

definition atoi_text :: "string \<Rightarrow> int" where
  "atoi_text text =
     (let s = dropWhile is_blank text;
          neg = (s \<noteq> [] \<and> s ! 0 = CHR ''-'');
          d = takeWhile (\<lambda>c. in_range c CHR ''0'' CHR ''9'')
                (if s \<noteq> [] \<and> (s ! 0 = CHR ''-'' \<or> s ! 0 = CHR ''+'') then drop 1 s else s);
          v = (if neg then max (- int (dec_val d)) (- (2 ^ 63)) else min (int (dec_val d)) (2 ^ 63 - 1)) in
      sint (word_of_int v :: 32 word))"

text \<open>How reading the configuration ends.\<close>

datatype 'a conf_end = Conf 'a | Conf_Exit | Conf_Throw

fun conf_bind :: "'a conf_end \<Rightarrow> ('a \<Rightarrow> 'b conf_end) \<Rightarrow> 'b conf_end" where
  "conf_bind (Conf x) f = f x"
| "conf_bind Conf_Exit f = Conf_Exit"
| "conf_bind Conf_Throw f = Conf_Throw"

definition int_arg :: "string \<Rightarrow> int conf_end" where
  "int_arg text = (case stoi text of None \<Rightarrow> Conf_Throw | Some v \<Rightarrow> Conf v)"

definition set_env :: "string option \<Rightarrow> string \<Rightarrow> string" where
  "set_env v dflt = (case v of None \<Rightarrow> dflt | Some s \<Rightarrow> if s = [] then dflt else s)"

definition no_update_flag :: "string option \<Rightarrow> bool" where
  "no_update_flag v \<longleftrightarrow> (case v of None \<Rightarrow> False | Some flag \<Rightarrow> flag \<in> {''1'', ''true'', ''TRUE'', ''yes''})"

definition config_env :: "conf_env \<Rightarrow> config conf_end" where
  "config_env cv =
     (let datadir = set_env (cv_data_dir cv) (default_datadir cv False); bind = set_env (cv_host cv) (cf_rpc_bind config_new) in
      conf_bind (if set_env (cv_port cv) [] = [] then Conf (cf_rpc_port config_new) else int_arg (set_env (cv_port cv) [])) (\<lambda>port.
        Conf (config_new\<lparr>cf_datadir := datadir, cf_conf_file := path_join datadir ''pisecured.conf'',
          cf_bucket := path_join datadir ''validator_bucket.json'', cf_rpc_bind := bind, cf_rpc_port := port, cf_ws_bind := bind,
          cf_ws_port := port, cf_no_update_check := no_update_flag (cv_no_update cv)\<rparr>)))"

text \<open>The paths that follow the data directory.\<close>

definition set_datadir :: "string \<Rightarrow> bool \<Rightarrow> config \<Rightarrow> config" where
  "set_datadir datadir explicit_bucket cf =
     (let cf1 = cf\<lparr>cf_datadir := datadir, cf_conf_file := path_join datadir ''pisecured.conf''\<rparr> in
      if explicit_bucket then cf1 else cf1\<lparr>cf_bucket := path_join datadir ''validator_bucket.json''\<rparr>)"

definition apply_update_value :: "string \<Rightarrow> bool" where
  "apply_update_value arg =
     (let v = (case after_first ''='' arg of None \<Rightarrow> ''yes'' | Some rest \<Rightarrow> rest) in
      v \<notin> {''ask'', ''log'', ''0'', ''no'', ''false''})"

definition set_percentage :: "conf_env \<Rightarrow> string \<Rightarrow> config \<Rightarrow> config conf_end" where
  "set_percentage cv text cf =
     (case cv_stod cv text of
        None \<Rightarrow> Conf_Throw
      | Some (over, positive) \<Rightarrow>
          Conf (if over then cf\<lparr>cf_percentage := Pct_Max\<rparr>
                else if positive then cf\<lparr>cf_percentage := Pct_Text text\<rparr> else cf))"

text \<open>The options without a value; \<open>None\<close> for any other argument.\<close>

definition plain_option :: "string \<Rightarrow> config \<Rightarrow> config option" where
  "plain_option arg cf =
     (if arg = ''--testnet'' then Some (cf\<lparr>cf_testnet := True\<rparr>)
      else if arg = ''--validate-only'' then Some (cf\<lparr>cf_validate_only := True\<rparr>)
      else if arg = ''--daemon'' then Some (cf\<lparr>cf_daemonize := True\<rparr>)
      else if arg = ''--no-hybrid-storage'' then Some (cf\<lparr>cf_hybrid_storage := False\<rparr>)
      else if arg = ''--no-update-check'' then Some (cf\<lparr>cf_no_update_check := True\<rparr>)
      else if arg = ''--apply-update'' \<or> take 15 arg = ''--apply-update='' then Some (cf\<lparr>cf_apply_update := apply_update_value arg\<rparr>)
      else if arg = ''--no-validator-rewards'' then Some (cf\<lparr>cf_rewards := False\<rparr>)
      else if arg = ''--no-ws'' then Some (cf\<lparr>cf_ws_enabled := False\<rparr>)
      else if arg = ''--http-rpc'' then Some (cf\<lparr>cf_http_enabled := True\<rparr>)
      else if arg = ''--ws-tls'' then Some (cf\<lparr>cf_ws_tls := True\<rparr>)
      else if arg = ''-h'' \<or> arg = ''--help'' then Some cf
      else None)"

text \<open>The options with a value; \<open>None\<close> for any other argument. With it, whether the bucket's path was given.\<close>

definition value_option :: "conf_env \<Rightarrow> string \<Rightarrow> string \<Rightarrow> config \<times> bool \<Rightarrow> ((config \<times> bool) conf_end) option" where
  "value_option cv arg v c =
     (case c of (cf, explicit) \<Rightarrow>
        let only = (\<lambda>cf'. Some (Conf (cf', explicit)));
            num = (\<lambda>f. Some (conf_bind (int_arg v) (\<lambda>n. Conf (f n, explicit)))) in
        if arg = ''--datadir'' then only (set_datadir v explicit cf)
        else if arg = ''--host'' then only (cf\<lparr>cf_rpc_bind := v, cf_ws_bind := v\<rparr>)
        else if arg = ''--port'' then num (\<lambda>n. cf\<lparr>cf_rpc_port := n, cf_ws_port := n\<rparr>)
        else if arg = ''--conf'' then only (cf\<lparr>cf_conf_file := v\<rparr>)
        else if arg = ''--rpc-bind'' then only (cf\<lparr>cf_rpc_bind := v, cf_ws_bind := v\<rparr>)
        else if arg = ''--rpc-port'' then num (\<lambda>n. cf\<lparr>cf_rpc_port := n, cf_ws_port := n\<rparr>)
        else if arg = ''--p2p-bind'' then only (cf\<lparr>cf_p2p_bind := v\<rparr>)
        else if arg = ''--p2p-port'' then num (\<lambda>n. cf\<lparr>cf_p2p_port := n\<rparr>)
        else if arg = ''--peer'' then only (cf\<lparr>cf_peers := cf_peers cf @ [v]\<rparr>)
        else if arg = ''--maxpeers'' then num (\<lambda>n. cf\<lparr>cf_max_peers := n\<rparr>)
        else if arg = ''--ws-bind'' then only (cf\<lparr>cf_ws_bind := v\<rparr>)
        else if arg = ''--ws-port'' then num (\<lambda>n. cf\<lparr>cf_ws_port := n\<rparr>)
        else if arg = ''--tls-cert'' then only (cf\<lparr>cf_tls_cert := v\<rparr>)
        else if arg = ''--tls-key'' then only (cf\<lparr>cf_tls_key := v\<rparr>)
        else if arg = ''--validator-rewards-percentage'' then
          Some (conf_bind (set_percentage cv v cf) (\<lambda>cf'. Conf (cf', explicit)))
        else if arg = ''--validator-wallet'' then only (cf\<lparr>cf_wallet := v\<rparr>)
        else if arg = ''--validator-bucket'' then Some (Conf (cf\<lparr>cf_bucket := v\<rparr>, True))
        else None)"

text \<open>The loop over the arguments. A missing value is the empty text.\<close>

fun load_args :: "conf_env \<Rightarrow> string list \<Rightarrow> config \<times> bool \<Rightarrow> (config \<times> bool) conf_end" where
  "load_args cv [] c = Conf c"
| "load_args cv (arg # rest) c =
     (case plain_option arg (fst c) of
        Some cf \<Rightarrow> load_args cv rest (cf, snd c)
      | None \<Rightarrow>
          (case rest of
             [] \<Rightarrow>
               (case value_option cv arg [] c of
                  Some r \<Rightarrow> r
                | None \<Rightarrow> if arg \<noteq> [] \<and> arg ! 0 = CHR ''-'' then Conf_Exit else Conf c)
           | v # rest' \<Rightarrow>
               (case value_option cv arg v c of
                  Some r \<Rightarrow> conf_bind r (load_args cv rest')
                | None \<Rightarrow> if arg \<noteq> [] \<and> arg ! 0 = CHR ''-'' then Conf_Exit else load_args cv rest c)))"

definition load_config :: "conf_env \<Rightarrow> string list \<Rightarrow> config conf_end" where
  "load_config cv args =
     conf_bind (config_env cv) (\<lambda>cf0.
     conf_bind (load_args cv args (cf0, False)) (\<lambda>(cf, explicit).
       if cf_testnet cf then
         Conf ((set_datadir (default_datadir cv True) explicit cf)\<lparr>cf_ws_bind := cf_rpc_bind cf, cf_ws_port := cf_rpc_port cf\<rparr>)
       else Conf cf))"

subsection \<open>What a configuration is\<close>

definition is_int32 :: "int \<Rightarrow> bool" where
  "is_int32 n \<longleftrightarrow> - (2 ^ 31) \<le> n \<and> n \<le> 2 ^ 31 - 1"

text \<open>The numbers are of type \<open>int\<close>, and a percentage that was given is positive and within the maximum.\<close>

definition config_ok :: "conf_env \<Rightarrow> config \<Rightarrow> bool" where
  "config_ok cv cf \<longleftrightarrow>
     is_int32 (cf_rpc_port cf) \<and> is_int32 (cf_ws_port cf) \<and> is_int32 (cf_p2p_port cf) \<and> is_int32 (cf_max_peers cf) \<and>
     (case cf_percentage cf of Pct_Text text \<Rightarrow> cv_stod cv text = Some (False, True) | _ \<Rightarrow> True)"

lemma conf_bind_Conf: "conf_bind m f = Conf y \<longleftrightarrow> (\<exists>x. m = Conf x \<and> f x = Conf y)"
  by (cases m) auto

lemma int_arg_range: "int_arg text = Conf n \<Longrightarrow> is_int32 n"
  by (auto simp: int_arg_def stoi_def is_int32_def Let_def split: option.splits if_splits)

lemma config_env_ok: "config_env cv = Conf cf \<Longrightarrow> config_ok cv cf"
  by (auto simp: config_env_def config_ok_def config_new_def conf_bind_Conf is_int32_def Let_def split: if_splits
      dest!: int_arg_range [unfolded is_int32_def])

text \<open>Updates that do not touch what the type is about.\<close>

lemma config_ok_updates [simp]:
  "config_ok cv (cf\<lparr>cf_testnet := b\<rparr>) = config_ok cv cf" "config_ok cv (cf\<lparr>cf_validate_only := b\<rparr>) = config_ok cv cf"
  "config_ok cv (cf\<lparr>cf_daemonize := b\<rparr>) = config_ok cv cf" "config_ok cv (cf\<lparr>cf_hybrid_storage := b\<rparr>) = config_ok cv cf"
  "config_ok cv (cf\<lparr>cf_no_update_check := b\<rparr>) = config_ok cv cf" "config_ok cv (cf\<lparr>cf_apply_update := b\<rparr>) = config_ok cv cf"
  "config_ok cv (cf\<lparr>cf_rewards := b\<rparr>) = config_ok cv cf" "config_ok cv (cf\<lparr>cf_ws_enabled := b\<rparr>) = config_ok cv cf"
  "config_ok cv (cf\<lparr>cf_http_enabled := b\<rparr>) = config_ok cv cf" "config_ok cv (cf\<lparr>cf_ws_tls := b\<rparr>) = config_ok cv cf"
  "config_ok cv (cf\<lparr>cf_rpc_bind := v\<rparr>) = config_ok cv cf" "config_ok cv (cf\<lparr>cf_conf_file := v\<rparr>) = config_ok cv cf"
  "config_ok cv (cf\<lparr>cf_p2p_bind := v\<rparr>) = config_ok cv cf" "config_ok cv (cf\<lparr>cf_peers := vs\<rparr>) = config_ok cv cf"
  "config_ok cv (cf\<lparr>cf_ws_bind := v\<rparr>) = config_ok cv cf" "config_ok cv (cf\<lparr>cf_tls_cert := v\<rparr>) = config_ok cv cf"
  "config_ok cv (cf\<lparr>cf_tls_key := v\<rparr>) = config_ok cv cf" "config_ok cv (cf\<lparr>cf_wallet := v\<rparr>) = config_ok cv cf"
  "config_ok cv (cf\<lparr>cf_bucket := v\<rparr>) = config_ok cv cf" "config_ok cv (set_datadir v explicit cf) = config_ok cv cf"
  by (simp_all add: config_ok_def set_datadir_def Let_def)

text \<open>A chain of tests that give a result, taken apart one test at a time.\<close>

lemma if_Some_elim: "(if b then Some x else y) = Some z \<Longrightarrow> P x \<Longrightarrow> (y = Some z \<Longrightarrow> P z) \<Longrightarrow> P z"
  by (simp split: if_splits)

lemma plain_option_ok: "plain_option arg cf = Some cf' \<Longrightarrow> config_ok cv cf \<Longrightarrow> config_ok cv cf'"
  unfolding plain_option_def by ((erule if_Some_elim [where P = "config_ok cv"], simp)+, simp)

lemma set_percentage_ok: "set_percentage cv text cf = Conf cf' \<Longrightarrow> config_ok cv cf \<Longrightarrow> config_ok cv cf'"
  by (auto simp: set_percentage_def config_ok_def split: option.splits if_splits)

definition end_ok :: "conf_env \<Rightarrow> (config \<times> bool) conf_end \<Rightarrow> bool" where
  "end_ok cv r \<longleftrightarrow> (\<forall>c. r = Conf c \<longrightarrow> config_ok cv (fst c))"

lemma end_ok_simps [simp]: "end_ok cv (Conf (cf, b)) = config_ok cv cf"
  by (simp add: end_ok_def)

lemma num_ok:
  assumes "config_ok cv cf"
  shows "end_ok cv (conf_bind (int_arg v) (\<lambda>n. Conf (cf\<lparr>cf_rpc_port := n, cf_ws_port := n\<rparr>, b)))"
    "end_ok cv (conf_bind (int_arg v) (\<lambda>n. Conf (cf\<lparr>cf_p2p_port := n\<rparr>, b)))"
    "end_ok cv (conf_bind (int_arg v) (\<lambda>n. Conf (cf\<lparr>cf_max_peers := n\<rparr>, b)))"
    "end_ok cv (conf_bind (int_arg v) (\<lambda>n. Conf (cf\<lparr>cf_ws_port := n\<rparr>, b)))"
  using assms int_arg_range by (auto simp: end_ok_def conf_bind_Conf config_ok_def)

lemma percentage_ok: "config_ok cv cf \<Longrightarrow> end_ok cv (conf_bind (set_percentage cv v cf) (\<lambda>cf'. Conf (cf', b)))"
  using set_percentage_ok by (auto simp: end_ok_def conf_bind_Conf)

lemma value_option_ok: "value_option cv arg v (cf, explicit) = Some r \<Longrightarrow> config_ok cv cf \<Longrightarrow> end_ok cv r"
  unfolding value_option_def prod.case Let_def
  by ((erule if_Some_elim [where P = "end_ok cv"], simp add: num_ok percentage_ok)+, simp)

lemma load_args_ok: "load_args cv args c = Conf c' \<Longrightarrow> config_ok cv (fst c) \<Longrightarrow> config_ok cv (fst c')"
proof (induction cv args c rule: load_args.induct)
  case (2 cv arg rest c)
  have v: "value_option cv arg v c = Some (Conf x) \<Longrightarrow> config_ok cv (fst x)" for v x
    using value_option_ok [of cv arg v "fst c" "snd c" "Conf x"] "2.prems"(2) by (simp add: end_ok_def)
  show ?case
  proof (cases "plain_option arg (fst c)")
    case (Some cf)
    with 2 plain_option_ok [OF Some "2.prems"(2)] show ?thesis by simp
  next
    case None
    show ?thesis
    proof (cases rest)
      case Nil
      with 2 None v show ?thesis by (auto split: option.splits if_splits)
    next
      case (Cons w rest')
      with 2 None v show ?thesis by (auto simp: conf_bind_Conf split: option.splits if_splits)
    qed
  qed
qed simp

lemma load_config_run:
  assumes "load_config cv args = Conf cf"
  obtains cf0 cf1 explicit where "config_env cv = Conf cf0" "load_args cv args (cf0, False) = Conf (cf1, explicit)"
    "cf = (if cf_testnet cf1 then
      (set_datadir (default_datadir cv True) explicit cf1)\<lparr>cf_ws_bind := cf_rpc_bind cf1, cf_ws_port := cf_rpc_port cf1\<rparr> else cf1)"
  using assms by (auto simp: load_config_def conf_bind_Conf split: if_splits)


definition demo_conf :: conf_env where
  "demo_conf = \<lparr>cv_home = Some ''/root'', cv_testnet = False, cv_data_dir = None, cv_host = None, cv_port = None, cv_no_update = None,
     cv_stod = (\<lambda>_. Some (True, True))\<rparr>"


text \<open>A configuration for the test network keeps its data apart: its directory is the test network's own, never the main
  one, and the WebSocket listens where the RPC is bound. An explicit data directory, configuration file, WebSocket
  address or port is dropped without a word.\<close>

lemma testnet_apart:
  assumes "load_config cv args = Conf cf" "cf_testnet cf"
  shows "cf_datadir cf = default_datadir cv True" "cf_conf_file cf = path_join (default_datadir cv True) ''pisecured.conf''"
    "cf_ws_bind cf = cf_rpc_bind cf" "cf_ws_port cf = cf_rpc_port cf"
  using assms(2) by (rule_tac [!] load_config_run [OF assms(1)]) (auto simp: set_datadir_def Let_def split: if_splits)

lemma testnet_dir: "\<not> cv_testnet cv \<Longrightarrow> default_datadir cv True \<noteq> default_datadir cv False"
  by (simp add: default_datadir_def path_join_def Let_def)

end
