(* ===== verification/Http.thy ===== *)
theory Http
  imports Rpc Update_Text Frame
begin

text \<open>
  The JSON-RPC front of the daemon over HTTP (rpc.cpp): one read of a connection, the document after the
  blank line, the dispatch, and the text of the response. \<open>http_env\<close> adds to \<open>rpc_env\<close> the text of
  exceptions and the answers of the methods on peers, threats, purse and releases. The storage is always
  there: the daemon passes it before it starts the server.
\<close>

record http_env =
  ht_rpc :: rpc_env
  ht_other :: "string \<Rightarrow> json \<Rightarrow> called"

subsection \<open>Methods\<close>

text \<open>\<open>std::stoi(text, nullptr, 16)\<close> on two characters or fewer, cut to a byte.\<close>

definition stoi16 :: "string \<Rightarrow> u8 option" where
  "stoi16 text =
     (let s = dropWhile is_blank text;
          neg = (s \<noteq> [] \<and> s ! 0 = CHR ''-'');
          d = (if s \<noteq> [] \<and> (s ! 0 = CHR ''-'' \<or> s ! 0 = CHR ''+'') then drop 1 s else s);
          digits = takeWhile is_xdigit d;
          v = foldl (\<lambda>a c. 16 * a + of_int (nybble c)) 0 digits in
      if digits = [] then None else Some (if neg then - v else v))"

text \<open>The hash a parameter gives: \<open>substr(2 * i, 2)\<close> throws beyond the end of the text.\<close>

definition hash_param :: "string \<Rightarrow> h256 option" where
  "hash_param text =
     (let bytes = map (\<lambda>i. if 2 * i > length text then None else stoi16 (take 2 (drop (2 * i) text))) [0 ..< 32] in
      if None \<in> set bytes then None else Some (map the bytes))"

definition http_gettransaction :: "string \<Rightarrow> storage \<Rightarrow> json \<Rightarrow> called" where
  "http_gettransaction what st params =
     (if json_empty params then C_Throw ''Missing transaction hash parameter''
      else case (case params of JArray (p # _) \<Rightarrow> as_string p | _ \<Rightarrow> None) of
          None \<Rightarrow> C_Throw what
        | Some text \<Rightarrow>
            (case hash_param text of
               None \<Rightarrow> C_Throw what
             | Some h \<Rightarrow>
                 (case get_transaction st h of
                    None \<Rightarrow> C_Throw ''Transaction not found''
                  | Some tx \<Rightarrow>
                      C_Result (JObject [(''hash'', JString text), (''timestamp'', JUint (mt_timestamp tx)), (''fee'', JUint (mt_fee tx)),
                        (''size'', JUint (of_nat (length (mt_data tx))))]))))"

text \<open>Two methods that the dispatch does not name.\<close>

definition http_method_getblock :: "string \<Rightarrow> storage \<Rightarrow> json \<Rightarrow> called" where
  "http_method_getblock what st params =
     (if json_empty params then C_Throw ''Missing block hash parameter''
      else case (case params of JArray (p # _) \<Rightarrow> as_string p | _ \<Rightarrow> None) of
          None \<Rightarrow> C_Throw what
        | Some text \<Rightarrow>
            if length text \<noteq> 64 then C_Throw ''Invalid block hash length''
            else (case hash_param text of
                    None \<Rightarrow> C_Throw what
                  | Some h \<Rightarrow>
                      (case get_header_by_hash st h of
                         None \<Rightarrow> C_Throw ''Block not found''
                       | Some hdr \<Rightarrow>
                           C_Result (JObject [(''hash'', JString text), (''height'', JUint (ucast (bh_height hdr))),
                             (''version'', JUint (ucast (bh_version hdr))), (''timestamp'', JUint (bh_timestamp hdr)),
                             (''difficulty'', JUint (ucast (bh_difficulty hdr))), (''nonce'', JUint (bh_nonce hdr))]))))"

definition http_method_getheader :: "env \<Rightarrow> string \<Rightarrow> storage \<Rightarrow> json \<Rightarrow> called" where
  "http_method_getheader ev what st params =
     (if json_empty params then C_Throw ''Missing height parameter''
      else case (case params of JArray (p # _) \<Rightarrow> get_u32 ev p | _ \<Rightarrow> None) of
          None \<Rightarrow> C_Throw what
        | Some height \<Rightarrow>
            (case get_header_by_height st height of
               None \<Rightarrow> C_Throw ''Header not found''
             | Some hdr \<Rightarrow>
                 C_Result (JObject [(''height'', JUint (ucast (bh_height hdr))), (''timestamp'', JUint (bh_timestamp hdr)),
                   (''difficulty'', JUint (ucast (bh_difficulty hdr))), (''version'', JUint (ucast (bh_version hdr)))])))"

definition network_stats :: json where
  "network_stats = JObject [(''active_connections'', JUint 0), (''inbound_connections'', JUint 0), (''outbound_connections'', JUint 0),
     (''network_uptime_seconds'', JUint 0), (''bytes_received'', JUint 0), (''bytes_sent'', JUint 0), (''protocol_version'', JUint 1),
     (''testnet'', JBool False)]"

definition http_method :: "http_env \<Rightarrow> string \<Rightarrow> json \<Rightarrow> server \<Rightarrow> called \<times> server" where
  "http_method ht method params sv =
     (let rq = ht_rpc ht; ev = ne_ev (rq_net rq); nd = sv_node sv; st = nd_st nd;
          put = (\<lambda>nd'. sv\<lparr>sv_node := nd'\<rparr>);
          typed = (\<lambda>r. case r of None \<Rightarrow> (C_Throw (rq_what rq), sv)
                             | Some (sent, nd') \<Rightarrow> (C_Result (sent_json sent), put nd')) in
      if method = ''getblockcount'' then
        (C_Result (JObject [(''count'', JUint (ucast (st_best_height st))), (''timestamp'', JUint (ev_now ev))]), sv)
      else if method = ''getblock'' then
        (case rpc_getblock ev st params of Some doc \<Rightarrow> C_Result doc | None \<Rightarrow> C_Throw ''Block not found'', sv)
      else if method = ''getheader'' then
        (case rpc_getheader st params of Some doc \<Rightarrow> C_Result doc | None \<Rightarrow> C_Throw ''Header not found'', sv)
      else if method = ''listunspent'' then
        (case rpc_listunspent ev params nd of (doc, nd') \<Rightarrow> (C_Result doc, put nd'))
      else if method = ''namelookup'' then
        (case rpc_namelookup ev (rq_exists rq) params nd of (doc, nd') \<Rightarrow> (C_Result doc, put nd'))
      else if method = ''gettransaction'' then (http_gettransaction (rq_what rq) st params, sv)
      else if method = ''sendtransaction'' then
        (case rpc_sendtransaction ev params nd of (sent, nd') \<Rightarrow> (C_Result (sent_json sent), put nd'))
      else if method = ''createflag'' then typed (rpc_createflag ev params nd)
      else if method = ''claimflag'' then typed (rpc_claimflag ev params nd)
      else if method = ''listflags'' then (C_Result (rpc_listflags ev (nd_flags nd) params), sv)
      else if method = ''getmempool'' then (C_Result (rpc_getmempool ev st), sv)
      else if method = ''getnetworkstats'' then (C_Result network_stats, sv)
      else if method = ''submitblock'' then
        (case rpc_submitblock ev params True nd of
           (Sub_Thrown, nd') \<Rightarrow> (C_Throw (rq_what rq), put nd')
         | (Sub_Crashed, nd') \<Rightarrow> (C_Down, (put nd')\<lparr>sv_down := True\<rparr>)
         | (Sub_Rejected why, nd') \<Rightarrow> (C_Result (rejected why), put nd')
         | (Sub_Accepted digest height dup, nd') \<Rightarrow>
             (C_Result (submitted_json digest height dup), if dup then put nd' else gossip_stored digest (put nd')))
      else if method = ''getblockchaininfo'' then (C_Result (rpc_getblockchaininfo nd), sv)
      else if method = ''getblocktemplate'' then
        (case rpc_getblocktemplate ev (rq_rnd rq) params nd of
           (Tpl_Error why, nd') \<Rightarrow> (C_Throw (reason_text why), put nd')
         | (Tpl_Rejected why, nd') \<Rightarrow> (C_Result (rejected why), put nd')
         | (Tpl_Block doc, nd') \<Rightarrow> (C_Result doc, put nd'))
      else (ht_other ht method params, sv))"

subsection \<open>Requests and responses\<close>

text \<open>The id is left out when it is null.\<close>

definition http_frame :: "string \<Rightarrow> json \<Rightarrow> json \<Rightarrow> json" where
  "http_frame kind body i = JObject ([(''jsonrpc'', JString ''2.0''), (kind, body)] @ (if i = JNull then [] else [(''id'', i)]))"

definition http_answer :: "called \<Rightarrow> json \<Rightarrow> json option" where
  "http_answer r i =
     (case r of
        C_Result doc \<Rightarrow> Some (http_frame ''result'' doc i)
      | C_Throw what \<Rightarrow> Some (http_frame ''error'' (rpc_error (- 32603) (''Internal error: '' @ what)) i)
      | C_Unknown \<Rightarrow> Some (http_frame ''error'' (rpc_error (- 32601) ''Method not found'') i)
      | C_Down \<Rightarrow> None)"

text \<open>A document, no answer because the process is gone, or the exception for a method that is not a string.\<close>

datatype http_done = H_Doc json | H_Thrown | H_Down

definition http_request :: "http_env \<Rightarrow> json \<Rightarrow> server \<Rightarrow> http_done \<times> server" where
  "http_request ht req sv =
     (if jget req ''jsonrpc'' \<noteq> Some (JString ''2.0'') \<or> jget req ''method'' = None then
        (H_Doc (http_frame ''error'' (rpc_error (- 32600) ''Invalid Request'') JNull), sv)
      else case jstring req ''method'' of
          None \<Rightarrow> (H_Thrown, sv)
        | Some method \<Rightarrow>
            (case http_method ht method (case jget req ''params'' of Some p \<Rightarrow> p | None \<Rightarrow> JArray []) sv of
               (r, sv') \<Rightarrow>
                 (case http_answer r (case jget req ''id'' of Some v \<Rightarrow> v | None \<Rightarrow> JNull) of
                    None \<Rightarrow> (H_Down, sv')
                  | Some doc \<Rightarrow> (H_Doc doc, sv'))))"

definition crlf :: string where "crlf = [CHR 0x0D, CHR 0x0A]"

definition http_text :: "string \<Rightarrow> string \<Rightarrow> string" where
  "http_text status body =
     ''HTTP/1.1 '' @ status @ crlf @ ''Content-Type: application/json'' @ crlf @
     ''Content-Length: '' @ dec_string (length body) @ crlf @ crlf @ body"

definition kHttpRead :: nat where "kHttpRead = 4095"

text \<open>One connection: what one read of it gave, the answer if there is one. The request ends at a NUL.\<close>

definition http_serve :: "http_env \<Rightarrow> string \<Rightarrow> server \<Rightarrow> string option \<times> server" where
  "http_serve ht raw sv =
     (let ev = ne_ev (rq_net (ht_rpc ht));
          request = takeWhile (\<lambda>c. c \<noteq> CHR 0x00) (take kHttpRead raw);
          bad = http_text ''400 Bad Request'' (ev_dump ev (http_frame ''error'' (rpc_error (- 32700) ''Parse error'') JNull)) in
      if raw = [] then (None, sv)
      else case after_first (crlf @ crlf) request of
          None \<Rightarrow> (None, sv)
        | Some body \<Rightarrow>
            (case ev_parse ev body of
               None \<Rightarrow> (Some bad, sv)
             | Some req \<Rightarrow>
                 (case http_request ht req sv of
                    (H_Doc doc, sv') \<Rightarrow> (Some (http_text ''200 OK'' (ev_dump ev doc)), sv')
                  | (H_Thrown, sv') \<Rightarrow> (Some bad, sv')
                  | (H_Down, sv') \<Rightarrow> (None, sv'))))"

subsection \<open>Both fronts\<close>

definition shared_methods :: "string list" where
  "shared_methods = [''getblock'', ''getheader'', ''listunspent'', ''namelookup'', ''sendtransaction'', ''createflag'', ''claimflag'',
     ''listflags'', ''getmempool'', ''submitblock'', ''getblockchaininfo'', ''getblocktemplate'']"

lemma methods_agree:
  "method \<in> set shared_methods \<Longrightarrow>
   ws_method (ht_rpc ht) method params (wc, sv) = (case http_method ht method params sv of (r, sv') \<Rightarrow> (r, wc, sv'))"
  by (auto simp: shared_methods_def ws_method_def http_method_def chain_method_def Let_def split: prod.splits submitted.splits option.splits)


definition demo_request :: json where
  "demo_request = JObject [(''jsonrpc'', JString ''2.0''), (''method'', JString ''getmempool''), (''id'', JUint 1)]"

definition demo_http :: http_env where
  "demo_http = \<lparr>ht_rpc = \<lparr>rq_net = demo_net, rq_rnd = None, rq_exists = (\<lambda>_. True), rq_what = [], rq_peers = 0,
     rq_other = (\<lambda>_ _. C_Unknown), rq_bucket = None\<rparr>, ht_other = (\<lambda>_ _. C_Unknown)\<rparr>"


text \<open>A request of which a single read gets at most 4095 bytes is judged by those: the rest of a longer one is not
  read.\<close>

lemma http_reads_once: "take kHttpRead raw = take kHttpRead raw' \<Longrightarrow> http_serve ht raw sv = http_serve ht raw' sv"
  by (cases "raw = [] \<or> raw' = []") (auto simp: http_serve_def kHttpRead_def)

end
