(* ===== verification/Ws_Client.thy ===== *)
theory Ws_Client
  imports Wallet_Send
begin

text \<open>
  The client class for miners and wallets (ws_client.cpp): the request, what it makes of the response,
  and its queries. \<open>ws_exchange\<close> is one message sent and the text that came back within five seconds,
  parsed; \<open>None\<close> when there is none. An exception that leaves the class is the outer \<open>None\<close> of a query.
\<close>

record ws_exchange =
  wx_send :: "json \<Rightarrow> json option"
  wx_dump :: "json \<Rightarrow> string"
  wx_float :: "string \<Rightarrow> u64"

definition create_request :: "u64 \<Rightarrow> string \<Rightarrow> json \<Rightarrow> json" where
  "create_request n method params =
     JObject ([(''jsonrpc'', JString ''2.0''), (''method'', JString method), (''id'', JUint n)] @
       (if json_empty params then [] else [(''params'', params)]))"

definition read_response :: "json \<Rightarrow> json option" where
  "read_response response =
     (if jget response ''error'' \<noteq> None then None
      else case jget response ''result'' of Some r \<Rightarrow> Some r | None \<Rightarrow> Some response)"

definition client_call :: "ws_exchange \<Rightarrow> u64 \<Rightarrow> string \<Rightarrow> json \<Rightarrow> json option" where
  "client_call wx n method params =
     (case wx_send wx (create_request n method params) of None \<Rightarrow> None | Some response \<Rightarrow> read_response response)"

subsection \<open>Queries\<close>

definition get_block_count :: "ws_exchange \<Rightarrow> u64 \<Rightarrow> u32 option option" where
  "get_block_count wx n =
     (case client_call wx n ''getblockcount'' (JArray []) of
        None \<Rightarrow> Some None
      | Some r \<Rightarrow>
          (case jget r ''count'' of
             None \<Rightarrow> Some None
           | Some v \<Rightarrow> map_option Some (as_number32 (wx_float wx) v)))"

definition get_block :: "ws_exchange \<Rightarrow> u64 \<Rightarrow> string \<Rightarrow> json option" where
  "get_block wx n hash_or_height = client_call wx n ''getblock'' (JArray [JString hash_or_height])"

definition get_block_header :: "ws_exchange \<Rightarrow> u64 \<Rightarrow> u32 \<Rightarrow> json option" where
  "get_block_header wx n height = client_call wx n ''getheader'' (JArray [JUint (ucast height)])"

definition get_network_stats :: "ws_exchange \<Rightarrow> u64 \<Rightarrow> json option" where
  "get_network_stats wx n = client_call wx n ''getnetworkstats'' (JArray [])"

definition get_mempool :: "ws_exchange \<Rightarrow> u64 \<Rightarrow> u64 \<Rightarrow> json option" where
  "get_mempool wx n limit = client_call wx n ''getmempool'' (JArray [JUint limit])"

definition submit_transaction :: "ws_exchange \<Rightarrow> u64 \<Rightarrow> json \<Rightarrow> string option option" where
  "submit_transaction wx n tx =
     (case client_call wx n ''sendtransaction'' (JArray [JString (wx_dump wx tx)]) of
        None \<Rightarrow> Some None
      | Some r \<Rightarrow>
          (case jget r ''hash'' of
             None \<Rightarrow> Some None
           | Some v \<Rightarrow> map_option Some (as_string v)))"

definition client_get_transaction :: "ws_exchange \<Rightarrow> u64 \<Rightarrow> string \<Rightarrow> json option" where
  "client_get_transaction wx n tx_hash = client_call wx n ''gettransaction'' (JArray [JString tx_hash])"

definition get_block_template :: "ws_exchange \<Rightarrow> u64 \<Rightarrow> json option" where
  "get_block_template wx n = client_call wx n ''getblocktemplate'' (JArray [])"

definition submit_block :: "ws_exchange \<Rightarrow> u64 \<Rightarrow> u32 \<Rightarrow> string \<Rightarrow> json \<Rightarrow> bool" where
  "submit_block wx n nonce hash block =
     (client_call wx n ''submitblock'' (JArray [JUint (ucast nonce), JString hash, block]) \<noteq> None)"

definition get_bucket_status :: "ws_exchange \<Rightarrow> u64 \<Rightarrow> json option" where
  "get_bucket_status wx n = client_call wx n ''getbucketstatus'' (JArray [])"

definition get_validator_stats :: "ws_exchange \<Rightarrow> u64 \<Rightarrow> json option" where
  "get_validator_stats wx n = client_call wx n ''getvalidatorstats'' (JArray [])"

definition client_subscribe :: "ws_exchange \<Rightarrow> u64 \<Rightarrow> string \<Rightarrow> json option" where
  "client_subscribe wx n channel = client_call wx n ''subscribe'' (JArray [JString channel])"

definition client_unsubscribe :: "ws_exchange \<Rightarrow> u64 \<Rightarrow> string \<Rightarrow> json option" where
  "client_unsubscribe wx n channel = client_call wx n ''unsubscribe'' (JArray [JString channel])"

subsection \<open>With the daemon\<close>

definition with_daemon :: "rpc_env \<Rightarrow> ws_conn \<times> server \<Rightarrow> ws_exchange \<Rightarrow> bool" where
  "with_daemon rq c wx \<longleftrightarrow> (\<forall>req. wx_send wx req = fst (handle_request rq req c))"

lemma client_answer:
  assumes "with_daemon rq (wc, sv) wx" "\<not> json_empty params"
  shows "client_call wx n method params =
    (case fst (ws_method rq method params (wc, sv)) of C_Result doc \<Rightarrow> Some doc | _ \<Rightarrow> None)"
proof -
  have "jget (create_request n method params) ''params'' = Some params" "jget (create_request n method params) ''jsonrpc'' = Some (JString ''2.0'')"
    "value_string (create_request n method params) ''method'' [] = Some method"
    using assms(2) by (simp_all add: create_request_def value_string_def)
  then have "wx_send wx (create_request n method params) =
      ws_answer (fst (ws_method rq method params (wc, sv))) (case jget (create_request n method params) ''id'' of Some v \<Rightarrow> v | None \<Rightarrow> JNull)"
    using assms(1) by (simp add: with_daemon_def handle_request_def split: prod.splits)
  then show ?thesis
    by (simp add: client_call_def ws_answer_def read_response_def ws_frame_def split: called.splits)
qed

text \<open>\<open>submit_transaction\<close> looks for a member \<open>hash\<close>, and the daemon answers with \<open>txid\<close>: it never gives the id of a
  transaction, accepted or not.\<close>

lemma submit_reports_nothing:
  assumes "with_daemon rq (wc, sv) wx"
  shows "submit_transaction wx n tx = Some None"
proof -
  have "\<not> json_empty (JArray [JString (wx_dump wx tx)])" by (simp add: json_empty_def)
  moreover have "jget (sent_json r) ''hash'' = None" for r by (simp add: sent_json_def rejected_def split: sum.splits)
  ultimately show ?thesis using client_answer [OF assms]
    by (auto simp: submit_transaction_def ws_method_def chain_method_def Let_def split: prod.splits)
qed

text \<open>\<open>submit_block\<close> takes any answer for a success: a block that is rejected counts as submitted.\<close>

lemma submit_block_blind:
  assumes "with_daemon rq (wc, sv) wx"
    "rpc_submitblock (ne_ev (rq_net rq)) (JArray [JUint (ucast nonce), JString hash, block]) True (sv_node sv) = (Sub_Rejected why, nd')"
  shows "submit_block wx n nonce hash block"
proof -
  have "\<not> json_empty (JArray [JUint (ucast nonce), JString hash, block])" by (simp add: json_empty_def)
  with assms(2) show ?thesis using client_answer [OF assms(1)]
    by (auto simp: submit_block_def ws_method_def chain_method_def Let_def split: prod.splits)
qed

end
