(* ===== verification/Wallet_Keys.thy ===== *)
theory Wallet_Keys
  imports Wallet_Cmd Update
begin

text \<open>
  The wallet's key files (pswallet/src/main.cpp): the passphrase, sealing a seed, writing a wallet file,
  \<open>create\<close> and \<open>encrypt\<close>, the list of wallets and the default one. \<open>wbox\<close> adds to \<open>wenv\<close> what these take
  from outside: the random bytes, OpenSSL's key generation and encryption (scrypt and ChaCha20-Poly1305 together),
  the hash of a public key, where the passphrase comes from, the listing of the wallets' directory, the
  default wallet's file, and which files \<open>sudo install\<close> can write.
\<close>

record wbox =
  wb_rand :: "nat \<Rightarrow> bytes option"
  wb_keygen :: "(bytes \<times> bytes) option"
  wb_seal :: "string \<Rightarrow> bytes \<Rightarrow> bytes \<Rightarrow> string \<Rightarrow> bytes \<Rightarrow> bytes option"
  wb_sha :: "bytes \<Rightarrow> h256"
  wb_dump2 :: "json \<Rightarrow> string"
  wb_writes :: "string \<Rightarrow> bool"
  wb_dir :: string
  wb_flag_pass :: "string option"
  wb_env_pass :: "string option"
  wb_prompt :: "string option"
  wb_listing :: "string option"
  wb_default :: "string option"

subsection \<open>Passphrases and sealing\<close>

text \<open>\<open>wb_prompt\<close> is the line typed, \<open>None\<close> without a terminal or at the end of the input.\<close>

definition prompt_passphrase :: "wbox \<Rightarrow> string wres" where
  "prompt_passphrase b =
     (case wb_prompt b of None \<Rightarrow> fail ''passphrase required'' | Some line \<Rightarrow> if line = [] then fail ''passphrase required'' else Inr line)"

definition passphrase_for :: "wbox \<Rightarrow> bool \<Rightarrow> string wres" where
  "passphrase_for b required =
     (case wb_flag_pass b of
        Some v \<Rightarrow> if v = [] then fail ''passphrase required'' else Inr v
      | None \<Rightarrow>
          (case wb_env_pass b of
             Some v \<Rightarrow> if v \<noteq> [] then Inr v else if \<not> required then Inr [] else prompt_passphrase b
           | None \<Rightarrow> if \<not> required then Inr [] else prompt_passphrase b))"

definition seal_seed :: "wbox \<Rightarrow> string \<Rightarrow> string \<Rightarrow> bytes \<Rightarrow> json wres" where
  "seal_seed b pass public_hex seed =
     (if length seed \<noteq> 32 then fail ''spending key is not ed25519''
      else case (wb_rand b 16, wb_rand b 12) of
          (Some salt, Some nonce) \<Rightarrow>
            (case wb_seal b pass salt nonce public_hex seed of
               None \<Rightarrow> fail ''could not encrypt spending key''
             | Some packed \<Rightarrow>
                 Inr (JObject [(''kdf'', JString ''scrypt''), (''kdf_n'', JUint kScryptN), (''kdf_r'', JUint kScryptR),
                   (''kdf_p'', JUint kScryptP), (''cipher'', JString ''chacha20poly1305''), (''salt'', JString (to_hex salt)),
                   (''nonce'', JString (to_hex nonce)), (''ciphertext'', JString (to_hex packed))]))
        | _ \<Rightarrow> fail ''could not encrypt spending key'')"

subsection \<open>Writing\<close>

definition wallet_path :: "wbox \<Rightarrow> string \<Rightarrow> string" where
  "wallet_path b address = wb_dir b @ ''/wallets/'' @ address @ ''.json''"

text \<open>What is written to a file, and the file's mode.\<close>

definition write_wallet_doc :: "wbox \<Rightarrow> string \<Rightarrow> json \<Rightarrow> (string \<times> json) wres" where
  "write_wallet_doc b path doc =
     (if jget doc ''secret_key'' \<noteq> None then fail ''refusing to write plaintext secret_key''
      else if \<not> wb_writes b path then fail (''could not write '' @ path)
      else Inr (path, doc))"

definition ps1_of_pubkey :: "wbox \<Rightarrow> bytes \<Rightarrow> string" where
  "ps1_of_pubkey b pub = ''ps1'' @ to_hex (wb_sha b pub)"

text \<open>The commands that write a wallet file: what they print, and the file with its document.\<close>

definition cmd_create :: "wbox \<Rightarrow> (string list \<times> string \<times> json) wres" where
  "cmd_create b =
     (case wb_keygen b of
        None \<Rightarrow> fail ''could not create an ed25519 key''
      | Some (seed, pub) \<Rightarrow>
          if length seed \<noteq> 32 \<or> length pub \<noteq> 32 then fail ''could not create an ed25519 key''
          else
            let address = ps1_of_pubkey b pub; public_hex = to_hex pub in
            wbind (passphrase_for b True) (\<lambda>pass.
            wbind (seal_seed b pass public_hex seed) (\<lambda>enc.
            wbind (write_wallet_doc b (wallet_path b address)
                     (JObject [(''address'', JString address), (''scheme'', JString ''ed25519''), (''public_key'', JString public_hex),
                        (''secret_key_enc'', enc)])) (\<lambda>written.
              Inr ([address, wallet_path b address], written)))))"

definition encrypt_doc :: "wbox \<Rightarrow> json \<Rightarrow> string \<Rightarrow> json wres" where
  "encrypt_doc b doc secret =
     wbind (passphrase_for b True) (\<lambda>pass.
       case decode_hex secret [] of (good, seed) \<Rightarrow>
         if \<not> good \<or> length seed \<noteq> 32 then fail ''spending key is not ed25519''
         else wbind (seal_seed b pass (or_empty (jstring doc ''public_key'')) seed) (\<lambda>enc.
           Inr (jset (jdel doc ''secret_key'') ''secret_key_enc'' enc)))"

definition cmd_encrypt :: "wenv \<Rightarrow> wbox \<Rightarrow> string \<Rightarrow> (string list \<times> (string \<times> json) option) wres" where
  "cmd_encrypt w b who =
     wbind (some_address w who) (\<lambda>address.
     wbind (read_wallet_doc w address) (\<lambda>doc.
       case jstring doc ''secret_key'' of
         None \<Rightarrow> if jget doc ''secret_key_enc'' \<noteq> None then Inr ([''already encrypted''], None)
                 else fail (''no spending key for '' @ address)
       | Some secret \<Rightarrow>
           wbind (encrypt_doc b doc secret) (\<lambda>doc'.
           wbind (write_wallet_doc b (wallet_path b address) doc') (\<lambda>written.
             Inr ([wallet_path b address], Some written)))))"

subsection \<open>The wallets there are\<close>

definition json_stem :: "nat \<Rightarrow> string \<Rightarrow> string option" where
  "json_stem shortest name =
     (if length name < shortest \<or> drop (length name - 5) name \<noteq> ''.json'' then None else Some (take (length name - 5) name))"

definition wallet_stems :: "string \<Rightarrow> string list" where
  "wallet_stems listing = List.map_filter (\<lambda>l. json_stem 6 (strip_end line_end l)) (fgets_all 511 listing)"

definition default_address :: "wbox \<Rightarrow> string" where
  "default_address b = (case wb_default b of None \<Rightarrow> [] | Some raw \<Rightarrow> strip_end (CHR '' '' # line_end) raw)"

definition cmd_list :: "wbox \<Rightarrow> outcome" where
  "cmd_list b =
     (let marked = default_address b in
      case wb_listing b of
        None \<Rightarrow> W_Err (Some (''cannot list '' @ wb_dir b @ ''/wallets''))
      | Some listing \<Rightarrow>
          W_Out (map (\<lambda>stem. if marked \<noteq> [] \<and> stem = marked then stem @ '' default'' else stem) (wallet_stems listing)))"

definition cmd_default :: "wbox \<Rightarrow> outcome" where
  "cmd_default b =
     (case wb_default b of
        None \<Rightarrow> W_Err (Some ''no default wallet'')
      | Some raw \<Rightarrow>
          let t = strip_end (CHR '' '' # line_end) raw in
          if contains_text t ''secret'' then W_Err (Some ''default wallet is not a name'') else W_Out [t])"

fun find_wallet :: "wenv \<Rightarrow> string \<Rightarrow> string list \<Rightarrow> string wres" where
  "find_wallet w pubkey [] = Inr []"
| "find_wallet w pubkey (stem # stems) =
     (case read_wallet_doc w stem of
        Inl None \<Rightarrow> Inl None
      | Inl (Some _) \<Rightarrow> find_wallet w pubkey stems
      | Inr doc \<Rightarrow> if lower_hex (or_empty (jstring doc ''public_key'')) = pubkey then Inr stem else find_wallet w pubkey stems)"

definition wallet_with_pubkey :: "wenv \<Rightarrow> wbox \<Rightarrow> string \<Rightarrow> string wres" where
  "wallet_with_pubkey w b pubkey =
     (case wb_listing b of None \<Rightarrow> Inr [] | Some listing \<Rightarrow> find_wallet w pubkey (wallet_stems listing))"

end
