(* ===== verification/Wallet_Vault.thy ===== *)
theory Wallet_Vault
  imports Wallet_Keys Wallet_Safe
begin

text \<open>
  Keys at rest: what \<open>create\<close> and \<open>encrypt\<close> write can be opened again with the passphrase and gives the
  same key, and no file they write holds a plaintext seed.
\<close>

text \<open>What is relied on: the random generator gives as many bytes as asked, and ChaCha20-Poly1305 under the key that
  scrypt makes of the passphrase decrypts what it encrypted, to 32 bytes and a tag of 16.\<close>

definition crypto_ok :: "wenv \<Rightarrow> wbox \<Rightarrow> bool" where
  "crypto_ok w b \<longleftrightarrow>
     (\<forall>n r. wb_rand b n = Some r \<longrightarrow> length r = n) \<and>
     (\<forall>pass salt nonce pub seed packed. wb_seal b pass salt nonce pub seed = Some packed \<longrightarrow>
        length packed = 48 \<and> we_unseal w pass salt (kScryptN, kScryptR, kScryptP) nonce pub packed = Some seed)"

lemma seal_opens:
  assumes "crypto_ok w b" "seal_seed b pass pub seed = Inr enc"
  shows "open_seed w pass pub enc = Inr (to_hex seed)"
proof -
  obtain salt nonce packed where r: "wb_rand b 16 = Some salt" "wb_rand b 12 = Some nonce" "wb_seal b pass salt nonce pub seed = Some packed"
    and enc: "enc = JObject [(''kdf'', JString ''scrypt''), (''kdf_n'', JUint kScryptN), (''kdf_r'', JUint kScryptR),
       (''kdf_p'', JUint kScryptP), (''cipher'', JString ''chacha20poly1305''), (''salt'', JString (to_hex salt)),
       (''nonce'', JString (to_hex nonce)), (''ciphertext'', JString (to_hex packed))]"
    using assms(2) by (auto simp: seal_seed_def split: if_splits option.splits)
  have "length salt = 16" "length nonce = 12" "length packed = 48"
    "we_unseal w pass salt (kScryptN, kScryptR, kScryptP) nonce pub packed = Some seed"
    using assms(1) r unfolding crypto_ok_def by blast+
  then show ?thesis by (simp add: enc open_seed_def hex_member_def jvalue_def as_number_def)
qed

lemma jget_jdel: "jget (jdel j k) k' = (if k' = k then None else jget j k')"
  by (cases j) (auto simp: delete_conv')

lemma is_object_jdel [simp]: "is_object (jdel j k) = is_object j"
  by (cases j) auto

text \<open>The wallet after a file was written: \<open>raw\<close> is its text, and reads back as the document.\<close>

definition after_write :: "wenv \<Rightarrow> string \<Rightarrow> string \<Rightarrow> json \<Rightarrow> string \<Rightarrow> wenv" where
  "after_write w address raw doc pass =
     w\<lparr>we_file := (we_file w)(address \<mapsto> raw), we_parse := (we_parse w)(raw \<mapsto> doc), we_pass := Some pass\<rparr>"

lemma after_write_crypto: "crypto_ok (after_write w address raw doc pass) b = crypto_ok w b"
  by (simp add: crypto_ok_def after_write_def)

lemma open_after: "open_seed (after_write w address raw doc pass) = open_seed w"
proof -
  have "we_float (after_write w address raw doc pass) = we_float w" "we_unseal (after_write w address raw doc pass) = we_unseal w"
    by (simp_all add: after_write_def)
  then show ?thesis unfolding open_seed_def by (simp only:)
qed

lemma load_written:
  assumes "is_object doc" "jget doc ''scheme'' = Some (JString ''ed25519'')" "jstring doc ''public_key'' = Some pub"
    "jget doc ''secret_key_enc'' = Some enc" "open_seed w pass pub enc = Inr secret"
  shows "load_key (after_write w address raw doc pass) address = Inr \<lparr>wk_address = address, wk_public_hex = pub, wk_secret_hex = secret\<rparr>"
proof -
  have "read_wallet_doc (after_write w address raw doc pass) address = Inr doc"
    using assms(1-3) by (simp add: read_wallet_doc_def after_write_def jvalue_def)
  then show ?thesis using assms(3-5) by (simp add: load_key_def or_empty_def open_after [symmetric, of w address raw doc pass])
    (simp add: after_write_def)
qed

text \<open>C30: Encrypting a wallet keeps its key and leaves no plaintext. When \<open>encrypt\<close> writes a file for a wallet whose seed
  was in the clear, the file has no \<open>secret_key\<close>; and the wallet read from it, with the passphrase that was given, loads a
  key with the same address, the same public key and the same seed as before.\<close>

theorem encrypt_keeps_key:
  assumes "cmd_encrypt w b who = Inr (lines, Some (path, doc'))" "some_address w who = Inr address" "crypto_ok w b"
    "read_wallet_doc w address = Inr doc" "jget doc ''secret_key_enc'' = None" "load_key w address = Inr key"
    "passphrase_for b True = Inr pass"
  shows "jget doc' ''secret_key'' = None \<and>
    (\<exists>key'. load_key (after_write w address raw doc' pass) address = Inr key' \<and> wk_address key' = wk_address key \<and>
       wk_public_hex key' = wk_public_hex key \<and>
       decode_hex (wk_secret_hex key') [] = decode_hex (wk_secret_hex key) [])"
proof -
  obtain secret seed enc where s: "jstring doc ''secret_key'' = Some secret" "decode_hex secret [] = (True, seed)"
    and seal: "seal_seed b pass (or_empty (jstring doc ''public_key'')) seed = Inr enc"
    and doc': "doc' = jset (jdel doc ''secret_key'') ''secret_key_enc'' enc" and plain: "jget doc' ''secret_key'' = None"
    using assms(1,2,4,7)
    by (auto simp: cmd_encrypt_def encrypt_doc_def write_wallet_doc_def split: option.splits if_splits prod.splits)
  have d: "is_object doc" "jvalue as_string doc ''scheme'' [] = Inr ''ed25519''" "\<exists>pub. jstring doc ''public_key'' = Some pub"
    using assms(4) by (auto simp: read_wallet_doc_def split: option.splits if_splits)
  then obtain pub where pub: "jstring doc ''public_key'' = Some pub" by blast
  have "jget doc ''scheme'' = Some (JString ''ed25519'')"
    using d(1,2) by (auto simp: jvalue_def split: option.splits if_splits elim!: as_string.elims)
  moreover have "jstring doc' ''public_key'' = Some pub" using pub d(1) by (simp add: doc' jstring_def jget_jdel)
  ultimately have l: "load_key (after_write w address raw doc' pass) address =
      Inr \<lparr>wk_address = address, wk_public_hex = pub, wk_secret_hex = to_hex seed\<rparr>"
    using seal_opens [OF assms(3) seal] d(1) pub by (intro load_written) (simp_all add: doc' jget_jdel or_empty_def)
  have "key = \<lparr>wk_address = address, wk_public_hex = pub, wk_secret_hex = secret\<rparr>"
    using assms(4-6) s(1) pub by (simp add: load_key_def or_empty_def)
  with l plain s(2) show ?thesis by simp
qed

definition demo_box :: wbox where
  "demo_box = \<lparr>wb_rand = (\<lambda>n. Some (replicate n 0)), wb_keygen = None,
     wb_seal = (\<lambda>_ _ _ _ seed. if length seed = 32 then Some (seed @ replicate 16 0) else None), wb_sha = (\<lambda>_. replicate 32 0),
     wb_dump2 = (\<lambda>_. []), wb_writes = (\<lambda>_. True), wb_dir = ''d'', wb_flag_pass = Some ''p'', wb_env_pass = None, wb_prompt = None,
     wb_listing = None, wb_default = None\<rparr>"

definition demo_vault :: wenv where
  "demo_vault = pay_wallet\<lparr>we_unseal := (\<lambda>_ _ _ _ _ packed. Some (take 32 packed))\<rparr>"

lemma demo_vault_ok: "crypto_ok demo_vault demo_box"
  by (auto simp: crypto_ok_def demo_vault_def demo_box_def)

lemma demo_vault_doc: "\<exists>doc. read_wallet_doc demo_vault (demo_addr CHR ''a'') = Inr doc \<and> jget doc ''secret_key_enc'' = None \<and>
   jstring doc ''secret_key'' = Some (to_hex pay_key) \<and> jstring doc ''public_key'' = Some (to_hex pay_key) \<and> is_object doc \<and>
   load_key demo_vault (demo_addr CHR ''a'') =
     Inr \<lparr>wk_address = demo_addr CHR ''a'', wk_public_hex = to_hex pay_key, wk_secret_hex = to_hex pay_key\<rparr>"
  by (simp add: load_key_def read_wallet_doc_def demo_vault_def pay_wallet_def jvalue_def jstring_def or_empty_def Let_def)

lemma encrypt_keeps_key_witness:
  "\<exists>path doc'. cmd_encrypt demo_vault demo_box (demo_addr CHR ''a'') = Inr ([path], Some (path, doc')) \<and> jget doc' ''secret_key'' = None"
proof -
  obtain doc where d: "read_wallet_doc demo_vault (demo_addr CHR ''a'') = Inr doc" "jget doc ''secret_key_enc'' = None"
    "jstring doc ''secret_key'' = Some (to_hex pay_key)" "jstring doc ''public_key'' = Some (to_hex pay_key)" "is_object doc"
    "load_key demo_vault (demo_addr CHR ''a'') =
      Inr \<lparr>wk_address = demo_addr CHR ''a'', wk_public_hex = to_hex pay_key, wk_secret_hex = to_hex pay_key\<rparr>"
    using demo_vault_doc by blast
  let ?p = "wallet_path demo_box (demo_addr CHR ''a'')"
  have p: "passphrase_for demo_box True = Inr ''p''" by (simp add: passphrase_for_def demo_box_def)
  have k: "length pay_key = 32" by (simp add: pay_key_def)
  then obtain enc where s: "seal_seed demo_box ''p'' (to_hex pay_key) pay_key = Inr enc"
    by (simp add: seal_seed_def demo_box_def)
  then have n: "encrypt_doc demo_box doc (to_hex pay_key) = Inr (jset (jdel doc ''secret_key'') ''secret_key_enc'' enc)"
    using d p k by (simp add: encrypt_doc_def or_empty_def)
  have wr: "wb_writes demo_box path" for path by (simp add: demo_box_def)
  then have "write_wallet_doc demo_box ?p (jset (jdel doc ''secret_key'') ''secret_key_enc'' enc) =
      Inr (?p, jset (jdel doc ''secret_key'') ''secret_key_enc'' enc)"
    using d(5) by (simp add: write_wallet_doc_def jget_jdel)
  then have e: "cmd_encrypt demo_vault demo_box (demo_addr CHR ''a'') =
      Inr ([?p], Some (?p, jset (jdel doc ''secret_key'') ''secret_key_enc'' enc))"
    using d(1,3) n by (simp add: cmd_encrypt_def resolve_long [OF pay_long])
  from encrypt_keeps_key [OF e resolve_long [OF pay_long] demo_vault_ok d(1,2,6) p] e show ?thesis by blast
qed

text \<open>A wallet that \<open>create\<close> writes loads with the same passphrase: its key is the new one, and its address is the hash of
  the public key.\<close>

lemma created_loads:
  assumes "cmd_create b = Inr (lines, path, doc)" "wb_keygen b = Some (seed, pub)" "passphrase_for b True = Inr pass" "crypto_ok w b"
  shows "load_key (after_write w (ps1_of_pubkey b pub) raw doc pass) (ps1_of_pubkey b pub) =
      Inr \<lparr>wk_address = ps1_of_pubkey b pub, wk_public_hex = to_hex pub, wk_secret_hex = to_hex seed\<rparr> \<and>
    jget doc ''secret_key'' = None"
proof -
  obtain enc where seal: "seal_seed b pass (to_hex pub) seed = Inr enc"
    and doc: "doc = JObject [(''address'', JString (ps1_of_pubkey b pub)), (''scheme'', JString ''ed25519''),
       (''public_key'', JString (to_hex pub)), (''secret_key_enc'', enc)]"
    using assms(1-3) by (auto simp: cmd_create_def write_wallet_doc_def Let_def split: if_splits)
  show ?thesis using seal_opens [OF assms(4) seal]
    by (intro conjI load_written) (simp_all add: doc jstring_def)
qed

end
