(* ===== verification/Wallet_Wire.thy ===== *)
theory Wallet_Wire
  imports Wallet_Send Http Config
begin

text \<open>
  How the wallet talks to the daemon (\<open>ws_call\<close> in pswallet/src/main.cpp): the address, the WebSocket
  handshake, the masked request frame, and the reader that cuts the server's frames from what \<open>recv\<close>
  gives. \<open>ws_io\<close> is what one call meets: the environment, the socket's outcomes, the random bytes, the
  pieces in which the server's bytes arrive (an empty piece, or none left, is a read that fails), and
  the text of an exception.
\<close>

record ws_io =
  wi_flag_host :: string
  wi_flag_port :: int
  wi_env_host :: "string option"
  wi_env_port :: "string option"
  wi_socket :: bool
  wi_resolves :: "string \<Rightarrow> bool"
  wi_connects :: bool
  wi_key :: "bytes option"
  wi_mask :: bytes
  wi_greets :: bool
  wi_sends :: bool
  wi_chunks :: "bytes list"
  wi_parse :: "string \<Rightarrow> json option"
  wi_dump :: "json \<Rightarrow> string"
  wi_what :: string

subsection \<open>Where the daemon is\<close>

definition ws_host :: "ws_io \<Rightarrow> string" where
  "ws_host io =
     (if wi_flag_host io \<noteq> [] then wi_flag_host io
      else let host = (case wi_env_host io of None \<Rightarrow> ''127.0.0.1'' | Some h \<Rightarrow> if h = [] then ''127.0.0.1'' else h) in
           if host = ''0.0.0.0'' \<or> host = ''::'' then ''127.0.0.1'' else host)"

definition ws_port :: "ws_io \<Rightarrow> int" where
  "ws_port io =
     (if wi_flag_port io > 0 then wi_flag_port io
      else case wi_env_port io of None \<Rightarrow> 3144 | Some p \<Rightarrow> if p = [] then 3144 else atoi_text p)"

definition int_text :: "int \<Rightarrow> string" where
  "int_text n = (if n < 0 then CHR ''-'' # dec_string (nat (- n)) else dec_string (nat n))"

subsection \<open>Sending\<close>

definition b64_table :: string where
  "b64_table = ''ABCDEFGHIJKLMNOPQRSTUVWXYZabcdefghijklmnopqrstuvwxyz0123456789+/''"

definition b64_char :: "u32 \<Rightarrow> nat \<Rightarrow> char" where
  "b64_char n shift = b64_table ! unat (drop_bit shift n AND 63)"

fun b64 :: "bytes \<Rightarrow> string" where
  "b64 [] = []"
| "b64 [a] = (let n = push_bit 16 (ucast a) in [b64_char n 18, b64_char n 12, CHR ''='', CHR ''=''])"
| "b64 [a, b] =
     (let n = push_bit 16 (ucast a) OR push_bit 8 (ucast b) in [b64_char n 18, b64_char n 12, b64_char n 6, CHR ''=''])"
| "b64 (a # b # c # data) =
     (let n = push_bit 16 (ucast a) OR push_bit 8 (ucast b) OR ucast c in
      [b64_char n 18, b64_char n 12, b64_char n 6, b64_char n 0] @ b64 data)"

definition greeting :: "string \<Rightarrow> int \<Rightarrow> bytes \<Rightarrow> string" where
  "greeting host port key =
     ''GET / HTTP/1.1'' @ crlf @ ''Host: '' @ host @ '':'' @ int_text port @ crlf @ ''Upgrade: websocket'' @ crlf @
     ''Connection: Upgrade'' @ crlf @ ''Sec-WebSocket-Key: '' @ b64 key @ crlf @ ''Sec-WebSocket-Version: 13'' @ crlf @ crlf"

text \<open>The length in the frame's header, with \<open>flag\<close> the bit of a masked frame.\<close>

definition be_bytes :: "nat \<Rightarrow> u64 \<Rightarrow> bytes" where
  "be_bytes k n = map (\<lambda>i. ucast (drop_bit (8 * i) n AND 0xff)) (rev [0 ..< k])"

definition length_bytes :: "u8 \<Rightarrow> nat \<Rightarrow> bytes" where
  "length_bytes flag n =
     (if n < 126 then [flag OR of_nat n]
      else if n \<le> 0xffff then (flag OR 126) # be_bytes 2 (of_nat n)
      else (flag OR 127) # be_bytes 8 (of_nat n))"

definition mask_bytes :: "bytes \<Rightarrow> bytes \<Rightarrow> bytes" where
  "mask_bytes four payload = map (\<lambda>i. payload ! i XOR four ! (i mod 4)) [0 ..< length payload]"

definition client_frame :: "bytes \<Rightarrow> bytes \<Rightarrow> bytes" where
  "client_frame four payload = 0x81 # length_bytes 0x80 (length payload) @ four @ mask_bytes four payload"

definition ws_request :: "string \<Rightarrow> json \<Rightarrow> json" where
  "ws_request method params =
     JObject [(''jsonrpc'', JString ''2.0''), (''id'', JUint 1), (''method'', JString method), (''params'', params)]"

text \<open>All that a call sends, as far as it gets.\<close>

definition ws_sent :: "ws_io \<Rightarrow> string \<Rightarrow> json \<Rightarrow> bytes \<times> bytes" where
  "ws_sent io method params =
     (bytes_of (greeting (ws_host io) (ws_port io) (case wi_key io of None \<Rightarrow> [] | Some key \<Rightarrow> key)),
      client_frame (wi_mask io) (bytes_of (wi_dump io (ws_request method params))))"

subsection \<open>Reading\<close>

definition kMaxReply :: nat where "kMaxReply = 256 * 1024 + 4096"

text \<open>The server's answer to the handshake, up to the blank line; the rest of the buffer and what is still to come.\<close>

fun read_greeting :: "bytes \<Rightarrow> bytes list \<Rightarrow> (bytes \<times> bytes list) wres" where
  "read_greeting buf chunks =
     (case after_first (crlf @ crlf) (string_of buf) of
        Some rest \<Rightarrow>
          if contains_text (string_of buf) '' 101 '' then Inr (bytes_of rest, chunks) else fail ''websocket handshake failed''
      | None \<Rightarrow>
          (case chunks of
             [] \<Rightarrow> fail ''websocket handshake failed''
           | c # cs \<Rightarrow> if c = [] then fail ''websocket handshake failed'' else read_greeting (buf @ c) cs))"

declare read_greeting.simps [simp del]

datatype ws_cut = Cut_More | Cut_Large | Cut_Frame u8 bytes bytes

definition be_value :: "bytes \<Rightarrow> u64" where
  "be_value data = foldl (\<lambda>v b. push_bit 8 v OR ucast b) 0 data"

definition cut_ws_frame :: "bytes \<Rightarrow> ws_cut" where
  "cut_ws_frame buf =
     (if length buf < 2 then Cut_More
      else
        let b0 = buf ! 0; b1 = buf ! 1; code = b1 AND 0x7f;
            header = (if code = 126 then 4 else if code = 127 then 10 else 2) in
        if length buf < header then Cut_More
        else
          let len = unat (if code = 126 then be_value (take 2 (drop 2 buf)) else if code = 127 then be_value (take 8 (drop 2 buf))
                          else ucast code) in
          if len > kMaxReply then Cut_Large
          else
            let start = header + (if b1 AND 0x80 \<noteq> 0 then 4 else 0) in
            if length buf < start + len then Cut_More
            else Cut_Frame b0 (take len (drop start buf)) (drop (start + len) buf))"

lemma cut_shorter: "cut_ws_frame buf = Cut_Frame b0 text rest \<Longrightarrow> length rest < length buf"
  by (auto simp: cut_ws_frame_def Let_def split: if_splits)

function read_reply :: "bytes \<Rightarrow> bytes \<Rightarrow> bytes list \<Rightarrow> bytes wres" where
  "read_reply buf message chunks =
     (case cut_ws_frame buf of
        Cut_Large \<Rightarrow> fail ''block too large''
      | Cut_More \<Rightarrow>
          (case chunks of
             [] \<Rightarrow> fail ''websocket read failed''
           | c # cs \<Rightarrow> if c = [] then fail ''websocket read failed'' else read_reply (buf @ c) message cs)
      | Cut_Frame b0 text rest \<Rightarrow>
          let opcode = b0 AND 0x0f in
          if opcode = 8 then fail ''websocket closed''
          else if opcode \<noteq> 1 \<and> opcode \<noteq> 0 then read_reply rest message chunks
          else if length (message @ text) > kMaxReply then fail ''block too large''
          else if b0 AND 0x80 = 0 then read_reply rest (message @ text) chunks
          else Inr (message @ text))"
  by pat_completeness auto

termination
  by (relation "measures [\<lambda>(buf, message, chunks). length chunks, \<lambda>(buf, message, chunks). length buf]")
    (auto dest: cut_shorter)

declare read_reply.simps [simp del]

text \<open>The reply as a result; \<open>Inl None\<close> is an exception of the JSON library.\<close>

definition reply_result :: "(string \<Rightarrow> json option) \<Rightarrow> bytes \<Rightarrow> json wres" where
  "reply_result parse message =
     (case parse (string_of message) of
        None \<Rightarrow> Inl None
      | Some reply \<Rightarrow>
          (case jget reply ''error'' of
             Some e \<Rightarrow> wbind (jvalue as_string e ''message'' ''rpc error'') (\<lambda>why. fail why)
           | None \<Rightarrow> jvalue Some reply ''result'' (JObject [])))"

definition ws_call :: "ws_io \<Rightarrow> json wres" where
  "ws_call io =
     (if \<not> wi_socket io then fail ''socket failed''
      else if \<not> wi_resolves io (ws_host io) then fail ''DNS failed''
      else if \<not> wi_connects io then fail (''cannot connect to ws://'' @ ws_host io @ '':'' @ int_text (ws_port io))
      else if wi_key io = None then fail ''random failed''
      else if \<not> wi_greets io then fail ''websocket handshake failed''
      else wbind (read_greeting [] (wi_chunks io)) (\<lambda>(buf, chunks).
        if \<not> wi_sends io then fail ''websocket send failed''
        else wbind (read_reply buf [] chunks) (\<lambda>message. reply_result (wi_parse io) message)))"

definition wallet_rpc :: "ws_io \<Rightarrow> string + json" where
  "wallet_rpc io = (case ws_call io of Inl None \<Rightarrow> Inl (wi_what io) | Inl (Some why) \<Rightarrow> Inl why | Inr doc \<Rightarrow> Inr doc)"

end
