(* ===== verification/Wallet_Talk.thy ===== *)
theory Wallet_Talk
  imports Wallet_Wire
begin

text \<open>
  A call of the daemon over the WebSocket: however the server's bytes arrive, and whatever control
  frames come in between, the wallet reads the message that was sent; so a call gives what the daemon's
  request handler answers, which is what the other theories on the wallet take for it.
\<close>

unbundle bit_operations_syntax

subsection \<open>Frames\<close>

lemma be_fold:
  "k \<le> 8 \<Longrightarrow> foldl (\<lambda>v b. push_bit 8 v OR ucast b) v0 (be_bytes k n) = push_bit (8 * k) v0 OR take_bit (8 * k) (n :: u64)"
proof (induction k arbitrary: v0)
  case 0
  then show ?case by (simp add: be_bytes_def)
next
  case (Suc k)
  have "be_bytes (Suc k) n = ucast (drop_bit (8 * k) n AND 0xff) # be_bytes k n" by (simp add: be_bytes_def)
  then have "foldl (\<lambda>v b. push_bit 8 v OR ucast b) v0 (be_bytes (Suc k) n) =
      push_bit (8 * k) (push_bit 8 v0 OR ucast (ucast (drop_bit (8 * k) n AND 0xff) :: u8)) OR take_bit (8 * k) n"
    using Suc by simp
  also have "\<dots> = push_bit (8 * Suc k) v0 OR take_bit (8 * Suc k) n"
    unfolding mask_u8 using Suc.prems by (intro bit_word_eqI) (auto simp: bit_simps add.commute [of "8 * k" 8])
  finally show ?case .
qed

lemma be_value_bytes: "n < 256 ^ k \<Longrightarrow> k \<le> 8 \<Longrightarrow> unat (be_value (be_bytes k (of_nat n))) = n"
proof -
  assume n: "n < 256 ^ k" and k: "k \<le> 8"
  have p: "(256 :: nat) ^ k = 2 ^ (8 * k)" by (simp add: power_mult)
  have "(2::nat) ^ (8 * k) \<le> 2 ^ 64" using k by (intro power_increasing) auto
  with n p have "n < 2 ^ 64" by simp
  then have u: "unat (of_nat n :: u64) = n" by (simp add: unat_of_nat)
  have "take_bit (8 * k) (of_nat n :: u64) = of_nat n"
    using n p by (simp add: take_bit_of_nat take_bit_nat_eq_self)
  then show ?thesis using be_fold [OF k, of 0 "of_nat n"] u by (simp add: be_value_def)
qed

lemma length_be_bytes [simp]: "length (be_bytes k n) = k"
  by (simp add: be_bytes_def)

lemma header_code:
  assumes "flag = 0 \<or> flag = (0x80 :: u8)" "n < 128"
  shows "(flag OR of_nat n) AND 0x7f = of_nat n" "((flag OR of_nat n) AND 0x80 = 0) = (flag = 0)"
proof -
  have m: "(0x7f :: u8) = mask 7" by (simp add: mask_eq_exp_minus_1)
  have t: "take_bit 7 (of_nat n :: u8) = of_nat n" using assms(2) by (simp add: take_bit_of_nat take_bit_nat_eq_self)
  show "(flag OR of_nat n) AND 0x7f = of_nat n" using assms(1) t by (auto simp: m take_bit_eq_mask [symmetric] take_bit_or)
  have e: "(0x80 :: u8) = 2 ^ 7" by simp
  have "\<not> bit (of_nat n :: u8) 7"
  proof
    assume "bit (of_nat n :: u8) 7"
    then have "bit (take_bit 7 (of_nat n :: u8)) 7" using t by simp
    then show False by (simp add: bit_take_bit_iff)
  qed
  then show "((flag OR of_nat n) AND 0x80 = 0) = (flag = 0)"
    using assms(1) unfolding e and_exp_eq_0_iff_not_bit by (auto simp: bit_or_iff bit_exp_iff)
qed

lemma cut_written:
  assumes "flag = 0 \<or> flag = (0x80 :: u8)" "length payload \<le> kMaxReply" "length four = (if flag = 0 then 0 else 4)"
  shows "cut_ws_frame (b0 # length_bytes flag (length payload) @ four @ payload @ r) = Cut_Frame b0 payload r"
proof -
  let ?n = "length payload"
  have cases: "?n < 126 \<or> (126 \<le> ?n \<and> ?n \<le> 0xffff) \<or> 0xffff < ?n" by linarith
  have v2: "?n \<le> 0xffff \<Longrightarrow> unat (be_value (be_bytes 2 (of_nat ?n))) = ?n" by (rule be_value_bytes) (auto)
  have v8: "unat (be_value (be_bytes 8 (of_nat ?n))) = ?n"
    by (rule be_value_bytes) (use assms(2) in \<open>auto simp: kMaxReply_def\<close>)
  have small: "?n < 126 \<Longrightarrow> of_nat ?n \<noteq> (126 :: u8) \<and> of_nat ?n \<noteq> (127 :: u8) \<and> unat (ucast (of_nat ?n :: u8) :: u64) = ?n"
  proof (intro impI conjI)
    assume n: "?n < 126"
    then have u: "unat (of_nat ?n :: u8) = ?n" by (simp add: unat_of_nat)
    show "of_nat ?n \<noteq> (126 :: u8)" using n u by auto
    show "of_nat ?n \<noteq> (127 :: u8)" using n u by auto
    show "unat (ucast (of_nat ?n :: u8) :: u64) = ?n" using n u by (simp add: unsigned_ucast_eq take_bit_nat_eq_self)
  qed
  have d: "drop (c + ?n) (b0 # x # be @ four @ payload @ r) = r" "drop c (b0 # x # be @ four @ payload @ r) = payload @ r"
    if "c = 2 + length be + length four" for c x be
    using that by simp_all
  have h: "(flag OR 126) AND 0x7f = 126" "((flag OR 126) AND 0x80 = 0) = (flag = 0)"
     "(flag OR 127) AND 0x7f = 127" "((flag OR 127) AND 0x80 = 0) = (flag = 0)"
    using header_code [OF assms(1), of 126] header_code [OF assms(1), of 127] by simp_all
  show ?thesis
    using cases
  proof (elim disjE)
    assume "?n < 126"
    then show ?thesis using small header_code [OF assms(1), of ?n] assms by (auto simp: cut_ws_frame_def length_bytes_def Let_def)
  next
    assume "126 \<le> ?n \<and> ?n \<le> 0xffff"
    then show ?thesis using v2 h assms d [of _ "be_bytes 2 (of_nat ?n)"] by (auto simp: cut_ws_frame_def length_bytes_def Let_def)
  next
    assume "0xffff < ?n"
    then show ?thesis using v8 h assms d [of _ "be_bytes 8 (of_nat ?n)"] by (auto simp: cut_ws_frame_def length_bytes_def Let_def)
  qed
qed

subsection \<open>The reader\<close>

lemma cut_append:
  "cut_ws_frame buf = Cut_Large \<Longrightarrow> cut_ws_frame (buf @ x) = Cut_Large"
  "cut_ws_frame buf = Cut_Frame b0 t rest \<Longrightarrow> cut_ws_frame (buf @ x) = Cut_Frame b0 t (rest @ x)"
proof -
  define code where "code = buf ! 1 AND 0x7f"
  define header :: nat where "header = (if code = 126 then 4 else if code = 127 then 10 else 2)"
  define len where "len b = unat (if code = 126 then be_value (take 2 (drop 2 b)) else if code = 127 then be_value (take 8 (drop 2 b))
                          else ucast code)" for b
  define start where "start = header + (if buf ! 1 AND 0x80 \<noteq> 0 then 4 else 0)"
  have c: "cut_ws_frame (buf @ y) =
      (if length (buf @ y) < header then Cut_More
       else if len (buf @ y) > kMaxReply then Cut_Large
       else if length (buf @ y) < start + len (buf @ y) then Cut_More
       else Cut_Frame (buf ! 0) (take (len (buf @ y)) (drop start (buf @ y))) (drop (start + len (buf @ y)) (buf @ y)))"
    if "2 \<le> length buf" for y
  proof -
    have n: "(buf @ y) ! 0 = buf ! 0" "(buf @ y) ! 1 = buf ! 1" "(length (buf @ y) < 2) = False" using that by (auto simp: nth_append)
    show ?thesis unfolding cut_ws_frame_def Let_def len_def start_def header_def code_def n by (simp only: if_False)
  qed
  have l: "len (buf @ x) = len buf" if "header \<le> length buf" using that by (simp add: len_def header_def split: if_splits)
  have two: "2 \<le> length buf \<or> cut_ws_frame buf = Cut_More" by (auto simp: cut_ws_frame_def)
  show "cut_ws_frame buf = Cut_Large \<Longrightarrow> cut_ws_frame (buf @ x) = Cut_Large"
    using two c [of "[]"] c [of x] l by (auto split: if_splits)
  show "cut_ws_frame buf = Cut_Frame b0 t rest \<Longrightarrow> cut_ws_frame (buf @ x) = Cut_Frame b0 t (rest @ x)"
    using two c [of "[]"] c [of x] l by (auto split: if_splits)
qed

text \<open>A frame as the server writes it: whether it is the last of its message, its kind, and its bytes.\<close>

type_synonym server_frame = "bool \<times> u8 \<times> bytes"

definition frame_bytes :: "server_frame \<Rightarrow> bytes" where
  "frame_bytes f = (case f of (fin, op, payload) \<Rightarrow>
     ((if fin then 0x80 else 0) OR op) # length_bytes 0 (length payload) @ payload)"

definition frame_ok :: "server_frame \<Rightarrow> bool" where
  "frame_ok f \<longleftrightarrow> (case f of (fin, op, payload) \<Rightarrow> op < 16 \<and> op \<noteq> 8 \<and> length payload \<le> kMaxReply)"

definition is_data :: "server_frame \<Rightarrow> bool" where
  "is_data f \<longleftrightarrow> fst (snd f) = 0 \<or> fst (snd f) = 1"

text \<open>The message of a sequence of frames: the bytes of the data frames up to the first that is the last of its message.\<close>

fun message_of :: "server_frame list \<Rightarrow> bytes option" where
  "message_of [] = None"
| "message_of (f # fs) =
     (if \<not> is_data f then message_of fs
      else if fst f then Some (snd (snd f)) else map_option (\<lambda>m. snd (snd f) @ m) (message_of fs))"

lemma cut_frame_bytes: "frame_ok f \<Longrightarrow> cut_ws_frame (frame_bytes f @ r) =
   Cut_Frame ((if fst f then 0x80 else 0) OR fst (snd f)) (snd (snd f)) r"
  using cut_written [of 0 "snd (snd f)" "[]" _ r] by (auto simp: frame_ok_def frame_bytes_def split: prod.splits)

lemma opcode_bits:
  assumes "op < (16 :: u8)"
  shows "((if fin then 0x80 else 0) OR op) AND 0x0f = op" "(((if fin then 0x80 else 0) OR op) AND 0x80 = 0) = (\<not> fin)"
proof -
  have m: "(0x0f :: u8) = mask 4" by (simp add: mask_eq_exp_minus_1)
  have n: "op = of_nat (unat op)" "unat op < 16" using assms by (simp_all add: word_less_nat_alt)
  have "take_bit 4 (of_nat (unat op) :: u8) = of_nat (unat op)" unfolding take_bit_of_nat using n(2) by (simp add: take_bit_nat_eq_self)
  then have "take_bit 4 op = op" by simp
  then show "((if fin then 0x80 else 0) OR op) AND 0x0f = op" by (simp add: m take_bit_eq_mask [symmetric] take_bit_or)
  show "(((if fin then 0x80 else 0) OR op) AND 0x80 = 0) = (\<not> fin)"
    using header_code(2) [where flag = 0 and n = "unat op"] header_code(2) [where flag = "0x80" and n = "unat op"] n(2) by auto
qed

text \<open>Whatever the pieces are, the reader gives the message if it is within the limit, and the limit's error if not.\<close>

lemma read_reply_frames:
  assumes "buf @ concat chunks = concat (map frame_bytes fs) @ r" "list_all frame_ok fs" "message_of fs = Some m" "[] \<notin> set chunks"
  shows "read_reply buf message chunks =
    (if length (message @ m) \<le> kMaxReply then Inr (message @ m) else fail ''block too large'')"
  using assms
proof (induction buf message chunks arbitrary: fs m rule: read_reply.induct)
  case (1 buf message chunks)
  obtain f fs' where fs: "fs = f # fs'" using "1.prems"(3) by (cases fs) auto
  then have ok: "frame_ok f" "list_all frame_ok fs'" using "1.prems"(2) by simp_all
  have whole: "cut_ws_frame (buf @ concat chunks) =
      Cut_Frame ((if fst f then 0x80 else 0) OR fst (snd f)) (snd (snd f)) (concat (map frame_bytes fs') @ r)"
    using cut_frame_bytes [OF ok(1)] "1.prems"(1) fs by simp
  show ?case
  proof (cases "cut_ws_frame buf")
    case Cut_More
    then obtain c cs where c: "chunks = c # cs" using whole by (cases chunks) auto
    with "1.prems"(4) have "c \<noteq> []" "[] \<notin> set cs" by auto
    then show ?thesis
      using "1.IH"(1) [OF Cut_More c _ _ "1.prems"(2,3)] "1.prems"(1) c Cut_More
      by (subst read_reply.simps) simp
  next
    case Cut_Large
    then show ?thesis using cut_append(1) [OF Cut_Large, of "concat chunks"] whole by simp
  next
    case (Cut_Frame b0 t rest)
    then have b: "b0 = (if fst f then 0x80 else 0) OR fst (snd f)" "t = snd (snd f)"
      "rest @ concat chunks = concat (map frame_bytes fs') @ r"
      using cut_append(2) [OF Cut_Frame, of "concat chunks"] whole by auto
    have op: "fst (snd f) < 16" "fst (snd f) \<noteq> 8" using ok(1) by (auto simp: frame_ok_def split: prod.splits)
    have bits: "b0 AND 0x0f = fst (snd f)" "(b0 AND 0x80 = 0) = (\<not> fst f)"
      using opcode_bits [OF op(1), of "fst f"] by (simp_all add: b(1))
    show ?thesis
    proof (cases "is_data f")
      case False
      then have "message_of fs' = Some m" "fst (snd f) \<noteq> 0" "fst (snd f) \<noteq> 1"
        using "1.prems"(3) fs by (auto simp: is_data_def)
      then show ?thesis
        using "1.IH"(2) [OF Cut_Frame refl _ _ b(3) ok(2) _ "1.prems"(4)] Cut_Frame op bits
        by (subst read_reply.simps) (simp add: Let_def)
    next
      case True
      then have d: "fst (snd f) \<noteq> 8 \<and> \<not> (fst (snd f) \<noteq> 1 \<and> fst (snd f) \<noteq> 0)" using op by (auto simp: is_data_def)
      have e: "read_reply buf message chunks =
         (if length (message @ t) > kMaxReply then fail ''block too large''
          else if \<not> fst f then read_reply rest (message @ t) chunks else Inr (message @ t))"
        using Cut_Frame bits d by (subst read_reply.simps) (simp only: Let_def ws_cut.case if_False bits simp_thms)
      show ?thesis
      proof (cases "fst f")
        case True
        then have "m = t" using "1.prems"(3) fs \<open>is_data f\<close> b(2) by simp
        then show ?thesis using e True by auto
      next
        case False
        then obtain m' where m': "message_of fs' = Some m'" "m = t @ m'" using "1.prems"(3) fs \<open>is_data f\<close> b(2) by auto
        show ?thesis
        proof (cases "length (message @ t) > kMaxReply")
          case True
          then show ?thesis using e m' by simp
        next
          case room: False
          then have "read_reply rest (message @ t) chunks =
              (if length ((message @ t) @ m') \<le> kMaxReply then Inr ((message @ t) @ m') else fail ''block too large'')"
            using "1.IH"(3) [OF Cut_Frame refl _ _ _ _ b(3) ok(2) m'(1) "1.prems"(4)] d bits False by simp
          then show ?thesis using e room False m' by simp
        qed
      qed
    qed
  qed
qed


subsection \<open>The request\<close>

lemma mask_twice: "length four = 4 \<Longrightarrow> mask_bytes four (mask_bytes four payload) = payload"
  by (intro nth_equalityI) (auto simp: mask_bytes_def xor.assoc)

lemma length_mask_bytes [simp]: "length (mask_bytes four payload) = length payload"
  by (simp add: mask_bytes_def)

text \<open>What the wallet sends is one whole frame, and taking the mask off gives the request.\<close>

lemma client_frame_reads:
  assumes "length four = 4" "length payload \<le> kMaxReply"
  shows "\<exists>masked. cut_ws_frame (client_frame four payload @ r) = Cut_Frame 0x81 masked r \<and> mask_bytes four masked = payload"
  using cut_written [of "0x80" "mask_bytes four payload" four _ r] assms by (simp add: client_frame_def mask_twice)

subsection \<open>The greeting\<close>

lemma string_of_append [simp]: "string_of (a @ b) = string_of a @ string_of b"
  by (simp add: string_of_def)

lemma bytes_of_string_of [simp]: "bytes_of (string_of b) = b"
proof -
  have "(of_char (char_of (unat w) :: char) :: u8) = w" for w :: u8
    using unat_u8_less [of w] by (intro word_unat_eq_iff [THEN iffD2]) simp
  then show ?thesis by (simp add: bytes_of_def string_of_def o_def)
qed

lemma take_is_prefix: "take (length pat) s = pat \<Longrightarrow> take (length pat) (s @ x) = pat \<and> drop (length pat) (s @ x) = drop (length pat) s @ x"
  by (metis append_assoc append_eq_conv_conj append_take_drop_id)

lemma after_first_long: "after_first pat s = Some r \<Longrightarrow> length pat \<le> length s"
proof (induction s)
  case (Cons c s)
  show ?case
  proof (cases "take (length pat) (c # s) = pat")
    case True
    then have "length (take (length pat) (c # s)) = length pat" by simp
    then show ?thesis by simp
  next
    case False
    then show ?thesis using Cons by simp
  qed
qed (simp split: if_splits)

lemma after_first_append: "after_first pat s = Some r \<Longrightarrow> pat \<noteq> [] \<Longrightarrow> after_first pat (s @ x) = Some (r @ x)"
proof (induction s)
  case (Cons c s)
  show ?case
  proof (cases "take (length pat) (c # s) = pat")
    case True
    then show ?thesis using Cons.prems take_is_prefix [OF True, of x] by simp
  next
    case False
    then have a: "after_first pat s = Some r" using Cons.prems by simp
    have "take (length pat) ((c # s) @ x) = take (length pat) (c # s)" using after_first_long [OF a] unfolding take_append by simp
    then show ?thesis using Cons.IH [OF a Cons.prems(2)] False by simp
  qed
qed simp

lemma contains_append: "contains_text s pat \<Longrightarrow> contains_text (s @ x) pat"
proof -
  assume "contains_text s pat"
  then have "\<exists>i \<in> set [0 ..< Suc (length s)]. take (length pat) (drop i s) = pat"
    by (simp only: contains_text_def list_ex_iff starts_with_def)
  then obtain i where "i < Suc (length s)" "take (length pat) (drop i s) = pat" unfolding set_upt by (meson atLeastLessThan_iff)
  then have "i < Suc (length (s @ x))" "take (length pat) (drop i (s @ x)) = pat"
    using take_is_prefix [of pat "drop i s" x] by simp_all
  then show ?thesis unfolding contains_text_def list_ex_iff starts_with_def set_upt by (intro bexI [of _ i]) simp_all
qed

lemma greeting_read:
  assumes "buf @ concat chunks = bytes_of hello @ rest" "[] \<notin> set chunks"
    "after_first (crlf @ crlf) hello = Some []" "contains_text hello '' 101 ''"
  shows "\<exists>buf' cs. read_greeting buf chunks = Inr (buf', cs) \<and> buf' @ concat cs = rest \<and> [] \<notin> set cs"
  using assms(1,2)
proof (induction buf chunks rule: read_greeting.induct)
  case (1 buf chunks)
  have p: "crlf @ crlf \<noteq> []" by (simp add: crlf_def)
  have whole: "string_of buf @ string_of (concat chunks) = hello @ string_of rest"
    using arg_cong [OF "1.prems"(1), of string_of] by simp
  have all: "after_first (crlf @ crlf) (hello @ string_of rest) = Some (string_of rest)"
    using after_first_append [OF assms(3) p] by simp
  show ?case
  proof (cases "after_first (crlf @ crlf) (string_of buf)")
    case None
    have "chunks \<noteq> []" using None all whole by (auto simp: string_of_def)
    then obtain c cs where c: "chunks = c # cs" by (cases chunks) auto
    with "1.prems"(2) have "c \<noteq> []" by auto
    then show ?thesis using "1.IH" [OF None c] "1.prems" c None by (subst read_greeting.simps) simp
  next
    case (Some after)
    then have a: "after @ string_of (concat chunks) = string_of rest"
      using after_first_append [OF Some p, of "string_of (concat chunks)"] all whole by simp
    then have "length after + length (concat chunks) = length rest" by (metis length_append length_string_of)
    moreover have "length buf + length (concat chunks) = length hello + length rest"
      using arg_cong [OF whole, of length] by simp
    ultimately have "length hello \<le> length buf" by simp
    then obtain more where "string_of buf = hello @ more"
      using whole by (metis append_eq_append_conv_if append_take_drop_id length_string_of)
    then have "contains_text (string_of buf) '' 101 ''" using contains_append [OF assms(4)] by simp
    moreover have "bytes_of after @ concat chunks = rest" using arg_cong [OF a, of bytes_of] by simp
    ultimately show ?thesis using Some "1.prems"(2) by (subst read_greeting.simps) simp
  qed
qed

subsection \<open>The call\<close>

lemma reply_is_answer:
  assumes "parse (dump answer) = Some answer" "fst (handle_request rq (ws_request method params) (ws_new, sv)) = Some answer"
  shows "(case reply_result parse (bytes_of (dump answer)) of
      Inl None \<Rightarrow> Inl what | Inl (Some why) \<Rightarrow> Inl why | Inr doc \<Rightarrow> Inr doc) = ask_daemon rq sv method params"
proof -
  have "jget (ws_request method params) ''jsonrpc'' = Some (JString ''2.0'')" "value_string (ws_request method params) ''method'' [] = Some method"
    "jget (ws_request method params) ''params'' = Some params"
    by (simp_all add: ws_request_def value_string_def)
  then obtain i where "ws_answer (fst (ws_method rq method params (ws_new, sv))) i = Some answer"
    using assms(2) by (auto simp: handle_request_def split: prod.splits)
  then show ?thesis using assms(1)
    by (auto simp: reply_result_def ask_daemon_def ws_answer_def ws_frame_def jvalue_def rpc_error_def split: called.splits)
qed

text \<open>C29: A call of the wallet gives what the daemon answers. The server takes the handshake and sends the
  answer of its request handler as one message, cut into frames at will, with control frames in between;
  and these bytes arrive in pieces of any size. Then the wallet's call has the daemon's result or error; only
  a message of more than 266240 bytes is refused, as too large a block.\<close>

theorem call_gives_answer:
  assumes "wi_socket io" "wi_resolves io (ws_host io)" "wi_connects io" "wi_key io \<noteq> None" "wi_greets io" "wi_sends io"
    "[] \<notin> set (wi_chunks io)" "concat (wi_chunks io) = bytes_of hello @ concat (map frame_bytes fs) @ r"
    "after_first (crlf @ crlf) hello = Some []" "contains_text hello '' 101 ''"
    "list_all frame_ok fs" "message_of fs = Some (bytes_of (wi_dump io answer))" "wi_parse io (wi_dump io answer) = Some answer"
    "fst (handle_request rq (ws_request method params) (ws_new, sv)) = Some answer"
  shows "wallet_rpc io =
    (if length (wi_dump io answer) \<le> 266240 then ask_daemon rq sv method params else Inl ''block too large'')"
proof -
  obtain buf cs where g: "read_greeting [] (wi_chunks io) = Inr (buf, cs)" "buf @ concat cs = concat (map frame_bytes fs) @ r" "[] \<notin> set cs"
    using greeting_read [of "[]" "wi_chunks io" hello "concat (map frame_bytes fs) @ r"] assms(7-10) by auto
  have m: "read_reply buf [] cs =
      (if length (wi_dump io answer) \<le> 266240 then Inr (bytes_of (wi_dump io answer)) else fail ''block too large'')"
    using read_reply_frames [OF g(2) assms(11,12) g(3), of "[]"] by (simp add: kMaxReply_def)
  obtain key where "wi_key io = Some key" using assms(4) by blast
  then have "ws_call io = wbind (read_reply buf [] cs) (reply_result (wi_parse io))"
    using assms(1-3,5,6) g(1) by (simp add: ws_call_def)
  then show ?thesis using m reply_is_answer [where parse = "wi_parse io" and dump = "wi_dump io" and what = "wi_what io", OF assms(13,14)] by (simp add: wallet_rpc_def)
qed

text \<open>A pong of the server, in three pieces with a ping in the middle of the message.\<close>

definition pong :: json where
  "pong = ws_frame ''result'' (JObject [(''status'', JString ''pong'')]) (JUint 1)"

definition pong_frames :: "server_frame list" where
  "pong_frames = [(False, 1, bytes_of ''po''), (True, 9, []), (True, 0, bytes_of ''ng'')]"

definition demo_hello :: string where "demo_hello = ''HTTP/1.1 101 Switching'' @ crlf @ crlf"

definition demo_io :: ws_io where
  "demo_io = \<lparr>wi_flag_host = [], wi_flag_port = 0, wi_env_host = None, wi_env_port = None, wi_socket = True, wi_resolves = (\<lambda>_. True),
     wi_connects = True, wi_key = Some (replicate 16 0), wi_mask = [1, 2, 3, 4], wi_greets = True, wi_sends = True,
     wi_chunks = [bytes_of demo_hello @ [0x01], [0x02] @ bytes_of ''po'' @ [0x89], [0x00, 0x80, 0x02] @ bytes_of ''ng''],
     wi_parse = (\<lambda>t. if t = ''pong'' then Some pong else None), wi_dump = (\<lambda>_. ''pong''), wi_what = []\<rparr>"

lemma call_gives_answer_witness: "wallet_rpc demo_io = Inr (JObject [(''status'', JString ''pong'')])"
proof -
  have a: "fst (handle_request (ht_rpc demo_http) (ws_request ''ping'' (JObject [])) (ws_new, demo_server)) = Some pong"
    by (simp add: handle_request_def ws_request_def value_string_def ws_method_def ws_answer_def pong_def)
  have "ask_daemon (ht_rpc demo_http) demo_server ''ping'' (JObject []) = Inr (JObject [(''status'', JString ''pong'')])"
    by (simp add: ask_daemon_def ws_method_def)
  moreover have "wallet_rpc demo_io =
      (if length (wi_dump demo_io pong) \<le> 266240 then ask_daemon (ht_rpc demo_http) demo_server ''ping'' (JObject []) else Inl ''block too large'')"
    by (rule call_gives_answer [where hello = demo_hello and fs = pong_frames and r = "[]", OF _ _ _ _ _ _ _ _ _ _ _ _ _ a])
      (simp_all add: demo_io_def demo_hello_def crlf_def contains_text_def starts_with_def frame_ok_def pong_frames_def is_data_def
        frame_bytes_def length_bytes_def kMaxReply_def bytes_of_def)
  ultimately show ?thesis by (simp add: demo_io_def)
qed

end
