(* ===== verification/Wallet_View.thy ===== *)
theory Wallet_View
  imports Wallet_Wire Wallet_Keys
begin

text \<open>
  The wallet's commands that only ask the daemon (pswallet/src/main.cpp), and \<open>main\<close>: the options, and the
  command that the positional arguments name. A command that fails gives only the message: lines it has
  printed before are left out. \<open>js\<close> is \<open>--json\<close>.
\<close>

definition int_json :: "int \<Rightarrow> json" where
  "int_json n = (if n < 0 then JNegint (of_int n) else JUint (of_int n))"

definition as_int :: "(string \<Rightarrow> u64) \<Rightarrow> json \<Rightarrow> int option" where
  "as_int fl v = map_option sint (as_number32 fl v)"

subsection \<open>Views\<close>

fun utxo_lines :: "wenv \<Rightarrow> json list \<Rightarrow> (string list) wres" where
  "utxo_lines w [] = Inr []"
| "utxo_lines w (row # rows) =
     wbind (jvalue as_string row ''txid'' []) (\<lambda>txid.
     wbind (jvalue (as_int (we_float w)) row ''vout'' 0) (\<lambda>vout.
     wbind (jvalue as_string row ''amount'' []) (\<lambda>amount.
     wbind (utxo_lines w rows) (\<lambda>ls. Inr ((txid @ '' '' @ int_text vout @ '' '' @ amount) # ls)))))"

definition cmd_utxos :: "wenv \<Rightarrow> string \<Rightarrow> outcome" where
  "cmd_utxos w who =
     outcome_of (wbind (some_address w who) (\<lambda>address.
     wbind (call w ''listunspent'' (JObject [(''address'', JString address)])) (\<lambda>result.
     wbind (jvalue as_string result ''amount'' ''0.000000'') (\<lambda>amount.
     wbind (jitems_of result ''utxos'') (\<lambda>rows.
     wbind (utxo_lines w rows) (\<lambda>ls. Inr ((address @ '' '' @ amount @ '' 314ST'') # ls)))))))"

definition cmd_info :: "wenv \<Rightarrow> wbox \<Rightarrow> string \<Rightarrow> outcome" where
  "cmd_info w b who =
     outcome_of (wbind (call w ''namelookup'' (JObject [(''name'', JString who)])) (\<lambda>result.
     wbind (jvalue as_bool result ''found'' True) (\<lambda>found.
       if \<not> found then
         (case normalize_ps1 who of
            Some ps1 \<Rightarrow>
              wbind (call w ''namelookup'' (JObject [(''address'', JString ps1)])) (\<lambda>by_addr. Inr [we_dump w by_addr, wallet_path b ps1])
          | None \<Rightarrow> Inr [we_dump w result])
       else
         (case jget result ''address'' of
            None \<Rightarrow> Inr [we_dump w result]
          | Some v \<Rightarrow>
              (case as_string v of None \<Rightarrow> Inl None | Some address \<Rightarrow> Inr [we_dump w result, wallet_path b address])))))"

definition cmd_tip :: "wenv \<Rightarrow> bool \<Rightarrow> outcome" where
  "cmd_tip w js =
     outcome_of (wbind (call w ''getblockcount'' (JObject [])) (\<lambda>count.
     wbind (jvalue (as_int (we_float w)) count ''count'' 0) (\<lambda>height.
     wbind (call w ''getheader'' (JObject [(''height'', int_json height)])) (\<lambda>header.
     wbind (jvalue as_string header ''hash'' []) (\<lambda>hash.
       Inr [if js then we_dump w (JObject [(''height'', int_json height), (''hash'', JString hash)])
            else int_text height @ '' '' @ hash])))))"

definition cmd_lookup :: "wenv \<Rightarrow> bool \<Rightarrow> string \<Rightarrow> outcome" where
  "cmd_lookup w js name =
     outcome_of (wbind (call w ''namelookup'' (JObject [(''name'', JString name)])) (\<lambda>result.
     wbind (jvalue as_bool result ''found'' False) (\<lambda>found.
       if \<not> found then Inr [if js then we_dump w result else ''found false'']
       else if js then Inr [we_dump w result]
       else
         wbind (jvalue as_bool result ''reserved'' False) (\<lambda>reserved.
         wbind (jvalue as_string result ''address'' []) (\<lambda>address.
           Inr [''found true'', ''reserved '' @ (if reserved then ''true'' else ''false''), address])))))"

definition cmd_block :: "wenv \<Rightarrow> string \<Rightarrow> outcome" where
  "cmd_block w height_text =
     (case stoi height_text of
        None \<Rightarrow> W_Err (Some ''block height required'')
      | Some height \<Rightarrow>
          outcome_of (wbind (call w ''getblock'' (JObject [(''height'', int_json height)])) (\<lambda>result. Inr [we_dump w result])))"

definition cmd_mempool :: "wenv \<Rightarrow> bool \<Rightarrow> outcome" where
  "cmd_mempool w js =
     outcome_of (wbind (call w ''getmempool'' (JObject [])) (\<lambda>result.
     wbind (jvalue (as_int (we_float w)) result ''count'' 0) (\<lambda>n.
       Inr [if js then we_dump w (JObject [(''count'', int_json n)]) else ''count '' @ int_text n])))"

definition cmd_peers :: "wenv \<Rightarrow> bool \<Rightarrow> outcome" where
  "cmd_peers w js =
     outcome_of (wbind (call w ''getpeers'' (JObject [])) (\<lambda>result.
       if js then Inr [we_dump w result]
       else
         wbind (jvalue (as_int (we_float w)) result ''count'' 0) (\<lambda>n.
           case jget result ''self'' of
             None \<Rightarrow> Inr [''count '' @ int_text n]
           | Some self \<Rightarrow>
               if \<not> is_object self then Inr [''count '' @ int_text n]
               else
                 wbind (jvalue as_string self ''address'' []) (\<lambda>address.
                 wbind (jvalue (as_int (we_float w)) self ''port'' 0) (\<lambda>port.
                   Inr [''count '' @ int_text n, address @ '':'' @ int_text port])))))"

definition cmd_export :: "wenv \<Rightarrow> string \<Rightarrow> outcome" where
  "cmd_export w who =
     outcome_of (wbind (call w ''namelookup'' (JObject [(''name'', JString who)])) (\<lambda>looked.
     wbind (jvalue as_string looked ''address'' who) (\<lambda>address.
     wbind (read_wallet_doc w address) (\<lambda>doc.
     wbind (jvalue as_string doc ''public_key'' []) (\<lambda>pub.
       Inr [we_dump w (JObject [(''address'', JString address), (''public_key'', JString pub)])])))))"

text \<open>The blocks from \<open>height\<close> down, at most \<open>n\<close> of them and none below the first.\<close>

fun history_loop :: "wenv \<Rightarrow> string \<Rightarrow> nat \<Rightarrow> int \<Rightarrow> (string list) wres" where
  "history_loop w address 0 height = Inr []"
| "history_loop w address (Suc n) height =
     (if height < 1 then Inr []
      else
        wbind (call w ''getblock'' (JObject [(''height'', int_json height)])) (\<lambda>block.
        wbind (history_loop w address n (height - 1)) (\<lambda>ls.
          Inr (if contains_text (we_dump w block) address then (''height '' @ int_text height) # ls else ls))))"

definition cmd_history :: "wenv \<Rightarrow> string \<Rightarrow> int \<Rightarrow> outcome" where
  "cmd_history w who limit =
     (let n = (if limit < 1 then 1 else limit) in
      outcome_of (wbind (resolve_wallet_address w who) (\<lambda>address.
      if address = [] then fail ''unknown name'' else
      wbind (call w ''getblockcount'' (JObject [])) (\<lambda>count.
      wbind (jvalue (as_int (we_float w)) count ''count'' 0) (\<lambda>height. history_loop w address (nat n) height)))))"

subsection \<open>The arguments\<close>

record wargs =
  wa_pos :: "string list"
  wa_grant :: bool
  wa_fee :: string
  wa_limit :: int
  wa_json :: bool
  wa_host :: string
  wa_port :: int
  wa_dry_run :: bool
  wa_no_update :: bool
  wa_pass :: "string option"

definition wargs_new :: wargs where
  "wargs_new = \<lparr>wa_pos = [], wa_grant = False, wa_fee = [], wa_limit = 20, wa_json = False, wa_host = [], wa_port = 0,
     wa_dry_run = False, wa_no_update = False, wa_pass = None\<rparr>"

text \<open>\<open>ws://host:port\<close>; the port is 3144 when no colon stands behind the first character. \<open>None\<close>: refused.\<close>

definition parse_url :: "string \<Rightarrow> (string \<times> int) option" where
  "parse_url url =
     (if take 5 url \<noteq> ''ws://'' then None
      else
        let rest = drop 5 url; tail = rev (takeWhile (\<lambda>c. c \<noteq> CHR '':'') (rev rest)); colon = length rest - length tail;
            r = (if colon \<le> 1 then (rest, 3144) else (take (colon - 1) rest, atoi_text tail)) in
        if fst r = [] \<or> snd r \<le> 0 then None else Some r)"

text \<open>The options with a value need one more argument; the last argument is positional otherwise.\<close>

datatype args_end = A_Args wargs | A_Help | A_Version | A_BadUrl

fun wallet_args :: "string list \<Rightarrow> wargs \<Rightarrow> args_end" where
  "wallet_args [] a = A_Args a"
| "wallet_args (arg # rest) a =
     (if arg = ''--help'' \<or> arg = ''-h'' then A_Help
      else if arg = ''--json'' then wallet_args rest (a\<lparr>wa_json := True\<rparr>)
      else if arg = ''--url'' \<and> rest \<noteq> [] then
        (case parse_url (rest ! 0) of
           None \<Rightarrow> A_BadUrl
         | Some (host, port) \<Rightarrow> wallet_args (drop 1 rest) (a\<lparr>wa_host := host, wa_port := port\<rparr>))
      else if arg = ''--limit'' \<and> rest \<noteq> [] then wallet_args (drop 1 rest) (a\<lparr>wa_limit := atoi_text (rest ! 0)\<rparr>)
      else if arg = ''--version'' then A_Version
      else if arg = ''--grant'' then wallet_args rest (a\<lparr>wa_grant := True\<rparr>)
      else if arg = ''--dry-run'' then wallet_args rest (a\<lparr>wa_dry_run := True\<rparr>)
      else if arg = ''--no-update-check'' then wallet_args rest (a\<lparr>wa_no_update := True\<rparr>)
      else if arg = ''--fee'' \<and> rest \<noteq> [] then wallet_args (drop 1 rest) (a\<lparr>wa_fee := rest ! 0\<rparr>)
      else if arg = ''--passphrase'' \<and> rest \<noteq> [] then wallet_args (drop 1 rest) (a\<lparr>wa_pass := Some (rest ! 0)\<rparr>)
      else wallet_args rest (a\<lparr>wa_pos := wa_pos a @ [arg]\<rparr>))"

text \<open>The command that is run, and whether the release is checked before.\<close>

datatype wcommand = C_Tip | C_Lookup string | C_Block string | C_Mempool | C_Peers | C_Export string | C_History string
  | C_Default | C_Create | C_Encrypt string | C_List | C_Balance string | C_Utxos string | C_Info string
  | C_Register string string | C_Send string string string | C_Flag_Create "string list" | C_Flag_Claim string string

definition command_of :: "string list \<Rightarrow> (wcommand \<times> bool) option" where
  "command_of pos =
     (case pos of
        [c] \<Rightarrow>
          if c = ''tip'' then Some (C_Tip, False) else if c = ''mempool'' then Some (C_Mempool, False)
          else if c = ''peers'' then Some (C_Peers, False) else if c = ''default'' then Some (C_Default, False)
          else if c = ''create'' then Some (C_Create, True) else if c = ''list'' then Some (C_List, True) else None
      | [c, x] \<Rightarrow>
          if c = ''lookup'' then Some (C_Lookup x, False) else if c = ''block'' then Some (C_Block x, False)
          else if c = ''export'' then Some (C_Export x, False) else if c = ''history'' then Some (C_History x, False)
          else if c = ''encrypt'' then Some (C_Encrypt x, False) else if c = ''balance'' then Some (C_Balance x, True)
          else if c = ''utxos'' then Some (C_Utxos x, False) else if c = ''info'' then Some (C_Info x, False) else None
      | [c, x, y] \<Rightarrow> if c = ''register'' then Some (C_Register x y, False) else None
      | [c, x, y, z] \<Rightarrow>
          if c = ''send'' then Some (C_Send x y z, True)
          else if c = ''flag'' \<and> x = ''claim'' then Some (C_Flag_Claim y z, True) else None
      | c # x # rest \<Rightarrow> if c = ''flag'' \<and> x = ''create'' \<and> length rest = 7 then Some (C_Flag_Create rest, True) else None
      | [] \<Rightarrow> None)"

text \<open>What runs a command needs besides \<open>wenv\<close> and \<open>wbox\<close>: the text of \<open>names.json\<close> and whether it can be written.\<close>

definition run_command :: "wenv \<Rightarrow> wbox \<Rightarrow> string option \<Rightarrow> bool \<Rightarrow> wargs \<Rightarrow> wcommand \<Rightarrow> outcome" where
  "run_command w b grants can_write a c =
     (case c of
        C_Tip \<Rightarrow> cmd_tip w (wa_json a) | C_Lookup x \<Rightarrow> cmd_lookup w (wa_json a) x | C_Block x \<Rightarrow> cmd_block w x
      | C_Mempool \<Rightarrow> cmd_mempool w (wa_json a) | C_Peers \<Rightarrow> cmd_peers w (wa_json a) | C_Export x \<Rightarrow> cmd_export w x
      | C_History x \<Rightarrow> cmd_history w x (wa_limit a) | C_Default \<Rightarrow> cmd_default b
      | C_Create \<Rightarrow> outcome_of (wbind (cmd_create b) (\<lambda>r. Inr (fst r)))
      | C_Encrypt x \<Rightarrow> outcome_of (wbind (cmd_encrypt w b x) (\<lambda>r. Inr (fst r)))
      | C_List \<Rightarrow> cmd_list b | C_Balance x \<Rightarrow> cmd_balance w x | C_Utxos x \<Rightarrow> cmd_utxos w x | C_Info x \<Rightarrow> cmd_info w b x
      | C_Register x y \<Rightarrow> fst (cmd_register w grants can_write x y (wa_grant a))
      | C_Send x y z \<Rightarrow> cmd_send w x y z (wa_fee a)
      | C_Flag_Create p \<Rightarrow> cmd_flag_create w (default_address b) (p ! 0) (p ! 1) (p ! 2) (p ! 3) (p ! 4) (p ! 5) (p ! 6)
      | C_Flag_Claim i r \<Rightarrow> cmd_flag_claim w (wallet_with_pubkey w b) i r)"

end
