(* ===== verification/Dial.thy ===== *)
theory Dial
  imports Config Peer
begin

text \<open>
  Whom the daemon dials (p2p.cpp): IPv4 addresses as text, the address it advertises, which hosts it
  refuses, and the loop that dials the addresses of a directory. \<open>dirnet\<close> is what the machine is like:
  the network interfaces (\<open>None\<close> when they cannot be listed), environment variables, the
  configuration, and how a connection attempt that is not to itself ends. An address is the 32-bit
  number in host order; \<open>peer_addr\<close> has network order, as the sockets do.
\<close>

record iface =
  if_name :: string
  if_inet :: bool
  if_up :: bool
  if_loopback :: bool
  if_addr :: u32
  if_mask :: "u32 option"

record dirnet =
  dn_ifaces :: "iface list option"
  dn_env_host :: "string option"
  dn_env_port :: "string option"
  dn_cfg :: config
  dn_dial :: "peer_addr \<Rightarrow> dialled"

subsection \<open>Addresses as text\<close>

fun split_dots :: "string \<Rightarrow> string list" where
  "split_dots [] = [[]]"
| "split_dots (c # cs) =
     (if c = CHR ''.'' then [] # split_dots cs
      else case split_dots cs of [] \<Rightarrow> [[c]] | w # ws \<Rightarrow> (c # w) # ws)"

text \<open>A number up to 255 without leading zeros.\<close>

definition octet :: "string \<Rightarrow> u8 option" where
  "octet s =
     (if s \<noteq> [] \<and> list_all (\<lambda>c. in_range c CHR ''0'' CHR ''9'') s \<and> (length s = 1 \<or> s ! 0 \<noteq> CHR ''0'') \<and> dec_val s \<le> 255
      then Some (of_nat (dec_val s)) else None)"

definition inet_pton :: "string \<Rightarrow> u32 option" where
  "inet_pton text =
     (case map octet (split_dots text) of
        [Some a, Some b, Some c, Some d] \<Rightarrow> Some (read_be32 [a, b, c, d]) | _ \<Rightarrow> None)"

definition inet_ntop :: "u32 \<Rightarrow> string" where
  "inet_ntop v =
     (let d = map (\<lambda>b. dec_string (unat b)) (write_be32 v) in d ! 0 @ ''.'' @ d ! 1 @ ''.'' @ d ! 2 @ ''.'' @ d ! 3)"

text \<open>Network order of ports and addresses.\<close>

definition htons :: "u16 \<Rightarrow> u16" where
  "htons x = push_bit 8 x OR drop_bit 8 x"

subsection \<open>The own address\<close>

definition live_iface :: "iface \<Rightarrow> bool" where
  "live_iface i \<longleftrightarrow> if_inet i \<and> if_up i \<and> \<not> if_loopback i"

definition reachableHost :: "dirnet \<Rightarrow> string" where
  "reachableHost dn =
     (case dn_ifaces dn of
        None \<Rightarrow> ''127.0.0.1''
      | Some list \<Rightarrow> (case filter live_iface list of [] \<Rightarrow> ''127.0.0.1'' | i # _ \<Rightarrow> inet_ntop (if_addr i)))"

definition refused_host :: "string \<Rightarrow> bool" where
  "refused_host host \<longleftrightarrow> host \<in> {[], ''0.0.0.0'', ''::'', ''127.0.0.1'', ''::1''}"

definition link_local :: "u32 \<Rightarrow> bool" where
  "link_local v \<longleftrightarrow> v AND 0xFFFF0000 = 0xA9FE0000"

definition dockerOrDummy :: "string \<Rightarrow> bool" where
  "dockerOrDummy name \<longleftrightarrow>
     name = [] \<or> name = ''docker0'' \<or> take 6 name = ''docker'' \<or> take 3 name = ''br-'' \<or> take 5 name = ''dummy''"

definition lan_iface :: "iface \<Rightarrow> bool" where
  "lan_iface i \<longleftrightarrow> live_iface i \<and> \<not> dockerOrDummy (if_name i) \<and> \<not> refused_host (inet_ntop (if_addr i)) \<and> \<not> link_local (if_addr i)"

record advertised =
  ad_host :: string
  ad_port :: int
  ad_source :: string

definition advertised_port :: "dirnet \<Rightarrow> int" where
  "advertised_port dn =
     (let own = (if cf_p2p_port (dn_cfg dn) > 0 then cf_p2p_port (dn_cfg dn) else 3141);
          parsed = atoi_text (set_env (dn_env_port dn) []) in
      if set_env (dn_env_port dn) [] \<noteq> [] \<and> 0 < parsed \<and> parsed < 65536 then parsed else own)"

definition advertisedP2P :: "dirnet \<Rightarrow> advertised" where
  "advertisedP2P dn =
     (let env = set_env (dn_env_host dn) [] in
      if \<not> refused_host env then \<lparr>ad_host = env, ad_port = advertised_port dn, ad_source = ''env''\<rparr>
      else
        \<lparr>ad_host = (case dn_ifaces dn of None \<Rightarrow> []
                   | Some list \<Rightarrow> (case filter lan_iface list of [] \<Rightarrow> [] | i # _ \<Rightarrow> inet_ntop (if_addr i))),
         ad_port = advertised_port dn, ad_source = ''lan''\<rparr>)"

subsection \<open>Hosts that are dialled\<close>

definition private_value :: "u32 \<Rightarrow> bool" where
  "private_value v \<longleftrightarrow> v AND 0xFF000000 = 0x0A000000 \<or> v AND 0xFFF00000 = 0xAC100000 \<or> v AND 0xFFFF0000 = 0xC0A80000"

definition public_value :: "u32 \<Rightarrow> bool" where
  "public_value v \<longleftrightarrow>
     v \<noteq> 0 \<and> v \<noteq> 0xFFFFFFFF \<and> v AND 0xFF000000 \<noteq> 0x0A000000 \<and> v AND 0xFF000000 \<noteq> 0x7F000000 \<and>
     v AND 0xFFF00000 \<noteq> 0xAC100000 \<and> v AND 0xFFFF0000 \<noteq> 0xC0A80000 \<and> \<not> link_local v \<and> v AND 0xF0000000 \<noteq> 0xE0000000"

definition publicUnicastHost :: "string \<Rightarrow> bool" where
  "publicUnicastHost host \<longleftrightarrow> (case inet_pton host of None \<Rightarrow> False | Some v \<Rightarrow> public_value v)"

definition privateUnicastHost :: "string \<Rightarrow> bool" where
  "privateUnicastHost host \<longleftrightarrow> (case inet_pton host of None \<Rightarrow> False | Some v \<Rightarrow> private_value v)"

definition same_net :: "u32 \<Rightarrow> iface \<Rightarrow> bool" where
  "same_net v i \<longleftrightarrow>
     live_iface i \<and> (case if_mask i of None \<Rightarrow> False | Some m \<Rightarrow> m \<noteq> 0 \<and> if_addr i AND m = v AND m)"

definition onSamePrivateNetwork :: "dirnet \<Rightarrow> string \<Rightarrow> bool" where
  "onSamePrivateNetwork dn host \<longleftrightarrow>
     (case inet_pton host of
        None \<Rightarrow> False
      | Some v \<Rightarrow> (case dn_ifaces dn of None \<Rightarrow> False | Some list \<Rightarrow> list_ex (same_net v) list))"

definition bootstrap_host :: "string \<Rightarrow> bool" where
  "bootstrap_host host \<longleftrightarrow> host = ''bootstrap.pisecure.org'' \<or> host = ''bootstrap-testnet.pisecure.org''"

definition shouldDial :: "dirnet \<Rightarrow> string \<Rightarrow> int \<Rightarrow> bool" where
  "shouldDial dn host port =
     (if port \<le> 0 \<or> port > 65535 \<or> refused_host host then False
      else if bootstrap_host host then False
      else if host = ad_host (advertisedP2P dn) \<or> host = reachableHost dn then False
      else if publicUnicastHost host then True
      else privateUnicastHost host \<and> onSamePrivateNetwork dn host)"

subsection \<open>Connecting\<close>

definition loopback :: u32 where "loopback = 0x7F000001"

text \<open>\<open>addr\<close> in network order.\<close>

definition isOwnAddress :: "dirnet \<Rightarrow> u32 \<Rightarrow> bool" where
  "isOwnAddress dn addr =
     (if addr = htonl loopback then False
      else if (case inet_pton (ad_host (advertisedP2P dn)) of None \<Rightarrow> False | Some v \<Rightarrow> htonl v = addr) \<and>
         publicUnicastHost (ad_host (advertisedP2P dn)) then True
      else case dn_ifaces dn of
          None \<Rightarrow> False
        | Some list \<Rightarrow> list_ex (\<lambda>i. if_inet i \<and> htonl (if_addr i) = addr \<and> htonl (if_addr i) \<noteq> htonl loopback) list)"

definition self_peer :: "dirnet \<Rightarrow> peer_addr \<Rightarrow> bool" where
  "self_peer dn a \<longleftrightarrow>
     (let dest = htons (pa_port a); self = advertisedP2P dn in
      ((case inet_pton (ad_host self) of None \<Rightarrow> False | Some v \<Rightarrow> htonl v = pa_ip a) \<and> dest = of_int (ad_port self)) \<or>
      (dest = of_int (cf_p2p_port (dn_cfg dn)) \<and> (pa_ip a = htonl loopback \<or> isOwnAddress dn (pa_ip a))))"

text \<open>The peers there are, and the rest of the server.\<close>

type_synonym net = "peer list \<times> server"

definition connect_to :: "dirnet \<Rightarrow> netenv \<Rightarrow> peer_addr \<Rightarrow> net \<Rightarrow> net" where
  "connect_to dn ne a c =
     (case c of (ps, sv) \<Rightarrow>
        (case connectToPeer ne (if self_peer dn a then Dial_Self else dn_dial dn a) a sv of
           (None, sv') \<Rightarrow> (ps, sv') | (Some p, sv') \<Rightarrow> (ps @ [p], sv')))"

definition MAX_OUTBOUND_CONNECTIONS :: nat where "MAX_OUTBOUND_CONNECTIONS = 8"

definition getOutboundCount :: "peer list \<Rightarrow> nat" where
  "getOutboundCount ps = length (filter (\<lambda>p. \<not> pr_inbound p) ps)"

definition connectedTo :: "peer list \<Rightarrow> string \<Rightarrow> int \<Rightarrow> bool" where
  "connectedTo ps host port \<longleftrightarrow>
     (case inet_pton host of
        None \<Rightarrow> False
      | Some v \<Rightarrow> list_ex (\<lambda>p. pa_ip (pr_addr p) = htonl v \<and> pa_port (pr_addr p) = htons (of_int port) \<and> pr_open p) ps)"

text \<open>The address of a target; that of a text that is no address stays zero.\<close>

definition target_addr :: "string \<Rightarrow> int \<Rightarrow> peer_addr" where
  "target_addr host port =
     no_addr\<lparr>pa_ip := (case inet_pton host of None \<Rightarrow> 0 | Some v \<Rightarrow> htonl v), pa_port := htons (of_int port)\<rparr>"

fun dial_directory :: "dirnet \<Rightarrow> netenv \<Rightarrow> (string \<times> int) list \<Rightarrow> net \<Rightarrow> net" where
  "dial_directory dn ne [] c = c"
| "dial_directory dn ne ((host, port) # targets) c =
     (if getOutboundCount (fst c) \<ge> MAX_OUTBOUND_CONNECTIONS then c
      else if \<not> shouldDial dn host port \<or> connectedTo (fst c) host port then dial_directory dn ne targets c
      else dial_directory dn ne targets (connect_to dn ne (target_addr host port) c))"

text \<open>One pass of \<open>connectLoop\<close>, with the random choice of \<open>select\<close>, and of \<open>messageLoop\<close>'s clearing.\<close>

definition connect_pass :: "dirnet \<Rightarrow> netenv \<Rightarrow> nat \<Rightarrow> net \<Rightarrow> net" where
  "connect_pass dn ne choice c =
     (if getOutboundCount (fst c) < MAX_OUTBOUND_CONNECTIONS then
        (case addr_select (sv_addrman (snd c)) (ev_now (ne_ev ne)) choice of None \<Rightarrow> c | Some a \<Rightarrow> connect_to dn ne a c)
      else c)"

definition clear_peers :: "peer list \<Rightarrow> peer list" where
  "clear_peers ps = filter (\<lambda>p. \<not> (\<not> pr_open p \<or> shouldBan p)) ps"

text \<open>What \<open>exchangeAddresses\<close> dials: the addresses the server has queued, as text and in host order.\<close>

definition dial_offered :: "dirnet \<Rightarrow> netenv \<Rightarrow> net \<Rightarrow> net" where
  "dial_offered dn ne c =
     (case c of (ps, sv) \<Rightarrow>
        dial_directory dn ne (map (\<lambda>(ip, port). (inet_ntop (htonl ip), uint (htons port))) (sv_dial sv)) (ps, sv\<lparr>sv_dial := []\<rparr>))"

text \<open>The peers given with \<open>--peer\<close>; a port that is no number is an exception out of \<open>start\<close>.\<close>

fun start_peers :: "u64 \<Rightarrow> string list \<Rightarrow> addrman \<Rightarrow> addrman option" where
  "start_peers now [] am = Some am"
| "start_peers now (spec # specs) am =
     (if CHR '':'' \<notin> set spec then start_peers now specs am
      else
        let tail = rev (takeWhile (\<lambda>c. c \<noteq> CHR '':'') (rev spec)); host = take (length spec - length tail - 1) spec in
        case stoi tail of
          None \<Rightarrow> None
        | Some port \<Rightarrow>
            start_peers now specs
              (case inet_pton host of
                 None \<Rightarrow> am
               | Some v \<Rightarrow> addr_add now (no_addr\<lparr>pa_ip := htonl v, pa_port := htons (of_int port), pa_services := SERVICES_NODE\<rparr>) am))"

end
