(* ===== verification/Dial_Safe.thy ===== *)
theory Dial_Safe
  imports Dial Frame
begin

text \<open>
  What the dial loop does whatever the directory lists: only acceptable unicast addresses, never more
  than eight outgoing connections, and no second connection to the same address and port.
\<close>

unbundle bit_operations_syntax

lemma write_read_be32: "write_be32 (read_be32 [a, b, c, d]) = [a, b, c, d]"
proof -
  have m: "(255 :: u32) = mask 8" by (simp add: mask_eq_exp_minus_1)
  show ?thesis unfolding write_be32_def read_be32_def m
    by (simp, intro conjI; intro bit_word_eqI; simp add: bit_simps; arith?; auto simp: bit_simps dest: bit_imp_le_length)
qed

lemma write_le32_rev: "write_le32 v = rev (write_be32 v)"
  by (simp add: write_le32_def write_be32_def)

lemma htonl_htonl [simp]: "htonl (htonl x) = x"
proof -
  obtain a b c d where w: "write_be32 x = [a, b, c, d]" by (simp add: write_be32_def)
  have "write_le32 (htonl x) = write_be32 x"
    by (simp add: htonl_def write_le32_rev w write_read_be32)
  then show ?thesis using read_be32_write [of x "[]"] by (simp add: htonl_def [of "htonl x"])
qed

subsection \<open>Addresses as text\<close>

lemma split_dots_digits: "CHR ''.'' \<notin> set s \<Longrightarrow> split_dots s = [s]"
  by (induction s) auto

lemma split_dots_append: "CHR ''.'' \<notin> set s \<Longrightarrow> split_dots (s @ CHR ''.'' # t) = s # split_dots t"
  by (induction s) auto

lemma dec_no_dot: "CHR ''.'' \<notin> set (dec_string n)"
  using dec_string_digits(1) [of n] by (auto simp: is_digits_def in_range_def)

lemma dec_string_head: "n \<ge> 10 \<Longrightarrow> dec_string n ! 0 \<noteq> CHR ''0''"
proof (induction n rule: dec_string.induct)
  case (1 n)
  have e: "dec_string n = dec_string (n div 10) @ [char_of (48 + n mod 10)]" using "1.prems" by (simp add: dec_string.simps [of n])
  show ?case
  proof (cases "n div 10 \<ge> 10")
    case True
    then show ?thesis using "1.IH" "1.prems" dec_string_digits(2) [of "n div 10"] by (simp add: e nth_append)
  next
    case False
    then have "dec_string (n div 10) = [char_of (48 + n div 10)]" by (simp add: dec_string.simps [of "n div 10"])
    moreover have "(char_of (48 + n div 10) :: char) \<noteq> CHR ''0''"
    proof
      assume "(char_of (48 + n div 10) :: char) = CHR ''0''"
      then have "(of_char (char_of (48 + n div 10) :: char) :: nat) = 48" by simp
      then have "(48 + n div 10) mod 256 = 48" by simp
      then show False using False "1.prems" by simp
    qed
    ultimately show ?thesis by (simp add: e)
  qed
qed

lemma octet_dec_string [simp]: "octet (dec_string (unat b)) = Some b"
proof -
  let ?s = "dec_string (unat b)"
  have d: "list_all (\<lambda>c. in_range c CHR ''0'' CHR ''9'') ?s" "?s \<noteq> []"
    using dec_string_digits [of "unat b"] by (simp_all add: is_digits_def list_all_iff)
  have "length ?s = 1 \<or> ?s ! 0 \<noteq> CHR ''0''"
  proof (cases "unat b \<ge> 10")
    case True
    then show ?thesis using dec_string_head by blast
  next
    case False
    then show ?thesis by (simp add: dec_string.simps [of "unat b"])
  qed
  then show ?thesis using d unat_u8_less [of b] by (simp add: octet_def)
qed

lemma pton_ntop [simp]: "inet_pton (inet_ntop v) = Some v"
proof -
  obtain a b c d where w: "write_be32 v = [a, b, c, d]" by (simp add: write_be32_def)
  have "inet_pton (inet_ntop v) = Some (read_be32 [a, b, c, d])"
    by (simp add: inet_pton_def inet_ntop_def w split_dots_append split_dots_digits dec_no_dot Let_def)
  then show ?thesis using read_be32_write [of v "[]"] by (simp add: w)
qed

text \<open>An address has one text only.\<close>

lemma dec_val_snoc: "dec_val (w @ [c]) = 10 * dec_val w + digit_val c"
  by (simp add: dec_val_def)

lemma digit_char: "in_range c CHR ''0'' CHR ''9'' \<Longrightarrow> char_of (48 + digit_val c) = c \<and> digit_val c < 10"
proof -
  assume "in_range c CHR ''0'' CHR ''9''"
  then have "48 \<le> (of_char c :: nat)" "(of_char c :: nat) \<le> 57" by (simp_all add: in_range_digit)
  then show ?thesis unfolding digit_val_def by simp
qed

lemma dec_string_dec_val:
  "w \<noteq> [] \<Longrightarrow> list_all (\<lambda>c. in_range c CHR ''0'' CHR ''9'') w \<Longrightarrow> length w = 1 \<or> w ! 0 \<noteq> CHR ''0'' \<Longrightarrow> dec_string (dec_val w) = w"
proof (induction w rule: rev_induct)
  case (snoc c w)
  have c: "char_of (48 + digit_val c) = c" "digit_val c < 10" using snoc.prems(2) digit_char [of c] by simp_all
  show ?case
  proof (cases "w = []")
    case True
    then show ?thesis using c by (simp add: dec_val_def dec_string.simps [of "digit_val c"])
  next
    case False
    then have h: "w ! 0 \<noteq> CHR ''0''" using snoc.prems(3) by (simp add: nth_append)
    then have i: "dec_string (dec_val w) = w" using snoc False by simp
    have "dec_val w \<noteq> 0"
    proof
      assume "dec_val w = 0"
      then have "w = [char_of (48 :: nat)]" using i by (simp add: dec_string.simps [of 0])
      moreover have "(char_of (48 :: nat) :: char) = CHR ''0''" by code_simp
      ultimately have "w = [CHR ''0'']" by simp
      then show False using h by simp
    qed
    then show ?thesis using i c by (simp add: dec_val_snoc dec_string.simps [of "10 * dec_val w + digit_val c"])
  qed
qed simp

lemma octet_text: "octet s = Some b \<Longrightarrow> s = dec_string (unat b)"
  using dec_string_dec_val [of s] by (auto simp: octet_def unat_of_nat split: if_splits)

lemma split_dots_not_Nil [simp]: "split_dots s \<noteq> []"
  by (induction s) (auto split: list.splits)

lemma split_dots_single: "split_dots s = [w] \<Longrightarrow> s = w"
  by (induction s arbitrary: w) (auto split: if_splits list.splits)

lemma split_dots_Cons: "split_dots s = w # v # ws \<Longrightarrow> \<exists>t. s = w @ CHR ''.'' # t \<and> split_dots t = v # ws"
proof (induction s arbitrary: w)
  case (Cons c s)
  show ?case
  proof (cases "c = CHR ''.''")
    case True
    then show ?thesis using Cons.prems by auto
  next
    case False
    then obtain w' where "split_dots s = w' # v # ws" "w = c # w'" using Cons.prems by (auto split: list.splits)
    with Cons.IH [of w'] show ?thesis by auto
  qed
qed simp

lemma pton_text: "inet_pton host = Some v \<longleftrightarrow> host = inet_ntop v"
proof
  assume h: "inet_pton host = Some v"
  then obtain ws a b c d where ws: "map octet ws = [Some a, Some b, Some c, Some d]" "split_dots host = ws"
    and v: "v = read_be32 [a, b, c, d]"
    by (auto simp: inet_pton_def split: list.splits option.splits)
  then have "ws = [dec_string (unat a), dec_string (unat b), dec_string (unat c), dec_string (unat d)]"
    by (auto simp: map_eq_Cons_conv dest!: octet_text)
  with ws(2) have "host = dec_string (unat a) @ CHR ''.'' # dec_string (unat b) @ CHR ''.'' # dec_string (unat c) @ CHR ''.'' # dec_string (unat d)"
    by (auto dest!: split_dots_Cons split_dots_single)
  then show "host = inet_ntop v" by (simp add: inet_ntop_def v write_read_be32 Let_def)
qed simp

subsection \<open>Connections\<close>

lemma sendVersion_peer:
  "sendVersion ne (p, sv) = (p', sv') \<Longrightarrow> pr_addr p' = pr_addr p \<and> pr_inbound p' = pr_inbound p"
  by (auto simp: sendVersion_def sendMessage_def Let_def split: if_splits)

lemma connectToPeer_peer: "connectToPeer ne what a sv = (Some p, sv') \<Longrightarrow> pr_addr p = a \<and> \<not> pr_inbound p \<and> what \<noteq> Dial_Self"
  by (auto simp: connectToPeer_def new_peer_def split: dialled.splits prod.splits dest!: sendVersion_peer)

lemma connect_to_peers:
  "connect_to dn ne a (ps, sv) = (ps', sv') \<Longrightarrow>
   ps' = ps \<or> (\<exists>p. ps' = ps @ [p] \<and> pr_addr p = a \<and> \<not> pr_inbound p \<and> \<not> self_peer dn a)"
  by (auto simp: connect_to_def split: prod.splits option.splits if_splits dest!: connectToPeer_peer)

definition open_keys :: "peer list \<Rightarrow> (u32 \<times> u16) list" where
  "open_keys ps = map (\<lambda>p. addr_key (pr_addr p)) (filter pr_open ps)"

text \<open>What a host must be to be dialled.\<close>

definition dialable :: "dirnet \<Rightarrow> u32 \<Rightarrow> bool" where
  "dialable dn v \<longleftrightarrow>
     v \<noteq> 0 \<and> v \<noteq> 0xFFFFFFFF \<and> v AND 0xFF000000 \<noteq> 0x7F000000 \<and> \<not> link_local v \<and> v AND 0xF0000000 \<noteq> 0xE0000000 \<and>
     (private_value v \<longrightarrow> (\<exists>list. dn_ifaces dn = Some list \<and> list_ex (same_net v) list)) \<and>
     inet_ntop v \<noteq> ad_host (advertisedP2P dn) \<and> inet_ntop v \<noteq> reachableHost dn"


lemma and_narrow: "v AND m = c \<Longrightarrow> v AND (m AND k) = c AND (k :: u32)"
  by (simp add: and.assoc [symmetric])

lemma private_values:
  assumes "private_value v"
  shows "v \<noteq> 0" "v \<noteq> 0xFFFFFFFF" "v AND 0xFF000000 \<noteq> 0x7F000000" "\<not> link_local v" "v AND 0xF0000000 \<noteq> 0xE0000000" "\<not> public_value v"
proof -
  consider (a) "v AND 0xFF000000 = 0x0A000000" | (b) "v AND 0xFFF00000 = 0xAC100000" | (c) "v AND 0xFFFF0000 = 0xC0A80000"
    using assms unfolding private_value_def by blast
  then have "v AND 0xFF000000 \<in> {0x0A000000, 0xAC000000, 0xC0000000}"
  proof cases
    case b
    from and_narrow [OF b, of "0xFF000000"] show ?thesis by simp
  next
    case c
    from and_narrow [OF c, of "0xFF000000"] show ?thesis by simp
  qed simp
  then have e: "v AND 0xFF000000 = 0x0A000000 \<or> v AND 0xFF000000 = 0xAC000000 \<or> v AND 0xFF000000 = 0xC0000000" by simp
  then show "v AND 0xFF000000 \<noteq> 0x7F000000" by auto
  show "v \<noteq> 0" "v \<noteq> 0xFFFFFFFF" using e by auto
  show "v AND 0xF0000000 \<noteq> 0xE0000000" using e and_narrow [of v "0xFF000000" _ "0xF0000000"] by auto
  show "\<not> link_local v"
  proof
    assume "link_local v"
    then have "v AND 0xFF000000 = 0xA9000000" using and_narrow [of v "0xFFFF0000" "0xA9FE0000" "0xFF000000"] by (simp add: link_local_def)
    then show False using e by auto
  qed
  show "\<not> public_value v" using assms unfolding private_value_def public_value_def by blast
qed

lemma should_dial: "shouldDial dn host port \<Longrightarrow> \<exists>v. host = inet_ntop v \<and> dialable dn v"
proof -
  assume d: "shouldDial dn host port"
  then have own: "host \<noteq> ad_host (advertisedP2P dn)" "host \<noteq> reachableHost dn"
    and ok: "publicUnicastHost host \<or> privateUnicastHost host \<and> onSamePrivateNetwork dn host"
    by (simp_all add: shouldDial_def split: if_splits)
  then obtain v where v: "inet_pton host = Some v"
    by (auto simp: publicUnicastHost_def privateUnicastHost_def split: option.splits)
  then have h: "host = inet_ntop v" by (simp add: pton_text)
  show ?thesis
  proof (cases "private_value v")
    case True
    then have "onSamePrivateNetwork dn host" using ok v private_values(6) by (simp add: publicUnicastHost_def)
    then have "\<exists>list. dn_ifaces dn = Some list \<and> list_ex (same_net v) list"
      by (simp add: onSamePrivateNetwork_def v split: option.splits)
    then show ?thesis using private_values [OF True] own h unfolding dialable_def by blast
  next
    case False
    then have "public_value v" using ok v by (simp add: publicUnicastHost_def privateUnicastHost_def)
    then show ?thesis using False own h unfolding dialable_def public_value_def by blast
  qed
qed

lemma open_keys_new:
  assumes "\<not> connectedTo ps host port" "host = inet_ntop v" "pr_addr p = target_addr host port" "distinct (open_keys ps)"
  shows "distinct (open_keys (ps @ [p]))"
proof -
  have "addr_key (target_addr host port) \<notin> set (open_keys ps)"
    using assms(1) unfolding assms(2)
    by (auto simp: connectedTo_def open_keys_def addr_key_def target_addr_def list_ex_iff)
  then show ?thesis using assms(3,4) by (simp add: open_keys_def)
qed

lemma outbound_append: "getOutboundCount (ps @ [p]) \<le> Suc (getOutboundCount ps)"
  by (simp add: getOutboundCount_def)

definition dialled_from :: "dirnet \<Rightarrow> (string \<times> int) list \<Rightarrow> peer \<Rightarrow> bool" where
  "dialled_from dn targets p \<longleftrightarrow>
     \<not> pr_inbound p \<and> \<not> self_peer dn (pr_addr p) \<and>
     (\<exists>v port. (inet_ntop v, port) \<in> set targets \<and> dialable dn v \<and> pr_addr p = target_addr (inet_ntop v) port)"

lemma dialled_more: "dialled_from dn targets p \<Longrightarrow> dialled_from dn (t # targets) p"
  unfolding dialled_from_def by auto

text \<open>What the loop adds, whatever the targets are; the keys of open connections stay distinct.\<close>

lemma dial_directory_adds:
  assumes "dial_directory dn ne targets (ps, sv) = (ps', sv')"
  shows "(\<exists>new. ps' = ps @ new \<and>
      list_all (dialled_from dn targets) new) \<and>
    getOutboundCount ps' \<le> max 8 (getOutboundCount ps) \<and>
    (distinct (open_keys ps) \<longrightarrow> distinct (open_keys ps'))"
  using assms
proof (induction dn ne targets "(ps, sv)" arbitrary: ps sv rule: dial_directory.induct)
  case (2 dn ne host port targets ps sv)
  consider (full) "getOutboundCount ps \<ge> MAX_OUTBOUND_CONNECTIONS"
    | (no) "getOutboundCount ps < MAX_OUTBOUND_CONNECTIONS" "\<not> shouldDial dn host port \<or> connectedTo ps host port"
    | (dial) "getOutboundCount ps < MAX_OUTBOUND_CONNECTIONS" "shouldDial dn host port" "\<not> connectedTo ps host port"
    by linarith
  then show ?case
  proof cases
    case full
    then show ?thesis using "2.prems" by auto
  next
    case no
    then have "dial_directory dn ne targets (ps, sv) = (ps', sv')" using "2.prems" by (auto split: if_splits)
    from "2.hyps"(1) [OF _ _ this] no show ?thesis
      by (auto simp: list_all_iff dialled_more)
  next
    case dial
    obtain v where v: "host = inet_ntop v" "dialable dn v" using should_dial [OF dial(2)] by blast
    obtain ps1 sv1 where c: "connect_to dn ne (target_addr host port) (ps, sv) = (ps1, sv1)" by fastforce
    then have r: "dial_directory dn ne targets (ps1, sv1) = (ps', sv')" using "2.prems" dial by simp
    from "2.hyps"(2) [OF _ _ c r] dial obtain new where new: "ps' = ps1 @ new"
      "list_all (dialled_from dn targets) new"
      "getOutboundCount ps' \<le> max 8 (getOutboundCount ps1)" "distinct (open_keys ps1) \<Longrightarrow> distinct (open_keys ps')" by auto
    from connect_to_peers [OF c] show ?thesis
    proof (elim disjE)
      assume "ps1 = ps"
      then show ?thesis using new by (auto simp: list_all_iff dialled_more)
    next
      assume "\<exists>p. ps1 = ps @ [p] \<and> pr_addr p = target_addr host port \<and> \<not> pr_inbound p \<and> \<not> self_peer dn (target_addr host port)"
      then obtain p where p: "ps1 = ps @ [p]" "pr_addr p = target_addr host port" "\<not> pr_inbound p" "\<not> self_peer dn (target_addr host port)" by blast
      have n: "getOutboundCount ps' \<le> 8" using new(3) dial(1) outbound_append [of ps p] p(1) by (simp add: MAX_OUTBOUND_CONNECTIONS_def)
      have d: "distinct (open_keys ps) \<Longrightarrow> distinct (open_keys ps')"
        using new(4) open_keys_new [OF dial(3) v(1) p(2)] p(1) by simp
      have "dialled_from dn ((host, port) # targets) p"
        using p(2-4) v unfolding dialled_from_def by auto
      then have "ps' = ps @ (p # new) \<and> list_all (dialled_from dn ((host, port) # targets)) (p # new)"
        using new(1,2) p(1) by (auto simp: list_all_iff dialled_more)
      then show ?thesis using n d by (intro conjI exI [of _ "p # new"]) auto
    qed
  qed
qed auto


definition demo_dirnet :: dirnet where
  "demo_dirnet = \<lparr>dn_ifaces = Some [\<lparr>if_name = ''eth0'', if_inet = True, if_up = True, if_loopback = False, if_addr = 0xC0A80105,
       if_mask = Some 0xFFFFFF00\<rparr>],
     dn_env_host = None, dn_env_port = None, dn_cfg = config_new, dn_dial = (\<lambda>_. Dial_Connected)\<rparr>"

text \<open>Of three targets a public address is dialled, the node's own and one on another private network are not.\<close>

lemma demo_dials: "shouldDial demo_dirnet ''8.8.8.8'' 3141" "\<not> shouldDial demo_dirnet ''192.168.1.5'' 3141"
  "\<not> shouldDial demo_dirnet ''10.0.0.1'' 3141" "\<not> self_peer demo_dirnet (target_addr ''8.8.8.8'' 3141)"
  by code_simp+

end
