(* ===== verification/Directory.thy ===== *)
theory Directory
  imports Dial Update Sync
begin

text \<open>
  The bootstrap directory (p2p.cpp): the node's id, the requests to the directory's HTTP API (through
  curl), the probe of the own port, registration, status, the report of the last blocks, the peers the
  directory lists, and one pass of the thread that does all this. \<open>boot_env\<close> is what the temporary file
  and curl do, \<open>dir\<close> the state: the peers, the server, the id, whether the port was reached, the hints,
  and the requests that were sent. Lines that are only logged are left out.
\<close>

record boot_env =
  bo_temp :: bool
  bo_writes :: bool
  bo_curl :: "string \<Rightarrow> string \<Rightarrow> string \<Rightarrow> string option"

record dir =
  di_peers :: "peer list"
  di_server :: server
  di_node_id :: string
  di_owned :: bool
  di_reachable :: bool
  di_hints :: "(string \<times> int) list"
  di_posts :: "(string \<times> json) list"

subsection \<open>The node's id\<close>

text \<open>The id, and the line written to \<open>node_id\<close>, if any. A file that is empty has no line.\<close>

definition loadBootstrapNodeId :: "string option \<Rightarrow> string option \<Rightarrow> bytes \<Rightarrow> string \<times> string option" where
  "loadBootstrapNodeId env file raw =
     (if set_env env [] \<noteq> [] then (set_env env [], None)
      else
        let made = ''pisecured-'' @ to_hex raw;
            existing = (case file of None \<Rightarrow> [] | Some f \<Rightarrow> strip_end (CHR '' '' # line_end) (takeWhile (\<lambda>c. c \<noteq> CHR 0x0A) f)) in
        if file \<noteq> None \<and> file \<noteq> Some [] \<and> 8 \<le> length existing \<and> length existing \<le> 64 then (existing, None)
        else (made, Some (made @ [CHR 0x0A])))"

subsection \<open>Requests\<close>

text \<open>\<open>rfind\<close>.\<close>

definition last_at :: "string \<Rightarrow> string \<Rightarrow> nat option" where
  "last_at pat s =
     (case filter (\<lambda>i. starts_with pat (drop i s)) (rev [0 ..< Suc (length s)]) of [] \<Rightarrow> None | i # _ \<Rightarrow> Some i)"

definition bootstrapHttp :: "boot_env \<Rightarrow> string \<Rightarrow> string \<Rightarrow> string \<Rightarrow> int \<times> string" where
  "bootstrapHttp bo method url payload =
     (if payload \<noteq> [] \<and> \<not> bo_temp bo then (0, ''mkstemp failed'')
      else if payload \<noteq> [] \<and> \<not> bo_writes bo then (0, ''write failed'')
      else case bo_curl bo method url payload of
          None \<Rightarrow> (0, ''curl failed to start'')
        | Some raw \<Rightarrow>
            let output = concat (fgets_all 511 raw) in
            case last_at ''HTTPSTATUS:'' output of
              None \<Rightarrow> (0, output)
            | Some i \<Rightarrow> (atoi_text (drop (i + 11) output), strip_end line_end (take i output)))"

definition directory_base :: "dirnet \<Rightarrow> string" where
  "directory_base dn =
     (if cf_testnet (dn_cfg dn) then ''https://bootstrap-testnet.pisecure.org'' else ''https://bootstrap.pisecure.org'')"

definition post :: "netenv \<Rightarrow> boot_env \<Rightarrow> string \<Rightarrow> json \<Rightarrow> dir \<Rightarrow> int \<times> string \<times> dir" where
  "post ne bo url body d =
     (case bootstrapHttp bo ''POST'' url (ev_dump (ne_ev ne) body) of
        (code, response) \<Rightarrow> (code, response, d\<lparr>di_posts := di_posts d @ [(url, body)]\<rparr>))"

text \<open>A request that the directory does not understand (400) is sent again without the two newer members.\<close>

definition post_twice :: "netenv \<Rightarrow> boot_env \<Rightarrow> string \<Rightarrow> json \<Rightarrow> dir \<Rightarrow> int \<times> dir" where
  "post_twice ne bo url body d =
     (case post ne bo url body d of
        (code, _, d1) \<Rightarrow>
          if code = 400
          then (case post ne bo url (jdel (jdel body ''inbound'') ''accepts_inbound'') d1 of (code', _, d2) \<Rightarrow> (code', d2))
          else (code, d1))"

definition int_member :: "int \<Rightarrow> json" where
  "int_member n = (if n < 0 then JNegint (of_int n) else JUint (of_int n))"

definition probeAdvertisedP2P :: "dirnet \<Rightarrow> netenv \<Rightarrow> boot_env \<Rightarrow> dir \<Rightarrow> dir" where
  "probeAdvertisedP2P dn ne bo d =
     (let host = ad_host (advertisedP2P dn);
          body = JObject [(''host'', JString host),
            (''port'', int_member (if cf_p2p_port (dn_cfg dn) > 0 then cf_p2p_port (dn_cfg dn) else 3141))] in
      if host = [] then d\<lparr>di_reachable := False\<rparr>
      else (case post ne bo (directory_base dn @ ''/api/v1/nodes/probe'') body d of
              (code, response, d1) \<Rightarrow>
                d1\<lparr>di_reachable := code = 200 \<and>
                  (case ev_parse (ne_ev ne) response of None \<Rightarrow> False
                   | Some doc \<Rightarrow> jget doc ''reachable'' = Some (JBool True))\<rparr>))"

text \<open>The best height and the tip, as they are put into a request.\<close>

definition note_dir :: "dir \<Rightarrow> dir" where
  "note_dir d = d\<lparr>di_server := note_best (di_server d)\<rparr>"

definition tip_members :: "dir \<Rightarrow> (string \<times> json) list" where
  "tip_members d =
     [(''height'', JUint (ucast (sv_best_height (di_server d)))),
      (''tip'', JString (to_hex (st_best_hash (nd_st (sv_node (di_server d))))))]"

definition address_members :: "dirnet \<Rightarrow> dir \<Rightarrow> (string \<times> json) list" where
  "address_members dn d =
     [(''node_id'', JString (di_node_id d)), (''p2p_host'', JString (ad_host (advertisedP2P dn))),
      (''p2p_port'', int_member (ad_port (advertisedP2P dn))), (''rpc_port'', int_member (cf_ws_port (dn_cfg dn)))]"

definition inbound_members :: "dir \<Rightarrow> (string \<times> json) list" where
  "inbound_members d = [(''inbound'', JBool (di_reachable d)), (''accepts_inbound'', JBool (di_reachable d))]"

definition postBootstrapStatus :: "dirnet \<Rightarrow> netenv \<Rightarrow> boot_env \<Rightarrow> dir \<Rightarrow> dir" where
  "postBootstrapStatus dn ne bo d =
     (let d1 = note_dir d in
      snd (post_twice ne bo (directory_base dn @ ''/api/v1/nodes/status'')
        (JObject (address_members dn d1 @ tip_members d1 @
           [(''status'', JString ''active''), (''mining_active'', JBool (rpc_mining_active (ne_ev ne) (sv_node (di_server d1)))),
            (''peers_connected'', JUint (of_nat (length (di_peers d1))))] @ inbound_members d1)) d1))"

definition registerBootstrapNode :: "dirnet \<Rightarrow> netenv \<Rightarrow> boot_env \<Rightarrow> dir \<Rightarrow> dir" where
  "registerBootstrapNode dn ne bo d =
     (let d1 = note_dir d;
          strings = (\<lambda>ss. JArray (map JString ss)) in
      case post_twice ne bo (directory_base dn @ ''/api/v1/nodes/register'')
             (JObject (address_members dn d1 @
                [(''node_type'', JString (if cf_validate_only (dn_cfg dn) then ''validator'' else ''miner'')),
                 (''services'', strings [''mining'', ''p2p_sync'']), (''capabilities'', strings [''mining'', ''validation''])] @
                inbound_members d1 @ tip_members d1)) d1 of
        (code, d2) \<Rightarrow> if code = 409 \<and> di_owned d2 then postBootstrapStatus dn ne bo d2 else d2)"

subsection \<open>The report of the last blocks\<close>

definition thousandths :: "u64 \<Rightarrow> string" where
  "thousandths units = dec_string (unat (units div 1000)) @ ''.'' @ pad0 3 (dec_string (unat (units mod 1000)))"

text \<open>An amount as text, or as a number of units; \<open>dflt\<close> without either.\<close>

definition amount_member :: "json \<Rightarrow> string \<Rightarrow> string \<Rightarrow> string \<Rightarrow> string" where
  "amount_member j as_text as_units dflt =
     (case jstring j as_text of
        Some s \<Rightarrow> s | None \<Rightarrow> (case juint j as_units of Some u \<Rightarrow> thousandths u | None \<Rightarrow> dflt))"

text \<open>The first output of the miner: its address and reward; \<open>None\<close> when an output throws before.\<close>

fun miner_output :: "json list \<Rightarrow> (string \<times> string) option" where
  "miner_output [] = Some ([], ''0.000'')"
| "miner_output (out # outs) =
     (if \<not> is_object out then None
      else case value_string out ''role'' [] of
          None \<Rightarrow> None
        | Some role \<Rightarrow>
            if role = ''miner'' \<and> jget out ''address'' \<noteq> None then
              (case jstring out ''address'' of
                 None \<Rightarrow> None | Some a \<Rightarrow> Some (a, amount_member out ''amount'' ''units'' ''0.000''))
            else miner_output outs)"

text \<open>Miner, reward and subsidy of a coinbase. After an exception they are as they are by then.\<close>

definition coinbase_summary :: "json \<Rightarrow> string \<times> string \<times> string" where
  "coinbase_summary cb =
     (case miner_output (case jarray cb ''outputs'' of Some outs \<Rightarrow> outs | None \<Rightarrow> []) of
        None \<Rightarrow> ([], ''0.000'', ''0.000'')
      | Some (miner, reward) \<Rightarrow>
          (if miner = [] then or_empty (jstring cb ''wallet'') else miner, reward,
           amount_member cb ''subsidy'' ''subsidy_units'' ''0.000''))"

definition block_summary :: "env \<Rightarrow> storage \<Rightarrow> h256 \<Rightarrow> nat \<times> string \<times> string \<times> string" where
  "block_summary ev st h =
     (case (case (case block_index st h of None \<Rightarrow> None | Some i \<Rightarrow> read_block st i) of
              None \<Rightarrow> None | Some raw \<Rightarrow> ev_parse ev (string_of raw)) of
        None \<Rightarrow> (0, [], ''0.000'', ''0.000'')
      | Some block \<Rightarrow>
          (case jarray block ''txs'' of Some txs \<Rightarrow> length txs | None \<Rightarrow> 0,
           case jget block ''coinbase'' of
             Some cb \<Rightarrow> if is_object cb then coinbase_summary cb else ([], ''0.000'', ''0.000'')
           | None \<Rightarrow> ([], ''0.000'', ''0.000'')))"

definition report_row :: "env \<Rightarrow> storage \<Rightarrow> block_header \<Rightarrow> json" where
  "report_row ev st hdr =
     (case block_summary ev st (bh_hash hdr) of
        (txs, miner, reward, subsidy) \<Rightarrow>
          JObject [(''height'', JUint (ucast (bh_height hdr))), (''hash'', JString (to_hex (bh_hash hdr))),
            (''timestamp'', JUint (bh_timestamp hdr)), (''miner'', JString miner), (''tx_count'', int_member (sint (of_nat txs :: 32 word))),
            (''reward'', JString reward), (''subsidy'', JString subsidy), (''difficulty'', JUint (ucast (bh_difficulty hdr)))])"

fun report_rows :: "env \<Rightarrow> storage \<Rightarrow> nat \<Rightarrow> u32 \<Rightarrow> json list" where
  "report_rows ev st 0 height = []"
| "report_rows ev st (Suc n) height =
     (if height < 1 then []
      else case get_header_by_height st height of
          None \<Rightarrow> []
        | Some hdr \<Rightarrow> report_row ev st hdr # (if height = 1 then [] else report_rows ev st n (height - 1)))"

text \<open>\<open>mempool.value(k, 0)\<close>, an \<open>int\<close>.\<close>

definition pool_number :: "json \<Rightarrow> string \<Rightarrow> json" where
  "pool_number pool k = int_member (case juint pool k of Some n \<Rightarrow> sint (ucast n :: 32 word) | None \<Rightarrow> 0)"

definition kReportBlocks :: nat where "kReportBlocks = 120"

definition reportBootstrapChain :: "dirnet \<Rightarrow> netenv \<Rightarrow> boot_env \<Rightarrow> dir \<Rightarrow> dir" where
  "reportBootstrapChain dn ne bo d =
     (let d1 = note_dir d; sv = di_server d1; st = nd_st (sv_node sv); ev = ne_ev ne;
          pool = rpc_getmempool ev st in
      case rpc_name_snapshot ev (sv_node sv) of
        (names, nd) \<Rightarrow>
          let d2 = d1\<lparr>di_server := sv\<lparr>sv_node := nd\<rparr>\<rparr> in
          (case post ne bo (directory_base dn @ ''/api/v1/chain/report'')
                  (JObject (address_members dn d2 @ tip_members d2 @
                     [(''difficulty'', JUint (ucast (tip_difficulty st))), (''peer_count'', JUint (of_nat (length (di_peers d2)))),
                      (''mempool_count'', pool_number pool ''count''),
                      (''mempool_bytes'', pool_number pool ''bytes''),
                      (''blocks'', JArray (report_rows ev st kReportBlocks (sv_best_height sv))), (''names'', names)])) d2 of
             (code, _, d3) \<Rightarrow> if code = 403 then registerBootstrapNode dn ne bo d3 else d3))"

subsection \<open>The peers the directory lists\<close>

text \<open>The start of the genesis hash of another chain.\<close>

definition foreignGenesis :: "json \<Rightarrow> bool" where
  "foreignGenesis j \<longleftrightarrow> (case jstring j ''genesis_hash'' of None \<Rightarrow> False | Some g \<Rightarrow> take 8 g = ''2742129a'')"

definition as_integer :: "json \<Rightarrow> int option" where
  "as_integer v = (case v of JUint n \<Rightarrow> Some (sint (ucast n :: 32 word)) | JNegint n \<Rightarrow> Some (sint (ucast n :: 32 word)) | _ \<Rightarrow> None)"

definition listed_port :: "json \<Rightarrow> int" where
  "listed_port node =
     (case (case jget node ''p2p_port'' of None \<Rightarrow> None | Some v \<Rightarrow> as_integer v) of
        Some n \<Rightarrow> n
      | None \<Rightarrow> (case (case jget node ''port'' of None \<Rightarrow> None | Some v \<Rightarrow> as_integer v) of Some n \<Rightarrow> n | None \<Rightarrow> 3141))"

definition jbool :: "json \<Rightarrow> string \<Rightarrow> bool option" where
  "jbool j k = (case jget j k of Some (JBool b) \<Rightarrow> Some b | _ \<Rightarrow> None)"

definition accepts_inbound :: "json \<Rightarrow> bool" where
  "accepts_inbound node =
     (case jbool node ''accepts_inbound'' of
        Some b \<Rightarrow> b | None \<Rightarrow> (case jbool node ''inbound'' of Some b \<Rightarrow> b | None \<Rightarrow> False))"

definition listed_host :: "dirnet \<Rightarrow> json \<Rightarrow> string option" where
  "listed_host dn node =
     (if foreignGenesis node then None
      else case jstring node ''p2p_host'' of
          None \<Rightarrow> None
        | Some host \<Rightarrow>
            if jget node ''p2p_port'' = None \<or> refused_host host \<or> host = reachableHost dn \<or>
               host = ad_host (advertisedP2P dn) \<or> bootstrap_host host then None else Some host)"

text \<open>All hosts of a document, and those that take connections.\<close>

definition directory_rows :: "json \<Rightarrow> json list" where
  "directory_rows doc =
     (if foreignGenesis doc then []
      else if (case jget doc ''network_info'' of None \<Rightarrow> False | Some info \<Rightarrow> is_object info \<and> foreignGenesis info) then []
      else case jarray doc ''nodes'' of
          Some rows \<Rightarrow> rows | None \<Rightarrow> (case jarray doc ''peers'' of Some rows \<Rightarrow> rows | None \<Rightarrow> []))"

definition absorb_rows :: "dirnet \<Rightarrow> json list \<Rightarrow> (string \<times> int) list \<times> (string \<times> int) list" where
  "absorb_rows dn rows =
     (let listed = List.map_filter (\<lambda>node. map_option (\<lambda>host. (node, host, listed_port node)) (listed_host dn node)) rows in
      (map snd listed, map snd (filter (\<lambda>(node, _). accepts_inbound node) listed)))"

definition pushUnique :: "('a list) \<Rightarrow> 'a list \<Rightarrow> 'a list" where
  "pushUnique dest src = fold (\<lambda>t acc. if t \<in> set acc then acc else acc @ [t]) src dest"

definition refreshBootstrapHints :: "dirnet \<Rightarrow> netenv \<Rightarrow> boot_env \<Rightarrow> dir \<Rightarrow> dir" where
  "refreshBootstrapHints dn ne bo d =
     (case bootstrapHttp bo ''GET'' (directory_base dn @ ''/api/v1/bootstrap/peers?inbound=1'') [] of
        (code, response) \<Rightarrow>
          if code \<noteq> 200 then d
          else case ev_parse (ne_ev ne) response of
              None \<Rightarrow> d
            | Some doc \<Rightarrow>
                (case absorb_rows dn (directory_rows doc) of
                   (hints, preferred) \<Rightarrow>
                     if preferred = [] then d
                     else (case dial_directory dn ne (pushUnique [] preferred) (di_peers d, di_server d) of
                             (ps, sv) \<Rightarrow> d\<lparr>di_hints := hints, di_peers := ps, di_server := sv\<rparr>)))"

subsection \<open>The thread\<close>

text \<open>Addresses for every peer with a handshake, and the addresses the manager hands out are dialled.\<close>

definition exchange_addresses :: "dirnet \<Rightarrow> netenv \<Rightarrow> dir \<Rightarrow> dir" where
  "exchange_addresses dn ne d =
     (let sv = di_server d;
          ps = map (\<lambda>p. if pr_handshake p \<and> pr_open p then sendAddr ne sv p else p) (di_peers d);
          learned = map (\<lambda>a. (inet_ntop (htonl (pa_ip a)), uint (htons (pa_port a)))) (getMany (sv_addrman sv) (ev_now (ne_ev ne)) 32) in
      case dial_directory dn ne learned (ps, sv) of (ps', sv') \<Rightarrow> d\<lparr>di_peers := ps', di_server := sv'\<rparr>)"

definition ask_later :: "netenv \<Rightarrow> peer \<Rightarrow> peer list \<times> server \<Rightarrow> peer list \<times> server" where
  "ask_later ne p c =
     (case c of (done, sv) \<Rightarrow>
        if \<not> pr_handshake p \<or> \<not> pr_open p \<or> pr_start_height p \<le> sv_best_height sv then (done @ [p], sv)
        else (case ask_headers ne (p, sv) of (p', sv') \<Rightarrow> (done @ [p'], sv')))"

definition sync_later :: "netenv \<Rightarrow> dir \<Rightarrow> dir" where
  "sync_later ne d =
     (case fold (ask_later ne) (di_peers d) ([], note_best (di_server d)) of
        (ps, sv) \<Rightarrow> d\<lparr>di_peers := ps, di_server := adoptLaterPeerChain ne sv\<rparr>)"

definition heartbeat_start :: "dirnet \<Rightarrow> netenv \<Rightarrow> boot_env \<Rightarrow> dir \<Rightarrow> dir" where
  "heartbeat_start dn ne bo d =
     reportBootstrapChain dn ne bo (registerBootstrapNode dn ne bo (refreshBootstrapHints dn ne bo (probeAdvertisedP2P dn ne bo d)))"

text \<open>One pass: whether the exchange of addresses, the probe and the status are due.\<close>

definition heartbeat_pass :: "dirnet \<Rightarrow> netenv \<Rightarrow> boot_env \<Rightarrow> bool \<Rightarrow> bool \<Rightarrow> bool \<Rightarrow> dir \<Rightarrow> dir" where
  "heartbeat_pass dn ne bo exchange probe status d =
     (let d1 = sync_later ne d;
          d2 = (if exchange then exchange_addresses dn ne d1 else d1);
          d3 = (if probe then postBootstrapStatus dn ne bo (probeAdvertisedP2P dn ne bo d2) else d2);
          d4 = reportBootstrapChain dn ne bo (refreshBootstrapHints dn ne bo d3) in
      if status then postBootstrapStatus dn ne bo d4 else d4)"

definition onBootstrapPeerDiscovery :: "u64 \<Rightarrow> peer_addr list \<Rightarrow> server \<Rightarrow> server" where
  "onBootstrapPeerDiscovery now addrs sv = sv\<lparr>sv_addrman := fold (addr_add now) addrs (sv_addrman sv)\<rparr>"

end
