(* ===== verification/Directory_Safe.thy ===== *)
theory Directory_Safe
  imports Directory Dial_Safe
begin

text \<open>
  What the bootstrap thread can make the node do: whatever the directory answers and peers offer, it dials
  only acceptable addresses. And where the code does not keep to its own rules: the probe of another port
  than the one advertised, and the connect loop, which dials unfiltered.
\<close>

unbundle bit_operations_syntax

definition dial_ok :: "dirnet \<Rightarrow> peer \<Rightarrow> bool" where
  "dial_ok dn p \<longleftrightarrow>
     \<not> pr_inbound p \<and> \<not> self_peer dn (pr_addr p) \<and> (\<exists>v port. dialable dn v \<and> pr_addr p = target_addr (inet_ntop v) port)"

text \<open>The connections of before, with new ones behind them. Their other fields may have changed.\<close>

definition peer_key :: "peer \<Rightarrow> peer_addr \<times> bool" where
  "peer_key p = (pr_addr p, pr_inbound p)"

definition grown :: "dirnet \<Rightarrow> peer list \<Rightarrow> peer list \<Rightarrow> bool" where
  "grown dn ps ps' \<longleftrightarrow>
     (\<exists>new. map peer_key ps' = map peer_key ps @ map peer_key new \<and> list_all (dial_ok dn) new) \<and>
     getOutboundCount ps' \<le> max 8 (getOutboundCount ps)"

lemma outbound_keys: "getOutboundCount ps = length (filter (\<lambda>k. \<not> snd k) (map peer_key ps))"
  by (simp add: getOutboundCount_def peer_key_def filter_map o_def)

lemma grown_same: "map peer_key ps' = map peer_key ps \<Longrightarrow> grown dn ps ps'"
  by (auto simp: grown_def outbound_keys intro: exI [of _ "[]"])

lemma grown_trans: "grown dn a b \<Longrightarrow> grown dn b c \<Longrightarrow> grown dn a c"
proof -
  assume a: "grown dn a b" and b: "grown dn b c"
  obtain n m where "map peer_key b = map peer_key a @ map peer_key n" "list_all (dial_ok dn) n"
    "map peer_key c = map peer_key b @ map peer_key m" "list_all (dial_ok dn) m"
    using a b unfolding grown_def by blast
  then have "map peer_key c = map peer_key a @ map peer_key (n @ m) \<and> list_all (dial_ok dn) (n @ m)" by simp
  moreover have "getOutboundCount c \<le> max 8 (getOutboundCount a)" using a b unfolding grown_def by linarith
  ultimately show ?thesis unfolding grown_def by blast
qed

lemma grown_dial: "dial_directory dn ne targets (ps, sv) = (ps', sv') \<Longrightarrow> grown dn ps ps'"
proof -
  assume "dial_directory dn ne targets (ps, sv) = (ps', sv')"
  from dial_directory_adds [OF this] obtain new where n: "ps' = ps @ new" "list_all (dialled_from dn targets) new"
    "getOutboundCount ps' \<le> max 8 (getOutboundCount ps)" by blast
  have "list_all (dial_ok dn) new" using n(2) unfolding list_all_iff dialled_from_def dial_ok_def by blast
  then show ?thesis using n(1,3) by (auto simp: grown_def)
qed

lemma send_key [simp]: "peer_key (sendMessage ne ty payload p) = peer_key p"
  by (simp add: sendMessage_def peer_key_def)

lemma sendAddr_key [simp]: "peer_key (sendAddr ne sv p) = peer_key p"
  by (simp add: sendAddr_def Let_def)

lemma post_peers: "post ne bo url body d = (code, response, d') \<Longrightarrow> di_peers d' = di_peers d"
  by (auto simp: post_def split: prod.splits)

lemma post_twice_peers: "post_twice ne bo url body d = (code, d') \<Longrightarrow> di_peers d' = di_peers d"
  by (auto simp: post_twice_def split: prod.splits if_splits dest!: post_peers)

lemma note_dir_peers [simp]: "di_peers (note_dir d) = di_peers d"
  by (simp add: note_dir_def)

lemma probe_peers [simp]: "di_peers (probeAdvertisedP2P dn ne bo d) = di_peers d"
  by (auto simp: probeAdvertisedP2P_def Let_def split: prod.splits dest: post_peers)

lemma status_peers [simp]: "di_peers (postBootstrapStatus dn ne bo d) = di_peers d"
  using post_twice_peers [of ne bo _ _ "note_dir d"] by (simp add: postBootstrapStatus_def Let_def) (metis prod.collapse)

lemma register_peers [simp]: "di_peers (registerBootstrapNode dn ne bo d) = di_peers d"
  by (auto simp: registerBootstrapNode_def Let_def split: prod.splits dest: post_twice_peers)

lemma report_peers [simp]: "di_peers (reportBootstrapChain dn ne bo d) = di_peers d"
  by (auto simp: reportBootstrapChain_def Let_def split: prod.splits dest!: post_peers)

lemma refresh_grown: "grown dn (di_peers d) (di_peers (refreshBootstrapHints dn ne bo d))"
  by (auto simp: refreshBootstrapHints_def grown_same split: prod.splits option.splits dest: grown_dial)

lemma exchange_grown: "grown dn (di_peers d) (di_peers (exchange_addresses dn ne d))"
proof -
  let ?ps = "map (\<lambda>p. if pr_handshake p \<and> pr_open p then sendAddr ne (di_server d) p else p) (di_peers d)"
  have "grown dn (di_peers d) ?ps" by (rule grown_same) simp
  then show ?thesis by (auto simp: exchange_addresses_def Let_def split: prod.splits intro: grown_trans dest: grown_dial)
qed

lemma ask_later_keys:
  "fold (ask_later ne) ps (acc, sv) = (ps', sv') \<Longrightarrow> map peer_key ps' = map peer_key acc @ map peer_key ps"
proof (induction ps arbitrary: acc sv)
  case (Cons p ps)
  obtain p1 sv1 where h: "ask_headers ne (p, sv) = (p1, sv1)" by fastforce
  then have k: "peer_key p1 = peer_key p" by (auto simp: ask_headers_def split: option.splits)
  define c where "c = (\<not> pr_handshake p \<or> \<not> pr_open p \<or> pr_start_height p \<le> sv_best_height sv)"
  have a: "ask_later ne p (acc, sv) = (acc @ [if c then p else p1], if c then sv else sv1)"
    by (simp only: ask_later_def c_def h prod.case if_distrib split: if_split) simp
  have "peer_key (if c then p else p1) = peer_key p" using k by simp
  then show ?case using Cons.IH [of "acc @ [if c then p else p1]" "if c then sv else sv1"] Cons.prems a by simp
qed simp

lemma sync_grown: "grown dn (di_peers d) (di_peers (sync_later ne d))"
  by (auto simp: sync_later_def split: prod.splits intro!: grown_same dest: ask_later_keys)

lemma heartbeat_grown: "grown dn (di_peers d) (di_peers (heartbeat_pass dn ne bo exchange probe status d))"
proof -
  define d2 where "d2 = (if exchange then exchange_addresses dn ne (sync_later ne d) else sync_later ne d)"
  define d3 where "d3 = (if probe then postBootstrapStatus dn ne bo (probeAdvertisedP2P dn ne bo d2) else d2)"
  have "di_peers (heartbeat_pass dn ne bo exchange probe status d) = di_peers (refreshBootstrapHints dn ne bo d3)"
    by (simp add: heartbeat_pass_def Let_def d2_def d3_def)
  moreover have "grown dn (di_peers d) (di_peers d2)"
    unfolding d2_def using sync_grown exchange_grown grown_trans by (cases exchange) (simp_all, blast+)
  moreover have "di_peers d3 = di_peers d2" by (simp add: d3_def)
  ultimately show ?thesis using grown_trans refresh_grown by metis
qed

text \<open>C37: The directory cannot make the node dial badly. In one pass of the bootstrap thread, whatever the directory
  answers and whatever addresses the manager holds, the connections of before stay and every new one is an outgoing
  one to a unicast address that is neither zero, loopback, link-local, multicast nor the node's own, and private
  only on a network of the machine; and there are at most eight outgoing ones, or as many as there were.\<close>

theorem heartbeat_dials:
  "(\<exists>new :: peer list. map pr_addr (di_peers (heartbeat_pass dn ne bo exchange probe status d)) = map pr_addr (di_peers d) @ map pr_addr new \<and>
      list_all (\<lambda>p. \<not> pr_inbound p \<and> \<not> self_peer dn (pr_addr p) \<and>
        (\<exists>v port. dialable dn v \<and> pr_addr p = target_addr (inet_ntop v) port)) new) \<and>
   getOutboundCount (di_peers (heartbeat_pass dn ne bo exchange probe status d)) \<le> max 8 (getOutboundCount (di_peers d))"
proof -
  obtain new where n: "map peer_key (di_peers (heartbeat_pass dn ne bo exchange probe status d)) = map peer_key (di_peers d) @ map peer_key new"
    "list_all (dial_ok dn) new"
    and o8: "getOutboundCount (di_peers (heartbeat_pass dn ne bo exchange probe status d)) \<le> max 8 (getOutboundCount (di_peers d))"
    using heartbeat_grown unfolding grown_def by blast
  have "map fst (map peer_key ps) = map pr_addr ps" for ps by (simp add: peer_key_def)
  with arg_cong [OF n(1), of "map fst"]
  have "map pr_addr (di_peers (heartbeat_pass dn ne bo exchange probe status d)) = map pr_addr (di_peers d) @ map pr_addr new"
    by (simp only: map_append)
  moreover have "list_all (\<lambda>p. \<not> pr_inbound p \<and> \<not> self_peer dn (pr_addr p) \<and>
        (\<exists>v port. dialable dn v \<and> pr_addr p = target_addr (inet_ntop v) port)) new"
    using n(2) by (simp add: list_all_iff dial_ok_def)
  ultimately show ?thesis using o8 by blast
qed

subsection \<open>Where the rules are not kept\<close>

text \<open>The port that is probed is the configured one, also when another one is advertised.\<close>

lemma probe_wrong_port:
  assumes "set_env (dn_env_port dn) [] \<noteq> []" "atoi_text (set_env (dn_env_port dn) []) = p" "0 < p" "p < 65536"
    "cf_p2p_port (dn_cfg dn) = q" "0 < q" "ad_host (advertisedP2P dn) \<noteq> []"
  shows "ad_port (advertisedP2P dn) = p \<and>
    (\<exists>url body. di_posts (probeAdvertisedP2P dn ne bo d) = di_posts d @ [(url, body)] \<and> jget body ''port'' = Some (int_member q))"
proof -
  have "ad_port (advertisedP2P dn) = advertised_port dn" by (simp add: advertisedP2P_def Let_def)
  then show ?thesis using assms
    by (auto simp: advertised_port_def Let_def probeAdvertisedP2P_def post_def split: prod.splits)
qed

text \<open>The connect loop takes any address a peer has sent: here a loopback address with the port of another service.\<close>

lemma connect_loop_unfiltered:
  "\<exists>a p sv'. connect_pass demo_dirnet demo_net 0 ([], demo_server\<lparr>sv_addrman := \<lparr>am_list = [a], am_banned = []\<rparr>\<rparr>) = ([p], sv') \<and>
     pr_addr p = a \<and> \<not> shouldDial demo_dirnet (inet_ntop (htonl (pa_ip a))) (uint (htons (pa_port a)))"
proof -
  let ?a = "no_addr\<lparr>pa_ip := htonl loopback, pa_port := htons 22\<rparr>"
  let ?sv = "demo_server\<lparr>sv_addrman := \<lparr>am_list = [?a], am_banned = []\<rparr>\<rparr>"
  have sel: "addr_select (sv_addrman ?sv) now 0 = Some ?a" for now
    by (simp add: addr_select_def isBanned_def no_addr_def tbl_get_def)
  have self: "\<not> self_peer demo_dirnet ?a" and no: "\<not> shouldDial demo_dirnet (inet_ntop (htonl (pa_ip ?a))) (uint (htons (pa_port ?a)))"
    by code_simp+
  obtain p sv' where v: "connectToPeer demo_net Dial_Connected ?a ?sv = (Some p, sv')" "pr_addr p = ?a"
    by (cases "sendVersion demo_net (new_peer (ne_ticks demo_net) ?a False, ?sv)")
      (auto simp: connectToPeer_def new_peer_def dest: sendVersion_peer)
  have "dn_dial demo_dirnet a = Dial_Connected" for a by (simp add: demo_dirnet_def)
  then have "connect_pass demo_dirnet demo_net 0 ([], ?sv) = ([p], sv')"
    using v(1) self sel by (simp add: connect_pass_def connect_to_def getOutboundCount_def MAX_OUTBOUND_CONNECTIONS_def)
  then show ?thesis using v(2) no by blast
qed

end
