(* ===== verification/Sentinel.thy ===== *)
theory Sentinel
  imports Directory Dial_Safe Rpc Complex_Main
begin

text \<open>
  The coordinated defense (p2p.cpp): the threat scores, the client for the bootstrap service's WebSocket,
  alerts, what is done about them, and one pass of the thread that looks for attacks. The client is a
  placeholder in the code: a message is only logged, and nothing is received. Scores are exact fractions;
  the code computes the same with doubles. \<open>sentinel_env\<close> adds the numbers that are printed from doubles.
\<close>

record sentinel_env =
  se_net :: netenv
  se_wall :: u64
  se_uptime :: string
  se_percent :: "u64 option \<Rightarrow> string"

subsection \<open>Scores\<close>

definition extractConnectionFrequency :: "u32 \<Rightarrow> 'f threats \<Rightarrow> rat" where
  "extractConnectionFrequency ip th =
     (case tbl_get (th_attempts th) ip of None \<Rightarrow> 0 | Some attempts \<Rightarrow> min 1 (of_nat (length attempts) / 10))"

definition extractMessageRateAnomaly :: "u32 \<Rightarrow> 'f threats \<Rightarrow> rat" where
  "extractMessageRateAnomaly ip th =
     (case tbl_get (th_messages th) ip of None \<Rightarrow> 0 | Some n \<Rightarrow> min 1 (of_nat (unat n) / 1000))"

definition extractBehaviorScore :: "peer \<Rightarrow> rat" where
  "extractBehaviorScore p = min 1 (of_int (pr_ban_score p) / 100 + (if pr_handshake p then 0 else 3 / 10))"

definition calculateThreatScore :: "peer \<Rightarrow> 'f threats \<Rightarrow> rat" where
  "calculateThreatScore p th = min 1 (0 + extractConnectionFrequency (htonl (pa_ip (pr_addr p))) th * (3 / 10))"

definition detectEclipseAttack :: "addrman \<Rightarrow> bool" where
  "detectEclipseAttack am = False"

subsection \<open>The client of the bootstrap service\<close>

record boot_ws =
  bw_node :: string
  bw_connected :: bool
  bw_running :: bool
  bw_last :: u64
  bw_log :: "string list"

definition boot_ws_new :: "string \<Rightarrow> boot_ws" where
  "boot_ws_new node = \<lparr>bw_node = node, bw_connected = False, bw_running = False, bw_last = 0, bw_log = []\<rparr>"

definition boot_connect :: "boot_ws \<Rightarrow> bool \<times> boot_ws" where
  "boot_connect b = (if bw_connected b then (True, b) else (True, b\<lparr>bw_connected := True, bw_running := True\<rparr>))"

definition boot_disconnect :: "boot_ws \<Rightarrow> boot_ws" where
  "boot_disconnect b = (if \<not> bw_running b then b else b\<lparr>bw_running := False, bw_connected := False\<rparr>)"

definition sendWebSocketMessage :: "string \<Rightarrow> boot_ws \<Rightarrow> bool \<times> boot_ws" where
  "sendWebSocketMessage message b = (True, b\<lparr>bw_log := bw_log b @ [message]\<rparr>)"

text \<open>A text between quotation marks, unescaped, and the members of a document.\<close>

definition quoted :: "string \<Rightarrow> string" where
  "quoted s = [CHR 0x22] @ s @ [CHR 0x22]"

fun commas :: "string list \<Rightarrow> string" where
  "commas [] = []"
| "commas [s] = s"
| "commas (s # ss) = s @ '','' @ commas ss"

text \<open>\<open>metrics\<close> in the order of their names, with the numbers as they are printed.\<close>

definition sendHeartbeat :: "u64 \<Rightarrow> (string \<times> string) list \<Rightarrow> boot_ws \<Rightarrow> boot_ws" where
  "sendHeartbeat now metrics b =
     (if \<not> bw_connected b \<or> now - bw_last b < 30 then b
      else
        let message = ''{'' @ quoted ''type'' @ '':'' @ quoted ''heartbeat'' @ '','' @ quoted ''node_id'' @ '':'' @ quoted (bw_node b) @
              '','' @ quoted ''timestamp'' @ '':'' @ dec_string (unat now) @ '','' @ quoted ''metrics'' @ '':{'' @
              commas (map (\<lambda>(key, v). quoted key @ '':'' @ v) metrics) @ ''}}'' in
        case sendWebSocketMessage message b of (sent, b') \<Rightarrow> if sent then b'\<lparr>bw_last := now\<rparr> else b')"

definition reportThreat :: "netenv \<Rightarrow> u64 \<Rightarrow> string \<Rightarrow> string \<Rightarrow> string \<Rightarrow> boot_ws \<Rightarrow> boot_ws" where
  "reportThreat ne now threatType severity details b =
     (if \<not> sentinelEnabled ne \<or> \<not> bw_connected b then b
      else snd (sendWebSocketMessage
        (''{'' @ quoted ''type'' @ '':'' @ quoted ''report_threat'' @ '','' @ quoted ''threat_data'' @ '':{'' @
         quoted ''threat_type'' @ '':'' @ quoted threatType @ '','' @ quoted ''severity'' @ '':'' @ quoted severity @ '','' @
         quoted ''details'' @ '':'' @ quoted details @ '','' @ quoted ''timestamp'' @ '':'' @ dec_string (unat now) @ ''}}'') b))"

text \<open>A whole number as \<open>std::to_string\<close> prints it from a double.\<close>

definition whole :: "nat \<Rightarrow> string" where
  "whole n = dec_string n @ ''.000000''"

definition reportNodeStatus :: "sentinel_env \<Rightarrow> nat \<Rightarrow> boot_ws \<Rightarrow> boot_ws" where
  "reportNodeStatus se peers b =
     (if \<not> bw_connected b then b
      else sendHeartbeat (se_wall se) [(''peer_count'', whole peers), (''uptime_seconds'', se_uptime se)] b)"

text \<open>The callback a message asks for, with the fixed arguments it gets.\<close>

datatype boot_call = Call_Threat string string string | Call_Defense string string | Call_Peers "peer_addr list"

definition handleMessage :: "string \<Rightarrow> boot_call option" where
  "handleMessage message =
     (let kind = (\<lambda>name. contains_text message (quoted ''type'' @ '':'' @ quoted name)) in
      if kind ''threat_detected'' then Some (Call_Threat ''ddos_attack'' ''high'' ''Threat detected by Sentinel AI'')
      else if kind ''defense_activated'' then Some (Call_Defense ''rate_limit'' ''Defense mechanism activated'')
      else if kind ''node_registered'' then Some (Call_Peers [])
      else None)"

text \<open>The callbacks for threats and defenses only log.\<close>

definition boot_callback :: "u64 \<Rightarrow> boot_call \<Rightarrow> server \<Rightarrow> server" where
  "boot_callback now call sv =
     (case call of
        Call_Threat threatType severity details \<Rightarrow> sv
      | Call_Defense defenseType details \<Rightarrow> sv
      | Call_Peers addrs \<Rightarrow> onBootstrapPeerDiscovery now addrs sv)"

subsection \<open>Alerts\<close>

text \<open>The state of a pass: the connections as they were copied, each with whether it is still listed, and
  what the subscribers of the daemon's own WebSocket are shown.\<close>

record watch =
  wa_pool :: "(bool \<times> peer) list"
  wa_server :: server
  wa_boot :: boot_ws
  wa_conns :: "ws_conn list"
  wa_shown :: "(ws_conn \<times> json) list"

definition listed :: "watch \<Rightarrow> peer list" where
  "listed w = map snd (filter fst (wa_pool w))"

definition on_listed :: "(peer \<Rightarrow> peer) \<Rightarrow> watch \<Rightarrow> watch" where
  "on_listed f w = w\<lparr>wa_pool := map (\<lambda>(there, p). (there, if there then f p else p)) (wa_pool w)\<rparr>"

definition broadcast_topic :: "(ws_conn \<Rightarrow> bool) \<Rightarrow> string \<Rightarrow> json \<Rightarrow> ws_conn list \<Rightarrow> (ws_conn \<times> json) list" where
  "broadcast_topic subscribed name body conns = map (\<lambda>c. (c, ws_event name body)) (filter subscribed conns)"

definition broadcast_threat :: "json \<Rightarrow> ws_conn list \<Rightarrow> (ws_conn \<times> json) list" where
  "broadcast_threat = broadcast_topic wc_threats ''threat''"

definition broadcast_bucket_update :: "json \<Rightarrow> ws_conn list \<Rightarrow> (ws_conn \<times> json) list" where
  "broadcast_bucket_update = broadcast_topic wc_bucket ''bucket''"

definition broadcast_block :: "json \<Rightarrow> ws_conn list \<Rightarrow> (ws_conn \<times> json) list" where
  "broadcast_block = broadcast_topic wc_blocks ''block''"

definition alert_json :: "(u64 option \<Rightarrow> string) \<Rightarrow> u64 option threat_alert \<Rightarrow> json" where
  "alert_json percent alert =
     JObject [(''type'', JString (ta_type alert)), (''severity'', JString (ta_severity alert)),
       (''source_ip'', JString (inet_ntop (ta_source_ip alert))), (''timestamp'', JUint (ta_timestamp alert)),
       (''details'', JString (ta_details alert)), (''reporting_node_id'', JString (ta_node alert)),
       (''confidence'', JFloat (percent (ta_confidence alert)))]"

definition broadcastThreatAlert :: "sentinel_env \<Rightarrow> u64 option threat_alert \<Rightarrow> watch \<Rightarrow> watch" where
  "broadcastThreatAlert se alert w =
     (if \<not> sentinelEnabled (se_net se) then w
      else
        let payload = serializeThreatAlert (\<lambda>c. case c of Some n \<Rightarrow> n | None \<Rightarrow> 0) alert;
            w1 = on_listed (\<lambda>p. if pr_handshake p then sendMessage (se_net se) M_Threat_Alert payload p else p) w in
        w1\<lparr>wa_shown := wa_shown w1 @ broadcast_threat (alert_json (se_percent se) alert) (wa_conns w1)\<rparr>)"

text \<open>A peer of the alert's address, or with a score above 0.7.\<close>

definition sybil_peer :: "u32 \<Rightarrow> 'f threats \<Rightarrow> peer \<Rightarrow> bool" where
  "sybil_peer source th p \<longleftrightarrow> htonl (pa_ip (pr_addr p)) = source \<or> calculateThreatScore p th > 7 / 10"

definition defend_all :: "sentinel_env \<Rightarrow> u64 option threat_alert \<Rightarrow> watch \<Rightarrow> watch" where
  "defend_all se alert w =
     (if \<not> sentinelEnabled (se_net se) then w
      else
        let w1 =
          (if ta_type alert = ''ddos_attack'' then w\<lparr>wa_server := ban_ip (se_net se) (htonl (ta_source_ip alert)) (wa_server w)\<rparr>
           else if ta_type alert = ''sybil_attack'' then
             w\<lparr>wa_pool := map (\<lambda>(there, p).
                 if there \<and> sybil_peer (ta_source_ip alert) (sv_threats (wa_server w)) p then (False, disconnectPeer p) else (there, p))
               (wa_pool w)\<rparr>
           else w) in
        w1\<lparr>wa_boot := reportNodeStatus se (length (listed w1)) (wa_boot w1)\<rparr>)"

subsection \<open>The thread\<close>

definition raise_alert :: "sentinel_env \<Rightarrow> bool \<Rightarrow> u64 option threat_alert \<Rightarrow> watch \<Rightarrow> watch" where
  "raise_alert se defend alert w =
     (let sv = wa_server w;
          w1 = broadcastThreatAlert se alert (w\<lparr>wa_server := sv\<lparr>sv_threats := recordThreat alert (sv_threats sv)\<rparr>\<rparr>) in
      if defend then defend_all se alert w1 else w1)"

definition own_alert :: "sentinel_env \<Rightarrow> string \<Rightarrow> string \<Rightarrow> u32 \<Rightarrow> string \<Rightarrow> u64 \<Rightarrow> watch \<Rightarrow> u64 option threat_alert" where
  "own_alert se kind severity source details confidence w =
     \<lparr>ta_type = kind, ta_severity = severity, ta_source_ip = source, ta_timestamp = of_int (ne_ticks (se_net se)),
      ta_details = details, ta_node = bw_node (wa_boot w), ta_confidence = Some confidence\<rparr>"

definition check_ddos :: "sentinel_env \<Rightarrow> watch \<Rightarrow> watch" where
  "check_ddos se w =
     (if detectDDoSPattern (map (\<lambda>(_, p). htonl (pa_ip (pr_addr p))) (wa_pool w))
      then raise_alert se True (own_alert se ''ddos_attack'' ''high'' 0
             ''Detected abnormal connection flood from multiple sources'' 850000 w) w
      else w)"

definition check_sybil :: "sentinel_env \<Rightarrow> watch \<Rightarrow> watch" where
  "check_sybil se w =
     (if detectSybilAttack (map (\<lambda>(_, p). pr_agent p) (wa_pool w))
      then raise_alert se True (own_alert se ''sybil_attack'' ''high'' 0
             ''Detected multiple nodes with identical characteristics'' 780000 w) w
      else w)"

definition check_eclipse :: "sentinel_env \<Rightarrow> watch \<Rightarrow> watch" where
  "check_eclipse se w =
     (if detectEclipseAttack (sv_addrman (wa_server w))
      then raise_alert se True (own_alert se ''eclipse_attack'' ''critical'' 0
             ''Detected lack of peer diversity - possible eclipse attack'' 720000 w) w
      else w)"

text \<open>The peer at a position of the copy. A score is broadcast in millionths, cut off.\<close>

definition score_peer :: "sentinel_env \<Rightarrow> nat \<Rightarrow> watch \<Rightarrow> watch" where
  "score_peer se i w =
     (case wa_pool w ! i of
        (there, p) \<Rightarrow>
          let score = calculateThreatScore p (sv_threats (wa_server w)) in
          if \<not> score > 8 / 10 then w
          else
            let w1 = raise_alert se False (own_alert se ''suspicious_behavior'' (if score > 9 / 10 then ''critical'' else ''high'')
                       (htonl (pa_ip (pr_addr p))) ''ML detected abnormal peer behavior patterns'' (of_int \<lfloor>score * 1000000\<rfloor>) w) w in
            (case wa_pool w1 ! i of
               (there', q) \<Rightarrow>
                 let q1 = increaseBanScore 50 q in
                 w1\<lparr>wa_pool := (wa_pool w1)[i := (there', if shouldBan q1 then disconnectPeer q1 else q1)]\<rparr>))"

definition detection_pass :: "sentinel_env \<Rightarrow> watch \<Rightarrow> watch" where
  "detection_pass se w =
     (if \<not> sentinelEnabled (se_net se) then w
      else fold (score_peer se) [0 ..< length (wa_pool w)] (check_eclipse se (check_sybil se (check_ddos se w))))"

text \<open>The heartbeat at the end of a pass of the bootstrap thread.\<close>

definition send_metrics :: "sentinel_env \<Rightarrow> nat \<Rightarrow> server \<Rightarrow> boot_ws \<Rightarrow> boot_ws" where
  "send_metrics se peers sv b =
     (if bw_connected b
      then sendHeartbeat (se_wall se)
        [(''best_height'', whole (unat (sv_best_height sv))), (''peer_count'', whole peers), (''uptime_seconds'', se_uptime se)] b
      else b)"

subsection \<open>What the detection does\<close>

text \<open>
  The local detection of attacks does nothing to peers: a score is at most 0.3, below every
  threshold, and the alerts the daemon raises itself name the address 0.0.0.0.
\<close>

subsection \<open>Bounds of scores\<close>

lemma frequency_bounds: "0 \<le> extractConnectionFrequency ip th \<and> extractConnectionFrequency ip th \<le> 1"
  by (simp add: extractConnectionFrequency_def split: option.split)

lemma score_bound: "calculateThreatScore p th \<le> 3 / 10"
proof -
  have "extractConnectionFrequency ip th * (3 / 10) \<le> 1 * (3 / 10)" for ip
    using frequency_bounds [of ip th] by (intro mult_right_mono) auto
  then have "extractConnectionFrequency ip th * (3 / 10) \<le> 3 / 10" for ip by simp
  then show ?thesis unfolding calculateThreatScore_def add_0 by (intro min.coboundedI2)
qed

lemma score_low [simp]: "\<not> 7 < calculateThreatScore p th * 10" "\<not> 8 < calculateThreatScore p th * 10"
  using score_bound [of p th] by linarith+

lemma score_peer_id [simp]: "score_peer se i w = w"
proof -
  obtain there p where "wa_pool w ! i = (there, p)" by fastforce
  moreover have "\<not> calculateThreatScore p th > 8 / 10" for th :: "u64 option threats"
    using score_bound [of p th] by linarith
  ultimately show ?thesis
    by (simp only: score_peer_def Let_def prod.case if_True not_False_eq_True simp_thms)
qed

lemma fold_score [simp]: "fold (score_peer se) is w = w"
  by (induction "is") simp_all

subsection \<open>Peers that are left alone\<close>

text \<open>The connections to an address other than zero, and the bans of one.\<close>

definition bystanders :: "watch \<Rightarrow> (bool \<times> peer_addr \<times> int) list" where
  "bystanders w = map (\<lambda>(there, p). (there, pr_addr p, pr_ban_score p)) (filter (\<lambda>(there, p). pa_ip (pr_addr p) \<noteq> 0) (wa_pool w))"

definition bans :: "watch \<Rightarrow> (u32 \<times> u64) list" where
  "bans w = filter (\<lambda>(ip, until). ip \<noteq> 0) (am_banned (sv_addrman (wa_server w)))"

definition untouched :: "watch \<Rightarrow> watch \<Rightarrow> bool" where
  "untouched w w' \<longleftrightarrow> bystanders w' = bystanders w \<and> bans w' = bans w"

lemma untouched_refl [simp, intro]: "untouched w w"
  by (simp add: untouched_def)

lemma untouched_trans: "untouched a b \<Longrightarrow> untouched b c \<Longrightarrow> untouched a c"
  by (simp add: untouched_def)

lemma htonl_zero [simp]: "htonl ip = 0 \<longleftrightarrow> ip = 0" "htonl 0 = 0"
proof -
  show z: "htonl 0 = 0" by code_simp
  show "htonl ip = 0 \<longleftrightarrow> ip = 0" using z htonl_htonl [of ip] by metis
qed

lemma send_peer [simp]: "pr_addr (sendMessage ne ty payload p) = pr_addr p" "pr_ban_score (sendMessage ne ty payload p) = pr_ban_score p"
  by (simp_all add: sendMessage_def)

lemma bystanders_map:
  assumes "\<And>there p. pr_addr (snd (f (there, p))) = pr_addr p"
    "\<And>there p. pa_ip (pr_addr p) \<noteq> 0 \<Longrightarrow> fst (f (there, p)) = there \<and> pr_ban_score (snd (f (there, p))) = pr_ban_score p"
  shows "bystanders (w\<lparr>wa_pool := map f (wa_pool w)\<rparr>) = bystanders w"
proof -
  have "map (\<lambda>(there, p). (there, pr_addr p, pr_ban_score p)) (filter (\<lambda>(there, p). pa_ip (pr_addr p) \<noteq> 0) (map f ps)) =
    map (\<lambda>(there, p). (there, pr_addr p, pr_ban_score p)) (filter (\<lambda>(there, p). pa_ip (pr_addr p) \<noteq> 0) ps)" for ps
  proof (induction ps)
    case (Cons x ps)
    obtain there p where x: "x = (there, p)" by fastforce
    obtain there' q where f: "f (there, p) = (there', q)" by fastforce
    show ?case using Cons assms(1) [of there p] assms(2) [of p there] x f by auto
  qed simp
  then show ?thesis by (simp add: bystanders_def)
qed

lemma untouched_broadcast: "untouched w (broadcastThreatAlert se alert w)"
proof -
  have "bystanders (on_listed (\<lambda>p. if pr_handshake p then sendMessage ne ty payload p else p) w) = bystanders w" for ne ty payload
    unfolding on_listed_def by (rule bystanders_map) auto
  then show ?thesis
    by (simp add: untouched_def broadcastThreatAlert_def Let_def bystanders_def bans_def on_listed_def)
qed

lemma other_bans: "filter (\<lambda>(ip, until). ip \<noteq> k) (tbl_put t k v) = filter (\<lambda>(ip, until). ip \<noteq> k) t"
  by (induction t) (auto simp: tbl_put_def)

lemma untouched_defend: "ta_source_ip alert = 0 \<Longrightarrow> untouched w (defend_all se alert w)"
proof -
  assume z: "ta_source_ip alert = 0"
  have 1: "bystanders (w\<lparr>wa_pool := map (\<lambda>(there, p). if there \<and> sybil_peer 0 th p then (False, disconnectPeer p) else (there, p)) (wa_pool w)\<rparr>) =
    bystanders w" for th :: "u64 option threats"
    by (rule bystanders_map) (auto simp: sybil_peer_def disconnectPeer_def)
  have 2: "bans (w\<lparr>wa_server := ban_ip ne 0 (wa_server w)\<rparr>) = bans w" for ne
    by (simp add: bans_def ban_ip_def addr_ban_def no_addr_def other_bans)
  have 3: "bystanders (v\<lparr>wa_boot := b\<rparr>) = bystanders v" "bans (v\<lparr>wa_boot := b\<rparr>) = bans v"
    "bystanders (v\<lparr>wa_server := sv\<rparr>) = bystanders v" "bans (v\<lparr>wa_pool := ps\<rparr>) = bans v" for v b sv ps
    by (simp_all add: bystanders_def bans_def)
  show ?thesis using z by (simp add: untouched_def defend_all_def Let_def 1 2 3)
qed

lemma untouched_raise: "ta_source_ip alert = 0 \<Longrightarrow> untouched w (raise_alert se defend alert w)"
proof -
  assume z: "ta_source_ip alert = 0"
  let ?w = "w\<lparr>wa_server := wa_server w\<lparr>sv_threats := recordThreat alert (sv_threats (wa_server w))\<rparr>\<rparr>"
  have "untouched w ?w" by (simp add: untouched_def bystanders_def bans_def)
  from untouched_trans [OF this untouched_broadcast]
  have b: "untouched w (broadcastThreatAlert se alert ?w)" .
  from untouched_trans [OF this untouched_defend [OF z]] b
  show ?thesis by (simp add: raise_alert_def Let_def)
qed

lemma untouched_checks: "untouched w (check_ddos se w)" "untouched w (check_sybil se w)" "untouched w (check_eclipse se w)"
  by (simp_all add: check_ddos_def check_sybil_def check_eclipse_def own_alert_def untouched_raise)

text \<open>Local threat detection touches no peer. Whatever the connections, their scores, the addresses and
  the recorded threats, a pass of the detection thread leaves every connection to an address other than 0.0.0.0
  in the list with the ban score it had, and bans no other address. So neither a crowded subnet nor peers with
  one user agent get anybody disconnected, and the threshold for single peers is never reached.\<close>

theorem detection_touches_nobody:
  "bystanders (detection_pass se w) = bystanders w \<and> bans (detection_pass se w) = bans w"
proof -
  have "untouched w (check_eclipse se (check_sybil se (check_ddos se w)))"
    by (rule untouched_trans [OF untouched_checks(1) untouched_trans [OF untouched_checks(2) untouched_checks(3)]])
  then show ?thesis by (simp add: detection_pass_def untouched_def)
qed

subsection \<open>Alerts of peers\<close>

text \<open>One alert of a peer is enough to ban any address, also one nobody has seen.\<close>

lemma peer_bans_anyone:
  assumes "sentinelEnabled ne" "deserializeThreatAlert Some None payload = Got (Some alert)" "ta_severity alert = ''low''"
    "ta_confidence alert = Some n" "n > 800000" "handleThreatAlert ne payload (p, sv) = (p', sv')"
  shows "isBanned (sv_addrman sv') (ev_now (ne_ev ne)) (no_addr\<lparr>pa_ip := htonl (ta_source_ip alert)\<rparr>) \<longleftrightarrow>
    ev_now (ne_ev ne) < ev_now (ne_ev ne) + 86400"
  using assms by (auto simp: handleThreatAlert_def ban_ip_def addr_ban_def isBanned_def no_addr_def tbl.get_put)

end
