(* ===== verification/Purse.thy ===== *)
theory Purse
  imports Sentinel
begin

text \<open>
  The validator's purse (validator_purse.cpp): the balance of rewards, its history, and the file that keeps
  it with its backup. Amounts are doubles in the code; here they are of any type \<open>'f\<close>, with the operations
  of \<open>arith\<close> for what the code computes with them. \<open>purse_env\<close> holds the clock, the JSON library
  (printing throws on text that is not UTF-8) and what the file system refuses or cuts off; the files are
  \<open>purse_disk\<close>. The mutex is not modelled.
\<close>

subsection \<open>State\<close>

record 'f arith =
  fl_add :: "'f \<Rightarrow> 'f \<Rightarrow> 'f"
  fl_sub :: "'f \<Rightarrow> 'f \<Rightarrow> 'f"
  fl_mul :: "'f \<Rightarrow> 'f \<Rightarrow> 'f"
  fl_div :: "'f \<Rightarrow> 'f \<Rightarrow> 'f"
  fl_le :: "'f \<Rightarrow> 'f \<Rightarrow> bool"
  fl_less :: "'f \<Rightarrow> 'f \<Rightarrow> bool"
  fl_int :: "int \<Rightarrow> 'f"
  fl_trunc :: "'f \<Rightarrow> int"
  fl_text :: "'f \<Rightarrow> string"
  fl_read :: "string \<Rightarrow> 'f"

record 'f reward =
  re_height :: u64
  re_amount :: 'f
  re_block_reward :: 'f
  re_percentage :: 'f
  re_timestamp :: u64
  re_validators :: u32
  re_hash :: string

record 'f purse =
  pu_percentage :: 'f
  pu_dirty :: bool
  pu_balance :: 'f
  pu_earned :: 'f
  pu_withdrawn :: 'f
  pu_blocks :: u64
  pu_height :: u64
  pu_created :: u64
  pu_updated :: u64
  pu_wallet :: string
  pu_sweep :: bool
  pu_threshold :: 'f
  pu_recent :: "'f reward list"
  pu_version :: string

record purse_disk =
  pd_file :: "string option"
  pd_back :: "string option"
  pd_temp :: "string option"

record purse_env =
  pe_now :: u64
  pe_dump :: "json \<Rightarrow> string option"
  pe_parse :: "string \<Rightarrow> json option"
  pe_opens :: bool
  pe_back_opens :: bool
  pe_temp_opens :: bool
  pe_kept :: "string \<Rightarrow> string"
  pe_renames :: bool

subsection \<open>The document\<close>

definition num :: "'f arith \<Rightarrow> 'f \<Rightarrow> json" where
  "num fl x = JFloat (fl_text fl x)"

definition reward_json :: "'f arith \<Rightarrow> 'f reward \<Rightarrow> json" where
  "reward_json fl r =
     JObject [(''block_height'', JUint (re_height r)), (''amount'', num fl (re_amount r)),
       (''block_reward'', num fl (re_block_reward r)), (''percentage'', num fl (re_percentage r)),
       (''timestamp'', JUint (re_timestamp r)), (''validator_count'', JUint (ucast (re_validators r))),
       (''block_hash'', JString (re_hash r))]"

definition serialize_state :: "'f arith \<Rightarrow> 'f purse \<Rightarrow> json" where
  "serialize_state fl p =
     JObject [(''version'', JString (pu_version p)), (''total_balance'', num fl (pu_balance p)),
       (''lifetime_earned'', num fl (pu_earned p)), (''lifetime_withdrawn'', num fl (pu_withdrawn p)),
       (''blocks_validated'', JUint (pu_blocks p)), (''last_block_height'', JUint (pu_height p)),
       (''created_at'', JUint (pu_created p)), (''last_updated'', JUint (pu_updated p)),
       (''rewards_percentage'', num fl (pu_percentage p)), (''linked_wallet_address'', JString (pu_wallet p)),
       (''auto_sweep_enabled'', JBool (pu_sweep p)), (''auto_sweep_threshold'', num fl (pu_threshold p)),
       (''recent_rewards'', JArray (map (reward_json fl) (pu_recent p)))]"

text \<open>What \<open>value(k, dflt)\<close> makes of a member as a double, an \<open>int\<close>, a 64-bit number, text or a
  truth value; \<open>None\<close> is its exception.\<close>

definition get_double :: "'f arith \<Rightarrow> json \<Rightarrow> 'f option" where
  "get_double fl v =
     (case v of JUint n \<Rightarrow> Some (fl_int fl (uint n)) | JNegint n \<Rightarrow> Some (fl_int fl (sint n)) | JFloat t \<Rightarrow> Some (fl_read fl t) | _ \<Rightarrow> None)"

definition get_int :: "'f arith \<Rightarrow> json \<Rightarrow> int option" where
  "get_int fl v =
     (case v of
        JUint n \<Rightarrow> Some (sint (ucast n :: 32 word)) | JNegint n \<Rightarrow> Some (sint (ucast n :: 32 word))
      | JFloat t \<Rightarrow> Some (fl_trunc fl (fl_read fl t)) | JBool b \<Rightarrow> Some (if b then 1 else 0) | _ \<Rightarrow> None)"

definition get_u64 :: "'f arith \<Rightarrow> json \<Rightarrow> u64 option" where
  "get_u64 fl v = (case v of JUint n \<Rightarrow> Some n | JNegint n \<Rightarrow> Some n | JFloat t \<Rightarrow> Some (of_int (fl_trunc fl (fl_read fl t))) | _ \<Rightarrow> None)"

definition get_bool :: "json \<Rightarrow> bool option" where
  "get_bool v = (case v of JBool b \<Rightarrow> Some b | _ \<Rightarrow> None)"

definition value_or :: "(json \<Rightarrow> 'a option) \<Rightarrow> json \<Rightarrow> string \<Rightarrow> 'a \<Rightarrow> 'a option" where
  "value_or get j k dflt = (if \<not> is_object j then None else case jget j k of None \<Rightarrow> Some dflt | Some v \<Rightarrow> get v)"

text \<open>The members are read in order; after an exception the earlier ones stay.\<close>

type_synonym 'f reading = "json \<Rightarrow> 'f purse \<Rightarrow> 'f purse option"

definition member :: "(json \<Rightarrow> 'a option) \<Rightarrow> string \<Rightarrow> 'a \<Rightarrow> ('a \<Rightarrow> 'f purse \<Rightarrow> 'f purse) \<Rightarrow> 'f reading" where
  "member get k dflt put j p = map_option (\<lambda>v. put v p) (value_or get j k dflt)"

fun read_members :: "'f reading list \<Rightarrow> json \<Rightarrow> 'f purse \<Rightarrow> bool \<times> 'f purse" where
  "read_members [] j p = (True, p)"
| "read_members (f # fs) j p = (case f j p of None \<Rightarrow> (False, p) | Some p' \<Rightarrow> read_members fs j p')"

definition read_reward :: "'f arith \<Rightarrow> json \<Rightarrow> 'f reward option" where
  "read_reward fl j =
     (case (value_or (get_int fl) j ''block_height'' 0, value_or (get_double fl) j ''amount'' (fl_int fl 0),
            value_or (get_double fl) j ''block_reward'' (fl_int fl 0), value_or (get_double fl) j ''percentage'' (fl_int fl 0),
            value_or (get_int fl) j ''timestamp'' 0, value_or (get_int fl) j ''validator_count'' 0, value_or as_string j ''block_hash'' []) of
        (Some h, Some a, Some b, Some q, Some t, Some n, Some s) \<Rightarrow>
          Some \<lparr>re_height = of_int h, re_amount = a, re_block_reward = b, re_percentage = q, re_timestamp = of_int t,
                re_validators = of_int n, re_hash = s\<rparr>
      | _ \<Rightarrow> None)"

fun read_rewards :: "'f arith \<Rightarrow> json list \<Rightarrow> 'f purse \<Rightarrow> bool \<times> 'f purse" where
  "read_rewards fl [] p = (True, p)"
| "read_rewards fl (row # rows) p =
     (case read_reward fl row of
        None \<Rightarrow> (False, p) | Some r \<Rightarrow> read_rewards fl rows (p\<lparr>pu_recent := pu_recent p @ [r]\<rparr>))"

definition purse_members :: "'f arith \<Rightarrow> u64 \<Rightarrow> 'f reading list" where
  "purse_members fl now =
     [member as_string ''version'' ''1.0'' (\<lambda>v p. p\<lparr>pu_version := v\<rparr>),
      member (get_double fl) ''total_balance'' (fl_int fl 0) (\<lambda>v p. p\<lparr>pu_balance := v\<rparr>),
      member (get_double fl) ''lifetime_earned'' (fl_int fl 0) (\<lambda>v p. p\<lparr>pu_earned := v\<rparr>),
      member (get_double fl) ''lifetime_withdrawn'' (fl_int fl 0) (\<lambda>v p. p\<lparr>pu_withdrawn := v\<rparr>),
      member (get_int fl) ''blocks_validated'' 0 (\<lambda>v p. p\<lparr>pu_blocks := of_int v\<rparr>),
      member (get_int fl) ''last_block_height'' 0 (\<lambda>v p. p\<lparr>pu_height := of_int v\<rparr>),
      member (get_u64 fl) ''created_at'' now (\<lambda>v p. p\<lparr>pu_created := v\<rparr>),
      member (get_u64 fl) ''last_updated'' now (\<lambda>v p. p\<lparr>pu_updated := v\<rparr>),
      (\<lambda>j p. case jget j ''rewards_percentage'' of
               None \<Rightarrow> Some p | Some v \<Rightarrow> map_option (\<lambda>x. p\<lparr>pu_percentage := x\<rparr>) (get_double fl v)),
      member as_string ''linked_wallet_address'' [] (\<lambda>v p. p\<lparr>pu_wallet := v\<rparr>),
      member get_bool ''auto_sweep_enabled'' False (\<lambda>v p. p\<lparr>pu_sweep := v\<rparr>),
      member (get_double fl) ''auto_sweep_threshold'' (fl_int fl 0) (\<lambda>v p. p\<lparr>pu_threshold := v\<rparr>)]"

definition deserialize_state :: "'f arith \<Rightarrow> purse_env \<Rightarrow> string \<Rightarrow> 'f purse \<Rightarrow> bool \<times> 'f purse" where
  "deserialize_state fl e text p =
     (case pe_parse e text of
        None \<Rightarrow> (False, p)
      | Some j \<Rightarrow>
          (case read_members (purse_members fl (pe_now e)) j p of
             (False, p1) \<Rightarrow> (False, p1)
           | (True, p1) \<Rightarrow> read_rewards fl (case jarray j ''recent_rewards'' of None \<Rightarrow> [] | Some rows \<Rightarrow> rows) (p1\<lparr>pu_recent := []\<rparr>)))"

subsection \<open>Files\<close>

definition purse_exists :: "purse_disk \<Rightarrow> bool" where
  "purse_exists d \<longleftrightarrow> pd_file d \<noteq> None"

text \<open>The backup is emptied as soon as it opens, also when the purse does not.\<close>

definition create_backup :: "purse_env \<Rightarrow> purse_disk \<Rightarrow> purse_disk" where
  "create_backup e d =
     (case pd_file d of
        None \<Rightarrow> d
      | Some content \<Rightarrow> if \<not> pe_back_opens e then d else d\<lparr>pd_back := Some (if pe_opens e then pe_kept e content else [])\<rparr>)"

definition save_to_disk :: "'f arith \<Rightarrow> purse_env \<Rightarrow> 'f purse \<times> purse_disk \<Rightarrow> bool \<times> 'f purse \<times> purse_disk" where
  "save_to_disk fl e c =
     (case c of (p, d) \<Rightarrow>
        if \<not> pu_dirty p then (True, p, d)
        else
          let d1 = create_backup e d in
          (case pe_dump e (serialize_state fl p) of
             None \<Rightarrow> (False, p, d1)
           | Some text \<Rightarrow>
               if \<not> pe_temp_opens e then (False, p, d1)
               else if \<not> pe_renames e then (False, p, d1\<lparr>pd_temp := Some (pe_kept e text)\<rparr>)
               else (True, p\<lparr>pu_dirty := False\<rparr>, d1\<lparr>pd_file := Some (pe_kept e text), pd_temp := None\<rparr>)))"

text \<open>Never reached: \<open>deserialize_state\<close> catches every exception itself.\<close>

definition restore_from_backup :: "'f arith \<Rightarrow> purse_env \<Rightarrow> 'f purse \<times> purse_disk \<Rightarrow> bool \<times> 'f purse \<times> purse_disk" where
  "restore_from_backup fl e c =
     (case c of (p, d) \<Rightarrow>
        (case (if pe_back_opens e then pd_back d else None) of
           None \<Rightarrow> (False, p, d)
         | Some text \<Rightarrow>
             (case deserialize_state fl e text p of
                (False, p') \<Rightarrow> (False, p', d) | (True, p') \<Rightarrow> (True, p', if pe_opens e then d\<lparr>pd_file := Some (pe_kept e text)\<rparr> else d))))"

definition load_from_disk :: "'f arith \<Rightarrow> purse_env \<Rightarrow> 'f purse \<times> purse_disk \<Rightarrow> bool \<times> 'f purse \<times> purse_disk" where
  "load_from_disk fl e c =
     (case c of (p, d) \<Rightarrow>
        (case (if pe_opens e then pd_file d else None) of
           None \<Rightarrow> (False, p, d)
         | Some text \<Rightarrow> (case deserialize_state fl e text p of (ok, p') \<Rightarrow> (ok, p', d))))"

definition cleared :: "'f arith \<Rightarrow> u64 \<Rightarrow> 'f purse \<Rightarrow> 'f purse" where
  "cleared fl now p =
     p\<lparr>pu_balance := fl_int fl 0, pu_earned := fl_int fl 0, pu_withdrawn := fl_int fl 0, pu_blocks := 0, pu_height := 0,
       pu_created := now, pu_updated := now\<rparr>"

text \<open>The constructor; \<open>raw\<close> is the memory its numbers start with. \<open>None\<close> is its exception.\<close>

definition purse_open :: "'f arith \<Rightarrow> purse_env \<Rightarrow> 'f \<Rightarrow> 'f purse \<Rightarrow> purse_disk \<Rightarrow> ('f purse \<times> purse_disk) option" where
  "purse_open fl e percentage raw d =
     (if fl_le fl percentage (fl_int fl 0) \<or> fl_le fl (fl_int fl 1) percentage then None
      else
        let p = raw\<lparr>pu_percentage := percentage, pu_dirty := False, pu_wallet := [], pu_recent := [], pu_version := []\<rparr> in
        (case load_from_disk fl e (p, d) of
           (True, c) \<Rightarrow> Some c
         | (False, p1, d1) \<Rightarrow> Some (snd (save_to_disk fl e ((cleared fl (pe_now e) p1)\<lparr>pu_version := ''1.0''\<rparr>, d1)))))"

definition purse_close :: "'f arith \<Rightarrow> purse_env \<Rightarrow> 'f purse \<times> purse_disk \<Rightarrow> purse_disk" where
  "purse_close fl e c = (if pu_dirty (fst c) then snd (snd (save_to_disk fl e c)) else snd c)"

subsection \<open>Rewards and withdrawals\<close>

definition add_recent_reward :: "'f reward \<Rightarrow> 'f purse \<Rightarrow> 'f purse" where
  "add_recent_reward r p = p\<lparr>pu_recent := take 100 (r # pu_recent p)\<rparr>"

definition mark_dirty :: "'f purse \<Rightarrow> 'f purse" where
  "mark_dirty p = p\<lparr>pu_dirty := True\<rparr>"

definition validator_share :: "'f arith \<Rightarrow> 'f \<Rightarrow> u32 \<Rightarrow> 'f purse \<Rightarrow> 'f" where
  "validator_share fl block_reward count p =
     (if count > 0 then fl_div fl (fl_mul fl block_reward (pu_percentage p)) (fl_int fl (uint count)) else fl_int fl 0)"

text \<open>The amount, the purse, and what the subscribers of the bucket are shown.\<close>

definition add_reward ::
  "'f arith \<Rightarrow> purse_env \<Rightarrow> u64 \<Rightarrow> string \<Rightarrow> 'f \<Rightarrow> u32 \<Rightarrow> 'f purse \<Rightarrow> 'f \<times> 'f purse \<times> json list" where
  "add_reward fl e height hash block_reward count p =
     (let amount = validator_share fl block_reward count p in
      if height \<le> pu_height p \<or> fl_le fl amount (fl_int fl 0) then (fl_int fl 0, p, [])
      else
        let p1 = p\<lparr>pu_balance := fl_add fl (pu_balance p) amount, pu_earned := fl_add fl (pu_earned p) amount,
                   pu_blocks := pu_blocks p + 1, pu_height := height, pu_updated := pe_now e\<rparr>;
            entry = \<lparr>re_height = height, re_amount = amount, re_block_reward = block_reward, re_percentage = pu_percentage p,
                     re_timestamp = pe_now e, re_validators = count, re_hash = hash\<rparr> in
        (amount, mark_dirty (add_recent_reward entry p1),
         [JObject [(''balance'', num fl (pu_balance p1)), (''lifetime_earned'', num fl (pu_earned p1)),
            (''blocks_validated'', JUint (pu_blocks p1)), (''last_block_height'', JUint height),
            (''last_updated'', JUint (pe_now e)), (''wallet'', JString (pu_wallet p))]]))"

definition withdraw ::
  "'f arith \<Rightarrow> purse_env \<Rightarrow> 'f \<Rightarrow> 'f purse \<times> purse_disk \<Rightarrow> 'f \<times> ('f purse \<times> purse_disk) \<times> json list" where
  "withdraw fl e amount c =
     (case c of (p, d) \<Rightarrow>
        let taken = (if fl_le fl amount (fl_int fl 0) then pu_balance p else amount) in
        if fl_less fl (pu_balance p) taken then (fl_int fl 0, (p, d), [])
        else
          let p1 = mark_dirty (p\<lparr>pu_balance := fl_sub fl (pu_balance p) taken, pu_withdrawn := fl_add fl (pu_withdrawn p) taken,
                                 pu_updated := pe_now e\<rparr>) in
          (taken, snd (save_to_disk fl e (p1, d)),
           [JObject [(''balance'', num fl (pu_balance p1)), (''lifetime_withdrawn'', num fl (pu_withdrawn p1)),
              (''last_updated'', JUint (pe_now e)), (''wallet'', JString (pu_wallet p))]]))"

definition get_recent_rewards :: "nat \<Rightarrow> 'f purse \<Rightarrow> 'f reward list" where
  "get_recent_rewards limit p = take (min limit (length (pu_recent p))) (pu_recent p)"

definition purse_reset :: "'f arith \<Rightarrow> purse_env \<Rightarrow> 'f purse \<times> purse_disk \<Rightarrow> 'f purse \<times> purse_disk" where
  "purse_reset fl e c = (case c of (p, d) \<Rightarrow> snd (save_to_disk fl e ((cleared fl (pe_now e) p)\<lparr>pu_recent := []\<rparr>, d)))"

definition link_wallet :: "'f arith \<Rightarrow> purse_env \<Rightarrow> string \<Rightarrow> 'f purse \<times> purse_disk \<Rightarrow> bool \<times> 'f purse \<times> purse_disk" where
  "link_wallet fl e wallet c =
     (case c of (p, d) \<Rightarrow>
        if wallet = [] then (False, p, d)
        else (True, snd (save_to_disk fl e (mark_dirty (p\<lparr>pu_wallet := wallet, pu_updated := pe_now e\<rparr>), d))))"

definition set_auto_sweep :: "purse_env \<Rightarrow> bool \<Rightarrow> 'f \<Rightarrow> 'f purse \<Rightarrow> 'f purse" where
  "set_auto_sweep e enabled threshold p = mark_dirty (p\<lparr>pu_sweep := enabled, pu_threshold := threshold, pu_updated := pe_now e\<rparr>)"

definition should_auto_sweep :: "'f arith \<Rightarrow> 'f purse \<Rightarrow> bool" where
  "should_auto_sweep fl p =
     (if \<not> pu_sweep p \<or> pu_wallet p = [] then False
      else if fl_le fl (pu_threshold p) (fl_int fl 0) then fl_less fl (fl_int fl 0) (pu_balance p)
      else fl_le fl (pu_threshold p) (pu_balance p))"

definition get_network_max_percentage :: "'f arith \<Rightarrow> 'f" where
  "get_network_max_percentage fl = fl_read fl ''0.05''"

definition validate_percentage :: "'f arith \<Rightarrow> 'f \<Rightarrow> bool" where
  "validate_percentage fl percentage \<longleftrightarrow>
     fl_less fl (fl_int fl 0) percentage \<and> fl_le fl percentage (get_network_max_percentage fl)"

subsection \<open>The daemon's purse\<close>

text \<open>The constructor of the daemon: a purse when rewards are on, linked to the wallet that is configured.\<close>

definition daemon_purse :: "'f arith \<Rightarrow> purse_env \<Rightarrow> config \<Rightarrow> 'f \<Rightarrow> 'f purse \<Rightarrow> purse_disk \<Rightarrow> 'f purse option \<times> purse_disk" where
  "daemon_purse fl e cfg percentage raw d =
     (if \<not> cf_rewards cfg then (None, d)
      else case purse_open fl e percentage raw d of
          None \<Rightarrow> (None, d)
        | Some (p, d1) \<Rightarrow>
            if cf_wallet cfg = [] then (Some p, d1)
            else (case link_wallet fl e (cf_wallet cfg) (p, d1) of (_, p2, d2) \<Rightarrow> (Some p2, d2)))"

end
