(* ===== verification/Purse_Safe.thy ===== *)
theory Purse_Safe
  imports Purse Retarget
begin

text \<open>
  What the purse guarantees: a block is rewarded once, the history is the list of rewards, and a purse that
  was saved is the purse that is loaded. At the end, where the files do not keep what they should.
\<close>

subsection \<open>Rewards\<close>

datatype 'f purse_op = Op_Reward u64 string 'f u32 | Op_Withdraw 'f | Op_Link string | Op_Sweep bool 'f | Op_Save

definition reward_key :: "'f reward \<Rightarrow> u64 \<times> 'f" where
  "reward_key r = (re_height r, re_amount r)"

text \<open>An operation, with the rewards it granted: those that are announced.\<close>

fun purse_step ::
  "'f arith \<Rightarrow> purse_env \<Rightarrow> 'f purse_op \<Rightarrow> 'f purse \<times> purse_disk \<Rightarrow> (u64 \<times> 'f) list \<times> 'f purse \<times> purse_disk" where
  "purse_step fl e (Op_Reward height hash reward count) (p, d) =
     (case add_reward fl e height hash reward count p of
        (amount, p', shown) \<Rightarrow> (if shown = [] then [] else [(height, amount)], p', d))"
| "purse_step fl e (Op_Withdraw amount) c = (case withdraw fl e amount c of (_, c', _) \<Rightarrow> ([], c'))"
| "purse_step fl e (Op_Link wallet) c = ([], snd (link_wallet fl e wallet c))"
| "purse_step fl e (Op_Sweep enabled threshold) (p, d) = ([], set_auto_sweep e enabled threshold p, d)"
| "purse_step fl e Op_Save c = ([], snd (save_to_disk fl e c))"

fun purse_run ::
  "'f arith \<Rightarrow> (purse_env \<times> 'f purse_op) list \<Rightarrow> 'f purse \<times> purse_disk \<Rightarrow> (u64 \<times> 'f) list \<times> 'f purse \<times> purse_disk" where
  "purse_run fl [] c = ([], c)"
| "purse_run fl ((e, op) # ops) c =
     (case purse_step fl e op c of (g, c1) \<Rightarrow> (case purse_run fl ops c1 of (g', c') \<Rightarrow> (g @ g', c')))"

text \<open>The purse after the rewards \<open>g\<close>, as far as they count.\<close>

definition books :: "'f arith \<Rightarrow> (u64 \<times> 'f) list \<Rightarrow> 'f purse \<Rightarrow> 'f purse \<Rightarrow> bool" where
  "books fl g p p' \<longleftrightarrow>
     sorted_wrt (<) (pu_height p # map fst g) \<and> pu_height p' = last (pu_height p # map fst g) \<and>
     pu_blocks p' = pu_blocks p + of_nat (length g) \<and>
     pu_earned p' = foldl (fl_add fl) (pu_earned p) (map snd g) \<and>
     map reward_key (pu_recent p') = take 100 (rev g @ map reward_key (pu_recent p))"

lemma save_books: "snd (save_to_disk fl e (p, d)) = (p', d') \<Longrightarrow> p' = p \<or> p' = p\<lparr>pu_dirty := False\<rparr>"
  by (auto simp: save_to_disk_def Let_def split: if_splits option.splits)

lemma sorted_join:
  fixes x :: "'a :: linorder"
  shows "sorted_wrt (<) (x # xs) \<Longrightarrow> sorted_wrt (<) (last (x # xs) # ys) \<Longrightarrow> sorted_wrt (<) (x # xs @ ys)"
proof (induction xs arbitrary: x)
  case (Cons y xs)
  have "sorted_wrt (<) (y # xs @ ys)" using Cons.prems by (intro Cons.IH) simp_all
  moreover have "x < y" using Cons.prems(1) by simp
  ultimately show ?case by (auto intro: less_trans)
qed simp

lemma books_same:
  "length (pu_recent p) \<le> 100 \<Longrightarrow>
   (pu_height p', pu_blocks p', pu_earned p', pu_recent p') = (pu_height p, pu_blocks p, pu_earned p, pu_recent p) \<Longrightarrow>
   books fl [] p p'"
  by (simp add: books_def)

lemma books_trans: "books fl g p q \<Longrightarrow> books fl g' q r \<Longrightarrow> books fl (g @ g') p r"
proof -
  assume a: "books fl g p q" and b: "books fl g' q r"
  have "sorted_wrt (<) (pu_height p # map fst g @ map fst g')"
    using a b unfolding books_def by (intro sorted_join) auto
  moreover have "last (last (h # xs) # ys) = last (h # xs @ ys)" for h :: u64 and xs ys
    by (cases ys rule: rev_cases) simp_all
  moreover have "take 100 (rev g' @ take 100 (rev g @ xs)) = take 100 (rev g' @ rev g @ xs)" for xs
    by (auto simp: min_def)
  ultimately show ?thesis
    using a b unfolding books_def by (simp only: map_append foldl_append length_append of_nat_add rev_append append_assoc add.assoc)
qed

lemma step_books:
  assumes "length (pu_recent p) \<le> 100" "purse_step fl e op (p, d) = (g, p', d')"
  shows "books fl g p p' \<and> length (pu_recent p') \<le> 100"
proof (cases op)
  case (Op_Reward height hash reward count)
  show ?thesis
    using assms unfolding Op_Reward
    by (auto simp: add_reward_def Let_def books_def mark_dirty_def add_recent_reward_def reward_key_def take_map not_le split: if_splits)
next
  case (Op_Withdraw amount)
  then have "(pu_height p', pu_blocks p', pu_earned p', pu_recent p') = (pu_height p, pu_blocks p, pu_earned p, pu_recent p) \<and> g = []"
    using assms(2) by (auto simp: withdraw_def Let_def mark_dirty_def simp del: split_paired_Ex split: if_splits prod.splits dest!: save_books)
  then show ?thesis using assms(1) books_same by auto
next
  case (Op_Link wallet)
  then have "(pu_height p', pu_blocks p', pu_earned p', pu_recent p') = (pu_height p, pu_blocks p, pu_earned p, pu_recent p) \<and> g = []"
    using assms(2) by (auto simp: link_wallet_def mark_dirty_def split: if_splits prod.splits dest!: save_books)
  then show ?thesis using assms(1) books_same by auto
next
  case (Op_Sweep enabled threshold)
  then show ?thesis using assms by (auto simp: set_auto_sweep_def mark_dirty_def books_def)
next
  case Op_Save
  then have "(pu_height p', pu_blocks p', pu_earned p', pu_recent p') = (pu_height p, pu_blocks p, pu_earned p, pu_recent p) \<and> g = []"
    using assms(2) by (auto split: prod.splits dest!: save_books)
  then show ?thesis using assms(1) books_same by auto
qed

lemma run_books:
  "length (pu_recent p) \<le> 100 \<Longrightarrow> purse_run fl ops (p, d) = (g, p', d') \<Longrightarrow> books fl g p p'"
proof (induction ops arbitrary: p d g)
  case (Cons x ops)
  obtain e op where x: "x = (e, op)" by fastforce
  obtain g1 p1 d1 where s: "purse_step fl e op (p, d) = (g1, p1, d1)" by (metis prod.exhaust_sel)
  obtain g2 where r: "purse_run fl ops (p1, d1) = (g2, p', d')" "g = g1 @ g2"
    using Cons.prems(2) x s by (auto split: prod.splits)
  show ?case using step_books [OF Cons.prems(1) s] Cons.IH [OF _ r(1)] books_trans r(2) by blast
qed (simp add: books_same)


text \<open>Amounts as whole thousandths.\<close>

definition milli_arith :: "nat arith" where
  "milli_arith = \<lparr>fl_add = (+), fl_sub = (-), fl_mul = (\<lambda>a b. a * b div 1000), fl_div = (\<lambda>a b. a * 1000 div b),
     fl_le = (\<le>), fl_less = (<), fl_int = (\<lambda>n. 1000 * nat n), fl_trunc = (\<lambda>n. int (n div 1000)),
     fl_text = dec_string, fl_read = dec_val\<rparr>"

definition demo_purse :: "nat purse" where
  "demo_purse = \<lparr>pu_percentage = 10, pu_dirty = True, pu_balance = 7, pu_earned = 9, pu_withdrawn = 2, pu_blocks = 1, pu_height = 40,
     pu_created = 5, pu_updated = 6, pu_wallet = ''ps1'', pu_sweep = True, pu_threshold = 3,
     pu_recent = [\<lparr>re_height = 40, re_amount = 9, re_block_reward = 50, re_percentage = 2, re_timestamp = 6, re_validators = 1, re_hash = ''ab''\<rparr>],
     pu_version = ''1.0''\<rparr>"

definition demo_purse_env :: purse_env where
  "demo_purse_env = \<lparr>pe_now = 8, pe_dump = (\<lambda>_. Some ''doc''), pe_parse = (\<lambda>_. Some (serialize_state milli_arith demo_purse)),
     pe_opens = True, pe_back_opens = True, pe_temp_opens = True, pe_kept = id, pe_renames = True\<rparr>"

definition demo_purse_disk :: purse_disk where
  "demo_purse_disk = \<lparr>pd_file = None, pd_back = None, pd_temp = None\<rparr>"


subsection \<open>The file\<close>

lemma int32_keeps: "n < 0x80000000 \<Longrightarrow> scast (ucast n :: 32 word) = (n :: u64)"
proof -
  assume n: "n < 0x80000000"
  then have u: "uint n < 2 ^ 31" by (simp add: word_less_def)
  have "sint (ucast n :: 32 word) = signed_take_bit 31 (uint n)"
    by (simp add: sint_uint unsigned_ucast_eq signed_take_bit_take_bit)
  also have "\<dots> = uint n"
    using u order_trans [OF _ uint_ge_0 [of n], of "- (2 ^ 31)"] by (intro signed_take_bit_int_eq_self) simp_all
  finally have "word_of_int (sint (ucast n :: 32 word)) = n" by simp
  then show ?thesis by simp
qed

lemma u32_keeps: "ucast (ucast w :: u64) = (w :: u32)"
  by (rule ucast_up_ucast_id) (simp add: is_up)

text \<open>The numbers that are kept as an \<open>int\<close> are below 2 to the 31.\<close>

definition reward_small :: "'f reward \<Rightarrow> bool" where
  "reward_small r \<longleftrightarrow> re_height r < 0x80000000 \<and> re_timestamp r < 0x80000000"

definition amounts :: "'f purse \<Rightarrow> 'f list" where
  "amounts p = [pu_balance p, pu_earned p, pu_withdrawn p, pu_percentage p, pu_threshold p] @
     concat (map (\<lambda>r. [re_amount r, re_block_reward r, re_percentage r]) (pu_recent p))"

lemma get_num [simp]: "get_double fl (num fl x) = Some (fl_read fl (fl_text fl x))"
  by (simp add: get_double_def num_def)

lemma get_num_kinds [simp]: "get_int fl (JUint n) = Some (sint (ucast n :: 32 word))" "get_u64 fl (JUint n) = Some n" "get_bool (JBool b) = Some b"
  by (simp_all add: get_int_def get_u64_def get_bool_def)

lemma read_reward_back:
  "list_all (\<lambda>x. fl_read fl (fl_text fl x) = x) [re_amount r, re_block_reward r, re_percentage r] \<Longrightarrow> reward_small r \<Longrightarrow>
   read_reward fl (reward_json fl r) = Some r"
  by (simp add: read_reward_def reward_json_def value_or_def u32_keeps int32_keeps reward_small_def)

lemma read_rewards_back:
  assumes "list_all (\<lambda>r. list_all (\<lambda>x. fl_read fl (fl_text fl x) = x) [re_amount r, re_block_reward r, re_percentage r] \<and> reward_small r) rs"
  shows "read_rewards fl (map (reward_json fl) rs) p = (True, p\<lparr>pu_recent := pu_recent p @ rs\<rparr>)"
  using assms by (induction rs arbitrary: p) (simp_all add: read_reward_back)

lemma members_back:
  assumes "list_all (\<lambda>x. fl_read fl (fl_text fl x) = x) [pu_balance p, pu_earned p, pu_withdrawn p, pu_percentage p, pu_threshold p]"
    "pu_blocks p < 0x80000000" "pu_height p < 0x80000000"
  shows "read_members (purse_members fl now) (serialize_state fl p) q = (True, p\<lparr>pu_dirty := pu_dirty q, pu_recent := pu_recent q\<rparr>)"
  using assms
  by (simp add: purse_members_def member_def value_or_def serialize_state_def int32_keeps)

text \<open>What is saved is loaded. When a purse with unsaved changes is saved without a refusal, the next process
  opens it as it was: the same amounts, counters, wallet, sweep settings and history, whatever percentage the
  process was started with and whatever its memory held. It takes a JSON library that reads back what it printed,
  amounts that are printed exactly, and block numbers and times that fit an \<open>int\<close>.\<close>

theorem purse_survives:
  assumes "pu_dirty p" "save_to_disk fl e (p, d) = (True, p', d')"
    "pe_kept e text = text" "pe_dump e (serialize_state fl p) = Some text" "pe_parse e' text = Some (serialize_state fl p)" "pe_opens e'"
    "\<forall>x\<in>set (amounts p). fl_read fl (fl_text fl x) = x"
    "pu_blocks p < 0x80000000" "pu_height p < 0x80000000" "\<forall>r\<in>set (pu_recent p). reward_small r"
    "\<not> fl_le fl q (fl_int fl 0)" "\<not> fl_le fl (fl_int fl 1) q"
  shows "purse_open fl e' q raw d' = Some (p', d') \<and> p' = p\<lparr>pu_dirty := False\<rparr> \<and> pd_file d' = Some text \<and> pd_temp d' = None"
proof -
  have s: "p' = p\<lparr>pu_dirty := False\<rparr>" "pd_file d' = Some text" "pd_temp d' = None"
    using assms(1-4) by (auto simp: save_to_disk_def Let_def split: if_splits)
  let ?raw = "raw\<lparr>pu_percentage := q, pu_dirty := False, pu_wallet := [], pu_recent := [], pu_version := []\<rparr>"
  have "read_members (purse_members fl (pe_now e')) (serialize_state fl p) ?raw = (True, p\<lparr>pu_dirty := False, pu_recent := []\<rparr>)"
    using members_back [of fl p "pe_now e'" ?raw] assms(7-9) by (simp add: amounts_def)
  moreover have "read_rewards fl (map (reward_json fl) (pu_recent p)) (p\<lparr>pu_dirty := False, pu_recent := []\<rparr>) =
      (True, p\<lparr>pu_dirty := False\<rparr>)"
    using read_rewards_back [of fl "pu_recent p" "p\<lparr>pu_dirty := False, pu_recent := []\<rparr>"] assms(7,10)
    by (simp add: amounts_def list_all_iff)
  moreover have "jarray (serialize_state fl p) ''recent_rewards'' = Some (map (reward_json fl) (pu_recent p))"
    by (simp add: serialize_state_def jarray_def)
  ultimately have "deserialize_state fl e' text ?raw = (True, p\<lparr>pu_dirty := False\<rparr>)"
    using assms(5) by (simp add: deserialize_state_def)
  then show ?thesis
    using s assms(6,11,12) by (simp add: purse_open_def load_from_disk_def Let_def)
qed

lemma purse_survives_witness:
  "\<exists>d'. purse_open milli_arith (demo_purse_env\<lparr>pe_now := 99\<rparr>) 500 (demo_purse\<lparr>pu_balance := 3\<rparr>) d' =
       Some (demo_purse\<lparr>pu_dirty := False\<rparr>, d') \<and> pd_file d' = Some ''doc''"
proof -
  obtain p' d' where s: "save_to_disk milli_arith demo_purse_env (demo_purse, demo_purse_disk) = (True, p', d')"
    by (simp add: save_to_disk_def Let_def demo_purse_env_def demo_purse_def)
  let ?e = "demo_purse_env\<lparr>pe_now := 99\<rparr>"
  have e: "pe_kept demo_purse_env ''doc'' = ''doc''" "pe_dump demo_purse_env (serialize_state milli_arith demo_purse) = Some ''doc''"
      "pe_parse ?e ''doc'' = Some (serialize_state milli_arith demo_purse)" "pe_opens ?e"
    by (simp_all add: demo_purse_env_def)
  have p: "pu_dirty demo_purse" "\<forall>x\<in>set (amounts demo_purse). fl_read milli_arith (fl_text milli_arith x) = x"
      "pu_blocks demo_purse < 0x80000000" "pu_height demo_purse < 0x80000000" "\<forall>r\<in>set (pu_recent demo_purse). reward_small r"
      "\<not> fl_le milli_arith 500 (fl_int milli_arith 0)" "\<not> fl_le milli_arith (fl_int milli_arith 1) 500"
    by (simp_all add: amounts_def demo_purse_def milli_arith_def reward_small_def)
  show ?thesis using purse_survives [OF p(1) s e p(2-7), of "demo_purse\<lparr>pu_balance := 3\<rparr>"] by blast
qed


subsection \<open>Where the files do not keep it\<close>

text \<open>The numbers of a new purse and of one that was reset are not written: they are not marked as changed.\<close>

lemma new_purse_unsaved:
  "\<not> fl_le fl q (fl_int fl 0) \<Longrightarrow> \<not> fl_le fl (fl_int fl 1) q \<Longrightarrow> pd_file d = None \<Longrightarrow> \<exists>p. purse_open fl e q raw d = Some (p, d) \<and> \<not> pu_dirty p"
  by (simp add: purse_open_def load_from_disk_def Let_def save_to_disk_def cleared_def)

lemma reset_unsaved: "\<not> pu_dirty p \<Longrightarrow> snd (purse_reset fl e (p, d)) = d"
  by (simp add: purse_reset_def save_to_disk_def cleared_def)

text \<open>A new purse has the sweep settings that were in its memory.\<close>

lemma new_purse_sweep:
  "pd_file d = None \<Longrightarrow> purse_open fl e q raw d = Some (p, d') \<Longrightarrow> pu_sweep p = pu_sweep raw \<and> pu_threshold p = pu_threshold raw"
  by (auto simp: purse_open_def load_from_disk_def Let_def save_to_disk_def cleared_def split: if_splits)

text \<open>A file that cannot be read leaves an empty purse, whatever the backup holds.\<close>

lemma backup_unused:
  "pe_opens e \<Longrightarrow> pd_file d = Some text \<Longrightarrow> pe_parse e text = None \<Longrightarrow> purse_open fl e q raw d = Some (p, d') \<Longrightarrow>
   pu_balance p = fl_int fl 0 \<and> d' = d"
  by (auto simp: purse_open_def load_from_disk_def deserialize_state_def Let_def save_to_disk_def cleared_def split: if_splits)

text \<open>A reward of 2038 comes back with a time far beyond any clock.\<close>

lemma reward_2038:
  "read_reward milli_arith (reward_json milli_arith \<lparr>re_height = 1, re_amount = 1, re_block_reward = 1, re_percentage = 1,
      re_timestamp = 0x80000000, re_validators = 1, re_hash = []\<rparr>) =
   Some \<lparr>re_height = 1, re_amount = 1, re_block_reward = 1, re_percentage = 1, re_timestamp = 0xFFFFFFFF80000000, re_validators = 1, re_hash = []\<rparr>"
  by code_simp

text \<open>When the disk is full the purse is replaced by the part of it that could be written.\<close>

lemma cut_purse_replaces:
  "pu_dirty p \<Longrightarrow> pe_dump e (serialize_state fl p) = Some text \<Longrightarrow> pe_temp_opens e \<Longrightarrow> pe_renames e \<Longrightarrow>
   save_to_disk fl e (p, d) = (ok, p', d') \<Longrightarrow> ok \<and> \<not> pu_dirty p' \<and> pd_file d' = Some (pe_kept e text)"
  by (auto simp: save_to_disk_def Let_def)

end
