(* ===== verification/Fronts.thy ===== *)
theory Fronts
  imports Purse Http Update
begin

text \<open>
  The rest of the two JSON-RPC fronts (ws_server.cpp, rpc.cpp): the methods on peers, threats, the purse and
  releases, put together with those on the chain to the dispatch of each server; and the daemon that starts
  the parts (daemon.cpp, main.cpp). \<open>front_env\<close> joins the environments of the parts.
\<close>

record 'f front_env =
  fe_rpc :: rpc_env
  fe_dir :: dirnet
  fe_sentinel :: sentinel_env
  fe_fl :: "'f arith"
  fe_update :: upd_env
  fe_release :: string

record 'f front =
  fr_server :: server
  fr_peers :: "peer list"
  fr_hints :: "(string \<times> int) list"
  fr_purse :: "'f purse option"
  fr_files :: files
  fr_shown :: "(ws_conn \<times> json) list"

subsection \<open>Peers\<close>

definition self_row :: "dirnet \<Rightarrow> json" where
  "self_row dn =
     JObject [(''address'', JString (reachableHost dn)), (''port'', int_member (cf_p2p_port (dn_cfg dn))),
       (''host'', JString ''pisecure.local'')]"

definition hint_row :: "string \<times> int \<Rightarrow> json" where
  "hint_row hint = JObject [(''address'', JString (fst hint)), (''port'', int_member (snd hint)), (''hint'', JBool True)]"

definition ws_getpeers :: "dirnet \<Rightarrow> 'f front \<Rightarrow> json" where
  "ws_getpeers dn fr =
     JObject [(''count'', JUint (ucast (of_nat (length (fr_peers fr)) :: u32))), (''self'', self_row dn),
       (''hints'', JArray (map hint_row (fr_hints fr)))]"

definition http_getpeers :: "dirnet \<Rightarrow> 'f front \<Rightarrow> json" where
  "http_getpeers dn fr = JArray (self_row dn # map hint_row (fr_hints fr))"

subsection \<open>Threats\<close>

definition kDayTicks :: u64 where "kDayTicks = 24 * 3600 * 1000000000"

definition getNetworkThreats :: "netenv \<Rightarrow> server \<Rightarrow> u64 option threat_alert list" where
  "getNetworkThreats ne sv = getRecentThreats (of_int (ne_ticks ne)) kDayTicks (sv_threats sv)"

definition ws_getthreats :: "sentinel_env \<Rightarrow> server \<Rightarrow> json" where
  "ws_getthreats se sv = JObject [(''threats'', JArray (map (alert_json (se_percent se)) (getNetworkThreats (se_net se) sv)))]"

definition http_threat_row :: "(u64 option \<Rightarrow> string) \<Rightarrow> u64 option threat_alert \<Rightarrow> json" where
  "http_threat_row percent threat =
     JObject [(''type'', JString (ta_type threat)), (''ip'', JUint (ucast (ta_source_ip threat))),
       (''severity'', JFloat (percent (ta_confidence threat))), (''timestamp'', JUint (ta_timestamp threat))]"

text \<open>The window is the first parameter, an hour without one; \<open>None\<close> is an exception of the library.\<close>

definition http_getthreats :: "sentinel_env \<Rightarrow> 'f arith \<Rightarrow> json \<Rightarrow> server \<Rightarrow> json option" where
  "http_getthreats se fl params sv =
     (case (if json_empty params then Some 3600 else case params of JArray (w # _) \<Rightarrow> get_u64 fl w | _ \<Rightarrow> None) of
        None \<Rightarrow> None
      | Some window \<Rightarrow>
          Some (JArray (map (http_threat_row (se_percent se))
            (getRecentThreats (of_int (ne_ticks (se_net se))) window (sv_threats sv)))))"

text \<open>An alert over HTTP. Its fields that are not given stay empty, and its confidence is kept in millionths here.\<close>

definition http_reportthreat :: "sentinel_env \<Rightarrow> 'f arith \<Rightarrow> ('f \<Rightarrow> u64) \<Rightarrow> json \<Rightarrow> server \<Rightarrow> (string option + json) \<times> server" where
  "http_reportthreat se fl millionths params sv =
     (if json_empty params then (Inl (Some ''Missing threat details''), sv)
      else
        let opt = (\<lambda>k. jget params k) in
        case (case opt ''type'' of None \<Rightarrow> Some ''unknown'' | Some v \<Rightarrow> as_string v,
              case opt ''ip'' of None \<Rightarrow> Some 0 | Some v \<Rightarrow> get_int fl v,
              case opt ''severity'' of None \<Rightarrow> Some (fl_read fl ''0.5'') | Some v \<Rightarrow> get_double fl v) of
          (Some kind, Some ip, Some severity) \<Rightarrow>
            let alert = \<lparr>ta_type = kind, ta_severity = [], ta_source_ip = of_int ip, ta_timestamp = se_wall se,
                         ta_details = [], ta_node = [], ta_confidence = Some (millionths severity)\<rparr> in
            (Inr (JObject [(''status'', JString ''recorded''), (''threat_id'', JString kind)]),
             sv\<lparr>sv_threats := recordThreat alert (sv_threats sv)\<rparr>)
        | _ \<Rightarrow> (Inl None, sv))"

text \<open>\<open>sscanf\<close> with \<open>%u\<close>: blanks, a sign, digits; a number beyond 64 bits is all ones.\<close>

definition scan_u :: "string \<Rightarrow> (u32 \<times> string) option" where
  "scan_u text =
     (let s = dropWhile is_blank text;
          neg = (s \<noteq> [] \<and> s ! 0 = CHR ''-'');
          d = (if s \<noteq> [] \<and> (s ! 0 = CHR ''-'' \<or> s ! 0 = CHR ''+'') then drop 1 s else s);
          digits = takeWhile (\<lambda>c. in_range c CHR ''0'' CHR ''9'') d;
          v = dec_val digits in
      if digits = [] then None
      else Some (if v \<ge> 2 ^ 64 then - 1 else if neg then - of_nat v else of_nat v, drop (length digits) d))"

definition scan_dot :: "string \<Rightarrow> string option" where
  "scan_dot s = (case s of c # cs \<Rightarrow> if c = CHR ''.'' then Some cs else None | [] \<Rightarrow> None)"

fun scan_parts :: "nat \<Rightarrow> string \<Rightarrow> u32 list option" where
  "scan_parts 0 s = Some []"
| "scan_parts (Suc n) s =
     (case scan_u s of
        None \<Rightarrow> None
      | Some (v, rest) \<Rightarrow>
          if n = 0 then Some [v]
          else (case scan_dot rest of None \<Rightarrow> None | Some cs \<Rightarrow> map_option ((#) v) (scan_parts n cs)))"

definition scan_ip :: "string \<Rightarrow> u32" where
  "scan_ip s =
     (case scan_parts 4 s of
        Some [a, b, c, d] \<Rightarrow> push_bit 24 a OR push_bit 16 b OR push_bit 8 c OR d | _ \<Rightarrow> 0)"

definition json_size :: "json \<Rightarrow> nat" where
  "json_size j = (case j of JNull \<Rightarrow> 0 | JArray xs \<Rightarrow> length xs | JObject kvs \<Rightarrow> length kvs | _ \<Rightarrow> 1)"

definition text_param :: "json \<Rightarrow> nat \<Rightarrow> string \<Rightarrow> string option" where
  "text_param params i dflt =
     (if json_size params > i then (case params of JArray xs \<Rightarrow> as_string (xs ! i) | _ \<Rightarrow> None) else Some dflt)"

definition reported_alert :: "sentinel_env \<Rightarrow> json \<Rightarrow> u64 option threat_alert option" where
  "reported_alert se params =
     (case (text_param params 0 ''unknown'', text_param params 1 ''low'', text_param params 2 ''0.0.0.0'', text_param params 3 []) of
        (Some kind, Some severity, Some source, Some details) \<Rightarrow>
          Some \<lparr>ta_type = kind, ta_severity = severity, ta_source_ip = scan_ip source, ta_timestamp = se_wall se,
                ta_details = details, ta_node = ''local'', ta_confidence = Some 800000\<rparr>
      | _ \<Rightarrow> None)"

text \<open>The alert goes to the peers and the subscribers; it is not recorded.\<close>

definition ws_reportthreat :: "sentinel_env \<Rightarrow> json \<Rightarrow> watch \<Rightarrow> (json \<times> watch) option" where
  "ws_reportthreat se params w =
     (case reported_alert se params of
        None \<Rightarrow> None
      | Some alert \<Rightarrow>
          Some (if \<not> sentinelEnabled (se_net se) then (JObject [(''status'', JString ''disabled'')], w)
                else (JObject [(''status'', JString ''recorded'')], broadcastThreatAlert se alert w)))"

subsection \<open>Purse and releases\<close>

definition validator_stats :: "'f arith \<Rightarrow> 'f purse \<Rightarrow> (string \<times> json) list" where
  "validator_stats fl p =
     [(''linked_wallet'', JString (pu_wallet p)), (''auto_sweep_enabled'', JBool (should_auto_sweep fl p))]"

definition bucket_status :: "'f arith \<Rightarrow> 'f purse \<Rightarrow> json" where
  "bucket_status fl p =
     JObject ([(''current_balance'', num fl (pu_balance p)), (''lifetime_earned'', num fl (pu_earned p))] @ validator_stats fl p)"

definition validator_http :: "'f arith \<Rightarrow> 'f purse \<Rightarrow> json" where
  "validator_http fl p = JObject (validator_stats fl p @ [(''total_rewards_percentage'', num fl (fl_read fl ''0.01''))])"

text \<open>What a new subscriber of the bucket is shown.\<close>

definition bucket_snapshot :: "'f arith \<Rightarrow> 'f purse \<Rightarrow> json" where
  "bucket_snapshot fl p =
     JObject [(''balance'', num fl (pu_balance p)), (''lifetime_earned'', num fl (pu_earned p)),
       (''lifetime_withdrawn'', num fl (pu_withdrawn p)), (''blocks_validated'', JUint (pu_blocks p)),
       (''last_block_height'', JUint (pu_height p)), (''last_updated'', JUint (pu_updated p)), (''wallet'', JString (pu_wallet p))]"

definition kAvailable :: string where "kAvailable = ''/var/lib/pisecure/update-available.json''"

definition report_json :: "report \<Rightarrow> json" where
  "report_json r =
     (let opt = (\<lambda>k v. if v \<noteq> [] then [(k, JString v)] else []) in
      JObject ([(''status'', JString (case rp_kind r of Rep_Newer \<Rightarrow> ''available'' | Rep_Current \<Rightarrow> ''current'' | Rep_Skipped \<Rightarrow> ''skipped'')),
        (''line'', JString (rp_line r))] @ opt ''tag'' (rp_tag r) @ opt ''url'' (rp_url r) @ opt ''sha256'' (rp_sha256 r)))"

definition checkupdate :: "upd_env \<Rightarrow> string \<Rightarrow> files \<Rightarrow> (json \<times> files) option" where
  "checkupdate ue release fs =
     (case check_release ue release fs of
        None \<Rightarrow> None
      | Some (r, fs1) \<Rightarrow> Some (report_json r, if rp_kind r = Rep_Newer then snd (write_available ue kAvailable r fs1) else fs1))"

subsection \<open>Dispatch\<close>

text \<open>The watch that an alert of a client goes through: the peers of the server, and the connections of the
  server's own WebSocket.\<close>

definition watch_of :: "ws_conn list \<Rightarrow> boot_ws \<Rightarrow> 'f front \<Rightarrow> watch" where
  "watch_of conns b fr =
     \<lparr>wa_pool = map (Pair True) (fr_peers fr), wa_server = fr_server fr, wa_boot = b, wa_conns = conns, wa_shown = []\<rparr>"

definition or_throw :: "'f front_env \<Rightarrow> json option \<Rightarrow> called" where
  "or_throw fe r = (case r of None \<Rightarrow> C_Throw (rq_what (fe_rpc fe)) | Some doc \<Rightarrow> C_Result doc)"

definition update_method :: "'f front_env \<Rightarrow> 'f front \<Rightarrow> called \<times> 'f front" where
  "update_method fe fr =
     (case checkupdate (fe_update fe) (fe_release fe) (fr_files fr) of
        None \<Rightarrow> (C_Throw (rq_what (fe_rpc fe)), fr) | Some (doc, fs) \<Rightarrow> (C_Result doc, fr\<lparr>fr_files := fs\<rparr>))"

definition ws_dispatch ::
  "'f front_env \<Rightarrow> ws_conn list \<Rightarrow> boot_ws \<Rightarrow> string \<Rightarrow> json \<Rightarrow> ws_conn \<times> 'f front \<Rightarrow> called \<times> ws_conn \<times> 'f front" where
  "ws_dispatch fe conns b method params c =
     (case c of (wc, fr) \<Rightarrow>
        let fl = fe_fl fe; se = fe_sentinel fe in
        if method = ''getpeers'' then (C_Result (ws_getpeers (fe_dir fe) fr), wc, fr)
        else if method = ''getthreats'' then (C_Result (ws_getthreats se (fr_server fr)), wc, fr)
        else if method = ''reportthreat'' then
          (case ws_reportthreat se params (watch_of conns b fr) of
             None \<Rightarrow> (C_Throw (rq_what (fe_rpc fe)), wc, fr)
           | Some (doc, w) \<Rightarrow> (C_Result doc, wc, fr\<lparr>fr_server := wa_server w, fr_peers := listed w, fr_shown := fr_shown fr @ wa_shown w\<rparr>))
        else if method = ''getvalidatorstats'' then
          (case fr_purse fr of
             None \<Rightarrow> C_Throw ''validator bucket not available'' | Some p \<Rightarrow> C_Result (JObject (validator_stats fl p)), wc, fr)
        else if method = ''getbucketstatus'' then
          (case fr_purse fr of
             None \<Rightarrow> C_Throw ''validator bucket not available'' | Some p \<Rightarrow> C_Result (bucket_status fl p), wc, fr)
        else if method = ''checkupdate'' then (case update_method fe fr of (r, fr') \<Rightarrow> (r, wc, fr'))
        else (case ws_method ((fe_rpc fe)\<lparr>rq_other := \<lambda>_ _. C_Unknown, rq_peers := of_nat (length (fr_peers fr))\<rparr>) method params
                     (wc, fr_server fr) of
                (r, wc', sv) \<Rightarrow> (r, wc', fr\<lparr>fr_server := sv\<rparr>)))"

definition http_dispatch :: "'f front_env \<Rightarrow> ('f \<Rightarrow> u64) \<Rightarrow> string \<Rightarrow> json \<Rightarrow> 'f front \<Rightarrow> called \<times> 'f front" where
  "http_dispatch fe millionths method params fr =
     (let fl = fe_fl fe; se = fe_sentinel fe in
      if method = ''getpeers'' then (C_Result (http_getpeers (fe_dir fe) fr), fr)
      else if method = ''getthreats'' then (or_throw fe (http_getthreats se fl params (fr_server fr)), fr)
      else if method = ''reportthreat'' then
        (case http_reportthreat se fl millionths params (fr_server fr) of
           (Inl why, sv) \<Rightarrow> (C_Throw (case why of None \<Rightarrow> rq_what (fe_rpc fe) | Some w \<Rightarrow> w), fr)
         | (Inr doc, sv) \<Rightarrow> (C_Result doc, fr\<lparr>fr_server := sv\<rparr>))
      else if method = ''getvalidatorstats'' then
        (case fr_purse fr of
           None \<Rightarrow> C_Throw ''Validator purse not available''
         | Some p \<Rightarrow> C_Result (validator_http fl p), fr)
      else if method = ''getbucketstatus'' \<or> method = ''getpursestatus'' then
        (case fr_purse fr of
           None \<Rightarrow> C_Throw ''Validator bucket not available'' | Some p \<Rightarrow> C_Result (bucket_status fl p), fr)
      else if method = ''checkupdate'' then update_method fe fr
      else (case http_method \<lparr>ht_rpc = fe_rpc fe, ht_other = \<lambda>_ _. C_Unknown\<rparr> method params (fr_server fr) of
              (r, sv) \<Rightarrow> (r, fr\<lparr>fr_server := sv\<rparr>)))"

subsection \<open>The daemon\<close>

text \<open>Which parts run. \<open>works\<close> tells whether the storage, the chain, the peers and the two servers start.\<close>

record daemon =
  dm_running :: bool
  dm_p2p :: bool
  dm_ws :: bool
  dm_http :: bool

datatype part = P_Storage | P_Chain | P_Peers | P_Ws | P_Http

definition daemon_start :: "config \<Rightarrow> (part \<Rightarrow> bool) \<Rightarrow> daemon \<Rightarrow> bool \<times> daemon" where
  "daemon_start cfg works dm =
     (if dm_running dm then (False, dm)
      else if \<not> works P_Storage \<or> \<not> works P_Chain \<or> \<not> works P_Peers then (False, dm)
      else
        let dm1 = dm\<lparr>dm_p2p := True, dm_ws := dm_ws dm \<or> cf_ws_enabled cfg \<and> works P_Ws\<rparr> in
        if cf_http_enabled cfg then
          (if works P_Http then (True, dm1\<lparr>dm_running := True, dm_http := True\<rparr>) else (False, dm1))
        else (True, dm1\<lparr>dm_running := True\<rparr>))"

definition daemon_stop :: "daemon \<Rightarrow> daemon" where
  "daemon_stop dm = (if \<not> dm_running dm then dm else dm\<lparr>dm_running := False, dm_p2p := False, dm_ws := False, dm_http := False\<rparr>)"

text \<open>The seconds between two checks for a release, an \<open>int\<close> made from a 64-bit number.\<close>

definition kUpdateInterval :: int where "kUpdateInterval = 6 * 60 * 60"

definition update_interval :: "string option \<Rightarrow> int" where
  "update_interval env =
     (let text = set_env env [];
          s = dropWhile is_blank text;
          neg = (s \<noteq> [] \<and> s ! 0 = CHR ''-'');
          d = (if s \<noteq> [] \<and> (s ! 0 = CHR ''-'' \<or> s ! 0 = CHR ''+'') then drop 1 s else s);
          digits = takeWhile (\<lambda>c. in_range c CHR ''0'' CHR ''9'') d;
          parsed = (if neg then - int (dec_val digits) else int (dec_val digits));
          clipped = max (- (2 ^ 63)) (min (2 ^ 63 - 1) parsed) in
      if digits \<noteq> [] \<and> clipped > 0 then sint (word_of_int clipped :: 32 word) else kUpdateInterval)"

text \<open>What the arguments of the program ask for.\<close>

datatype start_as = S_Help | S_Download | S_Daemon

definition start_mode :: "string list \<Rightarrow> start_as" where
  "start_mode args =
     (if list_ex (\<lambda>a. a = ''-h'' \<or> a = ''--help'') args then S_Help
      else if take 2 args = [''update'', ''download''] then S_Download
      else S_Daemon)"

lemma interval_wraps: "update_interval (Some ''3000000000'') = - 1294967296"
  by (simp add: update_interval_def set_env_def is_blank_def in_range_def dec_val_def digit_val_def Let_def)

text \<open>After a start that fails at the last part, the others run, and \<open>stop\<close> does not end them.\<close>

lemma failed_start_keeps_running:
  "cf_http_enabled cfg \<Longrightarrow> works P_Storage \<Longrightarrow> works P_Chain \<Longrightarrow> works P_Peers \<Longrightarrow> \<not> works P_Http \<Longrightarrow> \<not> dm_running dm \<Longrightarrow>
   daemon_start cfg works dm = (ok, dm') \<Longrightarrow> \<not> ok \<and> dm_p2p dm' \<and> daemon_stop dm' = dm'"
  by (auto simp: daemon_start_def daemon_stop_def Let_def split: if_splits)

subsection \<open>What the methods do\<close>

text \<open>A threat that was reported over HTTP is not listed, except when the clocks happen to agree: it is stamped in
  seconds, and the window is taken from a clock in billionths. One that is reported over WebSocket is never listed.\<close>

lemma http_reported_unlisted:
  assumes "http_reportthreat se fl millionths params sv = (Inr doc, sv')" "length (th_history (sv_threats sv)) < 1000"
    "\<not> of_int (ne_ticks (se_net se)) - se_wall se < (3600 :: u64)"
  shows "http_getthreats se fl (JArray []) sv' = http_getthreats se fl (JArray []) sv"
  using assms
  by (auto simp: http_reportthreat_def http_getthreats_def json_empty_def recordThreat_def getRecentThreats_def Let_def
      split: if_splits option.splits)

lemma ws_reported_unlisted:
  "ws_reportthreat se params w = Some (doc, w') \<Longrightarrow> ws_getthreats se (wa_server w') = ws_getthreats se (wa_server w)"
  by (auto simp: ws_reportthreat_def broadcastThreatAlert_def on_listed_def Let_def split: option.splits if_splits)

text \<open>The methods of the two fronts.\<close>

definition ws_methods :: "string list" where
  "ws_methods = [''subscribe'', ''ping'', ''getblockcount'', ''getnetworkstats'', ''getpeers'', ''getthreats'', ''reportthreat'',
     ''getvalidatorstats'', ''getbucketstatus'', ''getblock'', ''getheader'', ''listunspent'', ''namelookup'', ''gettransaction'',
     ''getmempool'', ''sendtransaction'', ''createflag'', ''claimflag'', ''listflags'', ''getblockchaininfo'', ''getblocktemplate'',
     ''submitblock'', ''checkupdate'']"

lemma chain_method_known: "chain_method rq method params sv = Some (r, sv') \<Longrightarrow> r \<noteq> C_Unknown \<and> method \<in> set ws_methods"
  by (auto simp: chain_method_def ws_methods_def Let_def split: if_splits option.splits prod.splits submitted.splits template.splits)

lemma chain_method_none: "chain_method rq method params sv = None \<Longrightarrow> method \<notin> set (drop 9 ws_methods) \<or> method = ''gettransaction'' \<or> method = ''checkupdate''"
  by (auto simp: chain_method_def ws_methods_def Let_def split: if_splits)

text \<open>A method is unknown exactly when it is none of these: each of them is answered with a result or a reason.\<close>

lemma ws_unknown: "fst (ws_dispatch fe conns b method params (wc, fr)) = C_Unknown \<longleftrightarrow> method \<notin> set ws_methods"
proof (cases "method \<in> {''getpeers'', ''getthreats'', ''reportthreat'', ''getvalidatorstats'', ''getbucketstatus'', ''checkupdate''}")
  case True
  then have "method \<in> set ws_methods" by (auto simp: ws_methods_def)
  moreover have "fst (ws_dispatch fe conns b method params (wc, fr)) \<noteq> C_Unknown"
    using True by (auto simp: ws_dispatch_def Let_def update_method_def split: option.splits prod.splits)
  ultimately show ?thesis by simp
next
  case False
  let ?rq = "(fe_rpc fe)\<lparr>rq_other := \<lambda>_ _. C_Unknown, rq_peers := of_nat (length (fr_peers fr))\<rparr>"
  have "fst (ws_dispatch fe conns b method params (wc, fr)) = fst (ws_method ?rq method params (wc, fr_server fr))"
    using False by (simp add: ws_dispatch_def Let_def split: prod.split)
  moreover have "fst (ws_method ?rq method params (wc, fr_server fr)) = C_Unknown \<longleftrightarrow> method \<notin> set ws_methods"
  proof (cases "method \<in> {''subscribe'', ''ping'', ''getblockcount'', ''getnetworkstats'', ''gettransaction''}")
    case True
    then have "method \<in> set ws_methods" by (auto simp: ws_methods_def)
    moreover have "fst (ws_method ?rq method params (wc, fr_server fr)) \<noteq> C_Unknown"
      using True by (auto simp: ws_method_def Let_def split: option.splits)
    ultimately show ?thesis by simp
  next
    case rest: False
    have m: "fst (ws_method ?rq method params (wc, fr_server fr)) =
        (case chain_method ?rq method params (fr_server fr) of Some (r, _) \<Rightarrow> r | None \<Rightarrow> C_Unknown)"
      using rest by (simp add: ws_method_def Let_def split: option.split prod.split)
    show ?thesis
    proof (cases "chain_method ?rq method params (fr_server fr)")
      case None
      then show ?thesis using m chain_method_none [OF None] False rest by (auto simp: ws_methods_def)
    next
      case (Some c)
      obtain r sv' where c: "c = (r, sv')" by fastforce
      show ?thesis using m Some c chain_method_known [OF Some [unfolded c]] by simp
    qed
  qed
  ultimately show ?thesis by simp
qed

end
