(* ===== verification/Fingerprint.thy ===== *)
theory Fingerprint
  imports PiHash Update_Text
begin

text \<open>
  \<open>PiHash::GetHardwareFingerprint\<close> (hw/pihash.cpp): what is read from the machine. \<open>machine\<close> holds the
  contents of the files, \<open>None\<close> when one does not open, the numbers of \<open>std::rand\<close> that stand in for the
  hardware's random bytes, and the memory in which the size is not initialised. The clock is left out.
\<close>

record machine =
  mc_cpuinfo :: "string option"
  mc_serial :: "string option"
  mc_model :: "string option"
  mc_meminfo :: "string option"
  mc_hwrng :: "bytes option"
  mc_rand :: "nat \<Rightarrow> int"
  mc_unset :: u64

text \<open>The first line that starts with a key and has a colon, and where the colon is.\<close>

definition first_field :: "string \<Rightarrow> string option \<Rightarrow> (string \<times> nat) option" where
  "first_field key file =
     (case filter (\<lambda>line. starts_with key line \<and> CHR '':'' \<in> set line) (getlines (case file of None \<Rightarrow> [] | Some s \<Rightarrow> s)) of
        [] \<Rightarrow> None
      | line # _ \<Rightarrow> Some (line, length (takeWhile (\<lambda>c. c \<noteq> CHR '':'') line)))"

text \<open>The first line of a file, without its NULs.\<close>

definition first_line :: "string \<Rightarrow> string" where
  "first_line s = filter (\<lambda>c. c \<noteq> CHR 0x00) (takeWhile (\<lambda>c. c \<noteq> CHR 0x0A) s)"

text \<open>\<open>substr(pos + 2)\<close> throws beyond the end of the line.\<close>

definition cpuinfo_serial :: "machine \<Rightarrow> string option" where
  "cpuinfo_serial mc =
     (case first_field ''Serial'' (mc_cpuinfo mc) of
        None \<Rightarrow> Some []
      | Some (line, pos) \<Rightarrow> if pos + 2 > length line then None else Some (drop (pos + 2) line))"

definition cpu_serial :: "machine \<Rightarrow> string option" where
  "cpu_serial mc =
     (case cpuinfo_serial mc of
        None \<Rightarrow> None
      | Some s \<Rightarrow>
          (let serial = (if s = [] then (case mc_serial mc of None \<Rightarrow> [] | Some f \<Rightarrow> first_line f) else s) in
           if serial = [] then None else Some serial))"

definition hardware_model :: "machine \<Rightarrow> string" where
  "hardware_model mc = (case mc_model mc of None \<Rightarrow> ''Unknown Raspberry Pi Model'' | Some f \<Rightarrow> first_line f)"

text \<open>\<open>std::stoull\<close> skips blanks and takes a sign.\<close>

definition stoull :: "string \<Rightarrow> u64 option" where
  "stoull text =
     (let s = dropWhile (\<lambda>c. c = CHR '' '' \<or> in_range c (CHR 0x09) (CHR 0x0D)) text;
          neg = (s \<noteq> [] \<and> s ! 0 = CHR ''-'');
          d = (if s \<noteq> [] \<and> (s ! 0 = CHR ''-'' \<or> s ! 0 = CHR ''+'') then drop 1 s else s);
          digits = takeWhile (\<lambda>c. in_range c CHR ''0'' CHR ''9'') d in
      if digits = [] \<or> dec_val digits \<ge> 2 ^ 64 then None
      else Some (if neg then - of_nat (dec_val digits) else of_nat (dec_val digits)))"

definition kMemoryFallback :: u64 where "kMemoryFallback = 2 * 1024 * 1024 * 1024"

definition memory_total :: "machine \<Rightarrow> u64 option" where
  "memory_total mc =
     (case (case first_field ''MemTotal'' (mc_meminfo mc) of
              None \<Rightarrow> Some (mc_unset mc)
            | Some (line, pos) \<Rightarrow> map_option (\<lambda>kb. kb * 1024) (stoull (drop (pos + 1) line))) of
        None \<Rightarrow> None
      | Some n \<Rightarrow> Some (if n = 0 then kMemoryFallback else n))"

text \<open>A short read leaves zeros.\<close>

definition hardware_rng :: "machine \<Rightarrow> bytes" where
  "hardware_rng mc =
     (case mc_hwrng mc of
        Some raw \<Rightarrow> take 32 raw @ replicate (32 - length raw) 0
      | None \<Rightarrow> map (\<lambda>i. of_int (mc_rand mc i mod 256)) [0 ..< 32])"

text \<open>\<open>None\<close> is an exception.\<close>

definition get_fingerprint :: "machine \<Rightarrow> hw_fingerprint option" where
  "get_fingerprint mc =
     (case (cpu_serial mc, memory_total mc) of
        (Some serial, Some n) \<Rightarrow>
          let model = hardware_model mc in
          Some \<lparr>hf_cpu_serial = serial, hf_hardware_model = model, hf_memory_total = n, hf_hardware_rng = hardware_rng mc,
                hf_unique_id = to_hex (take 8 (sha_digest (bytes_of (serial @ model @ dec_string (unat n))))),
                hf_videocore_verified = False, hf_gpu_temperature = 0\<rparr>
      | _ \<Rightarrow> None)"

lemma length_hardware_rng [simp]: "length (hardware_rng mc) = 32"
  by (auto simp: hardware_rng_def min_def split: option.split)

text \<open>Which machines pass the check: the model's name, a serial of eight characters or more, memory from
  512 MB to 32 GB, and sixteen different random bytes. A machine whose model cannot be read passes the first test.\<close>

lemma fingerprint_verified:
  "get_fingerprint mc = Some fp \<Longrightarrow>
   verify_hardware fp \<longleftrightarrow>
     (contains_str ''Raspberry Pi'' (hardware_model mc) \<or> contains_str ''raspberry pi'' (hardware_model mc)) \<and>
     8 \<le> length (hf_cpu_serial fp) \<and> 512 * 1024 * 1024 \<le> hf_memory_total fp \<and> hf_memory_total fp \<le> 32 * 1024 * 1024 * 1024 \<and>
     16 \<le> count_unique [] (hardware_rng mc)"
  by (auto simp: get_fingerprint_def verify_hardware_def Let_def not_less split: option.splits)

lemma unknown_model_passes: "mc_model mc = None \<Longrightarrow> contains_str ''Raspberry Pi'' (hardware_model mc)"
  by (simp add: hardware_model_def)

text \<open>Without a line MemTotal the size is what the memory held.\<close>

lemma memory_unset: "first_field ''MemTotal'' (mc_meminfo mc) = None \<Longrightarrow> mc_unset mc \<noteq> 0 \<Longrightarrow> memory_total mc = Some (mc_unset mc)"
  by (simp add: memory_total_def)

end
