(* ===== verification/Wallet_Text.thy ===== *)
theory Wallet_Text
  imports Queries Peer
begin

text \<open>
  The wallet's own copies of the daemon's text functions (pswallet/src/main.cpp), as they are written there:
  hexadecimal text, names and addresses, and the socket loop. They are shown to agree with the functions of
  the daemon, which the other theories on the wallet use in their place.
\<close>

subsection \<open>Hexadecimal text\<close>

text \<open>\<open>out\<close> starts as zeros and is written in place.\<close>

definition hex_put :: "bytes \<Rightarrow> nat \<Rightarrow> string \<Rightarrow> string" where
  "hex_put data i out =
     (out[i * 2 := hexd ! unat (drop_bit 4 (data ! i))])[i * 2 + 1 := hexd ! unat (data ! i AND 0x0f)]"

definition wallet_hex_of :: "bytes \<Rightarrow> string" where
  "wallet_hex_of data = fold (hex_put data) [0 ..< length data] (replicate (length data * 2) CHR ''0'')"

text \<open>The bytes so far, when a bad character ends the loop.\<close>

fun hex_pairs :: "string \<Rightarrow> bytes \<Rightarrow> bool \<times> bytes" where
  "hex_pairs (h # l # rest) out =
     (if nybble h < 0 \<or> nybble l < 0 then (False, out)
      else hex_pairs rest (out @ [word_of_int (push_bit 4 (nybble h) OR nybble l)]))"
| "hex_pairs _ out = (True, out)"

definition wallet_decode_hex :: "string \<Rightarrow> bytes \<Rightarrow> bool \<times> bytes" where
  "wallet_decode_hex hex out = (if length hex mod 2 \<noteq> 0 then (False, out) else hex_pairs hex [])"

lemma hex_puts:
  "k \<le> length data \<Longrightarrow>
   fold (hex_put data) [0 ..< k] (replicate (length data * 2) CHR ''0'') = to_hex (take k data) @ replicate ((length data - k) * 2) CHR ''0''"
proof (induction k)
  case (Suc k)
  then have k: "k < length data" by simp
  then obtain m where m: "length data - k = Suc m" "length data - Suc k = m" by (cases "length data - k") auto
  have "to_hex (take (Suc k) data) = to_hex (take k data) @ hex_of_byte (data ! k)"
    using k by (simp add: take_Suc_conv_app_nth to_hex_def)
  moreover have "length (to_hex (take k data)) = k * 2" using k by simp
  ultimately show ?case
    using Suc.IH k m by (simp add: hex_put_def list_update_append hex_of_byte_def replicate_app_Cons_same)
qed (simp add: to_hex_def)

lemma hex_pairs_prefix: "hex_pairs s out = (let (p, good) = hex_prefix s in (good, out @ p))"
  by (induction s arbitrary: out rule: hex_prefix.induct) (auto simp: Let_def split: prod.splits)

subsection \<open>Names and addresses\<close>

definition wallet_fold_name :: "string \<Rightarrow> string" where
  "wallet_fold_name name =
     map (\<lambda>c. if in_range c CHR ''A'' CHR ''Z'' then char_of ((of_char c :: nat) - of_char CHR ''A'' + of_char CHR ''a'') else c) name"

definition wallet_name_char :: "char \<Rightarrow> bool" where
  "wallet_name_char c \<longleftrightarrow>
     in_range c CHR ''A'' CHR ''Z'' \<or> in_range c CHR ''a'' CHR ''z'' \<or> in_range c CHR ''0'' CHR ''9'' \<or> c = CHR ''_'' \<or> c = CHR ''-''"

definition wallet_valid_shortname :: "string \<Rightarrow> bool" where
  "wallet_valid_shortname name \<longleftrightarrow>
     (if length name < 2 \<or> length name > 32 then False
      else if \<not> (in_range (name ! 0) CHR ''A'' CHR ''Z'' \<or> in_range (name ! 0) CHR ''a'' CHR ''z'') then False
      else \<not> list_ex (\<lambda>c. \<not> wallet_name_char c) name)"

definition wallet_reserved :: "string list" where
  "wallet_reserved = [''foundation'', ''validator'', ''stakers'', ''loans'', ''genesis'', ''pisecure'', ''operator'']"

definition wallet_is_reserved_name :: "string \<Rightarrow> bool" where
  "wallet_is_reserved_name name \<longleftrightarrow> list_ex (\<lambda>item. wallet_fold_name name = item) wallet_reserved"

text \<open>The empty text when it is no long address.\<close>

definition wallet_normalize_ps1 :: "string \<Rightarrow> string" where
  "wallet_normalize_ps1 text =
     (if length text \<noteq> 67 then []
      else
        let s = wallet_fold_name text in
        if take 3 s \<noteq> ''ps1'' then []
        else if list_ex (\<lambda>c. \<not> (in_range c CHR ''0'' CHR ''9'' \<or> in_range c CHR ''a'' CHR ''f'')) (drop 3 s) then []
        else s)"

text \<open>What a text is to the wallet is what it is to the daemon: bytes as hexadecimal text and back, whether a text
  is a shortname, a reserved name or a long address, and how it is spelled.\<close>

theorem wallet_text_agrees:
  "wallet_hex_of data = to_hex data \<and> wallet_decode_hex hex out = decode_hex hex out \<and>
   wallet_fold_name text = fold_name text \<and> wallet_valid_shortname text = valid_shortname text \<and>
   wallet_is_reserved_name text = is_reserved_name text \<and>
   wallet_normalize_ps1 text = (case normalize_ps1 text of None \<Rightarrow> [] | Some s \<Rightarrow> s)"
proof -
  have "wallet_hex_of data = to_hex data" using hex_puts [of "length data" data] by (simp add: wallet_hex_of_def)
  moreover have "wallet_decode_hex hex out = decode_hex hex out"
    by (simp add: wallet_decode_hex_def decode_hex_def hex_pairs_prefix)
  moreover have f: "wallet_fold_name text = lower_ascii text"
    by (simp add: wallet_fold_name_def lower_ascii_def)
  moreover have "wallet_valid_shortname text = valid_shortname text"
    by (simp add: wallet_valid_shortname_def valid_shortname_def wallet_name_char_def name_char_def is_letter_def list_ex_iff list_all_iff disj_ac)
  moreover have "wallet_is_reserved_name text = is_reserved_name text"
    using f by (simp add: wallet_is_reserved_name_def is_reserved_name_def wallet_reserved_def reserved_names_def fold_name_def)
  moreover have "wallet_normalize_ps1 text = (case normalize_ps1 text of None \<Rightarrow> [] | Some s \<Rightarrow> s)"
    using f by (auto simp: wallet_normalize_ps1_def normalize_ps1_def is_long_address_def Let_def list_ex_iff list_all_iff lower_ascii_def)
  ultimately show ?thesis by (simp add: fold_name_def)
qed

subsection \<open>Sockets\<close>

text \<open>What each call of \<open>send\<close> writes, 0 or less for a failure; \<open>None\<close> is a script that ends too early.\<close>

fun send_all :: "nat \<Rightarrow> int list \<Rightarrow> bool option" where
  "send_all n calls =
     (if n = 0 then Some True
      else case calls of [] \<Rightarrow> None | wrote # rest \<Rightarrow> if wrote \<le> 0 then Some False else send_all (n - nat wrote) rest)"

lemma send_all_steps [simp]:
  "send_all 0 calls = Some True" "n \<noteq> 0 \<Longrightarrow> send_all n [] = None"
  "n \<noteq> 0 \<Longrightarrow> send_all n (wrote # rest) = (if wrote \<le> 0 then Some False else send_all (n - nat wrote) rest)"
  by simp_all

declare send_all.simps [simp del]

text \<open>It succeeds when the calls write everything.\<close>

lemma send_all_writes: "list_all (\<lambda>w. 0 < w) calls \<Longrightarrow> n \<le> nat (sum_list calls) \<Longrightarrow> send_all n calls = Some True"
proof (induction calls arbitrary: n)
  case (Cons w calls)
  then have "0 \<le> sum_list calls" by (intro sum_list_nonneg) (auto simp: list_all_iff)
  with Cons show ?case by (cases "n = 0") (auto simp: nat_add_distrib)
qed simp

definition recv_some :: "string \<Rightarrow> string option \<Rightarrow> bool \<times> string" where
  "recv_some buf got = (case got of None \<Rightarrow> (False, buf) | Some s \<Rightarrow> if s = [] then (False, buf) else (True, buf @ take 4096 s))"

end
