(* ===== verification/Data_Files.thy ===== *)
theory Data_Files
  imports Names_Files Mempool Update
begin

text \<open>
  The two JSON files of the chain (chain_rpc.cpp): \<open>names.json\<close> and \<open>mempool.json\<close> are written to a
  temporary file that then takes the place of the old one. \<open>data_env\<close> is the file system, what of a text gets
  written, and the two ways the document is printed. Files are a map from paths to contents.
\<close>

record data_env =
  da_dir :: string
  da_opens :: bool
  da_kept :: "string \<Rightarrow> string"
  da_renames :: bool
  da_dump :: "json \<Rightarrow> string"
  da_dump2 :: "json \<Rightarrow> string"

definition data_path :: "data_env \<Rightarrow> string \<Rightarrow> string" where
  "data_path da name = da_dir da @ ''/'' @ name"

text \<open>Whether the writing succeeded is not looked at.\<close>

definition replace_file :: "data_env \<Rightarrow> string \<Rightarrow> string \<Rightarrow> files \<Rightarrow> files" where
  "replace_file da name content fs =
     (let path = data_path da name; tmp = data_path da (name @ ''.tmp'') in
      if \<not> da_opens da then fs
      else
        let fs1 = fs(tmp := Some (da_kept da content)) in
        if da_renames da then (fs1(path := fs1 tmp))(tmp := None) else fs1)"

definition save_names_file :: "data_env \<Rightarrow> book \<Rightarrow> files \<Rightarrow> files" where
  "save_names_file da g = replace_file da ''names.json'' (da_dump2 da (save_names g) @ [CHR 0x0A])"

definition save_mempool_file :: "data_env \<Rightarrow> env \<Rightarrow> storage \<Rightarrow> files \<Rightarrow> files" where
  "save_mempool_file da ev st = replace_file da ''mempool.json'' (da_dump da (save_mempool ev st))"

text \<open>What the next process parses: nothing when the file is missing or is no JSON.\<close>

definition read_json_file :: "data_env \<Rightarrow> (string \<Rightarrow> json option) \<Rightarrow> string \<Rightarrow> files \<Rightarrow> json option" where
  "read_json_file da parse name fs = (case fs (data_path da name) of None \<Rightarrow> None | Some s \<Rightarrow> parse s)"

lemma tmp_apart [simp]: "data_path da (name @ ''.tmp'') \<noteq> data_path da name" "data_path da name \<noteq> data_path da (name @ ''.tmp'')"
  by (simp_all add: data_path_def)

lemma replace_keeps:
  "q \<noteq> data_path da name \<Longrightarrow> q \<noteq> data_path da (name @ ''.tmp'') \<Longrightarrow> replace_file da name content fs q = fs q"
  by (simp add: replace_file_def Let_def)

lemma replace_reads:
  "da_opens da \<Longrightarrow> da_renames da \<Longrightarrow> read_json_file da parse name (replace_file da name content fs) = parse (da_kept da content)"
  by (simp add: replace_file_def read_json_file_def Let_def)

text \<open>A file that cannot be replaced stays as it was.\<close>

lemma replace_refused:
  "\<not> da_opens da \<or> \<not> da_renames da \<Longrightarrow> read_json_file da parse name (replace_file da name content fs) = read_json_file da parse name fs"
  by (auto simp: replace_file_def read_json_file_def Let_def)

text \<open>Nothing else is touched by either file, and each leaves the other alone.\<close>

lemma files_apart:
  "read_json_file da parse ''mempool.json'' (save_names_file da g fs) = read_json_file da parse ''mempool.json'' fs"
  "read_json_file da parse ''names.json'' (save_mempool_file da ev st fs) = read_json_file da parse ''names.json'' fs"
  by (simp_all add: save_names_file_def save_mempool_file_def read_json_file_def replace_keeps data_path_def)

text \<open>On a full disk the file that is replaced is the part that fitted, and the names are gone after a restart.\<close>

lemma full_disk_loses_names:
  "da_opens da \<Longrightarrow> da_renames da \<Longrightarrow> parse (da_kept da (da_dump2 da (save_names g) @ [CHR 0x0A])) = None \<Longrightarrow>
   read_json_file da parse ''names.json'' (save_names_file da g fs) = None"
  by (simp add: save_names_file_def replace_reads)

end
