(* ===== verification/Service.thy ===== *)
theory Service
  imports Sentinel Frame
begin

text \<open>
  The peer server as a whole (p2p.cpp): starting and stopping it, one pass of each of its threads, and the
  states it can reach when the threads take turns. A connection's receive buffer stands at the position of
  the connection. A pass is one step; what a handler queues for all peers and for dialling goes out at the
  end of the read that caused it.
\<close>

record service =
  sc_running :: bool
  sc_dir :: dir
  sc_buffers :: "bytes list"
  sc_boot :: boot_ws
  sc_node_text :: string
  sc_shown :: "(ws_conn \<times> json) list"

abbreviation sc_peers :: "service \<Rightarrow> peer list" where "sc_peers s \<equiv> di_peers (sc_dir s)"
abbreviation sc_server :: "service \<Rightarrow> server" where "sc_server s \<equiv> di_server (sc_dir s)"

definition service_new :: "server \<Rightarrow> service" where
  "service_new sv =
     \<lparr>sc_running = False,
      sc_dir = \<lparr>di_peers = [], di_server = sv, di_node_id = [], di_owned = False, di_reachable = False, di_hints = [], di_posts = []\<rparr>,
      sc_buffers = [], sc_boot = boot_ws_new [], sc_node_text = [], sc_shown = []\<rparr>"

text \<open>New connections have an empty buffer.\<close>

definition with_dir :: "dir \<Rightarrow> service \<Rightarrow> service" where
  "with_dir d s =
     s\<lparr>sc_dir := d, sc_buffers := sc_buffers s @ replicate (length (di_peers d) - length (sc_peers s)) []\<rparr>"

definition with_net :: "net \<Rightarrow> service \<Rightarrow> service" where
  "with_net c s = (case c of (ps, sv) \<Rightarrow> with_dir ((sc_dir s)\<lparr>di_peers := ps, di_server := sv\<rparr>) s)"

subsection \<open>Start and stop\<close>

text \<open>What \<open>start\<close> finds: the environment variable and the file of the node's id, fresh random bytes,
  the clock as text, and whether the port can be bound.\<close>

record launch =
  la_id_env :: "string option"
  la_id_file :: "string option"
  la_raw :: bytes
  la_clock :: string
  la_listens :: bool

definition server_start :: "dirnet \<Rightarrow> netenv \<Rightarrow> launch \<Rightarrow> service \<Rightarrow> (bool \<times> service) option" where
  "server_start dn ne la s =
     (if sc_running s then Some (False, s)
      else
        let (id, written) = loadBootstrapNodeId (la_id_env la) (la_id_file la) (la_raw la);
            node = ''pisecured-'' @ la_clock la;
            sv = note_best (sc_server s) in
        case start_peers (ev_now (ne_ev ne)) (cf_peers (dn_cfg dn)) (sv_addrman sv) of
          None \<Rightarrow> None
        | Some am \<Rightarrow>
            Some (la_listens la,
              s\<lparr>sc_running := la_listens la, sc_node_text := node,
                sc_dir := (sc_dir s)\<lparr>di_server := sv\<lparr>sv_addrman := am\<rparr>, di_node_id := id,
                  di_owned := True\<rparr>,
                sc_boot := snd (boot_connect (boot_ws_new node))\<rparr>))"

definition server_stop :: "service \<Rightarrow> service" where
  "server_stop s =
     (if \<not> sc_running s then s
      else s\<lparr>sc_running := False, sc_boot := boot_disconnect (sc_boot s), sc_dir := (sc_dir s)\<lparr>di_peers := []\<rparr>, sc_buffers := []\<rparr>)"

subsection \<open>The threads\<close>

definition accept_pass :: "netenv \<Rightarrow> peer_addr \<Rightarrow> service \<Rightarrow> service" where
  "accept_pass ne a s =
     (case acceptConnection ne (di_reachable (sc_dir s)) (length (sc_peers s)) a (sc_server s) of
        (None, sv) \<Rightarrow> with_net (sc_peers s, sv) s | (Some p, sv) \<Rightarrow> with_net (sc_peers s @ [p], sv) s)"

definition dial_pass :: "dirnet \<Rightarrow> netenv \<Rightarrow> nat \<Rightarrow> service \<Rightarrow> service" where
  "dial_pass dn ne choice s = with_net (connect_pass dn ne choice (sc_peers s, sc_server s)) s"

definition send_greeted :: "netenv \<Rightarrow> msg_type \<times> bytes \<Rightarrow> peer list \<Rightarrow> peer list" where
  "send_greeted ne m = map (\<lambda>p. if pr_handshake p then sendMessage ne (fst m) (snd m) p else p)"

definition deliver :: "netenv \<Rightarrow> net \<Rightarrow> net" where
  "deliver ne c = (case c of (ps, sv) \<Rightarrow> (fold (send_greeted ne) (sv_bcast sv) ps, sv\<lparr>sv_bcast := []\<rparr>))"

text \<open>One connection's turn, with what \<open>recv\<close> gives.\<close>

definition peer_turn :: "dirnet \<Rightarrow> netenv \<Rightarrow> nat \<Rightarrow> received \<Rightarrow> service \<Rightarrow> service" where
  "peer_turn dn ne i r s =
     (if i \<ge> length (sc_peers s) then s
      else case processMessages ne r (sc_buffers s ! i, sc_peers s ! i, sc_server s) of
          (buf, p, sv) \<Rightarrow>
            with_net (dial_offered dn ne (deliver ne ((sc_peers s)[i := p], sv))) (s\<lparr>sc_buffers := (sc_buffers s)[i := buf]\<rparr>))"

definition sweep :: "service \<Rightarrow> service" where
  "sweep s =
     s\<lparr>sc_dir := (sc_dir s)\<lparr>di_peers := clear_peers (sc_peers s)\<rparr>,
       sc_buffers := map fst (filter (\<lambda>(buf, p). \<not> (\<not> pr_open p \<or> shouldBan p)) (zip (sc_buffers s) (sc_peers s)))\<rparr>"

text \<open>A pass reads from the connections there are at its start.\<close>

definition message_pass :: "dirnet \<Rightarrow> (nat \<Rightarrow> netenv \<times> received) \<Rightarrow> service \<Rightarrow> service" where
  "message_pass dn turns s =
     sweep (fold (\<lambda>i. peer_turn dn (fst (turns i)) i (snd (turns i))) [0 ..< length (sc_peers s)] s)"

definition ping_pass :: "(nat \<Rightarrow> netenv) \<Rightarrow> service \<Rightarrow> service" where
  "ping_pass nes s =
     s\<lparr>sc_dir := (sc_dir s)\<lparr>di_peers := map (\<lambda>i. ping_step (nes i) (sc_peers s ! i)) [0 ..< length (sc_peers s)]\<rparr>\<rparr>"

definition boot_start :: "dirnet \<Rightarrow> netenv \<Rightarrow> boot_env \<Rightarrow> service \<Rightarrow> service" where
  "boot_start dn ne bo s = with_dir (heartbeat_start dn ne bo (sc_dir s)) s"

text \<open>Which of the three timers are due comes first; the metrics of the service go out at the end.\<close>

definition boot_pass :: "dirnet \<Rightarrow> sentinel_env \<Rightarrow> boot_env \<Rightarrow> bool \<times> bool \<times> bool \<Rightarrow> service \<Rightarrow> service" where
  "boot_pass dn se bo due s =
     (case due of (exchange, probe, status) \<Rightarrow>
        let s1 = with_dir (heartbeat_pass dn (se_net se) bo exchange probe status (sc_dir s)) s in
        s1\<lparr>sc_boot := send_metrics se (length (sc_peers s1)) (sc_server s1) (sc_boot s1)\<rparr>)"

definition threat_pass :: "sentinel_env \<Rightarrow> ws_conn list \<Rightarrow> service \<Rightarrow> service" where
  "threat_pass se conns s =
     (let w = detection_pass se \<lparr>wa_pool = map (Pair True) (sc_peers s), wa_server = sc_server s, wa_boot = sc_boot s,
                wa_conns = conns, wa_shown = sc_shown s\<rparr> in
      s\<lparr>sc_dir := (sc_dir s)\<lparr>di_peers := listed w, di_server := wa_server w\<rparr>,
        sc_buffers := map fst (filter (\<lambda>(buf, there, p). there) (zip (sc_buffers s) (wa_pool w))),
        sc_boot := wa_boot w, sc_shown := wa_shown w\<rparr>)"

text \<open>Sending what another part of the daemon, a server that took a block or a transaction, gives to all peers.\<close>

definition relay_pass :: "netenv \<Rightarrow> node \<Rightarrow> (msg_type \<times> bytes) list \<Rightarrow> service \<Rightarrow> service" where
  "relay_pass ne nd msgs s =
     with_net (deliver ne (sc_peers s, (sc_server s)\<lparr>sv_node := nd, sv_bcast := sv_bcast (sc_server s) @ msgs\<rparr>)) s"

subsection \<open>Reachable states\<close>

definition alive_service :: "service \<Rightarrow> bool" where
  "alive_service s \<longleftrightarrow> sc_running s \<and> \<not> sv_down (sc_server s)"

inductive service_step :: "dirnet \<Rightarrow> service \<Rightarrow> service \<Rightarrow> bool" for dn where
  st_start: "server_start dn ne la s = Some (ok, s') \<Longrightarrow> service_step dn s s'"
| st_stop: "service_step dn s (server_stop s)"
| st_accept: "alive_service s \<Longrightarrow> service_step dn s (accept_pass ne a s)"
| st_dial: "alive_service s \<Longrightarrow> service_step dn s (dial_pass dn ne choice s)"
| st_message: "alive_service s \<Longrightarrow> service_step dn s (message_pass dn turns s)"
| st_ping: "alive_service s \<Longrightarrow> service_step dn s (ping_pass nes s)"
| st_boot_start: "alive_service s \<Longrightarrow> service_step dn s (boot_start dn ne bo s)"
| st_boot: "alive_service s \<Longrightarrow> service_step dn s (boot_pass dn se bo due s)"
| st_threat: "alive_service s \<Longrightarrow> service_step dn s (threat_pass se conns s)"
| st_relay: "alive_service s \<Longrightarrow> service_step dn s (relay_pass ne nd msgs s)"

inductive service_reaches :: "dirnet \<Rightarrow> service \<Rightarrow> bool" for dn where
  sr_new: "service_reaches dn (service_new sv)"
| sr_step: "service_reaches dn s \<Longrightarrow> service_step dn s s' \<Longrightarrow> service_reaches dn s'"

inductive_cases service_stepE: "service_step dn s s'"

end
