(* ===== verification/Service_Safe.thy ===== *)
theory Service_Safe
  imports Service Directory_Safe "HOL-Library.Sublist"
begin

text \<open>
  The limits of the peer server in every state it can reach: how many connections there are, whom it dials,
  and how much of a peer's bytes it keeps. The address of a connection and who opened it never change, new
  connections only come in behind the others, and a read leaves at most the start of one frame.
\<close>

subsection \<open>What a handler keeps of a connection\<close>

lemma peer_key_updates [simp]:
  "peer_key (increaseBanScore n p) = peer_key p" "peer_key (disconnectPeer p) = peer_key p"
  "peer_key (sendVerack ne p) = peer_key p" "peer_key (sendPing ne p) = peer_key p" "peer_key (ping_step ne p) = peer_key p"
  by (simp_all add: increaseBanScore_def disconnectPeer_def sendVerack_def sendPing_def ping_step_def sendMessage_def peer_key_def Let_def)

lemma peer_key_fields [simp]:
  "peer_key (p\<lparr>pr_verack_received := a, pr_handshake := b\<rparr>) = peer_key p" "peer_key (p\<lparr>pr_last_recv := t\<rparr>) = peer_key p"
  "peer_key (p\<lparr>pr_last_pong := t\<rparr>) = peer_key p" "peer_key (p\<lparr>pr_known_inv := invs\<rparr>) = peer_key p"
  "peer_key (p\<lparr>pr_asked_from_start := b\<rparr>) = peer_key p"
  "peer_key (p\<lparr>pr_version_received := b, pr_version := v, pr_services := sv, pr_start_height := h, pr_agent := ag\<rparr>) = peer_key p"
  by (simp_all add: peer_key_def)

lemma peer_key_sends [simp]:
  "peer_key (fst (ask_headers ne c)) = peer_key (fst c)" "peer_key (fst (sendVersion ne c)) = peer_key (fst c)"
  "peer_key (fst (overrun c)) = peer_key (fst c)"
  by (auto simp: ask_headers_def sendVersion_def overrun_def sendMessage_def peer_key_def Let_def split: prod.splits option.splits)

lemma peer_key_replies [simp]: "peer_key (fold (send_reply ne st) invs p) = peer_key p"
  by (induction invs arbitrary: p) (auto simp: send_reply_def split: option.splits)

lemma block_key: "peer_key (fst (handleBlock ne payload c)) = peer_key (fst c)"
  by (auto simp: handleBlock_def handle_json_block_def handle_binary_block_def block_rejected_def Let_def
      split: prod.splits option.splits submitted.splits read.splits bool.splits)

lemma dispatch_key: "peer_key (fst (dispatch_msg ne ty payload c)) = peer_key (fst c)"
proof (cases ty)
  case M_Block
  then show ?thesis by (simp add: block_key)
qed (cases c; auto simp: handleVersion_def handleVerack_def handleAddr_def handleInv_def handleGetData_def handleGetHeaders_def
    handleHeaders_def handleTx_def handlePing_def handlePong_def handleThreatAlert_def activateCoordinatedDefense_def Let_def
    split: read.splits option.splits header_walk.splits prod.splits)+

lemma drain_key: "conn_drain ne buf c = (rest, c') \<Longrightarrow> peer_key (fst c') = peer_key (fst c)"
proof (induction "length buf" arbitrary: buf c rule: less_induct)
  case less
  show ?case
  proof (cases "next_frame buf")
    case (F_Msg ty payload r)
    let ?c = "dispatch_msg ne ty payload c"
    have "conn_drain ne buf c =
        (if \<not> conn_alive ?c then ([], ?c) else if conn_banned ?c then ([], conn_expel ne ?c) else conn_drain ne r ?c)"
      by (subst drain.simps) (simp add: F_Msg Let_def)
    moreover have "peer_key (fst (conn_expel ne ?c)) = peer_key (fst ?c)" by (simp add: conn_expel_def split: prod.split)
    ultimately show ?thesis
      using less.prems less.hyps [OF next_frame_shorter [OF F_Msg], of ?c] dispatch_key [of ne ty payload c] by (auto split: if_splits)
  qed (use less.prems in \<open>subst (asm) drain.simps, auto simp: conn_close_def split: prod.splits\<close>)+
qed

text \<open>A read ends with less than a frame in the buffer.\<close>

lemma read_leaves:
  assumes "processMessages ne r (buf, p, sv) = (buf', p', sv')" "next_frame buf = F_More"
  shows "next_frame buf' = F_More \<and> peer_key p' = peer_key p"
proof (cases "conn_alive (p, sv) \<and> (\<exists>chunk. r = R_Data chunk)")
  case True
  then obtain chunk where r: "r = R_Data chunk" by blast
  let ?c = "(p\<lparr>pr_last_recv := ne_ticks ne\<rparr>, sv)"
  have d: "conn_drain ne (buf @ chunk) ?c = (buf', (p', sv'))" using assms(1) True r by (simp add: processMessages_def)
  have "conn_alive ?c" using True by (simp add: conn_alive_def)
  from conn.drain_ends [OF d this] have "next_frame buf' = F_More" by (auto simp: next_frame_def split: if_splits)
  then show ?thesis using drain_key [OF d] by simp
next
  case False
  then show ?thesis using assms by (auto simp: processMessages_def split: received.splits if_splits)
qed

lemma partial_frame: "next_frame buf = F_More \<Longrightarrow> length buf < 5 + unat kMaxMessageBytes"
  by (auto simp: next_frame_def Let_def split: if_splits)

subsection \<open>Keys of the connections\<close>

text \<open>The limits, on addresses and directions alone.\<close>

definition limits :: "dirnet \<Rightarrow> (peer_addr \<times> bool) list \<Rightarrow> bool" where
  "limits dn ks \<longleftrightarrow>
     length (filter (\<lambda>k. \<not> snd k) ks) \<le> MAX_OUTBOUND_CONNECTIONS \<and> length (filter snd ks) \<le> MAX_PEERS \<and>
     list_all (\<lambda>k. snd k \<or> \<not> self_peer dn (fst k)) ks"

text \<open>New outgoing connections behind the old ones.\<close>

definition extended :: "dirnet \<Rightarrow> peer list \<Rightarrow> peer list \<Rightarrow> bool" where
  "extended dn ps ps' \<longleftrightarrow>
     (\<exists>ks. map peer_key ps' = map peer_key ps @ ks \<and> list_all (\<lambda>k. \<not> snd k \<and> \<not> self_peer dn (fst k)) ks) \<and>
     getOutboundCount ps' \<le> max MAX_OUTBOUND_CONNECTIONS (getOutboundCount ps)"

lemma extended_same: "map peer_key ps' = map peer_key ps \<Longrightarrow> extended dn ps ps'"
  by (simp add: extended_def outbound_keys)

lemma extended_grown: "grown dn ps ps' \<Longrightarrow> extended dn ps ps'"
proof -
  assume "grown dn ps ps'"
  then obtain new where n: "map peer_key ps' = map peer_key ps @ map peer_key new" "list_all (dial_ok dn) new"
    "getOutboundCount ps' \<le> max 8 (getOutboundCount ps)" by (auto simp: grown_def)
  have "list_all (\<lambda>k. \<not> snd k \<and> \<not> self_peer dn (fst k)) (map peer_key new)"
    using n(2) by (auto simp: list_all_iff dial_ok_def peer_key_def)
  then show ?thesis using n(1,3) by (auto simp: extended_def MAX_OUTBOUND_CONNECTIONS_def)
qed

lemma extended_limits: "extended dn ps ps' \<Longrightarrow> limits dn (map peer_key ps) \<Longrightarrow> limits dn (map peer_key ps')"
proof -
  assume e: "extended dn ps ps'" and l: "limits dn (map peer_key ps)"
  then obtain ks where ks: "map peer_key ps' = map peer_key ps @ ks" "list_all (\<lambda>k. \<not> snd k \<and> \<not> self_peer dn (fst k)) ks"
    by (auto simp: extended_def)
  have "filter snd ks = []" using ks(2) by (simp add: list_all_iff filter_empty_conv)
  moreover have "list_all (\<lambda>k. snd k \<or> \<not> self_peer dn (fst k)) ks" using ks(2) by (simp add: list_all_iff)
  moreover have "length (filter (\<lambda>k. \<not> snd k) (map peer_key ps')) \<le> MAX_OUTBOUND_CONNECTIONS"
    using e l unfolding extended_def limits_def outbound_keys by linarith
  ultimately show ?thesis using l ks(1) by (simp add: limits_def)
qed

lemma extended_longer: "extended dn ps ps' \<Longrightarrow> length ps \<le> length ps'"
proof -
  assume "extended dn ps ps'"
  then obtain ks where "map peer_key ps' = map peer_key ps @ ks" by (auto simp: extended_def)
  then have "length (map peer_key ps') = length (map peer_key ps @ ks)" by (rule arg_cong)
  then show ?thesis by simp
qed

lemma limits_subseq: "subseq ks' ks \<Longrightarrow> limits dn ks \<Longrightarrow> limits dn ks'"
proof -
  assume s: "subseq ks' ks" and l: "limits dn ks"
  have "length (filter P ks') \<le> length (filter P ks)" for P
    by (rule list_emb_length [OF subseq_filter [OF s]])
  moreover have "list_all P ks'" if "list_all P ks" for P
    using that by (metis list_all_iff list_emb_set [OF s])
  ultimately show ?thesis using l unfolding limits_def by (meson le_trans)
qed

lemma connect_pass_extended:
  assumes "connect_pass dn ne choice (ps, sv) = (ps', sv')"
  shows "extended dn ps ps'"
proof (cases "ps' = ps")
  case False
  then obtain a where lt: "getOutboundCount ps < MAX_OUTBOUND_CONNECTIONS" and c: "connect_to dn ne a (ps, sv) = (ps', sv')"
    using assms by (auto simp: connect_pass_def split: if_splits option.splits)
  obtain p where p: "ps' = ps @ [p]" "pr_addr p = a" "\<not> pr_inbound p" "\<not> self_peer dn a"
    using connect_to_peers [OF c] False by blast
  have "getOutboundCount ps' \<le> MAX_OUTBOUND_CONNECTIONS" using lt outbound_append [of ps p] p(1) by simp
  then show ?thesis using p by (simp add: extended_def peer_key_def)
qed (simp add: extended_same)

subsection \<open>The server\<close>

definition service_ok :: "dirnet \<Rightarrow> service \<Rightarrow> bool" where
  "service_ok dn s \<longleftrightarrow>
     limits dn (map peer_key (sc_peers s)) \<and> length (sc_buffers s) = length (sc_peers s) \<and>
     list_all (\<lambda>buf. next_frame buf = F_More) (sc_buffers s)"

lemma empty_partial [simp]: "next_frame [] = F_More"
  by (simp add: next_frame_def)

lemma with_dir_ok: "service_ok dn s \<Longrightarrow> extended dn (sc_peers s) (di_peers d) \<Longrightarrow> service_ok dn (with_dir d s)"
  using extended_longer [of dn "sc_peers s" "di_peers d"]
  by (auto simp: service_ok_def with_dir_def extended_limits list_all_iff)

lemma with_net_ok: "service_ok dn s \<Longrightarrow> extended dn (sc_peers s) (fst c) \<Longrightarrow> service_ok dn (with_net c s)"
  by (cases c) (simp add: with_net_def with_dir_ok)

text \<open>A change of the peers that keeps their keys.\<close>

lemma same_keys_ok: "service_ok dn s \<Longrightarrow> map peer_key ps = map peer_key (sc_peers s) \<Longrightarrow>
    service_ok dn (s\<lparr>sc_dir := (sc_dir s)\<lparr>di_peers := ps\<rparr>\<rparr>)"
  using map_eq_imp_length_eq [of peer_key ps peer_key "sc_peers s"] by (simp add: service_ok_def)

lemma deliver_keys: "map peer_key (fst (deliver ne c)) = map peer_key (fst c)"
proof -
  have "map peer_key (fold (send_greeted ne) msgs ps) = map peer_key ps" for msgs ps
    by (induction msgs arbitrary: ps) (simp_all add: send_greeted_def o_def)
  then show ?thesis by (simp add: deliver_def split: prod.split)
qed

lemma extended_from: "map peer_key ps = map peer_key ps0 \<Longrightarrow> extended dn ps ps' \<Longrightarrow> extended dn ps0 ps'"
  by (simp add: extended_def outbound_keys)

lemma dial_offered_extended: "extended dn (fst c) (fst (dial_offered dn ne c))"
  unfolding dial_offered_def
  by (cases c, cases "dial_offered dn ne c") (auto simp: dial_offered_def intro!: extended_grown dest: grown_dial)

lemma accept_ok: "service_ok dn s \<Longrightarrow> service_ok dn (accept_pass ne a s)"
proof -
  assume s: "service_ok dn s"
  obtain r sv where c: "acceptConnection ne (di_reachable (sc_dir s)) (length (sc_peers s)) a (sc_server s) = (r, sv)" by fastforce
  show ?thesis
  proof (cases r)
    case None
    then show ?thesis using s by (simp add: accept_pass_def c with_net_ok extended_same)
  next
    case (Some p)
    then have few: "length (sc_peers s) < MAX_PEERS" and p: "pr_inbound p"
      using c by (auto simp: acceptConnection_def shouldAcceptConnection_def new_peer_def Let_def
          split: if_splits prod.splits dest!: sendVersion_peer)
    have "Suc (length (filter (snd \<circ> peer_key) (sc_peers s))) \<le> MAX_PEERS"
      using few length_filter_le [of "snd \<circ> peer_key" "sc_peers s"] by linarith
    then have "limits dn (map peer_key (sc_peers s @ [p]))"
      using s few p by (simp add: service_ok_def limits_def) (simp add: peer_key_def)
    then show ?thesis using s Some by (simp add: accept_pass_def c service_ok_def with_net_def with_dir_def)
  qed
qed

lemma dial_pass_ok: "service_ok dn s \<Longrightarrow> service_ok dn (dial_pass dn ne choice s)"
  using connect_pass_extended [of dn ne choice "sc_peers s" "sc_server s"]
  by (cases "connect_pass dn ne choice (sc_peers s, sc_server s)") (simp add: dial_pass_def with_net_ok)

lemma peer_turn_ok:
  assumes "service_ok dn s"
  shows "service_ok dn (peer_turn dn ne i r s)"
proof (cases "i < length (sc_peers s)")
  case True
  obtain buf p sv where c: "processMessages ne r (sc_buffers s ! i, sc_peers s ! i, sc_server s) = (buf, p, sv)"
    by (metis surj_pair)
  have b: "next_frame (sc_buffers s ! i) = F_More" using assms True by (simp add: service_ok_def list_all_length)
  from read_leaves [OF c b] have k: "next_frame buf = F_More" "peer_key p = peer_key (sc_peers s ! i)" by simp_all
  then have keys: "map peer_key ((sc_peers s)[i := p]) = map peer_key (sc_peers s)"
    by (simp add: map_update list_update_same_conv True)
  let ?s = "s\<lparr>sc_buffers := (sc_buffers s)[i := buf]\<rparr>"
  have "service_ok dn ?s" using assms k(1) by (auto simp: service_ok_def list_all_iff dest!: set_update_subset_insert [THEN subsetD])
  moreover have "extended dn (sc_peers s) (fst (dial_offered dn ne (deliver ne ((sc_peers s)[i := p], sv))))"
    using extended_from [OF _ dial_offered_extended] deliver_keys [of ne "((sc_peers s)[i := p], sv)"] keys by simp
  ultimately show ?thesis using True by (simp add: peer_turn_def c with_net_ok)
qed (use assms in \<open>simp add: peer_turn_def\<close>)


text \<open>Connections that are dropped, with their buffers.\<close>

lemma dropped_ok:
  assumes "service_ok dn s" "map peer_key (map snd kept) = map peer_key (sc_peers s)" "length kept = length (sc_peers s)"
  shows "service_ok dn (s\<lparr>sc_dir := d\<lparr>di_peers := map snd (filter P kept)\<rparr>,
    sc_buffers := map fst (filter (\<lambda>(buf, k). P k) (zip (sc_buffers s) kept))\<rparr>)"
proof -
  have l: "length (sc_buffers s) = length kept" using assms by (simp add: service_ok_def)
  then have "length (filter (\<lambda>(buf, k). P k) (zip (sc_buffers s) kept)) = length (filter P kept)"
    by (induction rule: list_induct2) auto
  moreover have "set (map fst (filter (\<lambda>(buf, k). P k) (zip (sc_buffers s) kept))) \<subseteq> set (sc_buffers s)"
    by (auto dest: set_zip_leftD)
  moreover have "subseq (map peer_key (map snd (filter P kept))) (map peer_key (map snd kept))"
    by (intro subseq_map subseq_filter_left)
  then have "limits dn (map peer_key (map snd (filter P kept)))"
    using assms(1,2) limits_subseq by (simp add: service_ok_def del: map_map)
  ultimately show ?thesis using assms(1) by (auto simp: service_ok_def list_all_iff)
qed

lemma sweep_ok: "service_ok dn s \<Longrightarrow> service_ok dn (sweep s)"
proof -
  assume s: "service_ok dn s"
  let ?P = "\<lambda>p. \<not> (\<not> pr_open p \<or> shouldBan p)"
  let ?kept = "map (Pair True) (sc_peers s)"
  have z: "map fst (filter (\<lambda>(buf, k). ?P (snd k)) (zip (sc_buffers s) ?kept)) =
      map fst (filter (\<lambda>(buf, p). ?P p) (zip (sc_buffers s) (sc_peers s)))"
    by (simp add: zip_map2 filter_map o_def split_def)
  have f: "map snd (filter (\<lambda>k. ?P (snd k)) ?kept) = clear_peers (sc_peers s)"
    by (simp add: clear_peers_def filter_map o_def)
  have "map peer_key (map snd ?kept) = map peer_key (sc_peers s)" by (simp add: o_def)
  from dropped_ok [OF s this, where d = "sc_dir s" and P = "\<lambda>k. ?P (snd k)"] show ?thesis by (simp only: sweep_def z f length_map)
qed

lemma message_pass_ok: "service_ok dn s \<Longrightarrow> service_ok dn (message_pass dn turns s)"
proof -
  have "service_ok dn s \<Longrightarrow> service_ok dn (fold (\<lambda>i. peer_turn dn (fst (turns i)) i (snd (turns i))) is s)" for "is" s
    by (induction "is" arbitrary: s) (simp_all add: peer_turn_ok)
  then show "service_ok dn s \<Longrightarrow> service_ok dn (message_pass dn turns s)" by (simp add: message_pass_def sweep_ok)
qed

lemma ping_pass_ok: "service_ok dn s \<Longrightarrow> service_ok dn (ping_pass nes s)"
proof -
  have "map peer_key (map (\<lambda>i. ping_step (nes i) (ps ! i)) [0 ..< length ps]) = map peer_key ps" for ps
    by (rule nth_equalityI) simp_all
  then show "service_ok dn s \<Longrightarrow> service_ok dn (ping_pass nes s)" unfolding ping_pass_def by (rule same_keys_ok [rotated])
qed

lemma boot_start_ok: "service_ok dn s \<Longrightarrow> service_ok dn (boot_start dn ne bo s)"
proof -
  have "di_peers (heartbeat_start dn ne bo d) = di_peers (refreshBootstrapHints dn ne bo (probeAdvertisedP2P dn ne bo d))" for d
    by (simp add: heartbeat_start_def)
  then have "extended dn (sc_peers s) (di_peers (heartbeat_start dn ne bo (sc_dir s)))"
    using extended_grown [OF refresh_grown [of dn "probeAdvertisedP2P dn ne bo (sc_dir s)" ne bo]] by simp
  then show "service_ok dn s \<Longrightarrow> service_ok dn (boot_start dn ne bo s)" by (simp add: boot_start_def with_dir_ok)
qed

lemma boot_pass_ok: "service_ok dn s \<Longrightarrow> service_ok dn (boot_pass dn se bo due s)"
proof -
  assume s: "service_ok dn s"
  obtain a b c where due: "due = (a, b, c)" by (cases due)
  have "service_ok dn (with_dir (heartbeat_pass dn (se_net se) bo a b c (sc_dir s)) s)"
    by (rule with_dir_ok [OF s extended_grown [OF heartbeat_grown]])
  then show ?thesis by (simp add: boot_pass_def due Let_def service_ok_def)
qed

subsection \<open>The detection of attacks\<close>

abbreviation pool_keys :: "watch \<Rightarrow> (peer_addr \<times> bool) list" where
  "pool_keys w \<equiv> map (\<lambda>k. peer_key (snd k)) (wa_pool w)"

lemma broadcast_keys [simp]: "pool_keys (broadcastThreatAlert se alert w) = pool_keys w"
  by (auto simp: broadcastThreatAlert_def on_listed_def Let_def)

lemma defend_keys [simp]: "pool_keys (defend_all se alert w) = pool_keys w"
  by (auto simp: defend_all_def Let_def)

lemma raise_keys [simp]: "pool_keys (raise_alert se defend alert w) = pool_keys w"
  by (simp add: raise_alert_def Let_def)

lemma detection_keys: "pool_keys (detection_pass se w) = pool_keys w"
  by (simp add: detection_pass_def check_ddos_def check_sybil_def check_eclipse_def)

lemma threat_pass_ok: "service_ok dn s \<Longrightarrow> service_ok dn (threat_pass se conns s)"
proof -
  assume s: "service_ok dn s"
  define w0 where "w0 = \<lparr>wa_pool = map (Pair True) (sc_peers s), wa_server = sc_server s, wa_boot = sc_boot s,
    wa_conns = conns, wa_shown = sc_shown s\<rparr>"
  define w where "w = detection_pass se w0"
  have k: "map peer_key (map snd (wa_pool w)) = map peer_key (sc_peers s)"
    using detection_keys [of se w0] by (simp add: w_def w0_def o_def)
  then have l: "length (wa_pool w) = length (sc_peers s)" using map_eq_imp_length_eq [OF k] by simp
  have "service_ok dn (s\<lparr>sc_dir := (sc_dir s)\<lparr>di_server := wa_server w, di_peers := map snd (filter fst (wa_pool w))\<rparr>,
    sc_buffers := map fst (filter (\<lambda>(buf, k). fst k) (zip (sc_buffers s) (wa_pool w)))\<rparr>)"
    using dropped_ok [OF s k l, where d = "(sc_dir s)\<lparr>di_server := wa_server w\<rparr>" and P = fst] by simp
  then show ?thesis
    by (simp add: threat_pass_def w0_def [symmetric] w_def [symmetric] Let_def listed_def service_ok_def split_def)
qed


subsection \<open>Property\<close>

lemma start_ok: "server_start dn ne la s = Some (ok, s') \<Longrightarrow> service_ok dn s \<Longrightarrow> service_ok dn s'"
  by (auto simp: server_start_def service_ok_def Let_def split: if_splits prod.splits option.splits)

lemma stop_ok: "service_ok dn s \<Longrightarrow> service_ok dn (server_stop s)"
  by (auto simp: server_stop_def service_ok_def limits_def)

lemma relay_ok: "service_ok dn s \<Longrightarrow> service_ok dn (relay_pass ne nd msgs s)"
  by (auto simp: relay_pass_def deliver_keys intro!: with_net_ok extended_same)

lemma step_ok: "service_step dn s s' \<Longrightarrow> service_ok dn s \<Longrightarrow> service_ok dn s'"
  by (induction rule: service_step.induct)
    (simp_all add: start_ok stop_ok accept_ok dial_pass_ok message_pass_ok ping_pass_ok boot_start_ok boot_pass_ok threat_pass_ok relay_ok)

lemma reaches_ok: "service_reaches dn s \<Longrightarrow> service_ok dn s"
proof (induction rule: service_reaches.induct)
  case (sr_new sv)
  show ?case by (simp add: service_new_def service_ok_def limits_def)
next
  case (sr_step s s')
  then show ?case using step_ok by blast
qed

lemma partial_total:
  assumes "list_all (\<lambda>buf. next_frame buf = F_More) bufs"
  shows "length (concat bufs) \<le> length bufs * (4 + unat kMaxMessageBytes)"
  using assms
proof (induction bufs)
  case (Cons buf bufs)
  then show ?case using partial_frame [of buf] by simp
qed simp


text \<open>A server that is started with one address and dials it.\<close>

definition demo_target :: peer_addr where
  "demo_target = target_addr ''8.8.8.8'' 3141"

definition demo_service :: service where
  "demo_service = service_new (demo_server\<lparr>sv_addrman := \<lparr>am_list = [demo_target], am_banned = []\<rparr>\<rparr>)"

definition demo_launch :: launch where
  "demo_launch = \<lparr>la_id_env = Some ''node'', la_id_file = None, la_raw = [], la_clock = ''1'', la_listens = True\<rparr>"

lemma demo_started:
  "\<exists>s. server_start demo_dirnet demo_net demo_launch demo_service = Some (True, s) \<and> alive_service s \<and> sc_peers s = [] \<and>
     sv_addrman (sc_server s) = \<lparr>am_list = [demo_target], am_banned = []\<rparr>"
  by (auto simp: server_start_def demo_service_def service_new_def demo_launch_def demo_dirnet_def config_new_def note_best_def
      demo_server_def alive_service_def Let_def split: prod.splits)

lemma demo_dialled:
  assumes "sc_peers s = []" "sv_addrman (sc_server s) = \<lparr>am_list = [demo_target], am_banned = []\<rparr>"
  shows "\<exists>p. sc_peers (dial_pass demo_dirnet demo_net 0 s) = [p] \<and> \<not> pr_inbound p"
proof -
  have sel: "addr_select (sv_addrman (sc_server s)) now 0 = Some demo_target" for now
    by (simp add: assms(2) addr_select_def isBanned_def demo_target_def target_addr_def no_addr_def tbl_get_def)
  have self: "\<not> self_peer demo_dirnet demo_target" using demo_dials(4) by (simp add: demo_target_def)
  obtain p sv where v: "connectToPeer demo_net Dial_Connected demo_target (sc_server s) = (Some p, sv)" "\<not> pr_inbound p"
    by (cases "sendVersion demo_net (new_peer (ne_ticks demo_net) demo_target False, sc_server s)")
      (auto simp: connectToPeer_def new_peer_def dest: sendVersion_peer)
  have "dn_dial demo_dirnet a = Dial_Connected" for a by (simp add: demo_dirnet_def)
  then have "connect_pass demo_dirnet demo_net 0 (sc_peers s, sc_server s) = ([p], sv)"
    using v(1) self sel assms(1) by (simp add: connect_pass_def connect_to_def getOutboundCount_def MAX_OUTBOUND_CONNECTIONS_def)
  then show ?thesis using v(2) by (simp add: dial_pass_def with_net_def with_dir_def)
qed


end
