(* ===== verification/Spec2Isabelle.thy ===== *)
theory Spec2Isabelle
  imports Prelude Reason Stores Bytes Amount Retarget Emission Flags Sha256 PiHash
    Storage Storage_Disk Storage_Utxo Json Tx Tx_Canon Tx_Json
    Names Names_Book Names_Files Challenge Difficulty
    Spend Spend_Safe Mempool Mempool_Order Mempool_Send
    Block Submit Submit_Safe Coinbase_Safe Submit_Ledger
    Wire Wire_Laws Wire_Msg AddrMan Chain Chain_Tip Chain_Adopt Chain_Longest
    Template Template_Mine Queries Peer Sync Sync_Safe Frame Rpc
    Wallet Wallet_Cmd Wallet_Send Wallet_Safe Wallet_Flags Wallet_Coins
    Update_Text Update Update_Safe Update_Apply
    Config Http Ws_Client Wallet_Keys Wallet_Vault Wallet_Wire Wallet_Talk Wallet_View
    Dial Dial_Safe Directory Directory_Safe Sentinel Purse Purse_Safe Fronts
    Fingerprint Wallet_Text Data_Files Service Service_Safe
begin

text \<open>
  PiSecure: a verification development of the chain daemon \<open>pisecured\<close>, the wallet \<open>pswallet\<close> and the code
  they share (\<open>cpp/common\<close>, \<open>cpp/crypto\<close>, \<open>cpp/hw\<close>, \<open>cpp/util\<close>). Source paths below are relative to
  \<open>src/cpp\<close>; a file without a directory is one of \<open>pisecured/src\<close>.

  \<^bold>\<open>How the program is put together.\<close> The daemon (\<open>daemon.cpp\<close>) reads its configuration, opens the
  storage, restores the chain from the block files and starts the peer server and the JSON-RPC servers. A block
  arrives from a miner (\<open>submitblock\<close> over WebSocket or HTTP) or from a peer; either way \<open>rpc_submitblock\<close> in
  \<open>chain_rpc.cpp\<close> decides, over the storage (\<open>storage.cpp\<close>: block files, indexes, mempool table, coins), the
  name book, the flag book and the table of hardware challenges. Transactions take the same two ways into the
  mempool, from which templates for miners are made. Peers speak the binary protocol of \<open>p2p.cpp\<close>; a thread
  keeps the node in the bootstrap directory and dials the peers it lists. The wallet asks a daemon over a
  WebSocket for money format, coins and names, builds and signs a transaction, and hands it in. Both programs
  update themselves from a release page that lists the hashes of its files.

  \<^bold>\<open>Theories, in the order of the code they model.\<close> The state of a component is a record, each operation of
  the code is a function on it with the code's name, and a handler that changes state returns the new one. Errors
  are values: \<open>Inl\<close> of the reject reason (Reason), \<open>None\<close> for an exception, \<open>Out_Of_Bounds\<close> for a read past
  the end of a buffer. Integers have the width of the source and wrap as there.

  \<^item> Prelude: machine types and shared lemmas. Reason: reject reasons and their texts. Stores: the two table
    interfaces, as locales. Bytes: little-endian writers and hexadecimal text (\<open>util/endian.h\<close>), and the locales
    for prefix codes. Json: JSON values and their accessors.
  \<^item> Amount (\<open>common/amount.hpp\<close>), Retarget (\<open>retarget.hpp\<close>), Emission (the money rules of \<open>chain_rpc.hpp\<close>),
    Flags (\<open>flags.hpp\<close>), Sha256 (\<open>crypto/sha256.cpp\<close>), PiHash and Fingerprint (\<open>hw/pihash.cpp\<close>: the work, and what
    identifies the machine that did it).
  \<^item> Storage, with Storage_Disk and Storage_Utxo on what it keeps (\<open>storage.cpp\<close>).
  \<^item> \<open>chain_rpc.cpp\<close>: Tx, Tx_Canon, Tx_Json (transactions, their canonical bytes and their JSON), Names,
    Names_Book, Names_Files (shortnames), Challenge (hardware proofs), Difficulty, Spend, Spend_Safe (what a
    transaction must satisfy), Mempool, Mempool_Order, Mempool_Send, Block, Submit, Submit_Safe, Coinbase_Safe,
    Submit_Ledger (\<open>rpc_submitblock\<close>), Chain, Chain_Tip, Chain_Adopt, Chain_Longest (restore, replay, adoption),
    Template, Template_Mine (block templates), Queries (the read-only calls), Data_Files (how the files of names and
    of the mempool are replaced).
  \<^item> \<open>p2p.cpp\<close>: Wire, Wire_Laws, Wire_Msg (payloads), AddrMan (addresses and threat counters), Peer, Sync,
    Sync_Safe (messages), Frame (the message loop), Dial, Dial_Safe (whom the node dials), Directory,
    Directory_Safe (the bootstrap directory), Sentinel (the coordinated defense), Service,
    Service_Safe (the peer server as a whole: start, stop and the passes of its threads as a step relation).
  \<^item> Rpc (\<open>ws_server.cpp\<close>: messages, and the sessions they come in on), Http (\<open>rpc.cpp\<close>),
    Ws_Client (\<open>ws_client.cpp\<close>), Config (\<open>config.cpp\<close>), Purse, Purse_Safe (\<open>validator_purse.cpp\<close>), Fronts (the
    whole dispatch of both servers; \<open>daemon.cpp\<close>, \<open>main.cpp\<close>).
  \<^item> \<open>pswallet/src/main.cpp\<close>: Wallet, Wallet_Send, Wallet_Cmd (keys, coins, the commands that pay), Wallet_Coins,
    Wallet_Safe, Wallet_Flags, Wallet_Keys, Wallet_Vault (key files), Wallet_Wire, Wallet_Talk (the call of a daemon),
    Wallet_View (views, options and the dispatch), Wallet_Text (its own copies of the daemon's text functions, and
    that they agree).
  \<^item> \<open>common/release_update.cpp\<close>: Update_Text, Update, Update_Safe, Update_Apply.

  \<^bold>\<open>Interfaces.\<close> \<open>registry\<close> (Stores) is a table whose first entry for a key wins; flags and names are
  interpretations. \<open>store\<close> (Stores) is a table with put, get and delete; the storage's tables and the UTXO set
  are interpretations. \<open>prefix_code\<close> and its extensions \<open>codec\<close> and \<open>fixed_codec\<close> (Bytes, Wire_Laws) are
  writers whose output can be read back out of a longer text; the fields of transactions, the integers, addresses,
  inventories and headers of the wire are interpretations. \<open>hash_fn\<close> (Sha256) is a function on bytes together with
  the collisions it may have; \<open>framing\<close> (Frame) is a receive loop over any dispatch of messages.

  \<^bold>\<open>What is shown.\<close>

  \<^item> Money: amounts are parsed exactly or refused; the coinbase check accepts exactly the scheduled payments and
    bounds what is minted; escrow of flags is conserved; the balance check is exact while no sum wraps; only a
    signature of the owner moves coins of a long address.
  \<^item> Ledger: the coins after an accepted block are those of an abstract ledger; an accepted block extends the tip
    with enough work; a rejected block or transaction leaves everything as it was; the block files read back; a
    restart chooses a longest chain and replays it to its tip.
  \<^item> Bytes: canonical transactions, headers and Merkle roots commit to their content; transactions, name files and
    peer messages survive writing and reading; SHA-256 equals its specification.
  \<^item> Processes: the mempool order ends and puts parents first; templates can be mined; framed messages and
    WebSocket fragments are handled the same however they are cut; the two JSON-RPC fronts agree; the dial loop
    takes only acceptable addresses; the limits of the peer server hold in every state it can reach, however its
    threads take turns; WebSocket sessions do not change each other; a block is rewarded once, and the purse survives a restart.
  \<^item> The wallet: its payments are accepted by the daemon; its choice of coins is the best; encrypting a key file
    keeps the key; a call gives what the daemon answers.
  \<^item> Updates: an update that is applied is newer and verified, and is not applied twice.
  \<^item> Where the code does not do what it means to, a lemma shows the case: the sums that wrap, the compact block
    that takes the tip without work, the ban that waits for its own lock, the flag commands that are never accepted,
    the backup that is never restored, and others beside the model they are about.

  \<^bold>\<open>Bounds and fuel.\<close> Loops of the code are structural recursion or have a termination proof with a measure;
  there is no fuel, except the script of calls in \<open>sendRawData\<close> and of reads in the message and WebSocket loops,
  which end when the script does: theorems about them are over any script long enough to reach the end that is
  claimed. Widths, caps and limits (\<open>kMaxMessageBytes\<close>, \<open>kMaxBlockBytes\<close>, \<open>kMaxWsMessage\<close>, 125 peers, 8 outgoing
  connections, 100 rewards, 120 reported blocks, 24 difficulty bits) are those of the code, by its names.

  \<^bold>\<open>Taken from outside.\<close> Environment records hold what the code takes from the system or a library: clocks,
  random bytes, the outcome of socket and file operations, curl, tar, the terminal, OpenSSL's hashes, signatures and
  key derivation, nlohmann's parser and printer, libwebsockets. Where a theorem needs one of them to behave, this is
  a hypothesis of the theorem: that a JSON printer's text is parsed back, that a signature verifies under its key,
  that a digest has 32 bytes. Floating-point numbers are the texts they are printed as, a type parameter with its
  operations (Purse), or exact fractions where they are only compared (Sentinel).

  \<^bold>\<open>Not modelled.\<close> Threads and locks inside a handler or a pass (Service interleaves whole passes; a lock that is
  taken twice is an explicit outcome); opening, binding and accepting sockets, TLS and the service loop of
  libwebsockets; log output; the connection of the unused WebSocket client class; usage texts, \<open>sudo\<close> and
  restart commands of the wallet; the tests, build files and service units.
\<close>

end
